(* ===== verification/Prelude.thy ===== *)
theory Prelude
  imports Main
begin

text \<open>
  Shared vocabulary of the development.

  \<^item> Go's \<open>int64\<close>: type \<open>i64\<close> is \<open>int\<close> with the two's complement wrap-around written
    out in \<open>add64\<close>, \<open>sub64\<close> and \<open>neg64\<close>; \<open>in64\<close> says that a value fits.
  \<^item> Go's \<open>time.Time\<close> in UTC: type \<open>gotime\<close> counts nanoseconds since Go's zero time, so
    \<open>IsZero\<close> is equality with 0 and \<open>Truncate(time.Microsecond)\<close> rounds down to a
    multiple of 1000.
  \<^item> Go's \<open>strings.TrimSpace\<close> on UTF-8 byte strings, with every white space rune of Unicode.
  \<^item> SQL tables as lists of rows in insertion order, with the statements the repositories
    issue: \<open>find\<close> for \<open>Take\<close>, \<open>create_row\<close> for an \<open>INSERT\<close> under unique keys,
    \<open>create_or_ignore\<close> for \<open>ON CONFLICT DO NOTHING\<close>, \<open>update_rows\<close> for \<open>UPDATE ... WHERE\<close>
    and \<open>sum_rows\<close> for \<open>COALESCE(SUM(...), 0)\<close>.
  \<^item> Database transactions: \<open>run_tx\<close> commits the body's state on success and rolls back on
    error, under an environment that may make a statement fail or may lose the answer of a
    commit that happened.
  \<^item> Reachable states of a step relation and the induction that lifts a step invariant.
\<close>

named_theorems i64_simps "unfolding facts of the int64 range"
named_theorems row_simps "rewriting facts of the table statements"

section \<open>Machine integers\<close>

type_synonym i64 = int

definition max64 :: i64 where
  "max64 = 9223372036854775807"

definition min64 :: i64 where
  "min64 = - 9223372036854775808"

definition in64 :: "int \<Rightarrow> bool" where
  "in64 x \<longleftrightarrow> min64 \<le> x \<and> x \<le> max64"

definition wrap64 :: "int \<Rightarrow> i64" where
  "wrap64 x = (x + 9223372036854775808) mod 18446744073709551616 - 9223372036854775808"

definition add64 :: "i64 \<Rightarrow> i64 \<Rightarrow> i64" where
  "add64 a b = wrap64 (a + b)"

definition sub64 :: "i64 \<Rightarrow> i64 \<Rightarrow> i64" where
  "sub64 a b = wrap64 (a - b)"

definition neg64 :: "i64 \<Rightarrow> i64" where
  "neg64 a = wrap64 (- a)"

definition mul64 :: "i64 \<Rightarrow> i64 \<Rightarrow> i64" where
  "mul64 a b = wrap64 (a * b)"

text \<open>Go's integer division and remainder truncate towards zero.\<close>

definition quo64 :: "i64 \<Rightarrow> i64 \<Rightarrow> i64" where
  "quo64 a b = wrap64 (sgn a * sgn b * (\<bar>a\<bar> div \<bar>b\<bar>))"

definition rem64 :: "i64 \<Rightarrow> i64 \<Rightarrow> i64" where
  "rem64 a b = wrap64 (sgn a * (\<bar>a\<bar> mod \<bar>b\<bar>))"

lemmas in64_unfold [i64_simps] = in64_def max64_def min64_def

lemma wrap64_in64 [simp, intro]: "in64 (wrap64 x)"
proof -
  have "0 \<le> (x + 9223372036854775808) mod 18446744073709551616"
    and "(x + 9223372036854775808) mod 18446744073709551616 < 18446744073709551616"
    by (rule pos_mod_sign, simp) (rule pos_mod_bound, simp)
  then show ?thesis by (simp add: wrap64_def in64_unfold)
qed

lemma wrap64_id [simp]: "in64 x \<Longrightarrow> wrap64 x = x"
  by (simp add: wrap64_def in64_unfold)

lemma add64_eq: "in64 (a + b) \<Longrightarrow> add64 a b = a + b"
  by (simp add: add64_def)

lemma sub64_eq: "in64 (a - b) \<Longrightarrow> sub64 a b = a - b"
  by (simp add: sub64_def)

lemma neg64_eq: "in64 (- a) \<Longrightarrow> neg64 a = - a"
  by (simp add: neg64_def)

lemma arith64_in64 [simp, intro]:
  "in64 (add64 a b)" "in64 (sub64 a b)" "in64 (neg64 a)" "in64 (mul64 a b)"
  by (simp_all add: add64_def sub64_def neg64_def mul64_def)

lemma in64_const [simp]: "in64 0" "in64 1" "in64 max64" "in64 min64"
  by (simp_all add: in64_unfold)

text \<open>
  The overflow guard of the repositories: \<open>a > math.MaxInt64 - b\<close> is false exactly when the
  sum of two non-negative values fits.
\<close>

lemma max64_guard: "0 \<le> b \<Longrightarrow> in64 b \<Longrightarrow> \<not> sub64 max64 b < a \<longleftrightarrow> a + b \<le> max64"
  by (auto simp: sub64_def wrap64_def in64_unfold)

lemma in64_between: "0 \<le> x \<Longrightarrow> x \<le> y \<Longrightarrow> in64 y \<Longrightarrow> in64 x"
  by (simp add: in64_unfold)

lemma in64_nonneg: "0 \<le> x \<Longrightarrow> in64 x \<longleftrightarrow> x \<le> max64"
  by (simp add: in64_unfold)

lemma sub64_nonneg: "0 \<le> a \<Longrightarrow> 0 \<le> b \<Longrightarrow> in64 a \<Longrightarrow> in64 b \<Longrightarrow> sub64 a b = a - b"
  by (rule sub64_eq) (simp add: in64_unfold)

lemma neg64_nonneg: "0 \<le> a \<Longrightarrow> in64 a \<Longrightarrow> neg64 a = - a"
  by (rule neg64_eq) (simp add: in64_unfold)

lemma add64_guarded: "0 \<le> a \<Longrightarrow> 0 \<le> b \<Longrightarrow> a + b \<le> max64 \<Longrightarrow> add64 a b = a + b"
  by (rule add64_eq) (simp add: in64_unfold)

section \<open>Time\<close>

type_synonym gotime = int

definition IsZero :: "gotime \<Rightarrow> bool" where
  "IsZero t \<longleftrightarrow> t = 0"

definition truncate_us :: "gotime \<Rightarrow> gotime" where
  "truncate_us t = t - t mod 1000"

lemma truncate_us_idem [simp]: "truncate_us (truncate_us t) = truncate_us t"
  by (simp add: truncate_us_def)

lemma truncate_us_le: "truncate_us t \<le> t"
  by (simp add: truncate_us_def)

lemma truncate_us_shift: "truncate_us (truncate_us t + 1000) = truncate_us t + 1000"
proof -
  have "(truncate_us t + 1000) mod 1000 = 0"
    by (simp add: truncate_us_def mod_diff_right_eq flip: mod_add_right_eq)
  then show ?thesis by (simp add: truncate_us_def)
qed

section \<open>Byte strings\<close>

text \<open>The UTF-8 encodings of the runes for which Go's \<open>unicode.IsSpace\<close> holds.\<close>

definition space_runes :: "string list" where
  "space_runes =
     [[CHR 0x09], [CHR 0x0A], [CHR 0x0B], [CHR 0x0C], [CHR 0x0D], [CHR 0x20],
      [CHR 0xC2, CHR 0x85], [CHR 0xC2, CHR 0xA0], [CHR 0xE1, CHR 0x9A, CHR 0x80],
      [CHR 0xE2, CHR 0x80, CHR 0x80], [CHR 0xE2, CHR 0x80, CHR 0x81],
      [CHR 0xE2, CHR 0x80, CHR 0x82], [CHR 0xE2, CHR 0x80, CHR 0x83],
      [CHR 0xE2, CHR 0x80, CHR 0x84], [CHR 0xE2, CHR 0x80, CHR 0x85],
      [CHR 0xE2, CHR 0x80, CHR 0x86], [CHR 0xE2, CHR 0x80, CHR 0x87],
      [CHR 0xE2, CHR 0x80, CHR 0x88], [CHR 0xE2, CHR 0x80, CHR 0x89],
      [CHR 0xE2, CHR 0x80, CHR 0x8A], [CHR 0xE2, CHR 0x80, CHR 0xA8],
      [CHR 0xE2, CHR 0x80, CHR 0xA9], [CHR 0xE2, CHR 0x80, CHR 0xAF],
      [CHR 0xE2, CHR 0x81, CHR 0x9F], [CHR 0xE3, CHR 0x80, CHR 0x80]]"

definition starts_with :: "string \<Rightarrow> string \<Rightarrow> bool" where
  "starts_with p s \<longleftrightarrow> take (length p) s = p"

text \<open>
  Drop leading occurrences of the given non-empty words; the fuel is the length of the
  string, which is enough because every round drops at least one byte.
\<close>

fun trim_words :: "nat \<Rightarrow> string list \<Rightarrow> string \<Rightarrow> string" where
  "trim_words 0 ws s = s"
| "trim_words (Suc n) ws s =
     (case find (\<lambda>w. starts_with w s) ws of
        None \<Rightarrow> s
      | Some w \<Rightarrow> trim_words n ws (drop (length w) s))"

definition trim_left :: "string \<Rightarrow> string" where
  "trim_left s = trim_words (length s) space_runes s"

definition trim_right :: "string \<Rightarrow> string" where
  "trim_right s = rev (trim_words (length s) (map rev space_runes) (rev s))"

definition TrimSpace :: "string \<Rightarrow> string" where
  "TrimSpace s = trim_right (trim_left s)"

lemma TrimSpace_Nil [simp]: "TrimSpace [] = []"
  by (simp add: TrimSpace_def trim_left_def trim_right_def)

lemma TrimSpace_nonempty: "TrimSpace s \<noteq> [] \<Longrightarrow> s \<noteq> []"
  by auto

section \<open>Tables\<close>

text \<open>\<open>INSERT\<close> of one row; \<open>clash r x\<close> says that \<open>r\<close> violates a unique key against row \<open>x\<close>.\<close>

definition create_row :: "('r \<Rightarrow> 'r \<Rightarrow> bool) \<Rightarrow> 'r \<Rightarrow> 'r list \<Rightarrow> 'r list option" where
  "create_row clash r t = (if list_ex (clash r) t then None else Some (t @ [r]))"

definition create_or_ignore :: "('r \<Rightarrow> 'r \<Rightarrow> bool) \<Rightarrow> 'r \<Rightarrow> 'r list \<Rightarrow> 'r list" where
  "create_or_ignore clash r t = (if list_ex (clash r) t then t else t @ [r])"

definition update_rows :: "('r \<Rightarrow> bool) \<Rightarrow> ('r \<Rightarrow> 'r) \<Rightarrow> 'r list \<Rightarrow> 'r list" where
  "update_rows P f t = map (\<lambda>r. if P r then f r else r) t"

definition sum_rows :: "('r \<Rightarrow> bool) \<Rightarrow> ('r \<Rightarrow> int) \<Rightarrow> 'r list \<Rightarrow> int" where
  "sum_rows P f t = sum_list (map f (filter P t))"

text \<open>Reading a sum into an \<open>int64\<close>: the scan fails when the value does not fit.\<close>

definition scan_sum :: "('r \<Rightarrow> bool) \<Rightarrow> ('r \<Rightarrow> int) \<Rightarrow> 'r list \<Rightarrow> i64 option" where
  "scan_sum P f t = (if in64 (sum_rows P f t) then Some (sum_rows P f t) else None)"

lemma scan_sum_Some [simp]: "scan_sum P f t = Some n \<longleftrightarrow> n = sum_rows P f t \<and> in64 n"
  by (auto simp: scan_sum_def)

lemma sum_rows_Nil [simp]: "sum_rows P f [] = 0"
  by (simp add: sum_rows_def)

lemma sum_rows_Cons [simp]:
  "sum_rows P f (r # t) = (if P r then f r else 0) + sum_rows P f t"
  by (simp add: sum_rows_def)

lemma sum_rows_append [simp]: "sum_rows P f (t @ u) = sum_rows P f t + sum_rows P f u"
  by (simp add: sum_rows_def)

lemma sum_rows_nonneg: "(\<And>r. r \<in> set t \<Longrightarrow> P r \<Longrightarrow> 0 \<le> f r) \<Longrightarrow> 0 \<le> sum_rows P f t"
  by (induction t) (auto intro: add_nonneg_nonneg)

lemma sum_rows_cong:
  "(\<And>r. r \<in> set t \<Longrightarrow> P r = Q r) \<Longrightarrow> (\<And>r. r \<in> set t \<Longrightarrow> P r \<Longrightarrow> f r = g r) \<Longrightarrow>
   sum_rows P f t = sum_rows Q g t"
  by (induction t) auto

lemma sum_rows_member_le:
  "r \<in> set t \<Longrightarrow> P r \<Longrightarrow> (\<And>x. x \<in> set t \<Longrightarrow> P x \<Longrightarrow> 0 \<le> f x) \<Longrightarrow> f r \<le> sum_rows P f t"
proof (induction t)
  case Nil
  then show ?case by simp
next
  case (Cons a t)
  have rest: "0 \<le> sum_rows P f t"
    using Cons.prems(3) by (intro sum_rows_nonneg) simp
  show ?case
  proof (cases "r = a")
    case True
    with rest Cons.prems(2) show ?thesis by simp
  next
    case False
    with Cons have "f r \<le> sum_rows P f t" by simp
    moreover have "0 \<le> (if P a then f a else 0)" using Cons.prems(3) by simp
    ultimately show ?thesis by simp
  qed
qed

lemma create_row_Some [row_simps]:
  "create_row clash r t = Some t' \<longleftrightarrow> (\<forall>x\<in>set t. \<not> clash r x) \<and> t' = t @ [r]"
  by (auto simp: create_row_def list_ex_iff)

lemma set_update_rows: "x \<in> set (update_rows P f t) \<longleftrightarrow>
    (\<exists>y\<in>set t. x = (if P y then f y else y))"
  by (auto simp: update_rows_def)

lemma update_rows_append [simp]:
  "update_rows P f (t @ u) = update_rows P f t @ update_rows P f u"
  by (simp add: update_rows_def)

lemma map_update_rows_key: "(\<And>r. P r \<Longrightarrow> k (f r) = k r) \<Longrightarrow> map k (update_rows P f t) = map k t"
  by (auto simp: update_rows_def)

text \<open>
  Replacing the one row with a given key changes a sum by the difference of that row's
  contributions.
\<close>

lemma sum_rows_replace:
  assumes "distinct (map key t)" "r \<in> set t" "key r = k"
  shows "sum_rows P f (update_rows (\<lambda>x. key x = k) (\<lambda>_. r') t) =
    sum_rows P f t - (if P r then f r else 0) + (if P r' then f r' else 0)"
  using assms
proof (induction t)
  case Nil
  then show ?case by simp
next
  case (Cons a t)
  show ?case
  proof (cases "a = r")
    case True
    with Cons.prems have "\<forall>x\<in>set t. key x \<noteq> k" by (metis distinct.simps(2) image_eqI list.simps(9) list.set_map)
    then have "update_rows (\<lambda>x. key x = k) (\<lambda>_. r') t = t"
      by (auto simp: update_rows_def intro!: map_idI)
    with True Cons.prems show ?thesis
      by (simp add: update_rows_def)
  next
    case False
    with Cons.prems have "r \<in> set t" "key a \<noteq> k" by auto
    with Cons False show ?thesis
      by (simp add: update_rows_def)
  qed
qed

lemma find_SomeD: "find P t = Some r \<Longrightarrow> r \<in> set t \<and> P r"
  by (auto simp: find_Some_iff)

lemma find_NoneD: "find P t = None \<Longrightarrow> r \<in> set t \<Longrightarrow> \<not> P r"
  by (auto simp: find_None_iff)

lemma find_append: "find P (t @ u) = (case find P t of None \<Rightarrow> find P u | Some r \<Rightarrow> Some r)"
  by (induction t) auto

lemma find_unique:
  assumes "distinct (map key t)" "r \<in> set t" "P r" "\<And>x. x \<in> set t \<Longrightarrow> P x \<Longrightarrow> key x = key r"
  shows "find P t = Some r"
proof (cases "find P t")
  case None
  with assms show ?thesis by (auto simp: find_None_iff)
next
  case (Some x)
  then have "x \<in> set t" "P x" by (auto dest: find_SomeD)
  with assms(4) have "key x = key r" by blast
  with assms(1,2) \<open>x \<in> set t\<close> have "x = r"
    by (meson distinct_map inj_onD)
  with Some show ?thesis by simp
qed

text \<open>
  Every row of a table is still there, perhaps changed as \<open>rel\<close> allows; new rows may have come.
\<close>

definition rows_kept :: "('r \<Rightarrow> 'r \<Rightarrow> bool) \<Rightarrow> 'r list \<Rightarrow> 'r list \<Rightarrow> bool" where
  "rows_kept rel t t' \<longleftrightarrow> (\<forall>r\<in>set t. \<exists>r'\<in>set t'. rel r r')"

lemma rows_kept_append: "(\<And>r. rel r r) \<Longrightarrow> rows_kept rel t (t @ u)"
  by (auto simp: rows_kept_def)

lemma rows_kept_refl: "(\<And>r. rel r r) \<Longrightarrow> rows_kept rel t t"
  by (auto simp: rows_kept_def)

lemma rows_kept_trans:
  assumes "rows_kept rel t u" "rows_kept rel u v" "\<And>a b c. rel a b \<Longrightarrow> rel b c \<Longrightarrow> rel a c"
  shows "rows_kept rel t v"
  using assms unfolding rows_kept_def by meson

lemma rows_kept_update:
  assumes "\<And>r. rel r r" "\<And>r. r \<in> set t \<Longrightarrow> P r \<Longrightarrow> rel r (f r)"
  shows "rows_kept rel t (update_rows P f t)"
  unfolding rows_kept_def
proof
  fix r
  assume "r \<in> set t"
  then have "(if P r then f r else r) \<in> set (update_rows P f t)" "rel r (if P r then f r else r)"
    using assms by (auto simp: set_update_rows)
  then show "\<exists>r'\<in>set (update_rows P f t). rel r r'" by blast
qed

text \<open>
  A column of encoded bytes: empty, not decodable, or the encoding of a value. Encoding and
  decoding a stored value gives the value back.
\<close>

datatype 'a blob = NoBytes | BadBytes | Bytes 'a

fun decode :: "'a blob \<Rightarrow> 'a option" where
  "decode (Bytes a) = Some a"
| "decode _ = None"

lemma decode_Some [simp]: "decode b = Some a \<longleftrightarrow> b = Bytes a"
  by (cases b) auto

section \<open>Transactions\<close>

text \<open>
  What the environment does to one call of a repository method. \<open>NilHandle\<close>: the receiver
  or its database handle is nil. \<open>StmtFault e\<close>: a statement fails and the method reports
  \<open>e\<close>; the transaction rolls back. \<open>CommitLost e\<close>: the transaction commits but the caller
  only sees the error \<open>e\<close>, the case that makes callers repeat a command.
\<close>

datatype 'e tx_fault = NoFault | NilHandle | StmtFault 'e | CommitLost 'e

definition run_tx ::
  "'e tx_fault \<Rightarrow> ('db \<Rightarrow> 'e + 'a \<times> 'db) \<Rightarrow> 'db \<Rightarrow> 'db \<times> ('e + 'a)" where
  "run_tx flt body db =
     (case flt of
        StmtFault e \<Rightarrow> (db, Inl e)
      | CommitLost e \<Rightarrow>
          (case body db of Inl e' \<Rightarrow> (db, Inl e') | Inr (a, db') \<Rightarrow> (db', Inl e))
      | _ \<Rightarrow> (case body db of Inl e' \<Rightarrow> (db, Inl e') | Inr (a, db') \<Rightarrow> (db', Inr a)))"

lemma run_tx_cases:
  obtains (rollback) e where "run_tx flt body db = (db, Inl e)"
  | (commit) a db' where "body db = Inr (a, db')" "fst (run_tx flt body db) = db'"
      "snd (run_tx flt body db) = Inr a \<or> (\<exists>e. flt = CommitLost e \<and> snd (run_tx flt body db) = Inl e)"
  by (cases flt; cases "body db") (auto simp: run_tx_def)

lemma run_tx_state:
  "fst (run_tx flt body db) = db \<or> (\<exists>a. body db = Inr (a, fst (run_tx flt body db)))"
  by (cases rule: run_tx_cases [of flt body db]) auto

lemma run_tx_Inr:
  "snd (run_tx flt body db) = Inr a \<longleftrightarrow>
     (flt = NoFault \<or> flt = NilHandle) \<and> (\<exists>db'. body db = Inr (a, db'))"
  by (cases flt; cases "body db") (auto simp: run_tx_def)

lemma run_tx_NoFault:
  "run_tx NoFault body db =
     (case body db of Inl e \<Rightarrow> (db, Inl e) | Inr (a, db') \<Rightarrow> (db', Inr a))"
  by (simp add: run_tx_def)

text \<open>Statements outside a transaction only read, so a fault only changes the answer.\<close>

definition run_read :: "'e tx_fault \<Rightarrow> ('e + 'a) \<Rightarrow> 'e + 'a" where
  "run_read flt answer = (case flt of StmtFault e \<Rightarrow> Inl e | CommitLost e \<Rightarrow> Inl e | _ \<Rightarrow> answer)"

section \<open>Reachable states\<close>

inductive reachable :: "('s \<Rightarrow> 's \<Rightarrow> bool) \<Rightarrow> 's \<Rightarrow> 's \<Rightarrow> bool" for step s0 where
  reach_refl: "reachable step s0 s0"
| reach_step: "reachable step s0 s \<Longrightarrow> step s s' \<Longrightarrow> reachable step s0 s'"

lemma reachable_invariant:
  assumes "reachable step s0 s" "I s0" "\<And>s s'. I s \<Longrightarrow> step s s' \<Longrightarrow> I s'"
  shows "I s"
  using assms by (induction rule: reachable.induct) auto

lemma reachable_trans:
  assumes "reachable step s1 s2" "reachable step s0 s1"
  shows "reachable step s0 s2"
  using assms by (induction rule: reachable.induct) (auto intro: reach_step)

end
