(* ===== verification/Money_Types.thy ===== *)
theory Money_Types
  imports Prelude
begin

text \<open>
  The data of the money owner (\<open>internal/ledger/money/types.go\<close> and \<open>wallet.go\<close>):
  settlements, payout methods, the organization wallet and its ledger entries, with the
  \<open>Validate\<close> method of each struct.

  A struct is a record whose fields carry the source's names behind a short prefix. A string
  enumeration is a datatype with the source's values and, where a value can come from outside,
  a last constructor for any other string. \<open>Validate\<close> methods only ever return \<open>ErrInvalid\<close>,
  so they are predicates: true when the method returns nil.
\<close>

section \<open>Errors\<close>

text \<open>
  The sentinel errors of the package, and the two raw errors of the database layer that some
  methods hand through: no matching row, and a violated unique key.
\<close>

datatype merr =
    ErrInvalid | ErrConflict | ErrNotFound | ErrUnavailable | ErrUnsupportedMutation
  | ErrWalletInsufficientBalance | ErrWalletReservationConflict
  | ErrWalletSettlementConflict | ErrWalletReserveDecisionNotFound
  | ErrRecordNotFound | ErrDuplicatedKey

type_synonym mfault = "merr tx_fault"

section \<open>Settlements\<close>

datatype PaymentStatus = PaymentSettled | OtherPaymentStatus string

definition PaymentPurposeWalletTopUp :: string where
  "PaymentPurposeWalletTopUp = ''WALLET_TOP_UP''"
definition PaymentPurposeServicePurchase :: string where
  "PaymentPurposeServicePurchase = ''SERVICE_PURCHASE''"
definition PayerOrganizationServiceBuyer :: string where
  "PayerOrganizationServiceBuyer = ''ORGANIZATION_SERVICE_BUYER''"
definition CommissionNonCommissionable :: string where
  "CommissionNonCommissionable = ''NON_COMMISSIONABLE''"
definition PayerUnattributedExternal :: string where
  "PayerUnattributedExternal = ''UNATTRIBUTED_EXTERNAL''"
definition WalletCurrencyCNY :: string where
  "WalletCurrencyCNY = ''CNY''"

lemma payment_purposes_distinct [simp]:
  "PaymentPurposeWalletTopUp \<noteq> PaymentPurposeServicePurchase"
  "PaymentPurposeServicePurchase \<noteq> PaymentPurposeWalletTopUp"
  "PaymentPurposeWalletTopUp \<noteq> []" "PaymentPurposeServicePurchase \<noteq> []"
  by (simp_all add: PaymentPurposeWalletTopUp_def PaymentPurposeServicePurchase_def)

record PaymentSettlement =
  ps_PaymentID :: string
  ps_PaymentPurpose :: string
  ps_CommissionTreatment :: string
  ps_PayerBinding :: string
  ps_PayerUserID :: string
  ps_Currency :: string
  ps_GrossAmountMinor :: i64
  ps_DiscountAmountMinor :: i64
  ps_CommissionableAmountMinor :: i64
  ps_Status :: PaymentStatus
  ps_SettledAt :: gotime
  ps_ProviderReference :: string
  ps_Version :: i64

record RefundSettlement =
  rs_RefundID :: string
  rs_PaymentID :: string
  rs_AmountMinor :: i64
  rs_OccurredAt :: gotime
  rs_ProviderReference :: string

record ChargebackSettlement =
  cs_ChargebackID :: string
  cs_PaymentID :: string
  cs_AmountMinor :: i64
  cs_OccurredAt :: gotime
  cs_ProviderReference :: string

definition NormalizeTimestamp :: "gotime \<Rightarrow> gotime" where
  "NormalizeTimestamp t = truncate_us t"

definition Validate_PaymentSettlement :: "PaymentSettlement \<Rightarrow> bool" where
  "Validate_PaymentSettlement p \<longleftrightarrow>
     \<not> (TrimSpace (ps_PaymentID p) = [] \<or> TrimSpace (ps_Currency p) = []
        \<or> ps_Status p \<noteq> PaymentSettled \<or> IsZero (ps_SettledAt p)
        \<or> ps_GrossAmountMinor p \<le> 0 \<or> ps_DiscountAmountMinor p < 0
        \<or> ps_DiscountAmountMinor p > ps_GrossAmountMinor p
        \<or> ps_CommissionableAmountMinor p >
            sub64 (ps_GrossAmountMinor p) (ps_DiscountAmountMinor p)
        \<or> TrimSpace (ps_ProviderReference p) = [] \<or> ps_Version p < 1)
     \<and> (if ps_PaymentPurpose p = PaymentPurposeWalletTopUp then
          \<not> (ps_CommissionTreatment p \<noteq> CommissionNonCommissionable
             \<or> ps_PayerBinding p \<noteq> PayerUnattributedExternal
             \<or> ps_PayerUserID p \<noteq> [] \<or> ps_CommissionableAmountMinor p \<noteq> 0
             \<or> ps_DiscountAmountMinor p \<noteq> 0 \<or> ps_Currency p \<noteq> WalletCurrencyCNY)
        else if ps_PaymentPurpose p = PaymentPurposeServicePurchase then
          \<not> (ps_CommissionTreatment p \<noteq> CommissionNonCommissionable
             \<or> ps_PayerBinding p \<noteq> PayerOrganizationServiceBuyer
             \<or> ps_PayerUserID p \<noteq> [] \<or> ps_CommissionableAmountMinor p \<noteq> 0
             \<or> ps_DiscountAmountMinor p \<noteq> 0 \<or> ps_Currency p \<noteq> WalletCurrencyCNY)
        else
          \<not> (ps_PaymentPurpose p \<noteq> [] \<or> ps_CommissionTreatment p \<noteq> []
             \<or> ps_PayerBinding p \<noteq> [] \<or> TrimSpace (ps_PayerUserID p) = []
             \<or> ps_CommissionableAmountMinor p \<le> 0))"

definition Validate_RefundSettlement :: "RefundSettlement \<Rightarrow> bool" where
  "Validate_RefundSettlement r \<longleftrightarrow>
     \<not> (TrimSpace (rs_RefundID r) = [] \<or> TrimSpace (rs_PaymentID r) = []
        \<or> rs_AmountMinor r \<le> 0 \<or> IsZero (rs_OccurredAt r)
        \<or> TrimSpace (rs_ProviderReference r) = [])"

definition Validate_ChargebackSettlement :: "ChargebackSettlement \<Rightarrow> bool" where
  "Validate_ChargebackSettlement c \<longleftrightarrow>
     \<not> (TrimSpace (cs_ChargebackID c) = [] \<or> TrimSpace (cs_PaymentID c) = []
        \<or> cs_AmountMinor c \<le> 0 \<or> IsZero (cs_OccurredAt c)
        \<or> TrimSpace (cs_ProviderReference c) = [])"

section \<open>Payout methods\<close>

datatype PayoutMethodType = PayoutAlipay | PayoutBankTransfer | OtherPayoutType string
datatype PayoutMethodStatus = PayoutMethodActive | PayoutMethodDisabled | OtherPayoutStatus string

record PayoutMethod =
  pm_MethodID :: string
  pm_SubjectUserID :: string
  pm_Type :: PayoutMethodType
  pm_DisplayName :: string
  pm_MaskedDestination :: string
  pm_SecureReference :: string
  pm_EncryptionKeyID :: string
  pm_Status :: PayoutMethodStatus
  pm_CreatedAt :: gotime
  pm_UpdatedAt :: gotime
  pm_Version :: i64

record PayoutMethodSummary =
  pu_MethodID :: string
  pu_SubjectUserID :: string
  pu_Type :: PayoutMethodType
  pu_DisplayName :: string
  pu_MaskedDestination :: string
  pu_Status :: PayoutMethodStatus
  pu_Version :: i64

definition Validate_PayoutMethod :: "PayoutMethod \<Rightarrow> bool" where
  "Validate_PayoutMethod p \<longleftrightarrow>
     \<not> (TrimSpace (pm_MethodID p) = [] \<or> TrimSpace (pm_SubjectUserID p) = []
        \<or> (pm_Type p \<noteq> PayoutAlipay \<and> pm_Type p \<noteq> PayoutBankTransfer)
        \<or> TrimSpace (pm_DisplayName p) = [] \<or> TrimSpace (pm_MaskedDestination p) = []
        \<or> length (pm_SecureReference p) = 0 \<or> TrimSpace (pm_EncryptionKeyID p) = []
        \<or> (pm_Status p \<noteq> PayoutMethodActive \<and> pm_Status p \<noteq> PayoutMethodDisabled)
        \<or> pm_Version p < 1)"

section \<open>The organization wallet\<close>

definition MaxOrganizationWalletEntryPageSize :: int where
  "MaxOrganizationWalletEntryPageSize = 50"

datatype WalletReservationState =
  WalletReservationReserved | WalletReservationCommitted | WalletReservationReleased

datatype WalletEntryKind =
    WalletEntryTopUpCredit | WalletEntryPurchaseReserve | WalletEntryPurchaseCommit
  | WalletEntryPurchaseRelease | WalletEntryRefundReversal | WalletEntryChargebackReversal
  | WalletEntryDebtRepayment | WalletEntryRefundReserve | WalletEntryRefundConfirm
  | WalletEntryRefundRelease | OtherWalletEntryKind string

record OrganizationWalletSnapshot =
  ws_OrganizationID :: string
  ws_Currency :: string
  ws_AvailableMinor :: i64
  ws_ReservedMinor :: i64
  ws_DebtMinor :: i64
  ws_LifetimeTopUpMinor :: i64
  ws_LifetimeSpendMinor :: i64
  ws_Version :: i64
  ws_UpdatedAt :: gotime

definition Validate_OrganizationWalletSnapshot :: "OrganizationWalletSnapshot \<Rightarrow> bool" where
  "Validate_OrganizationWalletSnapshot s \<longleftrightarrow>
     \<not> (TrimSpace (ws_OrganizationID s) = [] \<or> ws_Currency s \<noteq> WalletCurrencyCNY
        \<or> ws_AvailableMinor s < 0 \<or> ws_ReservedMinor s < 0 \<or> ws_DebtMinor s < 0
        \<or> (ws_DebtMinor s > 0 \<and> ws_AvailableMinor s > 0)
        \<or> ws_LifetimeTopUpMinor s < 0 \<or> ws_LifetimeSpendMinor s < 0
        \<or> ws_Version s < 1 \<or> IsZero (ws_UpdatedAt s))"

record WalletEntry =
  en_EntryID :: string
  en_OrganizationID :: string
  en_Currency :: string
  en_Kind :: WalletEntryKind
  en_AvailableDelta :: i64
  en_ReservedDelta :: i64
  en_DebtDelta :: i64
  en_AvailableAfter :: i64
  en_ReservedAfter :: i64
  en_DebtAfter :: i64
  en_CommercialOrderID :: string
  en_PaymentID :: string
  en_SourceIdentity :: string
  en_OccurredAt :: gotime

definition isCanonicalWalletSourceIdentity :: "string \<Rightarrow> bool" where
  "isCanonicalWalletSourceIdentity v \<longleftrightarrow> v \<noteq> [] \<and> TrimSpace v = v"

definition isCanonicalWalletIdentifier :: "string \<Rightarrow> bool" where
  "isCanonicalWalletIdentifier v \<longleftrightarrow> v \<noteq> [] \<and> length v \<le> 128 \<and> TrimSpace v = v"

text \<open>The second result of \<open>walletEntryPriorBalance\<close>, false for \<open>None\<close>.\<close>

definition walletEntryPriorBalance :: "i64 \<Rightarrow> i64 \<Rightarrow> i64 option" where
  "walletEntryPriorBalance after delta =
     (if after < 0 then None
      else if delta > 0 then (if after < delta then None else Some (sub64 after delta))
      else if delta < 0 then
        (if after > add64 max64 delta then None else Some (sub64 after delta))
      else Some after)"

definition hasValidWalletEntryPriorBalances :: "WalletEntry \<Rightarrow> bool" where
  "hasValidWalletEntryPriorBalances e =
     (case (walletEntryPriorBalance (en_AvailableAfter e) (en_AvailableDelta e),
            walletEntryPriorBalance (en_ReservedAfter e) (en_ReservedDelta e),
            walletEntryPriorBalance (en_DebtAfter e) (en_DebtDelta e)) of
        (Some availableBefore, Some _, Some debtBefore) \<Rightarrow>
          \<not> (debtBefore > 0 \<and> availableBefore > 0)
      | _ \<Rightarrow> False)"

definition Validate_WalletEntry :: "WalletEntry \<Rightarrow> bool" where
  "Validate_WalletEntry e \<longleftrightarrow>
     \<not> (TrimSpace (en_EntryID e) = [] \<or> TrimSpace (en_OrganizationID e) = []
        \<or> en_Currency e \<noteq> WalletCurrencyCNY
        \<or> en_AvailableAfter e < 0 \<or> en_ReservedAfter e < 0 \<or> en_DebtAfter e < 0
        \<or> (en_DebtAfter e > 0 \<and> en_AvailableAfter e > 0)
        \<or> \<not> isCanonicalWalletSourceIdentity (en_SourceIdentity e)
        \<or> IsZero (en_OccurredAt e) \<or> \<not> hasValidWalletEntryPriorBalances e)
     \<and> (case en_Kind e of
          WalletEntryTopUpCredit \<Rightarrow>
            \<not> (TrimSpace (en_PaymentID e) = [] \<or> \<not> isCanonicalWalletIdentifier (en_CommercialOrderID e)
               \<or> en_AvailableDelta e \<le> 0 \<or> en_ReservedDelta e \<noteq> 0 \<or> en_DebtDelta e \<noteq> 0)
        | WalletEntryRefundReversal \<Rightarrow>
            \<not> (TrimSpace (en_PaymentID e) = [] \<or> \<not> isCanonicalWalletIdentifier (en_CommercialOrderID e)
               \<or> en_AvailableDelta e > 0 \<or> en_ReservedDelta e \<noteq> 0 \<or> en_DebtDelta e < 0
               \<or> (en_AvailableDelta e = 0 \<and> en_DebtDelta e = 0))
        | WalletEntryChargebackReversal \<Rightarrow>
            \<not> (TrimSpace (en_PaymentID e) = [] \<or> \<not> isCanonicalWalletIdentifier (en_CommercialOrderID e)
               \<or> en_AvailableDelta e > 0 \<or> en_ReservedDelta e \<noteq> 0 \<or> en_DebtDelta e < 0
               \<or> (en_AvailableDelta e = 0 \<and> en_DebtDelta e = 0))
        | WalletEntryPurchaseReserve \<Rightarrow>
            \<not> (en_PaymentID e \<noteq> [] \<or> \<not> isCanonicalWalletIdentifier (en_CommercialOrderID e)
               \<or> en_AvailableDelta e \<ge> 0 \<or> en_ReservedDelta e \<le> 0
               \<or> add64 (en_AvailableDelta e) (en_ReservedDelta e) \<noteq> 0 \<or> en_DebtDelta e \<noteq> 0)
        | WalletEntryPurchaseCommit \<Rightarrow>
            \<not> (en_PaymentID e \<noteq> [] \<or> \<not> isCanonicalWalletIdentifier (en_CommercialOrderID e)
               \<or> en_AvailableDelta e \<noteq> 0 \<or> en_ReservedDelta e \<ge> 0 \<or> en_DebtDelta e \<noteq> 0)
        | WalletEntryPurchaseRelease \<Rightarrow>
            (let released = neg64 (en_ReservedDelta e); debtRepaid = neg64 (en_DebtDelta e) in
             \<not> (en_PaymentID e \<noteq> [] \<or> \<not> isCanonicalWalletIdentifier (en_CommercialOrderID e)
                \<or> en_AvailableDelta e < 0 \<or> en_ReservedDelta e \<ge> 0 \<or> en_DebtDelta e > 0
                \<or> debtRepaid > released \<or> en_AvailableDelta e \<noteq> sub64 released debtRepaid))
        | WalletEntryDebtRepayment \<Rightarrow>
            \<not> (TrimSpace (en_PaymentID e) = [] \<or> \<not> isCanonicalWalletIdentifier (en_CommercialOrderID e)
               \<or> en_AvailableDelta e \<noteq> 0 \<or> en_ReservedDelta e \<noteq> 0 \<or> en_DebtDelta e \<ge> 0)
        | WalletEntryRefundReserve \<Rightarrow>
            \<not> (en_PaymentID e = [] \<or> \<not> isCanonicalWalletIdentifier (en_CommercialOrderID e)
               \<or> en_AvailableDelta e \<ge> 0 \<or> en_ReservedDelta e \<le> 0
               \<or> add64 (en_AvailableDelta e) (en_ReservedDelta e) \<noteq> 0 \<or> en_DebtDelta e \<noteq> 0)
        | WalletEntryRefundConfirm \<Rightarrow>
            \<not> (en_PaymentID e = [] \<or> \<not> isCanonicalWalletIdentifier (en_CommercialOrderID e)
               \<or> en_AvailableDelta e < 0 \<or> en_ReservedDelta e \<ge> 0 \<or> en_DebtDelta e > 0)
            \<and> (let released = neg64 (en_ReservedDelta e); repaid = neg64 (en_DebtDelta e) in
               \<not> (repaid > released \<or> en_AvailableDelta e > sub64 released repaid))
        | WalletEntryRefundRelease \<Rightarrow>
            \<not> (en_PaymentID e = [] \<or> \<not> isCanonicalWalletIdentifier (en_CommercialOrderID e)
               \<or> en_AvailableDelta e < 0 \<or> en_ReservedDelta e \<ge> 0 \<or> en_DebtDelta e > 0)
            \<and> (let released = neg64 (en_ReservedDelta e); repaid = neg64 (en_DebtDelta e) in
               \<not> (repaid > released \<or> en_AvailableDelta e > sub64 released repaid
                  \<or> en_AvailableDelta e \<noteq> sub64 released repaid))
        | OtherWalletEntryKind _ \<Rightarrow> False)"

record WalletEntryPage =
  ep_Items :: "WalletEntry list"
  ep_NextCursor :: string

record WalletReservation =
  wr_ReservationID :: string
  wr_OperationID :: string
  wr_OrganizationID :: string
  wr_CommercialOrderID :: string
  wr_Currency :: string
  wr_AmountMinor :: i64
  wr_State :: WalletReservationState
  wr_Version :: i64
  wr_CreatedAt :: gotime
  wr_UpdatedAt :: gotime

record ReserveWalletFundsInput =
  ri_OperationID :: string
  ri_OrganizationID :: string
  ri_CommercialOrderID :: string
  ri_Currency :: string
  ri_AmountMinor :: i64

datatype WalletReserveDecisionOutcome =
    WalletReserveDecisionReserved | WalletReserveDecisionRejectedInsufficientFunds
  | OtherReserveDecision string

record WalletReserveDecision =
  de_OperationID :: string
  de_OrganizationID :: string
  de_CommercialOrderID :: string
  de_Currency :: string
  de_AmountMinor :: i64
  de_Outcome :: WalletReserveDecisionOutcome
  de_ReservationID :: string
  de_DecidedAt :: gotime

definition Validate_WalletReserveDecision :: "WalletReserveDecision \<Rightarrow> bool" where
  "Validate_WalletReserveDecision d \<longleftrightarrow>
     \<not> (\<not> isCanonicalWalletIdentifier (de_OperationID d)
        \<or> \<not> isCanonicalWalletIdentifier (de_OrganizationID d)
        \<or> \<not> isCanonicalWalletIdentifier (de_CommercialOrderID d)
        \<or> de_Currency d \<noteq> WalletCurrencyCNY \<or> de_AmountMinor d \<le> 0
        \<or> IsZero (de_DecidedAt d))
     \<and> (case de_Outcome d of
          WalletReserveDecisionReserved \<Rightarrow> isCanonicalWalletIdentifier (de_ReservationID d)
        | WalletReserveDecisionRejectedInsufficientFunds \<Rightarrow> de_ReservationID d = []
        | OtherReserveDecision _ \<Rightarrow> False)"

record CommitWalletReservationInput =
  ci_OperationID :: string
  ci_OrganizationID :: string
  ci_CommercialOrderID :: string
  ci_ReservationID :: string

record ReleaseWalletReservationInput =
  li_OperationID :: string
  li_OrganizationID :: string
  li_CommercialOrderID :: string
  li_ReservationID :: string
  li_Reason :: string

record OrganizationTopUpSettlement =
  os_PaymentID :: string
  os_CommercialOrderID :: string
  os_OrganizationID :: string
  os_Currency :: string
  os_AmountMinor :: i64
  os_SettledAt :: gotime
  os_ProviderReference :: string
  os_Version :: i64

definition Validate_OrganizationTopUpSettlement :: "OrganizationTopUpSettlement \<Rightarrow> bool" where
  "Validate_OrganizationTopUpSettlement s \<longleftrightarrow>
     \<not> (TrimSpace (os_PaymentID s) = [] \<or> TrimSpace (os_CommercialOrderID s) = []
        \<or> TrimSpace (os_OrganizationID s) = [] \<or> os_Currency s \<noteq> WalletCurrencyCNY
        \<or> os_AmountMinor s \<le> 0 \<or> IsZero (os_SettledAt s)
        \<or> TrimSpace (os_ProviderReference s) = [] \<or> os_Version s < 1)"

datatype WalletReversalKind =
  WalletReversalRefund | WalletReversalChargeback | OtherReversalKind string

record OrganizationWalletReversal =
  ov_ReversalID :: string
  ov_PaymentID :: string
  ov_CommercialOrderID :: string
  ov_OrganizationID :: string
  ov_Kind :: WalletReversalKind
  ov_Currency :: string
  ov_AmountMinor :: i64
  ov_OccurredAt :: gotime
  ov_ProviderReference :: string

definition Validate_OrganizationWalletReversal :: "OrganizationWalletReversal \<Rightarrow> bool" where
  "Validate_OrganizationWalletReversal r \<longleftrightarrow>
     \<not> (TrimSpace (ov_ReversalID r) = [] \<or> TrimSpace (ov_PaymentID r) = []
        \<or> TrimSpace (ov_CommercialOrderID r) = [] \<or> TrimSpace (ov_OrganizationID r) = []
        \<or> (ov_Kind r \<noteq> WalletReversalRefund \<and> ov_Kind r \<noteq> WalletReversalChargeback)
        \<or> ov_Currency r \<noteq> WalletCurrencyCNY \<or> ov_AmountMinor r \<le> 0
        \<or> IsZero (ov_OccurredAt r) \<or> TrimSpace (ov_ProviderReference r) = [])"

section \<open>Facts shared by the repositories\<close>

lemma canonical_nonempty: "isCanonicalWalletIdentifier v \<Longrightarrow> v \<noteq> [] \<and> TrimSpace v \<noteq> []"
  by (auto simp: isCanonicalWalletIdentifier_def)

lemma NormalizeTimestamp_idem [simp]:
  "NormalizeTimestamp (NormalizeTimestamp t) = NormalizeTimestamp t"
  by (simp add: NormalizeTimestamp_def)

text \<open>
  What the prior-balance reconstruction computes when it answers: the balance before the
  entry, exactly and without overflow.
\<close>

lemma walletEntryPriorBalance_exact:
  assumes "in64 after" "in64 delta"
  shows "walletEntryPriorBalance after delta =
    (if 0 \<le> after \<and> 0 \<le> after - delta \<and> after - delta \<le> max64
     then Some (after - delta) else None)"
  using assms
  by (auto simp: walletEntryPriorBalance_def add64_def sub64_def wrap64_def in64_unfold)

end
