(* ===== verification/TopUp_Types.thy ===== *)
theory TopUp_Types
  imports Money_Types
begin

text \<open>
  The provider top-up contract (\<open>internal/ledger/money/provider_topup.go\<close>): the verified
  channel identity of a payment, the posting and reversal receipts, the refund hold, and the
  \<open>Validate\<close>, \<open>Fingerprint\<close>, \<open>ClaimID\<close> and \<open>StorageID\<close> methods.

  Fingerprints are SHA-256 digests of the JSON encoding of a value behind a version prefix.
  The digest is the parameter \<open>sha\<close> of the definitions: \<open>sha prefix doc\<close> is the hexadecimal
  digest, or the empty string when the value cannot be encoded. The values that the code
  fingerprints are the constructors of \<open>topup_doc\<close>.
\<close>

section \<open>The channel identity\<close>

record ProviderPaymentBinding =
  pb_Provider :: string
  pb_Environment :: string
  pb_MerchantID :: string
  pb_AppID :: string
  pb_TradeID :: string

definition Validate_ProviderPaymentBinding :: "ProviderPaymentBinding \<Rightarrow> bool" where
  "Validate_ProviderPaymentBinding b \<longleftrightarrow>
     \<not> ((pb_Provider b \<noteq> ''ALIPAY'' \<and> pb_Provider b \<noteq> ''WECHAT_PAY'')
        \<or> (pb_Environment b \<noteq> ''PRODUCTION''
           \<and> \<not> (pb_Provider b = ''ALIPAY'' \<and> pb_Environment b = ''SANDBOX''))
        \<or> \<not> isCanonicalWalletIdentifier (pb_MerchantID b)
        \<or> \<not> isCanonicalWalletIdentifier (pb_AppID b)
        \<or> \<not> isCanonicalWalletIdentifier (pb_TradeID b))"

record ProviderTopUpInput =
  ti_OperationID :: string
  ti_OrganizationID :: string
  ti_CommercialOrderID :: string
  ti_Currency :: string
  ti_AmountMinor :: i64
  ti_Binding :: ProviderPaymentBinding
  ti_Payment :: PaymentSettlement
  ti_KnownReversals :: "OrganizationWalletReversal list"

record TopUpPostingReceipt =
  pr_ReceiptID :: string
  pr_OperationID :: string
  pr_PaymentID :: string
  pr_OrganizationID :: string
  pr_CommercialOrderID :: string
  pr_Binding :: ProviderPaymentBinding
  pr_Currency :: string
  pr_GrossCreditMinor :: i64
  pr_AvailableAddedMinor :: i64
  pr_DebtRepaidMinor :: i64
  pr_CreditEntryIDs :: "string list"
  pr_KnownReversalReceiptIDs :: "string list"
  pr_RequestFingerprint :: string
  pr_ResultFingerprint :: string
  pr_PostedAt :: gotime

record TopUpReversalKey =
  rk_PaymentID :: string
  rk_Kind :: WalletReversalKind
  rk_ReversalID :: string

record TopUpRefundInput =
  fi_Key :: TopUpReversalKey
  fi_OrganizationID :: string
  fi_CommercialOrderID :: string
  fi_AmountMinor :: i64
  fi_ApprovalID :: string

text \<open>The states of a refund hold; the receipt's \<open>HoldState\<close> also has the empty string.\<close>

datatype HoldState = HoldReserved | HoldConfirmed | HoldReleased

record TopUpRefundHold =
  rh_HoldID :: string
  rh_Input :: TopUpRefundInput
  rh_State :: HoldState
  rh_Dispatched :: bool
  rh_CreatedAt :: gotime

record TopUpReversalReceipt =
  rr_ReceiptID :: string
  rr_Key :: TopUpReversalKey
  rr_OrganizationID :: string
  rr_CommercialOrderID :: string
  rr_Currency :: string
  rr_ProviderAmountMinor :: i64
  rr_WalletPrincipalEffectMinor :: i64
  rr_ExcessProviderMinor :: i64
  rr_ExcessRecordID :: string
  rr_HoldID :: string
  rr_HoldState :: "HoldState option"
  rr_HoldConsumedMinor :: i64
  rr_HoldReleasedMinor :: i64
  rr_HoldDebtRepaidMinor :: i64
  rr_EntryIDs :: "string list"
  rr_RequestFingerprint :: string
  rr_ResultFingerprint :: string
  rr_PostedAt :: gotime

section \<open>Fingerprints\<close>

datatype topup_doc =
    DocStrings "string list"
  | DocTopUpInput ProviderTopUpInput
  | DocPostingReceipt TopUpPostingReceipt
  | DocReversalKey TopUpReversalKey
  | DocReversal OrganizationWalletReversal
  | DocReversalReceipt TopUpReversalReceipt

type_synonym 'd digest = "string \<Rightarrow> 'd \<Rightarrow> string"

definition TopUpFingerprint :: "topup_doc digest \<Rightarrow> topup_doc \<Rightarrow> string" where
  "TopUpFingerprint sha doc = sha ''wallet-topup:v1:'' doc"

definition ClaimID :: "topup_doc digest \<Rightarrow> ProviderPaymentBinding \<Rightarrow> string" where
  "ClaimID sha b =
     TopUpFingerprint sha (DocStrings [pb_Provider b, pb_Environment b, pb_MerchantID b, pb_TradeID b])"

definition Fingerprint_ProviderTopUpInput :: "topup_doc digest \<Rightarrow> ProviderTopUpInput \<Rightarrow> string" where
  "Fingerprint_ProviderTopUpInput sha i =
     TopUpFingerprint sha (DocTopUpInput
       (i\<lparr>ti_KnownReversals := [],
          ti_Payment := (ti_Payment i)\<lparr>ps_SettledAt := NormalizeTimestamp (ps_SettledAt (ti_Payment i))\<rparr>\<rparr>))"

definition Fingerprint_TopUpPostingReceipt :: "topup_doc digest \<Rightarrow> TopUpPostingReceipt \<Rightarrow> string" where
  "Fingerprint_TopUpPostingReceipt sha r =
     TopUpFingerprint sha (DocPostingReceipt (r\<lparr>pr_ResultFingerprint := []\<rparr>))"

definition StorageID :: "topup_doc digest \<Rightarrow> TopUpReversalKey \<Rightarrow> string" where
  "StorageID sha k = ''topup-reversal:v1:'' @ TopUpFingerprint sha (DocReversalKey k)"

definition Fingerprint_TopUpReversalReceipt :: "topup_doc digest \<Rightarrow> TopUpReversalReceipt \<Rightarrow> string" where
  "Fingerprint_TopUpReversalReceipt sha r =
     TopUpFingerprint sha (DocReversalReceipt (r\<lparr>rr_ResultFingerprint := []\<rparr>))"

section \<open>Validation\<close>

definition Validate_ProviderTopUpInput :: "ProviderTopUpInput \<Rightarrow> bool" where
  "Validate_ProviderTopUpInput i \<longleftrightarrow>
     \<not> (\<not> isCanonicalWalletIdentifier (ti_OperationID i)
        \<or> \<not> isCanonicalWalletIdentifier (ti_OrganizationID i)
        \<or> \<not> isCanonicalWalletIdentifier (ti_CommercialOrderID i)
        \<or> ti_Currency i \<noteq> WalletCurrencyCNY \<or> ti_AmountMinor i \<le> 0
        \<or> \<not> Validate_PaymentSettlement (ti_Payment i)
        \<or> \<not> Validate_ProviderPaymentBinding (ti_Binding i)
        \<or> ps_PaymentPurpose (ti_Payment i) \<noteq> PaymentPurposeWalletTopUp
        \<or> ps_Currency (ti_Payment i) \<noteq> ti_Currency i
        \<or> ps_GrossAmountMinor (ti_Payment i) \<noteq> ti_AmountMinor i)
     \<and> list_all (\<lambda>r. \<not> (\<not> Validate_OrganizationWalletReversal r
                        \<or> ov_PaymentID r \<noteq> ps_PaymentID (ti_Payment i)
                        \<or> ov_OrganizationID r \<noteq> ti_OrganizationID i
                        \<or> ov_CommercialOrderID r \<noteq> ti_CommercialOrderID i
                        \<or> ov_Currency r \<noteq> ti_Currency i)) (ti_KnownReversals i)"

definition Validate_TopUpPostingReceipt :: "topup_doc digest \<Rightarrow> TopUpPostingReceipt \<Rightarrow> bool" where
  "Validate_TopUpPostingReceipt sha r \<longleftrightarrow>
     \<not> (\<not> isCanonicalWalletIdentifier (pr_ReceiptID r)
        \<or> \<not> isCanonicalWalletIdentifier (pr_OperationID r)
        \<or> \<not> isCanonicalWalletIdentifier (pr_PaymentID r)
        \<or> \<not> isCanonicalWalletIdentifier (pr_OrganizationID r)
        \<or> \<not> isCanonicalWalletIdentifier (pr_CommercialOrderID r)
        \<or> \<not> Validate_ProviderPaymentBinding (pr_Binding r)
        \<or> pr_Currency r \<noteq> WalletCurrencyCNY \<or> pr_GrossCreditMinor r \<le> 0
        \<or> pr_AvailableAddedMinor r < 0 \<or> pr_AvailableAddedMinor r > pr_GrossCreditMinor r
        \<or> pr_DebtRepaidMinor r \<noteq> sub64 (pr_GrossCreditMinor r) (pr_AvailableAddedMinor r)
        \<or> pr_CreditEntryIDs r = [] \<or> pr_RequestFingerprint r = []
        \<or> IsZero (pr_PostedAt r)
        \<or> pr_ResultFingerprint r \<noteq> Fingerprint_TopUpPostingReceipt sha r)"

definition Validate_TopUpReversalKey :: "TopUpReversalKey \<Rightarrow> bool" where
  "Validate_TopUpReversalKey k \<longleftrightarrow>
     \<not> (\<not> isCanonicalWalletIdentifier (rk_PaymentID k)
        \<or> \<not> isCanonicalWalletIdentifier (rk_ReversalID k)
        \<or> (rk_Kind k \<noteq> WalletReversalRefund \<and> rk_Kind k \<noteq> WalletReversalChargeback))"

definition Validate_TopUpRefundInput :: "TopUpRefundInput \<Rightarrow> bool" where
  "Validate_TopUpRefundInput i \<longleftrightarrow>
     \<not> (\<not> Validate_TopUpReversalKey (fi_Key i) \<or> rk_Kind (fi_Key i) \<noteq> WalletReversalRefund
        \<or> \<not> isCanonicalWalletIdentifier (fi_OrganizationID i)
        \<or> \<not> isCanonicalWalletIdentifier (fi_CommercialOrderID i)
        \<or> fi_AmountMinor i \<le> 0 \<or> \<not> isCanonicalWalletIdentifier (fi_ApprovalID i))"

definition Validate_TopUpReversalReceipt :: "topup_doc digest \<Rightarrow> TopUpReversalReceipt \<Rightarrow> bool" where
  "Validate_TopUpReversalReceipt sha r \<longleftrightarrow>
     \<not> (\<not> Validate_TopUpReversalKey (rr_Key r) \<or> rr_ReceiptID r \<noteq> StorageID sha (rr_Key r)
        \<or> \<not> isCanonicalWalletIdentifier (rr_OrganizationID r)
        \<or> \<not> isCanonicalWalletIdentifier (rr_CommercialOrderID r)
        \<or> rr_Currency r \<noteq> WalletCurrencyCNY \<or> rr_ProviderAmountMinor r \<le> 0
        \<or> rr_WalletPrincipalEffectMinor r < 0
        \<or> rr_WalletPrincipalEffectMinor r > rr_ProviderAmountMinor r
        \<or> rr_ExcessProviderMinor r \<noteq>
            sub64 (rr_ProviderAmountMinor r) (rr_WalletPrincipalEffectMinor r)
        \<or> (rr_ExcessProviderMinor r > 0) \<noteq> (rr_ExcessRecordID r \<noteq> [])
        \<or> rr_RequestFingerprint r = [] \<or> IsZero (rr_PostedAt r)
        \<or> rr_ResultFingerprint r \<noteq> Fingerprint_TopUpReversalReceipt sha r)
     \<and> (if rr_HoldID r \<noteq> [] then
          \<not> (rk_Kind (rr_Key r) \<noteq> WalletReversalRefund \<or> rr_HoldState r \<noteq> Some HoldConfirmed
             \<or> rr_HoldConsumedMinor r \<noteq> rr_WalletPrincipalEffectMinor r
             \<or> rr_HoldReleasedMinor r \<noteq>
                 sub64 (rr_ProviderAmountMinor r) (rr_HoldConsumedMinor r)
             \<or> rr_HoldDebtRepaidMinor r < 0
             \<or> rr_HoldDebtRepaidMinor r > rr_HoldReleasedMinor r)
        else
          \<not> (rr_HoldState r \<noteq> None \<or> rr_HoldConsumedMinor r \<noteq> 0
             \<or> rr_HoldReleasedMinor r \<noteq> 0 \<or> rr_HoldDebtRepaidMinor r \<noteq> 0))"

end
