(* ===== verification/Service_Types.thy ===== *)
theory Service_Types
  imports TopUp_Types "HOL-Library.List_Lexorder" "HOL-Library.Char_ord"
begin

text \<open>
  The service purchase contract of the money owner: channel amounts with vouchers
  (\<open>service_channel_amounts.go\<close>), payments, operations, effects, receipts and the allocation
  of commission (\<open>service_payment.go\<close>), the refund plan (\<open>service_refund_plan.go\<close>) and the
  fulfilment and refund review admissions (\<open>service_fulfillment.go\<close>,
  \<open>service_refund_review.go\<close>), all under \<open>internal/ledger/money\<close>.
  A Go map from voucher identity to amount is a partial map; reading a missing key gives 0.
\<close>

section \<open>Channel amounts\<close>

definition ServiceAllocationChannelNetFloorV2 :: string where
  "ServiceAllocationChannelNetFloorV2 = ''CHANNEL_SETTLEMENT_NET_FLOOR_V2''"
definition ServiceAllocationCumulativeNetFloorV1 :: string where
  "ServiceAllocationCumulativeNetFloorV1 = ''CUMULATIVE_NET_FLOOR_V1''"

lemma allocation_bases_distinct [simp]:
  "ServiceAllocationChannelNetFloorV2 \<noteq> ServiceAllocationCumulativeNetFloorV1"
  "ServiceAllocationCumulativeNetFloorV1 \<noteq> ServiceAllocationChannelNetFloorV2"
  by (simp_all add: ServiceAllocationChannelNetFloorV2_def ServiceAllocationCumulativeNetFloorV1_def)

record ServiceVoucher =
  sv_ID :: string
  sv_FundingType :: string
  sv_AmountMinor :: i64

record ServicePaymentAmounts =
  pa_PayerMinor :: i64
  pa_Vouchers :: "ServiceVoucher list"

definition Normalize_ServicePaymentAmounts :: "ServicePaymentAmounts \<Rightarrow> ServicePaymentAmounts" where
  "Normalize_ServicePaymentAmounts a = a\<lparr>pa_Vouchers := sort_key sv_ID (pa_Vouchers a)\<rparr>"

text \<open>The voucher loop: what is left to explain by vouchers and the identities seen so far.\<close>

fun payment_vouchers_ok :: "i64 \<Rightarrow> string list \<Rightarrow> ServiceVoucher list \<Rightarrow> bool" where
  "payment_vouchers_ok remaining seen [] \<longleftrightarrow> remaining = 0"
| "payment_vouchers_ok remaining seen (v # vs) \<longleftrightarrow>
     (if \<not> isCanonicalWalletIdentifier (sv_ID v) \<or> sv_ID v \<in> set seen
         \<or> (sv_FundingType v \<noteq> ''CASH'' \<and> sv_FundingType v \<noteq> ''NOCASH'')
         \<or> sv_AmountMinor v \<le> 0 \<or> sv_AmountMinor v > remaining then False
      else payment_vouchers_ok (sub64 remaining (sv_AmountMinor v)) (sv_ID v # seen) vs)"

definition Validate_ServicePaymentAmounts :: "ServicePaymentAmounts \<Rightarrow> i64 \<Rightarrow> bool" where
  "Validate_ServicePaymentAmounts a gross \<longleftrightarrow>
     \<not> (gross \<le> 0 \<or> pa_PayerMinor a < 0 \<or> pa_PayerMinor a > gross \<or> length (pa_Vouchers a) > 100)
     \<and> payment_vouchers_ok (sub64 gross (pa_PayerMinor a)) [] (pa_Vouchers a)"

definition SettlementMinor_ServicePaymentAmounts :: "ServicePaymentAmounts \<Rightarrow> i64" where
  "SettlementMinor_ServicePaymentAmounts a =
     fold (\<lambda>v n. if sv_FundingType v = ''CASH'' then add64 n (sv_AmountMinor v) else n)
       (pa_Vouchers a) (pa_PayerMinor a)"

record ServiceVoucherRefund =
  vr_ID :: string
  vr_RefundType :: string
  vr_FundingType :: string
  vr_OriginalAmountMinor :: i64
  vr_RefundMinor :: i64

record ServiceRefundAmounts =
  ra_PayerMinor :: i64
  ra_DiscountMinor :: i64
  ra_Vouchers :: "ServiceVoucherRefund list"

definition Normalize_ServiceRefundAmounts :: "ServiceRefundAmounts \<Rightarrow> ServiceRefundAmounts" where
  "Normalize_ServiceRefundAmounts a = a\<lparr>ra_Vouchers := sort_key vr_ID (ra_Vouchers a)\<rparr>"

text \<open>\<open>original\<close> is built by assignment, so the last voucher with an identity wins.\<close>

definition original_vouchers :: "ServiceVoucher list \<Rightarrow> string \<rightharpoonup> ServiceVoucher" where
  "original_vouchers vs = map_of (rev (map (\<lambda>v. (sv_ID v, v)) vs))"

fun refund_vouchers_ok ::
  "(string \<rightharpoonup> ServiceVoucher) \<Rightarrow> i64 \<Rightarrow> string list \<Rightarrow> ServiceVoucherRefund list \<Rightarrow> bool" where
  "refund_vouchers_ok original remaining seen [] \<longleftrightarrow> remaining = 0"
| "refund_vouchers_ok original remaining seen (v # vs) \<longleftrightarrow>
     (case original (vr_ID v) of
        None \<Rightarrow> False
      | Some ov \<Rightarrow>
          if vr_ID v \<in> set seen
             \<or> (vr_RefundType v \<noteq> ''COUPON'' \<and> vr_RefundType v \<noteq> ''DISCOUNT'')
             \<or> vr_FundingType v \<noteq> sv_FundingType ov
             \<or> vr_OriginalAmountMinor v \<noteq> sv_AmountMinor ov
             \<or> vr_RefundMinor v < 0 \<or> vr_RefundMinor v > sv_AmountMinor ov
             \<or> vr_RefundMinor v > remaining then False
          else refund_vouchers_ok original (sub64 remaining (vr_RefundMinor v)) (vr_ID v # seen) vs)"

definition Validate_ServiceRefundAmounts ::
  "ServiceRefundAmounts \<Rightarrow> ServicePaymentAmounts \<Rightarrow> i64 \<Rightarrow> bool" where
  "Validate_ServiceRefundAmounts a payment nominal \<longleftrightarrow>
     \<not> (nominal \<le> 0 \<or> ra_PayerMinor a < 0 \<or> ra_PayerMinor a > nominal
        \<or> ra_PayerMinor a > pa_PayerMinor payment \<or> ra_DiscountMinor a < 0
        \<or> ra_DiscountMinor a \<noteq> sub64 nominal (ra_PayerMinor a) \<or> length (ra_Vouchers a) > 100)
     \<and> refund_vouchers_ok (original_vouchers (pa_Vouchers payment)) (ra_DiscountMinor a) []
         (ra_Vouchers a)"

definition SettlementMinor_ServiceRefundAmounts :: "ServiceRefundAmounts \<Rightarrow> i64" where
  "SettlementMinor_ServiceRefundAmounts a =
     fold (\<lambda>v n. if vr_FundingType v = ''CASH'' then add64 n (vr_RefundMinor v) else n)
       (ra_Vouchers a) (ra_PayerMinor a)"

section \<open>Allocation of commission\<close>

record ServiceAllocationPolicy =
  ap_CommissionBPS :: i64
  ap_Basis :: string

definition Validate_ServiceAllocationPolicy :: "ServiceAllocationPolicy \<Rightarrow> bool" where
  "Validate_ServiceAllocationPolicy p \<longleftrightarrow>
     \<not> ((ap_Basis p \<noteq> ServiceAllocationCumulativeNetFloorV1
         \<and> ap_Basis p \<noteq> ServiceAllocationChannelNetFloorV2)
        \<or> ap_CommissionBPS p < 0 \<or> ap_CommissionBPS p > 10000)"

definition ServiceAllocation ::
  "i64 \<Rightarrow> i64 \<Rightarrow> ServiceAllocationPolicy \<Rightarrow> merr + i64 \<times> i64" where
  "ServiceAllocation gross refunded policy =
     (if \<not> Validate_ServiceAllocationPolicy policy \<or> gross < 0
         \<or> (gross = 0 \<and> ap_Basis policy \<noteq> ServiceAllocationChannelNetFloorV2)
         \<or> refunded < 0 \<or> refunded > gross then Inl ErrInvalid
      else
        let net = sub64 gross refunded;
            platform =
              add64 (mul64 (quo64 net 10000) (ap_CommissionBPS policy))
                (quo64 (mul64 (rem64 net 10000) (ap_CommissionBPS policy)) 10000)
        in Inr (platform, sub64 net platform))"

section \<open>The refund plan\<close>

record ServiceRefundPlan =
  rp_OrderID :: string
  rp_PaymentID :: string
  rp_CommandID :: string
  rp_SourceProofID :: string
  rp_PreOperationID :: string
  rp_RefundOperationID :: string
  rp_PostOperationID :: string
  rp_ReleaseOperationID :: string
  rp_OriginalShareID :: string
  rp_Allocation :: ServiceAllocationPolicy
  rp_NominalMinor :: i64
  rp_BaseRefundedMinor :: i64
  rp_BaseSettlementRefundedMinor :: i64
  rp_BaseReturnedMinor :: i64
  rp_SettlementMinor :: i64
  rp_NetShareMinor :: i64
  rp_RemainingNoCashMinor :: i64
  rp_PreReturnMinor :: i64

definition Validate_ServiceRefundPlan :: "ServiceRefundPlan \<Rightarrow> bool" where
  "Validate_ServiceRefundPlan p \<longleftrightarrow>
     list_all isCanonicalWalletIdentifier
       [rp_OrderID p, rp_PaymentID p, rp_CommandID p, rp_SourceProofID p, rp_PreOperationID p,
        rp_RefundOperationID p, rp_PostOperationID p, rp_ReleaseOperationID p]
     \<and> distinct [rp_PreOperationID p, rp_RefundOperationID p, rp_PostOperationID p,
                 rp_ReleaseOperationID p]
     \<and> \<not> (\<not> Validate_ServiceAllocationPolicy (rp_Allocation p)
          \<or> ap_Basis (rp_Allocation p) \<noteq> ServiceAllocationChannelNetFloorV2
          \<or> rp_NominalMinor p \<le> 0 \<or> rp_BaseRefundedMinor p < 0
          \<or> rp_BaseSettlementRefundedMinor p < 0 \<or> rp_BaseReturnedMinor p < 0
          \<or> rp_SettlementMinor p < 0 \<or> rp_NetShareMinor p < 0
          \<or> rp_RemainingNoCashMinor p < 0 \<or> rp_PreReturnMinor p < 0
          \<or> rp_PreReturnMinor p > rp_NetShareMinor p)
     \<and> (if rp_OriginalShareID p = [] then rp_PreReturnMinor p = 0 \<and> rp_NetShareMinor p = 0
        else isCanonicalWalletIdentifier (rp_OriginalShareID p))"

definition PostReturn :: "ServiceRefundPlan \<Rightarrow> ServiceRefundAmounts \<Rightarrow> merr + i64" where
  "PostReturn p actual =
     (if \<not> Validate_ServiceRefundPlan p then Inl ErrInvalid
      else if rp_OriginalShareID p = [] then Inr 0
      else case ServiceAllocation (rp_SettlementMinor p)
                  (SettlementMinor_ServiceRefundAmounts actual) (rp_Allocation p) of
             Inl e \<Rightarrow> Inl e
           | Inr (target, _) \<Rightarrow>
               let due = sub64 (sub64 (rp_NetShareMinor p) (rp_PreReturnMinor p)) target
               in if due < 0 \<or> due > sub64 (rp_NetShareMinor p) (rp_PreReturnMinor p)
                  then Inl ErrConflict else Inr due)"

section \<open>Payments, operations, effects\<close>

record ServicePaymentInput =
  si_ChannelAmounts :: "ServicePaymentAmounts option"
  si_Allocation :: ServiceAllocationPolicy
  si_OrderID :: string
  si_RequestID :: string
  si_BuyerOrganizationID :: string
  si_ProviderOrganizationID :: string
  si_PlatformMerchantID :: string
  si_ProviderMerchantID :: string
  si_PolicyVersion :: string
  si_Binding :: ProviderPaymentBinding
  si_Payment :: PaymentSettlement

definition Validate_ServicePaymentInput :: "ServicePaymentInput \<Rightarrow> bool" where
  "Validate_ServicePaymentInput i \<longleftrightarrow>
     list_all isCanonicalWalletIdentifier
       [si_OrderID i, si_RequestID i, si_BuyerOrganizationID i, si_ProviderOrganizationID i,
        si_PlatformMerchantID i, si_ProviderMerchantID i, si_PolicyVersion i]
     \<and> \<not> (\<not> Validate_ServiceAllocationPolicy (si_Allocation i)
          \<or> si_BuyerOrganizationID i = si_ProviderOrganizationID i
          \<or> si_PlatformMerchantID i = si_ProviderMerchantID i
          \<or> \<not> Validate_ProviderPaymentBinding (si_Binding i)
          \<or> pb_Provider (si_Binding i) \<noteq> ''WECHAT_PAY''
          \<or> pb_MerchantID (si_Binding i) \<noteq> si_ProviderMerchantID i
          \<or> \<not> Validate_PaymentSettlement (si_Payment i)
          \<or> ps_PaymentPurpose (si_Payment i) \<noteq> PaymentPurposeServicePurchase)
     \<and> (if ap_Basis (si_Allocation i) = ServiceAllocationChannelNetFloorV2 then
          (case si_ChannelAmounts i of
             None \<Rightarrow> False
           | Some a \<Rightarrow> Validate_ServicePaymentAmounts a (ps_GrossAmountMinor (si_Payment i)))
        else si_ChannelAmounts i = None)"

text \<open>
  The kinds of effect receipts: the operations of \<open>ServiceEffectKind\<close> and the kinds that only
  observations write. A payment receipt has the empty kind.
\<close>

datatype ServiceEffectKind =
    ServiceShare | ServiceFinish | ServiceRefundRelease | ServiceReturn | ServiceRefund
  | ServiceChargeback | ServiceAutomaticRelease | RefundUncertainty | FailedKind ServiceEffectKind
  | UnsplitObservation | ChannelFee | ChannelFeeReturn | NoEffectKind | OtherEffectKind string

datatype RefundPhase =
  NoPhase | ServiceReturnPre | ServiceRefundPhase | ServiceReturnPost | ServiceRefundReleasePhase
  | OtherPhase string

record ServiceOperation =
  so_RefundPlan :: "ServiceRefundPlan option"
  so_RefundPhase :: RefundPhase
  so_OrderID :: string
  so_OperationID :: string
  so_Kind :: ServiceEffectKind
  so_AmountMinor :: i64
  so_SourceProofID :: string
  so_OriginalShareID :: string

definition Validate_ServiceOperation :: "ServiceOperation \<Rightarrow> bool" where
  "Validate_ServiceOperation i \<longleftrightarrow>
     \<not> (\<not> isCanonicalWalletIdentifier (so_OrderID i)
        \<or> \<not> isCanonicalWalletIdentifier (so_OperationID i)
        \<or> \<not> isCanonicalWalletIdentifier (so_SourceProofID i) \<or> so_AmountMinor i < 0)
     \<and> (case so_Kind i of
          ServiceShare \<Rightarrow> True
        | ServiceFinish \<Rightarrow> True
        | ServiceRefundRelease \<Rightarrow> True
        | ServiceReturn \<Rightarrow>
            isCanonicalWalletIdentifier (so_OriginalShareID i)
            \<or> (case so_RefundPlan i of
                 None \<Rightarrow> False
               | Some p \<Rightarrow> so_AmountMinor i = 0 \<and> rp_OriginalShareID p = [])
        | ServiceRefund \<Rightarrow> so_AmountMinor i \<noteq> 0
        | ServiceChargeback \<Rightarrow> so_AmountMinor i \<noteq> 0
        | _ \<Rightarrow> False)
     \<and> (case so_RefundPlan i of
          Some p \<Rightarrow>
            \<not> (\<not> Validate_ServiceRefundPlan p \<or> rp_OrderID p \<noteq> so_OrderID i
               \<or> rp_SourceProofID p \<noteq> so_SourceProofID i)
            \<and> (case so_RefundPhase i of
                 ServiceReturnPre \<Rightarrow>
                   \<not> (so_Kind i \<noteq> ServiceReturn \<or> so_OperationID i \<noteq> rp_PreOperationID p
                      \<or> so_AmountMinor i \<noteq> rp_PreReturnMinor p
                      \<or> so_OriginalShareID i \<noteq> rp_OriginalShareID p)
               | ServiceReturnPost \<Rightarrow>
                   \<not> (so_Kind i \<noteq> ServiceReturn \<or> so_OperationID i \<noteq> rp_PostOperationID p
                      \<or> so_OriginalShareID i \<noteq> rp_OriginalShareID p)
               | ServiceRefundPhase \<Rightarrow>
                   \<not> (so_Kind i \<noteq> ServiceRefund \<or> so_OperationID i \<noteq> rp_RefundOperationID p
                      \<or> so_AmountMinor i \<noteq> rp_NominalMinor p)
               | ServiceRefundReleasePhase \<Rightarrow>
                   \<not> (so_Kind i \<noteq> ServiceRefundRelease
                      \<or> so_OperationID i \<noteq> rp_ReleaseOperationID p)
               | _ \<Rightarrow> False)
        | None \<Rightarrow> so_RefundPhase i = NoPhase)"

record ServiceEffect =
  se_RefundAmounts :: "ServiceRefundAmounts option"
  se_Operation :: ServiceOperation
  se_ProviderReference :: string
  se_OccurredAt :: gotime

record ServiceOperationFailure =
  sf_Operation :: ServiceOperation
  sf_ProofID :: string
  sf_ProviderReference :: string
  sf_Reason :: string
  sf_OccurredAt :: gotime

definition Validate_ServiceOperationFailure :: "ServiceOperationFailure \<Rightarrow> bool" where
  "Validate_ServiceOperationFailure i \<longleftrightarrow>
     \<not> (\<not> Validate_ServiceOperation (sf_Operation i)
        \<or> \<not> isCanonicalWalletIdentifier (sf_ProofID i)
        \<or> \<not> isCanonicalWalletIdentifier (sf_ProviderReference i)
        \<or> \<not> isCanonicalWalletIdentifier (sf_Reason i) \<or> IsZero (sf_OccurredAt i))"

definition Validate_ServiceEffect :: "ServiceEffect \<Rightarrow> bool" where
  "Validate_ServiceEffect e \<longleftrightarrow>
     \<not> (\<not> Validate_ServiceOperation (se_Operation e)
        \<or> \<not> isCanonicalWalletIdentifier (se_ProviderReference e) \<or> IsZero (se_OccurredAt e))
     \<and> \<not> (se_RefundAmounts e \<noteq> None \<and> so_Kind (se_Operation e) \<noteq> ServiceRefund)"

record ServiceFundsView =
  fv_PendingRefundCommandID :: string
  fv_ChannelAmounts :: "ServicePaymentAmounts option"
  fv_SettlementMinor :: i64
  fv_SettlementRefundedMinor :: i64
  fv_PayerRefundedMinor :: i64
  fv_VoucherRefundedMinor :: "string \<rightharpoonup> i64"
  fv_Allocation :: ServiceAllocationPolicy
  fv_ChannelFeeMinor :: i64
  fv_ChannelFeeObserved :: bool
  fv_OrderID :: string
  fv_PaymentID :: string
  fv_BuyerOrganizationID :: string
  fv_ProviderOrganizationID :: string
  fv_Currency :: string
  fv_GrossMinor :: i64
  fv_RefundedMinor :: i64
  fv_ChargedBackMinor :: i64
  fv_PlatformMinor :: i64
  fv_ProviderMinor :: i64
  fv_SharedMinor :: i64
  fv_ReturnedMinor :: i64
  fv_ReleasedMinor :: i64
  fv_AutomaticReleasedMinor :: i64
  fv_PendingOperationID :: string
  fv_ReconciliationReason :: string

record ServiceChannelFee =
  cf_Payment :: ServicePaymentInput
  cf_FlowID :: string
  cf_BusinessID :: string
  cf_ProofID :: string
  cf_AmountMinor :: i64
  cf_Returned :: bool
  cf_OccurredAt :: gotime

definition Validate_ServiceChannelFee :: "ServiceChannelFee \<Rightarrow> bool" where
  "Validate_ServiceChannelFee i \<longleftrightarrow>
     \<not> (\<not> Validate_ServicePaymentInput (cf_Payment i)
        \<or> \<not> isCanonicalWalletIdentifier (cf_FlowID i)
        \<or> \<not> isCanonicalWalletIdentifier (cf_BusinessID i)
        \<or> \<not> isCanonicalWalletIdentifier (cf_ProofID i)
        \<or> cf_AmountMinor i < 0
        \<or> cf_AmountMinor i > ps_GrossAmountMinor (si_Payment (cf_Payment i))
        \<or> IsZero (cf_OccurredAt i))"

record ServiceUnsplitObservation =
  uo_Payment :: ServicePaymentInput
  uo_ProfileVersion :: string
  uo_ExpectedFundsFingerprint :: string
  uo_ProofID :: string
  uo_UnsplitMinor :: i64
  uo_OccurredAt :: gotime

definition Validate_ServiceUnsplitObservation :: "ServiceUnsplitObservation \<Rightarrow> bool" where
  "Validate_ServiceUnsplitObservation i \<longleftrightarrow>
     \<not> (\<not> Validate_ServicePaymentInput (uo_Payment i)
        \<or> \<not> isCanonicalWalletIdentifier (uo_ProfileVersion i)
        \<or> \<not> isCanonicalWalletIdentifier (uo_ProofID i)
        \<or> length (uo_ExpectedFundsFingerprint i) \<noteq> 64
        \<or> uo_UnsplitMinor i < 0
        \<or> uo_UnsplitMinor i > ps_GrossAmountMinor (si_Payment (uo_Payment i))
        \<or> IsZero (uo_OccurredAt i))"

definition ExpectedUnsplitMinor :: "ServiceFundsView \<Rightarrow> i64" where
  "ExpectedUnsplitMinor f =
     (let remaining =
        (if ap_Basis (fv_Allocation f) = ServiceAllocationChannelNetFloorV2 then
           sub64 (sub64 (sub64 (sub64 (sub64 (fv_SettlementMinor f) (fv_SettlementRefundedMinor f))
             (fv_ChargedBackMinor f)) (fv_SharedMinor f)) (fv_ReleasedMinor f))
             (fv_AutomaticReleasedMinor f)
         else
           sub64 (sub64 (sub64 (sub64 (sub64 (fv_GrossMinor f) (fv_RefundedMinor f))
             (fv_ChargedBackMinor f)) (fv_SharedMinor f)) (fv_ReleasedMinor f))
             (fv_AutomaticReleasedMinor f))
      in if remaining < 0 then 0 else remaining)"

record ServiceReceipt =
  sr_RefundAmounts :: "ServiceRefundAmounts option"
  sr_ReceiptID :: string
  sr_OrderID :: string
  sr_OperationID :: string
  sr_RequestFingerprint :: string
  sr_ResultFingerprint :: string
  sr_Kind :: ServiceEffectKind
  sr_AmountMinor :: i64
  sr_ProviderReference :: string
  sr_OccurredAt :: gotime

text \<open>
  \<open>NewServiceRefundPlan\<close>: what of the vouchers without cash can still be refunded, and how
  much commission has to be returned before the refund so that even a refund that is all cash
  leaves the platform no more than its share.
\<close>

fun remaining_no_cash :: "(string \<rightharpoonup> i64) \<Rightarrow> i64 \<Rightarrow> ServiceVoucher list \<Rightarrow> i64 option" where
  "remaining_no_cash refunded acc [] = Some acc"
| "remaining_no_cash refunded acc (v # vs) =
     (let used = (case refunded (sv_ID v) of None \<Rightarrow> 0 | Some n \<Rightarrow> n) in
      if used < 0 \<or> used > sv_AmountMinor v then None
      else remaining_no_cash refunded
             (if sv_FundingType v = ''NOCASH''
              then add64 acc (sub64 (sv_AmountMinor v) used) else acc) vs)"

definition NewServiceRefundPlan ::
  "ServiceFundsView \<Rightarrow> string \<Rightarrow> string \<Rightarrow> string \<Rightarrow> string \<Rightarrow> string \<Rightarrow> string \<Rightarrow> string \<Rightarrow> i64 \<Rightarrow>
   merr + ServiceRefundPlan" where
  "NewServiceRefundPlan f command source pre refund post release share amount =
     (let p = \<lparr>rp_OrderID = fv_OrderID f, rp_PaymentID = fv_PaymentID f, rp_CommandID = command,
               rp_SourceProofID = source, rp_PreOperationID = pre, rp_RefundOperationID = refund,
               rp_PostOperationID = post, rp_ReleaseOperationID = release,
               rp_OriginalShareID = share, rp_Allocation = fv_Allocation f,
               rp_NominalMinor = amount, rp_BaseRefundedMinor = fv_RefundedMinor f,
               rp_BaseSettlementRefundedMinor = fv_SettlementRefundedMinor f,
               rp_BaseReturnedMinor = fv_ReturnedMinor f,
               rp_SettlementMinor = sub64 (fv_SettlementMinor f) (fv_SettlementRefundedMinor f),
               rp_NetShareMinor = sub64 (fv_SharedMinor f) (fv_ReturnedMinor f),
               rp_RemainingNoCashMinor = 0, rp_PreReturnMinor = 0\<rparr>
      in case fv_ChannelAmounts f of
           None \<Rightarrow> Inl ErrConflict
         | Some amounts \<Rightarrow>
      if ap_Basis (fv_Allocation f) \<noteq> ServiceAllocationChannelNetFloorV2
         \<or> \<not> Validate_ServicePaymentAmounts amounts (fv_GrossMinor f)
         \<or> fv_ReconciliationReason f \<noteq> [] \<or> fv_ChargedBackMinor f \<noteq> 0 \<or> amount \<le> 0
         \<or> amount > sub64 (fv_GrossMinor f) (fv_RefundedMinor f) then Inl ErrConflict
      else case remaining_no_cash (fv_VoucherRefundedMinor f) 0 (pa_Vouchers amounts) of
             None \<Rightarrow> Inl ErrConflict
           | Some noCash \<Rightarrow>
               let p1 = p\<lparr>rp_RemainingNoCashMinor := noCash\<rparr> in
               if fv_SharedMinor f > 0 then
                 if share = [] \<or> rp_NetShareMinor p1 \<noteq> fv_PlatformMinor f then Inl ErrConflict
                 else
                   let lower = (let l = sub64 amount noCash in if l < 0 then 0 else l) in
                   case ServiceAllocation (rp_SettlementMinor p1) lower (rp_Allocation p1) of
                     Inl e \<Rightarrow> Inl e
                   | Inr (target, _) \<Rightarrow>
                       let p2 = p1\<lparr>rp_PreReturnMinor := sub64 (rp_NetShareMinor p1) target\<rparr> in
                       if Validate_ServiceRefundPlan p2 then Inr p2 else Inl ErrInvalid
               else
                 let p2 = p1\<lparr>rp_OriginalShareID := []\<rparr> in
                 if Validate_ServiceRefundPlan p2 then Inr p2 else Inl ErrInvalid)"

section \<open>Admissions\<close>

record ServiceFulfillmentAdmission =
  fa_Payment :: ServicePaymentInput
  fa_PaymentReceiptID :: string
  fa_OrganizationID :: string
  fa_ActorID :: string
  fa_Kind :: string
  fa_Key :: string
  fa_CommandFingerprint :: string
  fa_RequestVersion :: i64
  fa_QuoteVersion :: i64

definition Validate_ServiceFulfillmentAdmission :: "ServiceFulfillmentAdmission \<Rightarrow> bool" where
  "Validate_ServiceFulfillmentAdmission i \<longleftrightarrow>
     (let provider = (fa_Kind i = ''start'' \<or> fa_Kind i = ''deliver'');
          buyer = (fa_Kind i = ''accept'' \<or> fa_Kind i = ''reject'') in
      \<not> (\<not> Validate_ServicePaymentInput (fa_Payment i)
         \<or> \<not> isCanonicalWalletIdentifier (fa_PaymentReceiptID i)
         \<or> \<not> isCanonicalWalletIdentifier (fa_Key i)
         \<or> (\<not> provider \<and> \<not> buyer)
         \<or> (provider \<and> fa_OrganizationID i \<noteq> si_ProviderOrganizationID (fa_Payment i))
         \<or> (buyer \<and> fa_OrganizationID i \<noteq> si_BuyerOrganizationID (fa_Payment i))
         \<or> fa_ActorID i = [] \<or> TrimSpace (fa_ActorID i) \<noteq> fa_ActorID i
         \<or> length (fa_ActorID i) > 256 \<or> length (fa_CommandFingerprint i) \<noteq> 64
         \<or> fa_RequestVersion i < 1 \<or> fa_QuoteVersion i < 1))"

record ServiceFulfillmentProof =
  fp_ReceiptID :: string
  fp_InputFingerprint :: string
  fp_PaymentReceiptID :: string
  fp_OccurredAt :: gotime
  fp_ResultFingerprint :: string

record ServiceRefundReviewAdmission =
  va_Payment :: ServicePaymentInput
  va_PaymentReceiptID :: string
  va_OrganizationID :: string
  va_ActorID :: string
  va_Kind :: string
  va_Key :: string
  va_CommandFingerprint :: string
  va_RequestVersion :: i64
  va_RefundVersion :: i64
  va_QuoteVersion :: i64
  va_AmountMinor :: i64

definition Validate_ServiceRefundReviewAdmission :: "ServiceRefundReviewAdmission \<Rightarrow> bool" where
  "Validate_ServiceRefundReviewAdmission i \<longleftrightarrow>
     \<not> (\<not> Validate_ServicePaymentInput (va_Payment i)
        \<or> \<not> isCanonicalWalletIdentifier (va_PaymentReceiptID i)
        \<or> \<not> isCanonicalWalletIdentifier (va_Key i) \<or> va_Kind i \<noteq> ''refund_review''
        \<or> va_ActorID i = [] \<or> TrimSpace (va_ActorID i) \<noteq> va_ActorID i
        \<or> length (va_ActorID i) > 256 \<or> length (va_OrganizationID i) > 128
        \<or> length (va_CommandFingerprint i) \<noteq> 64 \<or> va_RequestVersion i < 1
        \<or> va_RefundVersion i < 1 \<or> va_QuoteVersion i < 1 \<or> va_AmountMinor i \<le> 0
        \<or> va_AmountMinor i > ps_GrossAmountMinor (si_Payment (va_Payment i)))"

record ServiceRefundReviewProof =
  vp_ReceiptID :: string
  vp_InputFingerprint :: string
  vp_PaymentReceiptID :: string
  vp_RemainingMinor :: i64
  vp_OccurredAt :: gotime
  vp_ResultFingerprint :: string

definition ValidateServiceUncertaintyProof :: "string \<Rightarrow> bool" where
  "ValidateServiceUncertaintyProof proof \<longleftrightarrow> isCanonicalWalletIdentifier proof"

section \<open>Fingerprints\<close>

datatype service_doc =
    SDocStrings "string list"
  | SDocPaymentInput ServicePaymentInput
  | SDocUncertainty string string
  | SDocOperation ServiceOperation
  | SDocFailure ServiceOperationFailure
  | SDocEffect ServiceEffect
  | SDocReceipt ServiceReceipt
  | SDocFunds ServiceFundsView
  | SDocFee ServiceChannelFee
  | SDocUnsplit ServiceUnsplitObservation
  | SDocChargeback ChargebackSettlement
  | SDocFulfillment string string string string string string string i64 i64
  | SDocFulfillmentProof ServiceFulfillmentProof
  | SDocReview string string string string string string string i64 i64 i64 i64
  | SDocReviewProof ServiceRefundReviewProof

definition ServiceFingerprint :: "service_doc digest \<Rightarrow> service_doc \<Rightarrow> string" where
  "ServiceFingerprint sha doc = sha ''service-purchase:v1:'' doc"

definition Fingerprint_ServicePaymentInput :: "service_doc digest \<Rightarrow> ServicePaymentInput \<Rightarrow> string" where
  "Fingerprint_ServicePaymentInput sha i =
     ServiceFingerprint sha (SDocPaymentInput
       (i\<lparr>si_ChannelAmounts := map_option Normalize_ServicePaymentAmounts (si_ChannelAmounts i),
          si_Payment := (si_Payment i)\<lparr>ps_SettledAt := NormalizeTimestamp (ps_SettledAt (si_Payment i))\<rparr>\<rparr>))"

definition Fingerprint_ServiceEffect :: "service_doc digest \<Rightarrow> ServiceEffect \<Rightarrow> string" where
  "Fingerprint_ServiceEffect sha e =
     ServiceFingerprint sha (SDocEffect
       (e\<lparr>se_RefundAmounts := map_option Normalize_ServiceRefundAmounts (se_RefundAmounts e),
          se_OccurredAt := NormalizeTimestamp (se_OccurredAt e)\<rparr>))"

definition Fingerprint_ServiceChannelFee :: "service_doc digest \<Rightarrow> ServiceChannelFee \<Rightarrow> string" where
  "Fingerprint_ServiceChannelFee sha i =
     ServiceFingerprint sha (SDocFee
       (i\<lparr>cf_ProofID := [], cf_OccurredAt := NormalizeTimestamp (cf_OccurredAt i)\<rparr>))"

definition Fingerprint_ServiceReceipt :: "service_doc digest \<Rightarrow> ServiceReceipt \<Rightarrow> string" where
  "Fingerprint_ServiceReceipt sha r =
     ServiceFingerprint sha (SDocReceipt (r\<lparr>sr_ResultFingerprint := []\<rparr>))"

definition Validate_ServiceReceipt :: "service_doc digest \<Rightarrow> ServiceReceipt \<Rightarrow> bool" where
  "Validate_ServiceReceipt sha r \<longleftrightarrow>
     \<not> (\<not> isCanonicalWalletIdentifier (sr_ReceiptID r)
        \<or> \<not> isCanonicalWalletIdentifier (sr_OrderID r)
        \<or> \<not> isCanonicalWalletIdentifier (sr_OperationID r)
        \<or> sr_RequestFingerprint r = []
        \<or> sr_ResultFingerprint r \<noteq> Fingerprint_ServiceReceipt sha r
        \<or> IsZero (sr_OccurredAt r) \<or> sr_AmountMinor r < 0)"

definition Fingerprint_ServiceFulfillmentAdmission ::
  "service_doc digest \<Rightarrow> ServiceFulfillmentAdmission \<Rightarrow> string" where
  "Fingerprint_ServiceFulfillmentAdmission sha i =
     ServiceFingerprint sha (SDocFulfillment (Fingerprint_ServicePaymentInput sha (fa_Payment i))
       (fa_PaymentReceiptID i) (fa_OrganizationID i) (fa_ActorID i) (fa_Kind i) (fa_Key i)
       (fa_CommandFingerprint i) (fa_RequestVersion i) (fa_QuoteVersion i))"

definition Identity_ServiceFulfillmentAdmission ::
  "service_doc digest \<Rightarrow> ServiceFulfillmentAdmission \<Rightarrow> string" where
  "Identity_ServiceFulfillmentAdmission sha i =
     ''service-fulfillment:'' @
       ServiceFingerprint sha (SDocStrings [fa_OrganizationID i, fa_Kind i, fa_Key i])"

definition Fingerprint_ServiceFulfillmentProof ::
  "service_doc digest \<Rightarrow> ServiceFulfillmentProof \<Rightarrow> string" where
  "Fingerprint_ServiceFulfillmentProof sha p =
     ServiceFingerprint sha (SDocFulfillmentProof (p\<lparr>fp_ResultFingerprint := []\<rparr>))"

definition Matches_ServiceFulfillmentProof ::
  "service_doc digest \<Rightarrow> ServiceFulfillmentProof \<Rightarrow> ServiceFulfillmentAdmission \<Rightarrow> bool" where
  "Matches_ServiceFulfillmentProof sha p i \<longleftrightarrow>
     Validate_ServiceFulfillmentAdmission i
     \<and> fp_ReceiptID p = Identity_ServiceFulfillmentAdmission sha i
     \<and> fp_InputFingerprint p = Fingerprint_ServiceFulfillmentAdmission sha i
     \<and> fp_PaymentReceiptID p = fa_PaymentReceiptID i \<and> \<not> IsZero (fp_OccurredAt p)
     \<and> fp_ResultFingerprint p = Fingerprint_ServiceFulfillmentProof sha p"

definition Fingerprint_ServiceRefundReviewAdmission ::
  "service_doc digest \<Rightarrow> ServiceRefundReviewAdmission \<Rightarrow> string" where
  "Fingerprint_ServiceRefundReviewAdmission sha i =
     ServiceFingerprint sha (SDocReview (Fingerprint_ServicePaymentInput sha (va_Payment i))
       (va_PaymentReceiptID i) (va_OrganizationID i) (va_ActorID i) (va_Kind i) (va_Key i)
       (va_CommandFingerprint i) (va_RequestVersion i) (va_RefundVersion i) (va_QuoteVersion i)
       (va_AmountMinor i))"

definition Identity_ServiceRefundReviewAdmission ::
  "service_doc digest \<Rightarrow> ServiceRefundReviewAdmission \<Rightarrow> string" where
  "Identity_ServiceRefundReviewAdmission sha i =
     ''service-refund-review:'' @
       ServiceFingerprint sha (SDocStrings [va_OrganizationID i, va_Kind i, va_Key i])"

definition Fingerprint_ServiceRefundReviewProof ::
  "service_doc digest \<Rightarrow> ServiceRefundReviewProof \<Rightarrow> string" where
  "Fingerprint_ServiceRefundReviewProof sha p =
     ServiceFingerprint sha (SDocReviewProof (p\<lparr>vp_ResultFingerprint := []\<rparr>))"

definition Matches_ServiceRefundReviewProof ::
  "service_doc digest \<Rightarrow> ServiceRefundReviewProof \<Rightarrow> ServiceRefundReviewAdmission \<Rightarrow> bool" where
  "Matches_ServiceRefundReviewProof sha p i \<longleftrightarrow>
     Validate_ServiceRefundReviewAdmission i
     \<and> vp_ReceiptID p = Identity_ServiceRefundReviewAdmission sha i
     \<and> vp_InputFingerprint p = Fingerprint_ServiceRefundReviewAdmission sha i
     \<and> vp_PaymentReceiptID p = va_PaymentReceiptID i
     \<and> vp_RemainingMinor p \<ge> va_AmountMinor i
     \<and> vp_RemainingMinor p \<le> ps_GrossAmountMinor (si_Payment (va_Payment i))
     \<and> \<not> IsZero (vp_OccurredAt p)
     \<and> vp_ResultFingerprint p = Fingerprint_ServiceRefundReviewProof sha p"

end
