(* ===== verification/Money_DB.thy ===== *)
theory Money_DB
  imports Service_Types
begin

text \<open>
  The tables of the money owner, one record per row struct of
  \<open>internal/integration/persistence/money\<close>, and the database state \<open>money_db\<close> that holds
  them. The wallet table is a partial map from its primary key (organization and currency);
  the other tables are lists of rows in insertion order.

  The \<open>clash\<close> predicates are the unique keys of the row structs' tags: an \<open>INSERT\<close> of the
  first row fails when the second is present.
\<close>

record paymentRow =
  py_PaymentID :: string
  py_PaymentPurpose :: string
  py_CommissionTreatment :: string
  py_PayerBinding :: string
  py_PayerUserID :: string
  py_Currency :: string
  py_GrossAmountMinor :: i64
  py_DiscountAmountMinor :: i64
  py_CommissionableAmountMinor :: i64
  py_Status :: PaymentStatus
  py_SettledAt :: gotime
  py_ProviderReference :: string
  py_Version :: i64

record refundRow =
  rf_RefundID :: string
  rf_PaymentID :: string
  rf_AmountMinor :: i64
  rf_OccurredAt :: gotime
  rf_ProviderReference :: string

record chargebackRow =
  cb_ChargebackID :: string
  cb_PaymentID :: string
  cb_AmountMinor :: i64
  cb_OccurredAt :: gotime
  cb_ProviderReference :: string

record payoutMethodRow =
  mr_MethodID :: string
  mr_SubjectUserID :: string
  mr_Type :: PayoutMethodType
  mr_DisplayName :: string
  mr_MaskedDestination :: string
  mr_SecureReference :: string
  mr_EncryptionKeyID :: string
  mr_Status :: PayoutMethodStatus
  mr_CreatedAt :: gotime
  mr_UpdatedAt :: gotime
  mr_Version :: i64

record payoutMethodOperationRow =
  mo_IdempotencyKey :: string
  mo_MethodID :: string
  mo_Fingerprint :: string
  mo_CreatedAt :: gotime

record organizationWalletRow =
  ow_OrganizationID :: string
  ow_Currency :: string
  ow_AvailableMinor :: i64
  ow_ReservedMinor :: i64
  ow_DebtMinor :: i64
  ow_LifetimeTopUpMinor :: i64
  ow_LifetimeSpendMinor :: i64
  ow_Version :: i64
  ow_UpdatedAt :: gotime

record organizationWalletEntryRow =
  we_EntryID :: string
  we_OrganizationID :: string
  we_Currency :: string
  we_Kind :: WalletEntryKind
  we_AvailableDelta :: i64
  we_ReservedDelta :: i64
  we_DebtDelta :: i64
  we_AvailableAfter :: i64
  we_ReservedAfter :: i64
  we_DebtAfter :: i64
  we_CommercialOrderID :: string
  we_PaymentID :: string
  we_SourceIdentity :: string
  we_OccurredAt :: gotime

record walletReservationRow =
  rv_OrganizationID :: string
  rv_ReservationID :: string
  rv_OperationID :: string
  rv_CommercialOrderID :: string
  rv_FinishOperationID :: "string option"
  rv_Currency :: string
  rv_AmountMinor :: i64
  rv_State :: WalletReservationState
  rv_CreatedAt :: gotime
  rv_UpdatedAt :: gotime

record walletReserveDecisionRow =
  rd_OrganizationID :: string
  rd_OperationID :: string
  rd_CommercialOrderID :: string
  rd_Currency :: string
  rd_AmountMinor :: i64
  rd_Outcome :: WalletReserveDecisionOutcome
  rd_ReservationID :: string
  rd_DecidedAt :: gotime

record walletTopUpSettlementRow =
  ts_PaymentID :: string
  ts_CommercialOrderID :: string
  ts_OrganizationID :: string
  ts_Currency :: string
  ts_AmountMinor :: i64
  ts_SettledAt :: gotime
  ts_ProviderReference :: string
  ts_Version :: i64

record walletReversalRow =
  wv_ReversalID :: string
  wv_PaymentID :: string
  wv_CommercialOrderID :: string
  wv_OrganizationID :: string
  wv_Kind :: WalletReversalKind
  wv_AmountMinor :: i64
  wv_ProviderReference :: string
  wv_OccurredAt :: gotime

record providerTopUpRow =
  pt_ClaimID :: string
  pt_PaymentID :: string
  pt_CommercialOrderID :: string
  pt_OrganizationID :: string
  pt_Fingerprint :: string
  pt_Receipt :: "TopUpPostingReceipt blob"

record topUpReversalReceiptRow =
  tr_ReceiptID :: string
  tr_PaymentID :: string
  tr_Kind :: WalletReversalKind
  tr_ReversalID :: string
  tr_OrganizationID :: string
  tr_CommercialOrderID :: string
  tr_ProviderAmountMinor :: i64
  tr_WalletPrincipalEffectMinor :: i64
  tr_Fingerprint :: string
  tr_Receipt :: "TopUpReversalReceipt blob"

record topUpExcessRow =
  tx_ReceiptID :: string
  tx_PaymentID :: string
  tx_Kind :: WalletReversalKind
  tx_ReversalID :: string
  tx_ProviderReference :: string
  tx_ProviderAmountMinor :: i64
  tx_WalletPrincipalEffectMinor :: i64
  tx_ExcessProviderMinor :: i64
  tx_State :: string

record topUpRefundHoldRow =
  th_HoldID :: string
  th_PaymentID :: string
  th_ReversalID :: string
  th_OrganizationID :: string
  th_CommercialOrderID :: string
  th_AmountMinor :: i64
  th_ApprovalID :: string
  th_State :: HoldState
  th_Dispatched :: bool
  th_CreatedAt :: gotime

record channelPaymentClaimRow =
  cc_ClaimID :: string
  cc_PaymentID :: string
  cc_Purpose :: string

record servicePaymentRow =
  sp_SettlementRefundedMinor :: i64
  sp_PayerRefundedMinor :: i64
  sp_VoucherRefunded :: "(string \<rightharpoonup> i64) blob"
  sp_PendingRefundPlan :: "ServiceRefundPlan blob"
  sp_ChannelFeeMinor :: i64
  sp_ChannelFeeObserved :: bool
  sp_OrderID :: string
  sp_RequestID :: string
  sp_ClaimID :: string
  sp_PaymentID :: string
  sp_BuyerOrganizationID :: string
  sp_ProviderOrganizationID :: string
  sp_Fingerprint :: string
  sp_Input :: "ServicePaymentInput blob"
  sp_Receipt :: "ServiceReceipt blob"
  sp_GrossMinor :: i64
  sp_RefundedMinor :: i64
  sp_ChargedBackMinor :: i64
  sp_SharedMinor :: i64
  sp_ReturnedMinor :: i64
  sp_ReleasedMinor :: i64
  sp_AutomaticReleasedMinor :: i64
  sp_PendingOperationID :: string
  sp_ReconciliationReason :: string

datatype ServiceReservationState =
  ServicePrepared | ServiceConfirmed | ServiceFailed | ServiceAbandoned

record serviceReservationRow =
  sq_OperationID :: string
  sq_OrderID :: string
  sq_Kind :: ServiceEffectKind
  sq_Fingerprint :: string
  sq_Operation :: ServiceOperation
  sq_State :: ServiceReservationState
  sq_Dispatched :: bool
  sq_DenialProofID :: string
  sq_Receipt :: "ServiceReceipt blob"

text \<open>
  What an effect row stores: a receipt, a receipt with the fee it came from, or a balance
  observation, which does not decode to a valid receipt.
\<close>

datatype service_payload =
    PayloadReceipt ServiceReceipt
  | PayloadFee ServiceReceipt ServiceChannelFee
  | PayloadUnsplit ServiceUnsplitObservation

record serviceEffectRow =
  sx_OperationID :: string
  sx_OrderID :: string
  sx_Kind :: ServiceEffectKind
  sx_Fingerprint :: string
  sx_Receipt :: "service_payload blob"

record serviceFulfillmentRow =
  sl_ReceiptID :: string
  sl_OrderID :: string
  sl_Fingerprint :: string
  sl_Input :: "ServiceFulfillmentAdmission blob"
  sl_Proof :: "ServiceFulfillmentProof blob"

record serviceRefundReviewRow =
  sw_ReceiptID :: string
  sw_OrderID :: string
  sw_Fingerprint :: string
  sw_Input :: "ServiceRefundReviewAdmission blob"
  sw_Proof :: "ServiceRefundReviewProof blob"

text \<open>The database of the money owner.\<close>

record money_db =
  db_payments :: "paymentRow list"
  db_refunds :: "refundRow list"
  db_chargebacks :: "chargebackRow list"
  db_payoutMethods :: "payoutMethodRow list"
  db_payoutOperations :: "payoutMethodOperationRow list"
  db_wallets :: "string \<times> string \<rightharpoonup> organizationWalletRow"
  db_entries :: "organizationWalletEntryRow list"
  db_reservations :: "walletReservationRow list"
  db_decisions :: "walletReserveDecisionRow list"
  db_settlements :: "walletTopUpSettlementRow list"
  db_reversals :: "walletReversalRow list"
  db_topups :: "providerTopUpRow list"
  db_receipts :: "topUpReversalReceiptRow list"
  db_excess :: "topUpExcessRow list"
  db_holds :: "topUpRefundHoldRow list"
  db_claims :: "channelPaymentClaimRow list"
  db_services :: "servicePaymentRow list"
  db_serviceReservations :: "serviceReservationRow list"
  db_serviceEffects :: "serviceEffectRow list"
  db_fulfillments :: "serviceFulfillmentRow list"
  db_reviews :: "serviceRefundReviewRow list"

definition empty_db :: money_db where
  "empty_db =
     \<lparr>db_payments = [], db_refunds = [], db_chargebacks = [], db_payoutMethods = [],
      db_payoutOperations = [], db_wallets = Map.empty, db_entries = [], db_reservations = [],
      db_decisions = [], db_settlements = [], db_reversals = [], db_topups = [],
      db_receipts = [], db_excess = [], db_holds = [], db_claims = [], db_services = [],
      db_serviceReservations = [], db_serviceEffects = [], db_fulfillments = [],
      db_reviews = []\<rparr>"

section \<open>Unique keys\<close>

definition payment_clash :: "paymentRow \<Rightarrow> paymentRow \<Rightarrow> bool" where
  "payment_clash r x \<longleftrightarrow> py_PaymentID x = py_PaymentID r"
definition refund_clash :: "refundRow \<Rightarrow> refundRow \<Rightarrow> bool" where
  "refund_clash r x \<longleftrightarrow> rf_RefundID x = rf_RefundID r"
definition chargeback_clash :: "chargebackRow \<Rightarrow> chargebackRow \<Rightarrow> bool" where
  "chargeback_clash r x \<longleftrightarrow> cb_ChargebackID x = cb_ChargebackID r"
definition payoutMethod_clash :: "payoutMethodRow \<Rightarrow> payoutMethodRow \<Rightarrow> bool" where
  "payoutMethod_clash r x \<longleftrightarrow> mr_MethodID x = mr_MethodID r"
definition payoutOperation_clash :: "payoutMethodOperationRow \<Rightarrow> payoutMethodOperationRow \<Rightarrow> bool" where
  "payoutOperation_clash r x \<longleftrightarrow> mo_IdempotencyKey x = mo_IdempotencyKey r"
definition entry_clash :: "organizationWalletEntryRow \<Rightarrow> organizationWalletEntryRow \<Rightarrow> bool" where
  "entry_clash r x \<longleftrightarrow> we_EntryID x = we_EntryID r"
definition reservation_clash :: "walletReservationRow \<Rightarrow> walletReservationRow \<Rightarrow> bool" where
  "reservation_clash r x \<longleftrightarrow>
     rv_ReservationID x = rv_ReservationID r
     \<or> (rv_OperationID x = rv_OperationID r \<and> rv_CommercialOrderID x = rv_CommercialOrderID r)
     \<or> (rv_FinishOperationID r \<noteq> None \<and> rv_FinishOperationID x = rv_FinishOperationID r)"
definition decision_clash :: "walletReserveDecisionRow \<Rightarrow> walletReserveDecisionRow \<Rightarrow> bool" where
  "decision_clash r x \<longleftrightarrow>
     rd_OrganizationID x = rd_OrganizationID r \<and> rd_OperationID x = rd_OperationID r
     \<and> rd_CommercialOrderID x = rd_CommercialOrderID r"
definition settlement_clash :: "walletTopUpSettlementRow \<Rightarrow> walletTopUpSettlementRow \<Rightarrow> bool" where
  "settlement_clash r x \<longleftrightarrow>
     ts_PaymentID x = ts_PaymentID r \<or> ts_CommercialOrderID x = ts_CommercialOrderID r"
definition reversal_clash :: "walletReversalRow \<Rightarrow> walletReversalRow \<Rightarrow> bool" where
  "reversal_clash r x \<longleftrightarrow> wv_ReversalID x = wv_ReversalID r"
definition topup_clash :: "providerTopUpRow \<Rightarrow> providerTopUpRow \<Rightarrow> bool" where
  "topup_clash r x \<longleftrightarrow>
     pt_ClaimID x = pt_ClaimID r \<or> pt_PaymentID x = pt_PaymentID r
     \<or> pt_CommercialOrderID x = pt_CommercialOrderID r"
definition receipt_clash :: "topUpReversalReceiptRow \<Rightarrow> topUpReversalReceiptRow \<Rightarrow> bool" where
  "receipt_clash r x \<longleftrightarrow>
     tr_ReceiptID x = tr_ReceiptID r
     \<or> (tr_Kind x = tr_Kind r \<and> tr_ReversalID x = tr_ReversalID r)"
definition excess_clash :: "topUpExcessRow \<Rightarrow> topUpExcessRow \<Rightarrow> bool" where
  "excess_clash r x \<longleftrightarrow> tx_ReceiptID x = tx_ReceiptID r"
definition hold_clash :: "topUpRefundHoldRow \<Rightarrow> topUpRefundHoldRow \<Rightarrow> bool" where
  "hold_clash r x \<longleftrightarrow> th_HoldID x = th_HoldID r \<or> th_ReversalID x = th_ReversalID r"
definition claim_clash :: "channelPaymentClaimRow \<Rightarrow> channelPaymentClaimRow \<Rightarrow> bool" where
  "claim_clash r x \<longleftrightarrow> cc_ClaimID x = cc_ClaimID r \<or> cc_PaymentID x = cc_PaymentID r"
definition service_clash :: "servicePaymentRow \<Rightarrow> servicePaymentRow \<Rightarrow> bool" where
  "service_clash r x \<longleftrightarrow>
     sp_OrderID x = sp_OrderID r \<or> sp_RequestID x = sp_RequestID r
     \<or> sp_ClaimID x = sp_ClaimID r \<or> sp_PaymentID x = sp_PaymentID r"
definition serviceReservation_clash :: "serviceReservationRow \<Rightarrow> serviceReservationRow \<Rightarrow> bool" where
  "serviceReservation_clash r x \<longleftrightarrow> sq_OperationID x = sq_OperationID r"
definition serviceEffect_clash :: "serviceEffectRow \<Rightarrow> serviceEffectRow \<Rightarrow> bool" where
  "serviceEffect_clash r x \<longleftrightarrow> sx_OperationID x = sx_OperationID r"
definition fulfillment_clash :: "serviceFulfillmentRow \<Rightarrow> serviceFulfillmentRow \<Rightarrow> bool" where
  "fulfillment_clash r x \<longleftrightarrow> sl_ReceiptID x = sl_ReceiptID r"
definition review_clash :: "serviceRefundReviewRow \<Rightarrow> serviceRefundReviewRow \<Rightarrow> bool" where
  "review_clash r x \<longleftrightarrow> sw_ReceiptID x = sw_ReceiptID r"

lemmas clash_defs [row_simps] =
  payment_clash_def refund_clash_def chargeback_clash_def payoutMethod_clash_def
  payoutOperation_clash_def entry_clash_def reservation_clash_def decision_clash_def
  settlement_clash_def reversal_clash_def topup_clash_def receipt_clash_def excess_clash_def
  hold_clash_def claim_clash_def service_clash_def serviceReservation_clash_def
  serviceEffect_clash_def fulfillment_clash_def review_clash_def

end
