(* ===== verification/Contracts.thy ===== *)
theory Contracts
  imports Prelude
begin

text \<open>
  The contracts of the ledgers, stated once as locales and interpreted on the repositories'
  definitions.

  \<^item> \<open>account\<close>, \<open>acct_event\<close> and \<open>acct_apply\<close> are the abstract specification of a prepaid
    account with reservations and debt: what a credit, a reservation, its commit or release,
    a reversal and the confirmation of a refund hold may do to the balances.
  \<^item> Locale \<open>account_refinement\<close>: a stateful ledger whose every step is a run of the abstract
    account machine, for each account; every reachable state then satisfies the account
    invariant, the net position equation included.
  \<^item> Locale \<open>audited_ledger\<close>: a ledger that appends entries whose deltas explain every change
    of a balance; every reachable balance is then the sum of its entries.
  \<^item> Locale \<open>idempotent_tx\<close>: a transaction body that answers a repeated command with the first
    answer and no further effect, for the environments and commands that \<open>fit\<close>; under any
    sequence of faulty attempts the command then takes effect at most once.
\<close>

section \<open>The abstract account\<close>

record account =
  ac_avail :: int
  ac_res :: int
  ac_debt :: int
  ac_top :: int
  ac_spend :: int
  ac_rev :: int

definition empty_account :: account where
  "empty_account =
     \<lparr>ac_avail = 0, ac_res = 0, ac_debt = 0, ac_top = 0, ac_spend = 0, ac_rev = 0\<rparr>"

datatype acct_event =
    EvCredit int | EvReserve int | EvCommit int | EvRelease int
  | EvReverse int | EvConfirm int int

text \<open>Money that comes back to the account repays debt first.\<close>

definition acct_receive :: "int \<Rightarrow> account \<Rightarrow> account" where
  "acct_receive n a =
     a\<lparr>ac_avail := ac_avail a + (n - min (ac_debt a) n), ac_debt := ac_debt a - min (ac_debt a) n\<rparr>"

fun acct_apply :: "account \<Rightarrow> acct_event \<Rightarrow> account option" where
  "acct_apply a (EvCredit n) =
     (if 0 < n then Some ((acct_receive n a)\<lparr>ac_top := ac_top a + n\<rparr>) else None)"
| "acct_apply a (EvReserve n) =
     (if 0 < n \<and> n \<le> ac_avail a
      then Some (a\<lparr>ac_avail := ac_avail a - n, ac_res := ac_res a + n\<rparr>) else None)"
| "acct_apply a (EvCommit n) =
     (if 0 < n \<and> n \<le> ac_res a
      then Some (a\<lparr>ac_res := ac_res a - n, ac_spend := ac_spend a + n\<rparr>) else None)"
| "acct_apply a (EvRelease n) =
     (if 0 < n \<and> n \<le> ac_res a
      then Some (acct_receive n (a\<lparr>ac_res := ac_res a - n\<rparr>)) else None)"
| "acct_apply a (EvReverse n) =
     (if 0 < n
      then Some (a\<lparr>ac_avail := ac_avail a - min (ac_avail a) n,
                   ac_debt := ac_debt a + (n - min (ac_avail a) n), ac_rev := ac_rev a + n\<rparr>)
      else None)"
| "acct_apply a (EvConfirm n d) =
     (if 0 < n \<and> n \<le> ac_res a \<and> 0 \<le> d \<and> d \<le> n
      then Some (acct_receive (n - d) (a\<lparr>ac_res := ac_res a - n, ac_rev := ac_rev a + d\<rparr>))
      else None)"

fun acct_run :: "account \<Rightarrow> acct_event list \<Rightarrow> account option" where
  "acct_run a [] = Some a"
| "acct_run a (e # es) = (case acct_apply a e of None \<Rightarrow> None | Some b \<Rightarrow> acct_run b es)"

text \<open>
  The account invariant: balances are not negative, debt and available funds exclude each
  other, there is no more debt than was reversed, and the net position is what was topped up
  less what was spent or reversed.
\<close>

definition acct_inv :: "account \<Rightarrow> bool" where
  "acct_inv a \<longleftrightarrow>
     0 \<le> ac_avail a \<and> 0 \<le> ac_res a \<and> 0 \<le> ac_debt a \<and> (ac_debt a = 0 \<or> ac_avail a = 0)
     \<and> ac_debt a \<le> ac_rev a
     \<and> ac_avail a + ac_res a - ac_debt a = ac_top a - ac_spend a - ac_rev a"

lemma acct_inv_empty [simp]: "acct_inv empty_account"
  by (simp add: acct_inv_def empty_account_def)

lemma acct_apply_inv: "acct_apply a e = Some b \<Longrightarrow> acct_inv a \<Longrightarrow> acct_inv b"
  by (cases e) (auto simp: acct_inv_def acct_receive_def min_def split: if_splits)

lemma acct_run_inv: "acct_run a es = Some b \<Longrightarrow> acct_inv a \<Longrightarrow> acct_inv b"
  by (induction a es rule: acct_run.induct) (auto split: option.splits dest: acct_apply_inv)

lemma acct_run_append:
  "acct_run a (es @ fs) = (case acct_run a es of None \<Rightarrow> None | Some b \<Rightarrow> acct_run b fs)"
  by (induction a es rule: acct_run.induct) (auto split: option.splits)

text \<open>Lifetime totals never go down: what was credited, spent or reversed stays on record.\<close>

lemma acct_run_totals_mono:
  "acct_run a es = Some b \<Longrightarrow>
   ac_top a \<le> ac_top b \<and> ac_spend a \<le> ac_spend b \<and> ac_rev a \<le> ac_rev b"
proof (induction a es rule: acct_run.induct)
  case (1 a)
  then show ?case by simp
next
  case (2 a e es)
  then obtain c where c: "acct_apply a e = Some c" "acct_run c es = Some b"
    by (auto split: option.splits)
  then have "ac_top a \<le> ac_top c \<and> ac_spend a \<le> ac_spend c \<and> ac_rev a \<le> ac_rev c"
    by (cases e) (auto simp: acct_receive_def split: if_splits)
  with 2(1) [OF c] show ?case by linarith
qed

locale account_refinement =
  fixes acct :: "'s \<Rightarrow> 'k \<Rightarrow> account"
    and step :: "'s \<Rightarrow> 's \<Rightarrow> bool"
    and inv :: "'s \<Rightarrow> bool"
    and s0 :: 's
  assumes init_inv: "inv s0"
    and init_acct: "acct s0 k = empty_account"
    and step_inv: "inv s \<Longrightarrow> step s s' \<Longrightarrow> inv s'"
    and step_sim: "inv s \<Longrightarrow> step s s' \<Longrightarrow> \<exists>es. acct_run (acct s k) es = Some (acct s' k)"
begin

lemma reachable_inv: "reachable step s0 s \<Longrightarrow> inv s"
  by (erule reachable_invariant) (auto simp: init_inv step_inv)

lemma reachable_run: "reachable step s0 s \<Longrightarrow> \<exists>es. acct_run empty_account es = Some (acct s k)"
proof (induction rule: reachable.induct)
  case reach_refl
  have "acct_run empty_account [] = Some (acct s0 k)" by (simp add: init_acct)
  then show ?case by blast
next
  case (reach_step s s')
  then obtain es fs where "acct_run empty_account es = Some (acct s k)"
    "acct_run (acct s k) fs = Some (acct s' k)"
    using step_sim reachable_inv by blast
  then have "acct_run empty_account (es @ fs) = Some (acct s' k)"
    by (simp add: acct_run_append)
  then show ?case by blast
qed

lemma reachable_acct_inv: "reachable step s0 s \<Longrightarrow> acct_inv (acct s k)"
  using reachable_run acct_run_inv acct_inv_empty by blast

end

section \<open>Audited ledgers\<close>

locale audited_ledger =
  fixes balance :: "'s \<Rightarrow> 'k \<Rightarrow> 'd \<Rightarrow> int"
    and entries :: "'s \<Rightarrow> 'e list"
    and owner :: "'e \<Rightarrow> 'k"
    and delta :: "'e \<Rightarrow> 'd \<Rightarrow> int"
    and step :: "'s \<Rightarrow> 's \<Rightarrow> bool"
    and inv :: "'s \<Rightarrow> bool"
    and s0 :: 's
  assumes audit_init_inv: "inv s0"
    and audit_init: "entries s0 = []" "balance s0 k d = 0"
    and audit_step_inv: "inv s \<Longrightarrow> step s s' \<Longrightarrow> inv s'"
    and audit_step: "inv s \<Longrightarrow> step s s' \<Longrightarrow>
      \<exists>es. entries s' = entries s @ es \<and>
           (\<forall>k d. balance s' k d =
              balance s k d + sum_rows (\<lambda>e. owner e = k) (\<lambda>e. delta e d) es)"
begin

lemma reachable_reconciles:
  "reachable step s0 s \<Longrightarrow>
   inv s \<and> (\<forall>k d. balance s k d = sum_rows (\<lambda>e. owner e = k) (\<lambda>e. delta e d) (entries s))"
proof (induction rule: reachable.induct)
  case reach_refl
  then show ?case by (simp add: audit_init audit_init_inv)
next
  case (reach_step s s')
  then obtain es where "entries s' = entries s @ es"
    "\<forall>k d. balance s' k d = balance s k d + sum_rows (\<lambda>e. owner e = k) (\<lambda>e. delta e d) es"
    using audit_step by blast
  with reach_step show ?case using audit_step_inv by auto
qed

end

section \<open>At-most-once commands\<close>

text \<open>
  A client repeats a command until it gets an answer: each attempt has its own environment
  (clock and identifiers) and its own fault.
\<close>

fun run_attempts ::
  "('env \<Rightarrow> 'i \<Rightarrow> 'db \<Rightarrow> 'e + 'a \<times> 'db) \<Rightarrow> 'i \<Rightarrow> ('e tx_fault \<times> 'env) list \<Rightarrow> 'db \<Rightarrow>
   'db \<times> ('e + 'a) list" where
  "run_attempts body i [] db = (db, [])"
| "run_attempts body i ((flt, env) # rest) db =
     (let (db1, r) = run_tx flt (body env i) db; (db2, rs) = run_attempts body i rest db1
      in (db2, r # rs))"

locale idempotent_tx =
  fixes body :: "'env \<Rightarrow> 'i \<Rightarrow> 'db \<Rightarrow> 'e + 'a \<times> 'db"
    and wf :: "'db \<Rightarrow> bool"
    and fit :: "'env \<Rightarrow> 'i \<Rightarrow> bool"
  assumes replay: "wf db \<Longrightarrow> fit env i \<Longrightarrow> body env i db = Inr (a, db') \<Longrightarrow>
    body env' i db' = Inr (a, db')"
begin

lemma attempts_after:
  assumes "\<And>env'. body env' i db = Inr (a, db)"
  shows "fst (run_attempts body i as db) = db"
    and "Inr b \<in> set (snd (run_attempts body i as db)) \<Longrightarrow> b = a"
  using assms by (induction as) (auto simp: run_tx_def split: tx_fault.splits prod.splits)

lemma at_most_once:
  assumes "wf db" "\<forall>(flt, env)\<in>set as. fit env i" "run_attempts body i as db = (db', rs)"
  shows "(db' = db \<and> (\<forall>b. Inr b \<in> set rs \<longrightarrow> (\<exists>env. body env i db = Inr (b, db)))) \<or>
    (\<exists>env a. body env i db = Inr (a, db') \<and> (\<forall>b. Inr b \<in> set rs \<longrightarrow> b = a))"
  using assms(2,3)
proof (induction as arbitrary: db' rs)
  case Nil
  then show ?case by simp
next
  case (Cons x as)
  obtain flt env where x: "x = (flt, env)" by (cases x)
  obtain db1 r where tx: "run_tx flt (body env i) db = (db1, r)" by fastforce
  obtain db2 rs' where rest: "run_attempts body i as db1 = (db2, rs')" by fastforce
  have out: "db' = db2" "rs = r # rs'"
    using Cons.prems(2) by (simp_all add: x tx rest)
  show ?case
  proof (cases rule: run_tx_cases [of flt "body env i" db])
    case (rollback e)
    with tx have "db1 = db" "r = Inl e" by auto
    with Cons.IH [of db2 rs'] Cons.prems(1) rest out show ?thesis by auto
  next
    case (commit a db'')
    with tx have db1: "db1 = db''" and r: "\<forall>b. r = Inr b \<longrightarrow> b = a" by auto
    have again: "body env' i db1 = Inr (a, db1)" for env'
      using replay [OF assms(1) _ commit(1)] Cons.prems(1) db1 by (simp add: x)
    have "db2 = db1" "\<forall>b. Inr b \<in> set rs' \<longrightarrow> b = a"
      using attempts_after [where i = i and db = db1 and a = a and as = as] again rest by auto
    then have "body env i db = Inr (a, db') \<and> (\<forall>b. Inr b \<in> set rs \<longrightarrow> b = a)"
      using commit(1) db1 r out by auto
    then show ?thesis by blast
  qed
qed

end

end
