(* ===== verification/Wallet_Core.thy ===== *)
theory Wallet_Core
  imports Money_DB Contracts
begin

text \<open>
  The primitives on which every wallet mutation is built: locking or creating a wallet row,
  processing timestamps, saving the row, writing ledger entries, and the pure helpers of
  \<open>wallet_repository.go\<close>; \<open>postTopUpEntry\<close> and \<open>refundHold\<close> of
  \<open>provider_topup_repository.go\<close>. The facts state what each primitive does to the wallet
  table, and define the abstract account that a wallet row and its reversals represent.

  Clock readings and UUIDs come from the environment of a call: \<open>ce_now n\<close> and \<open>ce_uuid n\<close>
  are the values of the n-th use of \<open>time.Now\<close> and \<open>uuid.NewString\<close>.
\<close>

record call_env =
  ce_now :: "nat \<Rightarrow> gotime"
  ce_uuid :: "nat \<Rightarrow> string"

text \<open>The i-th nested call of a loop reads its own slice of the environment.\<close>

definition sub_env :: "nat \<Rightarrow> call_env \<Rightarrow> call_env" where
  "sub_env i e = \<lparr>ce_now = (\<lambda>n. ce_now e (8 * Suc i + n)), ce_uuid = (\<lambda>n. ce_uuid e (8 * Suc i + n))\<rparr>"

section \<open>Helpers\<close>

definition minInt64 :: "i64 \<Rightarrow> i64 \<Rightarrow> i64" where
  "minInt64 a b = (if a < b then a else b)"

definition addTopUp :: "i64 \<Rightarrow> i64 \<Rightarrow> i64 \<Rightarrow> merr + i64 \<times> i64" where
  "addTopUp available debt amount =
     (if debt \<ge> amount then Inr (available, sub64 debt amount)
      else let net = sub64 amount debt in
           if available > sub64 max64 net then Inl ErrInvalid
           else Inr (add64 available net, 0))"

definition sameTopUp :: "walletTopUpSettlementRow \<Rightarrow> OrganizationTopUpSettlement \<Rightarrow> bool" where
  "sameTopUp row v \<longleftrightarrow>
     ts_CommercialOrderID row = os_CommercialOrderID v \<and> ts_OrganizationID row = os_OrganizationID v
     \<and> ts_Currency row = os_Currency v \<and> ts_AmountMinor row = os_AmountMinor v
     \<and> ts_ProviderReference row = os_ProviderReference v \<and> ts_Version row = os_Version v
     \<and> ts_SettledAt row = NormalizeTimestamp (os_SettledAt v)"

definition walletSnapshot :: "organizationWalletRow \<Rightarrow> OrganizationWalletSnapshot" where
  "walletSnapshot row =
     \<lparr>ws_OrganizationID = ow_OrganizationID row, ws_Currency = ow_Currency row,
      ws_AvailableMinor = ow_AvailableMinor row, ws_ReservedMinor = ow_ReservedMinor row,
      ws_DebtMinor = ow_DebtMinor row, ws_LifetimeTopUpMinor = ow_LifetimeTopUpMinor row,
      ws_LifetimeSpendMinor = ow_LifetimeSpendMinor row, ws_Version = ow_Version row,
      ws_UpdatedAt = ow_UpdatedAt row\<rparr>"

definition emptyWallet :: "gotime \<Rightarrow> string \<Rightarrow> string \<Rightarrow> OrganizationWalletSnapshot" where
  "emptyWallet now org cur =
     \<lparr>ws_OrganizationID = org, ws_Currency = cur, ws_AvailableMinor = 0, ws_ReservedMinor = 0,
      ws_DebtMinor = 0, ws_LifetimeTopUpMinor = 0, ws_LifetimeSpendMinor = 0, ws_Version = 1,
      ws_UpdatedAt = now\<rparr>"

definition walletEntry :: "organizationWalletEntryRow \<Rightarrow> WalletEntry" where
  "walletEntry row =
     \<lparr>en_EntryID = we_EntryID row, en_OrganizationID = we_OrganizationID row,
      en_Currency = we_Currency row, en_Kind = we_Kind row,
      en_AvailableDelta = we_AvailableDelta row, en_ReservedDelta = we_ReservedDelta row,
      en_DebtDelta = we_DebtDelta row, en_AvailableAfter = we_AvailableAfter row,
      en_ReservedAfter = we_ReservedAfter row, en_DebtAfter = we_DebtAfter row,
      en_CommercialOrderID = we_CommercialOrderID row, en_PaymentID = we_PaymentID row,
      en_SourceIdentity = we_SourceIdentity row, en_OccurredAt = we_OccurredAt row\<rparr>"

definition reservationFromRow :: "walletReservationRow \<Rightarrow> WalletReservation" where
  "reservationFromRow row =
     \<lparr>wr_ReservationID = rv_ReservationID row, wr_OperationID = rv_OperationID row,
      wr_OrganizationID = rv_OrganizationID row, wr_CommercialOrderID = rv_CommercialOrderID row,
      wr_Currency = rv_Currency row, wr_AmountMinor = rv_AmountMinor row,
      wr_State = rv_State row, wr_Version = 1, wr_CreatedAt = rv_CreatedAt row,
      wr_UpdatedAt = rv_UpdatedAt row\<rparr>"

definition reserveDecisionFromRow :: "walletReserveDecisionRow \<Rightarrow> WalletReserveDecision" where
  "reserveDecisionFromRow row =
     \<lparr>de_OperationID = rd_OperationID row, de_OrganizationID = rd_OrganizationID row,
      de_CommercialOrderID = rd_CommercialOrderID row, de_Currency = rd_Currency row,
      de_AmountMinor = rd_AmountMinor row, de_Outcome = rd_Outcome row,
      de_ReservationID = rd_ReservationID row, de_DecidedAt = rd_DecidedAt row\<rparr>"

section \<open>The wallet row\<close>

text \<open>
  The seed row is inserted unless the wallet exists, then the row is read back under lock;
  the database keeps timestamps at microsecond precision.
\<close>

definition wallet_seed :: "gotime \<Rightarrow> string \<Rightarrow> string \<Rightarrow> organizationWalletRow" where
  "wallet_seed now org cur =
     \<lparr>ow_OrganizationID = org, ow_Currency = cur, ow_AvailableMinor = 0, ow_ReservedMinor = 0,
      ow_DebtMinor = 0, ow_LifetimeTopUpMinor = 0, ow_LifetimeSpendMinor = 0, ow_Version = 1,
      ow_UpdatedAt = truncate_us now\<rparr>"

definition lockOrCreateWallet ::
  "gotime \<Rightarrow> string \<Rightarrow> string \<Rightarrow> money_db \<Rightarrow> organizationWalletRow \<times> money_db" where
  "lockOrCreateWallet now org cur db =
     (case db_wallets db (org, cur) of
        Some row \<Rightarrow> (row, db)
      | None \<Rightarrow> (wallet_seed now org cur,
                 db\<lparr>db_wallets := (db_wallets db)((org, cur) \<mapsto> wallet_seed now org cur)\<rparr>))"

definition nextWalletProcessingTimestamp :: "gotime \<Rightarrow> gotime \<Rightarrow> gotime" where
  "nextWalletProcessingTimestamp now previous =
     (if \<not> truncate_us now > truncate_us previous then truncate_us previous + 1000
      else truncate_us now)"

definition saveWalletRow :: "organizationWalletRow \<Rightarrow> money_db \<Rightarrow> money_db" where
  "saveWalletRow w db =
     (case db_wallets db (ow_OrganizationID w, ow_Currency w) of
        None \<Rightarrow> db
      | Some old \<Rightarrow>
          db\<lparr>db_wallets := (db_wallets db)((ow_OrganizationID w, ow_Currency w) \<mapsto>
            old\<lparr>ow_AvailableMinor := ow_AvailableMinor w, ow_ReservedMinor := ow_ReservedMinor w,
                ow_DebtMinor := ow_DebtMinor w, ow_LifetimeTopUpMinor := ow_LifetimeTopUpMinor w,
                ow_LifetimeSpendMinor := ow_LifetimeSpendMinor w, ow_Version := ow_Version w,
                ow_UpdatedAt := ow_UpdatedAt w\<rparr>)\<rparr>)"

definition insert_entry :: "organizationWalletEntryRow \<Rightarrow> money_db \<Rightarrow> money_db option" where
  "insert_entry row db =
     (case create_row entry_clash row (db_entries db) of
        None \<Rightarrow> None | Some t \<Rightarrow> Some (db\<lparr>db_entries := t\<rparr>))"

definition createWalletEntry ::
  "string \<Rightarrow> organizationWalletRow \<Rightarrow> WalletEntryKind \<Rightarrow> i64 \<Rightarrow> i64 \<Rightarrow> i64 \<Rightarrow> string \<Rightarrow> string \<Rightarrow>
   string \<Rightarrow> gotime \<Rightarrow> money_db \<Rightarrow> merr + money_db" where
  "createWalletEntry entryID w kind da dr dd orderID paymentID source at db =
     (if TrimSpace source = [] then Inl ErrInvalid
      else case insert_entry
          \<lparr>we_EntryID = entryID, we_OrganizationID = ow_OrganizationID w, we_Currency = ow_Currency w,
           we_Kind = kind, we_AvailableDelta = da, we_ReservedDelta = dr, we_DebtDelta = dd,
           we_AvailableAfter = ow_AvailableMinor w, we_ReservedAfter = ow_ReservedMinor w,
           we_DebtAfter = ow_DebtMinor w, we_CommercialOrderID = orderID,
           we_PaymentID = paymentID, we_SourceIdentity = source, we_OccurredAt = at\<rparr> db of
        None \<Rightarrow> Inl ErrDuplicatedKey | Some db' \<Rightarrow> Inr db')"

definition postTopUpEntry ::
  "gotime \<Rightarrow> string \<Rightarrow> organizationWalletRow \<Rightarrow> WalletEntryKind \<Rightarrow> i64 \<Rightarrow> i64 \<Rightarrow> i64 \<Rightarrow> string \<Rightarrow>
   string \<Rightarrow> string \<Rightarrow> money_db \<Rightarrow> merr + (string \<times> organizationWalletRow) \<times> money_db" where
  "postTopUpEntry now entryID wallet kind da dr dd order payment source db =
     (let w = wallet\<lparr>ow_Version := add64 (ow_Version wallet) 1,
                     ow_UpdatedAt := nextWalletProcessingTimestamp now (ow_UpdatedAt wallet)\<rparr>;
          row = \<lparr>we_EntryID = entryID, we_OrganizationID = ow_OrganizationID w,
                 we_Currency = ow_Currency w, we_Kind = kind, we_AvailableDelta = da,
                 we_ReservedDelta = dr, we_DebtDelta = dd,
                 we_AvailableAfter = ow_AvailableMinor w, we_ReservedAfter = ow_ReservedMinor w,
                 we_DebtAfter = ow_DebtMinor w, we_CommercialOrderID = order,
                 we_PaymentID = payment, we_SourceIdentity = source,
                 we_OccurredAt = ow_UpdatedAt w\<rparr>
      in if \<not> Validate_WalletEntry (walletEntry row)
            \<or> \<not> Validate_OrganizationWalletSnapshot (walletSnapshot w) then Inl ErrInvalid
         else case insert_entry row (saveWalletRow w db) of
                None \<Rightarrow> Inl ErrDuplicatedKey
              | Some db' \<Rightarrow> Inr ((we_EntryID row, w), db'))"

definition paymentRowFromFact :: "PaymentSettlement \<Rightarrow> paymentRow" where
  "paymentRowFromFact p =
     \<lparr>py_PaymentID = ps_PaymentID p, py_PaymentPurpose = ps_PaymentPurpose p,
      py_CommissionTreatment = ps_CommissionTreatment p, py_PayerBinding = ps_PayerBinding p,
      py_PayerUserID = ps_PayerUserID p, py_Currency = ps_Currency p,
      py_GrossAmountMinor = ps_GrossAmountMinor p,
      py_DiscountAmountMinor = ps_DiscountAmountMinor p,
      py_CommissionableAmountMinor = ps_CommissionableAmountMinor p, py_Status = ps_Status p,
      py_SettledAt = NormalizeTimestamp (ps_SettledAt p),
      py_ProviderReference = ps_ProviderReference p, py_Version = ps_Version p\<rparr>"

definition refundHold :: "topUpRefundHoldRow \<Rightarrow> TopUpRefundHold" where
  "refundHold row =
     \<lparr>rh_HoldID = th_HoldID row,
      rh_Input = \<lparr>fi_Key = \<lparr>rk_PaymentID = th_PaymentID row, rk_Kind = WalletReversalRefund,
                           rk_ReversalID = th_ReversalID row\<rparr>,
                  fi_OrganizationID = th_OrganizationID row,
                  fi_CommercialOrderID = th_CommercialOrderID row,
                  fi_AmountMinor = th_AmountMinor row, fi_ApprovalID = th_ApprovalID row\<rparr>,
      rh_State = th_State row, rh_Dispatched = th_Dispatched row,
      rh_CreatedAt = th_CreatedAt row\<rparr>"

section \<open>What the primitives do\<close>

text \<open>A wallet row within the bounds of its columns and of the wallet's own rules.\<close>

definition wallet_ok :: "organizationWalletRow \<Rightarrow> bool" where
  "wallet_ok w \<longleftrightarrow>
     0 \<le> ow_AvailableMinor w \<and> ow_AvailableMinor w \<le> max64
     \<and> 0 \<le> ow_ReservedMinor w \<and> ow_ReservedMinor w \<le> max64
     \<and> 0 \<le> ow_DebtMinor w \<and> ow_DebtMinor w \<le> max64
     \<and> (ow_DebtMinor w = 0 \<or> ow_AvailableMinor w = 0)
     \<and> 0 \<le> ow_LifetimeTopUpMinor w \<and> ow_LifetimeTopUpMinor w \<le> max64
     \<and> 0 \<le> ow_LifetimeSpendMinor w \<and> ow_LifetimeSpendMinor w \<le> max64"

definition wallets_ok :: "money_db \<Rightarrow> bool" where
  "wallets_ok db \<longleftrightarrow>
     (\<forall>k w. db_wallets db k = Some w \<longrightarrow>
        wallet_ok w \<and> k = (ow_OrganizationID w, ow_Currency w))"

lemma wallets_okD:
  "wallets_ok db \<Longrightarrow> db_wallets db (org, cur) = Some w \<Longrightarrow>
   wallet_ok w \<and> ow_OrganizationID w = org \<and> ow_Currency w = cur"
  by (auto simp: wallets_ok_def)

lemma wallet_seed_ok [simp]: "wallet_ok (wallet_seed now org cur)"
  by (simp add: wallet_ok_def wallet_seed_def max64_def)

lemma wallet_seed_sel [simp]:
  "ow_OrganizationID (wallet_seed now org cur) = org"
  "ow_Currency (wallet_seed now org cur) = cur"
  "ow_AvailableMinor (wallet_seed now org cur) = 0"
  "ow_ReservedMinor (wallet_seed now org cur) = 0"
  "ow_DebtMinor (wallet_seed now org cur) = 0"
  "ow_LifetimeTopUpMinor (wallet_seed now org cur) = 0"
  "ow_LifetimeSpendMinor (wallet_seed now org cur) = 0"
  by (simp_all add: wallet_seed_def)

text \<open>The balances of a wallet key; a wallet that does not exist yet counts as empty.\<close>

definition wallet_at :: "money_db \<Rightarrow> string \<times> string \<Rightarrow> organizationWalletRow" where
  "wallet_at db k = (case db_wallets db k of None \<Rightarrow> wallet_seed 0 (fst k) (snd k) | Some w \<Rightarrow> w)"

lemma wallet_at_ok: "wallets_ok db \<Longrightarrow> wallet_ok (wallet_at db k)"
  by (cases k) (auto simp: wallet_at_def wallets_ok_def split: option.splits)

text \<open>
  Locking returns a wallet with the key's balances and leaves every balance as it was; saving
  a row under that key changes that wallet alone.
\<close>

lemma lockOrCreateWallet_spec:
  assumes "wallets_ok db" "lockOrCreateWallet now org cur db = (w, db1)"
  shows "wallet_ok w" "ow_OrganizationID w = org" "ow_Currency w = cur"
    "db_wallets db1 (org, cur) = Some w" "wallets_ok db1"
    "db1 = db\<lparr>db_wallets := db_wallets db1\<rparr>"
    "ow_AvailableMinor w = ow_AvailableMinor (wallet_at db (org, cur))"
    "ow_ReservedMinor w = ow_ReservedMinor (wallet_at db (org, cur))"
    "ow_DebtMinor w = ow_DebtMinor (wallet_at db (org, cur))"
    "ow_LifetimeTopUpMinor w = ow_LifetimeTopUpMinor (wallet_at db (org, cur))"
    "ow_LifetimeSpendMinor w = ow_LifetimeSpendMinor (wallet_at db (org, cur))"
    "\<And>k. k \<noteq> (org, cur) \<Longrightarrow> db_wallets db1 k = db_wallets db k"
  using assms
  by (auto simp: lockOrCreateWallet_def wallet_at_def wallets_ok_def split: option.splits if_splits)

lemma saveWalletRow_spec:
  assumes "db_wallets db (ow_OrganizationID w, ow_Currency w) = Some w0"
    "ow_OrganizationID w0 = ow_OrganizationID w" "ow_Currency w0 = ow_Currency w"
  shows "saveWalletRow w db =
    db\<lparr>db_wallets := (db_wallets db)((ow_OrganizationID w, ow_Currency w) \<mapsto> w)\<rparr>"
  using assms by (cases w, cases w0) (simp add: saveWalletRow_def)

lemma insert_entry_Some [row_simps]:
  "insert_entry row db = Some db' \<longleftrightarrow>
     (\<forall>x\<in>set (db_entries db). \<not> entry_clash row x) \<and> db' = db\<lparr>db_entries := db_entries db @ [row]\<rparr>"
  by (auto simp: insert_entry_def create_row_def list_ex_iff split: option.splits)

lemma minInt64_min: "minInt64 a b = min a b"
  by (simp add: minInt64_def min_def)

lemma addTopUp_Inr:
  assumes "addTopUp available debt amount = Inr (a, d)"
    "0 \<le> available" "available \<le> max64" "0 \<le> debt" "debt \<le> max64" "0 < amount" "in64 amount"
  shows "a = available + (amount - min debt amount)" "d = debt - min debt amount"
    "a \<le> max64" "0 \<le> d"
  using assms
  by (auto simp: addTopUp_def min_def Let_def sub64_def add64_def wrap64_def in64_unfold
      split: if_splits)

lemma nextWalletProcessingTimestamp_gt:
  "truncate_us previous < nextWalletProcessingTimestamp now previous"
  by (auto simp: nextWalletProcessingTimestamp_def)

lemma nextWalletProcessingTimestamp_us [simp]:
  "truncate_us (nextWalletProcessingTimestamp now previous) = nextWalletProcessingTimestamp now previous"
  by (auto simp: nextWalletProcessingTimestamp_def truncate_us_shift)

section \<open>The account a wallet represents\<close>

definition reversed_of :: "money_db \<Rightarrow> string \<Rightarrow> int" where
  "reversed_of db org = sum_rows (\<lambda>r. wv_OrganizationID r = org) wv_AmountMinor (db_reversals db)"

definition wallet_account :: "money_db \<Rightarrow> string \<Rightarrow> account" where
  "wallet_account db org =
     (let w = wallet_at db (org, WalletCurrencyCNY) in
      \<lparr>ac_avail = ow_AvailableMinor w, ac_res = ow_ReservedMinor w, ac_debt = ow_DebtMinor w,
       ac_top = ow_LifetimeTopUpMinor w, ac_spend = ow_LifetimeSpendMinor w,
       ac_rev = reversed_of db org\<rparr>)"

end
