(* ===== verification/Posting.thy ===== *)
theory Posting
  imports Wallet_Core
begin

text \<open>
  The shape of every wallet mutation. \<open>posting k w w' es db db'\<close> says that the wallet \<open>k\<close>, whose
  row is \<open>w\<close> when it is locked, becomes \<open>w'\<close> and that the entries \<open>es\<close> are appended to the
  ledger: they are entries of \<open>k\<close>, their deltas lead from the balances of \<open>w\<close> to those of \<open>w'\<close>
  with the right balance after each entry, and their times increase and follow those already
  in the ledger. The lemmas carry this from the primitives to transactions, and from
  transactions to the ledger invariant \<open>entries_ok\<close>.
\<close>

definition balances :: "organizationWalletRow \<Rightarrow> int \<times> int \<times> int" where
  "balances w = (ow_AvailableMinor w, ow_ReservedMinor w, ow_DebtMinor w)"

definition owner :: "organizationWalletEntryRow \<Rightarrow> string \<times> string" where
  "owner e = (we_OrganizationID e, we_Currency e)"

text \<open>The balances after a sequence of entries, if each entry records the balance it leads to.\<close>

fun entry_chain ::
  "int \<times> int \<times> int \<Rightarrow> organizationWalletEntryRow list \<Rightarrow> (int \<times> int \<times> int) option" where
  "entry_chain b [] = Some b"
| "entry_chain (a, r, d) (e # es) =
     (let b = (a + we_AvailableDelta e, r + we_ReservedDelta e, d + we_DebtDelta e) in
      if b = (we_AvailableAfter e, we_ReservedAfter e, we_DebtAfter e) then entry_chain b es
      else None)"

lemma entry_chain_append:
  "entry_chain b (es @ fs) = (case entry_chain b es of None \<Rightarrow> None | Some c \<Rightarrow> entry_chain c fs)"
  by (induction b es rule: entry_chain.induct) (auto simp: Let_def)

definition entry_delta :: "organizationWalletEntryRow \<Rightarrow> nat \<Rightarrow> int" where
  "entry_delta e n =
     (if n = 0 then we_AvailableDelta e else if n = 1 then we_ReservedDelta e else we_DebtDelta e)"

definition wallet_part :: "int \<times> int \<times> int \<Rightarrow> nat \<Rightarrow> int" where
  "wallet_part b n = (if n = 0 then fst b else if n = 1 then fst (snd b) else snd (snd b))"

lemma entry_chain_sum:
  "entry_chain b es = Some c \<Longrightarrow>
   wallet_part c n = wallet_part b n + sum_rows (\<lambda>_. True) (\<lambda>e. entry_delta e n) es"
  by (induction b es rule: entry_chain.induct)
    (auto simp: wallet_part_def entry_delta_def Let_def split: if_splits)

definition locked :: "string \<times> string \<Rightarrow> money_db \<Rightarrow> organizationWalletRow \<Rightarrow> bool" where
  "locked k db w \<longleftrightarrow>
     (case db_wallets db k of Some w0 \<Rightarrow> w = w0 | None \<Rightarrow> \<exists>t. w = wallet_seed t (fst k) (snd k))"

definition posting ::
  "string \<times> string \<Rightarrow> organizationWalletRow \<Rightarrow> organizationWalletRow \<Rightarrow>
   organizationWalletEntryRow list \<Rightarrow> money_db \<Rightarrow> money_db \<Rightarrow> bool" where
  "posting k w w' es db db' \<longleftrightarrow>
     wallet_ok w \<and> wallet_ok w' \<and> k = (ow_OrganizationID w', ow_Currency w')
     \<and> locked k db w \<and> db_wallets db' = (db_wallets db)(k \<mapsto> w')
     \<and> db_entries db' = db_entries db @ es \<and> (\<forall>e\<in>set es. owner e = k)
     \<and> entry_chain (balances w) es = Some (balances w')
     \<and> sorted_wrt (<) (truncate_us (ow_UpdatedAt w) # map we_OccurredAt es)
     \<and> truncate_us (ow_UpdatedAt w) \<le> truncate_us (ow_UpdatedAt w')
     \<and> (\<forall>e\<in>set es. we_OccurredAt e \<le> truncate_us (ow_UpdatedAt w'))"

lemma wallets_update_self [simp]: "db\<lparr>db_wallets := db_wallets db\<rparr> = db"
  by (cases db) simp

lemma lock_spec:
  assumes "wallets_ok db" "lockOrCreateWallet now org cur db = (w, db1)"
  shows "wallet_ok w" "ow_OrganizationID w = org" "ow_Currency w = cur" "locked (org, cur) db w"
    "db1 = db\<lparr>db_wallets := (db_wallets db)((org, cur) \<mapsto> w)\<rparr>"
  using assms
  by (auto simp: lockOrCreateWallet_def locked_def wallets_ok_def map_upd_triv split: option.splits)

text \<open>Saving a changed row under the key that was locked.\<close>

lemma save_after_lock [simp]:
  assumes "ow_OrganizationID w' = org" "ow_Currency w' = cur"
    "ow_OrganizationID w = org" "ow_Currency w = cur"
  shows "saveWalletRow w' (db\<lparr>db_wallets := m((org, cur) \<mapsto> w)\<rparr>) =
    db\<lparr>db_wallets := m((org, cur) \<mapsto> w')\<rparr>"
  using assms
  by (subst saveWalletRow_spec [where ?w0.0 = w]) auto

lemma postingI:
  assumes "wallets_ok db" "lockOrCreateWallet now org cur db = (w, db1)"
    "wallet_ok w'" "ow_OrganizationID w' = org" "ow_Currency w' = cur"
    "db_wallets db' = (db_wallets db1)((org, cur) \<mapsto> w')" "db_entries db' = db_entries db1 @ es"
    "\<forall>e\<in>set es. owner e = (org, cur)" "entry_chain (balances w) es = Some (balances w')"
    "sorted_wrt (<) (truncate_us (ow_UpdatedAt w) # map we_OccurredAt es)"
    "truncate_us (ow_UpdatedAt w) \<le> truncate_us (ow_UpdatedAt w')"
    "\<forall>e\<in>set es. we_OccurredAt e \<le> truncate_us (ow_UpdatedAt w')"
  shows "posting (org, cur) w w' es db db'"
  using lock_spec [OF assms(1,2)] assms(3-) by (simp add: posting_def)

lemma posting_touch:
  assumes "wallets_ok db" "lockOrCreateWallet now org cur db = (w, db1)"
    "db_wallets db' = db_wallets db1" "db_entries db' = db_entries db1"
  shows "posting (org, cur) w w [] db db'"
  using lock_spec [OF assms(1,2)] assms(3,4) by (simp add: posting_def)

lemma posting_trans:
  assumes "posting k w w1 es db db1" "posting k v w2 fs db1 db2"
  shows "posting k w w2 (es @ fs) db db2"
proof -
  have "v = w1" using assms by (auto simp: posting_def locked_def)
  then show ?thesis
    using assms by (fastforce simp: posting_def entry_chain_append sorted_wrt_append)
qed

text \<open>The wallet a posting leaves behind, and the others it does not touch.\<close>

lemma locked_wallet_at:
  "locked k db w \<Longrightarrow> \<exists>t. w = wallet_at db k \<or> w = wallet_seed t (fst k) (snd k) \<and> db_wallets db k = None"
  by (auto simp: locked_def wallet_at_def split: option.splits)

lemma posting_wallet:
  assumes "posting k w w' es db db'"
  shows "wallet_at db' k = w'" "k' \<noteq> k \<Longrightarrow> wallet_at db' k' = wallet_at db k'"
    "balances (wallet_at db k) = balances w"
    "ow_LifetimeTopUpMinor (wallet_at db k) = ow_LifetimeTopUpMinor w"
    "ow_LifetimeSpendMinor (wallet_at db k) = ow_LifetimeSpendMinor w"
  using assms
  by (auto simp: posting_def locked_def wallet_at_def balances_def wallet_seed_def split: option.splits)

lemma posting_wallets_ok: "posting k w w' es db db' \<Longrightarrow> wallets_ok db \<Longrightarrow> wallets_ok db'"
  by (auto simp: posting_def wallets_ok_def)

section \<open>The ledger of entries\<close>

definition entries_of :: "money_db \<Rightarrow> string \<times> string \<Rightarrow> organizationWalletEntryRow list" where
  "entries_of db k = filter (\<lambda>e. owner e = k) (db_entries db)"

definition entries_ok :: "money_db \<Rightarrow> bool" where
  "entries_ok db \<longleftrightarrow>
     (\<forall>k. entry_chain (0, 0, 0) (entries_of db k) = Some (balances (wallet_at db k))
          \<and> sorted_wrt (<) (map we_OccurredAt (entries_of db k)))
     \<and> (\<forall>e\<in>set (db_entries db). \<exists>w. db_wallets db (owner e) = Some w
          \<and> we_OccurredAt e \<le> truncate_us (ow_UpdatedAt w))"

lemma entries_okD:
  assumes "entries_ok db"
  shows "entry_chain (0, 0, 0) (entries_of db k) = Some (balances (wallet_at db k))"
    "sorted_wrt (<) (map we_OccurredAt (entries_of db k))"
  using assms by (cases k; simp add: entries_ok_def)+

lemma posting_entries_of:
  assumes "posting k w w' es db db'"
  shows "entries_of db' k' = entries_of db k' @ (if k' = k then es else [])"
proof -
  have "filter (\<lambda>e. owner e = k') es = (if k' = k then es else [])"
    using assms by (auto simp: posting_def intro: filter_True filter_False)
  then show ?thesis using assms by (simp add: posting_def entries_of_def)
qed

lemma posting_entries_ok:
  assumes "posting k w w' es db db'" "entries_ok db"
  shows "entries_ok db'"
proof -
  note p = assms(1) [unfolded posting_def]
  have old: "\<forall>e\<in>set (entries_of db k). we_OccurredAt e \<le> truncate_us (ow_UpdatedAt w)"
    using p assms(2) by (fastforce simp: entries_of_def entries_ok_def locked_def split: option.splits)
  have new: "\<forall>e\<in>set es. truncate_us (ow_UpdatedAt w) < we_OccurredAt e"
    "sorted_wrt (<) (map we_OccurredAt es)" using p by auto
  have chain: "entry_chain (0, 0, 0) (entries_of db' k') = Some (balances (wallet_at db' k'))" for k'
    using entries_okD(1) [OF assms(2), of k'] p posting_wallet [OF assms(1)]
      posting_entries_of [OF assms(1), of k']
    by (cases "k' = k") (simp_all add: entry_chain_append)
  have times: "sorted_wrt (<) (map we_OccurredAt (entries_of db' k'))" for k'
    using entries_okD(2) [OF assms(2), of k'] old new posting_entries_of [OF assms(1), of k']
    by (cases "k' = k") (fastforce simp: sorted_wrt_append)+
  have "\<exists>w. db_wallets db' (owner e) = Some w \<and> we_OccurredAt e \<le> truncate_us (ow_UpdatedAt w)"
    if e: "e \<in> set (db_entries db')" for e
  proof (cases "owner e = k")
    case True
    have "e \<in> set (entries_of db' k)" using e True by (simp add: entries_of_def)
    then have "we_OccurredAt e \<le> truncate_us (ow_UpdatedAt w')"
      using posting_entries_of [OF assms(1), of k] old p by fastforce
    then show ?thesis using p True by simp
  next
    case False
    then have "e \<in> set (db_entries db)" using e p by auto
    then show ?thesis using assms(2) p False by (auto simp: entries_ok_def)
  qed
  with chain times show ?thesis by (auto simp: entries_ok_def)
qed

lemma entries_ok_empty [simp]: "entries_ok empty_db" "wallets_ok empty_db"
  by (auto simp: entries_ok_def entries_of_def empty_db_def wallet_at_def balances_def wallets_ok_def)

section \<open>One entry through the primitives\<close>

text \<open>
  A wallet row that was locked, changed, saved and given one entry. \<open>postTopUpEntry\<close> is of this
  shape on its own.
\<close>

lemma post_single:
  assumes "wallets_ok db" "lockOrCreateWallet now org cur db = (w, db1)" "wallet_ok w'"
    "ow_OrganizationID w' = org" "ow_Currency w' = cur"
    "db_wallets db2 = db_wallets (saveWalletRow w' db1)" "db_entries db2 = db_entries db1 @ [e]"
    "owner e = (org, cur)" "entry_chain (balances w) [e] = Some (balances w')"
    "we_OccurredAt e = ow_UpdatedAt w'" "truncate_us (ow_UpdatedAt w) < ow_UpdatedAt w'"
    "truncate_us (ow_UpdatedAt w') = ow_UpdatedAt w'"
  shows "posting (org, cur) w w' [e] db db2"
proof (rule postingI [OF assms(1,2,3,4,5)])
  have "db_wallets db1 (org, cur) = Some w" using lock_spec [OF assms(1,2)] by simp
  moreover have "ow_OrganizationID w = org" "ow_Currency w = cur"
    using lock_spec [OF assms(1,2)] by auto
  ultimately show "db_wallets db2 = (db_wallets db1)((org, cur) \<mapsto> w')"
    using assms saveWalletRow_spec [of db1 w' w] by simp
qed (use assms in auto)

lemma postTopUpEntry_Inr:
  assumes "postTopUpEntry now entryID wallet kind da dr dd order payment source db = Inr ((eid, w'), db')"
    "db_wallets db (ow_OrganizationID wallet, ow_Currency wallet) = Some w0"
    "ow_OrganizationID w0 = ow_OrganizationID wallet" "ow_Currency w0 = ow_Currency wallet"
  obtains e where
    "w' = wallet\<lparr>ow_Version := add64 (ow_Version wallet) 1,
                 ow_UpdatedAt := nextWalletProcessingTimestamp now (ow_UpdatedAt wallet)\<rparr>"
    "eid = entryID" "we_EntryID e = entryID" "we_Kind e = kind" "Validate_WalletEntry (walletEntry e)"
    "owner e = (ow_OrganizationID wallet, ow_Currency wallet)"
    "we_AvailableDelta e = da" "we_ReservedDelta e = dr" "we_DebtDelta e = dd"
    "we_AvailableAfter e = ow_AvailableMinor wallet" "we_ReservedAfter e = ow_ReservedMinor wallet"
    "we_DebtAfter e = ow_DebtMinor wallet" "we_OccurredAt e = ow_UpdatedAt w'"
    "db' = db\<lparr>db_wallets := (db_wallets db)((ow_OrganizationID wallet, ow_Currency wallet) \<mapsto> w'),
              db_entries := db_entries db @ [e]\<rparr>"
proof -
  define w1 where "w1 = wallet\<lparr>ow_Version := add64 (ow_Version wallet) 1,
                 ow_UpdatedAt := nextWalletProcessingTimestamp now (ow_UpdatedAt wallet)\<rparr>"
  have save: "saveWalletRow w1 db =
      db\<lparr>db_wallets := (db_wallets db)((ow_OrganizationID wallet, ow_Currency wallet) \<mapsto> w1)\<rparr>"
    using saveWalletRow_spec [of db w1 w0] assms(2-4) by (simp add: w1_def)
  show thesis
    using assms(1) save
    apply (simp add: postTopUpEntry_def w1_def [symmetric] Let_def split: if_splits option.splits)
    apply (rule that, auto simp: insert_entry_Some owner_def w1_def)
    done
qed

lemma postTopUpEntry_posting:
  assumes "postTopUpEntry now entryID wallet kind da dr dd order payment source db1 = Inr ((eid, w'), db')"
    "wallets_ok db" "lockOrCreateWallet now0 org cur db = (w, db0)"
    "db_wallets db1 = db_wallets db0" "db_entries db1 = db_entries db0"
    "ow_OrganizationID wallet = org" "ow_Currency wallet = cur" "ow_UpdatedAt wallet = ow_UpdatedAt w"
    "wallet_ok wallet" "ow_AvailableMinor wallet = ow_AvailableMinor w + da"
    "ow_ReservedMinor wallet = ow_ReservedMinor w + dr" "ow_DebtMinor wallet = ow_DebtMinor w + dd"
  obtains e at where "posting (org, cur) w w' [e] db db'" "we_EntryID e = eid"
    "w' = wallet\<lparr>ow_Version := add64 (ow_Version wallet) 1, ow_UpdatedAt := at\<rparr>"
    "db' = db1\<lparr>db_wallets := (db_wallets db)((org, cur) \<mapsto> w'), db_entries := db_entries db @ [e]\<rparr>"
proof -
  note l = lock_spec [OF assms(2,3)]
  have w0: "db_wallets db1 (org, cur) = Some w" using l assms(4) by simp
  show thesis
  proof (rule postTopUpEntry_Inr [OF assms(1), of w])
    fix e
    assume e: "w' = wallet\<lparr>ow_Version := add64 (ow_Version wallet) 1,
                 ow_UpdatedAt := nextWalletProcessingTimestamp now (ow_UpdatedAt wallet)\<rparr>"
      "eid = entryID" "we_EntryID e = entryID"
      "owner e = (ow_OrganizationID wallet, ow_Currency wallet)"
      "we_AvailableDelta e = da" "we_ReservedDelta e = dr" "we_DebtDelta e = dd"
      "we_AvailableAfter e = ow_AvailableMinor wallet" "we_ReservedAfter e = ow_ReservedMinor wallet"
      "we_DebtAfter e = ow_DebtMinor wallet" "we_OccurredAt e = ow_UpdatedAt w'"
      "db' = db1\<lparr>db_wallets := (db_wallets db1)((ow_OrganizationID wallet, ow_Currency wallet) \<mapsto> w'),
              db_entries := db_entries db1 @ [e]\<rparr>"
    have "wallet_ok w'" using assms(9) e(1) by (simp add: wallet_ok_def)
    moreover have "truncate_us (ow_UpdatedAt w) < ow_UpdatedAt w'"
      using e(1) assms(8) nextWalletProcessingTimestamp_gt by simp
    ultimately have "posting (org, cur) w w' [e] db db'"
      using assms(4-) e l
      by (intro postingI [OF assms(2,3)])
        (auto simp: balances_def intro: order_trans [OF less_imp_le])
    then show thesis
      using that e assms(4-7) l by simp
  qed (use w0 l assms(6,7) in auto)
qed

section \<open>Guarded arithmetic\<close>

definition amount_ok :: "int \<Rightarrow> bool" where
  "amount_ok n \<longleftrightarrow> 0 < n \<and> n \<le> max64"

lemma amount_ok_in64: "amount_ok n \<Longrightarrow> in64 n \<and> 0 \<le> n"
  by (simp add: amount_ok_def in64_unfold)

text \<open>The exact values of the guarded arithmetic on a wallet row.\<close>

lemma wallet_arith:
  assumes "wallet_ok w" "amount_ok n"
  shows "n \<le> ow_AvailableMinor w \<Longrightarrow> sub64 (ow_AvailableMinor w) n = ow_AvailableMinor w - n"
    "n \<le> ow_ReservedMinor w \<Longrightarrow> sub64 (ow_ReservedMinor w) n = ow_ReservedMinor w - n"
    "\<not> sub64 max64 n < ow_ReservedMinor w \<Longrightarrow>
       add64 (ow_ReservedMinor w) n = ow_ReservedMinor w + n \<and> ow_ReservedMinor w + n \<le> max64"
    "\<not> sub64 max64 n < ow_LifetimeTopUpMinor w \<Longrightarrow>
       add64 (ow_LifetimeTopUpMinor w) n = ow_LifetimeTopUpMinor w + n
       \<and> ow_LifetimeTopUpMinor w + n \<le> max64"
    "\<not> sub64 max64 n < ow_LifetimeSpendMinor w \<Longrightarrow>
       add64 (ow_LifetimeSpendMinor w) n = ow_LifetimeSpendMinor w + n
       \<and> ow_LifetimeSpendMinor w + n \<le> max64"
    "neg64 n = - n"
  using assms max64_guard [of n] amount_ok_in64 [OF assms(2)]
  by (auto simp: wallet_ok_def amount_ok_def add64_guarded sub64_nonneg neg64_nonneg in64_nonneg)

text \<open>Money received by a wallet repays debt first; \<open>addTopUp\<close> computes the split.\<close>

lemma addTopUp_wallet:
  assumes "addTopUp (ow_AvailableMinor w) (ow_DebtMinor w) n = Inr (a, d)" "wallet_ok w" "amount_ok n"
  shows "a = ow_AvailableMinor w + (n - min (ow_DebtMinor w) n)"
    "d = ow_DebtMinor w - min (ow_DebtMinor w) n" "a \<le> max64" "0 \<le> d" "d \<le> max64" "0 \<le> a"
    "d = 0 \<or> a = 0"
    "sub64 (ow_DebtMinor w) d = min (ow_DebtMinor w) n"
    "sub64 a (ow_AvailableMinor w) = n - min (ow_DebtMinor w) n"
proof -
  note ar = addTopUp_Inr [OF assms(1)]
  show a: "a = ow_AvailableMinor w + (n - min (ow_DebtMinor w) n)"
    "d = ow_DebtMinor w - min (ow_DebtMinor w) n" "a \<le> max64" "0 \<le> d"
    using ar assms(2,3) by (auto simp: wallet_ok_def amount_ok_def in64_unfold)
  show "d \<le> max64" "0 \<le> a" "d = 0 \<or> a = 0"
    using a assms(2,3) by (auto simp: wallet_ok_def amount_ok_def)
  show "sub64 (ow_DebtMinor w) d = min (ow_DebtMinor w) n"
    "sub64 a (ow_AvailableMinor w) = n - min (ow_DebtMinor w) n"
    using a assms(2,3)
    by (auto simp: sub64_def wallet_ok_def amount_ok_def in64_unfold intro!: wrap64_id)
qed

text \<open>A loss is taken from the available funds; what they do not cover becomes debt.\<close>

lemma loss_arith:
  assumes "wallet_ok w" "amount_ok n"
    "\<not> sub64 max64 (sub64 n (minInt64 (ow_AvailableMinor w) n)) < ow_DebtMinor w"
  shows "sub64 n (minInt64 (ow_AvailableMinor w) n) = n - min (ow_AvailableMinor w) n"
    "sub64 (ow_AvailableMinor w) (minInt64 (ow_AvailableMinor w) n) =
       ow_AvailableMinor w - min (ow_AvailableMinor w) n"
    "add64 (ow_DebtMinor w) (n - min (ow_AvailableMinor w) n) =
       ow_DebtMinor w + (n - min (ow_AvailableMinor w) n)"
    "neg64 (minInt64 (ow_AvailableMinor w) n) = - min (ow_AvailableMinor w) n"
    "ow_DebtMinor w + (n - min (ow_AvailableMinor w) n) \<le> max64"
  using assms
  by (auto simp: minInt64_min min_def wallet_ok_def amount_ok_def add64_def sub64_def neg64_def
      wrap64_def in64_unfold split: if_splits)

section \<open>Congruence\<close>

lemma posting_cong:
  assumes "posting k w w' es db db'" "db_wallets db1 = db_wallets db" "db_entries db1 = db_entries db"
    "db_wallets db2 = db_wallets db'" "db_entries db2 = db_entries db'"
  shows "posting k w w' es db1 db2"
proof -
  have "locked k db1 w = locked k db w" by (simp add: locked_def assms(2))
  with assms show ?thesis by (auto simp: posting_def)
qed

lemma wallets_ok_cong: "db_wallets db1 = db_wallets db \<Longrightarrow> wallets_ok db1 = wallets_ok db"
  by (simp add: wallets_ok_def)

end
