(* ===== verification/TopUp_Repo.thy ===== *)
theory TopUp_Repo
  imports Wallet_Core
begin

text \<open>
  The provider top-up repository (\<open>provider_topup_repository.go\<close>, with \<open>claimChannelPayment\<close>
  of \<open>service_repository.go\<close>): accepting a verified channel payment into the wallet, reversing
  it by refund or chargeback, and the refund hold that reserves wallet funds before a refund is
  dispatched. Each method is a transaction body (suffix \<open>Tx\<close>) run by \<open>run_tx\<close>; the long
  reversal transaction is split at its paragraphs.
\<close>

section \<open>Claims and bindings\<close>

definition claimChannelPayment ::
  "topup_doc digest \<Rightarrow> ProviderPaymentBinding \<Rightarrow> string \<Rightarrow> string \<Rightarrow> money_db \<Rightarrow> merr + money_db" where
  "claimChannelPayment sha b paymentID purpose db =
     (let seed = \<lparr>cc_ClaimID = ClaimID sha b, cc_PaymentID = paymentID, cc_Purpose = purpose\<rparr>;
          db1 = db\<lparr>db_claims := create_or_ignore claim_clash seed (db_claims db)\<rparr>
      in case find (\<lambda>r. cc_ClaimID r = cc_ClaimID seed) (db_claims db1) of
           None \<Rightarrow> Inl ErrConflict
         | Some got \<Rightarrow>
             if cc_PaymentID got \<noteq> paymentID \<or> cc_Purpose got \<noteq> purpose then Inl ErrConflict
             else Inr db1)"

definition lockProviderTopUp :: "string \<Rightarrow> money_db \<Rightarrow> merr + walletTopUpSettlementRow" where
  "lockProviderTopUp payment db =
     (case find (\<lambda>r. pt_PaymentID r = payment) (db_topups db) of
        None \<Rightarrow> Inl ErrNotFound
      | Some claim \<Rightarrow>
     (case find (\<lambda>r. py_PaymentID r = payment) (db_payments db) of
        None \<Rightarrow> Inl ErrRecordNotFound
      | Some p \<Rightarrow>
     if py_PaymentPurpose p \<noteq> PaymentPurposeWalletTopUp then Inl ErrInvalid
     else case find (\<lambda>r. ts_PaymentID r = payment) (db_settlements db) of
        None \<Rightarrow> Inl ErrRecordNotFound
      | Some binding \<Rightarrow>
          if ts_AmountMinor binding \<noteq> py_GrossAmountMinor p
             \<or> ts_OrganizationID binding \<noteq> pt_OrganizationID claim
             \<or> ts_CommercialOrderID binding \<noteq> pt_CommercialOrderID claim then Inl ErrConflict
          else Inr binding))"

section \<open>Reversals\<close>

text \<open>The accepted fact keeps the full amount, the excess included.\<close>

definition record_reversal_fact :: "OrganizationWalletReversal \<Rightarrow> money_db \<Rightarrow> merr + money_db" where
  "record_reversal_fact i db =
     (if ov_Kind i = WalletReversalRefund then
        (case create_row refund_clash
            \<lparr>rf_RefundID = ov_ReversalID i, rf_PaymentID = ov_PaymentID i,
             rf_AmountMinor = ov_AmountMinor i, rf_OccurredAt = ov_OccurredAt i,
             rf_ProviderReference = ov_ProviderReference i\<rparr> (db_refunds db) of
           None \<Rightarrow> Inl ErrConflict | Some t \<Rightarrow> Inr (db\<lparr>db_refunds := t\<rparr>))
      else
        (case create_row chargeback_clash
            \<lparr>cb_ChargebackID = ov_ReversalID i, cb_PaymentID = ov_PaymentID i,
             cb_AmountMinor = ov_AmountMinor i, cb_OccurredAt = ov_OccurredAt i,
             cb_ProviderReference = ov_ProviderReference i\<rparr> (db_chargebacks db) of
           None \<Rightarrow> Inl ErrConflict | Some t \<Rightarrow> Inr (db\<lparr>db_chargebacks := t\<rparr>)))"

definition reversal_hold :: "OrganizationWalletReversal \<Rightarrow> string \<Rightarrow> money_db \<Rightarrow> merr + bool" where
  "reversal_hold i rid db =
     (if ov_Kind i = WalletReversalRefund then
        (case find (\<lambda>h. th_HoldID h = rid) (db_holds db) of
           None \<Rightarrow> Inr False
         | Some hold \<Rightarrow>
             if th_PaymentID hold \<noteq> ov_PaymentID i \<or> th_OrganizationID hold \<noteq> ov_OrganizationID i
                \<or> th_CommercialOrderID hold \<noteq> ov_CommercialOrderID i
                \<or> th_AmountMinor hold \<noteq> ov_AmountMinor i \<or> th_State hold = HoldConfirmed
             then Inl ErrConflict
             else Inr (th_State hold \<noteq> HoldReleased))
      else Inr False)"

text \<open>
  The wallet's side of a reversal: with a hold, the reserved funds are consumed up to the
  principal \<open>d\<close> and the excess \<open>e\<close> is released (repaying debt first); without, the principal is
  taken from the available funds and the rest becomes debt.
\<close>

definition reversal_post ::
  "call_env \<Rightarrow> OrganizationWalletReversal \<Rightarrow> string \<Rightarrow> i64 \<Rightarrow> i64 \<Rightarrow> bool \<Rightarrow> organizationWalletRow \<Rightarrow>
   TopUpReversalReceipt \<Rightarrow> money_db \<Rightarrow> merr + TopUpReversalReceipt \<times> money_db" where
  "reversal_post env i rid d e hasHold wallet out db =
     (if hasHold then
        if ow_ReservedMinor wallet < ov_AmountMinor i then Inl ErrConflict
        else
          let repaid = minInt64 (ow_DebtMinor wallet) e;
              availableAdded = sub64 e repaid
          in if ow_AvailableMinor wallet > sub64 max64 availableAdded then Inl ErrInvalid
             else
               let wallet1 = wallet\<lparr>ow_ReservedMinor := sub64 (ow_ReservedMinor wallet) (ov_AmountMinor i),
                                     ow_DebtMinor := sub64 (ow_DebtMinor wallet) repaid,
                                     ow_AvailableMinor := add64 (ow_AvailableMinor wallet) availableAdded\<rparr>
               in case postTopUpEntry (ce_now env 2) (ce_uuid env 0) wallet1
                         WalletEntryRefundConfirm availableAdded (neg64 (ov_AmountMinor i))
                         (neg64 repaid) (ov_CommercialOrderID i) (ov_PaymentID i)
                         (rid @ '':confirm'') db of
                    Inl er \<Rightarrow> Inl er
                  | Inr ((entry, _), db1) \<Rightarrow>
                      Inr (out\<lparr>rr_HoldID := rid, rr_HoldState := Some HoldConfirmed,
                               rr_HoldConsumedMinor := d, rr_HoldReleasedMinor := e,
                               rr_HoldDebtRepaidMinor := repaid,
                               rr_EntryIDs := rr_EntryIDs out @ [entry]\<rparr>,
                           db1\<lparr>db_holds := update_rows (\<lambda>h. th_HoldID h = rid)
                                 (\<lambda>h. h\<lparr>th_State := HoldConfirmed\<rparr>) (db_holds db1)\<rparr>)
      else if d > 0 then
        let loss = minInt64 (ow_AvailableMinor wallet) d;
            debt = sub64 d loss
        in if ow_DebtMinor wallet > sub64 max64 debt then Inl ErrInvalid
           else
             let wallet1 = wallet\<lparr>ow_AvailableMinor := sub64 (ow_AvailableMinor wallet) loss,
                                   ow_DebtMinor := add64 (ow_DebtMinor wallet) debt\<rparr>;
                 kind = (if ov_Kind i = WalletReversalChargeback then WalletEntryChargebackReversal
                         else WalletEntryRefundReversal)
             in case postTopUpEntry (ce_now env 2) (ce_uuid env 0) wallet1 kind (neg64 loss) 0 debt
                       (ov_CommercialOrderID i) (ov_PaymentID i) rid db of
                  Inl er \<Rightarrow> Inl er
                | Inr ((entry, _), db1) \<Rightarrow>
                    Inr (out\<lparr>rr_EntryIDs := rr_EntryIDs out @ [entry]\<rparr>, db1)
      else Inr (out, db))"

text \<open>The reversal row, the record of the excess, and the immutable receipt.\<close>

definition reversal_record ::
  "topup_doc digest \<Rightarrow> OrganizationWalletReversal \<Rightarrow> string \<Rightarrow> string \<Rightarrow> i64 \<Rightarrow> i64 \<Rightarrow>
   TopUpReversalReceipt \<Rightarrow> money_db \<Rightarrow> merr + TopUpReversalReceipt \<times> money_db" where
  "reversal_record sha i rid fp d e out db =
     (case (if d > 0 then
              create_row reversal_clash
                \<lparr>wv_ReversalID = rid, wv_PaymentID = ov_PaymentID i,
                 wv_CommercialOrderID = ov_CommercialOrderID i,
                 wv_OrganizationID = ov_OrganizationID i, wv_Kind = ov_Kind i,
                 wv_AmountMinor = d, wv_ProviderReference = ov_ProviderReference i,
                 wv_OccurredAt = ov_OccurredAt i\<rparr> (db_reversals db)
            else Some (db_reversals db)) of
        None \<Rightarrow> Inl ErrDuplicatedKey
      | Some reversals \<Rightarrow>
     (case (if e > 0 then
              create_row excess_clash
                \<lparr>tx_ReceiptID = rid, tx_PaymentID = ov_PaymentID i, tx_Kind = ov_Kind i,
                 tx_ReversalID = ov_ReversalID i, tx_ProviderReference = ov_ProviderReference i,
                 tx_ProviderAmountMinor = ov_AmountMinor i, tx_WalletPrincipalEffectMinor = d,
                 tx_ExcessProviderMinor = e, tx_State = ''OPEN''\<rparr> (db_excess db)
            else Some (db_excess db)) of
        None \<Rightarrow> Inl ErrDuplicatedKey
      | Some excess \<Rightarrow>
     let out1 = (if e > 0 then out\<lparr>rr_ExcessRecordID := rid\<rparr> else out);
         out2 = out1\<lparr>rr_ResultFingerprint := Fingerprint_TopUpReversalReceipt sha out1\<rparr>
     in if \<not> Validate_TopUpReversalReceipt sha out2 then Inl ErrInvalid
        else case create_row receipt_clash
            \<lparr>tr_ReceiptID = rid, tr_PaymentID = ov_PaymentID i, tr_Kind = ov_Kind i,
             tr_ReversalID = ov_ReversalID i, tr_OrganizationID = ov_OrganizationID i,
             tr_CommercialOrderID = ov_CommercialOrderID i,
             tr_ProviderAmountMinor = ov_AmountMinor i, tr_WalletPrincipalEffectMinor = d,
             tr_Fingerprint = fp, tr_Receipt = Bytes out2\<rparr> (db_receipts db) of
          None \<Rightarrow> Inl ErrDuplicatedKey
        | Some receipts \<Rightarrow>
            Inr (out2, db\<lparr>db_reversals := reversals, db_excess := excess, db_receipts := receipts\<rparr>)))"

definition reversal_key :: "OrganizationWalletReversal \<Rightarrow> TopUpReversalKey" where
  "reversal_key i =
     \<lparr>rk_PaymentID = ov_PaymentID i, rk_Kind = ov_Kind i, rk_ReversalID = ov_ReversalID i\<rparr>"

definition acceptTopUpReversalTx ::
  "topup_doc digest \<Rightarrow> call_env \<Rightarrow> OrganizationWalletReversal \<Rightarrow> money_db \<Rightarrow>
   merr + TopUpReversalReceipt \<times> money_db" where
  "acceptTopUpReversalTx sha env i0 db =
     (if \<not> Validate_OrganizationWalletReversal i0 then Inl ErrInvalid
      else
        let i = i0\<lparr>ov_OccurredAt := NormalizeTimestamp (ov_OccurredAt i0)\<rparr>;
            key = reversal_key i; rid = StorageID sha key;
            fp = TopUpFingerprint sha (DocReversal i)
        in case lockProviderTopUp (ov_PaymentID i) db of
             Inl e \<Rightarrow> Inl e
           | Inr binding \<Rightarrow>
        if ts_OrganizationID binding \<noteq> ov_OrganizationID i
           \<or> ts_CommercialOrderID binding \<noteq> ov_CommercialOrderID i
           \<or> ts_Currency binding \<noteq> ov_Currency i then Inl ErrConflict
        else case find (\<lambda>r. tr_ReceiptID r = rid) (db_receipts db) of
          Some previous \<Rightarrow>
            (case decode (tr_Receipt previous) of
               None \<Rightarrow> Inl ErrConflict
             | Some out \<Rightarrow>
                 if tr_Fingerprint previous \<noteq> fp \<or> \<not> Validate_TopUpReversalReceipt sha out
                 then Inl ErrConflict else Inr (out, db))
        | None \<Rightarrow>
            (case record_reversal_fact i db of
               Inl e \<Rightarrow> Inl e
             | Inr db1 \<Rightarrow>
            (case (scan_sum (\<lambda>r. tr_PaymentID r = ov_PaymentID i) tr_WalletPrincipalEffectMinor (db_receipts db1),
                   scan_sum (\<lambda>r. tr_PaymentID r = ov_PaymentID i) tr_ProviderAmountMinor (db_receipts db1)) of
               (Some principalSum, Some provider) \<Rightarrow>
                 if principalSum < 0 \<or> principalSum > ts_AmountMinor binding
                    \<or> provider > sub64 max64 (ov_AmountMinor i) then Inl ErrInvalid
                 else
                   let d = minInt64 (ov_AmountMinor i) (sub64 (ts_AmountMinor binding) principalSum);
                       e = sub64 (ov_AmountMinor i) d
                   in case reversal_hold i rid db1 of
                        Inl er \<Rightarrow> Inl er
                      | Inr hasHold \<Rightarrow>
                          let (wallet, db2) =
                                lockOrCreateWallet (ce_now env 0) (ov_OrganizationID i) (ov_Currency i) db1;
                              out = \<lparr>rr_ReceiptID = rid, rr_Key = key,
                                     rr_OrganizationID = ov_OrganizationID i,
                                     rr_CommercialOrderID = ov_CommercialOrderID i,
                                     rr_Currency = ov_Currency i,
                                     rr_ProviderAmountMinor = ov_AmountMinor i,
                                     rr_WalletPrincipalEffectMinor = d, rr_ExcessProviderMinor = e,
                                     rr_ExcessRecordID = [], rr_HoldID = [], rr_HoldState = None,
                                     rr_HoldConsumedMinor = 0, rr_HoldReleasedMinor = 0,
                                     rr_HoldDebtRepaidMinor = 0, rr_EntryIDs = [],
                                     rr_RequestFingerprint = fp, rr_ResultFingerprint = [],
                                     rr_PostedAt =
                                       nextWalletProcessingTimestamp (ce_now env 1) (ow_UpdatedAt wallet)\<rparr>
                          in case reversal_post env i rid d e hasHold wallet out db2 of
                               Inl er \<Rightarrow> Inl er
                             | Inr (out1, db3) \<Rightarrow> reversal_record sha i rid fp d e out1 db3
             | _ \<Rightarrow> Inl ErrUnavailable)))"

definition AcceptProviderTopUpReversal ::
  "topup_doc digest \<Rightarrow> mfault \<Rightarrow> call_env \<Rightarrow> OrganizationWalletReversal \<Rightarrow> money_db \<Rightarrow>
   money_db \<times> (merr + TopUpReversalReceipt)" where
  "AcceptProviderTopUpReversal sha flt env i db =
     (if flt = NilHandle \<or> \<not> Validate_OrganizationWalletReversal i then (db, Inl ErrInvalid)
      else run_tx flt (acceptTopUpReversalTx sha env i) db)"

text \<open>The known reversals of a top-up, in order; the first error ends the loop.\<close>

fun acceptReversals ::
  "topup_doc digest \<Rightarrow> call_env \<Rightarrow> nat \<Rightarrow> OrganizationWalletReversal list \<Rightarrow> money_db \<Rightarrow>
   merr + TopUpReversalReceipt list \<times> money_db" where
  "acceptReversals sha env n [] db = Inr ([], db)"
| "acceptReversals sha env n (r # rs) db =
     (case acceptTopUpReversalTx sha (sub_env n env) r db of
        Inl e \<Rightarrow> Inl e
      | Inr (receipt, db1) \<Rightarrow>
          (case acceptReversals sha env (Suc n) rs db1 of
             Inl e \<Rightarrow> Inl e
           | Inr (receipts, db2) \<Rightarrow> Inr (receipt # receipts, db2)))"

section \<open>Accepting a top-up\<close>

text \<open>The two ledger entries of a posting: the repaid debt, then the credit.\<close>

definition post_topup_entries ::
  "call_env \<Rightarrow> ProviderTopUpInput \<Rightarrow> TopUpPostingReceipt \<Rightarrow> i64 \<Rightarrow> i64 \<Rightarrow> organizationWalletRow \<Rightarrow>
   money_db \<Rightarrow> merr + TopUpPostingReceipt \<times> money_db" where
  "post_topup_entries env i out available debt wallet db =
     (case (if pr_DebtRepaidMinor out > 0 then
              (case postTopUpEntry (ce_now env 2) (ce_uuid env 0) (wallet\<lparr>ow_DebtMinor := debt\<rparr>)
                      WalletEntryDebtRepayment 0 0 (neg64 (pr_DebtRepaidMinor out))
                      (ti_CommercialOrderID i) (ps_PaymentID (ti_Payment i))
                      (pr_ReceiptID out @ '':debt'') db of
                 Inl e \<Rightarrow> Inl e
               | Inr ((entry, wallet1), db1) \<Rightarrow>
                   Inr ((out\<lparr>pr_CreditEntryIDs := pr_CreditEntryIDs out @ [entry]\<rparr>, wallet1), db1))
            else Inr ((out, wallet), db)) of
        Inl e \<Rightarrow> Inl e
      | Inr ((out1, wallet1), db1) \<Rightarrow>
          if pr_AvailableAddedMinor out1 > 0 then
            (case postTopUpEntry (ce_now env 3) (ce_uuid env 1) (wallet1\<lparr>ow_AvailableMinor := available\<rparr>)
                    WalletEntryTopUpCredit (pr_AvailableAddedMinor out1) 0 0
                    (ti_CommercialOrderID i) (ps_PaymentID (ti_Payment i))
                    (pr_ReceiptID out1 @ '':credit'') db1 of
               Inl e \<Rightarrow> Inl e
             | Inr ((entry, _), db2) \<Rightarrow>
                 Inr (out1\<lparr>pr_CreditEntryIDs := pr_CreditEntryIDs out1 @ [entry]\<rparr>, db2))
          else Inr (out1, db1))"

definition new_posting_receipt ::
  "ProviderTopUpInput \<Rightarrow> providerTopUpRow \<Rightarrow> i64 \<Rightarrow> i64 \<Rightarrow> gotime \<Rightarrow> TopUpPostingReceipt" where
  "new_posting_receipt i seed availableAdded debtRepaid postedAt =
     \<lparr>pr_ReceiptID = ''topup-posting:'' @ pt_ClaimID seed, pr_OperationID = ti_OperationID i,
      pr_PaymentID = ps_PaymentID (ti_Payment i), pr_OrganizationID = ti_OrganizationID i,
      pr_CommercialOrderID = ti_CommercialOrderID i, pr_Binding = ti_Binding i,
      pr_Currency = ti_Currency i, pr_GrossCreditMinor = ti_AmountMinor i,
      pr_AvailableAddedMinor = availableAdded, pr_DebtRepaidMinor = debtRepaid,
      pr_CreditEntryIDs = [], pr_KnownReversalReceiptIDs = [],
      pr_RequestFingerprint = pt_Fingerprint seed, pr_ResultFingerprint = [],
      pr_PostedAt = postedAt\<rparr>"

text \<open>The first posting of a claim: payment, wallet, entries, settlement, known reversals, receipt.\<close>

definition post_new_topup ::
  "topup_doc digest \<Rightarrow> call_env \<Rightarrow> ProviderTopUpInput \<Rightarrow> providerTopUpRow \<Rightarrow> money_db \<Rightarrow>
   merr + TopUpPostingReceipt \<times> money_db" where
  "post_new_topup sha env i seed db2 =
       (case create_row payment_clash (paymentRowFromFact (ti_Payment i)) (db_payments db2) of
          None \<Rightarrow> Inl ErrConflict
        | Some payments \<Rightarrow>
       let (wallet, db3) =
             lockOrCreateWallet (ce_now env 0) (ti_OrganizationID i) (ti_Currency i)
               (db2\<lparr>db_payments := payments\<rparr>)
       in case addTopUp (ow_AvailableMinor wallet) (ow_DebtMinor wallet) (ti_AmountMinor i) of
            Inl e \<Rightarrow> Inl e
          | Inr (available, debt) \<Rightarrow>
       if ow_LifetimeTopUpMinor wallet > sub64 max64 (ti_AmountMinor i) then Inl ErrInvalid
       else
         let out = new_posting_receipt i seed (sub64 available (ow_AvailableMinor wallet))
                     (sub64 (ow_DebtMinor wallet) debt)
                     (nextWalletProcessingTimestamp (ce_now env 1) (ow_UpdatedAt wallet));
             wallet1 = wallet\<lparr>ow_LifetimeTopUpMinor :=
                                add64 (ow_LifetimeTopUpMinor wallet) (ti_AmountMinor i)\<rparr>
         in case post_topup_entries env i out available debt wallet1 db3 of
              Inl e \<Rightarrow> Inl e
            | Inr (out1, db4) \<Rightarrow>
         (case create_row settlement_clash
             \<lparr>ts_PaymentID = ps_PaymentID (ti_Payment i),
              ts_CommercialOrderID = ti_CommercialOrderID i,
              ts_OrganizationID = ti_OrganizationID i, ts_Currency = ti_Currency i,
              ts_AmountMinor = ti_AmountMinor i,
              ts_SettledAt = NormalizeTimestamp (ps_SettledAt (ti_Payment i)),
              ts_ProviderReference = ps_ProviderReference (ti_Payment i),
              ts_Version = ps_Version (ti_Payment i)\<rparr> (db_settlements db4) of
            None \<Rightarrow> Inl ErrDuplicatedKey
          | Some settlements \<Rightarrow>
         (case acceptReversals sha env 0 (ti_KnownReversals i)
                 (db4\<lparr>db_settlements := settlements\<rparr>) of
            Inl e \<Rightarrow> Inl e
          | Inr (receipts, db5) \<Rightarrow>
              let out2 = out1\<lparr>pr_KnownReversalReceiptIDs := map rr_ReceiptID receipts\<rparr>;
                  out3 = out2\<lparr>pr_ResultFingerprint := Fingerprint_TopUpPostingReceipt sha out2\<rparr>
              in if \<not> Validate_TopUpPostingReceipt sha out3 then Inl ErrInvalid
                 else Inr (out3, db5\<lparr>db_topups :=
                        update_rows (\<lambda>r. pt_ClaimID r = pt_ClaimID seed)
                          (\<lambda>r. r\<lparr>pt_Receipt := Bytes out3\<rparr>) (db_topups db5)\<rparr>))))"

definition topup_seed :: "topup_doc digest \<Rightarrow> ProviderTopUpInput \<Rightarrow> providerTopUpRow" where
  "topup_seed sha i =
     \<lparr>pt_ClaimID = ClaimID sha (ti_Binding i), pt_PaymentID = ps_PaymentID (ti_Payment i),
      pt_CommercialOrderID = ti_CommercialOrderID i, pt_OrganizationID = ti_OrganizationID i,
      pt_Fingerprint = Fingerprint_ProviderTopUpInput sha i, pt_Receipt = NoBytes\<rparr>"

definition acceptAndPostTx ::
  "topup_doc digest \<Rightarrow> call_env \<Rightarrow> ProviderTopUpInput \<Rightarrow> money_db \<Rightarrow>
   merr + TopUpPostingReceipt \<times> money_db" where
  "acceptAndPostTx sha env i db =
     (case claimChannelPayment sha (ti_Binding i) (ps_PaymentID (ti_Payment i))
             PaymentPurposeWalletTopUp db of
        Inl e \<Rightarrow> Inl e
      | Inr db1 \<Rightarrow>
     let seed = topup_seed sha i;
         db2 = db1\<lparr>db_topups := create_or_ignore topup_clash seed (db_topups db1)\<rparr>
     in case find (\<lambda>r. pt_ClaimID r = pt_ClaimID seed) (db_topups db2) of
          None \<Rightarrow> Inl ErrConflict
        | Some claim \<Rightarrow>
     if pt_Fingerprint claim \<noteq> pt_Fingerprint seed \<or> pt_PaymentID claim \<noteq> pt_PaymentID seed
        \<or> pt_CommercialOrderID claim \<noteq> pt_CommercialOrderID seed
        \<or> pt_OrganizationID claim \<noteq> pt_OrganizationID seed then Inl ErrConflict
     else if pt_Receipt claim \<noteq> NoBytes then
       (case decode (pt_Receipt claim) of
          None \<Rightarrow> Inl ErrConflict
        | Some out \<Rightarrow>
            if \<not> Validate_TopUpPostingReceipt sha out then Inl ErrConflict
            else case acceptReversals sha env 0 (ti_KnownReversals i) db2 of
                   Inl e \<Rightarrow> Inl e
                 | Inr (_, db3) \<Rightarrow> Inr (out, db3))
     else post_new_topup sha env i seed db2)"

definition AcceptAndPostProviderTopUp ::
  "topup_doc digest \<Rightarrow> mfault \<Rightarrow> call_env \<Rightarrow> ProviderTopUpInput \<Rightarrow> money_db \<Rightarrow>
   money_db \<times> (merr + TopUpPostingReceipt)" where
  "AcceptAndPostProviderTopUp sha flt env i db =
     (if flt = NilHandle \<or> \<not> Validate_ProviderTopUpInput i then (db, Inl ErrInvalid)
      else run_tx flt (acceptAndPostTx sha env i) db)"

text \<open>
  The dispatch of a generic refund or chargeback fact to the provider path: whether the
  payment belongs to it, and the error if there is one. The calls to the database before the
  reversal transaction are reads, so one fault covers the call.
\<close>

definition recordProviderReversal ::
  "topup_doc digest \<Rightarrow> mfault \<Rightarrow> call_env \<Rightarrow> string \<Rightarrow> string \<Rightarrow> WalletReversalKind \<Rightarrow> i64 \<Rightarrow> gotime \<Rightarrow>
   string \<Rightarrow> money_db \<Rightarrow> money_db \<times> bool \<times> merr option" where
  "recordProviderReversal sha flt env payment rid kind amount at reference db =
     (case find (\<lambda>r. py_PaymentID r = payment) (db_payments db) of
        None \<Rightarrow> (db, False, Some ErrNotFound)
      | Some p \<Rightarrow>
          if py_PaymentPurpose p \<noteq> PaymentPurposeWalletTopUp then (db, False, None)
          else case find (\<lambda>r. ts_PaymentID r = payment) (db_settlements db) of
            None \<Rightarrow> (db, True, Some ErrRecordNotFound)
          | Some binding \<Rightarrow>
              (case AcceptProviderTopUpReversal sha flt env
                  \<lparr>ov_ReversalID = rid, ov_PaymentID = payment,
                   ov_CommercialOrderID = ts_CommercialOrderID binding,
                   ov_OrganizationID = ts_OrganizationID binding, ov_Kind = kind,
                   ov_Currency = ts_Currency binding, ov_AmountMinor = amount,
                   ov_OccurredAt = at, ov_ProviderReference = reference\<rparr> db of
                 (db1, Inl e) \<Rightarrow> (db1, True, Some e)
               | (db1, Inr _) \<Rightarrow> (db1, True, None)))"

section \<open>Refund holds\<close>

definition checkRefundBudget :: "walletTopUpSettlementRow \<Rightarrow> i64 \<Rightarrow> money_db \<Rightarrow> merr option" where
  "checkRefundBudget binding extra db =
     (case (scan_sum (\<lambda>r. tr_PaymentID r = ts_PaymentID binding) tr_ProviderAmountMinor (db_receipts db),
            scan_sum (\<lambda>h. th_PaymentID h = ts_PaymentID binding \<and> th_State h = HoldReserved)
              th_AmountMinor (db_holds db)) of
        (Some confirmed, Some held) \<Rightarrow>
          if confirmed < 0 \<or> held < 0 \<or> extra < 0 \<or> confirmed > ts_AmountMinor binding
             \<or> held > sub64 (ts_AmountMinor binding) confirmed
             \<or> extra > sub64 (sub64 (ts_AmountMinor binding) confirmed) held
          then Some ErrWalletInsufficientBalance else None
      | _ \<Rightarrow> Some ErrUnavailable)"

definition prepareTopUpRefundTx ::
  "topup_doc digest \<Rightarrow> call_env \<Rightarrow> TopUpRefundInput \<Rightarrow> money_db \<Rightarrow> merr + TopUpRefundHold \<times> money_db" where
  "prepareTopUpRefundTx sha env i db =
     (case lockProviderTopUp (rk_PaymentID (fi_Key i)) db of
        Inl e \<Rightarrow> Inl e
      | Inr binding \<Rightarrow>
     if ts_OrganizationID binding \<noteq> fi_OrganizationID i
        \<or> ts_CommercialOrderID binding \<noteq> fi_CommercialOrderID i then Inl ErrConflict
     else case find (\<lambda>h. th_HoldID h = StorageID sha (fi_Key i)) (db_holds db) of
       Some existing \<Rightarrow>
         if rh_Input (refundHold existing) \<noteq> i then Inl ErrConflict
         else Inr (refundHold existing, db)
     | None \<Rightarrow>
         if length (filter (\<lambda>r. rf_RefundID r = rk_ReversalID (fi_Key i)) (db_refunds db)) > 0
         then Inl ErrConflict
         else case checkRefundBudget binding (fi_AmountMinor i) db of
           Some e \<Rightarrow> Inl e
         | None \<Rightarrow>
             let (wallet, db1) =
                   lockOrCreateWallet (ce_now env 0) (fi_OrganizationID i) (ts_Currency binding) db
             in if ow_DebtMinor wallet > 0 \<or> ow_AvailableMinor wallet < fi_AmountMinor i
                then Inl ErrWalletInsufficientBalance
                else if ow_ReservedMinor wallet > sub64 max64 (fi_AmountMinor i) then Inl ErrInvalid
                else
                  let wallet1 = wallet\<lparr>ow_AvailableMinor := sub64 (ow_AvailableMinor wallet) (fi_AmountMinor i),
                                        ow_ReservedMinor := add64 (ow_ReservedMinor wallet) (fi_AmountMinor i)\<rparr>;
                      row = \<lparr>th_HoldID = StorageID sha (fi_Key i),
                             th_PaymentID = rk_PaymentID (fi_Key i),
                             th_ReversalID = rk_ReversalID (fi_Key i),
                             th_OrganizationID = fi_OrganizationID i,
                             th_CommercialOrderID = fi_CommercialOrderID i,
                             th_AmountMinor = fi_AmountMinor i, th_ApprovalID = fi_ApprovalID i,
                             th_State = HoldReserved, th_Dispatched = False,
                             th_CreatedAt =
                               nextWalletProcessingTimestamp (ce_now env 1) (ow_UpdatedAt wallet)\<rparr>
                  in case create_row hold_clash row (db_holds db1) of
                       None \<Rightarrow> Inl ErrDuplicatedKey
                     | Some holds \<Rightarrow>
                         (case postTopUpEntry (ce_now env 2) (ce_uuid env 0) wallet1
                                 WalletEntryRefundReserve (neg64 (fi_AmountMinor i)) (fi_AmountMinor i) 0
                                 (fi_CommercialOrderID i) (rk_PaymentID (fi_Key i))
                                 (th_HoldID row @ '':reserve'') (db1\<lparr>db_holds := holds\<rparr>) of
                            Inl e \<Rightarrow> Inl e
                          | Inr (_, db2) \<Rightarrow> Inr (refundHold row, db2)))"

definition PrepareTopUpRefund ::
  "topup_doc digest \<Rightarrow> mfault \<Rightarrow> call_env \<Rightarrow> TopUpRefundInput \<Rightarrow> money_db \<Rightarrow>
   money_db \<times> (merr + TopUpRefundHold)" where
  "PrepareTopUpRefund sha flt env i db =
     (if flt = NilHandle \<or> \<not> Validate_TopUpRefundInput i then (db, Inl ErrInvalid)
      else run_tx flt (prepareTopUpRefundTx sha env i) db)"

definition admitTopUpRefundTx ::
  "topup_doc digest \<Rightarrow> TopUpRefundInput \<Rightarrow> money_db \<Rightarrow> merr + TopUpRefundHold \<times> money_db" where
  "admitTopUpRefundTx sha i db =
     (case lockProviderTopUp (rk_PaymentID (fi_Key i)) db of
        Inl e \<Rightarrow> Inl e
      | Inr binding \<Rightarrow>
     (case find (\<lambda>h. th_HoldID h = StorageID sha (fi_Key i)) (db_holds db) of
        None \<Rightarrow> Inl ErrRecordNotFound
      | Some row \<Rightarrow>
     if rh_Input (refundHold row) \<noteq> i then Inl ErrConflict
     else if th_Dispatched row then Inr (refundHold row, db)
     else if th_State row \<noteq> HoldReserved then Inl ErrConflict
     else case checkRefundBudget binding 0 db of
       Some e \<Rightarrow> Inl e
     | None \<Rightarrow>
         Inr ((refundHold row)\<lparr>rh_Dispatched := True\<rparr>,
              db\<lparr>db_holds := update_rows (\<lambda>h. th_HoldID h = th_HoldID row)
                               (\<lambda>h. h\<lparr>th_Dispatched := True\<rparr>) (db_holds db)\<rparr>)))"

definition AdmitTopUpRefund ::
  "topup_doc digest \<Rightarrow> mfault \<Rightarrow> TopUpRefundInput \<Rightarrow> money_db \<Rightarrow> money_db \<times> (merr + TopUpRefundHold)" where
  "AdmitTopUpRefund sha flt i db =
     (if flt = NilHandle \<or> \<not> Validate_TopUpRefundInput i then (db, Inl ErrInvalid)
      else run_tx flt (admitTopUpRefundTx sha i) db)"

definition releaseTopUpRefundHoldTx ::
  "topup_doc digest \<Rightarrow> call_env \<Rightarrow> TopUpRefundInput \<Rightarrow> bool \<Rightarrow> money_db \<Rightarrow>
   merr + TopUpRefundHold \<times> money_db" where
  "releaseTopUpRefundHoldTx sha env i terminalNotExecuted db =
     (case lockProviderTopUp (rk_PaymentID (fi_Key i)) db of
        Inl e \<Rightarrow> Inl e
      | Inr binding \<Rightarrow>
     (case find (\<lambda>h. th_HoldID h = StorageID sha (fi_Key i)) (db_holds db) of
        None \<Rightarrow> Inl ErrRecordNotFound
      | Some row \<Rightarrow>
     if rh_Input (refundHold row) \<noteq> i \<or> th_State row = HoldConfirmed then Inl ErrConflict
     else if th_State row = HoldReleased then Inr (refundHold row, db)
     else if th_Dispatched row \<and> \<not> terminalNotExecuted then Inl ErrConflict
     else
       let (wallet, db1) =
             lockOrCreateWallet (ce_now env 0) (fi_OrganizationID i) (ts_Currency binding) db
       in if ow_ReservedMinor wallet < fi_AmountMinor i then Inl ErrConflict
          else case addTopUp (ow_AvailableMinor wallet) (ow_DebtMinor wallet) (fi_AmountMinor i) of
            Inl e \<Rightarrow> Inl e
          | Inr (available, debt) \<Rightarrow>
              let added = sub64 available (ow_AvailableMinor wallet);
                  repaid = sub64 (ow_DebtMinor wallet) debt;
                  wallet1 = wallet\<lparr>ow_AvailableMinor := available, ow_DebtMinor := debt,
                    ow_ReservedMinor := sub64 (ow_ReservedMinor wallet) (fi_AmountMinor i)\<rparr>
              in case postTopUpEntry (ce_now env 1) (ce_uuid env 0) wallet1
                        WalletEntryRefundRelease added (neg64 (fi_AmountMinor i)) (neg64 repaid)
                        (fi_CommercialOrderID i) (rk_PaymentID (fi_Key i))
                        (th_HoldID row @ '':release'') db1 of
                   Inl e \<Rightarrow> Inl e
                 | Inr (_, db2) \<Rightarrow>
                     Inr ((refundHold row)\<lparr>rh_State := HoldReleased\<rparr>,
                          db2\<lparr>db_holds := update_rows (\<lambda>h. th_HoldID h = th_HoldID row)
                                (\<lambda>h. h\<lparr>th_State := HoldReleased\<rparr>) (db_holds db2)\<rparr>)))"

definition ReleaseTopUpRefundHold ::
  "topup_doc digest \<Rightarrow> mfault \<Rightarrow> call_env \<Rightarrow> TopUpRefundInput \<Rightarrow> bool \<Rightarrow> money_db \<Rightarrow>
   money_db \<times> (merr + TopUpRefundHold)" where
  "ReleaseTopUpRefundHold sha flt env i terminalNotExecuted db =
     (if flt = NilHandle \<or> \<not> Validate_TopUpRefundInput i then (db, Inl ErrInvalid)
      else run_tx flt (releaseTopUpRefundHoldTx sha env i terminalNotExecuted) db)"

section \<open>Reads\<close>

definition ReadTopUpPosting ::
  "topup_doc digest \<Rightarrow> mfault \<Rightarrow> string \<Rightarrow> string \<Rightarrow> string \<Rightarrow> money_db \<Rightarrow> merr + TopUpPostingReceipt" where
  "ReadTopUpPosting sha flt org order payment db =
     (if flt = NilHandle then Inl ErrUnavailable
      else if org = [] \<or> order = [] \<or> payment = [] then Inl ErrInvalid
      else run_read flt
        (case find (\<lambda>r. pt_OrganizationID r = org \<and> pt_CommercialOrderID r = order
                        \<and> pt_PaymentID r = payment) (db_topups db) of
           None \<Rightarrow> Inl ErrNotFound
         | Some row \<Rightarrow>
             (case decode (pt_Receipt row) of
                None \<Rightarrow> Inl ErrConflict
              | Some out \<Rightarrow>
                  if \<not> Validate_TopUpPostingReceipt sha out \<or> pr_OrganizationID out \<noteq> org
                     \<or> pr_CommercialOrderID out \<noteq> order \<or> pr_PaymentID out \<noteq> payment
                     \<or> pr_RequestFingerprint out \<noteq> pt_Fingerprint row
                  then Inl ErrConflict else Inr out)))"

definition ReadTopUpReversal ::
  "topup_doc digest \<Rightarrow> mfault \<Rightarrow> string \<Rightarrow> string \<Rightarrow> TopUpReversalKey \<Rightarrow> money_db \<Rightarrow>
   merr + TopUpReversalReceipt" where
  "ReadTopUpReversal sha flt org order key db =
     (if flt = NilHandle then Inl ErrUnavailable
      else if org = [] \<or> order = [] \<or> \<not> Validate_TopUpReversalKey key then Inl ErrInvalid
      else run_read flt
        (case find (\<lambda>r. tr_ReceiptID r = StorageID sha key \<and> tr_OrganizationID r = org
                        \<and> tr_CommercialOrderID r = order) (db_receipts db) of
           None \<Rightarrow> Inl ErrNotFound
         | Some row \<Rightarrow>
             (case decode (tr_Receipt row) of
                None \<Rightarrow> Inl ErrConflict
              | Some out \<Rightarrow>
                  if \<not> Validate_TopUpReversalReceipt sha out \<or> rr_Key out \<noteq> key
                     \<or> rr_OrganizationID out \<noteq> org \<or> rr_CommercialOrderID out \<noteq> order
                     \<or> rr_RequestFingerprint out \<noteq> tr_Fingerprint row
                  then Inl ErrConflict else Inr out)))"

definition ReadTopUpRefundHold ::
  "topup_doc digest \<Rightarrow> mfault \<Rightarrow> TopUpRefundInput \<Rightarrow> money_db \<Rightarrow> merr + TopUpRefundHold" where
  "ReadTopUpRefundHold sha flt i db =
     (if flt = NilHandle then Inl ErrUnavailable
      else if \<not> Validate_TopUpRefundInput i then Inl ErrInvalid
      else run_read flt
        (case find (\<lambda>h. th_HoldID h = StorageID sha (fi_Key i)
                        \<and> th_OrganizationID h = fi_OrganizationID i
                        \<and> th_CommercialOrderID h = fi_CommercialOrderID i) (db_holds db) of
           None \<Rightarrow> Inl ErrNotFound
         | Some row \<Rightarrow>
             if rh_Input (refundHold row) \<noteq> i then Inl ErrConflict else Inr (refundHold row)))"

end
