(* ===== verification/Wallet_Repo.thy ===== *)
theory Wallet_Repo
  imports TopUp_Repo
begin

text \<open>
  The organization wallet repository (\<open>wallet_repository.go\<close>): reads, the credit of a settled
  top-up, its reversal, and the reservation of funds for a commercial purchase with its commit
  or release. A method is a transaction body (suffix \<open>Tx\<close>) run by \<open>run_tx\<close>.

  Where a method reads before its transaction or after it, one fault still describes the call:
  a failing read before the transaction is a \<open>StmtFault\<close>, a failing read after the commit a
  \<open>CommitLost\<close>.
\<close>

section \<open>Reads\<close>

definition ReadOrganizationWallet ::
  "mfault \<Rightarrow> gotime \<Rightarrow> string \<Rightarrow> string \<Rightarrow> money_db \<Rightarrow> merr + OrganizationWalletSnapshot" where
  "ReadOrganizationWallet flt now organizationID currency db =
     (if flt = NilHandle then Inl ErrUnavailable
      else
        let org = TrimSpace organizationID in
        if org = [] \<or> currency \<noteq> WalletCurrencyCNY then Inl ErrInvalid
        else run_read flt
          (case db_wallets db (org, currency) of
             None \<Rightarrow> Inr (emptyWallet now org currency)
           | Some row \<Rightarrow> Inr (walletSnapshot row)))"

definition ReadCommercialPurchaseReservation ::
  "mfault \<Rightarrow> string \<Rightarrow> string \<Rightarrow> string \<Rightarrow> money_db \<Rightarrow> merr + WalletReservation" where
  "ReadCommercialPurchaseReservation flt organizationID orderID reservationID db =
     (if flt = NilHandle then Inl ErrUnavailable
      else
        let org = TrimSpace organizationID; order = TrimSpace orderID;
            rid = TrimSpace reservationID in
        if org = [] \<or> order = [] \<or> rid = [] then Inl ErrInvalid
        else run_read flt
          (case find (\<lambda>r. rv_OrganizationID r = org \<and> rv_CommercialOrderID r = order
                          \<and> rv_ReservationID r = rid) (db_reservations db) of
             None \<Rightarrow> Inl ErrWalletReservationConflict
           | Some row \<Rightarrow> Inr (reservationFromRow row)))"

definition ReadCommercialPurchaseReserveDecision ::
  "mfault \<Rightarrow> string \<Rightarrow> string \<Rightarrow> string \<Rightarrow> money_db \<Rightarrow> merr + WalletReserveDecision" where
  "ReadCommercialPurchaseReserveDecision flt organizationID operationID orderID db =
     (if flt = NilHandle then Inl ErrUnavailable
      else
        let org = TrimSpace organizationID; oper = TrimSpace operationID;
            order = TrimSpace orderID in
        if org = [] \<or> oper = [] \<or> order = [] then Inl ErrInvalid
        else run_read flt
          (case find (\<lambda>r. rd_OrganizationID r = org \<and> rd_OperationID r = oper
                          \<and> rd_CommercialOrderID r = order) (db_decisions db) of
             None \<Rightarrow> Inl ErrWalletReserveDecisionNotFound
           | Some row \<Rightarrow>
               (let decision = reserveDecisionFromRow row in
                if \<not> Validate_WalletReserveDecision decision then Inl ErrUnavailable
                else Inr decision)))"

section \<open>Crediting a settled top-up\<close>

text \<open>The settlement row, then the entries: the repaid debt, then the credit.\<close>

definition credit_entries ::
  "call_env \<Rightarrow> OrganizationTopUpSettlement \<Rightarrow> i64 \<Rightarrow> i64 \<Rightarrow> i64 \<Rightarrow> gotime \<Rightarrow> gotime \<Rightarrow>
   organizationWalletRow \<Rightarrow> money_db \<Rightarrow> money_db option" where
  "credit_entries env s availableBefore debtRepaid availableAdded processedAt creditProcessedAt row db =
     (case (if debtRepaid > 0 then
              insert_entry
                \<lparr>we_EntryID = ce_uuid env 0, we_OrganizationID = os_OrganizationID s,
                 we_Currency = os_Currency s, we_Kind = WalletEntryDebtRepayment,
                 we_AvailableDelta = 0, we_ReservedDelta = 0, we_DebtDelta = neg64 debtRepaid,
                 we_AvailableAfter = availableBefore, we_ReservedAfter = ow_ReservedMinor row,
                 we_DebtAfter = ow_DebtMinor row, we_CommercialOrderID = os_CommercialOrderID s,
                 we_PaymentID = os_PaymentID s, we_SourceIdentity = os_PaymentID s @ '':debt'',
                 we_OccurredAt = processedAt\<rparr> db
            else Some db) of
        None \<Rightarrow> None
      | Some db1 \<Rightarrow>
          if availableAdded > 0 then
            insert_entry
              \<lparr>we_EntryID = ce_uuid env 1, we_OrganizationID = os_OrganizationID s,
               we_Currency = os_Currency s, we_Kind = WalletEntryTopUpCredit,
               we_AvailableDelta = availableAdded, we_ReservedDelta = 0, we_DebtDelta = 0,
               we_AvailableAfter = ow_AvailableMinor row, we_ReservedAfter = ow_ReservedMinor row,
               we_DebtAfter = ow_DebtMinor row, we_CommercialOrderID = os_CommercialOrderID s,
               we_PaymentID = os_PaymentID s, we_SourceIdentity = os_PaymentID s,
               we_OccurredAt = creditProcessedAt\<rparr> db1
          else Some db1)"

definition creditSettledTopUpTx ::
  "call_env \<Rightarrow> OrganizationTopUpSettlement \<Rightarrow> money_db \<Rightarrow>
   merr + OrganizationWalletSnapshot \<times> money_db" where
  "creditSettledTopUpTx env s db =
     (case find (\<lambda>r. py_PaymentID r = os_PaymentID s) (db_payments db) of
        None \<Rightarrow> Inl ErrNotFound
      | Some payment \<Rightarrow>
     if py_PaymentPurpose payment = PaymentPurposeWalletTopUp
        \<or> py_PaymentPurpose payment = PaymentPurposeServicePurchase then Inl ErrUnsupportedMutation
     else if py_Currency payment \<noteq> os_Currency s \<or> os_AmountMinor s > py_GrossAmountMinor payment
     then Inl ErrConflict
     else case find (\<lambda>r. ts_PaymentID r = os_PaymentID s) (db_settlements db) of
       Some existing \<Rightarrow>
         if \<not> sameTopUp existing s then Inl ErrConflict
         else (case db_wallets db (os_OrganizationID s, os_Currency s) of
                 None \<Rightarrow> Inl ErrUnavailable
               | Some row \<Rightarrow> Inr (walletSnapshot row, db))
     | None \<Rightarrow>
         if find (\<lambda>r. ts_CommercialOrderID r = os_CommercialOrderID s) (db_settlements db) \<noteq> None
         then Inl ErrConflict
         else
           let (row, db1) = lockOrCreateWallet (ce_now env 0) (os_OrganizationID s) (os_Currency s) db
           in case addTopUp (ow_AvailableMinor row) (ow_DebtMinor row) (os_AmountMinor s) of
                Inl e \<Rightarrow> Inl e
              | Inr (available, debt) \<Rightarrow>
           if ow_LifetimeTopUpMinor row > sub64 max64 (os_AmountMinor s) then Inl ErrInvalid
           else
             let debtRepaid = sub64 (ow_DebtMinor row) debt;
                 availableAdded = sub64 available (ow_AvailableMinor row);
                 processedAt = nextWalletProcessingTimestamp (ce_now env 1) (ow_UpdatedAt row);
                 creditProcessedAt =
                   (if debtRepaid > 0 \<and> availableAdded > 0
                    then nextWalletProcessingTimestamp (ce_now env 2) processedAt else processedAt);
                 row1 = row\<lparr>ow_AvailableMinor := available, ow_DebtMinor := debt,
                            ow_LifetimeTopUpMinor := add64 (ow_LifetimeTopUpMinor row) (os_AmountMinor s),
                            ow_Version := add64 (ow_Version row) 1,
                            ow_UpdatedAt := creditProcessedAt\<rparr>;
                 db2 = saveWalletRow row1 db1
             in case create_row settlement_clash
                    \<lparr>ts_PaymentID = os_PaymentID s, ts_CommercialOrderID = os_CommercialOrderID s,
                     ts_OrganizationID = os_OrganizationID s, ts_Currency = os_Currency s,
                     ts_AmountMinor = os_AmountMinor s,
                     ts_SettledAt = NormalizeTimestamp (os_SettledAt s),
                     ts_ProviderReference = os_ProviderReference s,
                     ts_Version = os_Version s\<rparr> (db_settlements db2) of
                  None \<Rightarrow> Inl ErrUnavailable
                | Some settlements \<Rightarrow>
                    (case credit_entries env s (ow_AvailableMinor row) debtRepaid availableAdded
                            processedAt creditProcessedAt row1 (db2\<lparr>db_settlements := settlements\<rparr>) of
                       None \<Rightarrow> Inl ErrUnavailable
                     | Some db3 \<Rightarrow> Inr (walletSnapshot row1, db3)))"

definition CreditSettledTopUp ::
  "mfault \<Rightarrow> call_env \<Rightarrow> OrganizationTopUpSettlement \<Rightarrow> money_db \<Rightarrow>
   money_db \<times> (merr + OrganizationWalletSnapshot)" where
  "CreditSettledTopUp flt env s db =
     (if flt = NilHandle \<or> \<not> Validate_OrganizationTopUpSettlement s then (db, Inl ErrInvalid)
      else run_tx flt (creditSettledTopUpTx env s) db)"

section \<open>Reversing a settled top-up\<close>

definition sameReversal :: "walletReversalRow \<Rightarrow> OrganizationWalletReversal \<Rightarrow> bool" where
  "sameReversal existing v \<longleftrightarrow>
     \<not> (wv_PaymentID existing \<noteq> ov_PaymentID v \<or> wv_AmountMinor existing \<noteq> ov_AmountMinor v
        \<or> wv_Kind existing \<noteq> ov_Kind v \<or> wv_ProviderReference existing \<noteq> ov_ProviderReference v
        \<or> wv_OccurredAt existing \<noteq> NormalizeTimestamp (ov_OccurredAt v))"

definition applyTopUpReversalTx ::
  "call_env \<Rightarrow> OrganizationWalletReversal \<Rightarrow> money_db \<Rightarrow>
   merr + OrganizationWalletSnapshot \<times> money_db" where
  "applyTopUpReversalTx env v db =
     (case find (\<lambda>r. ts_PaymentID r = ov_PaymentID v \<and> ts_CommercialOrderID r = ov_CommercialOrderID v)
             (db_settlements db) of
        None \<Rightarrow> Inl ErrNotFound
      | Some settlement \<Rightarrow>
     if ts_OrganizationID settlement \<noteq> ov_OrganizationID v \<or> ts_Currency settlement \<noteq> ov_Currency v
     then Inl ErrConflict
     else case find (\<lambda>r. wv_ReversalID r = ov_ReversalID v) (db_reversals db) of
       Some existing \<Rightarrow>
         if \<not> sameReversal existing v then Inl ErrConflict
         else (case db_wallets db (ov_OrganizationID v, ov_Currency v) of
                 None \<Rightarrow> Inl ErrUnavailable
               | Some row \<Rightarrow> Inr (walletSnapshot row, db))
     | None \<Rightarrow>
         let (row, db1) = lockOrCreateWallet (ce_now env 0) (ov_OrganizationID v) (ov_Currency v) db
         in case scan_sum (\<lambda>r. wv_PaymentID r = ov_PaymentID v) wv_AmountMinor (db_reversals db1) of
              None \<Rightarrow> Inl ErrUnavailable
            | Some reversed \<Rightarrow>
         if reversed > ts_AmountMinor settlement
            \<or> ov_AmountMinor v > sub64 (ts_AmountMinor settlement) reversed then Inl ErrConflict
         else
           let availableLoss = minInt64 (ow_AvailableMinor row) (ov_AmountMinor v);
               debtIncrease = sub64 (ov_AmountMinor v) availableLoss
           in if ow_DebtMinor row > sub64 max64 debtIncrease then Inl ErrInvalid
              else
                let processedAt = nextWalletProcessingTimestamp (ce_now env 1) (ow_UpdatedAt row);
                    row1 = row\<lparr>ow_AvailableMinor := sub64 (ow_AvailableMinor row) availableLoss,
                               ow_DebtMinor := add64 (ow_DebtMinor row) debtIncrease,
                               ow_Version := add64 (ow_Version row) 1,
                               ow_UpdatedAt := processedAt\<rparr>;
                    db2 = saveWalletRow row1 db1
                in case create_row reversal_clash
                       \<lparr>wv_ReversalID = ov_ReversalID v, wv_PaymentID = ov_PaymentID v,
                        wv_CommercialOrderID = ov_CommercialOrderID v,
                        wv_OrganizationID = ov_OrganizationID v, wv_Kind = ov_Kind v,
                        wv_AmountMinor = ov_AmountMinor v,
                        wv_ProviderReference = ov_ProviderReference v,
                        wv_OccurredAt = NormalizeTimestamp (ov_OccurredAt v)\<rparr> (db_reversals db2) of
                     None \<Rightarrow> Inl ErrUnavailable
                   | Some reversals \<Rightarrow>
                       (case insert_entry
                          \<lparr>we_EntryID = ce_uuid env 0, we_OrganizationID = ov_OrganizationID v,
                           we_Currency = ov_Currency v,
                           we_Kind = (if ov_Kind v = WalletReversalChargeback
                                      then WalletEntryChargebackReversal else WalletEntryRefundReversal),
                           we_AvailableDelta = neg64 availableLoss, we_ReservedDelta = 0,
                           we_DebtDelta = debtIncrease, we_AvailableAfter = ow_AvailableMinor row1,
                           we_ReservedAfter = ow_ReservedMinor row1, we_DebtAfter = ow_DebtMinor row1,
                           we_CommercialOrderID = ov_CommercialOrderID v,
                           we_PaymentID = ov_PaymentID v, we_SourceIdentity = ov_ReversalID v,
                           we_OccurredAt = processedAt\<rparr> (db2\<lparr>db_reversals := reversals\<rparr>) of
                          None \<Rightarrow> Inl ErrUnavailable
                        | Some db3 \<Rightarrow> Inr (walletSnapshot row1, db3)))"

definition ApplyTopUpReversal ::
  "topup_doc digest \<Rightarrow> mfault \<Rightarrow> call_env \<Rightarrow> OrganizationWalletReversal \<Rightarrow> money_db \<Rightarrow>
   money_db \<times> (merr + OrganizationWalletSnapshot)" where
  "ApplyTopUpReversal sha flt env v db =
     (if flt = NilHandle \<or> \<not> Validate_OrganizationWalletReversal v then (db, Inl ErrInvalid)
      else case find (\<lambda>r. py_PaymentID r = ov_PaymentID v) (db_payments db) of
        None \<Rightarrow> (db, Inl ErrNotFound)
      | Some payment \<Rightarrow>
          if py_PaymentPurpose payment = PaymentPurposeServicePurchase
          then (db, Inl ErrUnsupportedMutation)
          else if py_PaymentPurpose payment = PaymentPurposeWalletTopUp then
            (case AcceptProviderTopUpReversal sha flt env v db of
               (db1, Inl e) \<Rightarrow> (db1, Inl e)
             | (db1, Inr _) \<Rightarrow>
                 (db1, ReadOrganizationWallet flt (ce_now env 3) (ov_OrganizationID v) (ov_Currency v) db1))
          else run_tx flt (applyTopUpReversalTx env v) db)"

section \<open>Reserving funds for a purchase\<close>

text \<open>\<open>Inr None\<close> when there is no decision for the key.\<close>

definition readWalletReserveDecision ::
  "ReserveWalletFundsInput \<Rightarrow> money_db \<Rightarrow> merr + WalletReserveDecision option" where
  "readWalletReserveDecision i db =
     (case find (\<lambda>r. rd_OrganizationID r = ri_OrganizationID i \<and> rd_OperationID r = ri_OperationID i
                     \<and> rd_CommercialOrderID r = ri_CommercialOrderID i) (db_decisions db) of
        None \<Rightarrow> Inr None
      | Some row \<Rightarrow>
          let decision = reserveDecisionFromRow row in
          if \<not> Validate_WalletReserveDecision decision \<or> de_Currency decision \<noteq> ri_Currency i
             \<or> de_AmountMinor decision \<noteq> ri_AmountMinor i
          then Inl ErrWalletReservationConflict
          else Inr (Some decision))"

definition readReservationForDecision ::
  "WalletReserveDecision \<Rightarrow> money_db \<Rightarrow> merr + WalletReservation" where
  "readReservationForDecision d db =
     (if de_Outcome d \<noteq> WalletReserveDecisionReserved \<or> de_ReservationID d = []
      then Inl ErrWalletReservationConflict
      else case find (\<lambda>r. rv_OrganizationID r = de_OrganizationID d
                          \<and> rv_OperationID r = de_OperationID d
                          \<and> rv_CommercialOrderID r = de_CommercialOrderID d
                          \<and> rv_ReservationID r = de_ReservationID d) (db_reservations db) of
             None \<Rightarrow> Inl ErrUnavailable
           | Some row \<Rightarrow>
               if rv_Currency row \<noteq> de_Currency d \<or> rv_AmountMinor row \<noteq> de_AmountMinor d
               then Inl ErrWalletReservationConflict
               else Inr (reservationFromRow row))"

text \<open>
  The answer of a transaction body is \<open>None\<close> when its \<open>insufficient\<close> flag is set. A recorded
  decision is replayed.
\<close>

definition replay_decision ::
  "WalletReserveDecision \<Rightarrow> money_db \<Rightarrow> merr + WalletReservation option \<times> money_db" where
  "replay_decision decision db =
     (if de_Outcome decision = WalletReserveDecisionRejectedInsufficientFunds then Inr (None, db)
      else case readReservationForDecision decision db of
             Inl e \<Rightarrow> Inl e
           | Inr reservation \<Rightarrow> Inr (Some reservation, db))"

text \<open>What follows the second lookup: the funds are there, or the rejection is recorded.\<close>

definition reserve_funds ::
  "call_env \<Rightarrow> ReserveWalletFundsInput \<Rightarrow> organizationWalletRow \<Rightarrow> money_db \<Rightarrow>
   merr + WalletReservation option \<times> money_db" where
  "reserve_funds env i wallet db =
     (if ow_AvailableMinor wallet < ri_AmountMinor i then
        (case create_row decision_clash
            \<lparr>rd_OrganizationID = ri_OrganizationID i, rd_OperationID = ri_OperationID i,
             rd_CommercialOrderID = ri_CommercialOrderID i, rd_Currency = ri_Currency i,
             rd_AmountMinor = ri_AmountMinor i,
             rd_Outcome = WalletReserveDecisionRejectedInsufficientFunds,
             rd_ReservationID = [], rd_DecidedAt = truncate_us (ce_now env 1)\<rparr> (db_decisions db) of
           None \<Rightarrow> Inl ErrUnavailable
         | Some decisions \<Rightarrow> Inr (None, db\<lparr>db_decisions := decisions\<rparr>))
      else if ow_ReservedMinor wallet > sub64 max64 (ri_AmountMinor i) then Inl ErrInvalid
      else
        let now = nextWalletProcessingTimestamp (ce_now env 1) (ow_UpdatedAt wallet);
            reservation =
              \<lparr>rv_OrganizationID = ri_OrganizationID i, rv_ReservationID = ce_uuid env 0,
               rv_OperationID = ri_OperationID i, rv_CommercialOrderID = ri_CommercialOrderID i,
               rv_FinishOperationID = None, rv_Currency = ri_Currency i,
               rv_AmountMinor = ri_AmountMinor i, rv_State = WalletReservationReserved,
               rv_CreatedAt = now, rv_UpdatedAt = now\<rparr>;
            wallet1 = wallet\<lparr>ow_AvailableMinor := sub64 (ow_AvailableMinor wallet) (ri_AmountMinor i),
                             ow_ReservedMinor := add64 (ow_ReservedMinor wallet) (ri_AmountMinor i),
                             ow_Version := add64 (ow_Version wallet) 1, ow_UpdatedAt := now\<rparr>;
            db1 = saveWalletRow wallet1 db
        in case create_row reservation_clash reservation (db_reservations db1) of
             None \<Rightarrow> Inl ErrUnavailable
           | Some reservations \<Rightarrow>
               (case create_row decision_clash
                   \<lparr>rd_OrganizationID = ri_OrganizationID i, rd_OperationID = ri_OperationID i,
                    rd_CommercialOrderID = ri_CommercialOrderID i, rd_Currency = ri_Currency i,
                    rd_AmountMinor = ri_AmountMinor i, rd_Outcome = WalletReserveDecisionReserved,
                    rd_ReservationID = rv_ReservationID reservation, rd_DecidedAt = now\<rparr>
                   (db_decisions db1) of
                  None \<Rightarrow> Inl ErrUnavailable
                | Some decisions \<Rightarrow>
                    (case createWalletEntry (ce_uuid env 1) wallet1 WalletEntryPurchaseReserve
                            (neg64 (ri_AmountMinor i)) (ri_AmountMinor i) 0 (ri_CommercialOrderID i) []
                            (ri_CommercialOrderID i) now
                            (db1\<lparr>db_reservations := reservations, db_decisions := decisions\<rparr>) of
                       Inl e \<Rightarrow> Inl e
                     | Inr db2 \<Rightarrow> Inr (Some (reservationFromRow reservation), db2))))"

text \<open>
  The first lookup runs before the wallet is locked, so it may see an earlier state \<open>early\<close>
  than the one the rest of the transaction runs on; alone, a transaction sees one state.
\<close>

definition reserveFrom ::
  "call_env \<Rightarrow> ReserveWalletFundsInput \<Rightarrow> money_db \<Rightarrow> money_db \<Rightarrow>
   merr + WalletReservation option \<times> money_db" where
  "reserveFrom env i early db =
     (case readWalletReserveDecision i early of
        Inl e \<Rightarrow> Inl e
      | Inr (Some decision) \<Rightarrow> replay_decision decision db
      | Inr None \<Rightarrow>
          (let (wallet, db1) = lockOrCreateWallet (ce_now env 0) (ri_OrganizationID i) (ri_Currency i) db
           in case readWalletReserveDecision i db1 of
                Inl e \<Rightarrow> Inl e
              | Inr (Some decision) \<Rightarrow> replay_decision decision db1
              | Inr None \<Rightarrow> reserve_funds env i wallet db1))"

definition reserveCommercialPurchaseTx ::
  "call_env \<Rightarrow> ReserveWalletFundsInput \<Rightarrow> money_db \<Rightarrow> merr + WalletReservation option \<times> money_db" where
  "reserveCommercialPurchaseTx env i db = reserveFrom env i db db"

definition reserve_guard :: "ReserveWalletFundsInput \<Rightarrow> bool" where
  "reserve_guard i \<longleftrightarrow>
     \<not> (TrimSpace (ri_OrganizationID i) = [] \<or> TrimSpace (ri_OperationID i) = []
        \<or> TrimSpace (ri_CommercialOrderID i) = [] \<or> ri_Currency i \<noteq> WalletCurrencyCNY
        \<or> ri_AmountMinor i \<le> 0)"

definition ReserveCommercialPurchase ::
  "mfault \<Rightarrow> call_env \<Rightarrow> ReserveWalletFundsInput \<Rightarrow> money_db \<Rightarrow> money_db \<times> (merr + WalletReservation)" where
  "ReserveCommercialPurchase flt env i db =
     (if flt = NilHandle \<or> \<not> reserve_guard i then (db, Inl ErrInvalid)
      else case run_tx flt (reserveCommercialPurchaseTx env i) db of
             (db1, Inl e) \<Rightarrow> (db1, Inl e)
           | (db1, Inr None) \<Rightarrow> (db1, Inl ErrWalletInsufficientBalance)
           | (db1, Inr (Some reservation)) \<Rightarrow> (db1, Inr reservation))"

section \<open>Finishing a reservation\<close>

text \<open>The wallet after the terminal state is applied, with the available and debt deltas.\<close>

definition finish_wallet ::
  "WalletReservationState \<Rightarrow> i64 \<Rightarrow> organizationWalletRow \<Rightarrow>
   merr + organizationWalletRow \<times> i64 \<times> i64" where
  "finish_wallet terminal amount wallet =
     (if terminal = WalletReservationReleased then
        let debtRepaid = minInt64 (ow_DebtMinor wallet) amount;
            availableDelta = sub64 amount debtRepaid
        in if ow_AvailableMinor wallet > sub64 max64 availableDelta then Inl ErrInvalid
           else Inr (wallet\<lparr>ow_AvailableMinor := add64 (ow_AvailableMinor wallet) availableDelta,
                            ow_DebtMinor := sub64 (ow_DebtMinor wallet) debtRepaid,
                            ow_ReservedMinor := sub64 (ow_ReservedMinor wallet) amount\<rparr>,
                     availableDelta, neg64 debtRepaid)
      else if ow_LifetimeSpendMinor wallet > sub64 max64 amount then Inl ErrInvalid
      else Inr (wallet\<lparr>ow_LifetimeSpendMinor := add64 (ow_LifetimeSpendMinor wallet) amount,
                       ow_ReservedMinor := sub64 (ow_ReservedMinor wallet) amount\<rparr>, 0, 0))"

definition finishReservationTx ::
  "WalletReservationState \<Rightarrow> WalletEntryKind \<Rightarrow> call_env \<Rightarrow> CommitWalletReservationInput \<Rightarrow>
   money_db \<Rightarrow> merr + WalletReservation \<times> money_db" where
  "finishReservationTx terminal kind env i db =
     (case find (\<lambda>r. rv_FinishOperationID r = Some (ci_OperationID i)) (db_reservations db) of
        Some operationOwner \<Rightarrow>
          if rv_ReservationID operationOwner \<noteq> ci_ReservationID i
             \<or> rv_OrganizationID operationOwner \<noteq> ci_OrganizationID i
             \<or> rv_CommercialOrderID operationOwner \<noteq> ci_CommercialOrderID i
             \<or> rv_State operationOwner \<noteq> terminal then Inl ErrWalletReservationConflict
          else Inr (reservationFromRow operationOwner, db)
      | None \<Rightarrow>
     (case find (\<lambda>r. rv_OrganizationID r = ci_OrganizationID i
                     \<and> rv_ReservationID r = ci_ReservationID i) (db_reservations db) of
        None \<Rightarrow> Inl ErrWalletReservationConflict
      | Some reservation \<Rightarrow>
     if rv_CommercialOrderID reservation \<noteq> ci_CommercialOrderID i then Inl ErrWalletReservationConflict
     else if rv_State reservation = terminal then Inl ErrWalletReservationConflict
     else if rv_State reservation \<noteq> WalletReservationReserved then Inl ErrWalletReservationConflict
     else
       let (wallet, db1) =
             lockOrCreateWallet (ce_now env 0) (ci_OrganizationID i) (rv_Currency reservation) db
       in if ow_ReservedMinor wallet < rv_AmountMinor reservation
          then Inl ErrWalletReservationConflict
          else case finish_wallet terminal (rv_AmountMinor reservation) wallet of
            Inl e \<Rightarrow> Inl e
          | Inr (wallet1, availableDelta, debtDelta) \<Rightarrow>
              let at = nextWalletProcessingTimestamp (ce_now env 1) (ow_UpdatedAt wallet);
                  wallet2 = wallet1\<lparr>ow_Version := add64 (ow_Version wallet) 1, ow_UpdatedAt := at\<rparr>;
                  reservation1 = reservation\<lparr>rv_State := terminal,
                                   rv_FinishOperationID := Some (ci_OperationID i),
                                   rv_UpdatedAt := at\<rparr>;
                  db2 = saveWalletRow wallet2 db1;
                  db3 = db2\<lparr>db_reservations :=
                          update_rows (\<lambda>r. rv_ReservationID r = rv_ReservationID reservation)
                            (\<lambda>_. reservation1) (db_reservations db2)\<rparr>
              in case createWalletEntry (ce_uuid env 0) wallet2 kind availableDelta
                        (neg64 (rv_AmountMinor reservation)) debtDelta (ci_CommercialOrderID i) []
                        (ci_CommercialOrderID i) at db3 of
                   Inl e \<Rightarrow> Inl e
                 | Inr db4 \<Rightarrow> Inr (reservationFromRow reservation1, db4)))"

definition finishReservation ::
  "WalletReservationState \<Rightarrow> WalletEntryKind \<Rightarrow> mfault \<Rightarrow> call_env \<Rightarrow> CommitWalletReservationInput \<Rightarrow>
   money_db \<Rightarrow> money_db \<times> (merr + WalletReservation)" where
  "finishReservation terminal kind flt env i db =
     (if flt = NilHandle \<or> TrimSpace (ci_OperationID i) = [] \<or> length (ci_OperationID i) > 128
         \<or> TrimSpace (ci_OrganizationID i) = [] \<or> TrimSpace (ci_CommercialOrderID i) = []
         \<or> TrimSpace (ci_ReservationID i) = [] then (db, Inl ErrInvalid)
      else run_tx flt (finishReservationTx terminal kind env i) db)"

definition CommitCommercialPurchase ::
  "mfault \<Rightarrow> call_env \<Rightarrow> CommitWalletReservationInput \<Rightarrow> money_db \<Rightarrow>
   money_db \<times> (merr + WalletReservation)" where
  "CommitCommercialPurchase =
     finishReservation WalletReservationCommitted WalletEntryPurchaseCommit"

definition ReleaseCommercialPurchase ::
  "mfault \<Rightarrow> call_env \<Rightarrow> ReleaseWalletReservationInput \<Rightarrow> money_db \<Rightarrow>
   money_db \<times> (merr + WalletReservation)" where
  "ReleaseCommercialPurchase flt env i =
     finishReservation WalletReservationReleased WalletEntryPurchaseRelease flt env
       \<lparr>ci_OperationID = li_OperationID i, ci_OrganizationID = li_OrganizationID i,
        ci_CommercialOrderID = li_CommercialOrderID i, ci_ReservationID = li_ReservationID i\<rparr>"

end
