(* ===== verification/Wallet_Laws.thy ===== *)
theory Wallet_Laws
  imports Posting Wallet_Repo
begin

text \<open>
  What the transactions of the wallet repository do to the database: for each of them a case
  rule with one case per outcome that commits, stating the posting and the rows it writes.
\<close>

section \<open>Reservation\<close>

lemma reserve_funds_cases:
  assumes "wallets_ok db" and amt: "amount_ok (ri_AmountMinor i)"
    and lock: "lockOrCreateWallet now (ri_OrganizationID i) (ri_Currency i) db = (w, db1)"
    and run: "reserve_funds env i w db1 = Inr (out, db')"
  obtains
    (rejected) d where "ow_AvailableMinor w < ri_AmountMinor i" "out = None"
      "posting (ri_OrganizationID i, ri_Currency i) w w [] db db'"
      "db' = db\<lparr>db_wallets := (db_wallets db)((ri_OrganizationID i, ri_Currency i) \<mapsto> w),
                db_decisions := db_decisions db @ [d]\<rparr>"
      "rd_Outcome d = WalletReserveDecisionRejectedInsufficientFunds"
      "d = \<lparr>rd_OrganizationID = ri_OrganizationID i, rd_OperationID = ri_OperationID i,
             rd_CommercialOrderID = ri_CommercialOrderID i, rd_Currency = ri_Currency i,
             rd_AmountMinor = ri_AmountMinor i,
             rd_Outcome = WalletReserveDecisionRejectedInsufficientFunds,
             rd_ReservationID = [], rd_DecidedAt = truncate_us (ce_now env 1)\<rparr>"
  | (reserved) row d e w' at where "ri_AmountMinor i \<le> ow_AvailableMinor w"
      "out = Some (reservationFromRow row)"
      "posting (ri_OrganizationID i, ri_Currency i) w w' [e] db db'"
      "w' = w\<lparr>ow_AvailableMinor := ow_AvailableMinor w - ri_AmountMinor i,
              ow_ReservedMinor := ow_ReservedMinor w + ri_AmountMinor i,
              ow_Version := add64 (ow_Version w) 1, ow_UpdatedAt := at\<rparr>"
      "row = \<lparr>rv_OrganizationID = ri_OrganizationID i, rv_ReservationID = ce_uuid env 0,
              rv_OperationID = ri_OperationID i, rv_CommercialOrderID = ri_CommercialOrderID i,
              rv_FinishOperationID = None, rv_Currency = ri_Currency i,
              rv_AmountMinor = ri_AmountMinor i, rv_State = WalletReservationReserved,
              rv_CreatedAt = at, rv_UpdatedAt = at\<rparr>"
      "\<forall>x\<in>set (db_reservations db). \<not> reservation_clash row x"
      "d = \<lparr>rd_OrganizationID = ri_OrganizationID i, rd_OperationID = ri_OperationID i,
             rd_CommercialOrderID = ri_CommercialOrderID i, rd_Currency = ri_Currency i,
             rd_AmountMinor = ri_AmountMinor i, rd_Outcome = WalletReserveDecisionReserved,
             rd_ReservationID = ce_uuid env 0, rd_DecidedAt = at\<rparr>"
      "db' = db\<lparr>db_wallets := (db_wallets db)((ri_OrganizationID i, ri_Currency i) \<mapsto> w'), db_reservations := db_reservations db @ [row],
                db_decisions := db_decisions db @ [d], db_entries := db_entries db @ [e]\<rparr>"
      "at = nextWalletProcessingTimestamp (ce_now env 1) (ow_UpdatedAt w)"
proof (cases "ow_AvailableMinor w < ri_AmountMinor i")
  case True
  note l = lock_spec [OF assms(1) lock]
  from True run show thesis
    by (auto simp: reserve_funds_def create_row_Some l(5) split: option.splits
        intro!: rejected posting_touch [OF assms(1) lock])
next
  case False
  note l = lock_spec [OF assms(1) lock]
  define at where "at = nextWalletProcessingTimestamp (ce_now env 1) (ow_UpdatedAt w)"
  define w' where "w' = w\<lparr>ow_AvailableMinor := ow_AvailableMinor w - ri_AmountMinor i,
              ow_ReservedMinor := ow_ReservedMinor w + ri_AmountMinor i,
              ow_Version := add64 (ow_Version w) 1, ow_UpdatedAt := at\<rparr>"
  have guard: "\<not> sub64 max64 (ri_AmountMinor i) < ow_ReservedMinor w"
    using run False by (auto simp: reserve_funds_def split: if_splits)
  note ar = wallet_arith [OF l(1) amt]
  have w'eq: "w\<lparr>ow_AvailableMinor := sub64 (ow_AvailableMinor w) (ri_AmountMinor i),
              ow_ReservedMinor := add64 (ow_ReservedMinor w) (ri_AmountMinor i),
              ow_Version := add64 (ow_Version w) 1, ow_UpdatedAt := at\<rparr> = w'"
    using ar(1) ar(3) [OF guard] False by (simp add: w'_def)
  have ok: "wallet_ok w'"
    using l(1) amt False ar(3) [OF guard] by (auto simp: wallet_ok_def w'_def amount_ok_def)
  define row where "row = \<lparr>rv_OrganizationID = ri_OrganizationID i, rv_ReservationID = ce_uuid env 0,
      rv_OperationID = ri_OperationID i, rv_CommercialOrderID = ri_CommercialOrderID i,
      rv_FinishOperationID = None, rv_Currency = ri_Currency i,
      rv_AmountMinor = ri_AmountMinor i, rv_State = WalletReservationReserved,
      rv_CreatedAt = at, rv_UpdatedAt = at\<rparr>"
  define d where "d = \<lparr>rd_OrganizationID = ri_OrganizationID i, rd_OperationID = ri_OperationID i,
      rd_CommercialOrderID = ri_CommercialOrderID i, rd_Currency = ri_Currency i,
      rd_AmountMinor = ri_AmountMinor i, rd_Outcome = WalletReserveDecisionReserved,
      rd_ReservationID = ce_uuid env 0, rd_DecidedAt = at\<rparr>"
  define e where "e = \<lparr>we_EntryID = ce_uuid env 1, we_OrganizationID = ri_OrganizationID i,
      we_Currency = ri_Currency i, we_Kind = WalletEntryPurchaseReserve,
      we_AvailableDelta = - ri_AmountMinor i, we_ReservedDelta = ri_AmountMinor i, we_DebtDelta = 0,
      we_AvailableAfter = ow_AvailableMinor w', we_ReservedAfter = ow_ReservedMinor w',
      we_DebtAfter = ow_DebtMinor w', we_CommercialOrderID = ri_CommercialOrderID i,
      we_PaymentID = [], we_SourceIdentity = ri_CommercialOrderID i, we_OccurredAt = at\<rparr>"
  have key: "ow_OrganizationID w' = ri_OrganizationID i" "ow_Currency w' = ri_Currency i"
    using l by (simp_all add: w'_def)
  have out: "out = Some (reservationFromRow row)"
    and fresh: "\<forall>x\<in>set (db_reservations db). \<not> reservation_clash row x"
    and db': "db' = db\<lparr>db_wallets := (db_wallets db)((ri_OrganizationID i, ri_Currency i) \<mapsto> w'),
          db_reservations := db_reservations db @ [row], db_decisions := db_decisions db @ [d],
          db_entries := db_entries db @ [e]\<rparr>"
    using run False guard
    by (auto simp: reserve_funds_def Let_def at_def [symmetric] w'eq create_row_Some
        createWalletEntry_def insert_entry_Some l(2,3,5) ar(6) key row_def d_def e_def
        simp del: One_nat_def split: if_splits option.splits)
  have "posting (ri_OrganizationID i, ri_Currency i) w w' [e] db db'"
    using ok l nextWalletProcessingTimestamp_gt [of "ow_UpdatedAt w"]
    by (intro postingI [OF assms(1) lock])
      (auto simp: db' w'_def e_def owner_def balances_def at_def intro: order_trans [OF less_imp_le])
  then show thesis
    using False fresh out db' by (intro reserved) (auto simp: w'_def at_def row_def d_def)
qed

section \<open>Commit and release\<close>

lemma finish_wallet_Inr:
  assumes "finish_wallet terminal n w = Inr (w1, da, dd)" "wallet_ok w" "amount_ok n"
    "n \<le> ow_ReservedMinor w"
  shows "wallet_ok w1" "ow_OrganizationID w1 = ow_OrganizationID w" "ow_Currency w1 = ow_Currency w"
    "ow_AvailableMinor w1 = ow_AvailableMinor w + da" "ow_DebtMinor w1 = ow_DebtMinor w + dd"
    "ow_ReservedMinor w1 = ow_ReservedMinor w - n"
    "terminal = WalletReservationReleased \<Longrightarrow>
       dd = - min (ow_DebtMinor w) n \<and> da = n - min (ow_DebtMinor w) n
       \<and> ow_LifetimeSpendMinor w1 = ow_LifetimeSpendMinor w"
    "terminal \<noteq> WalletReservationReleased \<Longrightarrow>
       da = 0 \<and> dd = 0 \<and> ow_LifetimeSpendMinor w1 = ow_LifetimeSpendMinor w + n"
    "ow_LifetimeTopUpMinor w1 = ow_LifetimeTopUpMinor w" "ow_UpdatedAt w1 = ow_UpdatedAt w"
  using assms
  by (auto simp: finish_wallet_def Let_def wallet_ok_def amount_ok_def minInt64_min min_def
      add64_def sub64_def neg64_def wrap64_def in64_unfold split: if_splits)

lemma finish_cases:
  assumes "wallets_ok db" and pos: "\<forall>r\<in>set (db_reservations db). amount_ok (rv_AmountMinor r)"
    and run: "finishReservationTx terminal kind env i db = Inr (out, db')"
  obtains
    (replay) r where "r \<in> set (db_reservations db)" "rv_FinishOperationID r = Some (ci_OperationID i)"
      "rv_State r = terminal" "out = reservationFromRow r" "db' = db"
  | (finished) r w w1 w' da dd e r' at where "r \<in> set (db_reservations db)"
      "rv_OrganizationID r = ci_OrganizationID i" "rv_ReservationID r = ci_ReservationID i"
      "rv_CommercialOrderID r = ci_CommercialOrderID i"
      "find (\<lambda>r. rv_FinishOperationID r = Some (ci_OperationID i)) (db_reservations db) = None"
      "rv_State r = WalletReservationReserved" "terminal \<noteq> WalletReservationReserved"
      "posting (ci_OrganizationID i, rv_Currency r) w w' [e] db db'"
      "rv_AmountMinor r \<le> ow_ReservedMinor w"
      "finish_wallet terminal (rv_AmountMinor r) w = Inr (w1, da, dd)"
      "w' = w1\<lparr>ow_Version := add64 (ow_Version w) 1, ow_UpdatedAt := at\<rparr>"
      "r' = r\<lparr>rv_State := terminal, rv_FinishOperationID := Some (ci_OperationID i),
               rv_UpdatedAt := at\<rparr>"
      "out = reservationFromRow r'"
      "db' = db\<lparr>db_wallets := (db_wallets db)((ci_OrganizationID i, rv_Currency r) \<mapsto> w'),
                db_reservations := update_rows (\<lambda>x. rv_ReservationID x = rv_ReservationID r)
                  (\<lambda>_. r') (db_reservations db), db_entries := db_entries db @ [e]\<rparr>"
proof (cases "find (\<lambda>r. rv_FinishOperationID r = Some (ci_OperationID i)) (db_reservations db)")
  case (Some r)
  with run show thesis
    by (intro replay) (auto simp: finishReservationTx_def split: if_splits dest: find_SomeD)
next
  case None
  from run None obtain r where
    fr: "find (\<lambda>r. rv_OrganizationID r = ci_OrganizationID i
                     \<and> rv_ReservationID r = ci_ReservationID i) (db_reservations db) = Some r"
    by (auto simp: finishReservationTx_def split: option.splits)
  then have r: "r \<in> set (db_reservations db)" "rv_OrganizationID r = ci_OrganizationID i"
    "rv_ReservationID r = ci_ReservationID i" by (auto dest: find_SomeD)
  obtain w db1 where lock:
    "lockOrCreateWallet (ce_now env 0) (ci_OrganizationID i) (rv_Currency r) db = (w, db1)"
    by fastforce
  note l = lock_spec [OF assms(1) lock]
  from run None fr lock obtain w1 da dd where
    st: "rv_CommercialOrderID r = ci_CommercialOrderID i" "rv_State r = WalletReservationReserved"
      "terminal \<noteq> WalletReservationReserved" "rv_AmountMinor r \<le> ow_ReservedMinor w"
    and fin: "finish_wallet terminal (rv_AmountMinor r) w = Inr (w1, da, dd)"
    by (auto simp: finishReservationTx_def split: if_splits sum.splits)
  note fw = finish_wallet_Inr [OF fin l(1) bspec [OF pos r(1)] st(4)]
  define at where "at = nextWalletProcessingTimestamp (ce_now env 1) (ow_UpdatedAt w)"
  define w' where "w' = w1\<lparr>ow_Version := add64 (ow_Version w) 1, ow_UpdatedAt := at\<rparr>"
  define r' where "r' = r\<lparr>rv_State := terminal, rv_FinishOperationID := Some (ci_OperationID i),
               rv_UpdatedAt := at\<rparr>"
  define e where "e = \<lparr>we_EntryID = ce_uuid env 0, we_OrganizationID = ci_OrganizationID i,
      we_Currency = rv_Currency r, we_Kind = kind, we_AvailableDelta = da,
      we_ReservedDelta = - rv_AmountMinor r, we_DebtDelta = dd,
      we_AvailableAfter = ow_AvailableMinor w', we_ReservedAfter = ow_ReservedMinor w',
      we_DebtAfter = ow_DebtMinor w', we_CommercialOrderID = ci_CommercialOrderID i,
      we_PaymentID = [], we_SourceIdentity = ci_CommercialOrderID i, we_OccurredAt = at\<rparr>"
  have key: "ow_OrganizationID w' = ci_OrganizationID i" "ow_Currency w' = rv_Currency r"
    using l fw by (simp_all add: w'_def)
  have neg: "neg64 (rv_AmountMinor r) = - rv_AmountMinor r"
    using wallet_arith(6) [OF l(1) bspec [OF pos r(1)]] .
  have out: "out = reservationFromRow r'"
    and db': "db' = db\<lparr>db_wallets := (db_wallets db)((ci_OrganizationID i, rv_Currency r) \<mapsto> w'),
        db_reservations := update_rows (\<lambda>x. rv_ReservationID x = rv_ReservationID r)
          (\<lambda>_. r') (db_reservations db), db_entries := db_entries db @ [e]\<rparr>"
    using run None fr lock st fin
    by (auto simp: finishReservationTx_def Let_def at_def [symmetric] w'_def [symmetric]
        r'_def [symmetric] createWalletEntry_def insert_entry_Some l(2,3,5) neg key e_def
        simp del: One_nat_def split: if_splits option.splits)
  have "posting (ci_OrganizationID i, rv_Currency r) w w' [e] db db'"
    using fw l nextWalletProcessingTimestamp_gt [of "ow_UpdatedAt w"]
    by (intro postingI [OF assms(1) lock])
      (auto simp: db' w'_def e_def owner_def balances_def at_def wallet_ok_def
        intro: order_trans [OF less_imp_le])
  then show thesis
    using r st fin None out db' by (intro finished [of r w w' e w1 da dd at r']) (auto simp: w'_def r'_def)
qed

section \<open>Credit of a settled top-up\<close>

text \<open>The entries of a credit: the repaid debt, then what is left for the available funds.\<close>

lemma credit_entries_Some:
  assumes "credit_entries env s ab dr aa t1 t2 row db = Some db'"
    "ow_AvailableMinor row = ab + aa" "ow_ReservedMinor row = r" "ow_DebtMinor row = d - dr"
    "0 \<le> dr" "0 \<le> aa" "in64 dr" "prev < t1" "0 < dr \<and> 0 < aa \<Longrightarrow> t1 < t2"
    "\<not> (0 < dr \<and> 0 < aa) \<Longrightarrow> t2 = t1"
  obtains es where "db' = db\<lparr>db_entries := db_entries db @ es\<rparr>"
    "\<forall>e\<in>set es. owner e = (os_OrganizationID s, os_Currency s) \<and> we_OccurredAt e \<le> t2"
    "entry_chain (ab, r, d) es = Some (ab + aa, r, d - dr)"
    "sorted_wrt (<) (prev # map we_OccurredAt es)"
proof -
  have neg: "neg64 dr = - dr" using neg64_nonneg assms(5,7) .
  have self: "db = db\<lparr>db_entries := db_entries db @ []\<rparr>" by simp
  from assms show thesis
    apply (simp add: credit_entries_def insert_entry_Some neg split: if_splits option.splits)
    subgoal by (rule that) (auto simp: owner_def)
    subgoal by (rule that) (auto simp: owner_def)
    subgoal by (rule that) (auto simp: owner_def)
    subgoal using that [of "[]"] self by simp
    done
qed

lemma credit_cases:
  assumes "wallets_ok db" and amt: "amount_ok (os_AmountMinor s)"
    and run: "creditSettledTopUpTx env s db = Inr (out, db')"
  obtains
    (replay) x w where "x \<in> set (db_settlements db)" "ts_PaymentID x = os_PaymentID s" "sameTopUp x s"
      "db_wallets db (os_OrganizationID s, os_Currency s) = Some w" "out = walletSnapshot w" "db' = db"
  | (credited) w w' es row p at where
      "p \<in> set (db_payments db)" "py_PaymentID p = os_PaymentID s"
      "py_PaymentPurpose p \<noteq> PaymentPurposeWalletTopUp"
      "py_PaymentPurpose p \<noteq> PaymentPurposeServicePurchase"
      "posting (os_OrganizationID s, os_Currency s) w w' es db db'"
      "w' = w\<lparr>ow_AvailableMinor :=
                 ow_AvailableMinor w + (os_AmountMinor s - min (ow_DebtMinor w) (os_AmountMinor s)),
              ow_DebtMinor := ow_DebtMinor w - min (ow_DebtMinor w) (os_AmountMinor s),
              ow_LifetimeTopUpMinor := ow_LifetimeTopUpMinor w + os_AmountMinor s,
              ow_Version := add64 (ow_Version w) 1, ow_UpdatedAt := at\<rparr>"
      "row = \<lparr>ts_PaymentID = os_PaymentID s, ts_CommercialOrderID = os_CommercialOrderID s,
              ts_OrganizationID = os_OrganizationID s, ts_Currency = os_Currency s,
              ts_AmountMinor = os_AmountMinor s, ts_SettledAt = NormalizeTimestamp (os_SettledAt s),
              ts_ProviderReference = os_ProviderReference s, ts_Version = os_Version s\<rparr>"
      "\<forall>x\<in>set (db_settlements db). \<not> settlement_clash row x" "out = walletSnapshot w'"
      "db' = db\<lparr>db_wallets := (db_wallets db)((os_OrganizationID s, os_Currency s) \<mapsto> w'), db_settlements := db_settlements db @ [row],
                db_entries := db_entries db @ es\<rparr>"
proof (cases "find (\<lambda>r. ts_PaymentID r = os_PaymentID s) (db_settlements db)")
  case (Some x)
  then have x: "x \<in> set (db_settlements db)" "ts_PaymentID x = os_PaymentID s"
    by (auto dest: find_SomeD)
  from run Some obtain w where "sameTopUp x s" "out = walletSnapshot w" "db' = db"
    "db_wallets db (os_OrganizationID s, os_Currency s) = Some w"
    by (auto simp: creditSettledTopUpTx_def split: if_splits option.splits)
  with x show thesis by (intro replay)
next
  case None
  obtain w db1 where lock:
    "lockOrCreateWallet (ce_now env 0) (os_OrganizationID s) (os_Currency s) db = (w, db1)"
    by fastforce
  note l = lock_spec [OF assms(1) lock]
  from run None lock obtain a d where
    add: "addTopUp (ow_AvailableMinor w) (ow_DebtMinor w) (os_AmountMinor s) = Inr (a, d)"
    by (auto simp: creditSettledTopUpTx_def split: if_splits sum.splits option.splits)
  note ad = addTopUp_wallet [OF add l(1) amt]
  have guard: "\<not> sub64 max64 (os_AmountMinor s) < ow_LifetimeTopUpMinor w"
    using run None lock add by (auto simp: creditSettledTopUpTx_def split: if_splits option.splits)
  note top = wallet_arith(4) [OF l(1) amt guard]
  let ?n = "os_AmountMinor s"
  define t1 where "t1 = nextWalletProcessingTimestamp (ce_now env 1) (ow_UpdatedAt w)"
  define t2 where "t2 = (if 0 < min (ow_DebtMinor w) ?n \<and> 0 < ?n - min (ow_DebtMinor w) ?n
    then nextWalletProcessingTimestamp (ce_now env 2) t1 else t1)"
  define w' where "w' = w\<lparr>ow_AvailableMinor := a, ow_DebtMinor := d,
      ow_LifetimeTopUpMinor := ow_LifetimeTopUpMinor w + ?n,
      ow_Version := add64 (ow_Version w) 1, ow_UpdatedAt := t2\<rparr>"
  define row where "row = \<lparr>ts_PaymentID = os_PaymentID s, ts_CommercialOrderID = os_CommercialOrderID s,
              ts_OrganizationID = os_OrganizationID s, ts_Currency = os_Currency s,
              ts_AmountMinor = os_AmountMinor s, ts_SettledAt = NormalizeTimestamp (os_SettledAt s),
              ts_ProviderReference = os_ProviderReference s, ts_Version = os_Version s\<rparr>"
  have key: "ow_OrganizationID w' = os_OrganizationID s" "ow_Currency w' = os_Currency s"
    using l by (simp_all add: w'_def)
  have ok: "wallet_ok w'"
    using ad l(1) top amt by (auto simp: wallet_ok_def w'_def amount_ok_def)
  from run None lock add guard obtain p where
    p: "p \<in> set (db_payments db)" "py_PaymentID p = os_PaymentID s"
      "py_PaymentPurpose p \<noteq> PaymentPurposeWalletTopUp"
      "py_PaymentPurpose p \<noteq> PaymentPurposeServicePurchase"
    by (auto simp: creditSettledTopUpTx_def split: if_splits option.splits dest: find_SomeD)
  have fresh: "\<forall>x\<in>set (db_settlements db). \<not> settlement_clash row x"
    and out: "out = walletSnapshot w'"
    and ce: "credit_entries env s (ow_AvailableMinor w) (min (ow_DebtMinor w) ?n)
        (?n - min (ow_DebtMinor w) ?n) t1 t2 w'
        (db\<lparr>db_wallets := (db_wallets db)((os_OrganizationID s, os_Currency s) \<mapsto> w'),
           db_settlements := db_settlements db @ [row]\<rparr>) = Some db'"
    using run None lock add guard
    by (auto simp: creditSettledTopUpTx_def Let_def ad(8,9) top create_row_Some l(2,3,5) key
        row_def t1_def t2_def w'_def simp del: One_nat_def split: if_splits option.splits)
  have t1: "truncate_us (ow_UpdatedAt w) < t1" "truncate_us t1 = t1"
    by (simp_all add: t1_def nextWalletProcessingTimestamp_gt)
  then have t2: "t1 \<le> t2" "truncate_us t2 = t2"
    using nextWalletProcessingTimestamp_gt [of t1 "ce_now env 2"] by (auto simp: t2_def)
  from ce obtain es where es:
    "db' = db\<lparr>db_wallets := (db_wallets db)((os_OrganizationID s, os_Currency s) \<mapsto> w'),
       db_settlements := db_settlements db @ [row], db_entries := db_entries db @ es\<rparr>"
    "\<forall>e\<in>set es. owner e = (os_OrganizationID s, os_Currency s) \<and> we_OccurredAt e \<le> t2"
    "entry_chain (balances w) es = Some (balances w')"
    "sorted_wrt (<) (truncate_us (ow_UpdatedAt w) # map we_OccurredAt es)"
  proof (rule credit_entries_Some [where prev = "truncate_us (ow_UpdatedAt w)"
        and r = "ow_ReservedMinor w" and d = "ow_DebtMinor w"])
    show "in64 (min (ow_DebtMinor w) ?n)"
      using l(1) amt by (auto simp: wallet_ok_def amount_ok_def in64_unfold)
    show "0 < min (ow_DebtMinor w) ?n \<and> 0 < ?n - min (ow_DebtMinor w) ?n \<Longrightarrow> t1 < t2"
      using nextWalletProcessingTimestamp_gt [of t1 "ce_now env 2"] t1 by (auto simp: t2_def)
  qed (use l(1) amt t1 in \<open>auto simp: w'_def wallet_ok_def amount_ok_def t2_def balances_def ad(1,2)\<close>)
  have "posting (os_OrganizationID s, os_Currency s) w w' es db db'"
    using es ok key t1 t2 l by (intro postingI [OF assms(1) lock]) (auto simp: w'_def)
  then show thesis
    using p fresh out es(1) by (intro credited) (auto simp: w'_def row_def ad(1,2))
qed

section \<open>Reversal of a settled top-up\<close>

lemma apply_reversal_cases:
  assumes "wallets_ok db" and amt: "amount_ok (ov_AmountMinor v)"
    and pos: "\<forall>s\<in>set (db_settlements db). amount_ok (ts_AmountMinor s)"
    and nonneg: "\<forall>r\<in>set (db_reversals db). 0 \<le> wv_AmountMinor r"
    and run: "applyTopUpReversalTx env v db = Inr (out, db')"
  obtains
    (replay) x w where "x \<in> set (db_reversals db)" "wv_ReversalID x = ov_ReversalID v"
      "sameReversal x v" "db_wallets db (ov_OrganizationID v, ov_Currency v) = Some w"
      "out = walletSnapshot w" "db' = db"
  | (reversed) st w w' e row at where
      "st \<in> set (db_settlements db)" "ts_PaymentID st = ov_PaymentID v"
      "ts_OrganizationID st = ov_OrganizationID v" "ts_Currency st = ov_Currency v"
      "sum_rows (\<lambda>r. wv_PaymentID r = ov_PaymentID v) wv_AmountMinor (db_reversals db)
         + ov_AmountMinor v \<le> ts_AmountMinor st"
      "posting (ov_OrganizationID v, ov_Currency v) w w' [e] db db'"
      "w' = w\<lparr>ow_AvailableMinor := ow_AvailableMinor w - min (ow_AvailableMinor w) (ov_AmountMinor v),
              ow_DebtMinor := ow_DebtMinor w
                + (ov_AmountMinor v - min (ow_AvailableMinor w) (ov_AmountMinor v)),
              ow_Version := add64 (ow_Version w) 1, ow_UpdatedAt := at\<rparr>"
      "row = \<lparr>wv_ReversalID = ov_ReversalID v, wv_PaymentID = ov_PaymentID v,
              wv_CommercialOrderID = ov_CommercialOrderID v,
              wv_OrganizationID = ov_OrganizationID v, wv_Kind = ov_Kind v,
              wv_AmountMinor = ov_AmountMinor v, wv_ProviderReference = ov_ProviderReference v,
              wv_OccurredAt = NormalizeTimestamp (ov_OccurredAt v)\<rparr>"
      "\<forall>x\<in>set (db_reversals db). \<not> reversal_clash row x" "out = walletSnapshot w'"
      "db' = db\<lparr>db_wallets := (db_wallets db)((ov_OrganizationID v, ov_Currency v) \<mapsto> w'), db_reversals := db_reversals db @ [row],
                db_entries := db_entries db @ [e]\<rparr>"
proof -
  from run obtain st where
    fs: "find (\<lambda>r. ts_PaymentID r = ov_PaymentID v \<and> ts_CommercialOrderID r = ov_CommercialOrderID v)
      (db_settlements db) = Some st"
    and st: "ts_OrganizationID st = ov_OrganizationID v" "ts_Currency st = ov_Currency v"
    by (auto simp: applyTopUpReversalTx_def split: option.splits if_splits)
  have st': "st \<in> set (db_settlements db)" "ts_PaymentID st = ov_PaymentID v"
    using fs by (auto dest: find_SomeD)
  show thesis
  proof (cases "find (\<lambda>r. wv_ReversalID r = ov_ReversalID v) (db_reversals db)")
    case (Some x)
    then have x: "x \<in> set (db_reversals db)" "wv_ReversalID x = ov_ReversalID v"
      by (auto dest: find_SomeD)
    from run fs st Some obtain w where "sameReversal x v" "out = walletSnapshot w" "db' = db"
      "db_wallets db (ov_OrganizationID v, ov_Currency v) = Some w"
      by (auto simp: applyTopUpReversalTx_def split: if_splits option.splits)
    with x show thesis by (intro replay)
  next
    case None
    let ?n = "ov_AmountMinor v"
    let ?R = "sum_rows (\<lambda>r. wv_PaymentID r = ov_PaymentID v) wv_AmountMinor (db_reversals db)"
    obtain w db1 where lock:
      "lockOrCreateWallet (ce_now env 0) (ov_OrganizationID v) (ov_Currency v) db = (w, db1)"
      by fastforce
    note l = lock_spec [OF assms(1) lock]
    have R: "0 \<le> ?R" using nonneg by (intro sum_rows_nonneg) auto
    have lim: "in64 ?R" "?R \<le> ts_AmountMinor st" "?n \<le> sub64 (ts_AmountMinor st) ?R"
      and guard: "\<not> sub64 max64 (sub64 ?n (minInt64 (ow_AvailableMinor w) ?n)) < ow_DebtMinor w"
      using run fs st None lock
      by (auto simp: applyTopUpReversalTx_def Let_def l(5) split: if_splits option.splits)
    have budget: "?R + ?n \<le> ts_AmountMinor st"
      using lim R bspec [OF pos st'(1)]
      by (auto simp: amount_ok_def sub64_nonneg in64_unfold)
    note ar = loss_arith [OF l(1) amt guard]
    define at where "at = nextWalletProcessingTimestamp (ce_now env 1) (ow_UpdatedAt w)"
    define w' where "w' = w\<lparr>ow_AvailableMinor := ow_AvailableMinor w - min (ow_AvailableMinor w) ?n,
        ow_DebtMinor := ow_DebtMinor w + (?n - min (ow_AvailableMinor w) ?n),
        ow_Version := add64 (ow_Version w) 1, ow_UpdatedAt := at\<rparr>"
    define row where "row = \<lparr>wv_ReversalID = ov_ReversalID v, wv_PaymentID = ov_PaymentID v,
        wv_CommercialOrderID = ov_CommercialOrderID v, wv_OrganizationID = ov_OrganizationID v,
        wv_Kind = ov_Kind v, wv_AmountMinor = ?n, wv_ProviderReference = ov_ProviderReference v,
        wv_OccurredAt = NormalizeTimestamp (ov_OccurredAt v)\<rparr>"
    define e where "e = \<lparr>we_EntryID = ce_uuid env 0, we_OrganizationID = ov_OrganizationID v,
        we_Currency = ov_Currency v,
        we_Kind = (if ov_Kind v = WalletReversalChargeback then WalletEntryChargebackReversal
                   else WalletEntryRefundReversal),
        we_AvailableDelta = - min (ow_AvailableMinor w) ?n, we_ReservedDelta = 0,
        we_DebtDelta = ?n - min (ow_AvailableMinor w) ?n, we_AvailableAfter = ow_AvailableMinor w',
        we_ReservedAfter = ow_ReservedMinor w', we_DebtAfter = ow_DebtMinor w',
        we_CommercialOrderID = ov_CommercialOrderID v, we_PaymentID = ov_PaymentID v,
        we_SourceIdentity = ov_ReversalID v, we_OccurredAt = at\<rparr>"
    have key: "ow_OrganizationID w' = ov_OrganizationID v" "ow_Currency w' = ov_Currency v"
      using l by (simp_all add: w'_def)
    have ok: "wallet_ok w'" using l(1) amt ar(5) by (auto simp: wallet_ok_def w'_def amount_ok_def)
    have guard': "\<not> sub64 max64 (?n - min (ow_AvailableMinor w) ?n) < ow_DebtMinor w"
      using guard ar(1) by simp
    have fresh: "\<forall>x\<in>set (db_reversals db). \<not> reversal_clash row x"
      and out: "out = walletSnapshot w'"
      and db': "db' = db\<lparr>db_wallets := (db_wallets db)((ov_OrganizationID v, ov_Currency v) \<mapsto> w'),
        db_reversals := db_reversals db @ [row], db_entries := db_entries db @ [e]\<rparr>"
      using run fs st None lock lim guard'
      by (auto simp: applyTopUpReversalTx_def Let_def ar at_def [symmetric] w'_def [symmetric]
          create_row_Some insert_entry_Some l(2,3,5) key row_def e_def
          simp del: One_nat_def split: if_splits option.splits)
    have "posting (ov_OrganizationID v, ov_Currency v) w w' [e] db db'"
      using ok l nextWalletProcessingTimestamp_gt [of "ow_UpdatedAt w"]
      by (intro postingI [OF assms(1) lock])
        (auto simp: db' w'_def e_def owner_def balances_def at_def intro: order_trans [OF less_imp_le])
    then show thesis
      using st st' budget fresh out db' by (intro reversed) (auto simp: w'_def row_def)
  qed
qed

section \<open>The reservation transaction\<close>

lemma reserve_cases:
  assumes "wallets_ok db" and amt: "amount_ok (ri_AmountMinor i)"
    and run: "reserveCommercialPurchaseTx env i db = Inr (out, db')"
  obtains
    (replay) d where "readWalletReserveDecision i db = Inr (Some d)"
      "replay_decision d db = Inr (out, db')" "db' = db"
  | (decided) w db1 where "readWalletReserveDecision i db = Inr None"
      "lockOrCreateWallet (ce_now env 0) (ri_OrganizationID i) (ri_Currency i) db = (w, db1)"
      "reserve_funds env i w db1 = Inr (out, db')"
proof -
  obtain w db1 where lock:
    "lockOrCreateWallet (ce_now env 0) (ri_OrganizationID i) (ri_Currency i) db = (w, db1)"
    by fastforce
  have same: "readWalletReserveDecision i db1 = readWalletReserveDecision i db"
    using lock_spec(5) [OF assms(1) lock] by (simp add: readWalletReserveDecision_def)
  from run lock same show thesis
    by (auto simp: reserveCommercialPurchaseTx_def reserveFrom_def replay_decision_def
        split: sum.splits option.splits if_splits intro: that)
qed

end
