(* ===== verification/TopUp_Laws.thy ===== *)
theory TopUp_Laws
  imports Posting TopUp_Repo
begin

text \<open>
  What the transactions of the provider top-up repository do to the database, as case rules
  with one case per outcome that commits.
\<close>

section \<open>Reversals\<close>

lemma record_reversal_fact_Inr:
  assumes "record_reversal_fact i db = Inr db1"
  obtains rf cb where "db1 = db\<lparr>db_refunds := rf, db_chargebacks := cb\<rparr>"
proof -
  have "db1 = db\<lparr>db_refunds := db_refunds db1, db_chargebacks := db_chargebacks db1\<rparr>"
    using assms by (auto simp: record_reversal_fact_def split: if_splits option.splits)
  then show thesis by (rule that)
qed

lemma reversal_record_Inr:
  assumes "reversal_record sha i rid fp d e out db = Inr (out2, db')"
  obtains row ex where
    "db' = db\<lparr>db_reversals := db_reversals db @ (if 0 < d then [row] else []),
              db_excess := ex, db_receipts := db_receipts db @
                [\<lparr>tr_ReceiptID = rid, tr_PaymentID = ov_PaymentID i, tr_Kind = ov_Kind i,
                  tr_ReversalID = ov_ReversalID i, tr_OrganizationID = ov_OrganizationID i,
                  tr_CommercialOrderID = ov_CommercialOrderID i,
                  tr_ProviderAmountMinor = ov_AmountMinor i, tr_WalletPrincipalEffectMinor = d,
                  tr_Fingerprint = fp, tr_Receipt = Bytes out2\<rparr>]\<rparr>"
    "row = \<lparr>wv_ReversalID = rid, wv_PaymentID = ov_PaymentID i,
            wv_CommercialOrderID = ov_CommercialOrderID i, wv_OrganizationID = ov_OrganizationID i,
            wv_Kind = ov_Kind i, wv_AmountMinor = d, wv_ProviderReference = ov_ProviderReference i,
            wv_OccurredAt = ov_OccurredAt i\<rparr>"
    "\<forall>x\<in>set (db_receipts db). tr_ReceiptID x \<noteq> rid" "Validate_TopUpReversalReceipt sha out2"
proof -
  show thesis
    using assms
    by (intro that [OF _ refl, where ex = "db_excess db'"])
      (auto simp: reversal_record_def Let_def create_row_Some receipt_clash_def
        split: if_splits option.splits)
qed

lemma reversal_post_cases:
  assumes "wallets_ok db"
    and lock: "lockOrCreateWallet now (ov_OrganizationID i) (ov_Currency i) db = (w, db1)"
    and amt: "amount_ok (ov_AmountMinor i)" and d: "0 \<le> d" "d \<le> ov_AmountMinor i"
    and e: "e = ov_AmountMinor i - d"
    and run: "reversal_post env i rid d e hasHold w out db1 = Inr (out1, db')"
  obtains w' es where
    "posting (ov_OrganizationID i, ov_Currency i) w w' es db db'"
    "hasHold \<Longrightarrow> ov_AmountMinor i \<le> ow_ReservedMinor w"
    "ow_AvailableMinor w' = ow_AvailableMinor w
       + (if hasHold then e - min (ow_DebtMinor w) e else - min (ow_AvailableMinor w) d)"
    "ow_ReservedMinor w' = ow_ReservedMinor w - (if hasHold then ov_AmountMinor i else 0)"
    "ow_DebtMinor w' = ow_DebtMinor w
       + (if hasHold then - min (ow_DebtMinor w) e else d - min (ow_AvailableMinor w) d)"
    "ow_LifetimeTopUpMinor w' = ow_LifetimeTopUpMinor w"
    "ow_LifetimeSpendMinor w' = ow_LifetimeSpendMinor w"
    "db' = db\<lparr>db_wallets := (db_wallets db)((ov_OrganizationID i, ov_Currency i) \<mapsto> w'),
               db_entries := db_entries db @ es,
               db_holds := (if hasHold then update_rows (\<lambda>h. th_HoldID h = rid)
                              (\<lambda>h. h\<lparr>th_State := HoldConfirmed\<rparr>) (db_holds db) else db_holds db)\<rparr>"
proof -
  note l = lock_spec [OF assms(1) lock]
  let ?n = "ov_AmountMinor i"
  consider (hold) "hasHold" | (loss) "\<not> hasHold" "0 < d" | (none) "\<not> hasHold" "d = 0"
    using d by fastforce
  then show thesis
  proof cases
    case hold
    let ?w = "w\<lparr>ow_ReservedMinor := ow_ReservedMinor w - ?n,
                ow_DebtMinor := ow_DebtMinor w - min (ow_DebtMinor w) e,
                ow_AvailableMinor := ow_AvailableMinor w + (e - min (ow_DebtMinor w) e)\<rparr>"
    have ar: "minInt64 (ow_DebtMinor w) e = min (ow_DebtMinor w) e"
      "sub64 e (min (ow_DebtMinor w) e) = e - min (ow_DebtMinor w) e"
      "neg64 ?n = - ?n" "neg64 (min (ow_DebtMinor w) e) = - min (ow_DebtMinor w) e"
      "sub64 (ow_DebtMinor w) (min (ow_DebtMinor w) e) = ow_DebtMinor w - min (ow_DebtMinor w) e"
      using l(1) amt d e
      by (auto simp: wallet_ok_def amount_ok_def minInt64_min sub64_def neg64_def in64_unfold
          intro!: wrap64_id)
    have g: "?n \<le> ow_ReservedMinor w"
      "\<not> sub64 max64 (e - min (ow_DebtMinor w) e) < ow_AvailableMinor w"
      using run hold by (auto simp: reversal_post_def Let_def ar split: if_splits)
    have ar2: "sub64 (ow_ReservedMinor w) ?n = ow_ReservedMinor w - ?n"
      "add64 (ow_AvailableMinor w) (e - min (ow_DebtMinor w) e) =
         ow_AvailableMinor w + (e - min (ow_DebtMinor w) e)"
      "ow_AvailableMinor w + (e - min (ow_DebtMinor w) e) \<le> max64"
      using g l(1) amt d e
      by (auto simp: wallet_ok_def amount_ok_def sub64_def add64_def in64_unfold wrap64_def)
    have ok: "wallet_ok ?w"
      using l(1) amt d e g ar2(3) by (auto simp: wallet_ok_def amount_ok_def)
    from run hold g obtain eid w' db2 where
      post: "postTopUpEntry (ce_now env 2) (ce_uuid env 0) ?w WalletEntryRefundConfirm
        (e - min (ow_DebtMinor w) e) (- ?n) (- min (ow_DebtMinor w) e)
        (ov_CommercialOrderID i) (ov_PaymentID i) (rid @ '':confirm'') db1 = Inr ((eid, w'), db2)"
      and db': "db' = db2\<lparr>db_holds := update_rows (\<lambda>h. th_HoldID h = rid)
                              (\<lambda>h. h\<lparr>th_State := HoldConfirmed\<rparr>) (db_holds db2)\<rparr>"
      by (auto simp: reversal_post_def Let_def ar ar2 split: if_splits sum.splits)
    obtain en at where p: "posting (ov_OrganizationID i, ov_Currency i) w w' [en] db db2"
      "w' = ?w\<lparr>ow_Version := add64 (ow_Version ?w) 1, ow_UpdatedAt := at\<rparr>"
      "db2 = db1\<lparr>db_wallets := (db_wallets db)((ov_OrganizationID i, ov_Currency i) \<mapsto> w'),
                 db_entries := db_entries db @ [en]\<rparr>"
      by (rule postTopUpEntry_posting [OF post assms(1) lock]) (use l ok in auto)
    have q: "posting (ov_OrganizationID i, ov_Currency i) w w' [en] db db'"
      by (rule posting_cong [OF p(1)]) (simp_all add: db')
    show thesis
      by (rule that [OF q]) (use g hold p(2) db' p(3) l(5) in auto)
  next
    case loss
    let ?w = "w\<lparr>ow_AvailableMinor := ow_AvailableMinor w - min (ow_AvailableMinor w) d,
                ow_DebtMinor := ow_DebtMinor w + (d - min (ow_AvailableMinor w) d)\<rparr>"
    have dok: "amount_ok d" using loss d amt by (simp add: amount_ok_def)
    have guard: "\<not> sub64 max64 (sub64 d (minInt64 (ow_AvailableMinor w) d)) < ow_DebtMinor w"
      using run loss by (auto simp: reversal_post_def Let_def split: if_splits)
    note ar = loss_arith [OF l(1) dok guard]
    have guard': "\<not> sub64 max64 (d - min (ow_AvailableMinor w) d) < ow_DebtMinor w"
      using guard ar(1) by simp
    have ok: "wallet_ok ?w" using l(1) dok ar(5) by (auto simp: wallet_ok_def amount_ok_def)
    from run loss guard' obtain eid w' kind where
      post: "postTopUpEntry (ce_now env 2) (ce_uuid env 0) ?w kind
        (- min (ow_AvailableMinor w) d) 0 (d - min (ow_AvailableMinor w) d)
        (ov_CommercialOrderID i) (ov_PaymentID i) rid db1 = Inr ((eid, w'), db')"
      by (auto simp: reversal_post_def Let_def ar split: if_splits sum.splits)
    obtain en at where p: "posting (ov_OrganizationID i, ov_Currency i) w w' [en] db db'"
      "w' = ?w\<lparr>ow_Version := add64 (ow_Version ?w) 1, ow_UpdatedAt := at\<rparr>"
      "db' = db1\<lparr>db_wallets := (db_wallets db)((ov_OrganizationID i, ov_Currency i) \<mapsto> w'),
                 db_entries := db_entries db @ [en]\<rparr>"
      by (rule postTopUpEntry_posting [OF post assms(1) lock]) (use l ok in auto)
    show thesis
      by (rule that [OF p(1)]) (use loss p(2,3) l(5) in auto)
  next
    case none
    with run have "db' = db1" by (simp add: reversal_post_def)
    then have "posting (ov_OrganizationID i, ov_Currency i) w w [] db db'"
      using posting_touch [OF assms(1) lock] by simp
    then show thesis
      using none \<open>db' = db1\<close> l(1,5) by (intro that [of w "[]"]) (auto simp: wallet_ok_def min_def)
  qed
qed

lemma lockProviderTopUp_Inr:
  assumes "lockProviderTopUp payment db = Inr st"
  shows "st \<in> set (db_settlements db)" "ts_PaymentID st = payment"
    "\<exists>p\<in>set (db_payments db). py_PaymentID p = payment \<and> py_PaymentPurpose p = PaymentPurposeWalletTopUp"
    "\<exists>c\<in>set (db_topups db). pt_PaymentID c = payment"
  using assms
  by (auto simp: lockProviderTopUp_def split: option.splits if_splits dest: find_SomeD)

lemma reversal_hold_True:
  assumes "reversal_hold i rid db = Inr True"
  obtains h where "h \<in> set (db_holds db)" "th_HoldID h = rid" "th_AmountMinor h = ov_AmountMinor i"
    "th_OrganizationID h = ov_OrganizationID i" "th_PaymentID h = ov_PaymentID i"
    "th_State h = HoldReserved"
proof -
  obtain h where "find (\<lambda>h. th_HoldID h = rid) (db_holds db) = Some h"
    using assms by (auto simp: reversal_hold_def split: option.splits if_splits)
  moreover from this have "th_State h = HoldReserved"
    using assms by (cases "th_State h") (auto simp: reversal_hold_def split: if_splits)
  ultimately show thesis
    using assms that by (auto simp: reversal_hold_def split: if_splits dest: find_SomeD)
qed

text \<open>The principal of a payment that its reversal receipts already account for.\<close>

definition principal_reversed :: "money_db \<Rightarrow> string \<Rightarrow> int" where
  "principal_reversed db payment =
     sum_rows (\<lambda>r. tr_PaymentID r = payment) tr_WalletPrincipalEffectMinor (db_receipts db)"

lemma accept_reversal_cases:
  assumes "wallets_ok db" and amt: "amount_ok (ov_AmountMinor i)"
    and pos: "\<forall>s\<in>set (db_settlements db). amount_ok (ts_AmountMinor s)"
    and run: "acceptTopUpReversalTx sha env i db = Inr (out, db')"
  obtains
    (replay) x where "x \<in> set (db_receipts db)" "tr_ReceiptID x = StorageID sha (reversal_key i)"
      "tr_Receipt x = Bytes out" "db' = db"
  | (posted) st w w' es d hh row rcpt rf cb ex where
      "lockProviderTopUp (ov_PaymentID i) db = Inr st"
      "ts_OrganizationID st = ov_OrganizationID i" "ts_Currency st = ov_Currency i"
      "0 \<le> principal_reversed db (ov_PaymentID i)"
      "principal_reversed db (ov_PaymentID i) \<le> ts_AmountMinor st"
      "d = min (ov_AmountMinor i) (ts_AmountMinor st - principal_reversed db (ov_PaymentID i))"
      "reversal_hold i (StorageID sha (reversal_key i)) db = Inr hh"
      "posting (ov_OrganizationID i, ov_Currency i) w w' es db db'"
      "hh \<Longrightarrow> ov_AmountMinor i \<le> ow_ReservedMinor w"
      "ow_AvailableMinor w' = ow_AvailableMinor w
         + (if hh then (ov_AmountMinor i - d) - min (ow_DebtMinor w) (ov_AmountMinor i - d)
            else - min (ow_AvailableMinor w) d)"
      "ow_ReservedMinor w' = ow_ReservedMinor w - (if hh then ov_AmountMinor i else 0)"
      "ow_DebtMinor w' = ow_DebtMinor w
         + (if hh then - min (ow_DebtMinor w) (ov_AmountMinor i - d) else d - min (ow_AvailableMinor w) d)"
      "ow_LifetimeTopUpMinor w' = ow_LifetimeTopUpMinor w"
      "ow_LifetimeSpendMinor w' = ow_LifetimeSpendMinor w"
      "wv_PaymentID row = ov_PaymentID i" "wv_OrganizationID row = ov_OrganizationID i"
      "wv_AmountMinor row = d"
      "tr_PaymentID rcpt = ov_PaymentID i" "tr_WalletPrincipalEffectMinor rcpt = d"
      "tr_ReceiptID rcpt = StorageID sha (reversal_key i)" "tr_Receipt rcpt = Bytes out"
      "tr_Fingerprint rcpt = TopUpFingerprint sha
         (DocReversal (i\<lparr>ov_OccurredAt := NormalizeTimestamp (ov_OccurredAt i)\<rparr>))"
      "Validate_TopUpReversalReceipt sha out"
      "\<forall>x\<in>set (db_receipts db). tr_ReceiptID x \<noteq> tr_ReceiptID rcpt"
      "db' = db\<lparr>db_wallets := (db_wallets db)((ov_OrganizationID i, ov_Currency i) \<mapsto> w'),
                db_entries := db_entries db @ es,
                db_holds := (if hh then update_rows (\<lambda>h. th_HoldID h = StorageID sha (reversal_key i))
                               (\<lambda>h. h\<lparr>th_State := HoldConfirmed\<rparr>) (db_holds db) else db_holds db),
                db_refunds := rf, db_chargebacks := cb,
                db_reversals := db_reversals db @ (if 0 < d then [row] else []),
                db_excess := ex, db_receipts := db_receipts db @ [rcpt]\<rparr>"
proof -
  define i1 where "i1 = i\<lparr>ov_OccurredAt := NormalizeTimestamp (ov_OccurredAt i)\<rparr>"
  define rid where "rid = StorageID sha (reversal_key i)"
  have i1: "ov_PaymentID i1 = ov_PaymentID i" "ov_OrganizationID i1 = ov_OrganizationID i"
    "ov_Currency i1 = ov_Currency i" "ov_AmountMinor i1 = ov_AmountMinor i"
    "reversal_key i1 = reversal_key i" "ov_CommercialOrderID i1 = ov_CommercialOrderID i"
    "ov_Kind i1 = ov_Kind i" "ov_ReversalID i1 = ov_ReversalID i"
    by (simp_all add: i1_def reversal_key_def)
  have hold1: "reversal_hold i1 rid db = reversal_hold i rid db" for db
    by (simp add: reversal_hold_def i1 split: option.split)
  from run obtain st where lockp: "lockProviderTopUp (ov_PaymentID i) db = Inr st"
    and st: "ts_OrganizationID st = ov_OrganizationID i" "ts_Currency st = ov_Currency i"
    by (auto simp: acceptTopUpReversalTx_def Let_def split: if_splits sum.splits)
  note lp = lockProviderTopUp_Inr [OF lockp]
  show thesis
  proof (cases "find (\<lambda>r. tr_ReceiptID r = rid) (db_receipts db)")
    case (Some x)
    then have "x \<in> set (db_receipts db)" "tr_ReceiptID x = rid" by (auto dest: find_SomeD)
    moreover have "tr_Receipt x = Bytes out" "db' = db"
      using run lockp st Some
      by (auto simp: acceptTopUpReversalTx_def Let_def i1_def [symmetric] i1 rid_def [symmetric]
          split: if_splits option.splits)
    ultimately show thesis by (intro replay) (simp_all add: rid_def)
  next
    case None
    let ?P = "principal_reversed db (ov_PaymentID i)"
    obtain db1 where fact_: "record_reversal_fact i1 db = Inr db1"
      using run lockp st None
      by (auto simp: acceptTopUpReversalTx_def Let_def i1_def [symmetric] i1 rid_def [symmetric]
          split: if_splits sum.splits)
    obtain rf cb where db1: "db1 = db\<lparr>db_refunds := rf, db_chargebacks := cb\<rparr>"
      by (rule record_reversal_fact_Inr [OF fact_])
    have same: "db_receipts db1 = db_receipts db" "db_wallets db1 = db_wallets db"
      "db_entries db1 = db_entries db" "db_holds db1 = db_holds db" "db_reversals db1 = db_reversals db"
      by (simp_all add: db1)
    obtain w db2 where lock:
      "lockOrCreateWallet (ce_now env 0) (ov_OrganizationID i) (ov_Currency i) db1 = (w, db2)"
      by fastforce
    have wok: "wallets_ok db1" using assms(1) wallets_ok_cong same by blast
    note l = lock_spec [OF wok lock]
    have P: "in64 ?P" "0 \<le> ?P" "?P \<le> ts_AmountMinor st"
      using run lockp st None fact_
      by (auto simp: acceptTopUpReversalTx_def Let_def i1_def [symmetric] i1 rid_def [symmetric]
          same principal_reversed_def split: if_splits option.splits)
    define d where "d = min (ov_AmountMinor i) (ts_AmountMinor st - ?P)"
    have ar: "sub64 (ts_AmountMinor st) ?P = ts_AmountMinor st - ?P"
      "sub64 (ov_AmountMinor i) d = ov_AmountMinor i - d" "0 \<le> d" "d \<le> ov_AmountMinor i"
      using P bspec [OF pos lp(1)] amt
      by (auto simp: amount_ok_def d_def sub64_def in64_unfold intro!: wrap64_id)
    obtain hh out0 out1 db3 where
      hold: "reversal_hold i rid db = Inr hh"
      and post: "reversal_post env i1 rid d (ov_AmountMinor i - d) hh w out0 db2 = Inr (out1, db3)"
      and rec_: "reversal_record sha i1 rid (TopUpFingerprint sha (DocReversal i1)) d
        (ov_AmountMinor i - d) out1 db3 = Inr (out, db')"
    proof -
      have Psum: "sum_rows (\<lambda>r. tr_PaymentID r = ov_PaymentID i) tr_WalletPrincipalEffectMinor
          (db_receipts db1) = ?P"
        by (simp add: same principal_reversed_def)
      have "reversal_hold i1 rid db1 = reversal_hold i rid db"
        unfolding hold1 by (simp add: reversal_hold_def same)
      then show thesis
        using run lockp st None fact_ lock that
        by (auto simp: acceptTopUpReversalTx_def Let_def i1_def [symmetric] i1 rid_def [symmetric]
            minInt64_min Psum ar d_def [symmetric] split: if_splits option.splits sum.splits)
    qed
    have lock1: "lockOrCreateWallet (ce_now env 0) (ov_OrganizationID i1) (ov_Currency i1) db1 = (w, db2)"
      using lock by (simp add: i1)
    have amt1: "amount_ok (ov_AmountMinor i1)" "d \<le> ov_AmountMinor i1"
      "ov_AmountMinor i - d = ov_AmountMinor i1 - d" using amt ar by (simp_all add: i1)
    obtain w' es where p:
      "posting (ov_OrganizationID i, ov_Currency i) w w' es db1 db3"
      "hh \<Longrightarrow> ov_AmountMinor i \<le> ow_ReservedMinor w"
      "ow_AvailableMinor w' = ow_AvailableMinor w
         + (if hh then (ov_AmountMinor i - d) - min (ow_DebtMinor w) (ov_AmountMinor i - d)
            else - min (ow_AvailableMinor w) d)"
      "ow_ReservedMinor w' = ow_ReservedMinor w - (if hh then ov_AmountMinor i else 0)"
      "ow_DebtMinor w' = ow_DebtMinor w
         + (if hh then - min (ow_DebtMinor w) (ov_AmountMinor i - d) else d - min (ow_AvailableMinor w) d)"
      "ow_LifetimeTopUpMinor w' = ow_LifetimeTopUpMinor w"
      "ow_LifetimeSpendMinor w' = ow_LifetimeSpendMinor w"
      "db3 = db1\<lparr>db_wallets := (db_wallets db)((ov_OrganizationID i, ov_Currency i) \<mapsto> w'),
        db_entries := db_entries db @ es,
        db_holds := (if hh then update_rows (\<lambda>h. th_HoldID h = rid)
          (\<lambda>h. h\<lparr>th_State := HoldConfirmed\<rparr>) (db_holds db) else db_holds db)\<rparr>"
      by (rule reversal_post_cases [OF wok lock1 amt1(1) ar(3) amt1(2,3) post, unfolded i1 same]) blast
    define rcpt where "rcpt = \<lparr>tr_ReceiptID = rid, tr_PaymentID = ov_PaymentID i, tr_Kind = ov_Kind i,
                  tr_ReversalID = ov_ReversalID i, tr_OrganizationID = ov_OrganizationID i,
                  tr_CommercialOrderID = ov_CommercialOrderID i,
                  tr_ProviderAmountMinor = ov_AmountMinor i, tr_WalletPrincipalEffectMinor = d,
                  tr_Fingerprint = TopUpFingerprint sha (DocReversal i1), tr_Receipt = Bytes out\<rparr>"
    obtain row ex where r:
      "db' = db3\<lparr>db_reversals := db_reversals db3 @ (if 0 < d then [row] else []),
              db_excess := ex, db_receipts := db_receipts db3 @ [rcpt]\<rparr>"
      "wv_PaymentID row = ov_PaymentID i" "wv_OrganizationID row = ov_OrganizationID i"
      "wv_AmountMinor row = d" "\<forall>x\<in>set (db_receipts db3). tr_ReceiptID x \<noteq> rid"
      "Validate_TopUpReversalReceipt sha out"
      by (rule reversal_record_Inr [OF rec_, unfolded i1, folded rcpt_def])
        (metis walletReversalRow.select_convs(2,4,6))
    have tabs: "db_reversals db3 = db_reversals db" "db_receipts db3 = db_receipts db"
      by (simp_all add: p(8) same)
    have db': "db' = db\<lparr>db_wallets := (db_wallets db)((ov_OrganizationID i, ov_Currency i) \<mapsto> w'),
        db_entries := db_entries db @ es,
        db_holds := (if hh then update_rows (\<lambda>h. th_HoldID h = rid)
          (\<lambda>h. h\<lparr>th_State := HoldConfirmed\<rparr>) (db_holds db) else db_holds db),
        db_refunds := rf, db_chargebacks := cb,
        db_reversals := db_reversals db @ (if 0 < d then [row] else []),
        db_excess := ex, db_receipts := db_receipts db @ [rcpt]\<rparr>"
      using r(1) unfolding tabs p(8) db1 by simp
    have q: "posting (ov_OrganizationID i, ov_Currency i) w w' es db db'"
      by (rule posting_cong [OF p(1)]) (simp_all add: same db' p(8))
    show thesis
      by (rule posted [OF lockp st P(2,3) d_def hold [unfolded rid_def] q p(2-7) r(2-4) _ _ _ _ _ r(6) _
            db' [unfolded rid_def]])
        (use r(5) tabs in \<open>simp_all add: rcpt_def rid_def i1_def\<close>)
  qed
qed

section \<open>Posting a top-up\<close>

lemma lock_existing:
  "db_wallets db (org, cur) = Some w \<Longrightarrow> lockOrCreateWallet now org cur db = (w, db)"
  by (simp add: lockOrCreateWallet_def)

lemma post_topup_cases:
  assumes "wallets_ok db" and lock: "lockOrCreateWallet now org cur db = (w, db1)"
    and add: "addTopUp (ow_AvailableMinor w) (ow_DebtMinor w) n = Inr (a, d)" and amt: "amount_ok n"
    and top: "ow_LifetimeTopUpMinor w + n \<le> max64"
    and out: "pr_DebtRepaidMinor out = min (ow_DebtMinor w) n"
      "pr_AvailableAddedMinor out = n - min (ow_DebtMinor w) n"
    and run: "post_topup_entries env i out a d
        (w\<lparr>ow_LifetimeTopUpMinor := ow_LifetimeTopUpMinor w + n\<rparr>) db1 = Inr (out1, db')"
  obtains w' es where "posting (org, cur) w w' es db db'"
    "ow_AvailableMinor w' = ow_AvailableMinor w + (n - min (ow_DebtMinor w) n)"
    "ow_DebtMinor w' = ow_DebtMinor w - min (ow_DebtMinor w) n"
    "ow_ReservedMinor w' = ow_ReservedMinor w"
    "ow_LifetimeTopUpMinor w' = ow_LifetimeTopUpMinor w + n"
    "ow_LifetimeSpendMinor w' = ow_LifetimeSpendMinor w"
    "db' = db\<lparr>db_wallets := (db_wallets db)((org, cur) \<mapsto> w'), db_entries := db_entries db @ es\<rparr>"
    "out1 = out\<lparr>pr_CreditEntryIDs := pr_CreditEntryIDs out @ map we_EntryID es\<rparr>"
proof -
  note l = lock_spec [OF assms(1) lock]
  define r where "r = min (ow_DebtMinor w) n"
  note ad = addTopUp_wallet [OF add l(1) amt, folded r_def]
  note out = out [folded r_def]
  define w0 where "w0 = w\<lparr>ow_LifetimeTopUpMinor := ow_LifetimeTopUpMinor w + n\<rparr>"
  define wd where "wd = w0\<lparr>ow_DebtMinor := d\<rparr>"
  have neg: "neg64 r = - r"
    using l(1) amt by (intro neg64_nonneg) (auto simp: r_def wallet_ok_def amount_ok_def in64_unfold)
  have w0: "ow_OrganizationID w0 = org" "ow_Currency w0 = cur" "ow_UpdatedAt w0 = ow_UpdatedAt w"
    "ow_OrganizationID wd = org" "ow_Currency wd = cur" "ow_UpdatedAt wd = ow_UpdatedAt w"
    "ow_AvailableMinor w0 = ow_AvailableMinor w" "ow_ReservedMinor w0 = ow_ReservedMinor w"
    "ow_DebtMinor w0 = ow_DebtMinor w" "ow_AvailableMinor wd = ow_AvailableMinor w"
    "ow_ReservedMinor wd = ow_ReservedMinor w" "ow_DebtMinor wd = ow_DebtMinor w - r"
    using l by (simp_all add: w0_def wd_def ad(2))
  have okd: "wallet_ok wd" using l(1) amt top ad by (auto simp: wd_def w0_def wallet_ok_def amount_ok_def)
  have oka: "wallet_ok (v\<lparr>ow_AvailableMinor := a\<rparr>)"
    if "wallet_ok v" "ow_DebtMinor v = d" for v
    using that ad by (auto simp: wallet_ok_def)
  have r: "0 \<le> r" "r \<le> n" using l(1) amt by (auto simp: r_def wallet_ok_def amount_ok_def)
  consider (both) "0 < r" "0 < n - r" | (debt) "0 < r" "n - r = 0" | (credit) "r = 0"
  proof (cases "r = 0 \<or> r = n")
    case True
    then show thesis using that r by (cases "r = 0") auto
  next
    case False
    then have "0 < r" "0 < n - r" using r by linarith+
    then show thesis by (rule that(1))
  qed
  then show thesis
  proof cases
    case both
    from run both out obtain eid w1 dbA eid2 w2 where
      p1: "postTopUpEntry (ce_now env 2) (ce_uuid env 0) wd WalletEntryDebtRepayment 0 0 (- r)
        (ti_CommercialOrderID i) (ps_PaymentID (ti_Payment i)) (pr_ReceiptID out @ '':debt'') db1
        = Inr ((eid, w1), dbA)"
      and p2: "postTopUpEntry (ce_now env 3) (ce_uuid env 1) (w1\<lparr>ow_AvailableMinor := a\<rparr>)
        WalletEntryTopUpCredit (n - r) 0 0 (ti_CommercialOrderID i) (ps_PaymentID (ti_Payment i))
        (pr_ReceiptID out @ '':credit'') dbA = Inr ((eid2, w2), db')"
      and o1: "out1 = out\<lparr>pr_CreditEntryIDs := pr_CreditEntryIDs out @ [eid, eid2]\<rparr>"
      by (auto simp: post_topup_entries_def wd_def w0_def neg simp del: One_nat_def
          split: sum.splits if_splits)
    obtain e1 at1 where q1: "posting (org, cur) w w1 [e1] db dbA" "we_EntryID e1 = eid"
      "w1 = wd\<lparr>ow_Version := add64 (ow_Version wd) 1, ow_UpdatedAt := at1\<rparr>"
      "dbA = db1\<lparr>db_wallets := (db_wallets db)((org, cur) \<mapsto> w1), db_entries := db_entries db @ [e1]\<rparr>"
      by (rule postTopUpEntry_posting [OF p1 assms(1) lock]) (use l w0 okd in auto)
    have wA: "wallets_ok dbA" using posting_wallets_ok [OF q1(1) assms(1)] .
    have lockA: "lockOrCreateWallet 0 org cur dbA = (w1, dbA)"
      by (rule lock_existing) (simp add: q1(4))
    have ok1: "wallet_ok w1" "ow_DebtMinor w1 = d" using okd q1(3) by (auto simp: wallet_ok_def wd_def)
    obtain e2 at2 where q2: "posting (org, cur) w1 w2 [e2] dbA db'" "we_EntryID e2 = eid2"
      "w2 = w1\<lparr>ow_AvailableMinor := a, ow_Version := add64 (ow_Version w1) 1, ow_UpdatedAt := at2\<rparr>"
      "db' = dbA\<lparr>db_wallets := (db_wallets dbA)((org, cur) \<mapsto> w2), db_entries := db_entries dbA @ [e2]\<rparr>"
      by (rule postTopUpEntry_posting [OF p2 wA lockA]) (use q1(3) w0 ad oka [OF ok1] in auto)
    have "posting (org, cur) w w2 ([e1] @ [e2]) db db'" using posting_trans q1(1) q2(1) .
    then show thesis
      using q1(2-4) q2(2-4) l(5) o1 w0 ad
      by (intro that [of w2 "[e1, e2]"]) (simp_all add: w0_def wd_def flip: r_def)
  next
    case debt
    from run debt out obtain eid w1 where
      p1: "postTopUpEntry (ce_now env 2) (ce_uuid env 0) wd WalletEntryDebtRepayment 0 0 (- r)
        (ti_CommercialOrderID i) (ps_PaymentID (ti_Payment i)) (pr_ReceiptID out @ '':debt'') db1
        = Inr ((eid, w1), db')"
      and o1: "out1 = out\<lparr>pr_CreditEntryIDs := pr_CreditEntryIDs out @ [eid]\<rparr>"
      by (auto simp: post_topup_entries_def wd_def w0_def neg split: sum.splits if_splits)
    obtain e1 at1 where q1: "posting (org, cur) w w1 [e1] db db'" "we_EntryID e1 = eid"
      "w1 = wd\<lparr>ow_Version := add64 (ow_Version wd) 1, ow_UpdatedAt := at1\<rparr>"
      "db' = db1\<lparr>db_wallets := (db_wallets db)((org, cur) \<mapsto> w1), db_entries := db_entries db @ [e1]\<rparr>"
      by (rule postTopUpEntry_posting [OF p1 assms(1) lock]) (use l w0 okd in auto)
    have "min (ow_DebtMinor w) r = r" by (simp add: r_def)
    then show thesis
      using debt q1(2-4) l(5) o1 w0
      by (intro that [OF q1(1)]) (simp_all add: w0_def wd_def flip: r_def)
  next
    case credit
    have n: "0 < n" using amt by (simp add: amount_ok_def)
    from run credit out n obtain eid w1 where
      p1: "postTopUpEntry (ce_now env 3) (ce_uuid env 1) (w0\<lparr>ow_AvailableMinor := a\<rparr>)
        WalletEntryTopUpCredit (n - r) 0 0 (ti_CommercialOrderID i) (ps_PaymentID (ti_Payment i))
        (pr_ReceiptID out @ '':credit'') db1 = Inr ((eid, w1), db')"
      and o1: "out1 = out\<lparr>pr_CreditEntryIDs := pr_CreditEntryIDs out @ [eid]\<rparr>"
      by (auto simp: post_topup_entries_def w0_def simp del: One_nat_def split: sum.splits if_splits)
    have ok0: "wallet_ok w0" "ow_DebtMinor w0 = d"
      using l(1) top amt credit ad(2) by (auto simp: w0_def wallet_ok_def amount_ok_def)
    obtain e1 at1 where q1: "posting (org, cur) w w1 [e1] db db'" "we_EntryID e1 = eid"
      "w1 = w0\<lparr>ow_AvailableMinor := a, ow_Version := add64 (ow_Version w0) 1, ow_UpdatedAt := at1\<rparr>"
      "db' = db1\<lparr>db_wallets := (db_wallets db)((org, cur) \<mapsto> w1), db_entries := db_entries db @ [e1]\<rparr>"
      by (rule postTopUpEntry_posting [OF p1 assms(1) lock]) (use l w0 oka [OF ok0] ad(1) credit in auto)
    show thesis
      using credit q1(2-4) l(5) o1 w0 ad(1)
      by (intro that [OF q1(1)]) (simp_all add: w0_def flip: r_def)
  qed
qed

section \<open>Refund holds\<close>

lemma prepare_cases:
  assumes "wallets_ok db" and amt: "amount_ok (fi_AmountMinor i)"
    and run: "prepareTopUpRefundTx sha env i db = Inr (out, db')"
  obtains
    (replay) h where "h \<in> set (db_holds db)" "th_HoldID h = StorageID sha (fi_Key i)"
      "out = refundHold h" "rh_Input out = i" "db' = db"
  | (held) st w w' e row where "lockProviderTopUp (rk_PaymentID (fi_Key i)) db = Inr st"
      "ts_OrganizationID st = fi_OrganizationID i"
      "checkRefundBudget st (fi_AmountMinor i) db = None"
      "posting (fi_OrganizationID i, ts_Currency st) w w' [e] db db'"
      "fi_AmountMinor i \<le> ow_AvailableMinor w" "ow_DebtMinor w = 0"
      "ow_AvailableMinor w' = ow_AvailableMinor w - fi_AmountMinor i"
      "ow_ReservedMinor w' = ow_ReservedMinor w + fi_AmountMinor i"
      "ow_DebtMinor w' = ow_DebtMinor w"
      "ow_LifetimeTopUpMinor w' = ow_LifetimeTopUpMinor w"
      "ow_LifetimeSpendMinor w' = ow_LifetimeSpendMinor w"
      "th_HoldID row = StorageID sha (fi_Key i)" "th_OrganizationID row = fi_OrganizationID i"
      "th_AmountMinor row = fi_AmountMinor i" "th_State row = HoldReserved"
      "th_PaymentID row = rk_PaymentID (fi_Key i)"
      "\<forall>x\<in>set (db_holds db). \<not> hold_clash row x" "out = refundHold row"
      "db' = db\<lparr>db_wallets := (db_wallets db)((fi_OrganizationID i, ts_Currency st) \<mapsto> w'),
                db_holds := db_holds db @ [row], db_entries := db_entries db @ [e]\<rparr>"
proof -
  from run obtain st where lockp: "lockProviderTopUp (rk_PaymentID (fi_Key i)) db = Inr st"
    and st: "ts_OrganizationID st = fi_OrganizationID i"
    by (auto simp: prepareTopUpRefundTx_def split: if_splits sum.splits)
  show thesis
  proof (cases "find (\<lambda>h. th_HoldID h = StorageID sha (fi_Key i)) (db_holds db)")
    case (Some h)
    then have h: "h \<in> set (db_holds db)" "th_HoldID h = StorageID sha (fi_Key i)"
      by (auto dest: find_SomeD)
    from run lockp st Some have "out = refundHold h" "rh_Input out = i" "db' = db"
      by (auto simp: prepareTopUpRefundTx_def split: if_splits)
    with h show thesis by (rule replay)
  next
    case None
    let ?n = "fi_AmountMinor i"
    obtain w db1 where lock:
      "lockOrCreateWallet (ce_now env 0) (fi_OrganizationID i) (ts_Currency st) db = (w, db1)"
      by fastforce
    note l = lock_spec [OF assms(1) lock]
    have budget: "checkRefundBudget st ?n db = None" and avail: "?n \<le> ow_AvailableMinor w"
      and debt: "\<not> 0 < ow_DebtMinor w" and guard: "\<not> sub64 max64 ?n < ow_ReservedMinor w"
      using run lockp st None lock
      by (auto simp: prepareTopUpRefundTx_def Let_def split: if_splits option.splits)
    note ar = wallet_arith [OF l(1) amt]
    let ?w = "w\<lparr>ow_AvailableMinor := ow_AvailableMinor w - ?n, ow_ReservedMinor := ow_ReservedMinor w + ?n\<rparr>"
    define row where "row = \<lparr>th_HoldID = StorageID sha (fi_Key i), th_PaymentID = rk_PaymentID (fi_Key i),
        th_ReversalID = rk_ReversalID (fi_Key i), th_OrganizationID = fi_OrganizationID i,
        th_CommercialOrderID = fi_CommercialOrderID i, th_AmountMinor = ?n,
        th_ApprovalID = fi_ApprovalID i, th_State = HoldReserved, th_Dispatched = False,
        th_CreatedAt = nextWalletProcessingTimestamp (ce_now env 1) (ow_UpdatedAt w)\<rparr>"
    have ok: "wallet_ok ?w" using l(1) amt avail ar(3) [OF guard] by (auto simp: wallet_ok_def amount_ok_def)
    from run lockp st None lock budget avail debt guard obtain eid w' where
      fresh: "\<forall>x\<in>set (db_holds db). \<not> hold_clash row x" and out: "out = refundHold row"
      and post: "postTopUpEntry (ce_now env 2) (ce_uuid env 0) ?w WalletEntryRefundReserve (- ?n) ?n 0
        (fi_CommercialOrderID i) (rk_PaymentID (fi_Key i)) (StorageID sha (fi_Key i) @ '':reserve'')
        (db1\<lparr>db_holds := db_holds db1 @ [row]\<rparr>) = Inr ((eid, w'), db')"
      by (auto simp: prepareTopUpRefundTx_def Let_def ar(1) [OF avail] ar(3) [OF guard] ar(6)
          create_row_Some row_def l(5) simp del: One_nat_def split: if_splits option.splits sum.splits)
    obtain e at where p: "posting (fi_OrganizationID i, ts_Currency st) w w' [e] db db'"
      "w' = ?w\<lparr>ow_Version := add64 (ow_Version ?w) 1, ow_UpdatedAt := at\<rparr>"
      "db' = (db1\<lparr>db_holds := db_holds db1 @ [row]\<rparr>)
         \<lparr>db_wallets := (db_wallets db)((fi_OrganizationID i, ts_Currency st) \<mapsto> w'),
          db_entries := db_entries db @ [e]\<rparr>"
      by (rule postTopUpEntry_posting [OF post assms(1) lock]) (use l ok in auto)
    show thesis
      using debt l(1)
      by (intro held [OF lockp st budget p(1) avail _ _ _ _ _ _ _ _ _ _ _ fresh out])
        (auto simp: row_def p(2,3) l(5) wallet_ok_def)
  qed
qed

lemma release_cases:
  assumes "wallets_ok db" and amt: "amount_ok (fi_AmountMinor i)"
    and run: "releaseTopUpRefundHoldTx sha env i terminal db = Inr (out, db')"
  obtains
    (replay) h where "h \<in> set (db_holds db)" "th_HoldID h = StorageID sha (fi_Key i)"
      "th_State h = HoldReleased" "out = refundHold h" "db' = db"
  | (released) st h w w' e where "lockProviderTopUp (rk_PaymentID (fi_Key i)) db = Inr st"
      "h \<in> set (db_holds db)" "th_HoldID h = StorageID sha (fi_Key i)" "th_State h = HoldReserved"
      "th_OrganizationID h = fi_OrganizationID i" "th_AmountMinor h = fi_AmountMinor i"
      "\<not> th_Dispatched h \<or> terminal"
      "posting (fi_OrganizationID i, ts_Currency st) w w' [e] db db'"
      "fi_AmountMinor i \<le> ow_ReservedMinor w"
      "ow_AvailableMinor w' = ow_AvailableMinor w
         + (fi_AmountMinor i - min (ow_DebtMinor w) (fi_AmountMinor i))"
      "ow_ReservedMinor w' = ow_ReservedMinor w - fi_AmountMinor i"
      "ow_DebtMinor w' = ow_DebtMinor w - min (ow_DebtMinor w) (fi_AmountMinor i)"
      "ow_LifetimeTopUpMinor w' = ow_LifetimeTopUpMinor w"
      "ow_LifetimeSpendMinor w' = ow_LifetimeSpendMinor w"
      "out = (refundHold h)\<lparr>rh_State := HoldReleased\<rparr>"
      "db' = db\<lparr>db_wallets := (db_wallets db)((fi_OrganizationID i, ts_Currency st) \<mapsto> w'),
                db_entries := db_entries db @ [e],
                db_holds := update_rows (\<lambda>x. th_HoldID x = StorageID sha (fi_Key i))
                  (\<lambda>x. x\<lparr>th_State := HoldReleased\<rparr>) (db_holds db)\<rparr>"
proof -
  from run obtain st h where lockp: "lockProviderTopUp (rk_PaymentID (fi_Key i)) db = Inr st"
    and fh: "find (\<lambda>h. th_HoldID h = StorageID sha (fi_Key i)) (db_holds db) = Some h"
    and h0: "rh_Input (refundHold h) = i" "th_State h \<noteq> HoldConfirmed"
    by (auto simp: releaseTopUpRefundHoldTx_def split: if_splits sum.splits option.splits)
  have h: "h \<in> set (db_holds db)" "th_HoldID h = StorageID sha (fi_Key i)"
    using fh by (auto dest: find_SomeD)
  have hi: "th_OrganizationID h = fi_OrganizationID i" "th_AmountMinor h = fi_AmountMinor i"
    using h0(1) by (auto simp: refundHold_def)
  show thesis
  proof (cases "th_State h = HoldReleased")
    case True
    with run lockp fh h0 have "out = refundHold h" "db' = db"
      by (auto simp: releaseTopUpRefundHoldTx_def)
    with h True show thesis by (intro replay)
  next
    case False
    then have rs: "th_State h = HoldReserved" using h0(2) by (cases "th_State h") auto
    let ?n = "fi_AmountMinor i"
    obtain w db1 where lock:
      "lockOrCreateWallet (ce_now env 0) (fi_OrganizationID i) (ts_Currency st) db = (w, db1)"
      by fastforce
    note l = lock_spec [OF assms(1) lock]
    from run lockp fh h0 rs lock obtain a d where
      disp: "\<not> th_Dispatched h \<or> terminal" and res: "?n \<le> ow_ReservedMinor w"
      and add: "addTopUp (ow_AvailableMinor w) (ow_DebtMinor w) ?n = Inr (a, d)"
      by (auto simp: releaseTopUpRefundHoldTx_def Let_def split: if_splits sum.splits)
    note ad = addTopUp_wallet [OF add l(1) amt]
    note ar = wallet_arith [OF l(1) amt]
    have neg: "neg64 (min (ow_DebtMinor w) ?n) = - min (ow_DebtMinor w) ?n"
      using l(1) amt by (intro neg64_nonneg) (auto simp: wallet_ok_def amount_ok_def in64_unfold)
    let ?w = "w\<lparr>ow_AvailableMinor := a, ow_DebtMinor := d, ow_ReservedMinor := ow_ReservedMinor w - ?n\<rparr>"
    have ok: "wallet_ok ?w" using l(1) ad res amt by (auto simp: wallet_ok_def amount_ok_def)
    from run lockp fh h0 rs lock disp res add h(2) obtain eid w' db2 where
      out: "out = (refundHold h)\<lparr>rh_State := HoldReleased\<rparr>"
      and post: "postTopUpEntry (ce_now env 1) (ce_uuid env 0) ?w WalletEntryRefundRelease
        (?n - min (ow_DebtMinor w) ?n) (- ?n) (- min (ow_DebtMinor w) ?n) (fi_CommercialOrderID i)
        (rk_PaymentID (fi_Key i)) (th_HoldID h @ '':release'') db1 = Inr ((eid, w'), db2)"
      and db': "db' = db2\<lparr>db_holds := update_rows (\<lambda>x. th_HoldID x = StorageID sha (fi_Key i))
                  (\<lambda>x. x\<lparr>th_State := HoldReleased\<rparr>) (db_holds db2)\<rparr>"
      by (auto simp: releaseTopUpRefundHoldTx_def Let_def ad(8,9) ar(2) [OF res] ar(6) neg
          simp del: One_nat_def split: if_splits sum.splits)
    obtain e at where p: "posting (fi_OrganizationID i, ts_Currency st) w w' [e] db db2"
      "w' = ?w\<lparr>ow_Version := add64 (ow_Version ?w) 1, ow_UpdatedAt := at\<rparr>"
      "db2 = db1\<lparr>db_wallets := (db_wallets db)((fi_OrganizationID i, ts_Currency st) \<mapsto> w'),
          db_entries := db_entries db @ [e]\<rparr>"
      by (rule postTopUpEntry_posting [OF post assms(1) lock]) (use l ok ad(1,2) in auto)
    have q: "posting (fi_OrganizationID i, ts_Currency st) w w' [e] db db'"
      by (rule posting_cong [OF p(1)]) (simp_all add: db')
    show thesis
      by (rule released [OF lockp h rs hi disp q res _ _ _ _ _ out])
        (simp_all add: p(2,3) db' l(5) ad(1,2))
  qed
qed

lemma admit_cases:
  assumes "admitTopUpRefundTx sha i db = Inr (out, db')"
  obtains (replay) h where "h \<in> set (db_holds db)" "th_HoldID h = StorageID sha (fi_Key i)"
      "th_Dispatched h" "out = refundHold h" "db' = db"
  | (admitted) st h where "lockProviderTopUp (rk_PaymentID (fi_Key i)) db = Inr st"
      "h \<in> set (db_holds db)" "th_HoldID h = StorageID sha (fi_Key i)" "th_State h = HoldReserved"
      "rh_Input (refundHold h) = i" "\<not> th_Dispatched h" "checkRefundBudget st 0 db = None"
      "out = (refundHold h)\<lparr>rh_Dispatched := True\<rparr>"
      "db' = db\<lparr>db_holds := update_rows (\<lambda>x. th_HoldID x = StorageID sha (fi_Key i))
                  (\<lambda>x. x\<lparr>th_Dispatched := True\<rparr>) (db_holds db)\<rparr>"
proof -
  from assms obtain st h where lockp: "lockProviderTopUp (rk_PaymentID (fi_Key i)) db = Inr st"
    and fh: "find (\<lambda>h. th_HoldID h = StorageID sha (fi_Key i)) (db_holds db) = Some h"
    and h0: "rh_Input (refundHold h) = i"
    by (auto simp: admitTopUpRefundTx_def split: if_splits sum.splits option.splits)
  have h: "h \<in> set (db_holds db)" "th_HoldID h = StorageID sha (fi_Key i)"
    using fh by (auto dest: find_SomeD)
  show thesis
  proof (cases "th_Dispatched h")
    case True
    with assms lockp fh h0 have "out = refundHold h" "db' = db" by (auto simp: admitTopUpRefundTx_def)
    with h True show thesis by (intro replay)
  next
    case False
    with assms lockp fh h0 h(2) show thesis
      by (intro admitted [OF lockp h]) (auto simp: admitTopUpRefundTx_def split: if_splits option.splits)
  qed
qed

section \<open>Accepting a top-up\<close>

lemma claimChannelPayment_Inr:
  assumes "claimChannelPayment sha b payment purpose db = Inr db1"
  obtains claims where "db1 = db\<lparr>db_claims := claims\<rparr>"
    "claims = create_or_ignore claim_clash
       \<lparr>cc_ClaimID = ClaimID sha b, cc_PaymentID = payment, cc_Purpose = purpose\<rparr> (db_claims db)"
    "\<exists>c\<in>set claims. cc_ClaimID c = ClaimID sha b \<and> cc_PaymentID c = payment \<and> cc_Purpose c = purpose"
  using assms
  by (fastforce simp: claimChannelPayment_def Let_def split: option.splits if_splits dest!: find_SomeD)

lemma post_new_topup_cases:
  assumes "wallets_ok db" and amt: "amount_ok (ti_AmountMinor i)"
    and run: "post_new_topup sha env i seed db = Inr (out, db')"
  obtains w w' es row rs db4 db5 where
      "\<forall>x\<in>set (db_payments db). py_PaymentID x \<noteq> ps_PaymentID (ti_Payment i)"
      "posting (ti_OrganizationID i, ti_Currency i) w w' es db db4"
      "ow_AvailableMinor w' =
         ow_AvailableMinor w + (ti_AmountMinor i - min (ow_DebtMinor w) (ti_AmountMinor i))"
      "ow_DebtMinor w' = ow_DebtMinor w - min (ow_DebtMinor w) (ti_AmountMinor i)"
      "ow_ReservedMinor w' = ow_ReservedMinor w"
      "ow_LifetimeTopUpMinor w' = ow_LifetimeTopUpMinor w + ti_AmountMinor i"
      "ow_LifetimeSpendMinor w' = ow_LifetimeSpendMinor w"
      "row = \<lparr>ts_PaymentID = ps_PaymentID (ti_Payment i), ts_CommercialOrderID = ti_CommercialOrderID i,
              ts_OrganizationID = ti_OrganizationID i, ts_Currency = ti_Currency i,
              ts_AmountMinor = ti_AmountMinor i,
              ts_SettledAt = NormalizeTimestamp (ps_SettledAt (ti_Payment i)),
              ts_ProviderReference = ps_ProviderReference (ti_Payment i),
              ts_Version = ps_Version (ti_Payment i)\<rparr>"
      "\<forall>x\<in>set (db_settlements db). \<not> settlement_clash row x"
      "db4 = db\<lparr>db_payments := db_payments db @ [paymentRowFromFact (ti_Payment i)],
                db_wallets := (db_wallets db)((ti_OrganizationID i, ti_Currency i) \<mapsto> w'),
                db_entries := db_entries db @ es, db_settlements := db_settlements db @ [row]\<rparr>"
      "acceptReversals sha env 0 (ti_KnownReversals i) db4 = Inr (rs, db5)"
      "pr_GrossCreditMinor out = ti_AmountMinor i"
      "pr_AvailableAddedMinor out = ti_AmountMinor i - min (ow_DebtMinor w) (ti_AmountMinor i)"
      "pr_DebtRepaidMinor out = min (ow_DebtMinor w) (ti_AmountMinor i)"
      "pr_CreditEntryIDs out = map we_EntryID es" "Validate_TopUpPostingReceipt sha out"
      "db' = db5\<lparr>db_topups := update_rows (\<lambda>r. pt_ClaimID r = pt_ClaimID seed)
                          (\<lambda>r. r\<lparr>pt_Receipt := Bytes out\<rparr>) (db_topups db5)\<rparr>"
proof -
  let ?n = "ti_AmountMinor i"
  define dbp where "dbp = db\<lparr>db_payments := db_payments db @ [paymentRowFromFact (ti_Payment i)]\<rparr>"
  define row where "row = \<lparr>ts_PaymentID = ps_PaymentID (ti_Payment i),
      ts_CommercialOrderID = ti_CommercialOrderID i, ts_OrganizationID = ti_OrganizationID i,
      ts_Currency = ti_Currency i, ts_AmountMinor = ?n,
      ts_SettledAt = NormalizeTimestamp (ps_SettledAt (ti_Payment i)),
      ts_ProviderReference = ps_ProviderReference (ti_Payment i),
      ts_Version = ps_Version (ti_Payment i)\<rparr>"
  have wok: "wallets_ok dbp" using assms(1) by (simp add: dbp_def wallets_ok_def)
  obtain w db3 where lock:
    "lockOrCreateWallet (ce_now env 0) (ti_OrganizationID i) (ti_Currency i) dbp = (w, db3)"
    by fastforce
  note l = lock_spec [OF wok lock]
  have fresh: "\<forall>x\<in>set (db_payments db). py_PaymentID x \<noteq> ps_PaymentID (ti_Payment i)"
    using run by (auto simp: post_new_topup_def create_row_Some payment_clash_def paymentRowFromFact_def
        split: option.splits)
  from run lock obtain a d where add: "addTopUp (ow_AvailableMinor w) (ow_DebtMinor w) ?n = Inr (a, d)"
    by (auto simp: post_new_topup_def create_row_Some dbp_def split: option.splits sum.splits)
  note ad = addTopUp_wallet [OF add l(1) amt]
  have guard: "\<not> sub64 max64 ?n < ow_LifetimeTopUpMinor w"
    using run lock add by (auto simp: post_new_topup_def create_row_Some dbp_def
        split: option.splits if_splits)
  note top = wallet_arith(4) [OF l(1) amt guard]
  obtain out0 out1 dbe rs db5 where
    post: "post_topup_entries env i out0 a d
        (w\<lparr>ow_LifetimeTopUpMinor := ow_LifetimeTopUpMinor w + ?n\<rparr>) db3 = Inr (out1, dbe)"
    and out0: "pr_DebtRepaidMinor out0 = min (ow_DebtMinor w) ?n"
      "pr_AvailableAddedMinor out0 = ?n - min (ow_DebtMinor w) ?n"
      "pr_GrossCreditMinor out0 = ?n" "pr_CreditEntryIDs out0 = []"
    and clash: "\<forall>x\<in>set (db_settlements dbe). \<not> settlement_clash row x"
    and revs: "acceptReversals sha env 0 (ti_KnownReversals i)
        (dbe\<lparr>db_settlements := db_settlements dbe @ [row]\<rparr>) = Inr (rs, db5)"
    and valid: "Validate_TopUpPostingReceipt sha out"
    and out: "pr_GrossCreditMinor out = pr_GrossCreditMinor out1"
      "pr_AvailableAddedMinor out = pr_AvailableAddedMinor out1"
      "pr_DebtRepaidMinor out = pr_DebtRepaidMinor out1"
      "pr_CreditEntryIDs out = pr_CreditEntryIDs out1"
    and db': "db' = db5\<lparr>db_topups := update_rows (\<lambda>r. pt_ClaimID r = pt_ClaimID seed)
                          (\<lambda>r. r\<lparr>pt_Receipt := Bytes out\<rparr>) (db_topups db5)\<rparr>"
  proof -
    define out0 where "out0 = new_posting_receipt i seed (?n - min (ow_DebtMinor w) ?n)
        (min (ow_DebtMinor w) ?n) (nextWalletProcessingTimestamp (ce_now env 1) (ow_UpdatedAt w))"
    show thesis
      using run lock add guard
      by (simp add: post_new_topup_def create_row_Some dbp_def [symmetric] row_def [symmetric] Let_def
          ad(8,9) top out0_def [symmetric] del: One_nat_def
          split: option.splits sum.splits if_splits prod.splits)
        (rule that [of out0], (assumption | simp add: out0_def new_posting_receipt_def | auto)+)
  qed
  obtain w' es where p: "posting (ti_OrganizationID i, ti_Currency i) w w' es dbp dbe"
    "ow_AvailableMinor w' = ow_AvailableMinor w + (?n - min (ow_DebtMinor w) ?n)"
    "ow_DebtMinor w' = ow_DebtMinor w - min (ow_DebtMinor w) ?n"
    "ow_ReservedMinor w' = ow_ReservedMinor w"
    "ow_LifetimeTopUpMinor w' = ow_LifetimeTopUpMinor w + ?n"
    "ow_LifetimeSpendMinor w' = ow_LifetimeSpendMinor w"
    "dbe = dbp\<lparr>db_wallets := (db_wallets dbp)((ti_OrganizationID i, ti_Currency i) \<mapsto> w'),
               db_entries := db_entries dbp @ es\<rparr>"
    "out1 = out0\<lparr>pr_CreditEntryIDs := pr_CreditEntryIDs out0 @ map we_EntryID es\<rparr>"
    by (rule post_topup_cases [OF wok lock add amt conjunct2 [OF top] out0(1,2) post])
  let ?db4 = "dbe\<lparr>db_settlements := db_settlements dbe @ [row]\<rparr>"
  have q: "posting (ti_OrganizationID i, ti_Currency i) w w' es db ?db4"
    by (rule posting_cong [OF p(1)]) (simp_all add: dbp_def)
  show thesis
    by (rule that [OF fresh q p(2-6) row_def _ _ revs _ _ _ _ valid db'])
      (use clash out out0 in \<open>simp_all add: p(7,8) dbp_def\<close>)
qed

text \<open>The state in which a top-up has claimed its channel payment.\<close>

definition topup_claimed :: "topup_doc digest \<Rightarrow> ProviderTopUpInput \<Rightarrow> money_db \<Rightarrow> money_db" where
  "topup_claimed sha i db =
     db\<lparr>db_claims := create_or_ignore claim_clash
          \<lparr>cc_ClaimID = ClaimID sha (ti_Binding i), cc_PaymentID = ps_PaymentID (ti_Payment i),
           cc_Purpose = PaymentPurposeWalletTopUp\<rparr> (db_claims db),
        db_topups := create_or_ignore topup_clash (topup_seed sha i) (db_topups db)\<rparr>"

lemma accept_topup_cases:
  assumes run: "acceptAndPostTx sha env i db = Inr (out, db')"
  obtains
    (replay) rs c cl where
      "acceptReversals sha env 0 (ti_KnownReversals i) (topup_claimed sha i db) = Inr (rs, db')"
      "pt_ClaimID c = ClaimID sha (ti_Binding i)"
      "pt_Receipt c = Bytes out" "c \<in> set (db_topups db)"
      "pt_Fingerprint c = Fingerprint_ProviderTopUpInput sha i"
      "cl \<in> set (db_claims (topup_claimed sha i db))" "cc_ClaimID cl = ClaimID sha (ti_Binding i)"
      "cc_PaymentID cl = ps_PaymentID (ti_Payment i)" "cc_Purpose cl = PaymentPurposeWalletTopUp"
  | (posted) cl where
      "post_new_topup sha env i (topup_seed sha i) (topup_claimed sha i db) = Inr (out, db')"
      "cl \<in> set (db_claims (topup_claimed sha i db))" "cc_ClaimID cl = ClaimID sha (ti_Binding i)"
      "cc_PaymentID cl = ps_PaymentID (ti_Payment i)" "cc_Purpose cl = PaymentPurposeWalletTopUp"
proof -
  from run obtain dbc where
    cl: "claimChannelPayment sha (ti_Binding i) (ps_PaymentID (ti_Payment i)) PaymentPurposeWalletTopUp db
      = Inr dbc"
    by (auto simp: acceptAndPostTx_def split: sum.splits)
  then obtain claims where dbc: "dbc = db\<lparr>db_claims := claims\<rparr>"
    and claims: "claims = create_or_ignore claim_clash
         \<lparr>cc_ClaimID = ClaimID sha (ti_Binding i), cc_PaymentID = ps_PaymentID (ti_Payment i),
          cc_Purpose = PaymentPurposeWalletTopUp\<rparr> (db_claims db)"
    and "\<exists>c\<in>set claims. cc_ClaimID c = ClaimID sha (ti_Binding i)
       \<and> cc_PaymentID c = ps_PaymentID (ti_Payment i) \<and> cc_Purpose c = PaymentPurposeWalletTopUp"
    by (rule claimChannelPayment_Inr)
  have tc: "topup_claimed sha i db = db\<lparr>db_claims := claims,
      db_topups := create_or_ignore topup_clash (topup_seed sha i) (db_topups db)\<rparr>"
    by (simp add: topup_claimed_def claims)
  obtain claim where
    claim: "claim \<in> set (db_claims (topup_claimed sha i db))" "cc_ClaimID claim = ClaimID sha (ti_Binding i)"
      "cc_PaymentID claim = ps_PaymentID (ti_Payment i)" "cc_Purpose claim = PaymentPurposeWalletTopUp"
    using \<open>\<exists>c\<in>set claims. _ c\<close> by (auto simp: tc)
  let ?topups = "db_topups (topup_claimed sha i db)"
  from run cl obtain c where fc: "find (\<lambda>r. pt_ClaimID r = pt_ClaimID (topup_seed sha i)) ?topups = Some c"
    by (auto simp: acceptAndPostTx_def Let_def dbc tc split: option.splits)
  have c: "c \<in> set ?topups" "pt_ClaimID c = ClaimID sha (ti_Binding i)"
    using fc by (auto dest: find_SomeD simp: topup_seed_def)
  have fp: "pt_Fingerprint c = Fingerprint_ProviderTopUpInput sha i"
    using run cl fc by (auto simp: acceptAndPostTx_def Let_def dbc tc topup_seed_def split: if_splits)
  show thesis
  proof (cases "pt_Receipt c = NoBytes")
    case True
    then have "post_new_topup sha env i (topup_seed sha i) (topup_claimed sha i db) = Inr (out, db')"
      using run cl fc by (auto simp: acceptAndPostTx_def Let_def dbc tc split: if_splits)
    then show thesis using claim by (rule posted)
  next
    case False
    from run cl fc False obtain rs where
      rs: "acceptReversals sha env 0 (ti_KnownReversals i) (topup_claimed sha i db) = Inr (rs, db')"
      "pt_Receipt c = Bytes out"
      by (auto simp: acceptAndPostTx_def Let_def dbc tc split: if_splits option.splits sum.splits)
    have "c \<noteq> topup_seed sha i" using False by (auto simp: topup_seed_def)
    then have "c \<in> set (db_topups db)"
      using c(1) by (auto simp: topup_claimed_def create_or_ignore_def split: if_splits)
    with rs c fp claim show thesis by (intro replay)
  qed
qed

end
