(* ===== verification/Ledger.thy ===== *)
theory Ledger
  imports Wallet_Laws TopUp_Laws
begin

text \<open>
  The invariant of the wallet ledger and the steps that keep it. \<open>ledger_inv\<close> says that wallet
  rows are well formed, that their entries explain them, and that the funds of a wallet are
  explained by the rows of the other tables: what is reserved by the open reservations and
  refund holds, what was topped up by the settlements, what was spent by the committed
  reservations. \<open>good_step\<close> is a transition that keeps the invariant, only appends to the
  ledger, and on each account is a run of the abstract account machine; it is reflexive and
  transitive, and every transaction of the two repositories is one.
\<close>

section \<open>The invariant\<close>

definition reservations_ok :: "money_db \<Rightarrow> bool" where
  "reservations_ok db \<longleftrightarrow>
     distinct (map rv_ReservationID (db_reservations db))
     \<and> (\<forall>r\<in>set (db_reservations db). amount_ok (rv_AmountMinor r)
          \<and> rv_Currency r = WalletCurrencyCNY \<and> TrimSpace (rv_CommercialOrderID r) \<noteq> [])"

definition settlements_ok :: "money_db \<Rightarrow> bool" where
  "settlements_ok db \<longleftrightarrow>
     distinct (map ts_PaymentID (db_settlements db))
     \<and> (\<forall>s\<in>set (db_settlements db). amount_ok (ts_AmountMinor s) \<and> ts_Currency s = WalletCurrencyCNY)"

definition holds_ok :: "money_db \<Rightarrow> bool" where
  "holds_ok db \<longleftrightarrow>
     distinct (map th_HoldID (db_holds db)) \<and> (\<forall>h\<in>set (db_holds db). amount_ok (th_AmountMinor h))"

definition reversals_ok :: "money_db \<Rightarrow> bool" where
  "reversals_ok db \<longleftrightarrow> (\<forall>r\<in>set (db_reversals db). amount_ok (wv_AmountMinor r))"

definition reserved_sum :: "money_db \<Rightarrow> string \<Rightarrow> int" where
  "reserved_sum db org =
     sum_rows (\<lambda>r. rv_OrganizationID r = org \<and> rv_State r = WalletReservationReserved)
       rv_AmountMinor (db_reservations db)
     + sum_rows (\<lambda>h. th_OrganizationID h = org \<and> th_State h = HoldReserved)
         th_AmountMinor (db_holds db)"

definition settled_sum :: "money_db \<Rightarrow> string \<Rightarrow> int" where
  "settled_sum db org =
     sum_rows (\<lambda>s. ts_OrganizationID s = org) ts_AmountMinor (db_settlements db)"

definition committed_sum :: "money_db \<Rightarrow> string \<Rightarrow> int" where
  "committed_sum db org =
     sum_rows (\<lambda>r. rv_OrganizationID r = org \<and> rv_State r = WalletReservationCommitted)
       rv_AmountMinor (db_reservations db)"

definition funds_explained :: "money_db \<Rightarrow> bool" where
  "funds_explained db \<longleftrightarrow>
     (\<forall>org. ow_ReservedMinor (wallet_at db (org, WalletCurrencyCNY)) = reserved_sum db org
            \<and> ow_LifetimeTopUpMinor (wallet_at db (org, WalletCurrencyCNY)) = settled_sum db org
            \<and> ow_LifetimeSpendMinor (wallet_at db (org, WalletCurrencyCNY)) = committed_sum db org)"

definition ledger_inv :: "money_db \<Rightarrow> bool" where
  "ledger_inv db \<longleftrightarrow>
     wallets_ok db \<and> entries_ok db \<and> reservations_ok db \<and> settlements_ok db \<and> holds_ok db
     \<and> reversals_ok db \<and> funds_explained db"

lemma ledger_invD:
  assumes "ledger_inv db"
  shows "wallets_ok db" "entries_ok db" "reservations_ok db" "settlements_ok db" "holds_ok db"
    "reversals_ok db" "funds_explained db"
    "\<forall>s\<in>set (db_settlements db). amount_ok (ts_AmountMinor s)"
    "\<forall>r\<in>set (db_reservations db). amount_ok (rv_AmountMinor r)"
    "\<forall>r\<in>set (db_reversals db). 0 \<le> wv_AmountMinor r"
  using assms
  by (auto simp: ledger_inv_def settlements_ok_def reservations_ok_def reversals_ok_def amount_ok_def)

lemma ledger_inv_empty: "ledger_inv empty_db"
  by (auto simp: ledger_inv_def reservations_ok_def settlements_ok_def holds_ok_def reversals_ok_def
      funds_explained_def reserved_sum_def settled_sum_def committed_sum_def wallet_at_def empty_db_def
      entries_ok_empty [unfolded empty_db_def])

section \<open>Steps of the ledger\<close>

definition account_of :: "organizationWalletRow \<Rightarrow> int \<Rightarrow> account" where
  "account_of w reversed =
     \<lparr>ac_avail = ow_AvailableMinor w, ac_res = ow_ReservedMinor w, ac_debt = ow_DebtMinor w,
      ac_top = ow_LifetimeTopUpMinor w, ac_spend = ow_LifetimeSpendMinor w, ac_rev = reversed\<rparr>"

lemma wallet_account_of:
  "wallet_account db org = account_of (wallet_at db (org, WalletCurrencyCNY)) (reversed_of db org)"
  by (simp add: wallet_account_def account_of_def Let_def)

text \<open>
  What never changes: decisions, settlements, reversals and reversal receipts are only added; a
  reservation and a refund hold keep their terms, a finished reservation keeps everything, a hold
  that is no longer open keeps its state, and a dispatched hold stays dispatched.
\<close>

definition reservation_kept :: "walletReservationRow \<Rightarrow> walletReservationRow \<Rightarrow> bool" where
  "reservation_kept r r' \<longleftrightarrow>
     rv_OrganizationID r' = rv_OrganizationID r \<and> rv_ReservationID r' = rv_ReservationID r
     \<and> rv_OperationID r' = rv_OperationID r \<and> rv_CommercialOrderID r' = rv_CommercialOrderID r
     \<and> rv_Currency r' = rv_Currency r \<and> rv_AmountMinor r' = rv_AmountMinor r
     \<and> rv_CreatedAt r' = rv_CreatedAt r \<and> (rv_State r \<noteq> WalletReservationReserved \<longrightarrow> r' = r)"

definition hold_kept :: "topUpRefundHoldRow \<Rightarrow> topUpRefundHoldRow \<Rightarrow> bool" where
  "hold_kept h h' \<longleftrightarrow>
     th_HoldID h' = th_HoldID h \<and> rh_Input (refundHold h') = rh_Input (refundHold h)
     \<and> (th_State h \<noteq> HoldReserved \<longrightarrow> th_State h' = th_State h)
     \<and> (th_Dispatched h \<longrightarrow> th_Dispatched h')"

lemma kept_refl [simp]: "reservation_kept r r" "hold_kept h h"
  by (simp_all add: reservation_kept_def hold_kept_def)

lemma kept_rel_trans:
  "reservation_kept a b \<Longrightarrow> reservation_kept b c \<Longrightarrow> reservation_kept a c"
  "hold_kept g h \<Longrightarrow> hold_kept h k \<Longrightarrow> hold_kept g k"
  unfolding reservation_kept_def hold_kept_def by metis+

definition history_kept :: "money_db \<Rightarrow> money_db \<Rightarrow> bool" where
  "history_kept db db' \<longleftrightarrow>
     (\<exists>t. db_decisions db' = db_decisions db @ t) \<and> (\<exists>t. db_settlements db' = db_settlements db @ t)
     \<and> (\<exists>t. db_reversals db' = db_reversals db @ t) \<and> (\<exists>t. db_receipts db' = db_receipts db @ t)
     \<and> rows_kept reservation_kept (db_reservations db) (db_reservations db')
     \<and> rows_kept hold_kept (db_holds db) (db_holds db')"

lemma history_kept_trans: "history_kept a b \<Longrightarrow> history_kept b c \<Longrightarrow> history_kept a c"
  unfolding history_kept_def by (auto intro: rows_kept_trans kept_rel_trans)

lemma history_keptI:
  assumes "db_decisions db' = db_decisions db @ ds" "db_settlements db' = db_settlements db @ ss"
    "db_reversals db' = db_reversals db @ rs" "db_receipts db' = db_receipts db @ cs"
    "rows_kept reservation_kept (db_reservations db) (db_reservations db')"
    "rows_kept hold_kept (db_holds db) (db_holds db')"
  shows "history_kept db db'"
  using assms by (auto simp: history_kept_def)

definition good_step :: "money_db \<Rightarrow> money_db \<Rightarrow> bool" where
  "good_step db db' \<longleftrightarrow>
     ledger_inv db' \<and> history_kept db db' \<and> (\<exists>es. db_entries db' = db_entries db @ es)
     \<and> (\<forall>org. \<exists>evs. acct_run (wallet_account db org) evs = Some (wallet_account db' org))"

lemma history_kept_refl [simp]: "history_kept db db"
  by (rule history_keptI [where ds = "[]" and ss = "[]" and rs = "[]" and cs = "[]"])
    (simp_all add: rows_kept_refl)

lemma good_step_refl: "ledger_inv db \<Longrightarrow> good_step db db"
  unfolding good_step_def by (metis acct_run.simps(1) append_Nil2 history_kept_refl)

lemma good_step_trans: "good_step a b \<Longrightarrow> good_step b c \<Longrightarrow> good_step a c"
  unfolding good_step_def
  by (metis (no_types, lifting) acct_run_append append_assoc option.simps(5) history_kept_trans)

lemma good_step_run_tx:
  assumes "ledger_inv db" "\<And>a db'. body db = Inr (a, db') \<Longrightarrow> good_step db db'"
  shows "good_step db (fst (run_tx flt body db))"
  using run_tx_state [of flt body db] assms good_step_refl by metis

text \<open>A step that leaves the tables of the wallets alone.\<close>

definition wallet_tables where
  "wallet_tables db =
     (db_wallets db, db_entries db, db_reservations db, db_settlements db, db_holds db, db_reversals db,
      db_decisions db, db_receipts db)"

lemma good_step_frame:
  assumes "ledger_inv db" "wallet_tables db' = wallet_tables db"
  shows "good_step db db'"
proof -
  have eq: "db_wallets db' = db_wallets db" "db_entries db' = db_entries db"
    "db_reservations db' = db_reservations db" "db_settlements db' = db_settlements db"
    "db_holds db' = db_holds db" "db_reversals db' = db_reversals db"
    "db_decisions db' = db_decisions db" "db_receipts db' = db_receipts db"
    using assms(2) by (simp_all add: wallet_tables_def)
  have at: "wallet_at db' k = wallet_at db k" "entries_of db' k = entries_of db k" for k
    by (simp_all add: wallet_at_def entries_of_def eq)
  have "ledger_inv db'"
    using assms(1)
    by (simp add: ledger_inv_def wallets_ok_def entries_ok_def reservations_ok_def settlements_ok_def
        holds_ok_def reversals_ok_def funds_explained_def reserved_sum_def settled_sum_def
        committed_sum_def eq at)
  moreover have "wallet_account db' org = wallet_account db org" for org
    by (simp add: wallet_account_def at reversed_of_def eq)
  moreover have "history_kept db db'" by (simp add: history_kept_def eq rows_kept_refl)
  ultimately show ?thesis
    using good_step_refl [OF assms(1)] by (simp add: good_step_def eq)
qed

text \<open>A posting whose wallet moves as the rows of the other tables say.\<close>

lemma good_step_posting:
  assumes inv: "ledger_inv db"
    and p: "posting (org, WalletCurrencyCNY) w w' es db db'"
    and tabs: "reservations_ok db'" "settlements_ok db'" "holds_ok db'" "reversals_ok db'"
      "history_kept db db'"
    and sums: "\<And>o1. reserved_sum db' o1 =
        reserved_sum db o1 + (if o1 = org then ow_ReservedMinor w' - ow_ReservedMinor w else 0)"
      "\<And>o1. settled_sum db' o1 = settled_sum db o1
        + (if o1 = org then ow_LifetimeTopUpMinor w' - ow_LifetimeTopUpMinor w else 0)"
      "\<And>o1. committed_sum db' o1 = committed_sum db o1
        + (if o1 = org then ow_LifetimeSpendMinor w' - ow_LifetimeSpendMinor w else 0)"
      "\<And>o1. reversed_of db' o1 = reversed_of db o1 + (if o1 = org then x else 0)"
    and run: "\<And>R. acct_run (account_of w R) evs = Some (account_of w' (R + x))"
  shows "good_step db db'"
proof -
  note pw = posting_wallet [OF p]
  have same: "account_of (wallet_at db (org, WalletCurrencyCNY)) R = account_of w R" for R
    using pw(3-5) by (simp add: account_of_def balances_def)
  have other: "o1 \<noteq> org \<Longrightarrow> wallet_at db' (o1, WalletCurrencyCNY) = wallet_at db (o1, WalletCurrencyCNY)"
    for o1 using pw(2) by simp
  have "funds_explained db'"
    unfolding funds_explained_def
  proof
    fix o1
    show "ow_ReservedMinor (wallet_at db' (o1, WalletCurrencyCNY)) = reserved_sum db' o1
      \<and> ow_LifetimeTopUpMinor (wallet_at db' (o1, WalletCurrencyCNY)) = settled_sum db' o1
      \<and> ow_LifetimeSpendMinor (wallet_at db' (o1, WalletCurrencyCNY)) = committed_sum db' o1"
      using ledger_invD(7) [OF inv] pw other
      by (cases "o1 = org") (auto simp: funds_explained_def sums balances_def)
  qed
  then have "ledger_inv db'"
    using inv tabs posting_wallets_ok [OF p] posting_entries_ok [OF p] by (auto simp: ledger_inv_def)
  moreover have "\<exists>evs. acct_run (wallet_account db o1) evs = Some (wallet_account db' o1)" for o1
  proof (cases "o1 = org")
    case True
    then have "acct_run (wallet_account db o1) evs = Some (wallet_account db' o1)"
      using run pw(1) by (simp add: wallet_account_of same sums)
    then show ?thesis by blast
  next
    case False
    then have "acct_run (wallet_account db o1) [] = Some (wallet_account db' o1)"
      by (simp add: wallet_account_of other sums)
    then show ?thesis by blast
  qed
  ultimately show ?thesis using p tabs(5) by (auto simp: good_step_def posting_def)
qed

text \<open>A change of one row with a given key, in a table where the key is unique.\<close>

lemma update_rows_one:
  assumes "distinct (map key t)" "r \<in> set t" "key r = k"
  shows "update_rows (\<lambda>x. key x = k) g t = update_rows (\<lambda>x. key x = k) (\<lambda>_. g r) t"
proof -
  have "x = r" if "x \<in> set t" "key x = k" for x
    using that assms by (auto simp: distinct_map dest: inj_onD)
  then show ?thesis by (simp add: update_rows_def)
qed

lemma sum_rows_update:
  assumes "distinct (map key t)" "r \<in> set t" "key r = k"
  shows "sum_rows P f (update_rows (\<lambda>x. key x = k) g t) =
    sum_rows P f t - (if P r then f r else 0) + (if P (g r) then f (g r) else 0)"
  using sum_rows_replace [OF assms, of P f "g r"] update_rows_one [OF assms, of g] by simp

lemma update_rows_forall:
  assumes "\<forall>x\<in>set t. P x" "\<And>x. x \<in> set t \<Longrightarrow> P x \<Longrightarrow> Q x \<Longrightarrow> P (g x)"
  shows "\<forall>x\<in>set (update_rows Q g t). P x"
  using assms by (auto simp: set_update_rows)

lemma kept_rows [simp]:
  "rows_kept reservation_kept t t" "rows_kept hold_kept h h"
  "rows_kept reservation_kept t (t @ u)" "rows_kept hold_kept h (h @ k)"
  by (simp_all add: rows_kept_refl rows_kept_append)

lemma holds_update_kept:
  assumes "distinct (map th_HoldID t)" "h \<in> set t" "th_HoldID h = k" "hold_kept h (f h)"
  shows "rows_kept hold_kept t (update_rows (\<lambda>x. th_HoldID x = k) f t)"
proof (rule rows_kept_update)
  fix x
  assume "x \<in> set t" "th_HoldID x = k"
  then have "x = h" using assms(1-3) by (auto simp: distinct_map dest: inj_onD)
  then show "hold_kept x (f x)" using assms(4) by simp
qed simp

section \<open>The wallet repository\<close>

lemma reserve_good:
  assumes inv: "ledger_inv db" and g: "reserve_guard i" "in64 (ri_AmountMinor i)"
    and run: "reserveCommercialPurchaseTx env i db = Inr (out, db')"
  shows "good_step db db'"
proof -
  note I = ledger_invD [OF inv]
  have amt: "amount_ok (ri_AmountMinor i)" and cny: "ri_Currency i = WalletCurrencyCNY"
    and order: "TrimSpace (ri_CommercialOrderID i) \<noteq> []"
    using g by (auto simp: reserve_guard_def amount_ok_def in64_unfold)
  show ?thesis
  proof (cases rule: reserve_cases [OF I(1) amt run])
    case (1 d)
    then show ?thesis using good_step_refl [OF inv] by simp
  next
    case (2 w db1)
    show ?thesis
    proof (cases rule: reserve_funds_cases [OF I(1) amt 2(2,3)])
      case (1 d)
      then show ?thesis
        using I by (intro good_step_posting [OF inv 1(3) [unfolded cny], where evs = "[]" and x = 0])
          (auto simp: reservations_ok_def settlements_ok_def holds_ok_def reversals_ok_def
            reserved_sum_def settled_sum_def committed_sum_def reversed_of_def account_of_def history_kept_def)
    next
      case (2 row d e w' at)
      have run: "acct_run (account_of w R) [EvReserve (ri_AmountMinor i)] = Some (account_of w' (R + 0))"
        for R using 2(1,4) amt by (simp add: account_of_def amount_ok_def)
      have "rv_ReservationID row \<notin> rv_ReservationID ` set (db_reservations db)"
        using 2(6) by (auto simp: reservation_clash_def)
      then have "reservations_ok db'"
        using I(3) amt cny order 2(5) by (auto simp: reservations_ok_def 2(8))
      then show ?thesis
        using I 2(4,5)
        by (intro good_step_posting [OF inv 2(3) [unfolded cny] _ _ _ _ _ _ _ _ _ run])
          (auto simp: settlements_ok_def holds_ok_def reversals_ok_def reserved_sum_def
            settled_sum_def committed_sum_def reversed_of_def history_kept_def 2(8))
    qed
  qed
qed

lemma finish_good:
  assumes inv: "ledger_inv db" and run: "finishReservationTx terminal kind env i db = Inr (out, db')"
  shows "good_step db db'"
proof -
  note I = ledger_invD [OF inv]
  show ?thesis
  proof (cases rule: finish_cases [OF I(1,9) run])
    case (1 r)
    then show ?thesis using good_step_refl [OF inv] by simp
  next
    case (2 r w w1 w' da dd e r' at)
    have amt: "amount_ok (rv_AmountMinor r)" and cny: "rv_Currency r = WalletCurrencyCNY"
      using I(3) 2(1) by (auto simp: reservations_ok_def)
    have wok: "wallet_ok w" using 2(8) by (simp add: posting_def)
    note fw = finish_wallet_Inr [OF 2(10) wok amt 2(9)]
    define evs where "evs = (if terminal = WalletReservationReleased then [EvRelease (rv_AmountMinor r)]
      else [EvCommit (rv_AmountMinor r)])"
    have run: "acct_run (account_of w R) evs = Some (account_of w' (R + 0))" for R
      using fw 2(9,11) amt
      by (auto simp: evs_def account_of_def acct_receive_def amount_ok_def)
    have dist: "distinct (map rv_ReservationID (db_reservations db))"
      using I(3) by (simp add: reservations_ok_def)
    note upd = sum_rows_update [OF dist 2(1) refl]
    have r'k: "rv_ReservationID r' = rv_ReservationID r" by (simp add: 2(12))
    have "map rv_ReservationID (db_reservations db') = map rv_ReservationID (db_reservations db)"
      using r'k by (auto simp: 2(14) intro!: map_update_rows_key)
    then have "reservations_ok db'"
      using I(3) 2(1) unfolding reservations_ok_def
      by (auto simp: 2(14) set_update_rows 2(12) split: if_splits)
    moreover have "rows_kept reservation_kept (db_reservations db) (db_reservations db')"
      unfolding 2(14)
    proof (simp, rule rows_kept_update)
      fix x
      assume "x \<in> set (db_reservations db)" "rv_ReservationID x = rv_ReservationID r"
      then have "x = r" using dist 2(1) by (auto simp: distinct_map dest: inj_onD)
      then show "reservation_kept x r'" by (simp add: 2(6,12) reservation_kept_def)
    qed simp
    then have "history_kept db db'" by (simp add: history_kept_def 2(14))
    moreover have "terminal = WalletReservationCommitted \<or> terminal = WalletReservationReleased"
      using 2(7) by (cases terminal) auto
    ultimately show ?thesis
      using I 2(2,6,7,11,12) fw
      by (intro good_step_posting [OF inv 2(8) [unfolded cny] _ _ _ _ _ _ _ _ _ run])
        (auto simp: settlements_ok_def holds_ok_def reversals_ok_def reserved_sum_def
          settled_sum_def committed_sum_def reversed_of_def 2(14) upd)
  qed
qed

lemma credit_good:
  assumes inv: "ledger_inv db"
    and v: "Validate_OrganizationTopUpSettlement s" "in64 (os_AmountMinor s)"
    and run: "creditSettledTopUpTx env s db = Inr (out, db')"
  shows "good_step db db'"
proof -
  note I = ledger_invD [OF inv]
  have amt: "amount_ok (os_AmountMinor s)" and cny: "os_Currency s = WalletCurrencyCNY"
    using v by (auto simp: Validate_OrganizationTopUpSettlement_def amount_ok_def in64_unfold)
  show ?thesis
  proof (cases rule: credit_cases [OF I(1) amt run])
    case (1 x w)
    then show ?thesis using good_step_refl [OF inv] by simp
  next
    case (2 w w' es row p at)
    have run: "acct_run (account_of w R) [EvCredit (os_AmountMinor s)] = Some (account_of w' (R + 0))"
      for R using 2(6) amt by (simp add: account_of_def acct_receive_def amount_ok_def)
    have "ts_PaymentID row \<notin> ts_PaymentID ` set (db_settlements db)"
      using 2(8) by (auto simp: settlement_clash_def)
    then have "settlements_ok db'"
      using I(4) amt cny 2(7) by (auto simp: settlements_ok_def 2(10))
    then show ?thesis
      using I 2(6,7)
      by (intro good_step_posting [OF inv 2(5) [unfolded cny] _ _ _ _ _ _ _ _ _ run])
        (auto simp: reservations_ok_def holds_ok_def reversals_ok_def reserved_sum_def
          settled_sum_def committed_sum_def reversed_of_def history_kept_def 2(10))
  qed
qed

lemma apply_reversal_good:
  assumes inv: "ledger_inv db"
    and v: "Validate_OrganizationWalletReversal v" "in64 (ov_AmountMinor v)"
    and run: "applyTopUpReversalTx env v db = Inr (out, db')"
  shows "good_step db db'"
proof -
  note I = ledger_invD [OF inv]
  have amt: "amount_ok (ov_AmountMinor v)" and cny: "ov_Currency v = WalletCurrencyCNY"
    using v by (auto simp: Validate_OrganizationWalletReversal_def amount_ok_def in64_unfold)
  show ?thesis
  proof (cases rule: apply_reversal_cases [OF I(1) amt I(8,10) run])
    case (1 x w)
    then show ?thesis using good_step_refl [OF inv] by simp
  next
    case (2 st w w' e row at)
    have run: "acct_run (account_of w R) [EvReverse (ov_AmountMinor v)]
        = Some (account_of w' (R + ov_AmountMinor v))"
      for R using 2(7) amt by (simp add: account_of_def amount_ok_def)
    show ?thesis
      using I 2(7,8) amt
      by (intro good_step_posting [OF inv 2(6) [unfolded cny] _ _ _ _ _ _ _ _ _ run])
        (auto simp: reservations_ok_def settlements_ok_def holds_ok_def reversals_ok_def
          reserved_sum_def settled_sum_def committed_sum_def reversed_of_def history_kept_def 2(11))
  qed
qed

section \<open>The provider top-up repository\<close>

lemma reversal_amounts:
  "Validate_OrganizationWalletReversal v \<Longrightarrow> in64 (ov_AmountMinor v) \<Longrightarrow>
   amount_ok (ov_AmountMinor v) \<and> ov_Currency v = WalletCurrencyCNY"
  by (auto simp: Validate_OrganizationWalletReversal_def amount_ok_def in64_unfold)

lemma acceptTopUpReversalTx_valid:
  "acceptTopUpReversalTx sha env i db = Inr r \<Longrightarrow> Validate_OrganizationWalletReversal i"
  by (auto simp: acceptTopUpReversalTx_def split: if_splits)

lemma accept_reversal_good:
  assumes inv: "ledger_inv db" and sz: "in64 (ov_AmountMinor i)"
    and run: "acceptTopUpReversalTx sha env i db = Inr (out, db')"
  shows "good_step db db'"
proof -
  note I = ledger_invD [OF inv]
  note amt = reversal_amounts [OF acceptTopUpReversalTx_valid [OF run] sz]
  note cny = conjunct2 [OF amt]
  show ?thesis
  proof (cases rule: accept_reversal_cases [OF I(1) conjunct1 [OF amt] I(8) run])
    case (1 x)
    then show ?thesis using good_step_refl [OF inv] by simp
  next
    case (2 st w w' es d hh row rcpt rf cb ex)
    let ?n = "ov_AmountMinor i" and ?rid = "StorageID sha (reversal_key i)"
    have d: "0 \<le> d" "d \<le> ?n" "d \<le> max64"
      using 2(4-6) amt lockProviderTopUp_Inr(1) [OF 2(1)] I(8) by (auto simp: amount_ok_def)
    have wok: "wallet_ok w" using 2(8) by (simp add: posting_def)
    define evs where "evs = (if hh then [EvConfirm ?n d] else if 0 < d then [EvReverse d] else [])"
    have run: "acct_run (account_of w R) evs = Some (account_of w' (R + d))" for R
      using 2(9-14) amt d wok
      by (auto simp: evs_def account_of_def acct_receive_def amount_ok_def wallet_ok_def)
    have revs: "reversals_ok db'"
      using I(6) 2(17) d by (auto simp: reversals_ok_def 2(25) amount_ok_def)
    have dist: "distinct (map th_HoldID (db_holds db))" using I(5) by (simp add: holds_ok_def)
    have holds: "holds_ok db'"
      using I(5) by (auto simp: holds_ok_def 2(25) map_update_rows_key set_update_rows split: if_splits)
    have res: "reserved_sum db' o1 = reserved_sum db o1
        + (if o1 = ov_OrganizationID i then ow_ReservedMinor w' - ow_ReservedMinor w else 0)" for o1
    proof (cases hh)
      case True
      then obtain h where h: "h \<in> set (db_holds db)" "th_HoldID h = ?rid" "th_AmountMinor h = ?n"
        "th_OrganizationID h = ov_OrganizationID i" "th_State h = HoldReserved"
        using reversal_hold_True 2(7) by (metis (full_types))
      show ?thesis
        using True h(3-5) 2(11) sum_rows_update [OF dist h(1,2)]
        by (simp add: reserved_sum_def 2(25))
    qed (simp add: reserved_sum_def 2(25) 2(11))
    have "rows_kept hold_kept (db_holds db) (db_holds db')"
    proof (cases hh)
      case True
      then obtain h where h: "h \<in> set (db_holds db)" "th_HoldID h = ?rid" "th_State h = HoldReserved"
        using reversal_hold_True 2(7) by (metis (full_types))
      then show ?thesis
        using True by (auto simp: 2(25) hold_kept_def refundHold_def intro!: holds_update_kept [OF dist])
    qed (simp add: 2(25))
    then have hist: "history_kept db db'" by (simp add: history_kept_def 2(25))
    show ?thesis
      using I revs holds 2(13,14,16,17) d res hist
      by (intro good_step_posting [OF inv 2(8) [unfolded cny] _ _ _ _ _ _ _ _ _ run])
        (auto simp: reservations_ok_def settlements_ok_def settled_sum_def committed_sum_def
          reversed_of_def 2(25))
  qed
qed

lemma acceptReversals_good:
  assumes "ledger_inv db" "\<forall>r\<in>set rs. in64 (ov_AmountMinor r)"
    "acceptReversals sha env n rs db = Inr (out, db')"
  shows "good_step db db'"
  using assms
proof (induction rs arbitrary: n db out)
  case Nil
  then show ?case using good_step_refl by simp
next
  case (Cons r rs)
  then obtain x db1 xs where 1: "acceptTopUpReversalTx sha (sub_env n env) r db = Inr (x, db1)"
    "acceptReversals sha env (Suc n) rs db1 = Inr (xs, db')"
    by (auto split: sum.splits)
  have "good_step db db1" using accept_reversal_good [OF Cons.prems(1) _ 1(1)] Cons.prems(2) by simp
  moreover from this have "good_step db1 db'"
    using Cons.IH [OF _ _ 1(2)] Cons.prems(2) by (simp add: good_step_def)
  ultimately show ?case by (rule good_step_trans)
qed

text \<open>
  The path of a top-up: a repeated one only settles its known reversals; a first one posts the
  payment (state \<open>db4\<close>), settles the known reversals (state \<open>db5\<close>) and writes its receipt.
\<close>

lemma accept_topup_path:
  assumes inv: "ledger_inv db" and v: "Validate_ProviderTopUpInput i" "in64 (ti_AmountMinor i)"
    and run: "acceptAndPostTx sha env i db = Inr (out, db')"
  obtains
    (replay) rs c cl where
      "good_step db (topup_claimed sha i db)"
      "acceptReversals sha env 0 (ti_KnownReversals i) (topup_claimed sha i db) = Inr (rs, db')"
      "c \<in> set (db_topups db)" "pt_ClaimID c = ClaimID sha (ti_Binding i)" "pt_Receipt c = Bytes out"
      "pt_Fingerprint c = Fingerprint_ProviderTopUpInput sha i"
      "cl \<in> set (db_claims (topup_claimed sha i db))" "cc_ClaimID cl = ClaimID sha (ti_Binding i)"
      "cc_PaymentID cl = ps_PaymentID (ti_Payment i)" "cc_Purpose cl = PaymentPurposeWalletTopUp"
  | (posted) w w' es row rs db4 db5 cl where
      "\<forall>x\<in>set (db_payments db). py_PaymentID x \<noteq> ps_PaymentID (ti_Payment i)"
      "posting (ti_OrganizationID i, ti_Currency i) w w' es (topup_claimed sha i db) db4"
      "row = \<lparr>ts_PaymentID = ps_PaymentID (ti_Payment i), ts_CommercialOrderID = ti_CommercialOrderID i,
              ts_OrganizationID = ti_OrganizationID i, ts_Currency = ti_Currency i,
              ts_AmountMinor = ti_AmountMinor i,
              ts_SettledAt = NormalizeTimestamp (ps_SettledAt (ti_Payment i)),
              ts_ProviderReference = ps_ProviderReference (ti_Payment i),
              ts_Version = ps_Version (ti_Payment i)\<rparr>"
      "\<forall>x\<in>set (db_settlements db). \<not> settlement_clash row x"
      "db4 = (topup_claimed sha i db)\<lparr>db_payments := db_payments db @ [paymentRowFromFact (ti_Payment i)],
                db_wallets := (db_wallets db)((ti_OrganizationID i, ti_Currency i) \<mapsto> w'),
                db_entries := db_entries db @ es, db_settlements := db_settlements db @ [row]\<rparr>"
      "good_step db db4"
      "acceptReversals sha env 0 (ti_KnownReversals i) db4 = Inr (rs, db5)"
      "pr_AvailableAddedMinor out = ti_AmountMinor i - min (ow_DebtMinor w) (ti_AmountMinor i)"
      "pr_DebtRepaidMinor out = min (ow_DebtMinor w) (ti_AmountMinor i)"
      "pr_CreditEntryIDs out = map we_EntryID es" "Validate_TopUpPostingReceipt sha out"
      "db' = db5\<lparr>db_topups := update_rows (\<lambda>r. pt_ClaimID r = ClaimID sha (ti_Binding i))
                          (\<lambda>r. r\<lparr>pt_Receipt := Bytes out\<rparr>) (db_topups db5)\<rparr>"
      "cl \<in> set (db_claims (topup_claimed sha i db))" "cc_ClaimID cl = ClaimID sha (ti_Binding i)"
      "cc_PaymentID cl = ps_PaymentID (ti_Payment i)" "cc_Purpose cl = PaymentPurposeWalletTopUp"
      "ow_AvailableMinor w' = ow_AvailableMinor w + (ti_AmountMinor i - min (ow_DebtMinor w) (ti_AmountMinor i))"
      "ow_DebtMinor w' = ow_DebtMinor w - min (ow_DebtMinor w) (ti_AmountMinor i)"
      "ow_ReservedMinor w' = ow_ReservedMinor w"
      "ow_LifetimeTopUpMinor w' = ow_LifetimeTopUpMinor w + ti_AmountMinor i"
      "ow_LifetimeSpendMinor w' = ow_LifetimeSpendMinor w"
proof -
  have amt: "amount_ok (ti_AmountMinor i)" and cny: "ti_Currency i = WalletCurrencyCNY"
    using v by (auto simp: Validate_ProviderTopUpInput_def amount_ok_def in64_unfold)
  let ?db = "topup_claimed sha i db"
  have frame: "good_step db ?db"
    by (rule good_step_frame [OF inv]) (simp add: wallet_tables_def topup_claimed_def)
  have sel: "db_payments ?db = db_payments db" "db_settlements ?db = db_settlements db"
    "db_wallets ?db = db_wallets db" "db_entries ?db = db_entries db"
    by (simp_all add: topup_claimed_def)
  show thesis
  proof (cases rule: accept_topup_cases [OF run])
    case (1 rs c cl)
    then show thesis using replay [OF frame 1(1)] by blast
  next
    case (2 cl)
    have inv2: "ledger_inv ?db" using frame by (simp add: good_step_def)
    note I = ledger_invD [OF inv2]
    show thesis
    proof (cases rule: post_new_topup_cases [OF I(1) amt 2(1)])
      case (1 w w' es row rs db4 db5)
      have run: "acct_run (account_of w R) [EvCredit (ti_AmountMinor i)] = Some (account_of w' (R + 0))"
        for R using 1(3-7) amt by (simp add: account_of_def acct_receive_def amount_ok_def)
      have "ts_PaymentID row \<notin> ts_PaymentID ` set (db_settlements db)"
        using 1(9) by (auto simp: settlement_clash_def sel)
      then have "settlements_ok db4"
        using I(4) amt cny 1(8) by (auto simp: settlements_ok_def 1(10) sel)
      then have "good_step ?db db4"
        using I 1(3-8)
        by (intro good_step_posting [OF inv2 1(2) [unfolded cny] _ _ _ _ _ _ _ _ _ run])
          (auto simp: reservations_ok_def holds_ok_def reversals_ok_def reserved_sum_def
            settled_sum_def committed_sum_def reversed_of_def history_kept_def 1(10))
      then have "good_step db db4" using frame good_step_trans by blast
      note step = this
      show thesis
        by (rule posted [OF _ 1(2,8) _ _ step 1(11,13-16) _ 2(2-5) 1(3-7)])
          (use 1(1,9,10,17) in \<open>simp_all add: sel topup_seed_def\<close>)
    qed
  qed
qed

lemma accept_topup_good:
  assumes inv: "ledger_inv db" and v: "Validate_ProviderTopUpInput i" "in64 (ti_AmountMinor i)"
    and revs: "\<forall>r\<in>set (ti_KnownReversals i). in64 (ov_AmountMinor r)"
    and run: "acceptAndPostTx sha env i db = Inr (out, db')"
  shows "good_step db db'"
proof (cases rule: accept_topup_path [OF inv v run])
  case (1 rs c cl)
  then have "ledger_inv (topup_claimed sha i db)" by (simp add: good_step_def)
  then show ?thesis by (rule good_step_trans [OF 1(1) acceptReversals_good [OF _ revs 1(2)]])
next
  case (2 w w' es row rs db4 db5 cl)
  then have "good_step db4 db5" using acceptReversals_good [OF _ revs 2(7)] by (simp add: good_step_def)
  moreover from this have "good_step db5 db'"
    by (intro good_step_frame) (simp_all add: good_step_def wallet_tables_def 2(12))
  ultimately show ?thesis using 2(6) good_step_trans by blast
qed

lemma prepare_refund_good:
  assumes inv: "ledger_inv db" and v: "Validate_TopUpRefundInput i" "in64 (fi_AmountMinor i)"
    and run: "prepareTopUpRefundTx sha env i db = Inr (out, db')"
  shows "good_step db db'"
proof -
  note I = ledger_invD [OF inv]
  have amt: "amount_ok (fi_AmountMinor i)"
    using v by (auto simp: Validate_TopUpRefundInput_def amount_ok_def in64_unfold)
  show ?thesis
  proof (cases rule: prepare_cases [OF I(1) amt run])
    case (1 h)
    then show ?thesis using good_step_refl [OF inv] by simp
  next
    case (2 st w w' e row)
    have cny: "ts_Currency st = WalletCurrencyCNY"
      using I(4) lockProviderTopUp_Inr(1) [OF 2(1)] by (simp add: settlements_ok_def)
    have run: "acct_run (account_of w R) [EvReserve (fi_AmountMinor i)] = Some (account_of w' (R + 0))"
      for R using 2(5-11) amt by (simp add: account_of_def amount_ok_def)
    have "th_HoldID row \<notin> th_HoldID ` set (db_holds db)" using 2(17) by (auto simp: hold_clash_def)
    then have "holds_ok db'" using I(5) amt 2(14) by (auto simp: holds_ok_def 2(19))
    then show ?thesis
      using I 2(7-15)
      by (intro good_step_posting [OF inv 2(4) [unfolded cny] _ _ _ _ _ _ _ _ _ run])
        (auto simp: reservations_ok_def settlements_ok_def reversals_ok_def reserved_sum_def
          settled_sum_def committed_sum_def reversed_of_def history_kept_def 2(19))
  qed
qed

lemma release_hold_good:
  assumes inv: "ledger_inv db" and v: "Validate_TopUpRefundInput i" "in64 (fi_AmountMinor i)"
    and run: "releaseTopUpRefundHoldTx sha env i terminal db = Inr (out, db')"
  shows "good_step db db'"
proof -
  note I = ledger_invD [OF inv]
  have amt: "amount_ok (fi_AmountMinor i)"
    using v by (auto simp: Validate_TopUpRefundInput_def amount_ok_def in64_unfold)
  show ?thesis
  proof (cases rule: release_cases [OF I(1) amt run])
    case (1 h)
    then show ?thesis using good_step_refl [OF inv] by simp
  next
    case (2 st h w w' e)
    have cny: "ts_Currency st = WalletCurrencyCNY"
      using I(4) lockProviderTopUp_Inr(1) [OF 2(1)] by (simp add: settlements_ok_def)
    have run: "acct_run (account_of w R) [EvRelease (fi_AmountMinor i)] = Some (account_of w' (R + 0))"
      for R using 2(9-14) amt by (simp add: account_of_def acct_receive_def amount_ok_def)
    have dist: "distinct (map th_HoldID (db_holds db))" using I(5) by (simp add: holds_ok_def)
    have "holds_ok db'"
      using I(5) by (auto simp: holds_ok_def 2(16) map_update_rows_key set_update_rows split: if_splits)
    moreover have "rows_kept hold_kept (db_holds db) (db_holds db')"
      using 2(2-4) by (auto simp: 2(16) hold_kept_def refundHold_def intro!: holds_update_kept [OF dist])
    then have "history_kept db db'" by (simp add: history_kept_def 2(16))
    ultimately show ?thesis
      using I 2(4-6,10-14)
      by (intro good_step_posting [OF inv 2(8) [unfolded cny] _ _ _ _ _ _ _ _ _ run])
        (auto simp: reservations_ok_def settlements_ok_def reversals_ok_def reserved_sum_def
          settled_sum_def committed_sum_def reversed_of_def 2(16) sum_rows_update [OF dist 2(2,3)])
  qed
qed

lemma admit_refund_good:
  assumes inv: "ledger_inv db" and run: "admitTopUpRefundTx sha i db = Inr (out, db')"
  shows "good_step db db'"
proof (cases rule: admit_cases [OF run])
  case (1 h)
  then show ?thesis using good_step_refl [OF inv] by simp
next
  case (2 st h)
  note I = ledger_invD [OF inv]
  have dist: "distinct (map th_HoldID (db_holds db))" using I(5) by (simp add: holds_ok_def)
  have eq: "db_wallets db' = db_wallets db" "db_entries db' = db_entries db"
    "db_reservations db' = db_reservations db" "db_settlements db' = db_settlements db"
    "db_reversals db' = db_reversals db" "db_decisions db' = db_decisions db"
    "db_receipts db' = db_receipts db"
    by (simp_all add: 2(9))
  have at: "wallet_at db' k = wallet_at db k" "entries_of db' k = entries_of db k" for k
    by (simp_all add: wallet_at_def entries_of_def eq)
  have "holds_ok db'"
    using I(5) by (auto simp: holds_ok_def 2(9) map_update_rows_key set_update_rows split: if_splits)
  moreover have "reserved_sum db' o1 = reserved_sum db o1" for o1
    by (simp add: reserved_sum_def 2(9) sum_rows_update [OF dist 2(2,3)])
  ultimately have "ledger_inv db'"
    using inv
    by (simp add: ledger_inv_def wallets_ok_def entries_ok_def reservations_ok_def settlements_ok_def
        reversals_ok_def funds_explained_def settled_sum_def committed_sum_def eq at)
  moreover have "wallet_account db' o1 = wallet_account db o1" for o1
    by (simp add: wallet_account_def at reversed_of_def eq)
  moreover have "rows_kept hold_kept (db_holds db) (db_holds db')"
    using 2(2,3) by (auto simp: 2(9) hold_kept_def refundHold_def intro!: holds_update_kept [OF dist])
  then have "history_kept db db'" by (simp add: history_kept_def eq)
  ultimately show ?thesis
    using good_step_refl [OF inv] by (simp add: good_step_def eq)
qed

end
