(* ===== verification/Service_Repo.thy ===== *)
theory Service_Repo
  imports TopUp_Repo
begin

text \<open>
  The service purchase repository (\<open>service_repository.go\<close>, \<open>service_refund_plan.go\<close>,
  \<open>service_balance.go\<close>, \<open>service_fee.go\<close>, \<open>service_fulfillment.go\<close> and
  \<open>service_refund_review.go\<close> under \<open>internal/integration/persistence/money\<close>): the acceptance
  of a service payment, the prepare, admit, effect, failure and abandon steps of an operation on
  its funds, the observations that fence a payment for reconciliation, and the admissions that
  rest on it. Each method is a transaction body (suffix \<open>Tx\<close>) run by \<open>run_tx\<close>.

  \<open>sha\<close> is the digest of the top-up contract, \<open>ssha\<close> that of the service contract.
\<close>

section \<open>Rows and receipts\<close>

text \<open>\<open>UPDATE\<close> of the columns of one payment or one reservation, by primary key.\<close>

definition update_service ::
  "string \<Rightarrow> (servicePaymentRow \<Rightarrow> servicePaymentRow) \<Rightarrow> money_db \<Rightarrow> money_db" where
  "update_service order f db =
     db\<lparr>db_services := update_rows (\<lambda>r. sp_OrderID r = order) f (db_services db)\<rparr>"

definition update_reservation ::
  "string \<Rightarrow> (serviceReservationRow \<Rightarrow> serviceReservationRow) \<Rightarrow> money_db \<Rightarrow> money_db" where
  "update_reservation oper f db =
     db\<lparr>db_serviceReservations :=
          update_rows (\<lambda>r. sq_OperationID r = oper) f (db_serviceReservations db)\<rparr>"

definition create_effect :: "serviceEffectRow \<Rightarrow> money_db \<Rightarrow> merr + money_db" where
  "create_effect row db =
     (case create_row serviceEffect_clash row (db_serviceEffects db) of
        None \<Rightarrow> Inl ErrDuplicatedKey
      | Some t \<Rightarrow> Inr (db\<lparr>db_serviceEffects := t\<rparr>))"

text \<open>What the bytes of an effect decode to as a receipt.\<close>

fun effect_receipt :: "service_payload blob \<Rightarrow> ServiceReceipt option" where
  "effect_receipt (Bytes (PayloadReceipt r)) = Some r"
| "effect_receipt (Bytes (PayloadFee r _)) = Some r"
| "effect_receipt _ = None"

definition decodeServiceReceipt ::
  "service_doc digest \<Rightarrow> ServiceReceipt option \<Rightarrow> merr + ServiceReceipt" where
  "decodeServiceReceipt ssha data =
     (case data of
        None \<Rightarrow> Inl ErrConflict
      | Some out \<Rightarrow> if Validate_ServiceReceipt ssha out then Inr out else Inl ErrConflict)"

definition lockServicePayment :: "string \<Rightarrow> money_db \<Rightarrow> merr + servicePaymentRow" where
  "lockServicePayment order db =
     (case find (\<lambda>r. sp_OrderID r = order) (db_services db) of
        None \<Rightarrow> Inl ErrNotFound
      | Some row \<Rightarrow> if sp_Receipt row = NoBytes then Inl ErrConflict else Inr row)"

definition find_effect :: "string \<Rightarrow> money_db \<Rightarrow> serviceEffectRow option" where
  "find_effect oper db = find (\<lambda>e. sx_OperationID e = oper) (db_serviceEffects db)"

definition find_reservation :: "string \<Rightarrow> money_db \<Rightarrow> serviceReservationRow option" where
  "find_reservation oper db = find (\<lambda>r. sq_OperationID r = oper) (db_serviceReservations db)"

text \<open>A receipt with its fingerprint filled in.\<close>

definition seal_receipt :: "service_doc digest \<Rightarrow> ServiceReceipt \<Rightarrow> ServiceReceipt" where
  "seal_receipt ssha r = r\<lparr>sr_ResultFingerprint := Fingerprint_ServiceReceipt ssha r\<rparr>"

section \<open>Accepting a payment\<close>

definition normalize_service_input :: "ServicePaymentInput \<Rightarrow> ServicePaymentInput" where
  "normalize_service_input i =
     i\<lparr>si_ChannelAmounts := map_option Normalize_ServicePaymentAmounts (si_ChannelAmounts i)\<rparr>"

definition service_seed ::
  "topup_doc digest \<Rightarrow> service_doc digest \<Rightarrow> ServicePaymentInput \<Rightarrow> servicePaymentRow" where
  "service_seed sha ssha i =
     \<lparr>sp_SettlementRefundedMinor = 0, sp_PayerRefundedMinor = 0, sp_VoucherRefunded = NoBytes,
      sp_PendingRefundPlan = NoBytes, sp_ChannelFeeMinor = 0, sp_ChannelFeeObserved = False,
      sp_OrderID = si_OrderID i, sp_RequestID = si_RequestID i,
      sp_ClaimID = ClaimID sha (si_Binding i), sp_PaymentID = ps_PaymentID (si_Payment i),
      sp_BuyerOrganizationID = si_BuyerOrganizationID i,
      sp_ProviderOrganizationID = si_ProviderOrganizationID i,
      sp_Fingerprint = Fingerprint_ServicePaymentInput ssha i, sp_Input = Bytes i,
      sp_Receipt = NoBytes, sp_GrossMinor = ps_GrossAmountMinor (si_Payment i),
      sp_RefundedMinor = 0, sp_ChargedBackMinor = 0, sp_SharedMinor = 0, sp_ReturnedMinor = 0,
      sp_ReleasedMinor = 0, sp_AutomaticReleasedMinor = 0, sp_PendingOperationID = [],
      sp_ReconciliationReason = []\<rparr>"

definition acceptServicePaymentTx ::
  "topup_doc digest \<Rightarrow> service_doc digest \<Rightarrow> ServicePaymentInput \<Rightarrow> money_db \<Rightarrow>
   merr + ServiceReceipt \<times> money_db" where
  "acceptServicePaymentTx sha ssha i db =
     (case claimChannelPayment sha (si_Binding i) (ps_PaymentID (si_Payment i))
             PaymentPurposeServicePurchase db of
        Inl e \<Rightarrow> Inl e
      | Inr db1 \<Rightarrow>
     let seed = service_seed sha ssha i;
         db2 = db1\<lparr>db_services := create_or_ignore service_clash seed (db_services db1)\<rparr>
     in case find (\<lambda>r. sp_OrderID r = si_OrderID i) (db_services db2) of
          None \<Rightarrow> Inl ErrConflict
        | Some saved \<Rightarrow>
     if sp_Fingerprint saved \<noteq> sp_Fingerprint seed \<or> sp_ClaimID saved \<noteq> sp_ClaimID seed
     then Inl ErrConflict
     else if sp_Receipt saved \<noteq> NoBytes then
       (case decodeServiceReceipt ssha (decode (sp_Receipt saved)) of
          Inl e \<Rightarrow> Inl e | Inr out \<Rightarrow> Inr (out, db2))
     else
       (case create_row payment_clash (paymentRowFromFact (si_Payment i)) (db_payments db2) of
          None \<Rightarrow> Inl ErrConflict
        | Some payments \<Rightarrow>
            let out = seal_receipt ssha
                  \<lparr>sr_RefundAmounts = None, sr_ReceiptID = ''service-payment:'' @ sp_ClaimID seed,
                   sr_OrderID = si_OrderID i, sr_OperationID = si_OrderID i,
                   sr_RequestFingerprint = Fingerprint_ServicePaymentInput ssha i,
                   sr_ResultFingerprint = [], sr_Kind = NoEffectKind,
                   sr_AmountMinor = ps_GrossAmountMinor (si_Payment i),
                   sr_ProviderReference = ps_ProviderReference (si_Payment i),
                   sr_OccurredAt = NormalizeTimestamp (ps_SettledAt (si_Payment i))\<rparr>
            in Inr (out, update_service (sp_OrderID saved) (\<lambda>r. r\<lparr>sp_Receipt := Bytes out\<rparr>)
                           (db2\<lparr>db_payments := payments\<rparr>))))"

definition AcceptServicePayment ::
  "topup_doc digest \<Rightarrow> service_doc digest \<Rightarrow> mfault \<Rightarrow> ServicePaymentInput \<Rightarrow> money_db \<Rightarrow>
   money_db \<times> (merr + ServiceReceipt)" where
  "AcceptServicePayment sha ssha flt i0 db =
     (let i = normalize_service_input i0 in
      if flt = NilHandle \<or> \<not> Validate_ServicePaymentInput i then (db, Inl ErrInvalid)
      else run_tx flt (acceptServicePaymentTx sha ssha i) db)"

definition ReadServicePayment ::
  "service_doc digest \<Rightarrow> mfault \<Rightarrow> ServicePaymentInput \<Rightarrow> money_db \<Rightarrow> merr + ServiceReceipt" where
  "ReadServicePayment ssha flt i db =
     (if flt = NilHandle \<or> \<not> Validate_ServicePaymentInput i then Inl ErrInvalid
      else run_read flt
        (case find (\<lambda>r. sp_OrderID r = si_OrderID i) (db_services db) of
           None \<Rightarrow> Inl ErrNotFound
         | Some row \<Rightarrow>
             if sp_Fingerprint row \<noteq> Fingerprint_ServicePaymentInput ssha i then Inl ErrConflict
             else decodeServiceReceipt ssha (decode (sp_Receipt row))))"

section \<open>The funds of a payment\<close>

definition serviceAllocationPolicy ::
  "service_doc digest \<Rightarrow> servicePaymentRow \<Rightarrow> merr + ServiceAllocationPolicy" where
  "serviceAllocationPolicy ssha row =
     (case decode (sp_Input row) of
        None \<Rightarrow> Inl ErrConflict
      | Some i \<Rightarrow>
          if \<not> Validate_ServicePaymentInput i \<or> Fingerprint_ServicePaymentInput ssha i \<noteq> sp_Fingerprint row
             \<or> si_OrderID i \<noteq> sp_OrderID row \<or> ps_GrossAmountMinor (si_Payment i) \<noteq> sp_GrossMinor row
          then Inl ErrConflict else Inr (si_Allocation i))"

text \<open>What the reversals amount to, capped at what there was.\<close>

definition capped_reversed :: "i64 \<Rightarrow> i64 \<Rightarrow> i64 \<Rightarrow> i64" where
  "capped_reversed gross refunded chargedBack =
     (if chargedBack > sub64 gross refunded then gross else add64 refunded chargedBack)"

definition funds_view ::
  "servicePaymentRow \<Rightarrow> ServiceAllocationPolicy \<Rightarrow> ServicePaymentAmounts option \<Rightarrow>
   (string \<rightharpoonup> i64) \<Rightarrow> string \<Rightarrow> i64 \<Rightarrow> i64 \<Rightarrow> merr + ServiceFundsView" where
  "funds_view row policy amounts used command gross reversed =
     (case ServiceAllocation gross reversed policy of
        Inl e \<Rightarrow> Inl e
      | Inr (p, s) \<Rightarrow>
          Inr \<lparr>fv_PendingRefundCommandID = command, fv_ChannelAmounts = amounts,
               fv_SettlementMinor = gross,
               fv_SettlementRefundedMinor = sp_SettlementRefundedMinor row,
               fv_PayerRefundedMinor = sp_PayerRefundedMinor row,
               fv_VoucherRefundedMinor = used, fv_Allocation = policy,
               fv_ChannelFeeMinor = sp_ChannelFeeMinor row,
               fv_ChannelFeeObserved = sp_ChannelFeeObserved row, fv_OrderID = sp_OrderID row,
               fv_PaymentID = sp_PaymentID row,
               fv_BuyerOrganizationID = sp_BuyerOrganizationID row,
               fv_ProviderOrganizationID = sp_ProviderOrganizationID row,
               fv_Currency = WalletCurrencyCNY, fv_GrossMinor = sp_GrossMinor row,
               fv_RefundedMinor = sp_RefundedMinor row,
               fv_ChargedBackMinor = sp_ChargedBackMinor row, fv_PlatformMinor = p,
               fv_ProviderMinor = s, fv_SharedMinor = sp_SharedMinor row,
               fv_ReturnedMinor = sp_ReturnedMinor row, fv_ReleasedMinor = sp_ReleasedMinor row,
               fv_AutomaticReleasedMinor = sp_AutomaticReleasedMinor row,
               fv_PendingOperationID = sp_PendingOperationID row,
               fv_ReconciliationReason = sp_ReconciliationReason row\<rparr>)"

definition serviceFunds :: "service_doc digest \<Rightarrow> servicePaymentRow \<Rightarrow> merr + ServiceFundsView" where
  "serviceFunds ssha row =
     (case serviceAllocationPolicy ssha row of
        Inl e \<Rightarrow> Inl e
      | Inr policy \<Rightarrow>
     if ap_Basis policy = ServiceAllocationChannelNetFloorV2 then
       (case decode (sp_Input row) of
          None \<Rightarrow> Inl ErrConflict
        | Some original \<Rightarrow>
       (case si_ChannelAmounts original of
          None \<Rightarrow> Inl ErrConflict
        | Some amounts \<Rightarrow>
            let gross = SettlementMinor_ServicePaymentAmounts amounts in
            if sp_VoucherRefunded row = BadBytes then Inl ErrConflict
            else
              let used = (case decode (sp_VoucherRefunded row) of None \<Rightarrow> Map.empty | Some u \<Rightarrow> u)
              in case sp_PendingRefundPlan row of
                   BadBytes \<Rightarrow> Inl ErrConflict
                 | NoBytes \<Rightarrow>
                     funds_view row policy (Some amounts) used [] gross
                       (capped_reversed gross (sp_SettlementRefundedMinor row) (sp_ChargedBackMinor row))
                 | Bytes plan \<Rightarrow>
                     if \<not> Validate_ServiceRefundPlan plan then Inl ErrConflict
                     else funds_view row policy (Some amounts) used (rp_CommandID plan) gross
                       (capped_reversed gross (sp_SettlementRefundedMinor row) (sp_ChargedBackMinor row))))
     else
       funds_view row policy None Map.empty [] (sp_GrossMinor row)
         (capped_reversed (sp_GrossMinor row) (sp_RefundedMinor row) (sp_ChargedBackMinor row)))"

definition ReadServiceFunds ::
  "service_doc digest \<Rightarrow> mfault \<Rightarrow> string \<Rightarrow> money_db \<Rightarrow> merr + ServiceFundsView" where
  "ReadServiceFunds ssha flt order db =
     (if flt = NilHandle \<or> order = [] then Inl ErrInvalid
      else run_read flt
        (case find (\<lambda>r. sp_OrderID r = order) (db_services db) of
           None \<Rightarrow> Inl ErrNotFound
         | Some row \<Rightarrow> serviceFunds ssha row))"

section \<open>Checking an operation against the funds\<close>

definition effect_proof ::
  "service_doc digest \<Rightarrow> string \<Rightarrow> ServiceEffectKind \<Rightarrow> string \<Rightarrow> money_db \<Rightarrow> ServiceReceipt option" where
  "effect_proof ssha oper kind order db =
     (case find (\<lambda>e. sx_OperationID e = oper \<and> sx_OrderID e = order \<and> sx_Kind e = kind)
             (db_serviceEffects db) of
        None \<Rightarrow> None
      | Some e \<Rightarrow>
          (case decodeServiceReceipt ssha (effect_receipt (sx_Receipt e)) of
             Inl _ \<Rightarrow> None | Inr r \<Rightarrow> Some r))"

text \<open>Whether the plan is the one that the funds require, or the one already under way.\<close>

definition plan_expected :: "servicePaymentRow \<Rightarrow> ServiceOperation \<Rightarrow> ServiceFundsView \<Rightarrow> ServiceRefundPlan \<Rightarrow> bool" where
  "plan_expected row op f p \<longleftrightarrow>
     (case sp_PendingRefundPlan row of
        NoBytes \<Rightarrow>
          so_RefundPhase op = ServiceReturnPre
          \<and> NewServiceRefundPlan f (rp_CommandID p) (rp_SourceProofID p) (rp_PreOperationID p)
              (rp_RefundOperationID p) (rp_PostOperationID p) (rp_ReleaseOperationID p)
              (rp_OriginalShareID p) (rp_NominalMinor p) = Inr p
      | BadBytes \<Rightarrow> False
      | Bytes saved \<Rightarrow> saved = p)"

definition plan_phase_ok ::
  "service_doc digest \<Rightarrow> servicePaymentRow \<Rightarrow> ServiceOperation \<Rightarrow> ServiceRefundPlan \<Rightarrow> money_db \<Rightarrow> bool" where
  "plan_phase_ok ssha row op p db \<longleftrightarrow>
     (case so_RefundPhase op of
        ServiceReturnPre \<Rightarrow>
          \<not> (sp_RefundedMinor row \<noteq> rp_BaseRefundedMinor p
             \<or> sp_SettlementRefundedMinor row \<noteq> rp_BaseSettlementRefundedMinor p
             \<or> sp_ReturnedMinor row \<noteq> rp_BaseReturnedMinor p)
      | ServiceReturnPost \<Rightarrow>
          (case effect_proof ssha (rp_RefundOperationID p) ServiceRefund (sp_OrderID row) db of
             None \<Rightarrow> False
           | Some receipt \<Rightarrow>
          (case sr_RefundAmounts receipt of
             None \<Rightarrow> False
           | Some amounts \<Rightarrow>
          (case PostReturn p amounts of
             Inl _ \<Rightarrow> False
           | Inr due \<Rightarrow>
               \<not> (so_AmountMinor op \<noteq> due
                  \<or> sp_RefundedMinor row \<noteq> add64 (rp_BaseRefundedMinor p) (rp_NominalMinor p)
                  \<or> sp_SettlementRefundedMinor row \<noteq>
                      add64 (rp_BaseSettlementRefundedMinor p) (SettlementMinor_ServiceRefundAmounts amounts)
                  \<or> sp_ReturnedMinor row \<noteq> add64 (rp_BaseReturnedMinor p) (rp_PreReturnMinor p)))))
      | phase \<Rightarrow>
          (phase = ServiceRefundReleasePhase \<or> phase = ServiceRefundPhase)
          \<and> effect_proof ssha (rp_PreOperationID p) ServiceReturn (sp_OrderID row) db \<noteq> None
          \<and> \<not> (sp_RefundedMinor row \<noteq> rp_BaseRefundedMinor p
               \<or> sp_SettlementRefundedMinor row \<noteq> rp_BaseSettlementRefundedMinor p
               \<or> sp_ReturnedMinor row \<noteq> add64 (rp_BaseReturnedMinor p) (rp_PreReturnMinor p))
          \<and> \<not> (phase = ServiceRefundPhase \<and> sp_SharedMinor row > 0 \<and> sp_ReleasedMinor row = 0
               \<and> sp_AutomaticReleasedMinor row = 0))"

text \<open>Every failure of \<open>validateServiceRefundPlan\<close> is \<open>ErrConflict\<close>.\<close>

definition validateServiceRefundPlan ::
  "service_doc digest \<Rightarrow> servicePaymentRow \<Rightarrow> ServiceOperation \<Rightarrow> ServiceFundsView \<Rightarrow> money_db \<Rightarrow> bool" where
  "validateServiceRefundPlan ssha row op f db \<longleftrightarrow>
     (if ap_Basis (fv_Allocation f) \<noteq> ServiceAllocationChannelNetFloorV2 then so_RefundPlan op = None
      else case so_RefundPlan op of
        None \<Rightarrow>
          \<not> (sp_PendingRefundPlan row \<noteq> NoBytes \<or> so_Kind op = ServiceRefund
             \<or> so_Kind op = ServiceReturn \<or> so_Kind op = ServiceRefundRelease)
      | Some p \<Rightarrow> plan_expected row op f p \<and> plan_phase_ok ssha row op p db)"

definition validate_reversal ::
  "servicePaymentRow \<Rightarrow> ServiceOperation \<Rightarrow> ServiceFundsView \<Rightarrow> merr option" where
  "validate_reversal row op funds =
     (let available = sub64 (sub64 (sp_GrossMinor row) (sp_RefundedMinor row)) (sp_ChargedBackMinor row)
      in if so_AmountMinor op > available then Some ErrInvalid
         else if so_Kind op = ServiceRefund \<and> so_RefundPlan op \<noteq> None then None
         else case ServiceAllocation (sp_GrossMinor row)
                     (add64 (add64 (sp_RefundedMinor row) (sp_ChargedBackMinor row)) (so_AmountMinor op))
                     (fv_Allocation funds) of
                Inl e \<Rightarrow> Some e
              | Inr (target, _) \<Rightarrow>
                  if sub64 (sp_SharedMinor row) (sp_ReturnedMinor row) > target then Some ErrConflict
                  else None)"

definition validateServiceOperation ::
  "service_doc digest \<Rightarrow> servicePaymentRow \<Rightarrow> ServiceOperation \<Rightarrow> money_db \<Rightarrow> merr option" where
  "validateServiceOperation ssha row op db =
     (case serviceFunds ssha row of
        Inl e \<Rightarrow> Some e
      | Inr funds \<Rightarrow>
     if \<not> validateServiceRefundPlan ssha row op funds db then Some ErrConflict
     else case so_Kind op of
       ServiceShare \<Rightarrow>
         if sp_ReleasedMinor row > 0 \<or> sp_AutomaticReleasedMinor row > 0 \<or> sp_ReturnedMinor row > 0
            \<or> so_AmountMinor op \<noteq> sub64 (fv_PlatformMinor funds) (sp_SharedMinor row)
         then Some ErrConflict else None
     | ServiceFinish \<Rightarrow>
         if sp_ReleasedMinor row > 0 \<or> sp_AutomaticReleasedMinor row > 0
            \<or> sub64 (sp_SharedMinor row) (sp_ReturnedMinor row) \<noteq> fv_PlatformMinor funds
            \<or> so_AmountMinor op \<noteq> fv_ProviderMinor funds
         then Some ErrConflict else None
     | ServiceRefundRelease \<Rightarrow>
         if sp_SharedMinor row = 0 \<or> sp_ReleasedMinor row > 0 \<or> sp_AutomaticReleasedMinor row > 0
            \<or> so_AmountMinor op \<noteq> ExpectedUnsplitMinor funds
         then Some ErrConflict else None
     | ServiceReturn \<Rightarrow>
         if so_RefundPlan op \<noteq> None \<and> so_OriginalShareID op = [] \<and> so_AmountMinor op = 0 then None
         else (case effect_proof ssha (so_OriginalShareID op) ServiceShare (sp_OrderID row) db of
                 None \<Rightarrow> Some ErrConflict
               | Some share \<Rightarrow>
                   if so_AmountMinor op > sub64 (sr_AmountMinor share) (sp_ReturnedMinor row)
                   then Some ErrConflict else None)
     | ServiceRefund \<Rightarrow> validate_reversal row op funds
     | ServiceChargeback \<Rightarrow> validate_reversal row op funds
     | _ \<Rightarrow> Some ErrInvalid)"

section \<open>The steps of an operation\<close>

definition prepareServiceOperationTx ::
  "service_doc digest \<Rightarrow> call_env \<Rightarrow> ServiceOperation \<Rightarrow> money_db \<Rightarrow> merr + ServiceReceipt \<times> money_db" where
  "prepareServiceOperationTx ssha env op db =
     (case lockServicePayment (so_OrderID op) db of
        Inl e \<Rightarrow> Inl e
      | Inr row \<Rightarrow>
     (case find_reservation (so_OperationID op) db of
        Some existing \<Rightarrow>
          if sq_Fingerprint existing \<noteq> ServiceFingerprint ssha (SDocOperation op) then Inl ErrConflict
          else if sq_State existing = ServiceAbandoned \<or> sq_State existing = ServiceFailed
          then Inl ErrConflict
          else (case decodeServiceReceipt ssha (decode (sq_Receipt existing)) of
                  Inl e \<Rightarrow> Inl e | Inr out \<Rightarrow> Inr (out, db))
      | None \<Rightarrow>
     if sp_PendingOperationID row \<noteq> [] \<or> sp_ReconciliationReason row \<noteq> [] then Inl ErrConflict
     else case validateServiceOperation ssha row op db of
       Some e \<Rightarrow> Inl e
     | None \<Rightarrow>
         let out = seal_receipt ssha
               \<lparr>sr_RefundAmounts = None, sr_ReceiptID = ''service-reservation:'' @ so_OperationID op,
                sr_OrderID = so_OrderID op, sr_OperationID = so_OperationID op,
                sr_RequestFingerprint = ServiceFingerprint ssha (SDocOperation op),
                sr_ResultFingerprint = [], sr_Kind = so_Kind op, sr_AmountMinor = so_AmountMinor op,
                sr_ProviderReference = [], sr_OccurredAt = NormalizeTimestamp (ce_now env 0)\<rparr>
         in case create_row serviceReservation_clash
                \<lparr>sq_OperationID = so_OperationID op, sq_OrderID = so_OrderID op,
                 sq_Kind = so_Kind op, sq_Fingerprint = ServiceFingerprint ssha (SDocOperation op),
                 sq_Operation = op, sq_State = ServicePrepared, sq_Dispatched = False,
                 sq_DenialProofID = [], sq_Receipt = Bytes out\<rparr> (db_serviceReservations db) of
              None \<Rightarrow> Inl ErrDuplicatedKey
            | Some reservations \<Rightarrow>
                Inr (out, update_service (sp_OrderID row)
                  (\<lambda>r. case so_RefundPlan op of
                         Some p \<Rightarrow>
                           if sp_PendingRefundPlan row = NoBytes
                           then r\<lparr>sp_PendingOperationID := so_OperationID op,
                                  sp_PendingRefundPlan := Bytes p\<rparr>
                           else r\<lparr>sp_PendingOperationID := so_OperationID op\<rparr>
                       | None \<Rightarrow> r\<lparr>sp_PendingOperationID := so_OperationID op\<rparr>)
                  (db\<lparr>db_serviceReservations := reservations\<rparr>))))"

definition PrepareServiceOperation ::
  "service_doc digest \<Rightarrow> mfault \<Rightarrow> call_env \<Rightarrow> ServiceOperation \<Rightarrow> money_db \<Rightarrow>
   money_db \<times> (merr + ServiceReceipt)" where
  "PrepareServiceOperation ssha flt env op db =
     (if flt = NilHandle \<or> \<not> Validate_ServiceOperation op then (db, Inl ErrInvalid)
      else run_tx flt (prepareServiceOperationTx ssha env op) db)"

definition admitServiceOperationTx ::
  "service_doc digest \<Rightarrow> ServiceOperation \<Rightarrow> money_db \<Rightarrow> merr + unit \<times> money_db" where
  "admitServiceOperationTx ssha op db =
     (case lockServicePayment (so_OrderID op) db of
        Inl e \<Rightarrow> Inl e
      | Inr row \<Rightarrow>
     (case find_reservation (so_OperationID op) db of
        None \<Rightarrow> Inl ErrNotFound
      | Some reservation \<Rightarrow>
     if sq_Fingerprint reservation \<noteq> ServiceFingerprint ssha (SDocOperation op)
        \<or> sq_State reservation = ServiceAbandoned \<or> sq_State reservation = ServiceFailed
        \<or> sp_ReconciliationReason row \<noteq> [] then Inl ErrConflict
     else if sq_Dispatched reservation then Inr ((), db)
     else if sq_State reservation \<noteq> ServicePrepared \<or> sp_PendingOperationID row \<noteq> so_OperationID op
     then Inl ErrConflict
     else Inr ((), update_reservation (sq_OperationID reservation) (\<lambda>r. r\<lparr>sq_Dispatched := True\<rparr>) db)))"

definition AdmitServiceOperation ::
  "service_doc digest \<Rightarrow> mfault \<Rightarrow> ServiceOperation \<Rightarrow> money_db \<Rightarrow> money_db \<times> (merr + unit)" where
  "AdmitServiceOperation ssha flt op db =
     (if flt = NilHandle \<or> \<not> Validate_ServiceOperation op then (db, Inl ErrInvalid)
      else run_tx flt (admitServiceOperationTx ssha op) db)"

definition abandonServiceOperationTx ::
  "service_doc digest \<Rightarrow> ServiceOperation \<Rightarrow> string \<Rightarrow> money_db \<Rightarrow> merr + unit \<times> money_db" where
  "abandonServiceOperationTx ssha op denialProofID db =
     (case lockServicePayment (so_OrderID op) db of
        Inl e \<Rightarrow> Inl e
      | Inr row \<Rightarrow>
     (case find_reservation (so_OperationID op) db of
        None \<Rightarrow> Inl ErrNotFound
      | Some reservation \<Rightarrow>
     if sq_Fingerprint reservation \<noteq> ServiceFingerprint ssha (SDocOperation op) then Inl ErrConflict
     else if sq_State reservation = ServiceAbandoned then
       (if sq_DenialProofID reservation = denialProofID then Inr ((), db) else Inl ErrConflict)
     else if sq_Dispatched reservation \<or> sq_State reservation \<noteq> ServicePrepared
             \<or> sp_PendingOperationID row \<noteq> so_OperationID op then Inl ErrConflict
     else Inr ((), update_service (sp_OrderID row) (\<lambda>r. r\<lparr>sp_PendingOperationID := []\<rparr>)
            (update_reservation (sq_OperationID reservation)
               (\<lambda>r. r\<lparr>sq_State := ServiceAbandoned, sq_DenialProofID := denialProofID\<rparr>) db))))"

definition AbandonUndispatchedServiceOperation ::
  "service_doc digest \<Rightarrow> mfault \<Rightarrow> ServiceOperation \<Rightarrow> string \<Rightarrow> money_db \<Rightarrow> money_db \<times> (merr + unit)" where
  "AbandonUndispatchedServiceOperation ssha flt op denialProofID db =
     (if flt = NilHandle \<or> \<not> Validate_ServiceOperation op \<or> denialProofID = []
         \<or> length denialProofID > 128 then (db, Inl ErrInvalid)
      else run_tx flt (abandonServiceOperationTx ssha op denialProofID) db)"

definition resolveFailedServiceOperationTx ::
  "service_doc digest \<Rightarrow> ServiceOperationFailure \<Rightarrow> money_db \<Rightarrow> merr + ServiceReceipt \<times> money_db" where
  "resolveFailedServiceOperationTx ssha i db =
     (let op = sf_Operation i; identity = ''service-failure:'' @ so_OperationID op;
          fp = ServiceFingerprint ssha (SDocFailure i)
      in case lockServicePayment (so_OrderID op) db of
           Inl e \<Rightarrow> Inl e
         | Inr row \<Rightarrow>
      (case find_effect identity db of
         Some prior \<Rightarrow>
           if sx_Fingerprint prior \<noteq> fp then Inl ErrConflict
           else (case decodeServiceReceipt ssha (effect_receipt (sx_Receipt prior)) of
                   Inl e \<Rightarrow> Inl e | Inr out \<Rightarrow> Inr (out, db))
       | None \<Rightarrow>
      (case find_reservation (so_OperationID op) db of
         None \<Rightarrow> Inl ErrNotFound
       | Some reservation \<Rightarrow>
      if sq_Fingerprint reservation \<noteq> ServiceFingerprint ssha (SDocOperation op)
         \<or> \<not> sq_Dispatched reservation \<or> sq_State reservation \<noteq> ServicePrepared
         \<or> sp_PendingOperationID row \<noteq> so_OperationID op then Inl ErrConflict
      else if length (filter (\<lambda>e. sx_OperationID e = so_OperationID op) (db_serviceEffects db)) \<noteq> 0
      then Inl ErrConflict
      else
        let out = seal_receipt ssha
              \<lparr>sr_RefundAmounts = None, sr_ReceiptID = identity, sr_OrderID = sp_OrderID row,
               sr_OperationID = so_OperationID op,
               sr_RequestFingerprint = ServiceFingerprint ssha (SDocOperation op),
               sr_ResultFingerprint = [], sr_Kind = FailedKind (so_Kind op), sr_AmountMinor = 0,
               sr_ProviderReference = sf_ProviderReference i, sr_OccurredAt = sf_OccurredAt i\<rparr>
        in case create_effect
               \<lparr>sx_OperationID = identity, sx_OrderID = sp_OrderID row,
                sx_Kind = FailedKind (so_Kind op), sx_Fingerprint = fp,
                sx_Receipt = Bytes (PayloadReceipt out)\<rparr> db of
             Inl e \<Rightarrow> Inl e
           | Inr db1 \<Rightarrow>
               Inr (out, update_service (sp_OrderID row) (\<lambda>r. r\<lparr>sp_PendingOperationID := []\<rparr>)
                 (update_reservation (sq_OperationID reservation)
                    (\<lambda>r. r\<lparr>sq_State := ServiceFailed, sq_DenialProofID := sf_ProofID i\<rparr>) db1)))))"

definition ResolveFailedServiceOperation ::
  "service_doc digest \<Rightarrow> mfault \<Rightarrow> ServiceOperationFailure \<Rightarrow> money_db \<Rightarrow>
   money_db \<times> (merr + ServiceReceipt)" where
  "ResolveFailedServiceOperation ssha flt i db =
     (if flt = NilHandle \<or> \<not> Validate_ServiceOperationFailure i then (db, Inl ErrInvalid)
      else run_tx flt (resolveFailedServiceOperationTx ssha
             (i\<lparr>sf_OccurredAt := NormalizeTimestamp (sf_OccurredAt i)\<rparr>)) db)"

section \<open>Effects\<close>

fun use_vouchers ::
  "ServiceVoucherRefund list \<Rightarrow> (string \<rightharpoonup> i64) \<Rightarrow> (string \<rightharpoonup> i64) option" where
  "use_vouchers [] used = Some used"
| "use_vouchers (v # vs) used =
     (let before = (case used (vr_ID v) of None \<Rightarrow> 0 | Some n \<Rightarrow> n) in
      if vr_RefundMinor v > sub64 (vr_OriginalAmountMinor v) before then None
      else use_vouchers vs (used(vr_ID v \<mapsto> add64 before (vr_RefundMinor v))))"

definition acceptServiceRefundAmounts ::
  "service_doc digest \<Rightarrow> servicePaymentRow \<Rightarrow> ServiceEffect \<Rightarrow> merr + servicePaymentRow" where
  "acceptServiceRefundAmounts ssha row e =
     (case serviceAllocationPolicy ssha row of
        Inl er \<Rightarrow> Inl er
      | Inr policy \<Rightarrow>
     if so_Kind (se_Operation e) \<noteq> ServiceRefund then Inr row
     else if ap_Basis policy \<noteq> ServiceAllocationChannelNetFloorV2 then
       (if se_RefundAmounts e \<noteq> None then Inl ErrConflict else Inr row)
     else case decode (sp_Input row) of
       None \<Rightarrow> Inl ErrConflict
     | Some original \<Rightarrow>
         (case (si_ChannelAmounts original, se_RefundAmounts e) of
            (Some amounts, Some refund) \<Rightarrow>
              if \<not> Validate_ServiceRefundAmounts refund amounts (so_AmountMinor (se_Operation e))
              then Inl ErrConflict
              else
                let a = Normalize_ServiceRefundAmounts refund in
                if ra_PayerMinor a > sub64 (pa_PayerMinor amounts) (sp_PayerRefundedMinor row)
                   \<or> SettlementMinor_ServiceRefundAmounts a >
                       sub64 (SettlementMinor_ServicePaymentAmounts amounts) (sp_SettlementRefundedMinor row)
                then Inl ErrConflict
                else if sp_VoucherRefunded row = BadBytes then Inl ErrConflict
                else (case use_vouchers (ra_Vouchers a)
                             (case decode (sp_VoucherRefunded row) of None \<Rightarrow> Map.empty | Some u \<Rightarrow> u) of
                        None \<Rightarrow> Inl ErrConflict
                      | Some used \<Rightarrow>
                          Inr (row\<lparr>sp_PayerRefundedMinor := add64 (sp_PayerRefundedMinor row) (ra_PayerMinor a),
                                   sp_SettlementRefundedMinor :=
                                     add64 (sp_SettlementRefundedMinor row)
                                       (SettlementMinor_ServiceRefundAmounts a),
                                   sp_VoucherRefunded := Bytes used\<rparr>))
          | _ \<Rightarrow> Inl ErrConflict))"

text \<open>The totals after the effect, with the refund or chargeback fact it leaves.\<close>

definition apply_effect ::
  "ServiceEffect \<Rightarrow> servicePaymentRow \<Rightarrow> money_db \<Rightarrow> merr + servicePaymentRow \<times> money_db" where
  "apply_effect e row db =
     (let op = se_Operation e; amount = so_AmountMinor op; at = NormalizeTimestamp (se_OccurredAt e)
      in case so_Kind op of
           ServiceShare \<Rightarrow> Inr (row\<lparr>sp_SharedMinor := add64 (sp_SharedMinor row) amount\<rparr>, db)
         | ServiceFinish \<Rightarrow> Inr (row\<lparr>sp_ReleasedMinor := add64 (sp_ReleasedMinor row) amount\<rparr>, db)
         | ServiceRefundRelease \<Rightarrow>
             Inr (row\<lparr>sp_ReleasedMinor := add64 (sp_ReleasedMinor row) amount\<rparr>, db)
         | ServiceReturn \<Rightarrow> Inr (row\<lparr>sp_ReturnedMinor := add64 (sp_ReturnedMinor row) amount\<rparr>, db)
         | ServiceRefund \<Rightarrow>
             (case create_row refund_clash
                 \<lparr>rf_RefundID = so_OperationID op, rf_PaymentID = sp_PaymentID row,
                  rf_AmountMinor = amount, rf_OccurredAt = at,
                  rf_ProviderReference = se_ProviderReference e\<rparr> (db_refunds db) of
                None \<Rightarrow> Inl ErrDuplicatedKey
              | Some t \<Rightarrow>
                  Inr (row\<lparr>sp_RefundedMinor := add64 (sp_RefundedMinor row) amount\<rparr>, db\<lparr>db_refunds := t\<rparr>))
         | ServiceChargeback \<Rightarrow>
             (case create_row chargeback_clash
                 \<lparr>cb_ChargebackID = so_OperationID op, cb_PaymentID = sp_PaymentID row,
                  cb_AmountMinor = amount, cb_OccurredAt = at,
                  cb_ProviderReference = se_ProviderReference e\<rparr> (db_chargebacks db) of
                None \<Rightarrow> Inl ErrDuplicatedKey
              | Some t \<Rightarrow>
                  Inr (row\<lparr>sp_ChargedBackMinor := add64 (sp_ChargedBackMinor row) amount,
                           sp_ReconciliationReason := ''CHANNEL_CHARGEBACK_REQUIRES_RECONCILIATION''\<rparr>,
                       db\<lparr>db_chargebacks := t\<rparr>))
         | _ \<Rightarrow> Inr (row, db))"

text \<open>The columns that \<open>AcceptServiceEffect\<close> selects for its update.\<close>

definition save_effect_columns :: "servicePaymentRow \<Rightarrow> servicePaymentRow \<Rightarrow> servicePaymentRow" where
  "save_effect_columns new r =
     r\<lparr>sp_SettlementRefundedMinor := sp_SettlementRefundedMinor new,
       sp_PayerRefundedMinor := sp_PayerRefundedMinor new,
       sp_VoucherRefunded := sp_VoucherRefunded new,
       sp_PendingRefundPlan := sp_PendingRefundPlan new,
       sp_RefundedMinor := sp_RefundedMinor new, sp_ChargedBackMinor := sp_ChargedBackMinor new,
       sp_SharedMinor := sp_SharedMinor new, sp_ReturnedMinor := sp_ReturnedMinor new,
       sp_ReleasedMinor := sp_ReleasedMinor new,
       sp_PendingOperationID := sp_PendingOperationID new,
       sp_ReconciliationReason := sp_ReconciliationReason new\<rparr>"

definition acceptServiceEffectTx ::
  "service_doc digest \<Rightarrow> ServiceEffect \<Rightarrow> money_db \<Rightarrow> merr + ServiceReceipt \<times> money_db" where
  "acceptServiceEffectTx ssha e db =
     (let op = se_Operation e in
      case lockServicePayment (so_OrderID op) db of
        Inl er \<Rightarrow> Inl er
      | Inr row \<Rightarrow>
     (case find_effect (so_OperationID op) db of
        Some existing \<Rightarrow>
          if sx_Fingerprint existing \<noteq> Fingerprint_ServiceEffect ssha e then Inl ErrConflict
          else (case decodeServiceReceipt ssha (effect_receipt (sx_Receipt existing)) of
                  Inl er \<Rightarrow> Inl er | Inr out \<Rightarrow> Inr (out, db))
      | None \<Rightarrow>
     (case find_reservation (so_OperationID op) db of
        None \<Rightarrow> Inl ErrConflict
      | Some reservation \<Rightarrow>
     if sq_Fingerprint reservation \<noteq> ServiceFingerprint ssha (SDocOperation op)
        \<or> sq_OrderID reservation \<noteq> sp_OrderID row \<or> sq_State reservation \<noteq> ServicePrepared
        \<or> sp_PendingOperationID row \<noteq> so_OperationID op
        \<or> (so_AmountMinor op > 0 \<and> \<not> sq_Dispatched reservation) then Inl ErrConflict
     else case (if sp_ReconciliationReason row = [] then validateServiceOperation ssha row op db else None) of
       Some er \<Rightarrow> Inl er
     | None \<Rightarrow>
     (case acceptServiceRefundAmounts ssha row e of
        Inl er \<Rightarrow> Inl er
      | Inr row1 \<Rightarrow>
     (case apply_effect e row1 db of
        Inl er \<Rightarrow> Inl er
      | Inr (row2, db1) \<Rightarrow>
          let out = seal_receipt ssha
                \<lparr>sr_RefundAmounts = se_RefundAmounts e,
                 sr_ReceiptID = ''service-effect:'' @ so_OperationID op,
                 sr_OrderID = sp_OrderID row, sr_OperationID = so_OperationID op,
                 sr_RequestFingerprint = ServiceFingerprint ssha (SDocOperation op),
                 sr_ResultFingerprint = [], sr_Kind = so_Kind op, sr_AmountMinor = so_AmountMinor op,
                 sr_ProviderReference = se_ProviderReference e,
                 sr_OccurredAt = NormalizeTimestamp (se_OccurredAt e)\<rparr>;
              row3 = row2\<lparr>sp_PendingOperationID := []\<rparr>;
              row4 = (if so_RefundPhase op = ServiceReturnPost
                      then row3\<lparr>sp_PendingRefundPlan := NoBytes\<rparr> else row3)
          in case create_effect
                 \<lparr>sx_OperationID = so_OperationID op, sx_OrderID = sp_OrderID row, sx_Kind = so_Kind op,
                  sx_Fingerprint = Fingerprint_ServiceEffect ssha e,
                  sx_Receipt = Bytes (PayloadReceipt out)\<rparr> db1 of
               Inl er \<Rightarrow> Inl er
             | Inr db2 \<Rightarrow>
                 Inr (out, update_service (sp_OrderID row) (save_effect_columns row4)
                   (update_reservation (sq_OperationID reservation)
                      (\<lambda>r. r\<lparr>sq_State := ServiceConfirmed\<rparr>) db2)))))))"

definition normalize_effect :: "ServiceEffect \<Rightarrow> ServiceEffect" where
  "normalize_effect e =
     e\<lparr>se_RefundAmounts := map_option Normalize_ServiceRefundAmounts (se_RefundAmounts e)\<rparr>"

definition AcceptServiceEffect ::
  "service_doc digest \<Rightarrow> mfault \<Rightarrow> ServiceEffect \<Rightarrow> money_db \<Rightarrow> money_db \<times> (merr + ServiceReceipt)" where
  "AcceptServiceEffect ssha flt e0 db =
     (let e = normalize_effect e0 in
      if flt = NilHandle \<or> \<not> Validate_ServiceEffect e then (db, Inl ErrInvalid)
      else run_tx flt (acceptServiceEffectTx ssha e) db)"

definition ReadServiceEffect ::
  "service_doc digest \<Rightarrow> mfault \<Rightarrow> ServiceOperation \<Rightarrow> money_db \<Rightarrow> merr + ServiceReceipt" where
  "ReadServiceEffect ssha flt op db =
     (if flt = NilHandle \<or> \<not> Validate_ServiceOperation op then Inl ErrInvalid
      else run_read flt
        (case find (\<lambda>e. sx_OperationID e = so_OperationID op \<and> sx_OrderID e = so_OrderID op
                        \<and> sx_Kind e = so_Kind op) (db_serviceEffects db) of
           None \<Rightarrow> Inl ErrNotFound
         | Some row \<Rightarrow>
             (case decodeServiceReceipt ssha (effect_receipt (sx_Receipt row)) of
                Inl e \<Rightarrow> Inl e
              | Inr out \<Rightarrow>
                  if sr_RequestFingerprint out \<noteq> ServiceFingerprint ssha (SDocOperation op)
                  then Inl ErrConflict else Inr out)))"

section \<open>Observations\<close>

definition observeServiceRefundUncertaintyTx ::
  "service_doc digest \<Rightarrow> ServicePaymentInput \<Rightarrow> string \<Rightarrow> money_db \<Rightarrow> merr + ServiceReceipt \<times> money_db" where
  "observeServiceRefundUncertaintyTx ssha i proof db =
     (let fp = ServiceFingerprint ssha (SDocUncertainty (Fingerprint_ServicePaymentInput ssha i) proof);
          identity = ''service-uncertainty:'' @ fp
      in case lockServicePayment (si_OrderID i) db of
           Inl e \<Rightarrow> Inl e
         | Inr row \<Rightarrow>
      if sp_Fingerprint row \<noteq> Fingerprint_ServicePaymentInput ssha i \<or> sp_Receipt row = NoBytes
      then Inl ErrConflict
      else case find_effect identity db of
        Some prior \<Rightarrow>
          if sx_Fingerprint prior \<noteq> fp then Inl ErrConflict
          else (case decodeServiceReceipt ssha (effect_receipt (sx_Receipt prior)) of
                  Inl e \<Rightarrow> Inl e | Inr out \<Rightarrow> Inr (out, db))
      | None \<Rightarrow>
          let out = seal_receipt ssha
                \<lparr>sr_RefundAmounts = None, sr_ReceiptID = identity, sr_OrderID = si_OrderID i,
                 sr_OperationID = identity,
                 sr_RequestFingerprint = Fingerprint_ServicePaymentInput ssha i,
                 sr_ResultFingerprint = [], sr_Kind = RefundUncertainty, sr_AmountMinor = 0,
                 sr_ProviderReference = proof,
                 sr_OccurredAt = NormalizeTimestamp (ps_SettledAt (si_Payment i))\<rparr>
          in case create_effect
                 \<lparr>sx_OperationID = identity, sx_OrderID = si_OrderID i, sx_Kind = RefundUncertainty,
                  sx_Fingerprint = fp, sx_Receipt = Bytes (PayloadReceipt out)\<rparr> db of
               Inl e \<Rightarrow> Inl e
             | Inr db1 \<Rightarrow>
                 if sp_ReconciliationReason row = [] then
                   Inr (out, update_service (sp_OrderID row)
                     (\<lambda>r. r\<lparr>sp_ReconciliationReason := ''CHANNEL_REFUND_REQUIRES_RECONCILIATION''\<rparr>) db1)
                 else Inr (out, db1))"

definition ObserveServiceRefundUncertainty ::
  "service_doc digest \<Rightarrow> mfault \<Rightarrow> ServicePaymentInput \<Rightarrow> string \<Rightarrow> money_db \<Rightarrow>
   money_db \<times> (merr + ServiceReceipt)" where
  "ObserveServiceRefundUncertainty ssha flt i proof db =
     (if flt = NilHandle \<or> \<not> Validate_ServicePaymentInput i \<or> \<not> ValidateServiceUncertaintyProof proof
      then (db, Inl ErrInvalid)
      else run_tx flt (observeServiceRefundUncertaintyTx ssha i proof) db)"

definition observeServiceChargebackTx ::
  "service_doc digest \<Rightarrow> string \<Rightarrow> ChargebackSettlement \<Rightarrow> money_db \<Rightarrow> merr + unit \<times> money_db" where
  "observeServiceChargebackTx ssha order c db =
     (case lockServicePayment order db of
        Inl e \<Rightarrow> Inl e
      | Inr row \<Rightarrow>
     if sp_PaymentID row \<noteq> cs_PaymentID c then Inl ErrConflict
     else case find (\<lambda>b. cb_ChargebackID b = cs_ChargebackID c) (db_chargebacks db) of
       Some old \<Rightarrow>
         if cb_PaymentID old \<noteq> cs_PaymentID c \<or> cb_AmountMinor old \<noteq> cs_AmountMinor c
            \<or> cb_ProviderReference old \<noteq> cs_ProviderReference c
            \<or> cb_OccurredAt old \<noteq> NormalizeTimestamp (cs_OccurredAt c)
         then Inl ErrConflict else Inr ((), db)
     | None \<Rightarrow>
         if cs_AmountMinor c >
              sub64 (sub64 (sp_GrossMinor row) (sp_RefundedMinor row)) (sp_ChargedBackMinor row)
         then Inl ErrConflict
         else case create_row chargeback_clash
                \<lparr>cb_ChargebackID = cs_ChargebackID c, cb_PaymentID = cs_PaymentID c,
                 cb_AmountMinor = cs_AmountMinor c,
                 cb_OccurredAt = NormalizeTimestamp (cs_OccurredAt c),
                 cb_ProviderReference = cs_ProviderReference c\<rparr> (db_chargebacks db) of
           None \<Rightarrow> Inl ErrDuplicatedKey
         | Some chargebacks \<Rightarrow>
             let receipt = seal_receipt ssha
                   \<lparr>sr_RefundAmounts = None,
                    sr_ReceiptID = ''service-chargeback:'' @ cs_ChargebackID c,
                    sr_OrderID = order, sr_OperationID = cs_ChargebackID c,
                    sr_RequestFingerprint = ServiceFingerprint ssha (SDocChargeback c),
                    sr_ResultFingerprint = [], sr_Kind = ServiceChargeback,
                    sr_AmountMinor = cs_AmountMinor c,
                    sr_ProviderReference = cs_ProviderReference c,
                    sr_OccurredAt = NormalizeTimestamp (cs_OccurredAt c)\<rparr>
             in case create_effect
                    \<lparr>sx_OperationID = sr_ReceiptID receipt, sx_OrderID = order,
                     sx_Kind = ServiceChargeback,
                     sx_Fingerprint = ServiceFingerprint ssha (SDocChargeback c),
                     sx_Receipt = Bytes (PayloadReceipt receipt)\<rparr> (db\<lparr>db_chargebacks := chargebacks\<rparr>) of
                  Inl e \<Rightarrow> Inl e
                | Inr db1 \<Rightarrow>
                    Inr ((), update_service (sp_OrderID row)
                      (\<lambda>r. r\<lparr>sp_ChargedBackMinor := add64 (sp_ChargedBackMinor row) (cs_AmountMinor c),
                             sp_ReconciliationReason :=
                               ''CHANNEL_CHARGEBACK_REQUIRES_RECONCILIATION''\<rparr>) db1))"

definition ObserveServiceChargeback ::
  "service_doc digest \<Rightarrow> mfault \<Rightarrow> string \<Rightarrow> ChargebackSettlement \<Rightarrow> money_db \<Rightarrow>
   money_db \<times> (merr + unit)" where
  "ObserveServiceChargeback ssha flt order c db =
     (if flt = NilHandle \<or> order = [] \<or> \<not> Validate_ChargebackSettlement c then (db, Inl ErrInvalid)
      else run_tx flt (observeServiceChargebackTx ssha order c) db)"

text \<open>Whether a chargeback belongs to a service payment, and the error if there is one.\<close>

definition recordServiceChargeback ::
  "service_doc digest \<Rightarrow> mfault \<Rightarrow> ChargebackSettlement \<Rightarrow> money_db \<Rightarrow> money_db \<times> bool \<times> merr option" where
  "recordServiceChargeback ssha flt c db =
     (case find (\<lambda>p. py_PaymentID p = cs_PaymentID c
                     \<and> py_PaymentPurpose p = PaymentPurposeServicePurchase) (db_payments db) of
        None \<Rightarrow> (db, False, None)
      | Some payment \<Rightarrow>
     (case find (\<lambda>r. sp_PaymentID r = py_PaymentID payment) (db_services db) of
        None \<Rightarrow> (db, True, Some ErrConflict)
      | Some binding \<Rightarrow>
          (case ObserveServiceChargeback ssha flt (sp_OrderID binding) c db of
             (db1, Inl e) \<Rightarrow> (db1, True, Some e)
           | (db1, Inr _) \<Rightarrow> (db1, True, None))))"

text \<open>The answer of the body is the \<open>stale\<close> flag with the funds.\<close>

definition observeServiceUnsplitTx ::
  "service_doc digest \<Rightarrow> ServiceUnsplitObservation \<Rightarrow> money_db \<Rightarrow>
   merr + (bool \<times> ServiceFundsView) \<times> money_db" where
  "observeServiceUnsplitTx ssha i db =
     (let fp = ServiceFingerprint ssha (SDocUnsplit i); identity = ''service-unsplit:'' @ fp
      in case lockServicePayment (si_OrderID (uo_Payment i)) db of
           Inl e \<Rightarrow> Inl e
         | Inr row \<Rightarrow>
      if sp_Fingerprint row \<noteq> Fingerprint_ServicePaymentInput ssha (uo_Payment i) then Inl ErrConflict
      else case (case find_effect identity db of
                   Some prior \<Rightarrow> if sx_Fingerprint prior \<noteq> fp then Inl ErrConflict else Inr db
                 | None \<Rightarrow>
                     create_effect
                       \<lparr>sx_OperationID = identity, sx_OrderID = sp_OrderID row,
                        sx_Kind = UnsplitObservation, sx_Fingerprint = fp,
                        sx_Receipt = Bytes (PayloadUnsplit i)\<rparr> db) of
        Inl e \<Rightarrow> Inl e
      | Inr db1 \<Rightarrow>
      (case serviceFunds ssha row of
         Inl e \<Rightarrow> Inl e
       | Inr funds \<Rightarrow>
      if ServiceFingerprint ssha (SDocFunds funds) \<noteq> uo_ExpectedFundsFingerprint i
      then Inr ((True, funds), db1)
      else if ExpectedUnsplitMinor funds \<noteq> uo_UnsplitMinor i \<and> sp_ReconciliationReason row = [] then
        case (if sp_PendingOperationID row \<noteq> [] then
                (case find_reservation (sp_PendingOperationID row) db1 of
                   None \<Rightarrow> Inl ErrRecordNotFound
                 | Some pending \<Rightarrow> Inr (sq_Dispatched pending))
              else Inr False) of
          Inl e \<Rightarrow> Inl e
        | Inr True \<Rightarrow> Inr ((True, funds), db1)
        | Inr False \<Rightarrow>
            let reason = ''CHANNEL_FUNDS_CHANGED_REQUIRES_RECONCILIATION''
            in (case serviceFunds ssha (row\<lparr>sp_ReconciliationReason := reason\<rparr>) of
                  Inl e \<Rightarrow> Inl e
                | Inr funds1 \<Rightarrow>
                    Inr ((False, funds1),
                         update_service (sp_OrderID row) (\<lambda>r. r\<lparr>sp_ReconciliationReason := reason\<rparr>) db1))
      else Inr ((False, funds), db1)))"

definition ObserveServiceUnsplit ::
  "service_doc digest \<Rightarrow> mfault \<Rightarrow> ServiceUnsplitObservation \<Rightarrow> money_db \<Rightarrow>
   money_db \<times> (merr + ServiceFundsView)" where
  "ObserveServiceUnsplit ssha flt i db =
     (if flt = NilHandle \<or> \<not> Validate_ServiceUnsplitObservation i then (db, Inl ErrInvalid)
      else case run_tx flt (observeServiceUnsplitTx ssha
                  (i\<lparr>uo_OccurredAt := NormalizeTimestamp (uo_OccurredAt i)\<rparr>)) db of
             (db1, Inl e) \<Rightarrow> (db1, Inl e)
           | (db1, Inr (stale, funds)) \<Rightarrow> (db1, if stale then Inl ErrConflict else Inr funds))"

text \<open>A fee that is not on the payment itself is on a refund that the payment has.\<close>

definition fee_bound_to_refund ::
  "service_doc digest \<Rightarrow> string \<Rightarrow> string \<Rightarrow> money_db \<Rightarrow> bool" where
  "fee_bound_to_refund ssha order business db \<longleftrightarrow>
     (let refunds = map (\<lambda>e. decodeServiceReceipt ssha (effect_receipt (sx_Receipt e)))
            (filter (\<lambda>e. sx_OrderID e = order \<and> sx_Kind e = ServiceRefund) (db_serviceEffects db))
      in list_all (\<lambda>d. case d of Inl _ \<Rightarrow> False | Inr _ \<Rightarrow> True) refunds
         \<and> list_ex (\<lambda>d. case d of
                Inl _ \<Rightarrow> False
              | Inr refund \<Rightarrow> sr_ProviderReference refund = ''wechat-refund:'' @ business) refunds)"

definition observeServiceChannelFeeTx ::
  "service_doc digest \<Rightarrow> ServiceChannelFee \<Rightarrow> money_db \<Rightarrow> merr + ServiceReceipt \<times> money_db" where
  "observeServiceChannelFeeTx ssha i db =
     (let identity = ''service-fee:'' @ ServiceFingerprint ssha (SDocStrings
            [pb_Provider (si_Binding (cf_Payment i)), pb_Environment (si_Binding (cf_Payment i)),
             si_PlatformMerchantID (cf_Payment i), cf_FlowID i]);
          fp = Fingerprint_ServiceChannelFee ssha i
      in case lockServicePayment (si_OrderID (cf_Payment i)) db of
           Inl e \<Rightarrow> Inl e
         | Inr row \<Rightarrow>
      if sp_Fingerprint row \<noteq> Fingerprint_ServicePaymentInput ssha (cf_Payment i) then Inl ErrConflict
      else case find_effect identity db of
        Some prior \<Rightarrow>
          if sx_OrderID prior \<noteq> sp_OrderID row \<or> sx_Fingerprint prior \<noteq> fp then Inl ErrConflict
          else (case decodeServiceReceipt ssha (effect_receipt (sx_Receipt prior)) of
                  Inl e \<Rightarrow> Inl e | Inr out \<Rightarrow> Inr (out, db))
      | None \<Rightarrow>
          if cf_BusinessID i \<noteq> pb_TradeID (si_Binding (cf_Payment i))
             \<and> \<not> fee_bound_to_refund ssha (sp_OrderID row) (cf_BusinessID i) db then Inl ErrConflict
          else if (if cf_Returned i then cf_AmountMinor i > sp_ChannelFeeMinor row
                   else cf_AmountMinor i > sub64 max64 (sp_ChannelFeeMinor row)) then Inl ErrConflict
          else
            let kind = (if cf_Returned i then ChannelFeeReturn else ChannelFee);
                fee = (if cf_Returned i then sub64 (sp_ChannelFeeMinor row) (cf_AmountMinor i)
                       else add64 (sp_ChannelFeeMinor row) (cf_AmountMinor i));
                out = seal_receipt ssha
                  \<lparr>sr_RefundAmounts = None, sr_ReceiptID = identity, sr_OrderID = sp_OrderID row,
                   sr_OperationID = identity, sr_RequestFingerprint = fp, sr_ResultFingerprint = [],
                   sr_Kind = kind, sr_AmountMinor = cf_AmountMinor i,
                   sr_ProviderReference = cf_ProofID i, sr_OccurredAt = cf_OccurredAt i\<rparr>
            in case create_effect
                   \<lparr>sx_OperationID = identity, sx_OrderID = sp_OrderID row, sx_Kind = kind,
                    sx_Fingerprint = fp, sx_Receipt = Bytes (PayloadFee out i)\<rparr> db of
                 Inl e \<Rightarrow> Inl e
               | Inr db1 \<Rightarrow>
                   Inr (out, update_service (sp_OrderID row)
                     (\<lambda>r. r\<lparr>sp_ChannelFeeMinor := fee, sp_ChannelFeeObserved := True\<rparr>) db1))"

definition ObserveServiceChannelFee ::
  "service_doc digest \<Rightarrow> mfault \<Rightarrow> ServiceChannelFee \<Rightarrow> money_db \<Rightarrow> money_db \<times> (merr + ServiceReceipt)" where
  "ObserveServiceChannelFee ssha flt i db =
     (if flt = NilHandle \<or> \<not> Validate_ServiceChannelFee i then (db, Inl ErrInvalid)
      else run_tx flt (observeServiceChannelFeeTx ssha
             (i\<lparr>cf_OccurredAt := NormalizeTimestamp (cf_OccurredAt i)\<rparr>)) db)"

section \<open>Admissions\<close>

text \<open>The payment that an admission names is the accepted one.\<close>

definition admission_payment_ok ::
  "service_doc digest \<Rightarrow> servicePaymentRow \<Rightarrow> ServicePaymentInput \<Rightarrow> string \<Rightarrow> bool" where
  "admission_payment_ok ssha row payment receiptID \<longleftrightarrow>
     sp_Fingerprint row = Fingerprint_ServicePaymentInput ssha payment
     \<and> (case decodeServiceReceipt ssha (decode (sp_Receipt row)) of
          Inl _ \<Rightarrow> False | Inr p \<Rightarrow> sr_ReceiptID p = receiptID)"

definition admitServiceFulfillmentTx ::
  "service_doc digest \<Rightarrow> call_env \<Rightarrow> ServiceFulfillmentAdmission \<Rightarrow> money_db \<Rightarrow>
   merr + ServiceFulfillmentProof \<times> money_db" where
  "admitServiceFulfillmentTx ssha env i db =
     (case lockServicePayment (si_OrderID (fa_Payment i)) db of
        Inl e \<Rightarrow> Inl e
      | Inr row \<Rightarrow>
     if \<not> admission_payment_ok ssha row (fa_Payment i) (fa_PaymentReceiptID i) then Inl ErrConflict
     else case find (\<lambda>r. sl_ReceiptID r = Identity_ServiceFulfillmentAdmission ssha i) (db_fulfillments db) of
       Some prior \<Rightarrow>
         (case (decode (sl_Input prior), decode (sl_Proof prior)) of
            (Some saved, Some out) \<Rightarrow>
              if sl_OrderID prior \<noteq> si_OrderID (fa_Payment i)
                 \<or> sl_Fingerprint prior \<noteq> Fingerprint_ServiceFulfillmentAdmission ssha i
                 \<or> \<not> Validate_ServiceFulfillmentAdmission saved
                 \<or> Fingerprint_ServiceFulfillmentAdmission ssha saved \<noteq> sl_Fingerprint prior
                 \<or> \<not> Matches_ServiceFulfillmentProof ssha out i
              then Inl ErrConflict else Inr (out, db)
          | _ \<Rightarrow> Inl ErrConflict)
     | None \<Rightarrow>
         (case serviceFunds ssha row of
            Inl e \<Rightarrow> Inl e
          | Inr funds \<Rightarrow>
              if fv_ReconciliationReason funds \<noteq> [] \<or> fv_ChargedBackMinor funds \<noteq> 0 then Inl ErrConflict
              else
                let p = \<lparr>fp_ReceiptID = Identity_ServiceFulfillmentAdmission ssha i,
                         fp_InputFingerprint = Fingerprint_ServiceFulfillmentAdmission ssha i,
                         fp_PaymentReceiptID = fa_PaymentReceiptID i,
                         fp_OccurredAt = NormalizeTimestamp (ce_now env 0),
                         fp_ResultFingerprint = []\<rparr>;
                    out = p\<lparr>fp_ResultFingerprint := Fingerprint_ServiceFulfillmentProof ssha p\<rparr>
                in case create_row fulfillment_clash
                       \<lparr>sl_ReceiptID = fp_ReceiptID out, sl_OrderID = si_OrderID (fa_Payment i),
                        sl_Fingerprint = Fingerprint_ServiceFulfillmentAdmission ssha i,
                        sl_Input = Bytes i, sl_Proof = Bytes out\<rparr> (db_fulfillments db) of
                     None \<Rightarrow> Inl ErrDuplicatedKey
                   | Some t \<Rightarrow> Inr (out, db\<lparr>db_fulfillments := t\<rparr>)))"

definition AdmitServiceFulfillment ::
  "service_doc digest \<Rightarrow> mfault \<Rightarrow> call_env \<Rightarrow> ServiceFulfillmentAdmission \<Rightarrow> money_db \<Rightarrow>
   money_db \<times> (merr + ServiceFulfillmentProof)" where
  "AdmitServiceFulfillment ssha flt env i db =
     (if flt = NilHandle \<or> \<not> Validate_ServiceFulfillmentAdmission i then (db, Inl ErrInvalid)
      else run_tx flt (admitServiceFulfillmentTx ssha env i) db)"

definition admitServiceRefundReviewTx ::
  "service_doc digest \<Rightarrow> call_env \<Rightarrow> ServiceRefundReviewAdmission \<Rightarrow> money_db \<Rightarrow>
   merr + ServiceRefundReviewProof \<times> money_db" where
  "admitServiceRefundReviewTx ssha env i db =
     (case lockServicePayment (si_OrderID (va_Payment i)) db of
        Inl e \<Rightarrow> Inl e
      | Inr row \<Rightarrow>
     if \<not> admission_payment_ok ssha row (va_Payment i) (va_PaymentReceiptID i) then Inl ErrConflict
     else case find (\<lambda>r. sw_ReceiptID r = Identity_ServiceRefundReviewAdmission ssha i) (db_reviews db) of
       Some prior \<Rightarrow>
         (case (decode (sw_Input prior), decode (sw_Proof prior)) of
            (Some saved, Some out) \<Rightarrow>
              if sw_OrderID prior \<noteq> si_OrderID (va_Payment i)
                 \<or> sw_Fingerprint prior \<noteq> Fingerprint_ServiceRefundReviewAdmission ssha i
                 \<or> \<not> Validate_ServiceRefundReviewAdmission saved
                 \<or> Fingerprint_ServiceRefundReviewAdmission ssha saved \<noteq> sw_Fingerprint prior
                 \<or> \<not> Matches_ServiceRefundReviewProof ssha out i
              then Inl ErrConflict else Inr (out, db)
          | _ \<Rightarrow> Inl ErrConflict)
     | None \<Rightarrow>
         (case serviceFunds ssha row of
            Inl e \<Rightarrow> Inl e
          | Inr funds \<Rightarrow>
              let remaining = sub64 (sub64 (fv_GrossMinor funds) (fv_RefundedMinor funds)) (fv_ChargedBackMinor funds)
              in if fv_ReconciliationReason funds \<noteq> [] \<or> fv_ChargedBackMinor funds \<noteq> 0
                    \<or> remaining < va_AmountMinor i then Inl ErrConflict
                 else
                   let p = \<lparr>vp_ReceiptID = Identity_ServiceRefundReviewAdmission ssha i,
                            vp_InputFingerprint = Fingerprint_ServiceRefundReviewAdmission ssha i,
                            vp_PaymentReceiptID = va_PaymentReceiptID i, vp_RemainingMinor = remaining,
                            vp_OccurredAt = NormalizeTimestamp (ce_now env 0),
                            vp_ResultFingerprint = []\<rparr>;
                       out = p\<lparr>vp_ResultFingerprint := Fingerprint_ServiceRefundReviewProof ssha p\<rparr>
                   in case create_row review_clash
                          \<lparr>sw_ReceiptID = vp_ReceiptID out, sw_OrderID = si_OrderID (va_Payment i),
                           sw_Fingerprint = Fingerprint_ServiceRefundReviewAdmission ssha i,
                           sw_Input = Bytes i, sw_Proof = Bytes out\<rparr> (db_reviews db) of
                        None \<Rightarrow> Inl ErrDuplicatedKey
                      | Some t \<Rightarrow> Inr (out, db\<lparr>db_reviews := t\<rparr>)))"

definition AdmitServiceRefundReview ::
  "service_doc digest \<Rightarrow> mfault \<Rightarrow> call_env \<Rightarrow> ServiceRefundReviewAdmission \<Rightarrow> money_db \<Rightarrow>
   money_db \<times> (merr + ServiceRefundReviewProof)" where
  "AdmitServiceRefundReview ssha flt env i db =
     (if flt = NilHandle \<or> \<not> Validate_ServiceRefundReviewAdmission i then (db, Inl ErrInvalid)
      else run_tx flt (admitServiceRefundReviewTx ssha env i) db)"

end
