(* ===== verification/Service_Laws.thy ===== *)
theory Service_Laws
  imports Ledger Service_Repo
begin

text \<open>
  What the transactions of the service purchase repository leave alone: none of them touches a
  table of the wallets, and only the acceptance of a payment changes payments, claims, top-ups or
  the terms of a service payment.
\<close>

section \<open>Frames\<close>

lemma wallet_tables_update [simp]:
  "wallet_tables (update_service order f db) = wallet_tables db"
  "wallet_tables (update_reservation oper g db) = wallet_tables db"
  "wallet_tables (db\<lparr>db_serviceEffects := x1\<rparr>) = wallet_tables db"
  "wallet_tables (db\<lparr>db_serviceReservations := x2\<rparr>) = wallet_tables db"
  "wallet_tables (db\<lparr>db_services := x3\<rparr>) = wallet_tables db"
  "wallet_tables (db\<lparr>db_payments := x4\<rparr>) = wallet_tables db"
  "wallet_tables (db\<lparr>db_claims := x5\<rparr>) = wallet_tables db"
  "wallet_tables (db\<lparr>db_refunds := x6\<rparr>) = wallet_tables db"
  "wallet_tables (db\<lparr>db_chargebacks := x7\<rparr>) = wallet_tables db"
  "wallet_tables (db\<lparr>db_fulfillments := x8\<rparr>) = wallet_tables db"
  "wallet_tables (db\<lparr>db_reviews := x9\<rparr>) = wallet_tables db"
  "wallet_tables (db\<lparr>db_payoutMethods := x10\<rparr>) = wallet_tables db"
  "wallet_tables (db\<lparr>db_payoutOperations := x11\<rparr>) = wallet_tables db"
  by (simp_all add: wallet_tables_def update_service_def update_reservation_def)

lemma create_effect_Inr:
  "create_effect e db = Inr db1 \<longleftrightarrow>
     (\<forall>x\<in>set (db_serviceEffects db). sx_OperationID x \<noteq> sx_OperationID e)
     \<and> db1 = db\<lparr>db_serviceEffects := db_serviceEffects db @ [e]\<rparr>"
  by (auto simp: create_effect_def create_row_def list_ex_iff serviceEffect_clash_def
      split: option.splits if_splits)

lemma acceptServicePaymentTx_frame:
  "acceptServicePaymentTx sha ssha i db = Inr (a, db') \<Longrightarrow> wallet_tables db' = wallet_tables db"
  by (auto simp: acceptServicePaymentTx_def Let_def create_row_Some
      split: sum.splits option.splits if_splits elim!: claimChannelPayment_Inr)

lemma prepareServiceOperationTx_frame:
  "prepareServiceOperationTx ssha env op db = Inr (a, db') \<Longrightarrow> wallet_tables db' = wallet_tables db"
  by (auto simp: prepareServiceOperationTx_def Let_def create_row_Some
      split: sum.splits option.splits if_splits)

lemma admitServiceOperationTx_frame:
  "admitServiceOperationTx ssha op db = Inr (a, db') \<Longrightarrow> wallet_tables db' = wallet_tables db"
  by (auto simp: admitServiceOperationTx_def split: sum.splits option.splits if_splits)

lemma abandonServiceOperationTx_frame:
  "abandonServiceOperationTx ssha op pr db = Inr (a, db') \<Longrightarrow> wallet_tables db' = wallet_tables db"
  by (auto simp: abandonServiceOperationTx_def split: sum.splits option.splits if_splits)

lemma resolveFailedServiceOperationTx_frame:
  "resolveFailedServiceOperationTx ssha i db = Inr (a, db') \<Longrightarrow> wallet_tables db' = wallet_tables db"
  by (auto simp: resolveFailedServiceOperationTx_def Let_def create_effect_Inr
      split: sum.splits option.splits if_splits)

lemma apply_effect_frame:
  "apply_effect e row db = Inr (row', db') \<Longrightarrow> wallet_tables db' = wallet_tables db"
  by (auto simp: apply_effect_def Let_def create_row_Some
      split: ServiceEffectKind.splits option.splits)

lemma acceptServiceEffectTx_frame:
  "acceptServiceEffectTx ssha e db = Inr (a, db') \<Longrightarrow> wallet_tables db' = wallet_tables db"
  by (auto simp: acceptServiceEffectTx_def Let_def create_effect_Inr
      split: sum.splits option.splits if_splits dest!: apply_effect_frame)

lemma observeServiceRefundUncertaintyTx_frame:
  "observeServiceRefundUncertaintyTx ssha i p db = Inr (a, db') \<Longrightarrow> wallet_tables db' = wallet_tables db"
  by (auto simp: observeServiceRefundUncertaintyTx_def Let_def create_effect_Inr
      split: sum.splits option.splits if_splits)

lemma observeServiceChargebackTx_frame:
  "observeServiceChargebackTx ssha order c db = Inr (a, db') \<Longrightarrow> wallet_tables db' = wallet_tables db"
  by (auto simp: observeServiceChargebackTx_def Let_def create_effect_Inr create_row_Some
      split: sum.splits option.splits if_splits)

lemma observeServiceUnsplitTx_frame:
  "observeServiceUnsplitTx ssha i db = Inr (a, db') \<Longrightarrow> wallet_tables db' = wallet_tables db"
  by (auto simp: observeServiceUnsplitTx_def Let_def create_effect_Inr
      split: sum.splits option.splits if_splits bool.splits)

lemma observeServiceChannelFeeTx_frame:
  "observeServiceChannelFeeTx ssha i db = Inr (a, db') \<Longrightarrow> wallet_tables db' = wallet_tables db"
  by (auto simp: observeServiceChannelFeeTx_def Let_def create_effect_Inr
      split: sum.splits option.splits if_splits)

lemma admitServiceFulfillmentTx_frame:
  "admitServiceFulfillmentTx ssha env i db = Inr (a, db') \<Longrightarrow> wallet_tables db' = wallet_tables db"
  by (auto simp: admitServiceFulfillmentTx_def Let_def create_row_Some
      split: sum.splits option.splits if_splits prod.splits)

lemma admitServiceRefundReviewTx_frame:
  "admitServiceRefundReviewTx ssha env i db = Inr (a, db') \<Longrightarrow> wallet_tables db' = wallet_tables db"
  by (auto simp: admitServiceRefundReviewTx_def Let_def create_row_Some
      split: sum.splits option.splits if_splits prod.splits)

lemmas service_frames =
  acceptServicePaymentTx_frame prepareServiceOperationTx_frame admitServiceOperationTx_frame
  abandonServiceOperationTx_frame resolveFailedServiceOperationTx_frame acceptServiceEffectTx_frame
  observeServiceRefundUncertaintyTx_frame observeServiceChargebackTx_frame
  observeServiceUnsplitTx_frame observeServiceChannelFeeTx_frame admitServiceFulfillmentTx_frame
  admitServiceRefundReviewTx_frame

section \<open>Identities\<close>

text \<open>The columns of a service payment that never change once its receipt is written.\<close>

definition service_identity where
  "service_identity r =
     (sp_OrderID r, sp_RequestID r, sp_ClaimID r, sp_PaymentID r, sp_Fingerprint r, sp_Input r,
      sp_Receipt r, sp_GrossMinor r)"

definition identity_tables where
  "identity_tables db =
     (db_payments db, db_claims db, db_topups db, map service_identity (db_services db))"

lemma identity_tables_update [simp]:
  "(\<And>r. service_identity (f r) = service_identity r) \<Longrightarrow>
   identity_tables (update_service order f db) = identity_tables db"
  "identity_tables (update_reservation oper g db) = identity_tables db"
  "identity_tables (db\<lparr>db_serviceEffects := x1\<rparr>) = identity_tables db"
  "identity_tables (db\<lparr>db_serviceReservations := x2\<rparr>) = identity_tables db"
  "identity_tables (db\<lparr>db_refunds := x6\<rparr>) = identity_tables db"
  "identity_tables (db\<lparr>db_chargebacks := x7\<rparr>) = identity_tables db"
  "identity_tables (db\<lparr>db_fulfillments := x8\<rparr>) = identity_tables db"
  "identity_tables (db\<lparr>db_reviews := x9\<rparr>) = identity_tables db"
  by (simp_all add: identity_tables_def update_service_def update_reservation_def map_update_rows_key)

lemma service_identity_update [simp]:
  "service_identity (r\<lparr>sp_PendingOperationID := x1\<rparr>) = service_identity r"
  "service_identity (r\<lparr>sp_PendingRefundPlan := x2\<rparr>) = service_identity r"
  "service_identity (r\<lparr>sp_ReconciliationReason := x3\<rparr>) = service_identity r"
  "service_identity (r\<lparr>sp_ChargedBackMinor := x4\<rparr>) = service_identity r"
  "service_identity (r\<lparr>sp_ChannelFeeMinor := x5\<rparr>) = service_identity r"
  "service_identity (r\<lparr>sp_ChannelFeeObserved := x6\<rparr>) = service_identity r"
  "service_identity (save_effect_columns new r) = service_identity r"
  by (simp_all add: service_identity_def save_effect_columns_def)

lemma prepareServiceOperationTx_identity:
  "prepareServiceOperationTx ssha env op db = Inr (a, db') \<Longrightarrow> identity_tables db' = identity_tables db"
  by (auto simp: prepareServiceOperationTx_def Let_def create_row_Some
      split: sum.splits option.splits if_splits)

lemma admitServiceOperationTx_identity:
  "admitServiceOperationTx ssha op db = Inr (a, db') \<Longrightarrow> identity_tables db' = identity_tables db"
  by (auto simp: admitServiceOperationTx_def split: sum.splits option.splits if_splits)

lemma abandonServiceOperationTx_identity:
  "abandonServiceOperationTx ssha op pr db = Inr (a, db') \<Longrightarrow> identity_tables db' = identity_tables db"
  by (auto simp: abandonServiceOperationTx_def split: sum.splits option.splits if_splits)

lemma resolveFailedServiceOperationTx_identity:
  "resolveFailedServiceOperationTx ssha i db = Inr (a, db') \<Longrightarrow> identity_tables db' = identity_tables db"
  by (auto simp: resolveFailedServiceOperationTx_def Let_def create_effect_Inr
      split: sum.splits option.splits if_splits)

lemma apply_effect_identity:
  "apply_effect e row db = Inr (row', db') \<Longrightarrow> identity_tables db' = identity_tables db"
  by (auto simp: apply_effect_def Let_def create_row_Some
      split: ServiceEffectKind.splits option.splits)

lemma acceptServiceEffectTx_identity:
  "acceptServiceEffectTx ssha e db = Inr (a, db') \<Longrightarrow> identity_tables db' = identity_tables db"
  by (auto simp: acceptServiceEffectTx_def Let_def create_effect_Inr
      split: sum.splits option.splits if_splits dest!: apply_effect_identity)

lemma observeServiceRefundUncertaintyTx_identity:
  "observeServiceRefundUncertaintyTx ssha i p db = Inr (a, db') \<Longrightarrow> identity_tables db' = identity_tables db"
  by (auto simp: observeServiceRefundUncertaintyTx_def Let_def create_effect_Inr
      split: sum.splits option.splits if_splits)

lemma observeServiceChargebackTx_identity:
  "observeServiceChargebackTx ssha order c db = Inr (a, db') \<Longrightarrow> identity_tables db' = identity_tables db"
  by (auto simp: observeServiceChargebackTx_def Let_def create_effect_Inr create_row_Some
      split: sum.splits option.splits if_splits)

lemma observeServiceUnsplitTx_identity:
  "observeServiceUnsplitTx ssha i db = Inr (a, db') \<Longrightarrow> identity_tables db' = identity_tables db"
  by (auto simp: observeServiceUnsplitTx_def Let_def create_effect_Inr
      split: sum.splits option.splits if_splits bool.splits)

lemma observeServiceChannelFeeTx_identity:
  "observeServiceChannelFeeTx ssha i db = Inr (a, db') \<Longrightarrow> identity_tables db' = identity_tables db"
  by (auto simp: observeServiceChannelFeeTx_def Let_def create_effect_Inr
      split: sum.splits option.splits if_splits)

lemma admitServiceFulfillmentTx_identity:
  "admitServiceFulfillmentTx ssha env i db = Inr (a, db') \<Longrightarrow> identity_tables db' = identity_tables db"
  by (auto simp: admitServiceFulfillmentTx_def Let_def create_row_Some
      split: sum.splits option.splits if_splits prod.splits)

lemma admitServiceRefundReviewTx_identity:
  "admitServiceRefundReviewTx ssha env i db = Inr (a, db') \<Longrightarrow> identity_tables db' = identity_tables db"
  by (auto simp: admitServiceRefundReviewTx_def Let_def create_row_Some
      split: sum.splits option.splits if_splits prod.splits)

lemmas service_identities =
  prepareServiceOperationTx_identity admitServiceOperationTx_identity abandonServiceOperationTx_identity
  resolveFailedServiceOperationTx_identity acceptServiceEffectTx_identity
  observeServiceRefundUncertaintyTx_identity observeServiceChargebackTx_identity
  observeServiceUnsplitTx_identity observeServiceChannelFeeTx_identity admitServiceFulfillmentTx_identity
  admitServiceRefundReviewTx_identity

end
