(* ===== verification/Settlement_Repo.thy ===== *)
theory Settlement_Repo
  imports Wallet_Repo Service_Repo
begin

text \<open>
  The settlement facts and payout methods of the money owner
  (\<open>internal/integration/persistence/money/repository.go\<close>): recording payments, refunds and
  chargebacks, with the dispatch of a reversal to the top-up or the service path, the variants
  that notify an observer, and the payout methods.

  An observer is the interface \<open>SettlementObserver\<close>, implemented elsewhere: a function from the
  fact to its error, if any, called only after the fact is recorded. The advisory lock of
  \<open>lockOrdinaryReversal\<close> orders ordinary reversals of one payment; \<open>supported\<close> says whether the
  database dialect is one it knows.
\<close>

section \<open>Settlement facts\<close>

definition recordPaymentTx :: "PaymentSettlement \<Rightarrow> money_db \<Rightarrow> merr + unit \<times> money_db" where
  "recordPaymentTx p db =
     (let row = \<lparr>py_PaymentID = ps_PaymentID p, py_PaymentPurpose = [], py_CommissionTreatment = [],
                 py_PayerBinding = [], py_PayerUserID = ps_PayerUserID p, py_Currency = ps_Currency p,
                 py_GrossAmountMinor = ps_GrossAmountMinor p,
                 py_DiscountAmountMinor = ps_DiscountAmountMinor p,
                 py_CommissionableAmountMinor = ps_CommissionableAmountMinor p,
                 py_Status = ps_Status p, py_SettledAt = NormalizeTimestamp (ps_SettledAt p),
                 py_ProviderReference = ps_ProviderReference p, py_Version = ps_Version p\<rparr>
      in case find (\<lambda>r. py_PaymentID r = py_PaymentID row) (db_payments db) of
           Some existing \<Rightarrow>
             if py_PayerUserID existing \<noteq> py_PayerUserID row \<or> py_Currency existing \<noteq> py_Currency row
                \<or> py_GrossAmountMinor existing \<noteq> py_GrossAmountMinor row
                \<or> py_DiscountAmountMinor existing \<noteq> py_DiscountAmountMinor row
                \<or> py_CommissionableAmountMinor existing \<noteq> py_CommissionableAmountMinor row
                \<or> py_Status existing \<noteq> py_Status row \<or> py_SettledAt existing \<noteq> py_SettledAt row
                \<or> py_ProviderReference existing \<noteq> py_ProviderReference row
                \<or> py_Version existing \<noteq> py_Version row
             then Inl ErrConflict else Inr ((), db)
         | None \<Rightarrow>
             (case create_row payment_clash row (db_payments db) of
                None \<Rightarrow> Inl ErrUnavailable
              | Some t \<Rightarrow> Inr ((), db\<lparr>db_payments := t\<rparr>)))"

definition RecordPaymentSettlement ::
  "mfault \<Rightarrow> PaymentSettlement \<Rightarrow> money_db \<Rightarrow> money_db \<times> (merr + unit)" where
  "RecordPaymentSettlement flt p db =
     (if flt = NilHandle \<or> \<not> Validate_PaymentSettlement p then (db, Inl ErrInvalid)
      else if ps_PaymentPurpose p = PaymentPurposeWalletTopUp
              \<or> ps_PaymentPurpose p = PaymentPurposeServicePurchase then (db, Inl ErrUnsupportedMutation)
      else run_tx flt (recordPaymentTx p) db)"

text \<open>The two sums of an ordinary payment's reversals, and what is left to reverse.\<close>

definition ordinary_reversed :: "string \<Rightarrow> money_db \<Rightarrow> (i64 \<times> i64) option" where
  "ordinary_reversed payment db =
     (case (scan_sum (\<lambda>r. rf_PaymentID r = payment) rf_AmountMinor (db_refunds db),
            scan_sum (\<lambda>c. cb_PaymentID c = payment) cb_AmountMinor (db_chargebacks db)) of
        (Some refunded, Some chargedBack) \<Rightarrow> Some (refunded, chargedBack)
      | _ \<Rightarrow> None)"

definition recordRefundTx :: "bool \<Rightarrow> RefundSettlement \<Rightarrow> money_db \<Rightarrow> merr + unit \<times> money_db" where
  "recordRefundTx supported i db =
     (if \<not> supported then Inl ErrUnavailable
      else case find (\<lambda>r. py_PaymentID r = rs_PaymentID i) (db_payments db) of
        None \<Rightarrow> Inl ErrNotFound
      | Some payment \<Rightarrow>
     if py_PaymentPurpose payment = PaymentPurposeServicePurchase then Inl ErrUnsupportedMutation
     else case find (\<lambda>r. rf_RefundID r = rs_RefundID i) (db_refunds db) of
       Some existing \<Rightarrow>
         if rf_PaymentID existing \<noteq> rs_PaymentID i \<or> rf_AmountMinor existing \<noteq> rs_AmountMinor i
            \<or> rf_OccurredAt existing \<noteq> NormalizeTimestamp (rs_OccurredAt i)
            \<or> rf_ProviderReference existing \<noteq> rs_ProviderReference i
         then Inl ErrConflict else Inr ((), db)
     | None \<Rightarrow>
         (case ordinary_reversed (rs_PaymentID i) db of
            None \<Rightarrow> Inl ErrUnavailable
          | Some (refunded, chargedBack) \<Rightarrow>
              if rs_AmountMinor i >
                   sub64 (sub64 (py_CommissionableAmountMinor payment) refunded) chargedBack
              then Inl ErrInvalid
              else case create_row refund_clash
                     \<lparr>rf_RefundID = rs_RefundID i, rf_PaymentID = rs_PaymentID i,
                      rf_AmountMinor = rs_AmountMinor i,
                      rf_OccurredAt = NormalizeTimestamp (rs_OccurredAt i),
                      rf_ProviderReference = rs_ProviderReference i\<rparr> (db_refunds db) of
                None \<Rightarrow> Inl ErrUnavailable
              | Some t \<Rightarrow> Inr ((), db\<lparr>db_refunds := t\<rparr>)))"

definition RecordRefundSettlement ::
  "topup_doc digest \<Rightarrow> bool \<Rightarrow> mfault \<Rightarrow> call_env \<Rightarrow> RefundSettlement \<Rightarrow> money_db \<Rightarrow>
   money_db \<times> (merr + unit)" where
  "RecordRefundSettlement sha supported flt env i db =
     (if flt = NilHandle \<or> \<not> Validate_RefundSettlement i then (db, Inl ErrInvalid)
      else case recordProviderReversal sha flt env (rs_PaymentID i) (rs_RefundID i)
                  WalletReversalRefund (rs_AmountMinor i) (rs_OccurredAt i) (rs_ProviderReference i) db of
             (db1, handled, Some e) \<Rightarrow> (db1, Inl e)
           | (db1, True, None) \<Rightarrow> (db1, Inr ())
           | (db1, False, None) \<Rightarrow> run_tx flt (recordRefundTx supported i) db1)"

definition recordChargebackTx ::
  "bool \<Rightarrow> ChargebackSettlement \<Rightarrow> money_db \<Rightarrow> merr + unit \<times> money_db" where
  "recordChargebackTx supported i db =
     (if \<not> supported then Inl ErrUnavailable
      else case find (\<lambda>r. py_PaymentID r = cs_PaymentID i) (db_payments db) of
        None \<Rightarrow> Inl ErrNotFound
      | Some payment \<Rightarrow>
     if py_PaymentPurpose payment = PaymentPurposeServicePurchase then Inl ErrUnsupportedMutation
     else case find (\<lambda>c. cb_ChargebackID c = cs_ChargebackID i) (db_chargebacks db) of
       Some existing \<Rightarrow>
         if cb_PaymentID existing \<noteq> cs_PaymentID i \<or> cb_AmountMinor existing \<noteq> cs_AmountMinor i
            \<or> cb_OccurredAt existing \<noteq> NormalizeTimestamp (cs_OccurredAt i)
            \<or> cb_ProviderReference existing \<noteq> cs_ProviderReference i
         then Inl ErrConflict else Inr ((), db)
     | None \<Rightarrow>
         (case ordinary_reversed (cs_PaymentID i) db of
            None \<Rightarrow> Inl ErrUnavailable
          | Some (refunded, chargedBack) \<Rightarrow>
              if cs_AmountMinor i >
                   sub64 (sub64 (py_CommissionableAmountMinor payment) refunded) chargedBack
              then Inl ErrInvalid
              else case create_row chargeback_clash
                     \<lparr>cb_ChargebackID = cs_ChargebackID i, cb_PaymentID = cs_PaymentID i,
                      cb_AmountMinor = cs_AmountMinor i,
                      cb_OccurredAt = NormalizeTimestamp (cs_OccurredAt i),
                      cb_ProviderReference = cs_ProviderReference i\<rparr> (db_chargebacks db) of
                None \<Rightarrow> Inl ErrUnavailable
              | Some t \<Rightarrow> Inr ((), db\<lparr>db_chargebacks := t\<rparr>)))"

definition RecordChargebackSettlement ::
  "topup_doc digest \<Rightarrow> service_doc digest \<Rightarrow> bool \<Rightarrow> mfault \<Rightarrow> call_env \<Rightarrow> ChargebackSettlement \<Rightarrow>
   money_db \<Rightarrow> money_db \<times> (merr + unit)" where
  "RecordChargebackSettlement sha ssha supported flt env i db =
     (if flt = NilHandle \<or> \<not> Validate_ChargebackSettlement i then (db, Inl ErrInvalid)
      else case recordProviderReversal sha flt env (cs_PaymentID i) (cs_ChargebackID i)
                  WalletReversalChargeback (cs_AmountMinor i) (cs_OccurredAt i)
                  (cs_ProviderReference i) db of
             (db1, handled, Some e) \<Rightarrow> (db1, Inl e)
           | (db1, True, None) \<Rightarrow> (db1, Inr ())
           | (db1, False, None) \<Rightarrow>
               (case recordServiceChargeback ssha flt i db1 of
                  (db2, handled, Some e) \<Rightarrow> (db2, Inl e)
                | (db2, True, None) \<Rightarrow> (db2, Inr ())
                | (db2, False, None) \<Rightarrow> run_tx flt (recordChargebackTx supported i) db2))"

section \<open>Notification of the observer\<close>

text \<open>The observer is absent, or a function from the fact to its error, if any.\<close>

definition notify ::
  "('f \<Rightarrow> merr option) option \<Rightarrow> (money_db \<Rightarrow> money_db \<times> (merr + unit)) \<Rightarrow> 'f \<Rightarrow> money_db \<Rightarrow>
   money_db \<times> (merr + unit)" where
  "notify observer record fact_in db =
     (case observer of
        None \<Rightarrow> (db, Inl ErrInvalid)
      | Some observe \<Rightarrow>
          (case record db of
             (db1, Inl e) \<Rightarrow> (db1, Inl e)
           | (db1, Inr _) \<Rightarrow>
               (db1, case observe fact_in of Some e \<Rightarrow> Inl e | None \<Rightarrow> Inr ())))"

definition RecordPaymentSettlementAndNotify ::
  "(PaymentSettlement \<Rightarrow> merr option) option \<Rightarrow> mfault \<Rightarrow> PaymentSettlement \<Rightarrow> money_db \<Rightarrow>
   money_db \<times> (merr + unit)" where
  "RecordPaymentSettlementAndNotify observer flt p =
     notify observer (RecordPaymentSettlement flt p) p"

definition RecordRefundSettlementAndNotify ::
  "topup_doc digest \<Rightarrow> bool \<Rightarrow> (RefundSettlement \<Rightarrow> merr option) option \<Rightarrow> mfault \<Rightarrow> call_env \<Rightarrow>
   RefundSettlement \<Rightarrow> money_db \<Rightarrow> money_db \<times> (merr + unit)" where
  "RecordRefundSettlementAndNotify sha supported observer flt env i =
     notify observer (RecordRefundSettlement sha supported flt env i) i"

definition RecordChargebackSettlementAndNotify ::
  "topup_doc digest \<Rightarrow> service_doc digest \<Rightarrow> bool \<Rightarrow> (ChargebackSettlement \<Rightarrow> merr option) option \<Rightarrow>
   mfault \<Rightarrow> call_env \<Rightarrow> ChargebackSettlement \<Rightarrow> money_db \<Rightarrow> money_db \<times> (merr + unit)" where
  "RecordChargebackSettlementAndNotify sha ssha supported observer flt env i =
     notify observer (RecordChargebackSettlement sha ssha supported flt env i) i"

section \<open>Payout methods\<close>

definition payoutMethodToRow :: "PayoutMethod \<Rightarrow> payoutMethodRow" where
  "payoutMethodToRow p =
     \<lparr>mr_MethodID = pm_MethodID p, mr_SubjectUserID = pm_SubjectUserID p, mr_Type = pm_Type p,
      mr_DisplayName = pm_DisplayName p, mr_MaskedDestination = pm_MaskedDestination p,
      mr_SecureReference = pm_SecureReference p, mr_EncryptionKeyID = pm_EncryptionKeyID p,
      mr_Status = pm_Status p, mr_CreatedAt = truncate_us (pm_CreatedAt p),
      mr_UpdatedAt = truncate_us (pm_UpdatedAt p), mr_Version = pm_Version p\<rparr>"

definition payoutMethodFromRow :: "payoutMethodRow \<Rightarrow> PayoutMethod" where
  "payoutMethodFromRow r =
     \<lparr>pm_MethodID = mr_MethodID r, pm_SubjectUserID = mr_SubjectUserID r, pm_Type = mr_Type r,
      pm_DisplayName = mr_DisplayName r, pm_MaskedDestination = mr_MaskedDestination r,
      pm_SecureReference = mr_SecureReference r, pm_EncryptionKeyID = mr_EncryptionKeyID r,
      pm_Status = mr_Status r, pm_CreatedAt = mr_CreatedAt r, pm_UpdatedAt = mr_UpdatedAt r,
      pm_Version = mr_Version r\<rparr>"

definition CreatePayoutMethod ::
  "mfault \<Rightarrow> PayoutMethod \<Rightarrow> money_db \<Rightarrow> money_db \<times> (merr + unit)" where
  "CreatePayoutMethod flt p db =
     (if flt = NilHandle \<or> \<not> Validate_PayoutMethod p then (db, Inl ErrInvalid)
      else run_tx flt (\<lambda>db.
        case create_row payoutMethod_clash (payoutMethodToRow p) (db_payoutMethods db) of
          None \<Rightarrow> Inl ErrDuplicatedKey
        | Some t \<Rightarrow> Inr ((), db\<lparr>db_payoutMethods := t\<rparr>)) db)"

definition createPayoutMethodIdempotentTx ::
  "call_env \<Rightarrow> PayoutMethod \<Rightarrow> string \<Rightarrow> string \<Rightarrow> money_db \<Rightarrow> merr + PayoutMethod \<times> money_db" where
  "createPayoutMethodIdempotentTx env p key fingerprint db =
     (case find (\<lambda>r. mo_IdempotencyKey r = key) (db_payoutOperations db) of
        Some operation \<Rightarrow>
          if mo_Fingerprint operation \<noteq> fingerprint then Inl ErrConflict
          else (case find (\<lambda>r. mr_MethodID r = mo_MethodID operation) (db_payoutMethods db) of
                  None \<Rightarrow> Inl ErrUnavailable
                | Some row \<Rightarrow> Inr (payoutMethodFromRow row, db))
      | None \<Rightarrow>
          (case create_row payoutMethod_clash (payoutMethodToRow p) (db_payoutMethods db) of
             None \<Rightarrow> Inl ErrUnavailable
           | Some methods \<Rightarrow>
          (case create_row payoutOperation_clash
              \<lparr>mo_IdempotencyKey = key, mo_MethodID = pm_MethodID p, mo_Fingerprint = fingerprint,
               mo_CreatedAt = truncate_us (ce_now env 0)\<rparr> (db_payoutOperations db) of
             None \<Rightarrow> Inl ErrUnavailable
           | Some operations \<Rightarrow>
               Inr (p, db\<lparr>db_payoutMethods := methods, db_payoutOperations := operations\<rparr>))))"

definition CreatePayoutMethodIdempotent ::
  "mfault \<Rightarrow> call_env \<Rightarrow> PayoutMethod \<Rightarrow> string \<Rightarrow> string \<Rightarrow> money_db \<Rightarrow>
   money_db \<times> (merr + PayoutMethod)" where
  "CreatePayoutMethodIdempotent flt env p key fingerprint db =
     (if flt = NilHandle \<or> \<not> Validate_PayoutMethod p \<or> key = [] \<or> fingerprint = []
      then (db, Inl ErrInvalid)
      else run_tx flt (createPayoutMethodIdempotentTx env p key fingerprint) db)"

definition HasValidPayoutMethod ::
  "mfault \<Rightarrow> string \<Rightarrow> string \<Rightarrow> money_db \<Rightarrow> merr + bool" where
  "HasValidPayoutMethod flt subject methodID db =
     (if flt = NilHandle \<or> subject = [] then Inl ErrInvalid
      else run_read flt (Inr (length (filter (\<lambda>r. mr_SubjectUserID r = subject \<and> mr_MethodID r = methodID
             \<and> mr_Status r = PayoutMethodActive) (db_payoutMethods db)) > 0)))"

text \<open>Ordered by creation time, then method identity.\<close>

definition ListActivePayoutMethods ::
  "mfault \<Rightarrow> string \<Rightarrow> money_db \<Rightarrow> merr + PayoutMethodSummary list" where
  "ListActivePayoutMethods flt subject db =
     (if flt = NilHandle \<or> subject = [] then Inl ErrInvalid
      else run_read flt (Inr (map
        (\<lambda>r. \<lparr>pu_MethodID = mr_MethodID r, pu_SubjectUserID = mr_SubjectUserID r,
              pu_Type = mr_Type r, pu_DisplayName = mr_DisplayName r,
              pu_MaskedDestination = mr_MaskedDestination r, pu_Status = mr_Status r,
              pu_Version = mr_Version r\<rparr>)
        (sort_key mr_CreatedAt (sort_key mr_MethodID
          (filter (\<lambda>r. mr_SubjectUserID r = subject \<and> mr_Status r = PayoutMethodActive)
             (db_payoutMethods db)))))))"

definition ReadPayoutMethodForReview :: "mfault \<Rightarrow> string \<Rightarrow> money_db \<Rightarrow> merr + PayoutMethod" where
  "ReadPayoutMethodForReview flt methodID db =
     (if flt = NilHandle \<or> TrimSpace methodID = [] then Inl ErrInvalid
      else run_read flt
        (case find (\<lambda>r. mr_MethodID r = TrimSpace methodID) (db_payoutMethods db) of
           None \<Rightarrow> Inl ErrNotFound
         | Some row \<Rightarrow> Inr (payoutMethodFromRow row)))"

end
