(* ===== verification/Money_System.thy ===== *)
theory Money_System
  imports Service_Laws Settlement_Repo
begin

text \<open>
  The money owner as a transition system: one rule per public method of the repository that
  changes the database, called with any input whose amounts are \<open>int64\<close> values, under any fault,
  clock and identifiers. \<open>sha\<close> and \<open>ssha\<close> are the digests, \<open>supported\<close> says whether the database
  dialect has the advisory lock. The contracts of \<open>Contracts\<close> are interpreted here on the whole
  system.
\<close>

inductive money_step ::
  "topup_doc digest \<Rightarrow> service_doc digest \<Rightarrow> bool \<Rightarrow> money_db \<Rightarrow> money_db \<Rightarrow> bool"
  for sha ssha supported db where
  step_credit: "in64 (os_AmountMinor s) \<Longrightarrow>
    money_step sha ssha supported db (fst (CreditSettledTopUp flt env s db))"
| step_apply_reversal: "in64 (ov_AmountMinor v) \<Longrightarrow>
    money_step sha ssha supported db (fst (ApplyTopUpReversal sha flt env v db))"
| step_reserve: "in64 (ri_AmountMinor i) \<Longrightarrow>
    money_step sha ssha supported db (fst (ReserveCommercialPurchase flt env i db))"
| step_commit: "money_step sha ssha supported db (fst (CommitCommercialPurchase flt env c db))"
| step_release: "money_step sha ssha supported db (fst (ReleaseCommercialPurchase flt env l db))"
| step_accept_topup: "in64 (ti_AmountMinor t) \<Longrightarrow>
    (\<And>r. r \<in> set (ti_KnownReversals t) \<Longrightarrow> in64 (ov_AmountMinor r)) \<Longrightarrow>
    money_step sha ssha supported db (fst (AcceptAndPostProviderTopUp sha flt env t db))"
| step_accept_reversal: "in64 (ov_AmountMinor v) \<Longrightarrow>
    money_step sha ssha supported db (fst (AcceptProviderTopUpReversal sha flt env v db))"
| step_prepare_refund: "in64 (fi_AmountMinor f) \<Longrightarrow>
    money_step sha ssha supported db (fst (PrepareTopUpRefund sha flt env f db))"
| step_admit_refund: "money_step sha ssha supported db (fst (AdmitTopUpRefund sha flt f db))"
| step_release_hold: "in64 (fi_AmountMinor f) \<Longrightarrow>
    money_step sha ssha supported db (fst (ReleaseTopUpRefundHold sha flt env f proved db))"
| step_record_payment: "in64 (ps_GrossAmountMinor p) \<Longrightarrow> in64 (ps_CommissionableAmountMinor p) \<Longrightarrow>
    money_step sha ssha supported db (fst (RecordPaymentSettlementAndNotify obs_p flt p db))"
| step_record_refund: "in64 (rs_AmountMinor rs) \<Longrightarrow>
    money_step sha ssha supported db (fst (RecordRefundSettlementAndNotify sha supported obs_r flt env rs db))"
| step_record_chargeback: "in64 (cs_AmountMinor cs) \<Longrightarrow>
    money_step sha ssha supported db
      (fst (RecordChargebackSettlementAndNotify sha ssha supported obs_c flt env cs db))"
| step_payout_method: "money_step sha ssha supported db (fst (CreatePayoutMethod flt m db))"
| step_payout_method_idempotent:
    "money_step sha ssha supported db (fst (CreatePayoutMethodIdempotent flt env m key fp db))"
| step_service_payment: "in64 (ps_GrossAmountMinor (si_Payment si)) \<Longrightarrow>
    money_step sha ssha supported db (fst (AcceptServicePayment sha ssha flt si db))"
| step_service_prepare: "in64 (so_AmountMinor op) \<Longrightarrow>
    money_step sha ssha supported db (fst (PrepareServiceOperation ssha flt env op db))"
| step_service_admit: "money_step sha ssha supported db (fst (AdmitServiceOperation ssha flt op db))"
| step_service_abandon:
    "money_step sha ssha supported db (fst (AbandonUndispatchedServiceOperation ssha flt op proof db))"
| step_service_failed:
    "money_step sha ssha supported db (fst (ResolveFailedServiceOperation ssha flt sf db))"
| step_service_effect: "in64 (so_AmountMinor (se_Operation e)) \<Longrightarrow>
    money_step sha ssha supported db (fst (AcceptServiceEffect ssha flt e db))"
| step_service_uncertainty:
    "money_step sha ssha supported db (fst (ObserveServiceRefundUncertainty ssha flt si proof db))"
| step_service_chargeback: "in64 (cs_AmountMinor cs) \<Longrightarrow>
    money_step sha ssha supported db (fst (ObserveServiceChargeback ssha flt order cs db))"
| step_service_unsplit:
    "money_step sha ssha supported db (fst (ObserveServiceUnsplit ssha flt uo db))"
| step_service_fee: "in64 (cf_AmountMinor cf) \<Longrightarrow>
    money_step sha ssha supported db (fst (ObserveServiceChannelFee ssha flt cf db))"
| step_fulfillment: "money_step sha ssha supported db (fst (AdmitServiceFulfillment ssha flt env fa db))"
| step_refund_review: "money_step sha ssha supported db (fst (AdmitServiceRefundReview ssha flt env va db))"

section \<open>Every method is a good step of the ledger\<close>

lemma frame_run_tx:
  assumes "ledger_inv db" "\<And>a db'. body db = Inr (a, db') \<Longrightarrow> wallet_tables db' = wallet_tables db"
  shows "good_step db (fst (run_tx flt body db))"
  using assms good_step_frame by (intro good_step_run_tx) auto

lemma good_step_accept_reversal:
  assumes "ledger_inv db" "in64 (ov_AmountMinor v)"
  shows "good_step db (fst (AcceptProviderTopUpReversal sha flt env v db))"
  using assms accept_reversal_good good_step_refl
  by (auto simp: AcceptProviderTopUpReversal_def intro!: good_step_run_tx)

lemma good_step_provider_reversal:
  assumes "ledger_inv db" "in64 amount"
  shows "good_step db (fst (recordProviderReversal sha flt env payment rid kind amount at ref db))"
  using assms(1) good_step_refl
  by (auto simp: recordProviderReversal_def split: option.splits prod.splits sum.splits)
    (metis assms(2) fst_conv good_step_accept_reversal [OF assms(1)] OrganizationWalletReversal.select_convs(7))+

lemma good_step_service_chargeback:
  assumes "ledger_inv db"
  shows "good_step db (fst (ObserveServiceChargeback ssha flt order c db))"
    "good_step db (fst (recordServiceChargeback ssha flt c db))"
proof -
  show obs: "good_step db (fst (ObserveServiceChargeback ssha flt order c db))" for order
    using assms good_step_refl observeServiceChargebackTx_frame
    by (auto simp: ObserveServiceChargeback_def intro!: frame_run_tx)
  show "good_step db (fst (recordServiceChargeback ssha flt c db))"
    using assms good_step_refl
    by (auto simp: recordServiceChargeback_def split: option.splits prod.splits sum.splits)
      (metis fst_conv obs)+
qed

lemma good_step_notify:
  assumes "good_step db (fst (record db))" "ledger_inv db"
  shows "good_step db (fst (notify observer record f db))"
  using assms good_step_refl by (auto simp: notify_def split: option.splits prod.splits sum.splits)

lemma good_step_record_refund:
  assumes inv: "ledger_inv db" and sz: "in64 (rs_AmountMinor i)"
  shows "good_step db (fst (RecordRefundSettlement sha supported flt env i db))"
proof -
  obtain db1 h e where r: "recordProviderReversal sha flt env (rs_PaymentID i) (rs_RefundID i)
      WalletReversalRefund (rs_AmountMinor i) (rs_OccurredAt i) (rs_ProviderReference i) db = (db1, h, e)"
    by (metis prod_cases3)
  then have g: "good_step db db1" using good_step_provider_reversal [OF inv sz] by (metis fst_conv)
  have "good_step db1 (fst (run_tx flt (recordRefundTx supported i) db1))"
    using g by (intro frame_run_tx)
      (auto simp: good_step_def recordRefundTx_def create_row_Some split: option.splits if_splits)
  with g show ?thesis
    using good_step_refl [OF inv] good_step_trans [OF g]
    by (auto simp: RecordRefundSettlement_def r split: option.splits bool.splits)
qed

lemma good_step_record_chargeback:
  assumes inv: "ledger_inv db" and sz: "in64 (cs_AmountMinor i)"
  shows "good_step db (fst (RecordChargebackSettlement sha ssha supported flt env i db))"
proof -
  obtain db1 h e where r: "recordProviderReversal sha flt env (cs_PaymentID i) (cs_ChargebackID i)
      WalletReversalChargeback (cs_AmountMinor i) (cs_OccurredAt i) (cs_ProviderReference i) db = (db1, h, e)"
    by (metis prod_cases3)
  then have g: "good_step db db1" using good_step_provider_reversal [OF inv sz] by (metis fst_conv)
  then have inv1: "ledger_inv db1" by (simp add: good_step_def)
  obtain db2 h2 e2 where s: "recordServiceChargeback ssha flt i db1 = (db2, h2, e2)"
    by (metis prod_cases3)
  then have g2: "good_step db db2"
    using good_step_service_chargeback(2) [OF inv1] good_step_trans [OF g] by (metis fst_conv)
  have "good_step db2 (fst (run_tx flt (recordChargebackTx supported i) db2))"
    using g2 by (intro frame_run_tx)
      (auto simp: good_step_def recordChargebackTx_def create_row_Some split: option.splits if_splits)
  with g g2 show ?thesis
    using good_step_refl [OF inv] good_step_trans [OF g2]
    by (auto simp: RecordChargebackSettlement_def r s split: option.splits bool.splits)
qed

lemma good_step_apply_reversal:
  assumes inv: "ledger_inv db" and sz: "in64 (ov_AmountMinor v)"
  shows "good_step db (fst (ApplyTopUpReversal sha flt env v db))"
proof -
  have "good_step db (fst (run_tx flt (applyTopUpReversalTx env v) db))"
    if "Validate_OrganizationWalletReversal v"
    using apply_reversal_good [OF inv that sz] by (intro good_step_run_tx [OF inv])
  then show ?thesis
    using good_step_refl [OF inv] good_step_accept_reversal [OF inv sz, of sha flt env]
    by (auto simp: ApplyTopUpReversal_def split: option.splits prod.splits sum.splits)
qed

lemma good_step_reserve:
  assumes inv: "ledger_inv db" and sz: "in64 (ri_AmountMinor i)"
  shows "good_step db (fst (ReserveCommercialPurchase flt env i db))"
proof -
  have "good_step db (fst (run_tx flt (reserveCommercialPurchaseTx env i) db))" if "reserve_guard i"
    using reserve_good [OF inv that sz] by (intro good_step_run_tx [OF inv])
  then show ?thesis
    using good_step_refl [OF inv]
    by (auto simp: ReserveCommercialPurchase_def split: option.splits prod.splits sum.splits)
qed

lemma good_step_payout:
  assumes "ledger_inv db"
  shows "good_step db (fst (CreatePayoutMethod flt m db))"
    "good_step db (fst (CreatePayoutMethodIdempotent flt env m key fp db))"
proof -
  show "good_step db (fst (CreatePayoutMethod flt m db))"
    using good_step_refl [OF assms]
    by (auto simp: CreatePayoutMethod_def create_row_Some intro!: frame_run_tx [OF assms]
        split: option.splits)
  show "good_step db (fst (CreatePayoutMethodIdempotent flt env m key fp db))"
    using good_step_refl [OF assms]
    by (auto simp: CreatePayoutMethodIdempotent_def createPayoutMethodIdempotentTx_def create_row_Some
        wallet_tables_def intro!: frame_run_tx [OF assms] split: option.splits if_splits)
qed

lemma good_step_unsplit:
  assumes "ledger_inv db"
  shows "good_step db (fst (ObserveServiceUnsplit ssha flt uo db))"
proof -
  have "good_step db (fst (run_tx flt (observeServiceUnsplitTx ssha i) db))" for i
    using observeServiceUnsplitTx_frame by (intro frame_run_tx [OF assms])
  then show ?thesis
    using good_step_refl [OF assms]
    by (auto simp: ObserveServiceUnsplit_def split: prod.splits sum.splits) (metis fst_conv)+
qed

theorem money_step_good:
  assumes inv: "ledger_inv db" and step: "money_step sha ssha supported db db'"
  shows "good_step db db'"
  using step
proof (cases rule: money_step.cases)
  case (step_credit s flt env)
  then show ?thesis
    using credit_good [OF inv] good_step_refl [OF inv]
    by (auto simp: CreditSettledTopUp_def intro!: good_step_run_tx [OF inv])
next
  case (step_apply_reversal v flt env)
  then show ?thesis using good_step_apply_reversal [OF inv] by simp
next
  case (step_reserve i flt env)
  then show ?thesis using good_step_reserve [OF inv] by simp
next
  case (step_commit flt env c)
  then show ?thesis
    using finish_good [OF inv] good_step_refl [OF inv]
    by (auto simp: CommitCommercialPurchase_def finishReservation_def intro!: good_step_run_tx [OF inv])
next
  case (step_release flt env l)
  then show ?thesis
    using finish_good [OF inv] good_step_refl [OF inv]
    by (auto simp: ReleaseCommercialPurchase_def finishReservation_def intro!: good_step_run_tx [OF inv])
next
  case (step_accept_topup t flt env)
  then show ?thesis
    using accept_topup_good [OF inv] good_step_refl [OF inv]
    by (auto simp: AcceptAndPostProviderTopUp_def intro!: good_step_run_tx [OF inv])
next
  case (step_accept_reversal v flt env)
  then show ?thesis using good_step_accept_reversal [OF inv] by simp
next
  case (step_prepare_refund f flt env)
  then show ?thesis
    using prepare_refund_good [OF inv] good_step_refl [OF inv]
    by (auto simp: PrepareTopUpRefund_def intro!: good_step_run_tx [OF inv])
next
  case (step_admit_refund flt f)
  then show ?thesis
    using admit_refund_good [OF inv] good_step_refl [OF inv]
    by (auto simp: AdmitTopUpRefund_def intro!: good_step_run_tx [OF inv])
next
  case (step_release_hold f flt env proved)
  then show ?thesis
    using release_hold_good [OF inv] good_step_refl [OF inv]
    by (auto simp: ReleaseTopUpRefundHold_def intro!: good_step_run_tx [OF inv])
next
  case (step_record_payment p obs_p flt)
  have "good_step db (fst (RecordPaymentSettlement flt p db))"
    using good_step_refl [OF inv]
    by (auto simp: RecordPaymentSettlement_def recordPaymentTx_def create_row_Some Let_def
        intro!: frame_run_tx [OF inv] split: option.splits if_splits)
  with step_record_payment show ?thesis
    using good_step_notify [OF _ inv] by (simp add: RecordPaymentSettlementAndNotify_def)
next
  case (step_record_refund rs obs_r flt env)
  then show ?thesis
    using good_step_record_refund [OF inv]
    by (auto simp: RecordRefundSettlementAndNotify_def intro!: good_step_notify [OF _ inv])
next
  case (step_record_chargeback cs obs_c flt env)
  then show ?thesis
    using good_step_record_chargeback [OF inv]
    by (auto simp: RecordChargebackSettlementAndNotify_def intro!: good_step_notify [OF _ inv])
next
  case (step_service_unsplit flt uo)
  then show ?thesis using good_step_unsplit [OF inv] by simp
next
  case (step_service_chargeback cs flt order)
  then show ?thesis using good_step_service_chargeback(1) [OF inv] by simp
qed (use good_step_payout [OF inv] good_step_refl [OF inv] service_frames in
  \<open>auto simp: AcceptServicePayment_def PrepareServiceOperation_def AdmitServiceOperation_def
     AbandonUndispatchedServiceOperation_def ResolveFailedServiceOperation_def AcceptServiceEffect_def
     ObserveServiceRefundUncertainty_def ObserveServiceChannelFee_def AdmitServiceFulfillment_def
     AdmitServiceRefundReview_def Let_def intro!: frame_run_tx [OF inv]\<close>)

section \<open>The contracts on the money owner\<close>

interpretation wallets: account_refinement wallet_account "money_step sha ssha supported" ledger_inv empty_db
  for sha ssha supported
proof unfold_locales
  show "ledger_inv empty_db" by (rule ledger_inv_empty)
  show "wallet_account empty_db org = empty_account" for org
    by (simp add: wallet_account_def wallet_at_def empty_db_def empty_account_def reversed_of_def)
  show "ledger_inv db'" if "ledger_inv db" "money_step sha ssha supported db db'" for db db'
    using money_step_good that by (simp add: good_step_def)
  show "\<exists>es. acct_run (wallet_account db org) es = Some (wallet_account db' org)"
    if "ledger_inv db" "money_step sha ssha supported db db'" for db db' org
    using money_step_good that by (simp add: good_step_def)
qed

definition wallet_balance :: "money_db \<Rightarrow> string \<times> string \<Rightarrow> nat \<Rightarrow> int" where
  "wallet_balance db k n = wallet_part (balances (wallet_at db k)) n"

lemma entries_explain:
  assumes "ledger_inv db"
  shows "wallet_balance db k n = sum_rows (\<lambda>e. owner e = k) (\<lambda>e. entry_delta e n) (db_entries db)"
proof -
  have "sum_rows (\<lambda>_. True) f (filter P t) = sum_rows P f t" for f :: "organizationWalletEntryRow \<Rightarrow> int" and P t
    by (simp add: sum_rows_def)
  then show ?thesis
    using entry_chain_sum [OF entries_okD(1) [OF ledger_invD(2) [OF assms]], of k n]
    by (simp add: wallet_balance_def entries_of_def wallet_part_def)
qed

interpretation audit: audited_ledger wallet_balance db_entries owner entry_delta
  "money_step sha ssha supported" ledger_inv empty_db
  for sha ssha supported
proof unfold_locales
  show "ledger_inv empty_db" by (rule ledger_inv_empty)
  show "db_entries empty_db = []" by (simp add: empty_db_def)
  show "wallet_balance empty_db k n = 0" for k n
    using entries_explain [OF ledger_inv_empty] by (simp add: empty_db_def)
  show "ledger_inv db'" if "ledger_inv db" "money_step sha ssha supported db db'" for db db'
    using money_step_good that by (simp add: good_step_def)
  show "\<exists>es. db_entries db' = db_entries db @ es \<and>
      (\<forall>k d. wallet_balance db' k d = wallet_balance db k d
         + sum_rows (\<lambda>e. owner e = k) (\<lambda>e. entry_delta e d) es)"
    if "ledger_inv db" "money_step sha ssha supported db db'" for db db'
    using money_step_good [OF that] entries_explain [OF that(1)] entries_explain
    by (auto simp: good_step_def)
qed

end
