(* ===== verification/Transactions.thy ===== *)
theory Transactions
  imports Money_System
begin

text \<open>
  The money owner one transaction at a time. A public method commits at most one transaction;
  \<open>tx_step\<close> has one rule per transaction body, with what the method checked before it ran. An
  invariant of the database is proved once per transaction body and lifted to every reachable
  state by \<open>reachable_tx_invariant\<close>.
\<close>

inductive tx_step :: "topup_doc digest \<Rightarrow> service_doc digest \<Rightarrow> money_db \<Rightarrow> money_db \<Rightarrow> bool"
  for sha ssha db db' where
  tx_credit: "creditSettledTopUpTx env s db = Inr (a1, db') \<Longrightarrow> Validate_OrganizationTopUpSettlement s \<Longrightarrow>
    in64 (os_AmountMinor s) \<Longrightarrow> tx_step sha ssha db db'"
| tx_apply_reversal: "applyTopUpReversalTx env v db = Inr (a2, db') \<Longrightarrow>
    Validate_OrganizationWalletReversal v \<Longrightarrow> in64 (ov_AmountMinor v) \<Longrightarrow>
    find (\<lambda>r. py_PaymentID r = ov_PaymentID v) (db_payments db) = Some p \<Longrightarrow>
    py_PaymentPurpose p \<noteq> PaymentPurposeServicePurchase \<Longrightarrow>
    py_PaymentPurpose p \<noteq> PaymentPurposeWalletTopUp \<Longrightarrow> tx_step sha ssha db db'"
| tx_reserve: "reserveCommercialPurchaseTx env i db = Inr (a3, db') \<Longrightarrow> reserve_guard i \<Longrightarrow>
    in64 (ri_AmountMinor i) \<Longrightarrow> tx_step sha ssha db db'"
| tx_finish: "finishReservationTx terminal kind env c db = Inr (a4, db') \<Longrightarrow> tx_step sha ssha db db'"
| tx_topup: "acceptAndPostTx sha env t db = Inr (a5, db') \<Longrightarrow> Validate_ProviderTopUpInput t \<Longrightarrow>
    in64 (ti_AmountMinor t) \<Longrightarrow> (\<forall>r\<in>set (ti_KnownReversals t). in64 (ov_AmountMinor r)) \<Longrightarrow>
    tx_step sha ssha db db'"
| tx_reversal: "acceptTopUpReversalTx sha env v db = Inr (a6, db') \<Longrightarrow> in64 (ov_AmountMinor v) \<Longrightarrow>
    tx_step sha ssha db db'"
| tx_prepare_refund: "prepareTopUpRefundTx sha env f db = Inr (a7, db') \<Longrightarrow> Validate_TopUpRefundInput f \<Longrightarrow>
    in64 (fi_AmountMinor f) \<Longrightarrow> tx_step sha ssha db db'"
| tx_admit_refund: "admitTopUpRefundTx sha f db = Inr (a8, db') \<Longrightarrow> Validate_TopUpRefundInput f \<Longrightarrow>
    tx_step sha ssha db db'"
| tx_release_hold: "releaseTopUpRefundHoldTx sha env f proved db = Inr (a9, db') \<Longrightarrow>
    Validate_TopUpRefundInput f \<Longrightarrow> in64 (fi_AmountMinor f) \<Longrightarrow> tx_step sha ssha db db'"
| tx_payment: "recordPaymentTx p db = Inr (a10, db') \<Longrightarrow> Validate_PaymentSettlement p \<Longrightarrow>
    in64 (ps_GrossAmountMinor p) \<Longrightarrow> in64 (ps_CommissionableAmountMinor p) \<Longrightarrow> tx_step sha ssha db db'"
| tx_refund: "recordRefundTx supported rs db = Inr (a11, db') \<Longrightarrow> Validate_RefundSettlement rs \<Longrightarrow>
    in64 (rs_AmountMinor rs) \<Longrightarrow>
    find (\<lambda>r. py_PaymentID r = rs_PaymentID rs) (db_payments db) = Some p \<Longrightarrow>
    py_PaymentPurpose p \<noteq> PaymentPurposeWalletTopUp \<Longrightarrow> tx_step sha ssha db db'"
| tx_chargeback: "recordChargebackTx supported cs db = Inr (a12, db') \<Longrightarrow>
    Validate_ChargebackSettlement cs \<Longrightarrow> in64 (cs_AmountMinor cs) \<Longrightarrow>
    find (\<lambda>r. py_PaymentID r = cs_PaymentID cs) (db_payments db) = Some p \<Longrightarrow>
    py_PaymentPurpose p \<noteq> PaymentPurposeWalletTopUp \<Longrightarrow> tx_step sha ssha db db'"
| tx_payout: "db' = db\<lparr>db_payoutMethods := x1, db_payoutOperations := x2\<rparr> \<Longrightarrow> tx_step sha ssha db db'"
| tx_service_payment: "acceptServicePaymentTx sha ssha (normalize_service_input si) db = Inr (a13, db') \<Longrightarrow>
    Validate_ServicePaymentInput (normalize_service_input si) \<Longrightarrow>
    in64 (ps_GrossAmountMinor (si_Payment si)) \<Longrightarrow> tx_step sha ssha db db'"
| tx_service_prepare: "prepareServiceOperationTx ssha env op db = Inr (a14, db') \<Longrightarrow>
    Validate_ServiceOperation op \<Longrightarrow> in64 (so_AmountMinor op) \<Longrightarrow> tx_step sha ssha db db'"
| tx_service_admit: "admitServiceOperationTx ssha op db = Inr (a15, db') \<Longrightarrow> Validate_ServiceOperation op \<Longrightarrow>
    tx_step sha ssha db db'"
| tx_service_abandon: "abandonServiceOperationTx ssha op proof db = Inr (a16, db') \<Longrightarrow>
    Validate_ServiceOperation op \<Longrightarrow> tx_step sha ssha db db'"
| tx_service_failed: "resolveFailedServiceOperationTx ssha sf db = Inr (a17, db') \<Longrightarrow>
    Validate_ServiceOperation (sf_Operation sf) \<Longrightarrow> tx_step sha ssha db db'"
| tx_service_effect: "acceptServiceEffectTx ssha e db = Inr (a18, db') \<Longrightarrow> Validate_ServiceEffect e \<Longrightarrow>
    in64 (so_AmountMinor (se_Operation e)) \<Longrightarrow> tx_step sha ssha db db'"
| tx_service_uncertainty: "observeServiceRefundUncertaintyTx ssha si proof db = Inr (a19, db') \<Longrightarrow>
    tx_step sha ssha db db'"
| tx_service_chargeback: "observeServiceChargebackTx ssha order cs db = Inr (a20, db') \<Longrightarrow>
    Validate_ChargebackSettlement cs \<Longrightarrow> in64 (cs_AmountMinor cs) \<Longrightarrow> tx_step sha ssha db db'"
| tx_service_unsplit: "observeServiceUnsplitTx ssha uo db = Inr (a21, db') \<Longrightarrow> tx_step sha ssha db db'"
| tx_service_fee: "observeServiceChannelFeeTx ssha cf db = Inr (a22, db') \<Longrightarrow>
    0 \<le> cf_AmountMinor cf \<Longrightarrow> in64 (cf_AmountMinor cf) \<Longrightarrow> tx_step sha ssha db db'"
| tx_fulfillment: "admitServiceFulfillmentTx ssha env fa db = Inr (a23, db') \<Longrightarrow> tx_step sha ssha db db'"
| tx_review: "admitServiceRefundReviewTx ssha env va db = Inr (a24, db') \<Longrightarrow> tx_step sha ssha db db'"

section \<open>Methods commit at most one transaction\<close>

lemma run_tx_step:
  assumes "\<And>a db'. body db = Inr (a, db') \<Longrightarrow> tx_step sha ssha db db'"
  shows "fst (run_tx flt body db) = db \<or> tx_step sha ssha db (fst (run_tx flt body db))"
  using run_tx_state [of flt body db] assms by metis

lemma accept_reversal_step:
  assumes "in64 (ov_AmountMinor v)"
  shows "fst (AcceptProviderTopUpReversal sha flt env v db) = db
    \<or> tx_step sha ssha db (fst (AcceptProviderTopUpReversal sha flt env v db))"
  using assms run_tx_step [of "acceptTopUpReversalTx sha env v" db sha ssha flt] tx_reversal
  by (auto simp: AcceptProviderTopUpReversal_def)

lemma provider_reversal_step:
  assumes r: "recordProviderReversal sha flt env payment rid kind amount at ref db = (db1, handled, er)"
    and sz: "in64 amount"
  shows "db1 = db \<or> tx_step sha ssha db db1"
proof -
  have step: ?thesis if "AcceptProviderTopUpReversal sha flt env v db = (db1, x)" "ov_AmountMinor v = amount"
    for v x using accept_reversal_step [of v sha flt env db ssha] sz that by auto
  show ?thesis
    using r unfolding recordProviderReversal_def
    by (auto split: option.splits if_splits prod.splits sum.splits dest!: step)
qed

lemma provider_reversal_other:
  assumes "recordProviderReversal sha flt env payment rid kind amount at ref db = (db1, False, None)"
  shows "db1 = db \<and> (\<exists>p. find (\<lambda>r. py_PaymentID r = payment) (db_payments db) = Some p
    \<and> py_PaymentPurpose p \<noteq> PaymentPurposeWalletTopUp)"
  using assms
  by (auto simp: recordProviderReversal_def split: option.splits if_splits prod.splits sum.splits)

lemma service_chargeback_step:
  assumes "in64 (cs_AmountMinor c)"
  shows "fst (ObserveServiceChargeback ssha flt order c db) = db
    \<or> tx_step sha ssha db (fst (ObserveServiceChargeback ssha flt order c db))"
  using assms run_tx_step [of "observeServiceChargebackTx ssha order c" db sha ssha flt] tx_service_chargeback
  by (auto simp: ObserveServiceChargeback_def)

lemma record_service_chargeback_step:
  assumes "recordServiceChargeback ssha flt c db = (db1, handled, er)" "in64 (cs_AmountMinor c)"
  shows "db1 = db \<or> tx_step sha ssha db db1"
proof (cases "db1 = db")
  case False
  have "\<exists>order. db1 = fst (ObserveServiceChargeback ssha flt order c db)"
    using assms(1) False
    by (auto simp: recordServiceChargeback_def split: option.splits prod.splits sum.splits)
      (metis fst_conv)+
  then show ?thesis using service_chargeback_step assms(2) by metis
qed simp

lemma record_service_chargeback_other:
  "recordServiceChargeback ssha flt c db = (db1, False, er) \<Longrightarrow> db1 = db"
  by (auto simp: recordServiceChargeback_def split: option.splits prod.splits sum.splits)

lemma notify_state: "fst (notify obs rec f db) = db \<or> fst (notify obs rec f db) = fst (rec db)"
  by (auto simp: notify_def split: option.splits prod.splits sum.splits)

lemma record_refund_step:
  assumes "in64 (rs_AmountMinor i)"
  shows "fst (RecordRefundSettlement sha supported flt env i db) = db
    \<or> tx_step sha ssha db (fst (RecordRefundSettlement sha supported flt env i db))"
proof -
  obtain db1 handled er where r: "recordProviderReversal sha flt env (rs_PaymentID i) (rs_RefundID i)
      WalletReversalRefund (rs_AmountMinor i) (rs_OccurredAt i) (rs_ProviderReference i) db = (db1, handled, er)"
    by (metis prod_cases3)
  note s = provider_reversal_step [OF r assms, of ssha]
  have "Validate_RefundSettlement i \<Longrightarrow> handled = False \<Longrightarrow> er = None \<Longrightarrow>
      fst (run_tx flt (recordRefundTx supported i) db) = db
      \<or> tx_step sha ssha db (fst (run_tx flt (recordRefundTx supported i) db))"
    using r provider_reversal_other assms by (intro run_tx_step) (blast intro: tx_refund)
  moreover have "handled = False \<Longrightarrow> er = None \<Longrightarrow> db1 = db" using r provider_reversal_other by blast
  ultimately show ?thesis
    using s by (auto simp: RecordRefundSettlement_def r split: option.splits bool.splits)
qed

lemma record_chargeback_step:
  assumes "in64 (cs_AmountMinor i)"
  shows "fst (RecordChargebackSettlement sha ssha supported flt env i db) = db
    \<or> tx_step sha ssha db (fst (RecordChargebackSettlement sha ssha supported flt env i db))"
proof -
  obtain db1 handled er where r: "recordProviderReversal sha flt env (cs_PaymentID i) (cs_ChargebackID i)
      WalletReversalChargeback (cs_AmountMinor i) (cs_OccurredAt i) (cs_ProviderReference i) db = (db1, handled, er)"
    by (metis prod_cases3)
  note s = provider_reversal_step [OF r assms, of ssha]
  obtain db2 handled2 er2 where c: "recordServiceChargeback ssha flt i db = (db2, handled2, er2)"
    by (metis prod_cases3)
  note t = record_service_chargeback_step [OF c assms, of sha]
  have "Validate_ChargebackSettlement i \<Longrightarrow> handled = False \<Longrightarrow> er = None \<Longrightarrow>
      fst (run_tx flt (recordChargebackTx supported i) db) = db
      \<or> tx_step sha ssha db (fst (run_tx flt (recordChargebackTx supported i) db))"
    using r provider_reversal_other assms by (intro run_tx_step) (blast intro: tx_chargeback)
  moreover have "handled = False \<Longrightarrow> er = None \<Longrightarrow> db1 = db" using r provider_reversal_other by blast
  moreover have "handled2 = False \<Longrightarrow> db2 = db" using c record_service_chargeback_other by blast
  ultimately show ?thesis
    using s t by (auto simp: RecordChargebackSettlement_def r c split: option.splits bool.splits)
qed

lemma apply_reversal_step:
  assumes "in64 (ov_AmountMinor v)"
  shows "fst (ApplyTopUpReversal sha flt env v db) = db
    \<or> tx_step sha ssha db (fst (ApplyTopUpReversal sha flt env v db))"
proof -
  have "fst (run_tx flt (applyTopUpReversalTx env v) db) = db
      \<or> tx_step sha ssha db (fst (run_tx flt (applyTopUpReversalTx env v) db))"
    if "Validate_OrganizationWalletReversal v"
      "find (\<lambda>r. py_PaymentID r = ov_PaymentID v) (db_payments db) = Some p"
      "py_PaymentPurpose p \<noteq> PaymentPurposeServicePurchase" "py_PaymentPurpose p \<noteq> PaymentPurposeWalletTopUp"
    for p using that assms by (intro run_tx_step) (auto intro: tx_apply_reversal)
  then show ?thesis
    using accept_reversal_step [OF assms, of sha flt env db ssha]
    by (auto simp: ApplyTopUpReversal_def split: option.splits prod.splits sum.splits)
qed

lemma reserve_step:
  assumes "in64 (ri_AmountMinor i)"
  shows "fst (ReserveCommercialPurchase flt env i db) = db
    \<or> tx_step sha ssha db (fst (ReserveCommercialPurchase flt env i db))"
proof -
  have "fst (run_tx flt (reserveCommercialPurchaseTx env i) db) = db
      \<or> tx_step sha ssha db (fst (run_tx flt (reserveCommercialPurchaseTx env i) db))" if "reserve_guard i"
    using that assms by (intro run_tx_step) (auto intro: tx_reserve)
  then show ?thesis
    by (auto simp: ReserveCommercialPurchase_def split: option.splits prod.splits sum.splits)
qed

lemma unsplit_step:
  "fst (ObserveServiceUnsplit ssha flt uo db) = db
   \<or> tx_step sha ssha db (fst (ObserveServiceUnsplit ssha flt uo db))"
proof -
  have "fst (run_tx flt (observeServiceUnsplitTx ssha i) db) = db
      \<or> tx_step sha ssha db (fst (run_tx flt (observeServiceUnsplitTx ssha i) db))" for i
    by (intro run_tx_step) (auto intro: tx_service_unsplit)
  then show ?thesis
    by (auto simp: ObserveServiceUnsplit_def split: prod.splits sum.splits) (metis fst_conv)+
qed

lemma payout_step:
  "fst (CreatePayoutMethod flt m db) = db \<or> tx_step sha ssha db (fst (CreatePayoutMethod flt m db))"
  "fst (CreatePayoutMethodIdempotent flt env m key fp db) = db
   \<or> tx_step sha ssha db (fst (CreatePayoutMethodIdempotent flt env m key fp db))"
proof -
  have po: "tx_step sha ssha db (db\<lparr>db_payoutMethods := x\<rparr>)"
    "tx_step sha ssha db (db\<lparr>db_payoutMethods := x, db_payoutOperations := y\<rparr>)" "tx_step sha ssha db db" for x y
    by (rule tx_payout [where ?x2.0 = "db_payoutOperations db"], simp)
      (rule tx_payout, rule refl,
        rule tx_payout [where ?x1.0 = "db_payoutMethods db" and ?x2.0 = "db_payoutOperations db"], simp)
  show "fst (CreatePayoutMethod flt m db) = db \<or> tx_step sha ssha db (fst (CreatePayoutMethod flt m db))"
    unfolding CreatePayoutMethod_def
    by (simp, intro impI run_tx_step) (auto simp: po split: option.splits)
  show "fst (CreatePayoutMethodIdempotent flt env m key fp db) = db
   \<or> tx_step sha ssha db (fst (CreatePayoutMethodIdempotent flt env m key fp db))"
    unfolding CreatePayoutMethodIdempotent_def
    by (simp, intro impI run_tx_step)
      (auto simp: po createPayoutMethodIdempotentTx_def split: option.splits if_splits)
qed

theorem money_step_tx:
  assumes "money_step sha ssha supported db db'"
  shows "db' = db \<or> tx_step sha ssha db db'"
  using assms
proof (cases rule: money_step.cases)
  case (step_credit s flt env)
  then show ?thesis by (auto simp: CreditSettledTopUp_def intro!: run_tx_step tx_credit)
next
  case (step_apply_reversal v flt env)
  then show ?thesis using apply_reversal_step by simp
next
  case (step_reserve i flt env)
  then show ?thesis using reserve_step by simp
next
  case (step_commit flt env c)
  then show ?thesis
    by (auto simp: CommitCommercialPurchase_def finishReservation_def intro!: run_tx_step intro: tx_finish)
next
  case (step_release flt env l)
  then show ?thesis
    by (auto simp: ReleaseCommercialPurchase_def finishReservation_def intro!: run_tx_step intro: tx_finish)
next
  case (step_accept_topup t flt env)
  then show ?thesis
    by (auto simp: AcceptAndPostProviderTopUp_def intro!: run_tx_step intro: tx_topup)
next
  case (step_accept_reversal v flt env)
  then show ?thesis using accept_reversal_step by simp
next
  case (step_prepare_refund f flt env)
  then show ?thesis by (auto simp: PrepareTopUpRefund_def intro!: run_tx_step intro: tx_prepare_refund)
next
  case (step_admit_refund flt f)
  then show ?thesis by (auto simp: AdmitTopUpRefund_def intro!: run_tx_step intro: tx_admit_refund)
next
  case (step_release_hold f flt env proved)
  then show ?thesis by (auto simp: ReleaseTopUpRefundHold_def intro!: run_tx_step intro: tx_release_hold)
next
  case (step_record_payment p obs_p flt)
  have "fst (RecordPaymentSettlement flt p db) = db
      \<or> tx_step sha ssha db (fst (RecordPaymentSettlement flt p db))"
    using step_record_payment by (auto simp: RecordPaymentSettlement_def intro!: run_tx_step intro: tx_payment)
  then show ?thesis
    using step_record_payment notify_state by (metis RecordPaymentSettlementAndNotify_def)
next
  case (step_record_refund rs obs_r flt env)
  then show ?thesis
    using record_refund_step notify_state by (metis RecordRefundSettlementAndNotify_def)
next
  case (step_record_chargeback cs obs_c flt env)
  then show ?thesis
    using record_chargeback_step notify_state by (metis RecordChargebackSettlementAndNotify_def)
next
  case (step_service_chargeback cs flt order)
  then show ?thesis using service_chargeback_step by simp
next
  case (step_service_unsplit flt uo)
  then show ?thesis using unsplit_step by simp
next
  case (step_service_effect e flt)
  then show ?thesis
    by (auto simp: AcceptServiceEffect_def Let_def normalize_effect_def intro!: run_tx_step intro: tx_service_effect)
next
  case (step_service_payment si flt)
  then show ?thesis
    by (auto simp: AcceptServicePayment_def Let_def intro!: run_tx_step intro: tx_service_payment)
next
  case (step_service_prepare op flt env)
  then show ?thesis by (auto simp: PrepareServiceOperation_def intro!: run_tx_step intro: tx_service_prepare)
next
  case (step_service_fee cf flt)
  then show ?thesis
    by (auto simp: ObserveServiceChannelFee_def Validate_ServiceChannelFee_def intro!: run_tx_step)
      (auto intro!: tx_service_fee)
qed (use payout_step in \<open>auto simp: AdmitServiceOperation_def AbandonUndispatchedServiceOperation_def
    ResolveFailedServiceOperation_def Validate_ServiceOperationFailure_def
    ObserveServiceRefundUncertainty_def AdmitServiceFulfillment_def AdmitServiceRefundReview_def
    intro!: run_tx_step
    intro: tx_service_admit tx_service_abandon tx_service_failed tx_service_uncertainty tx_fulfillment tx_review\<close>)

section \<open>Invariants\<close>

theorem reachable_tx_invariant:
  assumes "reachable (money_step sha ssha supported) empty_db db" "I empty_db"
    "\<And>db db'. ledger_inv db \<Longrightarrow> I db \<Longrightarrow> tx_step sha ssha db db' \<Longrightarrow> I db'"
  shows "I db"
proof -
  have "ledger_inv db \<and> I db"
    using assms(1)
  proof (rule reachable_invariant)
    fix s s'
    assume s: "ledger_inv s \<and> I s" "money_step sha ssha supported s s'"
    then have "ledger_inv s'" using money_step_good [OF conjunct1 [OF s(1)] s(2)] by (simp add: good_step_def)
    moreover have "I s'" using money_step_tx [OF s(2)] s(1) assms(3) by blast
    ultimately show "ledger_inv s' \<and> I s'" ..
  qed (use assms(2) ledger_inv_empty in simp)
  then show ?thesis ..
qed

text \<open>What every reversal keeps, a sequence of reversals keeps.\<close>

lemma acceptReversals_keeps:
  assumes "acceptReversals sha env n rs db = Inr (out, db')" "\<forall>r\<in>set rs. in64 (ov_AmountMinor r)"
    "ledger_inv db" "I db"
    "\<And>env r a db db'. acceptTopUpReversalTx sha env r db = Inr (a, db') \<Longrightarrow> in64 (ov_AmountMinor r) \<Longrightarrow>
       ledger_inv db \<Longrightarrow> I db \<Longrightarrow> I db'"
  shows "I db'"
  using assms(1-4)
proof (induction rs arbitrary: n db out)
  case Nil
  then show ?case by simp
next
  case (Cons r rs)
  then obtain x db1 xs where 1: "acceptTopUpReversalTx sha (sub_env n env) r db = Inr (x, db1)"
    "acceptReversals sha env (Suc n) rs db1 = Inr (xs, db')"
    by (auto split: sum.splits)
  have "ledger_inv db1"
    using accept_reversal_good [OF Cons.prems(3) _ 1(1)] Cons.prems(2) by (simp add: good_step_def)
  moreover have "I db1" using assms(5) [OF 1(1)] Cons.prems by simp
  ultimately show ?case using Cons.IH [OF 1(2)] Cons.prems(2) by simp
qed

end
