(* ===== verification/Frames.thy ===== *)
theory Frames
  imports Transactions
begin

text \<open>
  What each transaction leaves alone. The tables fall into the wallet's working tables (wallets,
  entries, reservations, decisions, holds, payout methods) and the recorded facts. The reservation
  and refund-hold transactions change no fact; the others change the facts their case names.
\<close>

definition fact_tables where
  "fact_tables db =
     (db_payments db, db_refunds db, db_chargebacks db, db_settlements db, db_reversals db, db_topups db,
      db_receipts db, db_excess db, db_claims db, db_services db, db_serviceReservations db,
      db_serviceEffects db, db_fulfillments db, db_reviews db)"

lemma reserve_facts:
  assumes "reserveCommercialPurchaseTx env i db = Inr (a, db')" "reserve_guard i" "in64 (ri_AmountMinor i)"
    "wallets_ok db"
  shows "fact_tables db' = fact_tables db"
proof -
  have amt: "amount_ok (ri_AmountMinor i)"
    using assms by (auto simp: reserve_guard_def amount_ok_def in64_unfold)
  from assms(4) amt assms(1) show ?thesis
  proof (cases rule: reserve_cases)
    case (decided w db1)
    from assms(4) amt decided(2,3) show ?thesis
      by (cases rule: reserve_funds_cases) (simp_all add: fact_tables_def)
  qed simp
qed

lemma finish_facts:
  assumes "finishReservationTx terminal kind env i db = Inr (a, db')" "wallets_ok db"
    "\<forall>r\<in>set (db_reservations db). amount_ok (rv_AmountMinor r)"
  shows "fact_tables db' = fact_tables db"
  using assms(2,3,1) by (cases rule: finish_cases) (simp_all add: fact_tables_def)

lemma refund_amount_ok:
  "Validate_TopUpRefundInput f \<Longrightarrow> in64 (fi_AmountMinor f) \<Longrightarrow> amount_ok (fi_AmountMinor f)"
  by (auto simp: Validate_TopUpRefundInput_def amount_ok_def in64_unfold)

lemma prepare_facts:
  assumes "prepareTopUpRefundTx sha env f db = Inr (a, db')" "amount_ok (fi_AmountMinor f)" "wallets_ok db"
  shows "fact_tables db' = fact_tables db"
  using assms(3,2,1) by (cases rule: prepare_cases) (simp_all add: fact_tables_def)

lemma release_facts:
  assumes "releaseTopUpRefundHoldTx sha env f pr db = Inr (a, db')" "amount_ok (fi_AmountMinor f)" "wallets_ok db"
  shows "fact_tables db' = fact_tables db"
  using assms(3,2,1) by (cases rule: release_cases) (simp_all add: fact_tables_def)

lemma admit_facts:
  assumes "admitTopUpRefundTx sha f db = Inr (a, db')"
  shows "fact_tables db' = fact_tables db"
  using assms by (cases rule: admit_cases) (simp_all add: fact_tables_def)

text \<open>What the recording of payments, refunds and chargebacks adds.\<close>

lemma record_payment_Inr:
  assumes "recordPaymentTx p db = Inr (a, db')"
  obtains (same) "db' = db"
  | (added) row where "\<forall>x\<in>set (db_payments db). py_PaymentID x \<noteq> ps_PaymentID p"
      "py_PaymentID row = ps_PaymentID p" "py_PaymentPurpose row = []"
      "py_CommissionableAmountMinor row = ps_CommissionableAmountMinor p"
      "db' = db\<lparr>db_payments := db_payments db @ [row]\<rparr>"
proof (cases "find (\<lambda>r. py_PaymentID r = ps_PaymentID p) (db_payments db)")
  case (Some x)
  with assms have "db' = db" by (auto simp: recordPaymentTx_def Let_def split: if_splits)
  then show ?thesis by (rule same)
next
  case None
  with assms show ?thesis
    by (intro added)
      (auto simp: recordPaymentTx_def Let_def create_row_Some payment_clash_def split: option.splits)
qed

lemma record_refund_Inr:
  assumes "recordRefundTx supported i db = Inr (a, db')"
  obtains (same) "db' = db"
  | (added) p row refunded charged where
      "find (\<lambda>r. py_PaymentID r = rs_PaymentID i) (db_payments db) = Some p"
      "py_PaymentPurpose p \<noteq> PaymentPurposeServicePurchase"
      "ordinary_reversed (rs_PaymentID i) db = Some (refunded, charged)"
      "rs_AmountMinor i \<le> sub64 (sub64 (py_CommissionableAmountMinor p) refunded) charged"
      "row = \<lparr>rf_RefundID = rs_RefundID i, rf_PaymentID = rs_PaymentID i,
              rf_AmountMinor = rs_AmountMinor i, rf_OccurredAt = NormalizeTimestamp (rs_OccurredAt i),
              rf_ProviderReference = rs_ProviderReference i\<rparr>"
      "\<forall>x\<in>set (db_refunds db). \<not> refund_clash row x" "db' = db\<lparr>db_refunds := db_refunds db @ [row]\<rparr>"
proof (cases "find (\<lambda>r. rf_RefundID r = rs_RefundID i) (db_refunds db)")
  case (Some x)
  with assms have "db' = db" by (auto simp: recordRefundTx_def Let_def split: option.splits if_splits)
  then show ?thesis by (rule same)
next
  case None
  with assms show ?thesis
    by (auto simp: recordRefundTx_def create_row_Some split: option.splits if_splits prod.splits
        intro!: added [OF _ _ _ _ refl])
qed

lemma record_chargeback_Inr:
  assumes "recordChargebackTx supported i db = Inr (a, db')"
  obtains (same) "db' = db"
  | (added) p row refunded charged where
      "find (\<lambda>r. py_PaymentID r = cs_PaymentID i) (db_payments db) = Some p"
      "py_PaymentPurpose p \<noteq> PaymentPurposeServicePurchase"
      "ordinary_reversed (cs_PaymentID i) db = Some (refunded, charged)"
      "cs_AmountMinor i \<le> sub64 (sub64 (py_CommissionableAmountMinor p) refunded) charged"
      "row = \<lparr>cb_ChargebackID = cs_ChargebackID i, cb_PaymentID = cs_PaymentID i,
              cb_AmountMinor = cs_AmountMinor i, cb_OccurredAt = NormalizeTimestamp (cs_OccurredAt i),
              cb_ProviderReference = cs_ProviderReference i\<rparr>"
      "\<forall>x\<in>set (db_chargebacks db). \<not> chargeback_clash row x"
      "db' = db\<lparr>db_chargebacks := db_chargebacks db @ [row]\<rparr>"
proof (cases "find (\<lambda>r. cb_ChargebackID r = cs_ChargebackID i) (db_chargebacks db)")
  case (Some x)
  with assms have "db' = db" by (auto simp: recordChargebackTx_def Let_def split: option.splits if_splits)
  then show ?thesis by (rule same)
next
  case None
  with assms show ?thesis
    by (auto simp: recordChargebackTx_def create_row_Some split: option.splits if_splits prod.splits
        intro!: added [OF _ _ _ _ refl])
qed

text \<open>An accepted service payment: a replay, or a new row with its payment.\<close>

lemma accept_service_Inr:
  assumes "acceptServicePaymentTx sha ssha i db = Inr (a, db')"
  obtains (replay) c claims services where
      "claims = create_or_ignore claim_clash
         \<lparr>cc_ClaimID = ClaimID sha (si_Binding i), cc_PaymentID = ps_PaymentID (si_Payment i),
          cc_Purpose = PaymentPurposeServicePurchase\<rparr> (db_claims db)"
      "c \<in> set claims" "cc_ClaimID c = ClaimID sha (si_Binding i)"
      "cc_PaymentID c = ps_PaymentID (si_Payment i)" "cc_Purpose c = PaymentPurposeServicePurchase"
      "services = create_or_ignore service_clash (service_seed sha ssha i) (db_services db)"
      "db' = db\<lparr>db_claims := claims, db_services := services\<rparr>"
  | (added) c claims services where
      "claims = create_or_ignore claim_clash
         \<lparr>cc_ClaimID = ClaimID sha (si_Binding i), cc_PaymentID = ps_PaymentID (si_Payment i),
          cc_Purpose = PaymentPurposeServicePurchase\<rparr> (db_claims db)"
      "c \<in> set claims" "cc_ClaimID c = ClaimID sha (si_Binding i)"
      "cc_PaymentID c = ps_PaymentID (si_Payment i)" "cc_Purpose c = PaymentPurposeServicePurchase"
      "services = create_or_ignore service_clash (service_seed sha ssha i) (db_services db)"
      "\<forall>x\<in>set (db_payments db). py_PaymentID x \<noteq> ps_PaymentID (si_Payment i)"
      "db' = update_service (si_OrderID i) (\<lambda>r. r\<lparr>sp_Receipt := Bytes a\<rparr>)
         (db\<lparr>db_claims := claims, db_services := services,
             db_payments := db_payments db @ [paymentRowFromFact (si_Payment i)]\<rparr>)"
proof -
  let ?claims = "create_or_ignore claim_clash
     \<lparr>cc_ClaimID = ClaimID sha (si_Binding i), cc_PaymentID = ps_PaymentID (si_Payment i),
      cc_Purpose = PaymentPurposeServicePurchase\<rparr> (db_claims db)"
  let ?services = "create_or_ignore service_clash (service_seed sha ssha i) (db_services db)"
  let ?db2 = "db\<lparr>db_claims := ?claims, db_services := ?services\<rparr>"
  from assms obtain dbc where c: "claimChannelPayment sha (si_Binding i) (ps_PaymentID (si_Payment i))
      PaymentPurposeServicePurchase db = Inr dbc"
    by (auto simp: acceptServicePaymentTx_def split: sum.splits)
  then obtain c where dbc: "dbc = db\<lparr>db_claims := ?claims\<rparr>" and claim: "c \<in> set ?claims"
    "cc_ClaimID c = ClaimID sha (si_Binding i)" "cc_PaymentID c = ps_PaymentID (si_Payment i)"
    "cc_Purpose c = PaymentPurposeServicePurchase"
    by (auto elim!: claimChannelPayment_Inr)
  from assms obtain saved where saved: "find (\<lambda>r. sp_OrderID r = si_OrderID i) ?services = Some saved"
    by (auto simp: acceptServicePaymentTx_def c dbc Let_def split: option.splits)
  show ?thesis
  proof (cases "sp_Receipt saved = NoBytes")
    case True
    with assms saved find_SomeD [OF saved] show ?thesis
      by (intro added [OF refl claim refl])
        (auto simp: acceptServicePaymentTx_def c dbc Let_def create_row_Some payment_clash_def
          paymentRowFromFact_def split: option.splits if_splits)
  next
    case False
    with assms saved have "db' = ?db2"
      by (auto simp: acceptServicePaymentTx_def c dbc Let_def split: sum.splits if_splits)
    then show ?thesis by (intro replay [OF refl claim refl])
  qed
qed


text \<open>
  The transactions by what they change: no fact, the facts of one top-up or payment, or only rows
  of service payments.
\<close>

lemma tx_step_kinds:
  assumes step: "tx_step sha ssha db db'" and inv: "ledger_inv db"
  obtains
    (facts) "fact_tables db' = fact_tables db"
  | (credit) env s a where "creditSettledTopUpTx env s db = Inr (a, db')"
      "Validate_OrganizationTopUpSettlement s" "in64 (os_AmountMinor s)"
  | (legacy) env v a p where "applyTopUpReversalTx env v db = Inr (a, db')"
      "Validate_OrganizationWalletReversal v" "in64 (ov_AmountMinor v)"
      "find (\<lambda>r. py_PaymentID r = ov_PaymentID v) (db_payments db) = Some p"
      "py_PaymentPurpose p \<noteq> PaymentPurposeServicePurchase" "py_PaymentPurpose p \<noteq> PaymentPurposeWalletTopUp"
  | (topup) env t a where "acceptAndPostTx sha env t db = Inr (a, db')" "Validate_ProviderTopUpInput t"
      "in64 (ti_AmountMinor t)" "\<forall>r\<in>set (ti_KnownReversals t). in64 (ov_AmountMinor r)"
  | (reversal) env v a where "acceptTopUpReversalTx sha env v db = Inr (a, db')" "in64 (ov_AmountMinor v)"
  | (payment) p a where "recordPaymentTx p db = Inr (a, db')" "Validate_PaymentSettlement p"
      "in64 (ps_GrossAmountMinor p)" "in64 (ps_CommissionableAmountMinor p)"
  | (refund) supported rs a p where "recordRefundTx supported rs db = Inr (a, db')"
      "Validate_RefundSettlement rs" "in64 (rs_AmountMinor rs)"
      "find (\<lambda>r. py_PaymentID r = rs_PaymentID rs) (db_payments db) = Some p"
      "py_PaymentPurpose p \<noteq> PaymentPurposeWalletTopUp"
  | (chargeback) supported cs a p where "recordChargebackTx supported cs db = Inr (a, db')"
      "Validate_ChargebackSettlement cs" "in64 (cs_AmountMinor cs)"
      "find (\<lambda>r. py_PaymentID r = cs_PaymentID cs) (db_payments db) = Some p"
      "py_PaymentPurpose p \<noteq> PaymentPurposeWalletTopUp"
  | (service_payment) i a where "acceptServicePaymentTx sha ssha i db = Inr (a, db')"
      "Validate_ServicePaymentInput i" "in64 (ps_GrossAmountMinor (si_Payment i))"
  | (service) "wallet_tables db' = wallet_tables db" "identity_tables db' = identity_tables db"
proof -
  note I = ledger_invD(1,9) [OF inv]
  from step show thesis
  proof cases
    case tx_reserve
    then show thesis by (intro facts reserve_facts I)
  next
    case tx_finish
    then show thesis by (intro facts finish_facts I)
  next
    case tx_prepare_refund
    then show thesis by (intro facts prepare_facts refund_amount_ok I)
  next
    case tx_release_hold
    then show thesis by (intro facts release_facts refund_amount_ok I)
  next
    case tx_admit_refund
    then show thesis by (intro facts admit_facts)
  next
    case tx_payout
    then show thesis by (intro facts) (simp add: fact_tables_def)
  next
    case (tx_service_payment si a13)
    then show thesis by (intro service_payment [OF tx_service_payment(1,2)]) (simp add: normalize_service_input_def)
  next
    case tx_credit
    then show thesis by (rule credit)
  next
    case tx_apply_reversal
    then show thesis by (rule legacy)
  next
    case tx_topup
    then show thesis by (rule topup)
  next
    case tx_reversal
    then show thesis by (rule reversal)
  next
    case tx_payment
    then show thesis by (rule payment)
  next
    case tx_refund
    then show thesis by (rule refund)
  next
    case tx_chargeback
    then show thesis by (rule chargeback)
  qed (rule service; erule service_frames service_identities)+
qed

section \<open>Payments and top-up bindings are kept\<close>

text \<open>
  Payments are only added, and a provider top-up keeps everything but its receipt. So the lookup
  that every reversal and refund starts with gives the same settlement forever.
\<close>

definition topup_identity where
  "topup_identity t =
     (pt_ClaimID t, pt_PaymentID t, pt_CommercialOrderID t, pt_OrganizationID t, pt_Fingerprint t)"

definition bindings_kept :: "money_db \<Rightarrow> money_db \<Rightarrow> bool" where
  "bindings_kept db db' \<longleftrightarrow>
     (\<exists>u. map topup_identity (db_topups db') = map topup_identity (db_topups db) @ u)
     \<and> (\<exists>u. db_payments db' = db_payments db @ u)"

lemma bindings_kept_refl [simp]: "bindings_kept db db"
  by (simp add: bindings_kept_def)

lemma bindings_kept_trans: "bindings_kept a b \<Longrightarrow> bindings_kept b c \<Longrightarrow> bindings_kept a c"
  by (auto simp: bindings_kept_def)

lemma bindings_kept_facts: "fact_tables db' = fact_tables db \<Longrightarrow> bindings_kept db db'"
  by (simp add: bindings_kept_def fact_tables_def)

lemma bindings_kept_identity: "identity_tables db' = identity_tables db \<Longrightarrow> bindings_kept db db'"
  by (simp add: bindings_kept_def identity_tables_def)

lemma find_kept:
  assumes "map f t' = map f t @ u" "find P t = Some r" "\<And>x y. f x = f y \<Longrightarrow> P x = P y"
  obtains r' where "find P t' = Some r'" "f r' = f r"
proof -
  have "\<exists>r'. find P t' = Some r' \<and> f r' = f r"
    using assms(1,2)
  proof (induction t arbitrary: t')
    case (Cons x t)
    then obtain y s where y: "t' = y # s" "f y = f x" "map f s = map f t @ u" by (cases t') auto
    show ?case
    proof (cases "P x")
      case True
      then show ?thesis using Cons.prems y assms(3) [OF y(2)] by auto
    next
      case False
      then show ?thesis using Cons.IH [OF y(3)] Cons.prems y assms(3) [OF y(2)] by auto
    qed
  qed simp
  then show ?thesis using that by blast
qed

lemma lockProviderTopUp_kept:
  assumes "lockProviderTopUp p db = Inr st" "bindings_kept db db'" "history_kept db db'"
  shows "lockProviderTopUp p db' = Inr st"
proof -
  from assms(1) obtain c q where c: "find (\<lambda>r. pt_PaymentID r = p) (db_topups db) = Some c"
    and q: "find (\<lambda>r. py_PaymentID r = p) (db_payments db) = Some q"
    and st: "find (\<lambda>r. ts_PaymentID r = p) (db_settlements db) = Some st"
    and ok: "py_PaymentPurpose q = PaymentPurposeWalletTopUp" "ts_AmountMinor st = py_GrossAmountMinor q"
      "ts_OrganizationID st = pt_OrganizationID c" "ts_CommercialOrderID st = pt_CommercialOrderID c"
    by (auto simp: lockProviderTopUp_def split: option.splits if_splits)
  from assms(2) obtain u where "map topup_identity (db_topups db') = map topup_identity (db_topups db) @ u"
    by (auto simp: bindings_kept_def)
  from this c obtain c' where c': "find (\<lambda>r. pt_PaymentID r = p) (db_topups db') = Some c'"
    "topup_identity c' = topup_identity c" by (rule find_kept) (auto simp: topup_identity_def)
  have q': "find (\<lambda>r. py_PaymentID r = p) (db_payments db') = Some q"
    using assms(2) q by (auto simp: bindings_kept_def find_append)
  have st': "find (\<lambda>r. ts_PaymentID r = p) (db_settlements db') = Some st"
    using assms(3) st by (auto simp: history_kept_def find_append)
  show ?thesis using ok c'(2) by (simp add: lockProviderTopUp_def c'(1) q' st' topup_identity_def)
qed

lemma accept_reversal_frame:
  assumes run: "acceptTopUpReversalTx sha env i db = Inr (out, db')" and sz: "in64 (ov_AmountMinor i)"
    and inv: "ledger_inv db"
  shows "identity_tables db' = identity_tables db"
  using ledger_invD(1) [OF inv] conjunct1 [OF reversal_amounts [OF acceptTopUpReversalTx_valid [OF run] sz]]
    ledger_invD(8) [OF inv] run
  by (cases rule: accept_reversal_cases) (simp_all add: identity_tables_def)

lemma acceptReversals_frame:
  assumes "acceptReversals sha env n rs db = Inr (out, db')" "\<forall>r\<in>set rs. in64 (ov_AmountMinor r)" "ledger_inv db"
  shows "identity_tables db' = identity_tables db"
  using acceptReversals_keeps [OF assms, of "\<lambda>x. identity_tables x = identity_tables db"] accept_reversal_frame by simp

lemma credit_frame:
  assumes "creditSettledTopUpTx env s db = Inr (a, db')" "Validate_OrganizationTopUpSettlement s"
    "in64 (os_AmountMinor s)" "wallets_ok db"
  shows "identity_tables db' = identity_tables db"
proof -
  have amt: "amount_ok (os_AmountMinor s)"
    using assms by (auto simp: Validate_OrganizationTopUpSettlement_def amount_ok_def in64_unfold)
  from assms(4) amt assms(1) show ?thesis
    by (cases rule: credit_cases) (simp_all add: identity_tables_def)
qed

lemma apply_reversal_frame:
  assumes "applyTopUpReversalTx env v db = Inr (a, db')" "Validate_OrganizationWalletReversal v"
    "in64 (ov_AmountMinor v)" "ledger_inv db"
  shows "identity_tables db' = identity_tables db"
  using ledger_invD(1) [OF assms(4)] conjunct1 [OF reversal_amounts [OF assms(2,3)]]
    ledger_invD(8,10) [OF assms(4)] assms(1)
  by (cases rule: apply_reversal_cases) (simp_all add: identity_tables_def)

lemma topup_claimed_kept: "bindings_kept db (topup_claimed sha i db)"
  by (simp add: bindings_kept_def topup_claimed_def create_or_ignore_def)

lemma accept_topup_bindings:
  assumes run: "acceptAndPostTx sha env t db = Inr (out, db')" and v: "Validate_ProviderTopUpInput t"
    and sz: "in64 (ti_AmountMinor t)" "\<forall>r\<in>set (ti_KnownReversals t). in64 (ov_AmountMinor r)"
    and inv: "ledger_inv db"
  shows "bindings_kept db db'"
  using inv v sz(1) run
proof (cases rule: accept_topup_path)
  case (replay rs c cl)
  then show ?thesis
    using acceptReversals_frame [OF replay(2) sz(2)] topup_claimed_kept
    by (blast intro: bindings_kept_trans bindings_kept_identity dest: good_step_def [THEN iffD1])
next
  case (posted w w' es row rs db4 db5 cl)
  have "bindings_kept (topup_claimed sha t db) db4" by (simp add: bindings_kept_def posted(5) topup_claimed_def)
  moreover have "bindings_kept db4 db5"
    using acceptReversals_frame [OF posted(7) sz(2)] posted(6) bindings_kept_identity by (simp add: good_step_def)
  moreover have "bindings_kept db5 db'"
    by (auto simp: bindings_kept_def posted(12) update_rows_def topup_identity_def intro!: exI [of _ "[]"])
  ultimately show ?thesis using topup_claimed_kept by (blast intro: bindings_kept_trans)
qed

lemma service_payment_bindings:
  assumes "acceptServicePaymentTx sha ssha i db = Inr (a, db')"
  shows "bindings_kept db db'"
  using assms by (cases rule: accept_service_Inr) (simp_all add: bindings_kept_def update_service_def)

lemma tx_step_bindings:
  assumes step: "tx_step sha ssha db db'" and inv: "ledger_inv db"
  shows "bindings_kept db db'"
proof -
  from step inv show ?thesis
  proof (cases rule: tx_step_kinds)
    case facts
    then show ?thesis by (rule bindings_kept_facts)
  next
    case credit
    then show ?thesis using credit_frame ledger_invD(1) [OF inv] bindings_kept_identity by blast
  next
    case legacy
    then show ?thesis using apply_reversal_frame inv bindings_kept_identity by blast
  next
    case topup
    then show ?thesis using accept_topup_bindings inv by blast
  next
    case reversal
    then show ?thesis using accept_reversal_frame inv bindings_kept_identity by blast
  next
    case payment
    then show ?thesis by (auto simp: bindings_kept_def elim!: record_payment_Inr)
  next
    case refund
    then show ?thesis by (auto simp: bindings_kept_def elim!: record_refund_Inr)
  next
    case chargeback
    then show ?thesis by (auto simp: bindings_kept_def elim!: record_chargeback_Inr)
  next
    case service_payment
    then show ?thesis using service_payment_bindings by blast
  next
    case service
    then show ?thesis using bindings_kept_identity by blast
  qed
qed

end
