(* ===== verification/Scenarios.thy ===== *)
theory Scenarios
  imports Money_System
begin

text \<open>
  A concrete run of the money owner, step by step, at which the properties are instantiated: a
  provider top-up of 1000, a purchase of 400 that is reserved and committed, a second one of 300
  that stays reserved, a refund hold of 200 on the top-up, and a chargeback of 900 that takes the
  available funds and leaves debt.

  The digests are concrete functions: they keep apart the documents that the run distinguishes.
\<close>

fun sample_sha :: "topup_doc digest" where
  "sample_sha prefix (DocStrings xs) = concat xs"
| "sample_sha prefix (DocReversalKey k) = rk_ReversalID k"
| "sample_sha prefix (DocReversal v) = ov_ReversalID v @ ov_PaymentID v"
| "sample_sha prefix _ = ''fingerprint''"

fun sample_ssha :: "service_doc digest" where
  "sample_ssha prefix (SDocStrings xs) = concat xs"
| "sample_ssha prefix (SDocOperation op) = so_OperationID op @ so_SourceProofID op"
| "sample_ssha prefix _ = ''fingerprint''"

text \<open>The n-th call of the run: its clock and its identifiers.\<close>

definition sample_env :: "nat \<Rightarrow> call_env" where
  "sample_env n =
     \<lparr>ce_now = (\<lambda>k. 1000000 * int n + 1000 * int k),
      ce_uuid = (\<lambda>k. replicate n (CHR ''u'') @ replicate k (CHR ''v''))\<rparr>"

definition sample_payment :: PaymentSettlement where
  "sample_payment =
     \<lparr>ps_PaymentID = ''pay'', ps_PaymentPurpose = PaymentPurposeWalletTopUp,
      ps_CommissionTreatment = CommissionNonCommissionable,
      ps_PayerBinding = PayerUnattributedExternal, ps_PayerUserID = [],
      ps_Currency = WalletCurrencyCNY, ps_GrossAmountMinor = 1000, ps_DiscountAmountMinor = 0,
      ps_CommissionableAmountMinor = 0, ps_Status = PaymentSettled, ps_SettledAt = 5000,
      ps_ProviderReference = ''ref'', ps_Version = 1\<rparr>"

definition sample_topup :: ProviderTopUpInput where
  "sample_topup =
     \<lparr>ti_OperationID = ''op0'', ti_OrganizationID = ''acme'', ti_CommercialOrderID = ''top'',
      ti_Currency = WalletCurrencyCNY, ti_AmountMinor = 1000,
      ti_Binding = \<lparr>pb_Provider = ''ALIPAY'', pb_Environment = ''PRODUCTION'',
                     pb_MerchantID = ''m'', pb_AppID = ''a'', pb_TradeID = ''t''\<rparr>,
      ti_Payment = sample_payment, ti_KnownReversals = []\<rparr>"

definition sample_reserve :: "string \<Rightarrow> string \<Rightarrow> int \<Rightarrow> ReserveWalletFundsInput" where
  "sample_reserve oper order amount =
     \<lparr>ri_OperationID = oper, ri_OrganizationID = ''acme'', ri_CommercialOrderID = order,
      ri_Currency = WalletCurrencyCNY, ri_AmountMinor = amount\<rparr>"

definition sample_commit :: CommitWalletReservationInput where
  "sample_commit =
     \<lparr>ci_OperationID = ''fin1'', ci_OrganizationID = ''acme'', ci_CommercialOrderID = ''buy1'',
      ci_ReservationID = ''uu''\<rparr>"

definition sample_refund :: TopUpRefundInput where
  "sample_refund =
     \<lparr>fi_Key = \<lparr>rk_PaymentID = ''pay'', rk_Kind = WalletReversalRefund, rk_ReversalID = ''rfd''\<rparr>,
      fi_OrganizationID = ''acme'', fi_CommercialOrderID = ''top'', fi_AmountMinor = 200,
      fi_ApprovalID = ''appr''\<rparr>"

definition sample_chargeback :: OrganizationWalletReversal where
  "sample_chargeback =
     \<lparr>ov_ReversalID = ''cb'', ov_PaymentID = ''pay'', ov_CommercialOrderID = ''top'',
      ov_OrganizationID = ''acme'', ov_Kind = WalletReversalChargeback,
      ov_Currency = WalletCurrencyCNY, ov_AmountMinor = 900, ov_OccurredAt = 7000,
      ov_ProviderReference = ''ref''\<rparr>"

definition run1 :: money_db where
  "run1 = fst (AcceptAndPostProviderTopUp sample_sha NoFault (sample_env 1) sample_topup empty_db)"
definition run2 :: money_db where
  "run2 = fst (ReserveCommercialPurchase NoFault (sample_env 2) (sample_reserve ''op1'' ''buy1'' 400) run1)"
definition run3 :: money_db where
  "run3 = fst (CommitCommercialPurchase NoFault (sample_env 3) sample_commit run2)"
definition run4 :: money_db where
  "run4 = fst (ReserveCommercialPurchase NoFault (sample_env 4) (sample_reserve ''op2'' ''buy2'' 300) run3)"
definition run5 :: money_db where
  "run5 = fst (PrepareTopUpRefund sample_sha NoFault (sample_env 5) sample_refund run4)"
definition run6 :: money_db where
  "run6 = fst (AcceptProviderTopUpReversal sample_sha NoFault (sample_env 6) sample_chargeback run5)"

lemmas sample_inputs =
  sample_topup_def sample_payment_def sample_reserve_def sample_commit_def sample_refund_def
  sample_chargeback_def

text \<open>Every state of the run is reachable.\<close>

abbreviation sample_reachable :: "money_db \<Rightarrow> bool" where
  "sample_reachable \<equiv> reachable (money_step sample_sha sample_ssha True) empty_db"

lemma run_reachable:
  "sample_reachable run1" "sample_reachable run2" "sample_reachable run3" "sample_reachable run4"
  "sample_reachable run5" "sample_reachable run6"
proof -
  show 1: "sample_reachable run1" unfolding run1_def
    by (rule reach_step [OF reach_refl], rule step_accept_topup) (simp_all add: sample_inputs in64_unfold)
  show 2: "sample_reachable run2" unfolding run2_def
    by (rule reach_step [OF 1], rule step_reserve) (simp add: sample_inputs in64_unfold)
  show 3: "sample_reachable run3" unfolding run3_def
    by (rule reach_step [OF 2], rule step_commit)
  show 4: "sample_reachable run4" unfolding run4_def
    by (rule reach_step [OF 3], rule step_reserve) (simp add: sample_inputs in64_unfold)
  show 5: "sample_reachable run5" unfolding run5_def
    by (rule reach_step [OF 4], rule step_prepare_refund) (simp add: sample_inputs in64_unfold)
  show "sample_reachable run6" unfolding run6_def
    by (rule reach_step [OF 5], rule step_accept_reversal) (simp add: sample_inputs in64_unfold)
qed

text \<open>The balances (available, reserved, debt) along the run.\<close>

lemma run_balances:
  "map_option balances (db_wallets run1 (''acme'', ''CNY'')) = Some (1000, 0, 0)"
  "map_option balances (db_wallets run3 (''acme'', ''CNY'')) = Some (600, 0, 0)"
  "map_option balances (db_wallets run5 (''acme'', ''CNY'')) = Some (100, 500, 0)"
  "map_option balances (db_wallets run6 (''acme'', ''CNY'')) = Some (0, 500, 800)"
  by code_simp+

end
