(* ===== verification/Ledger_Properties.thy ===== *)
theory Ledger_Properties
  imports Scenarios
begin

text \<open>
  The properties of the wallet ledger in every state that the money owner can reach: balances,
  reconciliation with the entries, what explains the reserved funds and the lifetime totals, what
  never changes, and that an open reservation can always be finished. They are the facts of the
  interpretations \<open>wallets\<close> and \<open>audit\<close> and of \<open>money_step_good\<close>, written out over the model.
\<close>

abbreviation money_reachable ::
  "topup_doc digest \<Rightarrow> service_doc digest \<Rightarrow> bool \<Rightarrow> money_db \<Rightarrow> bool" where
  "money_reachable sha ssha supported \<equiv> reachable (money_step sha ssha supported) empty_db"

lemmas reachable_ledger_inv = wallets.reachable_inv

text \<open>
  C1: in every reachable state each organization's wallet satisfies the account invariant: no
  balance is negative, available funds and debt exclude each other, the debt does not exceed what
  was reversed, and available plus reserved less debt is what was topped up less what was spent
  or reversed.
\<close>

theorem wallet_net_position:
  assumes "money_reachable sha ssha supported db"
  shows "acct_inv (wallet_account db org)"
  using assms by (rule wallets.reachable_acct_inv)

theorem wallet_net_position_witness:
  "acct_inv (wallet_account run6 ''acme'')
   \<and> map_option balances (db_wallets run6 (''acme'', ''CNY'')) = Some (0, 500, 800)"
  using wallet_net_position [OF run_reachable(6), of "''acme''"] run_balances(4) by simp

text \<open>
  C2: every step of the money owner acts on every organization's account as a run of the abstract
  account machine: credits repay debt first, reservations need available funds, reversals take
  available funds before they make debt.
\<close>

theorem wallet_step_refines_account:
  assumes "money_reachable sha ssha supported db" "money_step sha ssha supported db db'"
  shows "\<exists>evs. acct_run (wallet_account db org) evs = Some (wallet_account db' org)"
  using wallets.step_sim [OF reachable_ledger_inv [OF assms(1)] assms(2)] by blast

theorem wallet_step_refines_account_witness:
  "\<exists>evs. acct_run (wallet_account run5 ''acme'') evs = Some (wallet_account run6 ''acme'')"
proof (rule wallet_step_refines_account [OF run_reachable(5)])
  show "money_step sample_sha sample_ssha True run5 run6"
    unfolding run6_def by (rule step_accept_reversal) (simp add: sample_inputs in64_unfold)
qed

text \<open>
  C3: in every reachable state each balance of each wallet (available, reserved, debt) is the sum
  of the deltas of its ledger entries.
\<close>

theorem ledger_reconciles:
  assumes "money_reachable sha ssha supported db"
  shows "wallet_balance db k n = sum_rows (\<lambda>e. owner e = k) (\<lambda>e. entry_delta e n) (db_entries db)"
  using audit.reachable_reconciles [OF assms] by blast

theorem ledger_reconciles_witness:
  "sum_rows (\<lambda>e. owner e = (''acme'', ''CNY'')) (\<lambda>e. entry_delta e 2) (db_entries run6) = 800"
proof -
  have "wallet_balance run6 (''acme'', ''CNY'') 2 = 800"
    using run_balances(4)
    by (auto simp: wallet_balance_def wallet_at_def wallet_part_def balances_def)
  then show ?thesis using ledger_reconciles [OF run_reachable(6)] by simp
qed

text \<open>
  C4: the ledger of a wallet is a chain: in every reachable state each entry records the balances
  that the entries up to it add up to, the last one those of the wallet, and the entries of a
  wallet have strictly increasing times.
\<close>

theorem ledger_chain:
  assumes "money_reachable sha ssha supported db"
  shows "entry_chain (0, 0, 0) (entries_of db k) = Some (balances (wallet_at db k))
    \<and> sorted_wrt (<) (map we_OccurredAt (entries_of db k))"
  using entries_okD [OF ledger_invD(2) [OF reachable_ledger_inv [OF assms]]] by blast

theorem ledger_chain_witness:
  "entry_chain (0, 0, 0) (entries_of run6 (''acme'', ''CNY'')) = Some (0, 500, 800)
   \<and> sorted_wrt (<) (map we_OccurredAt (entries_of run6 (''acme'', ''CNY'')))"
  using ledger_chain [OF run_reachable(6), of "(''acme'', ''CNY'')"] run_balances(4)
  by (auto simp: wallet_at_def)

text \<open>
  C5: in every reachable state a wallet's reserved funds are exactly its open reservations and open
  refund holds, its lifetime top-up exactly its settlements, and its lifetime spend exactly its
  committed reservations.
\<close>

theorem wallet_funds_explained:
  assumes "money_reachable sha ssha supported db"
  shows "ow_ReservedMinor (wallet_at db (org, WalletCurrencyCNY)) = reserved_sum db org
    \<and> ow_LifetimeTopUpMinor (wallet_at db (org, WalletCurrencyCNY)) = settled_sum db org
    \<and> ow_LifetimeSpendMinor (wallet_at db (org, WalletCurrencyCNY)) = committed_sum db org"
  using ledger_invD(7) [OF reachable_ledger_inv [OF assms]] by (auto simp: funds_explained_def)

theorem wallet_funds_explained_witness:
  "reserved_sum run6 ''acme'' = 500"
proof -
  have "ow_ReservedMinor (wallet_at run6 (''acme'', WalletCurrencyCNY)) = 500"
    using run_balances(4) by (auto simp: wallet_at_def WalletCurrencyCNY_def balances_def)
  then show ?thesis using wallet_funds_explained [OF run_reachable(6)] by simp
qed

section \<open>Finishing a reservation\<close>

text \<open>
  In a state of the ledger with an open reservation neither guard of \<open>finishReservation\<close> can fire:
  the reserved funds cover it, and neither the release nor the commit overflows.
\<close>

lemma finish_wallet_possible:
  assumes inv: "ledger_inv db" and acc: "acct_inv (wallet_account db (rv_OrganizationID r))"
    and r: "r \<in> set (db_reservations db)" "rv_State r = WalletReservationReserved"
    and w: "balances w = balances (wallet_at db (rv_OrganizationID r, WalletCurrencyCNY))"
      "ow_LifetimeSpendMinor w =
         ow_LifetimeSpendMinor (wallet_at db (rv_OrganizationID r, WalletCurrencyCNY))"
  shows "rv_AmountMinor r \<le> ow_ReservedMinor w"
    "\<exists>w1 da dd. finish_wallet terminal (rv_AmountMinor r) w = Inr (w1, da, dd)"
proof -
  note I = ledger_invD [OF inv]
  let ?v = "wallet_at db (rv_OrganizationID r, WalletCurrencyCNY)"
  have amt: "amount_ok (rv_AmountMinor r)" using I(9) r(1) by blast
  have "rv_AmountMinor r \<le> sum_rows (\<lambda>x. rv_OrganizationID x = rv_OrganizationID r
      \<and> rv_State x = WalletReservationReserved) rv_AmountMinor (db_reservations db)"
    using r I(9) by (intro sum_rows_member_le) (auto simp: amount_ok_def)
  moreover have "0 \<le> sum_rows (\<lambda>h. th_OrganizationID h = rv_OrganizationID r \<and> th_State h = HoldReserved)
      th_AmountMinor (db_holds db)"
    using I(5) by (intro sum_rows_nonneg) (auto simp: holds_ok_def amount_ok_def)
  ultimately have "rv_AmountMinor r \<le> reserved_sum db (rv_OrganizationID r)"
    by (simp add: reserved_sum_def)
  then show res: "rv_AmountMinor r \<le> ow_ReservedMinor w"
    using I(7) w(1) by (simp add: funds_explained_def balances_def)
  have ok: "wallet_ok ?v" by (rule wallet_at_ok [OF I(1)])
  have top: "ow_LifetimeTopUpMinor ?v \<le> max64" using ok by (simp add: wallet_ok_def)
  have pos: "ow_AvailableMinor ?v + ow_ReservedMinor ?v - ow_DebtMinor ?v + ow_LifetimeSpendMinor ?v
      \<le> max64 - ow_DebtMinor ?v" "0 \<le> ow_LifetimeSpendMinor ?v"
    using acc top ok by (auto simp: acct_inv_def wallet_account_def Let_def wallet_ok_def)
  show "\<exists>w1 da dd. finish_wallet terminal (rv_AmountMinor r) w = Inr (w1, da, dd)"
    using pos ok amt res w
    by (auto simp: finish_wallet_def Let_def wallet_ok_def amount_ok_def minInt64_min min_def balances_def
        add64_def sub64_def neg64_def wrap64_def in64_unfold)
qed

lemma finish_possible:
  assumes inv: "ledger_inv db" and acc: "acct_inv (wallet_account db (rv_OrganizationID r))"
    and r: "r \<in> set (db_reservations db)" "rv_State r = WalletReservationReserved"
    and i: "ci_OrganizationID i = rv_OrganizationID r" "ci_ReservationID i = rv_ReservationID r"
      "ci_CommercialOrderID i = rv_CommercialOrderID r"
    and fresh: "\<forall>x\<in>set (db_reservations db). rv_FinishOperationID x \<noteq> Some (ci_OperationID i)"
      "\<forall>e\<in>set (db_entries db). we_EntryID e \<noteq> ce_uuid env 0"
    and terminal: "terminal \<noteq> WalletReservationReserved"
  shows "\<exists>out db'. finishReservationTx terminal kind env i db = Inr (out, db')
    \<and> wr_ReservationID out = rv_ReservationID r \<and> wr_State out = terminal"
proof -
  note I = ledger_invD [OF inv]
  have dist: "distinct (map rv_ReservationID (db_reservations db))" and
    cny: "rv_Currency r = WalletCurrencyCNY" and order: "TrimSpace (rv_CommercialOrderID r) \<noteq> []"
    using I(3) r(1) by (auto simp: reservations_ok_def)
  have f1: "find (\<lambda>x. rv_FinishOperationID x = Some (ci_OperationID i)) (db_reservations db) = None"
    using fresh(1) by (auto simp: find_None_iff)
  have f2: "find (\<lambda>x. rv_OrganizationID x = rv_OrganizationID r
      \<and> rv_ReservationID x = rv_ReservationID r) (db_reservations db) = Some r"
    using dist r(1) by (intro find_unique [where key = rv_ReservationID]) auto
  obtain w db1 where lock:
    "lockOrCreateWallet (ce_now env 0) (rv_OrganizationID r) WalletCurrencyCNY db = (w, db1)"
    by fastforce
  note l = lockOrCreateWallet_spec [OF I(1) lock]
  have w: "balances w = balances (wallet_at db (rv_OrganizationID r, WalletCurrencyCNY))"
    using l(7-9) by (simp add: balances_def)
  note f = finish_wallet_possible [OF inv acc r w l(11)]
  from f(2) obtain w1 da dd where fw: "finish_wallet terminal (rv_AmountMinor r) w = Inr (w1, da, dd)"
    by blast
  have entries: "db_entries db1 = db_entries db" using l(6) by (metis money_db.select_convs(7) money_db.update_convs(6) money_db.surjective)
  have "\<not> list_ex (entry_clash e) (db_entries db)" if "we_EntryID e = ce_uuid env 0" for e
    using that fresh(2) by (auto simp: list_ex_iff entry_clash_def)
  then show ?thesis
    using terminal f(1) order
    by (auto simp: finishReservationTx_def f1 f2 i r(2) cny lock fw Let_def createWalletEntry_def
        insert_entry_def create_row_def entries reservationFromRow_def saveWalletRow_def
        split: option.splits if_splits)
qed

text \<open>
  C6: in every reachable state an open reservation can be committed, and it can be released: with
  a fresh operation identity and a fresh entry identity neither call can fail, whatever else
  happened to the wallet in between (chargebacks that left debt included).
\<close>

theorem open_reservation_can_finish:
  assumes "money_reachable sha ssha supported db" "r \<in> set (db_reservations db)"
    "rv_State r = WalletReservationReserved"
    and ids: "TrimSpace oper \<noteq> []" "length oper \<le> 128" "TrimSpace (rv_OrganizationID r) \<noteq> []"
      "TrimSpace (rv_ReservationID r) \<noteq> []"
    and fresh: "\<forall>x\<in>set (db_reservations db). rv_FinishOperationID x \<noteq> Some oper"
      "\<forall>e\<in>set (db_entries db). we_EntryID e \<noteq> ce_uuid env 0"
  shows "(\<exists>out. snd (CommitCommercialPurchase NoFault env
      \<lparr>ci_OperationID = oper, ci_OrganizationID = rv_OrganizationID r,
       ci_CommercialOrderID = rv_CommercialOrderID r, ci_ReservationID = rv_ReservationID r\<rparr> db) = Inr out
      \<and> wr_ReservationID out = rv_ReservationID r \<and> wr_State out = WalletReservationCommitted)
    \<and> (\<exists>out. snd (ReleaseCommercialPurchase NoFault env
      \<lparr>li_OperationID = oper, li_OrganizationID = rv_OrganizationID r,
       li_CommercialOrderID = rv_CommercialOrderID r, li_ReservationID = rv_ReservationID r,
       li_Reason = reason\<rparr> db) = Inr out
      \<and> wr_ReservationID out = rv_ReservationID r \<and> wr_State out = WalletReservationReleased)"
proof -
  note inv = reachable_ledger_inv [OF assms(1)]
  let ?i = "\<lparr>ci_OperationID = oper, ci_OrganizationID = rv_OrganizationID r,
    ci_CommercialOrderID = rv_CommercialOrderID r, ci_ReservationID = rv_ReservationID r\<rparr>"
  have order: "TrimSpace (rv_CommercialOrderID r) \<noteq> []"
    using ledger_invD(3) [OF inv] assms(2) by (auto simp: reservations_ok_def)
  have "\<exists>out. snd (finishReservation terminal kind NoFault env ?i db) = Inr out
      \<and> wr_ReservationID out = rv_ReservationID r \<and> wr_State out = terminal"
    if fin: "terminal \<noteq> WalletReservationReserved" for terminal kind
  proof -
    obtain out db' where "finishReservationTx terminal kind env ?i db = Inr (out, db')"
      "wr_ReservationID out = rv_ReservationID r" "wr_State out = terminal"
      using finish_possible [OF inv wallets.reachable_acct_inv [OF assms(1)] assms(2,3), of ?i env terminal kind]
        fresh fin by auto
    then show ?thesis using ids order by (simp add: finishReservation_def run_tx_def)
  qed
  then show ?thesis
    by (simp add: CommitCommercialPurchase_def ReleaseCommercialPurchase_def)
qed

lemma run6_open_reservation:
  "\<exists>r\<in>set (db_reservations run6). rv_State r = WalletReservationReserved
     \<and> rv_OrganizationID r = ''acme'' \<and> rv_CommercialOrderID r = ''buy2'' \<and> rv_ReservationID r = ''uuuu''"
  "\<forall>x\<in>set (db_reservations run6). rv_FinishOperationID x \<noteq> Some ''fin2''"
  "\<forall>e\<in>set (db_entries run6). we_EntryID e \<noteq> ce_uuid (sample_env 7) 0"
  "TrimSpace ''fin2'' \<noteq> []" "TrimSpace ''acme'' \<noteq> []" "TrimSpace ''uuuu'' \<noteq> []"
  by code_simp+

theorem open_reservation_can_finish_witness:
  "\<exists>out. snd (CommitCommercialPurchase NoFault (sample_env 7)
      \<lparr>ci_OperationID = ''fin2'', ci_OrganizationID = ''acme'', ci_CommercialOrderID = ''buy2'',
       ci_ReservationID = ''uuuu''\<rparr> run6) = Inr out \<and> wr_State out = WalletReservationCommitted"
proof -
  obtain r where r: "r \<in> set (db_reservations run6)" "rv_State r = WalletReservationReserved"
    "rv_OrganizationID r = ''acme''" "rv_CommercialOrderID r = ''buy2''" "rv_ReservationID r = ''uuuu''"
    using run6_open_reservation(1) by blast
  then show ?thesis
    using open_reservation_can_finish [OF run_reachable(6) r(1,2), of "''fin2''" "sample_env 7" "[]"]
      run6_open_reservation(2-) by auto
qed

end
