(* ===== verification/Wallet_Properties.thy ===== *)
theory Wallet_Properties
  imports Ledger_Properties
begin

text \<open>
  Commands of the wallet repository that a client repeats: a reservation, its commit or release.
  The contract \<open>idempotent_tx\<close> is interpreted on their transaction bodies; the answers of a
  reservation and the end of a reservation are final.
\<close>

section \<open>Reserving\<close>

text \<open>
  What a reservation command must have for its answer to be replayed: the guard of the method,
  identifiers in canonical form, and an environment whose clock is past the zero time and whose
  identifiers are canonical.
\<close>

definition reserve_fit :: "call_env \<Rightarrow> ReserveWalletFundsInput \<Rightarrow> bool" where
  "reserve_fit env i \<longleftrightarrow>
     reserve_guard i \<and> in64 (ri_AmountMinor i) \<and> isCanonicalWalletIdentifier (ri_OperationID i)
     \<and> isCanonicalWalletIdentifier (ri_OrganizationID i)
     \<and> isCanonicalWalletIdentifier (ri_CommercialOrderID i)
     \<and> isCanonicalWalletIdentifier (ce_uuid env 0) \<and> 0 < truncate_us (ce_now env 1)"

lemma next_timestamp_ge: "truncate_us now \<le> nextWalletProcessingTimestamp now previous"
  by (simp add: nextWalletProcessingTimestamp_def)

lemma reserve_fit_amount: "reserve_fit env i \<Longrightarrow> amount_ok (ri_AmountMinor i)"
  by (auto simp: reserve_fit_def reserve_guard_def amount_ok_def in64_unfold)

text \<open>A decision for the key of a command, which the command then replays.\<close>

definition decides :: "ReserveWalletFundsInput \<Rightarrow> walletReserveDecisionRow \<Rightarrow> bool" where
  "decides i d \<longleftrightarrow>
     rd_OrganizationID d = ri_OrganizationID i \<and> rd_OperationID d = ri_OperationID i
     \<and> rd_CommercialOrderID d = ri_CommercialOrderID i"

lemma reserveDecisionFromRow_sel [simp]:
  "de_Currency (reserveDecisionFromRow d) = rd_Currency d"
  "de_AmountMinor (reserveDecisionFromRow d) = rd_AmountMinor d"
  "de_Outcome (reserveDecisionFromRow d) = rd_Outcome d"
  by (simp_all add: reserveDecisionFromRow_def)

lemma readWalletReserveDecision_None:
  "readWalletReserveDecision i db = Inr None \<longleftrightarrow> find (decides i) (db_decisions db) = None"
  by (simp add: readWalletReserveDecision_def decides_def [abs_def] Let_def split: option.split)

lemma readWalletReserveDecision_eq:
  assumes "find (decides i) (db_decisions db) = Some d"
  shows "readWalletReserveDecision i db =
    (if Validate_WalletReserveDecision (reserveDecisionFromRow d) \<and> rd_Currency d = ri_Currency i
        \<and> rd_AmountMinor d = ri_AmountMinor i then Inr (Some (reserveDecisionFromRow d))
     else Inl ErrWalletReservationConflict)"
  using assms
  by (auto simp: readWalletReserveDecision_def decides_def [abs_def] Let_def)

text \<open>What a first reservation leaves: its decision, and with it the reservation.\<close>

lemma reserve_decided:
  assumes wok: "wallets_ok db" and amt: "amount_ok (ri_AmountMinor i)"
    and run: "reserveCommercialPurchaseTx env i db = Inr (out, db')"
    and new: "readWalletReserveDecision i db = Inr None"
  obtains d where "find (decides i) (db_decisions db') = Some d" "rd_Currency d = ri_Currency i"
    "rd_AmountMinor d = ri_AmountMinor i" "decides i d"
    "out = None \<longleftrightarrow> rd_Outcome d = WalletReserveDecisionRejectedInsufficientFunds"
    "out = None \<Longrightarrow> rd_ReservationID d = [] \<and> rd_DecidedAt d = truncate_us (ce_now env 1)"
    "\<And>x. out = Some x \<Longrightarrow> rd_Outcome d = WalletReserveDecisionReserved
       \<and> rd_ReservationID d = ce_uuid env 0 \<and> truncate_us (ce_now env 1) \<le> rd_DecidedAt d
       \<and> readReservationForDecision (reserveDecisionFromRow d) db' = (if ce_uuid env 0 = []
           then Inl ErrWalletReservationConflict else Inr x)"
proof -
  have none: "find (decides i) (db_decisions db) = None"
    using new by (simp add: readWalletReserveDecision_None)
  from run new obtain w db1 where lock:
    "lockOrCreateWallet (ce_now env 0) (ri_OrganizationID i) (ri_Currency i) db = (w, db1)"
    and rf: "reserve_funds env i w db1 = Inr (out, db')"
    by (cases rule: reserve_cases [OF wok amt run]) auto
  show thesis
  proof (cases rule: reserve_funds_cases [OF wok amt lock rf])
    case (1 d)
    then show thesis
      using none by (intro that [of d]) (auto simp: find_append decides_def)
  next
    case (2 row d e w' at)
    have old: "find (\<lambda>r. rv_OrganizationID r = ri_OrganizationID i \<and> rv_OperationID r = ri_OperationID i
        \<and> rv_CommercialOrderID r = ri_CommercialOrderID i \<and> rv_ReservationID r = ce_uuid env 0)
        (db_reservations db) = None"
      using 2(5,6) by (auto simp: find_None_iff reservation_clash_def)
    have at: "truncate_us (ce_now env 1) \<le> at" using next_timestamp_ge by (simp add: 2(9))
    show thesis
      using none 2(2,5,7) at old
      by (intro that [of d])
        (auto simp: find_append decides_def 2(8) readReservationForDecision_def reserveDecisionFromRow_def)
  qed
qed

lemma reserve_replays:
  assumes "find (decides i) (db_decisions db) = Some d" "rd_Currency d = ri_Currency i"
    "rd_AmountMinor d = ri_AmountMinor i" "Validate_WalletReserveDecision (reserveDecisionFromRow d)"
  shows "reserveCommercialPurchaseTx env i db = replay_decision (reserveDecisionFromRow d) db"
  using readWalletReserveDecision_eq [OF assms(1)] assms(2-4)
  by (simp add: reserveCommercialPurchaseTx_def reserveFrom_def)

text \<open>An answered command has a valid decision on record.\<close>

lemma answered_decision:
  assumes inv: "ledger_inv db" and fit: "reserve_fit env i"
    and run: "reserveCommercialPurchaseTx env i db = Inr (out, db')"
  obtains d where "find (decides i) (db_decisions db') = Some d" "rd_Currency d = ri_Currency i"
    "rd_AmountMinor d = ri_AmountMinor i" "Validate_WalletReserveDecision (reserveDecisionFromRow d)"
    "replay_decision (reserveDecisionFromRow d) db' = Inr (out, db')"
proof -
  note I = ledger_invD [OF inv]
  note amt = reserve_fit_amount [OF fit]
  show thesis
  proof (cases rule: reserve_cases [OF I(1) amt run])
    case (1 d)
    then obtain row where row: "find (decides i) (db_decisions db) = Some row"
      using readWalletReserveDecision_None [of i db] by fastforce
    then show thesis
      using 1 readWalletReserveDecision_eq [OF row] by (intro that [of row]) (auto split: if_splits)
  next
    case (2 w db1)
    have uuid: "ce_uuid env 0 \<noteq> []" using fit by (auto simp: reserve_fit_def isCanonicalWalletIdentifier_def)
    show thesis
    proof (cases rule: reserve_decided [OF I(1) amt run 2(1)])
      case (1 d)
      have "Validate_WalletReserveDecision (reserveDecisionFromRow d)"
        using fit 1(2-7)
        by (cases out) (auto simp: reserve_fit_def reserve_guard_def decides_def Validate_WalletReserveDecision_def
            reserveDecisionFromRow_def IsZero_def)
      moreover have "replay_decision (reserveDecisionFromRow d) db' = Inr (out, db')"
        using 1(5,7) uuid by (cases out) (auto simp: replay_decision_def)
      ultimately show thesis using that [OF 1(1-3)] by blast
    qed
  qed
qed

interpretation reserving: idempotent_tx reserveCommercialPurchaseTx ledger_inv reserve_fit
proof
  fix db env i out db' env'
  assume *: "ledger_inv db" "reserve_fit env i" "reserveCommercialPurchaseTx env i db = Inr (out, db')"
  show "reserveCommercialPurchaseTx env' i db' = Inr (out, db')"
    by (rule answered_decision [OF *]) (simp add: reserve_replays)
qed


definition sample_attempts :: "(merr tx_fault \<times> call_env) list" where
  "sample_attempts =
     [(StmtFault ErrUnavailable, sample_env 2), (CommitLost ErrUnavailable, sample_env 3),
      (NoFault, sample_env 4)]"




section \<open>Answers are final\<close>

lemma steps_good:
  assumes "reachable (money_step sha ssha supported) db db'" "ledger_inv db"
  shows "good_step db db'"
  using assms
proof (induction rule: reachable.induct)
  case reach_refl
  then show ?case by (rule good_step_refl)
next
  case (reach_step s s')
  then have g: "good_step db s" by simp
  then have "ledger_inv s" by (simp add: good_step_def)
  then show ?case by (rule good_step_trans [OF g money_step_good [OF _ reach_step(2)]])
qed

lemma decision_kept:
  assumes "good_step db db'" "find (decides i) (db_decisions db) = Some d"
  shows "find (decides i) (db_decisions db') = Some d"
  using assms by (auto simp: good_step_def history_kept_def find_append)

lemma reservation_reread:
  assumes "good_step db db'" "readReservationForDecision d db = Inr x"
  shows "\<exists>y. readReservationForDecision d db' = Inr y \<and> wr_ReservationID y = wr_ReservationID x
    \<and> wr_AmountMinor y = wr_AmountMinor x"
proof -
  let ?P = "\<lambda>r. rv_OrganizationID r = de_OrganizationID d \<and> rv_OperationID r = de_OperationID d
    \<and> rv_CommercialOrderID r = de_CommercialOrderID d \<and> rv_ReservationID r = de_ReservationID d"
  from assms(2) obtain r where r: "find ?P (db_reservations db) = Some r"
    "x = reservationFromRow r" "rv_Currency r = de_Currency d" "rv_AmountMinor r = de_AmountMinor d"
    and d: "de_Outcome d = WalletReserveDecisionReserved" "de_ReservationID d \<noteq> []"
    by (auto simp: readReservationForDecision_def split: if_splits option.splits)
  then have "r \<in> set (db_reservations db)" "?P r" by (auto dest: find_SomeD)
  then obtain r' where r': "r' \<in> set (db_reservations db')" "reservation_kept r r'" "?P r'"
    using assms(1) by (fastforce simp: good_step_def history_kept_def rows_kept_def reservation_kept_def)
  have "distinct (map rv_ReservationID (db_reservations db'))"
    using assms(1) by (auto simp: good_step_def ledger_inv_def reservations_ok_def)
  then have "find ?P (db_reservations db') = Some r'"
    using r' by (intro find_unique [where key = rv_ReservationID]) auto
  then show ?thesis
    using r(2-4) r'(2) d
    by (simp add: readReservationForDecision_def reservation_kept_def reservationFromRow_def)
qed

text \<open>The error for insufficient funds is only ever the answer of a recorded rejection.\<close>

lemma reserve_tx_errors: "reserveCommercialPurchaseTx env i db \<noteq> Inl ErrWalletInsufficientBalance"
  by (auto simp: reserveCommercialPurchaseTx_def reserveFrom_def readWalletReserveDecision_def
      replay_decision_def readReservationForDecision_def reserve_funds_def createWalletEntry_def Let_def
      split: option.splits if_splits sum.splits prod.splits)

text \<open>
  C8: the answer to a reservation command is final. Once a command with canonical identifiers was
  answered, then in every later state the same command is answered without any change: a rejection
  for insufficient funds stays a rejection whatever was topped up since, and a success names the
  same reservation of the same amount.
\<close>

theorem reserve_answer_final:
  assumes "money_reachable sha ssha supported db" "reserve_fit env i"
    "ReserveCommercialPurchase NoFault env i db = (db1, answer)"
    "answer = Inl ErrWalletInsufficientBalance \<or> answer = Inr out"
    "reachable (money_step sha ssha supported) db1 db2"
  shows "if answer = Inr out
    then \<exists>out'. ReserveCommercialPurchase NoFault env' i db2 = (db2, Inr out')
      \<and> wr_ReservationID out' = wr_ReservationID out \<and> wr_AmountMinor out' = wr_AmountMinor out
    else ReserveCommercialPurchase NoFault env' i db2 = (db2, Inl ErrWalletInsufficientBalance)"
proof -
  note inv = reachable_ledger_inv [OF assms(1)]
  have guard: "reserve_guard i" using assms(2) by (simp add: reserve_fit_def)
  obtain o1 where run: "reserveCommercialPurchaseTx env i db = Inr (o1, db1)"
    and o1: "o1 = (case answer of Inr x \<Rightarrow> Some x | Inl _ \<Rightarrow> None)"
    using assms(3,4) guard reserve_tx_errors
    by (auto simp: ReserveCommercialPurchase_def run_tx_def split: sum.splits option.splits)
  have again: "reserveCommercialPurchaseTx env' i db1 = Inr (o1, db1)" for env'
    using reserving.replay [OF inv assms(2) run] .
  have "good_step db db1"
    using reserve_good [OF inv guard _ run] assms(2) by (simp add: reserve_fit_def)
  then have g: "good_step db1 db2" and inv1: "ledger_inv db1"
    using steps_good [OF assms(5)] by (auto simp: good_step_def)
  obtain d where d: "find (decides i) (db_decisions db1) = Some d" "rd_Currency d = ri_Currency i"
    "rd_AmountMinor d = ri_AmountMinor i" "Validate_WalletReserveDecision (reserveDecisionFromRow d)"
    using answered_decision [OF inv assms(2) run] by blast
  note first = reserve_replays [OF d] and later = reserve_replays [OF decision_kept [OF g d(1)] d(2-4)]
  show ?thesis
  proof (cases "rd_Outcome d = WalletReserveDecisionRejectedInsufficientFunds")
    case True
    then show ?thesis
      using again [of env] first later o1 guard assms(4)
      by (auto simp: replay_decision_def ReserveCommercialPurchase_def run_tx_def)
  next
    case False
    then obtain x where x: "readReservationForDecision (reserveDecisionFromRow d) db1 = Inr x" "o1 = Some x"
      using again [of env] first by (auto simp: replay_decision_def split: sum.splits)
    then obtain y where "readReservationForDecision (reserveDecisionFromRow d) db2 = Inr y"
      "wr_ReservationID y = wr_ReservationID x" "wr_AmountMinor y = wr_AmountMinor x"
      using reservation_reread [OF g] by blast
    then show ?thesis
      using False later o1 x(2) guard assms(4)
      by (auto simp: replay_decision_def ReserveCommercialPurchase_def run_tx_def)
  qed
qed

definition rejected_db :: money_db where
  "rejected_db = fst (ReserveCommercialPurchase NoFault (sample_env 4) (sample_reserve ''op7'' ''buy7'' 700) run3)"

definition sample_topup2 :: ProviderTopUpInput where
  "sample_topup2 = sample_topup\<lparr>ti_CommercialOrderID := ''top2'',
     ti_Binding := (ti_Binding sample_topup)\<lparr>pb_TradeID := ''t2''\<rparr>,
     ti_Payment := sample_payment\<lparr>ps_PaymentID := ''pay2''\<rparr>\<rparr>"

definition funded_db :: money_db where
  "funded_db = fst (AcceptAndPostProviderTopUp sample_sha NoFault (sample_env 5) sample_topup2 rejected_db)"

lemma funded_later: "reachable (money_step sample_sha sample_ssha True) rejected_db funded_db"
  unfolding funded_db_def
  by (rule reach_step [OF reach_refl], rule step_accept_topup)
    (simp_all add: sample_topup2_def sample_inputs in64_unfold)

lemma rejected_facts:
  "snd (ReserveCommercialPurchase NoFault (sample_env 4) (sample_reserve ''op7'' ''buy7'' 700) run3)
     = Inl ErrWalletInsufficientBalance"
  "reserve_fit (sample_env 4) (sample_reserve ''op7'' ''buy7'' 700)"
  "map_option balances (db_wallets funded_db (''acme'', ''CNY'')) = Some (1600, 0, 0)"
  by code_simp+

theorem reserve_answer_final_witness:
  "ReserveCommercialPurchase NoFault (sample_env 9) (sample_reserve ''op7'' ''buy7'' 700) funded_db
     = (funded_db, Inl ErrWalletInsufficientBalance)"
proof -
  have "ReserveCommercialPurchase NoFault (sample_env 4) (sample_reserve ''op7'' ''buy7'' 700) run3
      = (rejected_db, Inl ErrWalletInsufficientBalance)"
    using rejected_facts(1) unfolding rejected_db_def by (simp only: prod_eq_iff fst_conv snd_conv)
  then show ?thesis
    using reserve_answer_final [OF run_reachable(3) rejected_facts(2) _ disjI1 funded_later]
    by fastforce
qed

section \<open>Finishing\<close>

interpretation finishing: idempotent_tx "finishReservationTx terminal kind" ledger_inv "\<lambda>_ _. True"
  for terminal kind
proof
  fix db env i out db' env'
  assume inv: "ledger_inv db" and run: "finishReservationTx terminal kind env i db = Inr (out, db')"
  note I = ledger_invD [OF inv]
  show "finishReservationTx terminal kind env' i db' = Inr (out, db')"
  proof (cases "find (\<lambda>r. rv_FinishOperationID r = Some (ci_OperationID i)) (db_reservations db)")
    case (Some r)
    with run show ?thesis by (auto simp: finishReservationTx_def split: if_splits)
  next
    case None
    show ?thesis
    proof (cases rule: finish_cases [OF I(1,9) run])
      case (1 r)
      with None show ?thesis by (auto dest: find_NoneD)
    next
      case (2 r w w1 w' da dd e r' at)
      have dist: "distinct (map rv_ReservationID (db_reservations db'))"
        using I(3) by (simp add: 2(12,14) reservations_ok_def map_update_rows_key)
      have in': "r' \<in> set (db_reservations db')" using 2(1) by (auto simp: 2(14) set_update_rows)
      have "find (\<lambda>x. rv_FinishOperationID x = Some (ci_OperationID i)) (db_reservations db') = Some r'"
      proof (rule find_unique [OF dist in'])
        show "rv_FinishOperationID r' = Some (ci_OperationID i)" by (simp add: 2(12))
        fix x
        assume "x \<in> set (db_reservations db')" "rv_FinishOperationID x = Some (ci_OperationID i)"
        then show "rv_ReservationID x = rv_ReservationID r'"
          using 2(5) by (auto simp: 2(14) set_update_rows find_None_iff split: if_splits)
      qed
      then show ?thesis using 2(2-4) by (simp add: finishReservationTx_def 2(12,13))
    qed
  qed
qed

text \<open>
  A client that repeats a commit or a release through any sequence of failed statements and
  lost commits finishes the reservation at most once, and every answer it gets is the same.
\<close>

theorem finish_at_most_once:
  assumes "money_reachable sha ssha supported db"
    "run_attempts (finishReservationTx terminal kind) i attempts db = (db', answers)"
  shows "(db' = db \<and> (\<forall>b. Inr b \<in> set answers \<longrightarrow>
        (\<exists>env. finishReservationTx terminal kind env i db = Inr (b, db)))) \<or>
    (\<exists>env a. finishReservationTx terminal kind env i db = Inr (a, db')
        \<and> (\<forall>b. Inr b \<in> set answers \<longrightarrow> b = a))"
  using assms by (intro finishing.at_most_once reachable_ledger_inv) auto

lemma commit_attempts_outcome:
  "map_option balances (db_wallets (fst (run_attempts (finishReservationTx WalletReservationCommitted
     WalletEntryPurchaseCommit) sample_commit sample_attempts run2)) (''acme'', ''CNY'')) = Some (600, 0, 0)"
  "map_option balances (db_wallets run2 (''acme'', ''CNY'')) = Some (600, 400, 0)"
  by code_simp+

text \<open>
  C10: the end of a reservation is final: a reservation that is committed or released in a
  reachable state is found unchanged in every later state, so no reservation is ever both spent
  and released, or finished twice.
\<close>

theorem finished_reservation_final:
  assumes "money_reachable sha ssha supported db" "r \<in> set (db_reservations db)"
    "rv_State r \<noteq> WalletReservationReserved" "reachable (money_step sha ssha supported) db db'"
  shows "r \<in> set (db_reservations db')
    \<and> (\<forall>x\<in>set (db_reservations db'). rv_ReservationID x = rv_ReservationID r \<longrightarrow> x = r)"
proof -
  have g: "good_step db db'" using steps_good [OF assms(4) reachable_ledger_inv [OF assms(1)]] .
  then have in': "r \<in> set (db_reservations db')"
    using assms(2,3) by (fastforce simp: good_step_def history_kept_def rows_kept_def reservation_kept_def)
  have "distinct (map rv_ReservationID (db_reservations db'))"
    using g by (auto simp: good_step_def ledger_inv_def reservations_ok_def)
  with in' show ?thesis by (auto simp: distinct_map dest: inj_onD)
qed

lemma run3_committed:
  "\<exists>r\<in>set (db_reservations run3). rv_ReservationID r = ''uu'' \<and> rv_State r = WalletReservationCommitted"
  by code_simp

lemma run3_to_run4: "reachable (money_step sample_sha sample_ssha True) run3 run4"
  unfolding run4_def
  by (rule reach_step [OF reach_refl], rule step_reserve) (simp add: sample_inputs in64_unfold)

theorem finished_reservation_final_witness:
  "filter (\<lambda>x. rv_ReservationID x = ''uu'' \<and> rv_State x \<noteq> WalletReservationCommitted) (db_reservations run4) = []"
proof -
  obtain r where "r \<in> set (db_reservations run3)" "rv_ReservationID r = ''uu''"
    "rv_State r = WalletReservationCommitted" using run3_committed by blast
  then show ?thesis
    using finished_reservation_final [OF run_reachable(3) _ _ run3_to_run4, of r]
    by (auto simp: filter_empty_conv)
qed

section \<open>Identifiers that are not canonical\<close>





end
