(* ===== verification/TopUp_Properties.thy ===== *)
theory TopUp_Properties
  imports Frames Wallet_Properties
begin

text \<open>
  Properties of provider top-ups: no payment is reversed beyond what it credited, a channel
  payment is used once across top-ups and service purchases, and a refund hold follows its state
  machine.
\<close>

section \<open>Reversals stay within the top-up\<close>

definition reversed_payment :: "money_db \<Rightarrow> string \<Rightarrow> int" where
  "reversed_payment db p = sum_rows (\<lambda>v. wv_PaymentID v = p) wv_AmountMinor (db_reversals db)"

definition reversal_inv :: "money_db \<Rightarrow> bool" where
  "reversal_inv db \<longleftrightarrow>
     distinct (map py_PaymentID (db_payments db))
     \<and> (\<forall>r\<in>set (db_receipts db).
          (\<exists>p\<in>set (db_payments db). py_PaymentID p = tr_PaymentID r
             \<and> py_PaymentPurpose p = PaymentPurposeWalletTopUp)
          \<and> (\<exists>s\<in>set (db_settlements db). ts_PaymentID s = tr_PaymentID r))
     \<and> (\<forall>v\<in>set (db_reversals db). \<exists>s\<in>set (db_settlements db). ts_PaymentID s = wv_PaymentID v)
     \<and> (\<forall>p\<in>set (db_payments db). py_PaymentPurpose p = PaymentPurposeWalletTopUp \<longrightarrow>
          reversed_payment db (py_PaymentID p) = principal_reversed db (py_PaymentID p))
     \<and> (\<forall>s\<in>set (db_settlements db). reversed_payment db (ts_PaymentID s) \<le> ts_AmountMinor s)"

definition reversal_tables where
  "reversal_tables db = (db_payments db, db_receipts db, db_settlements db, db_reversals db)"

lemma reversal_inv_empty: "reversal_inv empty_db"
  by (simp add: reversal_inv_def empty_db_def)

lemma reversal_inv_cong: "reversal_tables db' = reversal_tables db \<Longrightarrow> reversal_inv db' = reversal_inv db"
  by (simp add: reversal_inv_def reversal_tables_def reversed_payment_def principal_reversed_def)

lemma distinct_keyD: "distinct (map f t) \<Longrightarrow> x \<in> set t \<Longrightarrow> y \<in> set t \<Longrightarrow> f x = f y \<Longrightarrow> x = y"
  by (auto simp: distinct_map dest: inj_onD)

lemma no_reversals:
  assumes "reversal_inv db" "\<forall>s\<in>set (db_settlements db). ts_PaymentID s \<noteq> p"
  shows "reversed_payment db p = 0" "principal_reversed db p = 0"
proof -
  have "\<forall>v\<in>set (db_reversals db). wv_PaymentID v \<noteq> p" "\<forall>r\<in>set (db_receipts db). tr_PaymentID r \<noteq> p"
    using assms unfolding reversal_inv_def by metis+
  then show "reversed_payment db p = 0" "principal_reversed db p = 0"
    unfolding reversed_payment_def principal_reversed_def sum_rows_def by (auto simp: filter_empty_conv)
qed

text \<open>
  A new payment that either is no top-up or has no settlement yet, and a new settlement of a
  payment without one.
\<close>

lemma reversal_inv_payment:
  assumes "reversal_inv db" "db_payments db' = db_payments db @ [q]"
    "\<forall>x\<in>set (db_payments db). py_PaymentID x \<noteq> py_PaymentID q"
    "py_PaymentPurpose q \<noteq> PaymentPurposeWalletTopUp
     \<or> (\<forall>s\<in>set (db_settlements db). ts_PaymentID s \<noteq> py_PaymentID q)"
    "db_receipts db' = db_receipts db" "db_settlements db' = db_settlements db"
    "db_reversals db' = db_reversals db"
  shows "reversal_inv db'"
proof -
  have sums: "reversed_payment db' p = reversed_payment db p" "principal_reversed db' p = principal_reversed db p"
    for p by (simp_all add: reversed_payment_def principal_reversed_def assms)
  have new: "py_PaymentPurpose q = PaymentPurposeWalletTopUp \<longrightarrow>
      reversed_payment db (py_PaymentID q) = principal_reversed db (py_PaymentID q)"
    using no_reversals [OF assms(1), of "py_PaymentID q"] assms(4) by auto
  show ?thesis
    using assms(1,3) new unfolding reversal_inv_def sums assms(2,5-7)
    by auto
qed

lemma reversal_inv_settlement:
  assumes "reversal_inv db" "db_settlements db' = db_settlements db @ [s]"
    "\<forall>x\<in>set (db_settlements db). \<not> settlement_clash s x" "0 \<le> ts_AmountMinor s"
    "db_receipts db' = db_receipts db" "db_payments db' = db_payments db"
    "db_reversals db' = db_reversals db"
  shows "reversal_inv db'"
proof -
  have sums: "reversed_payment db' p = reversed_payment db p" "principal_reversed db' p = principal_reversed db p"
    for p by (simp_all add: reversed_payment_def principal_reversed_def assms)
  have new: "reversed_payment db (ts_PaymentID s) = 0"
    using no_reversals(1) [OF assms(1), of "ts_PaymentID s"] assms(3) by (simp add: settlement_clash_def)
  show ?thesis
    using assms(1,4) new unfolding reversal_inv_def sums assms(2,5-7) by auto
qed

text \<open>A new reversal row, with or without its receipt.\<close>

lemma reversal_inv_apply:
  assumes "reversal_inv db" "db_reversals db' = db_reversals db @ [row]" "wv_PaymentID row = pid"
    "p \<in> set (db_payments db)" "py_PaymentID p = pid" "py_PaymentPurpose p \<noteq> PaymentPurposeWalletTopUp"
    "st \<in> set (db_settlements db)" "ts_PaymentID st = pid"
    "distinct (map ts_PaymentID (db_settlements db))"
    "reversed_payment db pid + wv_AmountMinor row \<le> ts_AmountMinor st"
    "db_receipts db' = db_receipts db" "db_payments db' = db_payments db"
    "db_settlements db' = db_settlements db"
  shows "reversal_inv db'"
proof -
  have sums: "reversed_payment db' q = reversed_payment db q + (if q = pid then wv_AmountMinor row else 0)"
    "principal_reversed db' q = principal_reversed db q" for q
    using assms(3) by (auto simp: reversed_payment_def principal_reversed_def assms(2,11))
  have other: "py_PaymentID q \<noteq> pid" if "q \<in> set (db_payments db)"
    "py_PaymentPurpose q = PaymentPurposeWalletTopUp" for q
    using assms(1,4-6) that distinct_keyD [of py_PaymentID "db_payments db" q p] unfolding reversal_inv_def by auto
  have cap: "reversed_payment db' (ts_PaymentID s) \<le> ts_AmountMinor s" if "s \<in> set (db_settlements db)" for s
    using that assms(1,7-10) distinct_keyD [of ts_PaymentID "db_settlements db" s st]
    unfolding sums reversal_inv_def by fastforce
  show ?thesis
    using assms(1) other cap assms(3,7,8) unfolding reversal_inv_def assms(2,11-13)
    by (auto simp: sums)
qed

lemma reversal_inv_accept:
  assumes "reversal_inv db"
    "db_reversals db' = db_reversals db @ (if 0 < d then [row] else [])" "0 \<le> d"
    "wv_PaymentID row = pid" "wv_AmountMinor row = d"
    "db_receipts db' = db_receipts db @ [rcpt]" "tr_PaymentID rcpt = pid"
    "tr_WalletPrincipalEffectMinor rcpt = d"
    "p \<in> set (db_payments db)" "py_PaymentID p = pid" "py_PaymentPurpose p = PaymentPurposeWalletTopUp"
    "st \<in> set (db_settlements db)" "ts_PaymentID st = pid"
    "distinct (map ts_PaymentID (db_settlements db))"
    "principal_reversed db pid + d \<le> ts_AmountMinor st"
    "db_payments db' = db_payments db" "db_settlements db' = db_settlements db"
  shows "reversal_inv db'"
proof -
  have sums: "reversed_payment db' q = reversed_payment db q + (if q = pid then d else 0)"
    "principal_reversed db' q = principal_reversed db q + (if q = pid then d else 0)" for q
    using assms(3-5,7,8) by (auto simp: reversed_payment_def principal_reversed_def assms(2,6))
  have same: "reversed_payment db pid = principal_reversed db pid"
    using assms(1,9-11) unfolding reversal_inv_def by auto
  have cap: "reversed_payment db' (ts_PaymentID s) \<le> ts_AmountMinor s" if "s \<in> set (db_settlements db)" for s
    using that assms(1,12-15) same distinct_keyD [of ts_PaymentID "db_settlements db" s st]
    unfolding sums reversal_inv_def by fastforce
  have eq: "reversed_payment db' (py_PaymentID q) = principal_reversed db' (py_PaymentID q)"
    if "q \<in> set (db_payments db)" "py_PaymentPurpose q = PaymentPurposeWalletTopUp" for q
    using that assms(1) unfolding sums reversal_inv_def by auto
  show ?thesis
    using assms(1) cap eq assms(4,7,9-13) unfolding reversal_inv_def assms(2,6,16,17)
    by (auto split: if_splits)
qed


lemma service_reversal_tables:
  assumes "wallet_tables db' = wallet_tables db" "identity_tables db' = identity_tables db"
  shows "reversal_tables db' = reversal_tables db"
  using assms by (simp add: wallet_tables_def identity_tables_def reversal_tables_def)

lemma accept_reversal_inv:
  assumes run: "acceptTopUpReversalTx sha env i db = Inr (out, db')" and sz: "in64 (ov_AmountMinor i)"
    and inv: "ledger_inv db" "reversal_inv db"
  shows "reversal_inv db'"
proof -
  note amt = conjunct1 [OF reversal_amounts [OF acceptTopUpReversalTx_valid [OF run] sz]]
  from ledger_invD(1) [OF inv(1)] amt ledger_invD(8) [OF inv(1)] run show ?thesis
  proof (cases rule: accept_reversal_cases)
    case replay
    then show ?thesis using inv(2) by simp
  next
    case (posted st w w' es d hh row rcpt rf cb ex)
    note lock = lockProviderTopUp_Inr [OF posted(1)]
    from lock(3) obtain p where p: "p \<in> set (db_payments db)" "py_PaymentID p = ov_PaymentID i"
      "py_PaymentPurpose p = PaymentPurposeWalletTopUp" by blast
    have "distinct (map ts_PaymentID (db_settlements db))"
      using ledger_invD(4) [OF inv(1)] by (simp add: settlements_ok_def)
    moreover have "0 \<le> d" "principal_reversed db (ov_PaymentID i) + d \<le> ts_AmountMinor st"
      using posted(4-6) amt by (auto simp: amount_ok_def)
    ultimately show ?thesis
      using posted by (intro reversal_inv_accept [OF inv(2) _ _ _ _ _ _ _ p lock(1,2)]) simp_all
  qed
qed

lemma accept_topup_inv:
  assumes run: "acceptAndPostTx sha env t db = Inr (out, db')" and v: "Validate_ProviderTopUpInput t"
    and sz: "in64 (ti_AmountMinor t)" "\<forall>r\<in>set (ti_KnownReversals t). in64 (ov_AmountMinor r)"
    and inv: "ledger_inv db" "reversal_inv db"
  shows "reversal_inv db'"
  using inv(1) v sz(1) run
proof (cases rule: accept_topup_path)
  case (replay rs c cl)
  have "reversal_inv (topup_claimed sha t db)"
    using inv(2) by (subst reversal_inv_cong [of _ db]) (simp_all add: reversal_tables_def topup_claimed_def)
  then show ?thesis
    using acceptReversals_keeps [OF replay(2) sz(2), of reversal_inv] replay(1) accept_reversal_inv
    by (auto simp: good_step_def)
next
  case (posted w w' es row rs db4 db5 cl)
  let ?db2 = "db\<lparr>db_payments := db_payments db @ [paymentRowFromFact (ti_Payment t)]\<rparr>"
  have "reversal_inv ?db2"
    using posted(1,3,4)
    by (intro reversal_inv_payment [OF inv(2)]) (auto simp: settlement_clash_def paymentRowFromFact_def)
  moreover have amt: "0 \<le> ts_AmountMinor row"
    using v by (simp add: posted(3) Validate_ProviderTopUpInput_def)
  ultimately have "reversal_inv db4"
    using posted(4) amt by (intro reversal_inv_settlement [OF \<open>reversal_inv ?db2\<close>, of _ row])
      (simp_all add: posted(5) topup_claimed_def)
  then have "reversal_inv db5"
    using acceptReversals_keeps [OF posted(7) sz(2), of reversal_inv] posted(6) accept_reversal_inv
    by (auto simp: good_step_def)
  then show ?thesis by (subst reversal_inv_cong [of _ db5]) (simp_all add: posted reversal_tables_def)
qed

lemma credit_inv:
  assumes run: "creditSettledTopUpTx env s db = Inr (a, db')" and v: "Validate_OrganizationTopUpSettlement s"
    and sz: "in64 (os_AmountMinor s)" and inv: "ledger_inv db" "reversal_inv db"
  shows "reversal_inv db'"
proof -
  have "amount_ok (os_AmountMinor s)" using v sz
    by (auto simp: Validate_OrganizationTopUpSettlement_def amount_ok_def in64_unfold)
  from ledger_invD(1) [OF inv(1)] this run show ?thesis
  proof (cases rule: credit_cases)
    case (credited w w' es row p at)
    then show ?thesis
      using \<open>amount_ok _\<close> by (intro reversal_inv_settlement [OF inv(2), of _ row]) (auto simp: amount_ok_def)
  qed (use inv in simp)
qed

lemma apply_reversal_inv:
  assumes run: "applyTopUpReversalTx env v db = Inr (a, db')" and v: "Validate_OrganizationWalletReversal v"
    and sz: "in64 (ov_AmountMinor v)"
    and p: "find (\<lambda>r. py_PaymentID r = ov_PaymentID v) (db_payments db) = Some p"
      "py_PaymentPurpose p \<noteq> PaymentPurposeWalletTopUp"
    and inv: "ledger_inv db" "reversal_inv db"
  shows "reversal_inv db'"
  using ledger_invD(1) [OF inv(1)] conjunct1 [OF reversal_amounts [OF v sz]] ledger_invD(8,10) [OF inv(1)] run
proof (cases rule: apply_reversal_cases)
  case (reversed st w w' e row at)
  have "distinct (map ts_PaymentID (db_settlements db))"
    using ledger_invD(4) [OF inv(1)] by (simp add: settlements_ok_def)
  moreover have "p \<in> set (db_payments db)" "py_PaymentID p = ov_PaymentID v" using find_SomeD [OF p(1)] by auto
  ultimately show ?thesis
    using reversed p(2)
    by (intro reversal_inv_apply [OF inv(2), of _ row "ov_PaymentID v" p st])
      (simp_all add: reversed_payment_def)
qed (use inv in simp)



lemma fact_reversal_tables: "fact_tables db' = fact_tables db \<Longrightarrow> reversal_tables db' = reversal_tables db"
  by (simp add: fact_tables_def reversal_tables_def)

lemma service_payment_reversal_inv:
  assumes run: "acceptServicePaymentTx sha ssha i db = Inr (a, db')"
    and v: "Validate_ServicePaymentInput i" and inv: "reversal_inv db"
  shows "reversal_inv db'"
proof -
  note w = acceptServicePaymentTx_frame [OF run]
  from run show ?thesis
  proof (cases rule: accept_service_Inr)
    case (replay c claims services)
    then show ?thesis by (subst reversal_inv_cong [of _ db]) (simp_all add: reversal_tables_def inv)
  next
    case (added c claims services)
    from v have p: "ps_PaymentPurpose (si_Payment i) = PaymentPurposeServicePurchase"
      by (simp add: Validate_ServicePaymentInput_def)
    show ?thesis
      by (rule reversal_inv_payment [OF inv, of _ "paymentRowFromFact (si_Payment i)"])
        (use w added p payment_purposes_distinct in
          \<open>auto simp: wallet_tables_def update_service_def paymentRowFromFact_def\<close>)
  qed
qed

lemma tx_step_reversal_inv:
  assumes inv: "ledger_inv db" "reversal_inv db" and step: "tx_step sha ssha db db'"
  shows "reversal_inv db'"
  using step inv(1)
proof (cases rule: tx_step_kinds)
  case facts
  then show ?thesis using reversal_inv_cong [OF fact_reversal_tables [OF facts]] inv by simp
next
  case credit
  then show ?thesis using credit_inv inv by blast
next
  case legacy
  then show ?thesis using apply_reversal_inv inv by blast
next
  case topup
  then show ?thesis using accept_topup_inv inv by blast
next
  case reversal
  then show ?thesis using accept_reversal_inv inv by blast
next
  case (payment p a)
  from payment(1) show ?thesis
    by (cases rule: record_payment_Inr)
      (auto simp: inv PaymentPurposeWalletTopUp_def intro!: reversal_inv_payment [OF inv(2)])
next
  case (refund supported rs a p)
  from refund(1) show ?thesis
    by (cases rule: record_refund_Inr) (simp_all add: inv reversal_inv_cong [of _ db] reversal_tables_def)
next
  case (chargeback supported cs a p)
  from chargeback(1) show ?thesis
    by (cases rule: record_chargeback_Inr) (simp_all add: inv reversal_inv_cong [of _ db] reversal_tables_def)
next
  case service_payment
  then show ?thesis using service_payment_reversal_inv inv by blast
next
  case service
  then show ?thesis using reversal_inv_cong [OF service_reversal_tables [OF service]] inv by simp
qed

lemma reachable_reversal_inv: "money_reachable sha ssha supported db \<Longrightarrow> reversal_inv db"
  by (erule reachable_tx_invariant [where I = reversal_inv]) (rule reversal_inv_empty, rule tx_step_reversal_inv)

text \<open>
  C12: no payment is ever reversed beyond what it credited: in every reachable state the reversals
  recorded against a settled top-up add up to at most its amount, whatever mix of refunds,
  chargebacks and legacy reversals arrived; for a provider top-up they are exactly the principal
  effects its reversal receipts report.
\<close>

theorem reversals_within_topup:
  assumes "money_reachable sha ssha supported db" "s \<in> set (db_settlements db)"
  shows "reversed_payment db (ts_PaymentID s) \<le> ts_AmountMinor s
    \<and> (\<forall>p\<in>set (db_payments db). py_PaymentID p = ts_PaymentID s
         \<and> py_PaymentPurpose p = PaymentPurposeWalletTopUp \<longrightarrow>
         reversed_payment db (ts_PaymentID s) = principal_reversed db (ts_PaymentID s))"
  using reachable_reversal_inv [OF assms(1)] assms(2) by (auto simp: reversal_inv_def)

theorem reversals_within_topup_witness:
  "reversed_payment run6 (ts_PaymentID (hd (db_settlements run6))) \<le> ts_AmountMinor (hd (db_settlements run6))
   \<and> reversed_payment run6 ''pay'' = 900"
proof -
  have "hd (db_settlements run6) \<in> set (db_settlements run6)" by code_simp
  moreover have "reversed_payment run6 ''pay'' = 900" by code_simp
  ultimately show ?thesis using reversals_within_topup [OF run_reachable(6)] by blast
qed

section \<open>A channel payment is used once\<close>

type_synonym claim_keys =
  "(string \<times> string \<times> string) list \<times> (string \<times> string) list \<times> (string \<times> string) list"

definition claim_key :: "channelPaymentClaimRow \<Rightarrow> string \<times> string \<times> string" where
  "claim_key c = (cc_ClaimID c, cc_PaymentID c, cc_Purpose c)"
definition topup_key :: "providerTopUpRow \<Rightarrow> string \<times> string" where
  "topup_key t = (pt_ClaimID t, pt_PaymentID t)"
definition service_key :: "servicePaymentRow \<Rightarrow> string \<times> string" where
  "service_key r = (sp_ClaimID r, sp_PaymentID r)"

lemmas claim_key_defs = claim_key_def topup_key_def service_key_def

definition claim_keys :: "money_db \<Rightarrow> claim_keys" where
  "claim_keys db =
     (map claim_key (db_claims db),
      map topup_key (db_topups db),
      map service_key (db_services db))"

fun claims_ok :: "claim_keys \<Rightarrow> bool" where
  "claims_ok (cs, ts, ss) \<longleftrightarrow>
     distinct (map fst cs) \<and> distinct (map (fst \<circ> snd) cs)
     \<and> (\<forall>(c, p)\<in>set ts. (c, p, PaymentPurposeWalletTopUp) \<in> set cs)
     \<and> (\<forall>(c, p)\<in>set ss. (c, p, PaymentPurposeServicePurchase) \<in> set cs)
     \<and> distinct (map fst ts) \<and> distinct (map fst ss)"

declare claims_ok.simps [simp del]

lemma claims_ok_claim:
  assumes "claims_ok (map claim_key cs, ts, ss)"
  shows "claims_ok (map claim_key (create_or_ignore claim_clash c cs), ts, ss)"
  using assms by (auto simp: claims_ok.simps claim_key_defs create_or_ignore_def list_ex_iff claim_clash_def)

lemma claims_ok_topup:
  assumes "claims_ok (cs, map topup_key ts, ss)"
    "(pt_ClaimID t, pt_PaymentID t, PaymentPurposeWalletTopUp) \<in> set cs"
  shows "claims_ok (cs, map topup_key (create_or_ignore topup_clash t ts), ss)"
  using assms by (auto simp: claims_ok.simps claim_key_defs create_or_ignore_def list_ex_iff topup_clash_def)

lemma claims_ok_service:
  assumes "claims_ok (cs, ts, map service_key ss)"
    "(sp_ClaimID r, sp_PaymentID r, PaymentPurposeServicePurchase) \<in> set cs"
  shows "claims_ok (cs, ts, map service_key (create_or_ignore service_clash r ss))"
  using assms by (auto simp: claims_ok.simps claim_key_defs create_or_ignore_def list_ex_iff service_clash_def)

lemma claims_ok_disjoint:
  assumes "claims_ok (cs, ts, ss)"
  shows "distinct (map fst ts @ map fst ss)" "distinct (map snd ts @ map snd ss)"
proof -
  let ?T = PaymentPurposeWalletTopUp and ?S = PaymentPurposeServicePurchase
  have ids: "x = y" if "x \<in> set cs" "y \<in> set cs" "fst x = fst y \<or> fst (snd x) = fst (snd y)" for x y
    using assms that distinct_keyD [of fst cs x y] distinct_keyD [of "fst \<circ> snd" cs x y]
    by (auto simp: claims_ok.simps)
  have t: "(c, p, ?T) \<in> set cs" if "(c, p) \<in> set ts" for c p using that assms by (auto simp: claims_ok.simps)
  have s: "(c, p, ?S) \<in> set cs" if "(c, p) \<in> set ss" for c p using that assms by (auto simp: claims_ok.simps)
  show "distinct (map fst ts @ map fst ss)"
    using assms payment_purposes_distinct by (auto simp: claims_ok.simps dest!: t s dest: ids)
  have "inj_on snd (set ts)" "inj_on snd (set ss)" by (auto simp: inj_on_def dest!: t s dest: ids)
  moreover have "distinct ts" "distinct ss" using assms by (auto simp: claims_ok.simps distinct_map)
  ultimately show "distinct (map snd ts @ map snd ss)"
    using payment_purposes_distinct by (auto simp: distinct_map dest!: t s dest: ids)
qed


abbreviation claim_inv :: "money_db \<Rightarrow> bool" where
  "claim_inv db \<equiv> claims_ok (claim_keys db)"

lemma claim_keys_facts:
  "fact_tables db' = fact_tables db \<Longrightarrow> claim_keys db' = claim_keys db"
  by (simp add: fact_tables_def claim_keys_def)

lemma claim_keys_identity:
  assumes "identity_tables db' = identity_tables db"
  shows "claim_keys db' = claim_keys db"
proof -
  have "map service_key t = map (\<lambda>(_, _, c, p, _). (c, p)) (map service_identity t)" for t
    by (simp add: service_identity_def service_key_def)
  then have "map service_key (db_services db') = map service_key (db_services db)"
    using assms by (simp only: identity_tables_def prod.inject)
  then show ?thesis using assms by (simp add: identity_tables_def claim_keys_def)
qed

lemma topup_claimed_inv:
  assumes "claim_inv db" "cl \<in> set (db_claims (topup_claimed sha i db))"
    "cc_ClaimID cl = ClaimID sha (ti_Binding i)" "cc_PaymentID cl = ps_PaymentID (ti_Payment i)"
    "cc_Purpose cl = PaymentPurposeWalletTopUp"
  shows "claim_inv (topup_claimed sha i db)"
proof -
  have "claim_key cl = (pt_ClaimID (topup_seed sha i), pt_PaymentID (topup_seed sha i), PaymentPurposeWalletTopUp)"
    using assms by (simp add: topup_seed_def claim_key_def)
  then have "(pt_ClaimID (topup_seed sha i), pt_PaymentID (topup_seed sha i), PaymentPurposeWalletTopUp)
      \<in> set (map claim_key (db_claims (topup_claimed sha i db)))" using assms(2) by force
  then show ?thesis
    unfolding claim_keys_def topup_claimed_def
    by (auto intro!: claims_ok_topup [OF claims_ok_claim] simp: assms(1) [unfolded claim_keys_def])
qed

lemma accept_topup_claim_inv:
  assumes run: "acceptAndPostTx sha env t db = Inr (out, db')" and v: "Validate_ProviderTopUpInput t"
    and sz: "in64 (ti_AmountMinor t)" "\<forall>r\<in>set (ti_KnownReversals t). in64 (ov_AmountMinor r)"
    and inv: "ledger_inv db" "claim_inv db"
  shows "claim_inv db'"
  using inv(1) v sz(1) run
proof (cases rule: accept_topup_path)
  case (replay rs c cl)
  then show ?thesis
    using claim_keys_identity [OF acceptReversals_frame [OF replay(2) sz(2)]] topup_claimed_inv [OF inv(2) replay(7-10)]
    by (simp add: good_step_def)
next
  case (posted w w' es row rs db4 db5 cl)
  have "claim_keys db' = claim_keys db5"
    by (auto simp: claim_keys_def posted(12) update_rows_def topup_key_def)
  also have "\<dots> = claim_keys db4"
    using claim_keys_identity [OF acceptReversals_frame [OF posted(7) sz(2)]] posted(6) by (simp add: good_step_def)
  also have "\<dots> = claim_keys (topup_claimed sha t db)" by (simp add: claim_keys_def posted(5))
  finally show ?thesis using topup_claimed_inv [OF inv(2) posted(13-16)] by simp
qed

lemma service_payment_claim_inv:
  assumes run: "acceptServicePaymentTx sha ssha i db = Inr (a, db')" and inv: "claim_inv db"
  shows "claim_inv db'"
proof -
  let ?claims = "create_or_ignore claim_clash
     \<lparr>cc_ClaimID = ClaimID sha (si_Binding i), cc_PaymentID = ps_PaymentID (si_Payment i),
      cc_Purpose = PaymentPurposeServicePurchase\<rparr> (db_claims db)"
  let ?services = "create_or_ignore service_clash (service_seed sha ssha i) (db_services db)"
  have claimed: "claim_inv (db\<lparr>db_claims := ?claims, db_services := ?services\<rparr>)"
    if c: "c \<in> set ?claims" "cc_ClaimID c = ClaimID sha (si_Binding i)"
      "cc_PaymentID c = ps_PaymentID (si_Payment i)" "cc_Purpose c = PaymentPurposeServicePurchase" for c
  proof -
    have "claim_key c = (sp_ClaimID (service_seed sha ssha i), sp_PaymentID (service_seed sha ssha i),
        PaymentPurposeServicePurchase)"
      using c by (simp add: service_seed_def claim_key_def)
    then have "(sp_ClaimID (service_seed sha ssha i), sp_PaymentID (service_seed sha ssha i),
        PaymentPurposeServicePurchase) \<in> set (map claim_key ?claims)" using c(1) by force
    then show ?thesis
      unfolding claim_keys_def
      by (auto intro!: claims_ok_service [OF claims_ok_claim] simp: inv [unfolded claim_keys_def])
  qed
  have keys: "map service_key (update_rows P (\<lambda>r. r\<lparr>sp_Receipt := x\<rparr>) t) = map service_key t" for P x t
    by (auto simp: update_rows_def service_key_def)
  from run show ?thesis
    by (cases rule: accept_service_Inr)
      (use claimed in \<open>auto simp: claim_keys_def update_service_def keys\<close>)
qed


lemma tx_step_claim_inv:
  assumes inv: "ledger_inv db" "claim_inv db" and step: "tx_step sha ssha db db'"
  shows "claim_inv db'"
  using step inv(1)
proof (cases rule: tx_step_kinds)
  case facts
  then show ?thesis using claim_keys_facts [OF facts] inv by simp
next
  case credit
  then show ?thesis using claim_keys_identity [OF credit_frame [OF credit ledger_invD(1) [OF inv(1)]]] inv by simp
next
  case legacy
  then show ?thesis using claim_keys_identity [OF apply_reversal_frame [OF legacy(1-3) inv(1)]] inv by simp
next
  case topup
  then show ?thesis using accept_topup_claim_inv inv by blast
next
  case reversal
  then show ?thesis using claim_keys_identity [OF accept_reversal_frame [OF reversal inv(1)]] inv by simp
next
  case (payment p a)
  from payment(1) show ?thesis
    by (cases rule: record_payment_Inr) (use inv in \<open>simp_all add: claim_keys_def\<close>)
next
  case (refund supported rs a p)
  from refund(1) show ?thesis
    by (cases rule: record_refund_Inr) (use inv in \<open>simp_all add: claim_keys_def\<close>)
next
  case (chargeback supported cs a p)
  from chargeback(1) show ?thesis
    by (cases rule: record_chargeback_Inr) (use inv in \<open>simp_all add: claim_keys_def\<close>)
next
  case service_payment
  then show ?thesis using service_payment_claim_inv inv by blast
next
  case service
  then show ?thesis using claim_keys_identity [OF service(2)] inv by simp
qed

lemma reachable_claim_inv: "money_reachable sha ssha supported db \<Longrightarrow> claim_inv db"
  by (erule reachable_tx_invariant [where I = claim_inv])
    (simp add: claim_keys_def claims_ok.simps empty_db_def, rule tx_step_claim_inv)

text \<open>
  C13: a payment on the channel is used once: in every reachable state no two top-ups, no two
  service purchases, and no top-up and service purchase share a channel claim or a payment, so the
  same trade can never both fill a wallet and buy a service.
\<close>

theorem channel_payment_used_once:
  assumes "money_reachable sha ssha supported db"
  shows "distinct (map pt_ClaimID (db_topups db) @ map sp_ClaimID (db_services db))
    \<and> distinct (map pt_PaymentID (db_topups db) @ map sp_PaymentID (db_services db))"
proof -
  have k: "map pt_ClaimID t = map fst (map topup_key t)" "map pt_PaymentID t = map snd (map topup_key t)"
    "map sp_ClaimID u = map fst (map service_key u)" "map sp_PaymentID u = map snd (map service_key u)" for t u
    by (simp_all add: topup_key_def service_key_def)
  show ?thesis
    unfolding k using claims_ok_disjoint [OF reachable_claim_inv [OF assms, unfolded claim_keys_def]] by blast
qed

theorem channel_payment_used_once_witness:
  "distinct (map pt_ClaimID (db_topups run6) @ map sp_ClaimID (db_services run6))
   \<and> length (db_topups run6) = 1"
proof -
  have "length (db_topups run6) = 1" by code_simp
  then show ?thesis using channel_payment_used_once [OF run_reachable(6)] by blast
qed


section \<open>A reversal is posted once and its receipt is final\<close>

lemma steps_bindings:
  assumes "reachable (money_step sha ssha supported) db db'" "ledger_inv db"
  shows "bindings_kept db db'"
proof -
  have "ledger_inv db' \<and> bindings_kept db db'"
    using assms(1)
  proof (rule reachable_invariant)
    show "ledger_inv db \<and> bindings_kept db db" using assms(2) by simp
    fix s s'
    assume *: "ledger_inv s \<and> bindings_kept db s" "money_step sha ssha supported s s'"
    then have "s' = s \<or> tx_step sha ssha s s'" by (intro money_step_tx)
    then show "ledger_inv s' \<and> bindings_kept db s'"
      using * tx_step_bindings money_step_good [OF _ *(2)] bindings_kept_trans
      by (auto simp: good_step_def)
  qed
  then show ?thesis by blast
qed

text \<open>A state that has recorded the reversal \<open>v\<close> with the receipt \<open>out\<close>.\<close>

definition reversal_recorded ::
  "topup_doc digest \<Rightarrow> OrganizationWalletReversal \<Rightarrow> TopUpReversalReceipt \<Rightarrow> money_db \<Rightarrow> bool" where
  "reversal_recorded sha v out db \<longleftrightarrow>
     (let i = v\<lparr>ov_OccurredAt := NormalizeTimestamp (ov_OccurredAt v)\<rparr> in
      (\<exists>st. lockProviderTopUp (ov_PaymentID v) db = Inr st \<and> ts_OrganizationID st = ov_OrganizationID v
         \<and> ts_CommercialOrderID st = ov_CommercialOrderID v \<and> ts_Currency st = ov_Currency v)
      \<and> (\<exists>r. find (\<lambda>r. tr_ReceiptID r = StorageID sha (reversal_key i)) (db_receipts db) = Some r
           \<and> tr_Receipt r = Bytes out \<and> tr_Fingerprint r = TopUpFingerprint sha (DocReversal i))
      \<and> Validate_OrganizationWalletReversal v \<and> Validate_TopUpReversalReceipt sha out)"

lemma reversal_recorded_replay:
  "reversal_recorded sha v out db \<Longrightarrow> acceptTopUpReversalTx sha env v db = Inr (out, db)"
  by (auto simp: reversal_recorded_def acceptTopUpReversalTx_def Let_def)

lemma reversal_recorded_kept:
  assumes "reversal_recorded sha v out db" "bindings_kept db db'" "history_kept db db'"
  shows "reversal_recorded sha v out db'"
  using assms lockProviderTopUp_kept [OF _ assms(2,3)]
  by (fastforce simp: reversal_recorded_def Let_def history_kept_def find_append)

lemma reversal_key_time [simp]: "reversal_key (v\<lparr>ov_OccurredAt := x\<rparr>) = reversal_key v"
  by (simp add: reversal_key_def)

lemma accept_reversal_records:
  assumes run: "acceptTopUpReversalTx sha env v db = Inr (out, db')" and sz: "in64 (ov_AmountMinor v)"
    and inv: "ledger_inv db"
  shows "reversal_recorded sha v out db'"
proof -
  let ?i = "v\<lparr>ov_OccurredAt := NormalizeTimestamp (ov_OccurredAt v)\<rparr>"
  let ?find = "find (\<lambda>r. tr_ReceiptID r = StorageID sha (reversal_key v))"
  note valid = acceptTopUpReversalTx_valid [OF run]
  note amt = reversal_amounts [OF valid sz]
  have kept: "bindings_kept db db'" "history_kept db db'"
    using accept_reversal_frame [OF run sz inv] accept_reversal_good [OF inv sz run]
    by (auto simp: good_step_def bindings_kept_identity)
  from run obtain st where st: "lockProviderTopUp (ov_PaymentID v) db = Inr st"
    "ts_OrganizationID st = ov_OrganizationID v" "ts_CommercialOrderID st = ov_CommercialOrderID v"
    "ts_Currency st = ov_Currency v"
    using valid by (auto simp: acceptTopUpReversalTx_def Let_def split: sum.splits if_splits)
  note st' = lockProviderTopUp_kept [OF st(1) kept]
  show ?thesis
  proof (cases "?find (db_receipts db)")
    case (Some r)
    then show ?thesis
      using run valid st
      by (auto simp: reversal_recorded_def acceptTopUpReversalTx_def Let_def split: option.splits if_splits)
  next
    case None
    from ledger_invD(1) [OF inv] conjunct1 [OF amt] ledger_invD(8) [OF inv] run show ?thesis
    proof (cases rule: accept_reversal_cases)
      case (replay x)
      then show ?thesis using None by (auto simp: find_None_iff)
    next
      case (posted st2 w w' es d hh row rcpt rf cb ex)
      have "?find (db_receipts db') = Some rcpt" using None posted by (simp add: find_append)
      then show ?thesis using st' st posted valid by (simp add: reversal_recorded_def)
    qed
  qed
qed

text \<open>
  C14: a reversal of a provider top-up is posted once and its receipt is final: when the money
  owner has answered a reversal with a receipt, every later state answers the same reversal with
  the same receipt and changes nothing, however many other payments, refunds and purchases came
  between.
\<close>

theorem reversal_receipt_final:
  assumes "money_reachable sha ssha supported db" "in64 (ov_AmountMinor v)"
    "AcceptProviderTopUpReversal sha NoFault env v db = (db1, Inr out)"
    "reachable (money_step sha ssha supported) db1 db2"
  shows "AcceptProviderTopUpReversal sha NoFault env' v db2 = (db2, Inr out)"
proof -
  note inv = reachable_ledger_inv [OF assms(1)]
  have run: "acceptTopUpReversalTx sha env v db = Inr (out, db1)"
    using assms(3)
    by (auto simp: AcceptProviderTopUpReversal_def run_tx_NoFault split: sum.splits if_splits)
  have inv1: "ledger_inv db1" using accept_reversal_good [OF inv assms(2) run] by (simp add: good_step_def)
  have "history_kept db1 db2" using steps_good [OF assms(4) inv1] by (simp add: good_step_def)
  then have "reversal_recorded sha v out db2"
    using reversal_recorded_kept [OF accept_reversal_records [OF run assms(2) inv] steps_bindings [OF assms(4) inv1]]
    by blast
  then show ?thesis
    using reversal_recorded_replay [of sha v out db2 env']
    by (simp add: AcceptProviderTopUpReversal_def run_tx_NoFault reversal_recorded_def Let_def)
qed


definition later_db :: money_db where
  "later_db = fst (ReserveCommercialPurchase NoFault (sample_env 7) (sample_reserve ''op7'' ''buy7'' 700) run6)"

lemma run6_later: "reachable (money_step sample_sha sample_ssha True) run6 later_db"
  unfolding later_db_def
  by (rule reach_step [OF reach_refl], rule step_reserve) (simp add: sample_inputs in64_unfold)

theorem reversal_receipt_final_witness:
  "\<exists>out. AcceptProviderTopUpReversal sample_sha NoFault (sample_env 9) sample_chargeback later_db
     = (later_db, Inr out) \<and> rr_WalletPrincipalEffectMinor out = 900"
proof -
  obtain out where "AcceptProviderTopUpReversal sample_sha NoFault (sample_env 6) sample_chargeback run5 = (run6, Inr out)"
    "rr_WalletPrincipalEffectMinor out = 900"
  proof -
    have "map_sum (\<lambda>_. ()) rr_WalletPrincipalEffectMinor
        (snd (AcceptProviderTopUpReversal sample_sha NoFault (sample_env 6) sample_chargeback run5)) = Inr 900"
      by code_simp
    then obtain out where "snd (AcceptProviderTopUpReversal sample_sha NoFault (sample_env 6) sample_chargeback run5) = Inr out"
      "rr_WalletPrincipalEffectMinor out = 900" by (auto simp: map_sum_def split: sum.splits)
    then show thesis by (intro that [of out]) (simp_all only: run6_def prod_eq_iff fst_conv snd_conv)
  qed
  then show ?thesis
    using reversal_receipt_final [OF run_reachable(5) _ _ run6_later]
    by (auto simp: sample_chargeback_def in64_unfold)
qed


section \<open>The life of a refund hold\<close>
























lemma prepare_answers:
  assumes "prepareTopUpRefundTx sha env i db = Inr (out, db')" "Validate_TopUpRefundInput i"
  shows "rh_Input out = i"
  using assms(1)
  by (auto simp: prepareTopUpRefundTx_def Let_def split: sum.splits option.splits if_splits prod.splits)
    (use assms(2) in \<open>auto simp: refundHold_def Validate_TopUpRefundInput_def
      intro!: TopUpRefundInput.equality TopUpReversalKey.equality\<close>)

text \<open>
  A prepared refund hold is read back as it was answered, and in every later state the same
  request still finds its hold, with the same terms.
\<close>

theorem refund_hold_read_back:
  assumes "money_reachable sha ssha supported db" "in64 (fi_AmountMinor i)"
    "PrepareTopUpRefund sha NoFault env i db = (db1, Inr out)"
    "reachable (money_step sha ssha supported) db1 db2"
  shows "ReadTopUpRefundHold sha NoFault i db1 = Inr out
    \<and> (\<exists>h. ReadTopUpRefundHold sha NoFault i db2 = Inr h \<and> rh_Input h = i \<and> rh_HoldID h = rh_HoldID out
         \<and> (rh_State out \<noteq> HoldReserved \<longrightarrow> rh_State h = rh_State out)
         \<and> (rh_Dispatched out \<longrightarrow> rh_Dispatched h))"
proof -
  note inv = reachable_ledger_inv [OF assms(1)]
  have run: "prepareTopUpRefundTx sha env i db = Inr (out, db1)" and v: "Validate_TopUpRefundInput i"
    using assms(3) by (auto simp: PrepareTopUpRefund_def run_tx_NoFault split: sum.splits if_splits)
  have inv1: "ledger_inv db1"
    using prepare_refund_good [OF inv v assms(2) run] by (simp add: good_step_def)
  from ledger_invD(1) [OF inv] refund_amount_ok [OF v assms(2)] run
  obtain row where row: "row \<in> set (db_holds db1)" "th_HoldID row = StorageID sha (fi_Key i)"
    "out = refundHold row" "rh_Input out = i"
  proof (cases rule: prepare_cases)
    case (replay h)
    then show thesis by (intro that) auto
  next
    case (held st w w' e row)
    then show thesis using prepare_answers [OF run v] by (intro that) auto
  qed
  have read: "ReadTopUpRefundHold sha NoFault i x = Inr (refundHold h)"
    if h: "h \<in> set (db_holds x)" "th_HoldID h = StorageID sha (fi_Key i)" "rh_Input (refundHold h) = i"
      and x: "ledger_inv x" for x h
  proof -
    have "find (\<lambda>h. th_HoldID h = StorageID sha (fi_Key i) \<and> th_OrganizationID h = fi_OrganizationID i
        \<and> th_CommercialOrderID h = fi_CommercialOrderID i) (db_holds x) = Some h"
      using h ledger_invD(5) [OF x]
      by (intro find_unique [where key = th_HoldID]) (auto simp: holds_ok_def refundHold_def)
    then show ?thesis using h v by (simp add: ReadTopUpRefundHold_def run_read_def)
  qed
  note g = steps_good [OF assms(4) inv1]
  then obtain h where h: "h \<in> set (db_holds db2)" "hold_kept row h"
    using row(1) by (auto simp: good_step_def history_kept_def rows_kept_def)
  then have "ReadTopUpRefundHold sha NoFault i db2 = Inr (refundHold h)"
    using row g by (intro read) (auto simp: hold_kept_def good_step_def)
  then show ?thesis
    using read [OF row(1,2) _ inv1] row h(2) by (auto simp: hold_kept_def refundHold_def)
qed


section \<open>What a top-up posts\<close>




end
