(* ===== verification/Service_Amounts.thy ===== *)
theory Service_Amounts
  imports Service_Types "HOL-Library.Multiset"
begin

text \<open>
  The arithmetic of service payments: the commission split in 64-bit integers is the exact floor
  of the percentage, and the voucher loops that validate payments and refunds accept exactly the
  lists whose amounts add up.
\<close>

section \<open>The commission split\<close>

lemma quo_rem_nonneg:
  assumes "0 \<le> n" "in64 n"
  shows "quo64 n 10000 = n div 10000" "rem64 n 10000 = n mod 10000"
proof -
  have "n div 10000 \<le> n" "0 \<le> n div 10000" using assms(1) by linarith+
  moreover have "in64 (n mod 10000)"
    unfolding in64_unfold using pos_mod_bound [of 10000 n] pos_mod_sign [of 10000 n] by linarith
  ultimately show "quo64 n 10000 = n div 10000" "rem64 n 10000 = n mod 10000"
    using assms by (auto simp: quo64_def rem64_def sgn_if wrap64_id in64_unfold)
qed

text \<open>The split without any bound on the integers.\<close>

definition commission_floor :: "int \<Rightarrow> int \<Rightarrow> int" where
  "commission_floor net bps = net * bps div 10000"

lemma commission_floor_split:
  "(n div 10000) * b + (n mod 10000) * b div 10000 = commission_floor n (b :: int)"
proof -
  have "n * b = ((n div 10000) * b) * 10000 + (n mod 10000) * b"
    using arg_cong [OF div_mult_mod_eq [of n 10000], of "\<lambda>x. x * b"] by (simp only: distrib_right distrib_left mult_ac)
  then have "commission_floor n b = (((n div 10000) * b) * 10000 + (n mod 10000) * b) div 10000"
    by (simp add: commission_floor_def)
  also have "\<dots> = (n div 10000) * b + (n mod 10000) * b div 10000"
    by (subst add.commute, subst div_mult_self1) simp_all
  finally show ?thesis by simp
qed

lemma commission_floor_bounds:
  assumes "0 \<le> n" "0 \<le> b" "b \<le> 10000"
  shows "0 \<le> commission_floor n b" "commission_floor n b \<le> n"
proof -
  show "0 \<le> commission_floor n b" using assms by (simp add: commission_floor_def pos_imp_zdiv_nonneg_iff)
  have "n * b \<le> n * 10000" using assms by (intro mult_left_mono) auto
  then show "commission_floor n b \<le> n"
    unfolding commission_floor_def by (metis nonzero_mult_div_cancel_right zdiv_mono1 zero_less_numeral zero_neq_numeral)
qed

lemma commission_floor_step:
  assumes "0 \<le> k" "0 \<le> b" "b \<le> 10000"
  shows "commission_floor (n + k) b \<le> commission_floor n b + k"
proof -
  have "k * b \<le> k * 10000" using assms by (intro mult_left_mono) auto
  then have "(n + k) * b div 10000 \<le> (n * b + k * 10000) div 10000"
    by (intro zdiv_mono1) (auto simp: algebra_simps)
  then show ?thesis by (simp add: commission_floor_def)
qed

lemma allocation_exact:
  assumes net: "0 \<le> n" "in64 n" and b: "0 \<le> b" "b \<le> 10000"
  shows "add64 (mul64 (quo64 n 10000) b) (quo64 (mul64 (rem64 n 10000) b) 10000) = commission_floor n b"
proof -
  have small: "0 \<le> (n mod 10000) * b" "(n mod 10000) * b < 10000 * 10000 + 1"
    using b mult_mono [of "n mod 10000" 10000 b 10000] by (auto simp: order.strict_implies_order)
  have first: "0 \<le> (n div 10000) * b" "(n div 10000) * b \<le> n"
  proof -
    show "0 \<le> (n div 10000) * b" using net b by (simp add: pos_imp_zdiv_nonneg_iff)
    have "(n div 10000) * b \<le> (n div 10000) * 10000"
      using net b by (intro mult_left_mono) (auto simp: pos_imp_zdiv_nonneg_iff)
    also have "\<dots> \<le> n" using div_mult_mod_eq [of n 10000] pos_mod_sign [of 10000 n] by linarith
    finally show "(n div 10000) * b \<le> n" .
  qed
  have m1: "mul64 (n div 10000) b = (n div 10000) * b" "in64 ((n div 10000) * b)"
    using first net by (auto simp: mul64_def wrap64_id in64_unfold)
  have m2: "mul64 (n mod 10000) b = (n mod 10000) * b" "in64 ((n mod 10000) * b)"
    using small by (auto simp: mul64_def wrap64_id in64_unfold)
  have "in64 (commission_floor n b)"
    using commission_floor_bounds [OF net(1) b] net(2) by (auto simp: in64_unfold)
  then show ?thesis
    using commission_floor_split [of n b] quo_rem_nonneg [OF small(1) m2(2)]
    by (simp add: quo_rem_nonneg [OF net] m1 m2 add64_def wrap64_id)
qed

lemma allocation_Inr:
  assumes "in64 gross" "ServiceAllocation gross refunded policy = Inr (platform, provider)"
  shows "platform = commission_floor (gross - refunded) (ap_CommissionBPS policy)"
    "provider = gross - refunded - platform" "0 \<le> refunded" "refunded \<le> gross"
    "0 \<le> ap_CommissionBPS policy" "ap_CommissionBPS policy \<le> 10000"
proof -
  let ?n = "gross - refunded" and ?b = "ap_CommissionBPS policy"
  show valid: "0 \<le> refunded" "refunded \<le> gross" "0 \<le> ?b" "?b \<le> 10000"
    using assms(2) by (auto simp: ServiceAllocation_def Validate_ServiceAllocationPolicy_def split: if_splits)
  have n: "0 \<le> ?n" "in64 ?n" "sub64 gross refunded = ?n"
    using assms(1) valid by (auto simp: sub64_def in64_unfold)
  note bounds = commission_floor_bounds [OF n(1) valid(3,4)]
  then have rest: "sub64 ?n (commission_floor ?n ?b) = ?n - commission_floor ?n ?b"
    using n by (auto simp: sub64_def in64_unfold)
  show "platform = commission_floor ?n ?b" "provider = ?n - platform"
    using assms(2) rest
    by (auto simp: ServiceAllocation_def Let_def n(3) allocation_exact [OF n(1,2) valid(3,4)] split: if_splits)
qed

text \<open>
  C18: the commission of a service payment is computed in 64-bit integers without overflow and is
  exactly the floor of the percentage: whenever the policy and the amounts are valid, the platform
  gets the net amount times the basis points divided by 10000 rounded down, the provider the rest,
  neither part is negative, and the two add up to the net amount.
\<close>

theorem allocation_is_floor:
  assumes "in64 gross" "Validate_ServiceAllocationPolicy policy" "0 \<le> refunded" "refunded \<le> gross"
    "0 < gross \<or> ap_Basis policy = ServiceAllocationChannelNetFloorV2"
  shows "\<exists>platform provider. ServiceAllocation gross refunded policy = Inr (platform, provider)
    \<and> platform = commission_floor (gross - refunded) (ap_CommissionBPS policy)
    \<and> platform + provider = gross - refunded \<and> 0 \<le> platform \<and> 0 \<le> provider"
proof -
  obtain platform provider where s: "ServiceAllocation gross refunded policy = Inr (platform, provider)"
    using assms(2-5) by (auto simp: ServiceAllocation_def Let_def)
  note v = allocation_Inr [OF assms(1) s]
  then show ?thesis
    using s commission_floor_bounds [of "gross - refunded" "ap_CommissionBPS policy"] by simp
qed

theorem allocation_is_floor_witness:
  "\<exists>platform provider. ServiceAllocation 1999 0 \<lparr>ap_CommissionBPS = 500, ap_Basis = ServiceAllocationCumulativeNetFloorV1\<rparr>
     = Inr (platform, provider) \<and> platform = 99 \<and> platform + provider = 1999"
  using allocation_is_floor [of 1999 "\<lparr>ap_CommissionBPS = 500, ap_Basis = ServiceAllocationCumulativeNetFloorV1\<rparr>" 0]
  by (simp add: in64_unfold Validate_ServiceAllocationPolicy_def commission_floor_def)

text \<open>
  A growing refund never raises anyone's share: between two valid splits of the same gross
  amount the one with more refunded gives the platform and the provider no more than the other,
  and the shares they lose add up to exactly the additional refund.
\<close>

theorem allocation_antimono:
  assumes "in64 gross" "ServiceAllocation gross r1 policy = Inr (p1, q1)"
    "ServiceAllocation gross r2 policy = Inr (p2, q2)" "r1 \<le> r2"
  shows "p2 \<le> p1 \<and> q2 \<le> q1 \<and> (p1 - p2) + (q1 - q2) = r2 - r1"
proof -
  let ?b = "ap_CommissionBPS policy"
  note v1 = allocation_Inr [OF assms(1,2)] and v2 = allocation_Inr [OF assms(1,3)]
  have "p2 \<le> p1"
    unfolding v1(1) v2(1) commission_floor_def
    using assms(4) v1(5) by (intro zdiv_mono1 mult_right_mono) auto
  moreover have "p1 \<le> p2 + (r2 - r1)"
    using commission_floor_step [of "r2 - r1" ?b "gross - r2"] assms(4) v1 v2 by simp
  ultimately show ?thesis using v1(2) v2(2) by linarith
qed

section \<open>Vouchers of a payment\<close>

definition voucher_ok :: "ServiceVoucher \<Rightarrow> bool" where
  "voucher_ok v \<longleftrightarrow> isCanonicalWalletIdentifier (sv_ID v)
     \<and> (sv_FundingType v = ''CASH'' \<or> sv_FundingType v = ''NOCASH'') \<and> 0 < sv_AmountMinor v"

lemma vouchers_nonneg: "\<forall>v\<in>set vs. voucher_ok v \<Longrightarrow> 0 \<le> sum_list (map sv_AmountMinor vs)"
  by (rule sum_list_nonneg) (auto simp: voucher_ok_def)

lemma payment_vouchers_ok_iff:
  assumes "0 \<le> r" "in64 r"
  shows "payment_vouchers_ok r seen vs \<longleftrightarrow>
    (\<forall>v\<in>set vs. voucher_ok v) \<and> distinct (map sv_ID vs) \<and> sv_ID ` set vs \<inter> set seen = {}
    \<and> sum_list (map sv_AmountMinor vs) = r"
  using assms
proof (induction vs arbitrary: r seen)
  case Nil
  then show ?case by auto
next
  case (Cons v vs)
  show ?case
  proof (cases "voucher_ok v \<and> sv_ID v \<notin> set seen \<and> sv_AmountMinor v \<le> r")
    case True
    then have r: "sub64 r (sv_AmountMinor v) = r - sv_AmountMinor v" "0 \<le> r - sv_AmountMinor v"
      "in64 (r - sv_AmountMinor v)"
      using Cons.prems by (auto simp: voucher_ok_def sub64_def in64_unfold)
    have "payment_vouchers_ok r seen (v # vs) \<longleftrightarrow>
        payment_vouchers_ok (r - sv_AmountMinor v) (sv_ID v # seen) vs"
      using True by (auto simp: r voucher_ok_def)
    then show ?thesis using Cons.IH [OF r(2,3)] True by auto
  next
    case False
    then have "\<not> payment_vouchers_ok r seen (v # vs)" by (auto simp: voucher_ok_def)
    moreover have "\<not> ((\<forall>x\<in>set (v # vs). voucher_ok x) \<and> sv_ID ` set (v # vs) \<inter> set seen = {}
        \<and> sum_list (map sv_AmountMinor (v # vs)) = r)"
      using False vouchers_nonneg [of vs] by auto
    ultimately show ?thesis by blast
  qed
qed

lemma payment_amounts_spec:
  assumes "in64 gross"
  shows "Validate_ServicePaymentAmounts a gross \<longleftrightarrow>
    0 < gross \<and> 0 \<le> pa_PayerMinor a \<and> pa_PayerMinor a \<le> gross \<and> length (pa_Vouchers a) \<le> 100
    \<and> (\<forall>v\<in>set (pa_Vouchers a). voucher_ok v) \<and> distinct (map sv_ID (pa_Vouchers a))
    \<and> pa_PayerMinor a + sum_list (map sv_AmountMinor (pa_Vouchers a)) = gross"
proof (cases "0 < gross \<and> 0 \<le> pa_PayerMinor a \<and> pa_PayerMinor a \<le> gross")
  case True
  then have r: "sub64 gross (pa_PayerMinor a) = gross - pa_PayerMinor a" "0 \<le> gross - pa_PayerMinor a"
    "in64 (gross - pa_PayerMinor a)"
    using assms by (auto simp: sub64_def in64_unfold)
  then show ?thesis
    using True payment_vouchers_ok_iff [OF r(2,3), of "[]" "pa_Vouchers a"]
    by (auto simp: Validate_ServicePaymentAmounts_def)
qed (auto simp: Validate_ServicePaymentAmounts_def)

text \<open>
  C20: the voucher loop of a service payment accepts exactly the amounts that explain the gross
  price: with a gross amount in range, a payment is valid if and only if the payer's part lies
  between zero and the gross amount, there are at most one hundred vouchers, each with a canonical
  identity of its own, a known funding type and a positive amount, and the payer's part and the
  vouchers add up to the gross amount.
\<close>

theorem payment_amounts_valid_iff:
  assumes "in64 gross"
  shows "Validate_ServicePaymentAmounts a gross \<longleftrightarrow>
    0 < gross \<and> 0 \<le> pa_PayerMinor a \<and> pa_PayerMinor a \<le> gross \<and> length (pa_Vouchers a) \<le> 100
    \<and> (\<forall>v\<in>set (pa_Vouchers a). voucher_ok v) \<and> distinct (map sv_ID (pa_Vouchers a))
    \<and> pa_PayerMinor a + sum_list (map sv_AmountMinor (pa_Vouchers a)) = gross"
  using assms by (rule payment_amounts_spec)

definition sample_amounts :: ServicePaymentAmounts where
  "sample_amounts = \<lparr>pa_PayerMinor = 700,
     pa_Vouchers = [\<lparr>sv_ID = ''v2'', sv_FundingType = ''NOCASH'', sv_AmountMinor = 200\<rparr>,
                    \<lparr>sv_ID = ''v1'', sv_FundingType = ''CASH'', sv_AmountMinor = 100\<rparr>]\<rparr>"

theorem payment_amounts_valid_iff_witness:
  "Validate_ServicePaymentAmounts sample_amounts 1000
   \<and> pa_PayerMinor sample_amounts + sum_list (map sv_AmountMinor (pa_Vouchers sample_amounts)) = 1000"
proof -
  have "Validate_ServicePaymentAmounts sample_amounts 1000" by code_simp
  then show ?thesis using payment_amounts_valid_iff [of 1000 sample_amounts] by (simp add: in64_unfold)
qed

text \<open>The settlement amount: the payer's part and the vouchers paid in cash.\<close>

definition cash_sum :: "ServiceVoucher list \<Rightarrow> int" where
  "cash_sum vs = sum_list (map (\<lambda>v. if sv_FundingType v = ''CASH'' then sv_AmountMinor v else 0) vs)"

lemma cash_sum_bounds:
  assumes "\<forall>v\<in>set vs. voucher_ok v"
  shows "0 \<le> cash_sum vs" "cash_sum vs \<le> sum_list (map sv_AmountMinor vs)"
  using assms unfolding cash_sum_def
  by (auto intro!: sum_list_nonneg sum_list_mono simp: voucher_ok_def order.strict_implies_order)

lemma fold_add64:
  assumes "\<forall>v\<in>set vs. 0 \<le> g v" "in64 n" "0 \<le> n" "n + sum_list (map (\<lambda>v. if c v then g v else 0) vs) \<le> max64"
  shows "fold (\<lambda>v n. if c v then add64 n (g v) else n) vs n = n + sum_list (map (\<lambda>v. if c v then g v else 0) vs)"
  using assms
proof (induction vs arbitrary: n)
  case (Cons v vs)
  have rest: "0 \<le> sum_list (map (\<lambda>v. if c v then g v else 0) vs)"
    using Cons.prems(1) by (intro sum_list_nonneg) auto
  show ?case
  proof (cases "c v")
    case True
    then have "add64 n (g v) = n + g v" using Cons.prems rest by (auto simp: add64_def in64_unfold)
    then show ?thesis using True Cons.IH [of "n + g v"] Cons.prems rest by (auto simp: in64_unfold)
  next
    case False
    then show ?thesis using Cons.IH [of n] Cons.prems by simp
  qed
qed simp

lemma settlement_payment:
  assumes "in64 gross" "0 \<le> pa_PayerMinor a" "\<forall>v\<in>set (pa_Vouchers a). voucher_ok v"
    "pa_PayerMinor a + sum_list (map sv_AmountMinor (pa_Vouchers a)) = gross"
  shows "SettlementMinor_ServicePaymentAmounts a = pa_PayerMinor a + cash_sum (pa_Vouchers a)"
proof -
  note b = cash_sum_bounds [OF assms(3)] vouchers_nonneg [OF assms(3)]
  have "pa_PayerMinor a + cash_sum (pa_Vouchers a) \<le> max64" "in64 (pa_PayerMinor a)"
    using assms b by (auto simp: in64_unfold)
  then show ?thesis
    unfolding SettlementMinor_ServicePaymentAmounts_def cash_sum_def
    using assms(2,3) by (intro fold_add64) (auto simp: voucher_ok_def)
qed

lemma sum_list_sort_key [simp]:
  "sum_list (map g (sort_key k xs)) = (sum_list (map g xs) :: int)"
  by (metis mset_map mset_sort sum_mset_sum_list)

lemma distinct_map_sort_key [simp]: "distinct (map g (sort_key k xs)) = distinct (map g xs)"
  by (metis mset_map mset_sort mset_eq_imp_distinct_iff)

lemma Normalize_vouchers [simp]:
  "pa_PayerMinor (Normalize_ServicePaymentAmounts a) = pa_PayerMinor a"
  "pa_Vouchers (Normalize_ServicePaymentAmounts a) = sort_key sv_ID (pa_Vouchers a)"
  by (simp_all add: Normalize_ServicePaymentAmounts_def)


text \<open>
  Bringing the vouchers of a payment into order changes nothing that matters: the normalized
  amounts are valid for exactly the same gross amounts, ordering twice is ordering once, and for
  valid amounts the settlement (the payer's part and the vouchers paid in cash) is the same, is
  computed without overflow and lies between the payer's part and the gross amount.
\<close>

theorem normalize_payment_amounts:
  assumes "in64 gross"
  shows "Validate_ServicePaymentAmounts (Normalize_ServicePaymentAmounts a) gross
      = Validate_ServicePaymentAmounts a gross
    \<and> Normalize_ServicePaymentAmounts (Normalize_ServicePaymentAmounts a) = Normalize_ServicePaymentAmounts a
    \<and> (Validate_ServicePaymentAmounts a gross \<longrightarrow>
         SettlementMinor_ServicePaymentAmounts (Normalize_ServicePaymentAmounts a)
           = SettlementMinor_ServicePaymentAmounts a
         \<and> SettlementMinor_ServicePaymentAmounts a = pa_PayerMinor a + cash_sum (pa_Vouchers a)
         \<and> pa_PayerMinor a \<le> SettlementMinor_ServicePaymentAmounts a
         \<and> SettlementMinor_ServicePaymentAmounts a \<le> gross)"
proof (intro conjI impI)
  show same: "Validate_ServicePaymentAmounts (Normalize_ServicePaymentAmounts a) gross
      = Validate_ServicePaymentAmounts a gross"
    using assms by (simp add: payment_amounts_spec)
  show "Normalize_ServicePaymentAmounts (Normalize_ServicePaymentAmounts a) = Normalize_ServicePaymentAmounts a"
    by (simp add: Normalize_ServicePaymentAmounts_def sort_key_id_if_sorted)
  assume v: "Validate_ServicePaymentAmounts a gross"
  then have spec: "0 \<le> pa_PayerMinor a" "\<forall>v\<in>set (pa_Vouchers a). voucher_ok v"
    "pa_PayerMinor a + sum_list (map sv_AmountMinor (pa_Vouchers a)) = gross"
    using assms by (simp_all add: payment_amounts_spec)
  have cash: "cash_sum (sort_key sv_ID vs) = cash_sum vs" for vs by (simp add: cash_sum_def)
  show eq: "SettlementMinor_ServicePaymentAmounts a = pa_PayerMinor a + cash_sum (pa_Vouchers a)"
    by (rule settlement_payment [OF assms spec])
  show "SettlementMinor_ServicePaymentAmounts (Normalize_ServicePaymentAmounts a)
      = SettlementMinor_ServicePaymentAmounts a"
    using settlement_payment [OF assms, of "Normalize_ServicePaymentAmounts a"] spec eq by (simp add: cash)
  show "pa_PayerMinor a \<le> SettlementMinor_ServicePaymentAmounts a"
    "SettlementMinor_ServicePaymentAmounts a \<le> gross"
    using eq spec(3) cash_sum_bounds [OF spec(2)] by simp_all
qed

section \<open>Vouchers of a refund\<close>

definition refund_voucher_ok :: "(string \<rightharpoonup> ServiceVoucher) \<Rightarrow> ServiceVoucherRefund \<Rightarrow> bool" where
  "refund_voucher_ok original v \<longleftrightarrow>
     (\<exists>ov. original (vr_ID v) = Some ov \<and> (vr_RefundType v = ''COUPON'' \<or> vr_RefundType v = ''DISCOUNT'')
        \<and> vr_FundingType v = sv_FundingType ov \<and> vr_OriginalAmountMinor v = sv_AmountMinor ov
        \<and> 0 \<le> vr_RefundMinor v \<and> vr_RefundMinor v \<le> sv_AmountMinor ov)"

lemma refunds_nonneg: "\<forall>v\<in>set vs. refund_voucher_ok og v \<Longrightarrow> 0 \<le> sum_list (map vr_RefundMinor vs)"
  by (rule sum_list_nonneg) (auto simp: refund_voucher_ok_def)

lemma refund_vouchers_ok_iff:
  assumes "0 \<le> r" "in64 r"
  shows "refund_vouchers_ok og r seen vs \<longleftrightarrow>
    (\<forall>v\<in>set vs. refund_voucher_ok og v) \<and> distinct (map vr_ID vs) \<and> vr_ID ` set vs \<inter> set seen = {}
    \<and> sum_list (map vr_RefundMinor vs) = r"
  using assms
proof (induction vs arbitrary: r seen)
  case Nil
  then show ?case by auto
next
  case (Cons v vs)
  show ?case
  proof (cases "refund_voucher_ok og v \<and> vr_ID v \<notin> set seen \<and> vr_RefundMinor v \<le> r")
    case True
    then have r: "sub64 r (vr_RefundMinor v) = r - vr_RefundMinor v" "0 \<le> r - vr_RefundMinor v"
      "in64 (r - vr_RefundMinor v)"
      using Cons.prems by (auto simp: refund_voucher_ok_def sub64_def in64_unfold)
    have "refund_vouchers_ok og r seen (v # vs) \<longleftrightarrow>
        refund_vouchers_ok og (r - vr_RefundMinor v) (vr_ID v # seen) vs"
      using True by (auto simp: r refund_voucher_ok_def)
    then show ?thesis using Cons.IH [OF r(2,3)] True by auto
  next
    case False
    then have "\<not> refund_vouchers_ok og r seen (v # vs)" by (auto simp: refund_voucher_ok_def split: option.splits)
    moreover have "\<not> ((\<forall>x\<in>set (v # vs). refund_voucher_ok og x) \<and> vr_ID ` set (v # vs) \<inter> set seen = {}
        \<and> sum_list (map vr_RefundMinor (v # vs)) = r)"
      using False refunds_nonneg [of vs og] by auto
    ultimately show ?thesis by blast
  qed
qed

lemma refund_amounts_spec:
  assumes "in64 nominal" "Validate_ServiceRefundAmounts a payment nominal"
  shows "0 < nominal" "0 \<le> ra_PayerMinor a" "ra_PayerMinor a \<le> pa_PayerMinor payment"
    "\<forall>v\<in>set (ra_Vouchers a). refund_voucher_ok (original_vouchers (pa_Vouchers payment)) v"
    "distinct (map vr_ID (ra_Vouchers a))"
    "ra_PayerMinor a + sum_list (map vr_RefundMinor (ra_Vouchers a)) = nominal"
proof -
  from assms have v: "0 < nominal" "0 \<le> ra_PayerMinor a" "ra_PayerMinor a \<le> nominal"
    "ra_PayerMinor a \<le> pa_PayerMinor payment" "0 \<le> ra_DiscountMinor a"
    "ra_DiscountMinor a = sub64 nominal (ra_PayerMinor a)"
    "refund_vouchers_ok (original_vouchers (pa_Vouchers payment)) (ra_DiscountMinor a) [] (ra_Vouchers a)"
    by (auto simp: Validate_ServiceRefundAmounts_def)
  then have d: "ra_DiscountMinor a = nominal - ra_PayerMinor a" "in64 (ra_DiscountMinor a)"
    using assms(1) by (auto simp: sub64_def in64_unfold)
  show "0 < nominal" "0 \<le> ra_PayerMinor a" "ra_PayerMinor a \<le> pa_PayerMinor payment" using v by simp_all
  show "\<forall>v\<in>set (ra_Vouchers a). refund_voucher_ok (original_vouchers (pa_Vouchers payment)) v"
    "distinct (map vr_ID (ra_Vouchers a))"
    "ra_PayerMinor a + sum_list (map vr_RefundMinor (ra_Vouchers a)) = nominal"
    using v(7) d(1) refund_vouchers_ok_iff [OF v(5) d(2)] by auto
qed


definition cash_refunds :: "ServiceVoucherRefund list \<Rightarrow> int" where
  "cash_refunds vs = sum_list (map (\<lambda>v. if vr_FundingType v = ''CASH'' then vr_RefundMinor v else 0) vs)"

lemma original_vouchers_Some:
  "original_vouchers vs i = Some ov \<Longrightarrow> ov \<in> set vs \<and> sv_ID ov = i"
  by (auto simp: original_vouchers_def dest!: map_of_SomeD)

lemma original_vouchers_member:
  "distinct (map sv_ID vs) \<Longrightarrow> ov \<in> set vs \<Longrightarrow> original_vouchers vs (sv_ID ov) = Some ov"
  by (auto simp: original_vouchers_def rev_map [symmetric] comp_def intro!: map_of_is_SomeI)

lemma sum_list_over_keys:
  assumes "distinct (map k vs)"
  shows "sum_list (map (\<lambda>v. G (k v)) vs) = (\<Sum>i\<in>k ` set vs. G i :: int)"
  using assms sum_list_distinct_conv_sum_set [of "map k vs" G] by (simp add: comp_def)

lemma cash_refunds_le:
  assumes ok: "\<forall>v\<in>set vs. refund_voucher_ok (original_vouchers ps) v" and d: "distinct (map vr_ID vs)"
    and ps: "distinct (map sv_ID ps)" "\<forall>p\<in>set ps. voucher_ok p"
  shows "cash_refunds vs \<le> cash_sum ps"
proof -
  define G where "G i = (case original_vouchers ps i of None \<Rightarrow> 0
    | Some p \<Rightarrow> if sv_FundingType p = ''CASH'' then sv_AmountMinor p else 0)" for i
  have nonneg: "0 \<le> G i" for i
    using ps(2) by (auto simp: G_def voucher_ok_def split: option.splits dest!: original_vouchers_Some)
  have "cash_refunds vs \<le> sum_list (map (\<lambda>v. G (vr_ID v)) vs)"
    unfolding cash_refunds_def
    using ok nonneg by (intro sum_list_mono) (auto simp: refund_voucher_ok_def G_def)
  also have "\<dots> = (\<Sum>i\<in>vr_ID ` set vs. G i)" by (rule sum_list_over_keys [OF d])
  also have "\<dots> \<le> (\<Sum>i\<in>sv_ID ` set ps. G i)"
  proof (rule sum_mono2)
    show "vr_ID ` set vs \<subseteq> sv_ID ` set ps"
    proof
      fix i
      assume "i \<in> vr_ID ` set vs"
      then obtain ov where "original_vouchers ps i = Some ov" using ok by (auto simp: refund_voucher_ok_def)
      then show "i \<in> sv_ID ` set ps" using original_vouchers_Some by blast
    qed
  qed (use nonneg in auto)
  also have "\<dots> = sum_list (map (\<lambda>p. G (sv_ID p)) ps)" by (rule sum_list_over_keys [OF ps(1), symmetric])
  also have "\<dots> = cash_sum ps"
    unfolding cash_sum_def using ps(1)
    by (intro arg_cong [where f = sum_list] map_cong) (auto simp: G_def original_vouchers_member)
  finally show ?thesis .
qed

lemma settlement_refund:
  assumes "in64 nominal" "Validate_ServiceRefundAmounts a payment nominal"
  shows "SettlementMinor_ServiceRefundAmounts a = ra_PayerMinor a + cash_refunds (ra_Vouchers a)"
    "0 \<le> cash_refunds (ra_Vouchers a)" "ra_PayerMinor a + cash_refunds (ra_Vouchers a) \<le> nominal"
proof -
  note sp = refund_amounts_spec [OF assms]
  have pos: "\<forall>v\<in>set (ra_Vouchers a). 0 \<le> vr_RefundMinor v" using sp(4) by (auto simp: refund_voucher_ok_def)
  show nn: "0 \<le> cash_refunds (ra_Vouchers a)"
    unfolding cash_refunds_def using pos by (intro sum_list_nonneg) auto
  have "cash_refunds (ra_Vouchers a) \<le> sum_list (map vr_RefundMinor (ra_Vouchers a))"
    unfolding cash_refunds_def using pos by (intro sum_list_mono) auto
  then show le: "ra_PayerMinor a + cash_refunds (ra_Vouchers a) \<le> nominal" using sp(6) by simp
  then have "ra_PayerMinor a + cash_refunds (ra_Vouchers a) \<le> max64" "in64 (ra_PayerMinor a)"
    using assms(1) sp(2) nn by (auto simp: in64_unfold)
  then show "SettlementMinor_ServiceRefundAmounts a = ra_PayerMinor a + cash_refunds (ra_Vouchers a)"
    unfolding SettlementMinor_ServiceRefundAmounts_def cash_refunds_def
    using pos sp(2) by (intro fold_add64) auto
qed

text \<open>
  C22: a valid refund gives back no more than was paid, in any part: its payer's part and voucher
  parts add up to the nominal refund, the payer gets back at most what the payer paid, each voucher
  at most its amount, and what the channel settles back is computed without overflow and is at
  most both the nominal refund and the settlement of the payment.
\<close>

theorem refund_within_payment:
  assumes "in64 gross" "Validate_ServicePaymentAmounts payment gross"
    "in64 nominal" "Validate_ServiceRefundAmounts a payment nominal"
  shows "ra_PayerMinor a + sum_list (map vr_RefundMinor (ra_Vouchers a)) = nominal
    \<and> ra_PayerMinor a \<le> pa_PayerMinor payment
    \<and> (\<forall>v\<in>set (ra_Vouchers a). \<exists>p\<in>set (pa_Vouchers payment). sv_ID p = vr_ID v \<and> vr_RefundMinor v \<le> sv_AmountMinor p)
    \<and> 0 \<le> SettlementMinor_ServiceRefundAmounts a
    \<and> SettlementMinor_ServiceRefundAmounts a \<le> nominal
    \<and> SettlementMinor_ServiceRefundAmounts a \<le> SettlementMinor_ServicePaymentAmounts payment"
proof -
  note r = refund_amounts_spec [OF assms(3,4)] and rs = settlement_refund [OF assms(3,4)]
  have p: "0 \<le> pa_PayerMinor payment" "\<forall>v\<in>set (pa_Vouchers payment). voucher_ok v"
    "distinct (map sv_ID (pa_Vouchers payment))"
    "pa_PayerMinor payment + sum_list (map sv_AmountMinor (pa_Vouchers payment)) = gross"
    using assms(1,2) by (simp_all add: payment_amounts_spec)
  note ps = settlement_payment [OF assms(1) p(1,2,4)]
  have "\<forall>v\<in>set (ra_Vouchers a). \<exists>q\<in>set (pa_Vouchers payment). sv_ID q = vr_ID v \<and> vr_RefundMinor v \<le> sv_AmountMinor q"
    using r(4) by (fastforce simp: refund_voucher_ok_def dest: original_vouchers_Some)
  then show ?thesis
    using r rs ps cash_refunds_le [OF r(4,5) p(3,2)] by simp
qed

definition sample_refund_amounts :: ServiceRefundAmounts where
  "sample_refund_amounts = \<lparr>ra_PayerMinor = 350, ra_DiscountMinor = 150,
     ra_Vouchers = [\<lparr>vr_ID = ''v1'', vr_RefundType = ''COUPON'', vr_FundingType = ''CASH'',
                     vr_OriginalAmountMinor = 100, vr_RefundMinor = 50\<rparr>,
                    \<lparr>vr_ID = ''v2'', vr_RefundType = ''DISCOUNT'', vr_FundingType = ''NOCASH'',
                     vr_OriginalAmountMinor = 200, vr_RefundMinor = 100\<rparr>]\<rparr>"

theorem refund_within_payment_witness:
  "SettlementMinor_ServiceRefundAmounts sample_refund_amounts \<le> SettlementMinor_ServicePaymentAmounts sample_amounts
   \<and> SettlementMinor_ServiceRefundAmounts sample_refund_amounts = 400"
proof -
  have "Validate_ServicePaymentAmounts sample_amounts 1000"
    "Validate_ServiceRefundAmounts sample_refund_amounts sample_amounts 500"
    "SettlementMinor_ServiceRefundAmounts sample_refund_amounts = 400" by code_simp+
  then show ?thesis using refund_within_payment [of 1000 sample_amounts 500 sample_refund_amounts]
    by (simp add: in64_unfold)
qed

section \<open>The commission returned by a refund plan\<close>

text \<open>
  A refund plan returns exactly the commission that is no longer due: for a plan with a
  share, the return after the refund is never negative, stays within what is left of the share
  after the first return, and leaves the platform with exactly the floor of its percentage on the
  settlement that remains.
\<close>

theorem post_return_settles_share:
  assumes "PostReturn p actual = Inr due" "rp_OriginalShareID p \<noteq> []"
    "in64 (rp_SettlementMinor p)" "in64 (rp_NetShareMinor p)"
  shows "0 \<le> due \<and> rp_PreReturnMinor p + due \<le> rp_NetShareMinor p
    \<and> rp_NetShareMinor p - rp_PreReturnMinor p - due
        = commission_floor (rp_SettlementMinor p - SettlementMinor_ServiceRefundAmounts actual)
            (ap_CommissionBPS (rp_Allocation p))"
proof -
  from assms(1,2) obtain target rest where s: "ServiceAllocation (rp_SettlementMinor p)
      (SettlementMinor_ServiceRefundAmounts actual) (rp_Allocation p) = Inr (target, rest)"
    by (auto simp: PostReturn_def split: if_splits sum.splits)
  note v = allocation_Inr [OF assms(3) s]
  have plan: "0 \<le> rp_NetShareMinor p" "0 \<le> rp_PreReturnMinor p" "rp_PreReturnMinor p \<le> rp_NetShareMinor p"
    using assms(1) by (auto simp: PostReturn_def Validate_ServiceRefundPlan_def split: if_splits)
  have left: "sub64 (rp_NetShareMinor p) (rp_PreReturnMinor p) = rp_NetShareMinor p - rp_PreReturnMinor p"
    using plan assms(4) by (auto simp: sub64_def in64_unfold)
  have t: "0 \<le> target" "target \<le> rp_SettlementMinor p"
    using commission_floor_bounds [of "rp_SettlementMinor p - SettlementMinor_ServiceRefundAmounts actual"
        "ap_CommissionBPS (rp_Allocation p)"] v by linarith+
  then have "sub64 (rp_NetShareMinor p - rp_PreReturnMinor p) target = rp_NetShareMinor p - rp_PreReturnMinor p - target"
    using plan assms(3,4) by (auto simp: sub64_def in64_unfold)
  then have "due = rp_NetShareMinor p - rp_PreReturnMinor p - target" "0 \<le> due"
    using assms(1,2) s by (auto simp: PostReturn_def Let_def left split: if_splits)
  then show ?thesis using t v(1) by simp
qed


definition sample_plan :: ServiceRefundPlan where
  "sample_plan =
     \<lparr>rp_OrderID = ''o'', rp_PaymentID = ''p'', rp_CommandID = ''c'', rp_SourceProofID = ''s'',
      rp_PreOperationID = ''pre'', rp_RefundOperationID = ''ref'', rp_PostOperationID = ''post'',
      rp_ReleaseOperationID = ''rel'', rp_OriginalShareID = ''share'',
      rp_Allocation = \<lparr>ap_CommissionBPS = 500, ap_Basis = ServiceAllocationChannelNetFloorV2\<rparr>,
      rp_NominalMinor = 500, rp_BaseRefundedMinor = 0, rp_BaseSettlementRefundedMinor = 0,
      rp_BaseReturnedMinor = 0, rp_SettlementMinor = 800, rp_NetShareMinor = 40,
      rp_RemainingNoCashMinor = 200, rp_PreReturnMinor = 15\<rparr>"

end
