(* ===== verification/Res_Types.thy ===== *)
theory Res_Types
  imports Prelude
begin

text \<open>
  The exported types, validators and request fingerprints of the organization resource ledger
  (\<open>internal/ledger/orgresource\<close>): welcome grants, purchased grants, trial grants, reservations
  and their settlement, member allocations, member limits and consumer charges.

  Go's string types (\<open>ResourceType\<close>, \<open>ReservationState\<close>, ...) are \<open>string\<close> with the constants
  as abbreviations. Sentinel errors are constructors of \<open>rerr\<close>; an error wrapped with \<open>%w\<close> is the
  sentinel it wraps. JSON documents are syntax trees: the text that \<open>json.Marshal\<close> writes is only
  stored, hashed and read back. The two digests the code computes (SHA-256 in hexadecimal of a
  JSON document and of a text) are the fields of the parameter \<open>digests\<close>.
\<close>

datatype rerr =
    ErrForbidden | ErrInvalidInput | ErrWelcomeGrantNotApproved | ErrIdempotencyKeyConflict
  | ErrConcurrencyRetry | ErrReservationOwnerNotRegistered | ErrOwnerScopeMismatch
  | ErrOwnerNotReservable | ErrInsufficientBalance | ErrOwnerNotTerminal | ErrInvalidOwnerProof
  | ErrReservationNotFound | ErrMemberResourceVersionConflict | ErrResourceDebtOutstanding
  | ErrMemberLimitUnavailable | ErrMemberLimitExceeded | ErrMemberLimitVersionConflict
  | ErrConsumerChargeUnknown | ErrBalanceUnavailable
  | ErrRecordNotFound | DeadlineExceeded | ContextCanceled
  | DriverErr string string | OtherErr string

text \<open>The error of the database driver for an insert that violates a unique key.\<close>

abbreviation ErrDuplicateKey :: rerr where
  "ErrDuplicateKey \<equiv> DriverErr ''23505'' ''duplicate key value''"

section \<open>JSON documents\<close>

datatype json =
    JStr string | JNum int | JTime gotime | JBool bool | JArr "json list"
  | JObj "(string \<times> json) list"

record digests =
  dg_json :: "json \<Rightarrow> string"
  dg_text :: "string \<Rightarrow> string"

definition member_of :: "string \<Rightarrow> json \<Rightarrow> json option option" where
  "member_of k j = (case j of JObj ms \<Rightarrow> Some (map_of ms k) | _ \<Rightarrow> None)"

text \<open>
  Reading a field of a struct: an absent member leaves the zero value, a member of another JSON
  type is an error.
\<close>

definition str_field :: "string \<Rightarrow> json \<Rightarrow> string option" where
  "str_field k j = (case member_of k j of
     Some None \<Rightarrow> Some [] | Some (Some (JStr s)) \<Rightarrow> Some s | _ \<Rightarrow> None)"

definition num_field :: "string \<Rightarrow> json \<Rightarrow> i64 option" where
  "num_field k j = (case member_of k j of
     Some None \<Rightarrow> Some 0 | Some (Some (JNum n)) \<Rightarrow> (if in64 n then Some n else None) | _ \<Rightarrow> None)"

definition time_field :: "string \<Rightarrow> json \<Rightarrow> gotime option" where
  "time_field k j = (case member_of k j of
     Some None \<Rightarrow> Some 0 | Some (Some (JTime t)) \<Rightarrow> Some t | _ \<Rightarrow> None)"

definition bool_field :: "string \<Rightarrow> json \<Rightarrow> bool option" where
  "bool_field k j = (case member_of k j of
     Some None \<Rightarrow> Some False | Some (Some (JBool b)) \<Rightarrow> Some b | _ \<Rightarrow> None)"

definition obj_field :: "string \<Rightarrow> json \<Rightarrow> json option" where
  "obj_field k j = (case member_of k j of
     Some None \<Rightarrow> Some (JObj []) | Some (Some (JObj ms)) \<Rightarrow> Some (JObj ms) | _ \<Rightarrow> None)"

named_theorems json_simps "reading back the members of a JSON document"
lemmas field_defs [json_simps] =
  str_field_def num_field_def time_field_def bool_field_def obj_field_def member_of_def

text \<open>Go's \<open>strconv.FormatInt(n, 10)\<close>.\<close>

fun FormatNat :: "nat \<Rightarrow> string" where
  "FormatNat n = (if n < 10 then [char_of (48 + n)]
     else FormatNat (n div 10) @ [char_of (48 + n mod 10)])"

declare FormatNat.simps [simp del]

definition FormatInt :: "i64 \<Rightarrow> string" where
  "FormatInt n = (if n < 0 then CHR ''-'' # FormatNat (nat (- n)) else FormatNat (nat n))"

section \<open>Resource types and principals\<close>

type_synonym ResourceType = string

abbreviation ResourceStoreRenewalPeriod :: ResourceType where
  "ResourceStoreRenewalPeriod \<equiv> ''store_renewal_period''"
abbreviation ResourceAIPoint :: ResourceType where
  "ResourceAIPoint \<equiv> ''ai_point''"
abbreviation ResourceDataRow :: ResourceType where
  "ResourceDataRow \<equiv> ''data_row''"

abbreviation OperationGrantWelcomeStoreRenewalPeriod :: string where
  "OperationGrantWelcomeStoreRenewalPeriod \<equiv> ''grant_welcome_store_renewal_period''"
abbreviation SourceOnboardingWelcomeStorePeriod :: string where
  "SourceOnboardingWelcomeStorePeriod \<equiv> ''onboarding_welcome_store_period''"

definition validResourceType :: "ResourceType \<Rightarrow> bool" where
  "validResourceType t \<longleftrightarrow>
     t = ResourceStoreRenewalPeriod \<or> t = ResourceAIPoint \<or> t = ResourceDataRow"

abbreviation PrincipalTenantHuman :: string where
  "PrincipalTenantHuman \<equiv> ''tenant_human''"
abbreviation PrincipalTrustedCommercial :: string where
  "PrincipalTrustedCommercial \<equiv> ''trusted_commercial''"
abbreviation PrincipalTrustedTrialOperator :: string where
  "PrincipalTrustedTrialOperator \<equiv> ''trusted_trial_operator''"

record Principal =
  pcl_ID :: string
  pcl_Kind :: string

definition validLimitIdentity :: "string \<Rightarrow> bool" where
  "validLimitIdentity s \<longleftrightarrow> s \<noteq> [] \<and> TrimSpace s = s \<and> length s \<le> 128"

section \<open>Welcome grants\<close>

record WelcomeGrantApproval =
  wga_OrganizationID :: string
  wga_EvidenceID :: string
  wga_ApprovedAt :: gotime

record GrantWelcomeStoreRenewalPeriodInput =
  wgi_OrganizationID :: string
  wgi_OperationID :: string
  wgi_Principal :: Principal

record WelcomeGrantExecution =
  wgx_OrganizationID :: string
  wgx_OperationID :: string
  wgx_OperationType :: string
  wgx_ResourceType :: ResourceType
  wgx_Quantity :: i64
  wgx_SourceType :: string
  wgx_SourceIdentity :: string
  wgx_ApprovalEvidenceID :: string
  wgx_ApprovedAt :: gotime
  wgx_ActorID :: string
  wgx_RequestFingerprint :: string

record WelcomeGrantReplay =
  wgr_OrganizationID :: string
  wgr_OperationID :: string
  wgr_ResourceType :: ResourceType
  wgr_SourceType :: string
  wgr_SourceIdentity :: string
  wgr_RequestFingerprint :: string

record WelcomeGrantSnapshot =
  wgs_OperationID :: string
  wgs_OrganizationID :: string
  wgs_ResourceType :: ResourceType
  wgs_Quantity :: string
  wgs_BalanceAfter :: string
  wgs_SourceType :: string
  wgs_SourceIdentity :: string
  wgs_EventID :: string

record WelcomeGrantResult =
  wgz_Snapshot :: WelcomeGrantSnapshot
  wgz_Replayed :: bool

definition fingerprintWelcomeGrant :: "digests \<Rightarrow> WelcomeGrantExecution \<Rightarrow> string" where
  "fingerprintWelcomeGrant dg x = dg_json dg (JObj
     [(''operation_type'', JStr (wgx_OperationType x)),
      (''organization_id'', JStr (wgx_OrganizationID x)),
      (''resource_type'', JStr (wgx_ResourceType x)),
      (''quantity'', JStr ''1''),
      (''source_type'', JStr (wgx_SourceType x)),
      (''source_identity'', JStr (wgx_SourceIdentity x))])"

definition Marshal_WelcomeGrantSnapshot :: "WelcomeGrantSnapshot \<Rightarrow> json" where
  "Marshal_WelcomeGrantSnapshot s = JObj
     [(''operation_id'', JStr (wgs_OperationID s)),
      (''organization_id'', JStr (wgs_OrganizationID s)),
      (''resource_type'', JStr (wgs_ResourceType s)),
      (''quantity'', JStr (wgs_Quantity s)),
      (''balance_after'', JStr (wgs_BalanceAfter s)),
      (''source_type'', JStr (wgs_SourceType s)),
      (''source_identity'', JStr (wgs_SourceIdentity s)),
      (''event_id'', JStr (wgs_EventID s))]"

definition Unmarshal_WelcomeGrantSnapshot :: "json \<Rightarrow> WelcomeGrantSnapshot option" where
  "Unmarshal_WelcomeGrantSnapshot j =
     (case (str_field ''operation_id'' j, str_field ''organization_id'' j,
            str_field ''resource_type'' j, str_field ''quantity'' j,
            str_field ''balance_after'' j, str_field ''source_type'' j,
            str_field ''source_identity'' j, str_field ''event_id'' j) of
        (Some a, Some b, Some c, Some d, Some e, Some f, Some g, Some h) \<Rightarrow>
          Some \<lparr>wgs_OperationID = a, wgs_OrganizationID = b, wgs_ResourceType = c,
                wgs_Quantity = d, wgs_BalanceAfter = e, wgs_SourceType = f,
                wgs_SourceIdentity = g, wgs_EventID = h\<rparr>
      | _ \<Rightarrow> None)"

section \<open>Purchased grants\<close>

abbreviation OperationGrantCommercialPurchase :: string where
  "OperationGrantCommercialPurchase \<equiv> ''grant_commercial_purchase''"
abbreviation SourceCommercialOrderItem :: string where
  "SourceCommercialOrderItem \<equiv> ''commercial_order_item''"

record PurchasedResourceGrantInput =
  pgi_OrganizationID :: string
  pgi_OperationID :: string
  pgi_CommercialOrderID :: string
  pgi_CommercialOrderItemID :: string
  pgi_ResourceType :: ResourceType
  pgi_Quantity :: i64
  pgi_Principal :: Principal

record PurchasedResourceGrantReplay =
  pgr_OrganizationID :: string
  pgr_OperationID :: string
  pgr_CommercialOrderID :: string
  pgr_CommercialOrderItemID :: string
  pgr_ResourceType :: ResourceType
  pgr_Quantity :: i64
  pgr_SourceType :: string
  pgr_SourceIdentity :: string
  pgr_RequestFingerprint :: string

record PurchasedResourceGrantExecution =
  pgx_OrganizationID :: string
  pgx_OperationID :: string
  pgx_OperationType :: string
  pgx_CommercialOrderID :: string
  pgx_CommercialOrderItemID :: string
  pgx_ResourceType :: ResourceType
  pgx_Quantity :: i64
  pgx_SourceType :: string
  pgx_SourceIdentity :: string
  pgx_ActorID :: string
  pgx_RequestFingerprint :: string

record PurchasedResourceGrantSnapshot =
  pgs_OperationID :: string
  pgs_OrganizationID :: string
  pgs_CommercialOrderID :: string
  pgs_CommercialOrderItemID :: string
  pgs_ResourceType :: ResourceType
  pgs_Quantity :: string
  pgs_BalanceAfter :: string
  pgs_SourceType :: string
  pgs_SourceIdentity :: string
  pgs_EventID :: string

record PurchasedResourceGrantResult =
  pgz_Snapshot :: PurchasedResourceGrantSnapshot
  pgz_Replayed :: bool

definition normalizePurchasedGrantInput :: "PurchasedResourceGrantInput \<Rightarrow> PurchasedResourceGrantInput" where
  "normalizePurchasedGrantInput i = i
     \<lparr>pgi_OrganizationID := TrimSpace (pgi_OrganizationID i),
      pgi_OperationID := TrimSpace (pgi_OperationID i),
      pgi_CommercialOrderID := TrimSpace (pgi_CommercialOrderID i),
      pgi_CommercialOrderItemID := TrimSpace (pgi_CommercialOrderItemID i),
      pgi_Principal := (pgi_Principal i)\<lparr>pcl_ID := TrimSpace (pcl_ID (pgi_Principal i))\<rparr>\<rparr>"

definition validatePurchasedGrantIdentity :: "PurchasedResourceGrantInput \<Rightarrow> rerr option" where
  "validatePurchasedGrantIdentity i =
     (if pcl_ID (pgi_Principal i) = [] then Some ErrForbidden
      else if \<not> list_all (\<lambda>(v, m). v \<noteq> [] \<and> length v \<le> m)
          [(pgi_OrganizationID i, 128), (pgi_OperationID i, 128),
           (pgi_CommercialOrderID i, 128), (pgi_CommercialOrderItemID i, 128)]
      then Some ErrInvalidInput
      else if pgi_Quantity i \<le> 0 \<or> \<not> validResourceType (pgi_ResourceType i)
      then Some ErrInvalidInput else None)"

text \<open>The length-prefixed text whose digest is the source identity of an order item.\<close>

definition orderItemCanonical :: "string \<Rightarrow> string \<Rightarrow> string \<Rightarrow> string" where
  "orderItemCanonical org order item =
     FormatNat (length org) @ '':'' @ org @ FormatNat (length order) @ '':'' @ order
     @ FormatNat (length item) @ '':'' @ item"

definition CommercialOrderItemSourceIdentity :: "digests \<Rightarrow> string \<Rightarrow> string \<Rightarrow> string \<Rightarrow> string" where
  "CommercialOrderItemSourceIdentity dg org order item =
     SourceCommercialOrderItem @ '':'' @ dg_text dg (orderItemCanonical org order item)"

definition purchasedGrantSourceIdentity :: "digests \<Rightarrow> string \<Rightarrow> string \<Rightarrow> string \<Rightarrow> string" where
  "purchasedGrantSourceIdentity dg org order item = CommercialOrderItemSourceIdentity dg org order item"

definition fingerprintPurchasedResourceGrant :: "digests \<Rightarrow> PurchasedResourceGrantExecution \<Rightarrow> string" where
  "fingerprintPurchasedResourceGrant dg x = dg_json dg (JObj
     [(''operation_type'', JStr (pgx_OperationType x)),
      (''organization_id'', JStr (pgx_OrganizationID x)),
      (''commercial_order_id'', JStr (pgx_CommercialOrderID x)),
      (''commercial_order_item_id'', JStr (pgx_CommercialOrderItemID x)),
      (''resource_type'', JStr (pgx_ResourceType x)),
      (''quantity'', JNum (pgx_Quantity x)),
      (''source_type'', JStr (pgx_SourceType x)),
      (''source_identity'', JStr (pgx_SourceIdentity x))])"

definition Marshal_PurchasedSnapshot :: "PurchasedResourceGrantSnapshot \<Rightarrow> json" where
  "Marshal_PurchasedSnapshot s = JObj
     [(''operation_id'', JStr (pgs_OperationID s)),
      (''organization_id'', JStr (pgs_OrganizationID s)),
      (''commercial_order_id'', JStr (pgs_CommercialOrderID s)),
      (''commercial_order_item_id'', JStr (pgs_CommercialOrderItemID s)),
      (''resource_type'', JStr (pgs_ResourceType s)),
      (''quantity'', JStr (pgs_Quantity s)),
      (''balance_after'', JStr (pgs_BalanceAfter s)),
      (''source_type'', JStr (pgs_SourceType s)),
      (''source_identity'', JStr (pgs_SourceIdentity s)),
      (''event_id'', JStr (pgs_EventID s))]"

definition Unmarshal_PurchasedSnapshot :: "json \<Rightarrow> PurchasedResourceGrantSnapshot option" where
  "Unmarshal_PurchasedSnapshot j =
     (case (str_field ''operation_id'' j, str_field ''organization_id'' j,
            str_field ''commercial_order_id'' j, str_field ''commercial_order_item_id'' j,
            str_field ''resource_type'' j, str_field ''quantity'' j,
            str_field ''balance_after'' j, str_field ''source_type'' j,
            str_field ''source_identity'' j, str_field ''event_id'' j) of
        (Some a, Some b, Some c, Some d, Some e, Some f, Some g, Some h, Some k, Some l) \<Rightarrow>
          Some \<lparr>pgs_OperationID = a, pgs_OrganizationID = b, pgs_CommercialOrderID = c,
                pgs_CommercialOrderItemID = d, pgs_ResourceType = e, pgs_Quantity = f,
                pgs_BalanceAfter = g, pgs_SourceType = h, pgs_SourceIdentity = k,
                pgs_EventID = l\<rparr>
      | _ \<Rightarrow> None)"

section \<open>Trial grants\<close>

abbreviation OperationGrantLocalAITrial :: string where
  "OperationGrantLocalAITrial \<equiv> ''grant_local_ai_trial''"
abbreviation SourceLocalAITrial :: string where
  "SourceLocalAITrial \<equiv> ''local_ai_trial_v1''"
abbreviation TrialAIGrantQuantity :: i64 where
  "TrialAIGrantQuantity \<equiv> 10000"

record TrialAIGrantApproval =
  tga_OrganizationID :: string
  tga_OperatorID :: string
  tga_EvidenceID :: string
  tga_GrantEnabled :: bool

record TrialAIGrantInput =
  tgi_OrganizationID :: string
  tgi_OperationID :: string
  tgi_Principal :: Principal

record TrialAIGrantExecution =
  tgx_OrganizationID :: string
  tgx_OperationID :: string
  tgx_ActorID :: string
  tgx_ApprovalEvidenceID :: string
  tgx_SourceIdentity :: string
  tgx_RequestFingerprint :: string

record TrialAIGrantSnapshot =
  tgs_OperationID :: string
  tgs_OrganizationID :: string
  tgs_ResourceType :: ResourceType
  tgs_Quantity :: string
  tgs_GrossCredit :: string
  tgs_DebtRepaid :: string
  tgs_NetCredit :: string
  tgs_BalanceAfter :: string
  tgs_AllocatedAfter :: string
  tgs_ReservedAfter :: string
  tgs_ConsumedAfter :: string
  tgs_SourceType :: string
  tgs_SourceIdentity :: string
  tgs_ApprovalEvidenceID :: string
  tgs_ActorID :: string
  tgs_EventID :: string

record TrialAIGrantResult =
  tgz_Snapshot :: TrialAIGrantSnapshot
  tgz_Replayed :: bool

text \<open>
  UTF-8 as \<open>utf8.ValidString\<close> accepts it: no overlong forms, no surrogates, nothing above
  U+10FFFF. The code points below 0x800 are enough to tell the control characters.
\<close>

fun valid_utf8 :: "nat list \<Rightarrow> bool" where
  "valid_utf8 [] = True"
| "valid_utf8 (a # s) =
     (if a < 0x80 then valid_utf8 s
      else case s of
        b # s1 \<Rightarrow>
          if 0xC2 \<le> a \<and> a \<le> 0xDF then 0x80 \<le> b \<and> b \<le> 0xBF \<and> valid_utf8 s1
          else (case s1 of
            c # s2 \<Rightarrow>
              if 0xE0 \<le> a \<and> a \<le> 0xEF
              then (if a = 0xE0 then 0xA0 else 0x80) \<le> b \<and> b \<le> (if a = 0xED then 0x9F else 0xBF)
                   \<and> 0x80 \<le> c \<and> c \<le> 0xBF \<and> valid_utf8 s2
              else (case s2 of
                d # s3 \<Rightarrow>
                  0xF0 \<le> a \<and> a \<le> 0xF4
                  \<and> (if a = 0xF0 then 0x90 else 0x80) \<le> b \<and> b \<le> (if a = 0xF4 then 0x8F else 0xBF)
                  \<and> 0x80 \<le> c \<and> c \<le> 0xBF \<and> 0x80 \<le> d \<and> d \<le> 0xBF \<and> valid_utf8 s3
              | [] \<Rightarrow> False)
          | [] \<Rightarrow> False)
      | [] \<Rightarrow> False)"

fun has_control :: "nat list \<Rightarrow> bool" where
  "has_control [] = False"
| "has_control (a # s) =
     (a < 0x20 \<or> a = 0x7F \<or> (a = 0xC2 \<and> (case s of [] \<Rightarrow> False | b # _ \<Rightarrow> 0x80 \<le> b \<and> b \<le> 0x9F))
      \<or> has_control s)"

definition bytes_of :: "string \<Rightarrow> nat list" where
  "bytes_of s = map of_char s"

definition validTrialID :: "string \<Rightarrow> nat \<Rightarrow> bool" where
  "validTrialID v maximum \<longleftrightarrow>
     v \<noteq> [] \<and> v = TrimSpace v \<and> length v \<le> maximum \<and> valid_utf8 (bytes_of v)
     \<and> \<not> has_control (bytes_of v)"

definition trialDigest :: "digests \<Rightarrow> string list \<Rightarrow> string" where
  "trialDigest dg vs = dg_json dg (JArr (map JStr vs))"

definition TrialAIGrantSourceIdentity :: "digests \<Rightarrow> string \<Rightarrow> string" where
  "TrialAIGrantSourceIdentity dg org = trialDigest dg [SourceLocalAITrial, org, ResourceAIPoint]"

definition trialAIGrantFingerprint :: "digests \<Rightarrow> TrialAIGrantExecution \<Rightarrow> string" where
  "trialAIGrantFingerprint dg x = trialDigest dg
     [OperationGrantLocalAITrial, tgx_OrganizationID x, ResourceAIPoint, ''10000'',
      SourceLocalAITrial, tgx_SourceIdentity x, tgx_ApprovalEvidenceID x]"

definition Validate_TrialAIGrantInput :: "TrialAIGrantInput \<Rightarrow> rerr option" where
  "Validate_TrialAIGrantInput i =
     (if \<not> validTrialID (tgi_OrganizationID i) 128 \<or> \<not> validTrialID (tgi_OperationID i) 128
      then Some ErrInvalidInput
      else if \<not> validTrialID (pcl_ID (tgi_Principal i)) 192
              \<or> pcl_Kind (tgi_Principal i) \<noteq> PrincipalTrustedTrialOperator
      then Some ErrForbidden else None)"

definition Validate_TrialAIGrantExecution :: "digests \<Rightarrow> TrialAIGrantExecution \<Rightarrow> bool" where
  "Validate_TrialAIGrantExecution dg x \<longleftrightarrow>
     validTrialID (tgx_OrganizationID x) 128 \<and> validTrialID (tgx_OperationID x) 128
     \<and> validTrialID (tgx_ActorID x) 192 \<and> validTrialID (tgx_ApprovalEvidenceID x) 192
     \<and> tgx_SourceIdentity x = TrialAIGrantSourceIdentity dg (tgx_OrganizationID x)
     \<and> tgx_RequestFingerprint x = trialAIGrantFingerprint dg x"

definition Marshal_TrialSnapshot :: "TrialAIGrantSnapshot \<Rightarrow> json" where
  "Marshal_TrialSnapshot s = JObj
     [(''operation_id'', JStr (tgs_OperationID s)),
      (''organization_id'', JStr (tgs_OrganizationID s)),
      (''resource_type'', JStr (tgs_ResourceType s)),
      (''quantity'', JStr (tgs_Quantity s)),
      (''gross_credit'', JStr (tgs_GrossCredit s)),
      (''debt_repaid'', JStr (tgs_DebtRepaid s)),
      (''net_credit'', JStr (tgs_NetCredit s)),
      (''balance_after'', JStr (tgs_BalanceAfter s)),
      (''allocated_after'', JStr (tgs_AllocatedAfter s)),
      (''reserved_after'', JStr (tgs_ReservedAfter s)),
      (''consumed_after'', JStr (tgs_ConsumedAfter s)),
      (''source_type'', JStr (tgs_SourceType s)),
      (''source_identity'', JStr (tgs_SourceIdentity s)),
      (''approval_evidence_id'', JStr (tgs_ApprovalEvidenceID s)),
      (''actor_id'', JStr (tgs_ActorID s)),
      (''event_id'', JStr (tgs_EventID s))]"

definition Unmarshal_TrialSnapshot :: "json \<Rightarrow> TrialAIGrantSnapshot option" where
  "Unmarshal_TrialSnapshot j =
     (case (str_field ''operation_id'' j, str_field ''organization_id'' j,
            str_field ''resource_type'' j, str_field ''quantity'' j,
            str_field ''gross_credit'' j, str_field ''debt_repaid'' j,
            str_field ''net_credit'' j, str_field ''balance_after'' j) of
        (Some a1, Some a2, Some a3, Some a4, Some a5, Some a6, Some a7, Some a8) \<Rightarrow>
          (case (str_field ''allocated_after'' j, str_field ''reserved_after'' j,
                 str_field ''consumed_after'' j, str_field ''source_type'' j,
                 str_field ''source_identity'' j, str_field ''approval_evidence_id'' j,
                 str_field ''actor_id'' j, str_field ''event_id'' j) of
             (Some b1, Some b2, Some b3, Some b4, Some b5, Some b6, Some b7, Some b8) \<Rightarrow>
               Some \<lparr>tgs_OperationID = a1, tgs_OrganizationID = a2, tgs_ResourceType = a3,
                     tgs_Quantity = a4, tgs_GrossCredit = a5, tgs_DebtRepaid = a6,
                     tgs_NetCredit = a7, tgs_BalanceAfter = a8, tgs_AllocatedAfter = b1,
                     tgs_ReservedAfter = b2, tgs_ConsumedAfter = b3, tgs_SourceType = b4,
                     tgs_SourceIdentity = b5, tgs_ApprovalEvidenceID = b6, tgs_ActorID = b7,
                     tgs_EventID = b8\<rparr>
           | _ \<Rightarrow> None)
      | _ \<Rightarrow> None)"

lemma snapshot_round_trips [simp]:
  "Unmarshal_WelcomeGrantSnapshot (Marshal_WelcomeGrantSnapshot w) = Some w"
  "Unmarshal_PurchasedSnapshot (Marshal_PurchasedSnapshot p) = Some p"
  "Unmarshal_TrialSnapshot (Marshal_TrialSnapshot t) = Some t"
  by (simp_all add: Unmarshal_WelcomeGrantSnapshot_def Marshal_WelcomeGrantSnapshot_def
      Unmarshal_PurchasedSnapshot_def Marshal_PurchasedSnapshot_def
      Unmarshal_TrialSnapshot_def Marshal_TrialSnapshot_def json_simps)

end
