(* ===== verification/Res_Commands.thy ===== *)
theory Res_Commands
  imports Res_Types
begin

text \<open>
  The commands that spend resources (\<open>internal/ledger/orgresource\<close>): reservations by registered
  owners and their settlement, allocations to members, monthly limits of members, and charges of
  the registered consumers; with their validators, fingerprints and JSON receipts.
\<close>

section \<open>Reservations\<close>

abbreviation OperationReserve :: string where
  "OperationReserve \<equiv> ''reserve''"

abbreviation ReservationReserved :: string where
  "ReservationReserved \<equiv> ''reserved''"
abbreviation ReservationCommitted :: string where
  "ReservationCommitted \<equiv> ''committed''"
abbreviation ReservationReleased :: string where
  "ReservationReleased \<equiv> ''released''"
abbreviation ReservationReconciliationRequired :: string where
  "ReservationReconciliationRequired \<equiv> ''reconciliation_required''"

abbreviation OwnerAttemptNotStarted :: string where
  "OwnerAttemptNotStarted \<equiv> ''not_started''"
abbreviation OwnerAttemptSucceededTerminal :: string where
  "OwnerAttemptSucceededTerminal \<equiv> ''succeeded_terminal''"
abbreviation OwnerAttemptFailedTerminal :: string where
  "OwnerAttemptFailedTerminal \<equiv> ''failed_terminal''"
abbreviation OwnerAttemptCancelledTerminal :: string where
  "OwnerAttemptCancelledTerminal \<equiv> ''cancelled_terminal''"

record ReserveInput =
  rsi_OrganizationID :: string
  rsi_OperationID :: string
  rsi_OwnerType :: string
  rsi_OwnerAttemptID :: string
  rsi_BusinessScope :: string
  rsi_ResourceType :: ResourceType
  rsi_Quantity :: i64
  rsi_ReservationPurpose :: string
  rsi_Principal :: Principal

record ReservationReplay =
  rsr_OrganizationID :: string
  rsr_OperationID :: string
  rsr_OwnerType :: string
  rsr_OwnerAttemptID :: string
  rsr_BusinessScope :: string
  rsr_ResourceType :: ResourceType
  rsr_Quantity :: i64
  rsr_ReservationPurpose :: string
  rsr_RequestFingerprint :: string

record ReservationExecution =
  rsx_OrganizationID :: string
  rsx_OperationID :: string
  rsx_OperationType :: string
  rsx_OwnerType :: string
  rsx_OwnerAttemptID :: string
  rsx_BusinessScope :: string
  rsx_ResourceType :: ResourceType
  rsx_Quantity :: i64
  rsx_ReservationPurpose :: string
  rsx_ActorID :: string
  rsx_RequestFingerprint :: string

record ReservationSnapshot =
  rss_OperationID :: string
  rss_ReservationID :: string
  rss_OrganizationID :: string
  rss_OwnerType :: string
  rss_OwnerAttemptID :: string
  rss_BusinessScope :: string
  rss_ResourceType :: ResourceType
  rss_Quantity :: string
  rss_ReservationPurpose :: string
  rss_State :: string
  rss_AvailableAfter :: string
  rss_ReservedAfter :: string
  rss_ConsumedAfter :: string
  rss_EventID :: string

record ReservationResult =
  rsz_Snapshot :: ReservationSnapshot
  rsz_Replayed :: bool

definition normalizeReserveInput :: "ReserveInput \<Rightarrow> ReserveInput" where
  "normalizeReserveInput i = i
     \<lparr>rsi_OrganizationID := TrimSpace (rsi_OrganizationID i),
      rsi_OperationID := TrimSpace (rsi_OperationID i),
      rsi_OwnerType := TrimSpace (rsi_OwnerType i),
      rsi_OwnerAttemptID := TrimSpace (rsi_OwnerAttemptID i),
      rsi_BusinessScope := TrimSpace (rsi_BusinessScope i),
      rsi_ReservationPurpose := TrimSpace (rsi_ReservationPurpose i),
      rsi_Principal := (rsi_Principal i)\<lparr>pcl_ID := TrimSpace (pcl_ID (rsi_Principal i))\<rparr>\<rparr>"

definition validateReserveIdentity :: "ReserveInput \<Rightarrow> rerr option" where
  "validateReserveIdentity i =
     (if pcl_ID (rsi_Principal i) = [] then Some ErrForbidden
      else if \<not> list_all (\<lambda>(v, m). v \<noteq> [] \<and> length v \<le> m)
          [(rsi_OrganizationID i, 128), (rsi_OperationID i, 128), (rsi_OwnerType i, 96),
           (rsi_OwnerAttemptID i, 192), (rsi_BusinessScope i, 256),
           (rsi_ReservationPurpose i, 96)]
      then Some ErrInvalidInput
      else if rsi_Quantity i \<le> 0 \<or> \<not> validResourceType (rsi_ResourceType i)
      then Some ErrInvalidInput else None)"

definition fingerprintReservation :: "digests \<Rightarrow> ReservationExecution \<Rightarrow> string" where
  "fingerprintReservation dg x = dg_json dg (JObj
     [(''operation_type'', JStr (rsx_OperationType x)),
      (''organization_id'', JStr (rsx_OrganizationID x)),
      (''owner_type'', JStr (rsx_OwnerType x)),
      (''owner_attempt_id'', JStr (rsx_OwnerAttemptID x)),
      (''business_scope'', JStr (rsx_BusinessScope x)),
      (''resource_type'', JStr (rsx_ResourceType x)),
      (''quantity'', JNum (rsx_Quantity x)),
      (''reservation_purpose'', JStr (rsx_ReservationPurpose x))])"

definition Marshal_ReservationSnapshot :: "ReservationSnapshot \<Rightarrow> json" where
  "Marshal_ReservationSnapshot s = JObj
     [(''operation_id'', JStr (rss_OperationID s)),
      (''reservation_id'', JStr (rss_ReservationID s)),
      (''organization_id'', JStr (rss_OrganizationID s)),
      (''owner_type'', JStr (rss_OwnerType s)),
      (''owner_attempt_id'', JStr (rss_OwnerAttemptID s)),
      (''business_scope'', JStr (rss_BusinessScope s)),
      (''resource_type'', JStr (rss_ResourceType s)),
      (''quantity'', JStr (rss_Quantity s)),
      (''reservation_purpose'', JStr (rss_ReservationPurpose s)),
      (''state'', JStr (rss_State s)),
      (''available_after'', JStr (rss_AvailableAfter s)),
      (''reserved_after'', JStr (rss_ReservedAfter s)),
      (''consumed_after'', JStr (rss_ConsumedAfter s)),
      (''event_id'', JStr (rss_EventID s))]"

definition Unmarshal_ReservationSnapshot :: "json \<Rightarrow> ReservationSnapshot option" where
  "Unmarshal_ReservationSnapshot j =
     (case (str_field ''operation_id'' j, str_field ''reservation_id'' j,
            str_field ''organization_id'' j, str_field ''owner_type'' j,
            str_field ''owner_attempt_id'' j, str_field ''business_scope'' j,
            str_field ''resource_type'' j) of
        (Some a1, Some a2, Some a3, Some a4, Some a5, Some a6, Some a7) \<Rightarrow>
          (case (str_field ''quantity'' j, str_field ''reservation_purpose'' j,
                 str_field ''state'' j, str_field ''available_after'' j,
                 str_field ''reserved_after'' j, str_field ''consumed_after'' j,
                 str_field ''event_id'' j) of
             (Some b1, Some b2, Some b3, Some b4, Some b5, Some b6, Some b7) \<Rightarrow>
               Some \<lparr>rss_OperationID = a1, rss_ReservationID = a2, rss_OrganizationID = a3,
                     rss_OwnerType = a4, rss_OwnerAttemptID = a5, rss_BusinessScope = a6,
                     rss_ResourceType = a7, rss_Quantity = b1, rss_ReservationPurpose = b2,
                     rss_State = b3, rss_AvailableAfter = b4, rss_ReservedAfter = b5,
                     rss_ConsumedAfter = b6, rss_EventID = b7\<rparr>
           | _ \<Rightarrow> None)
      | _ \<Rightarrow> None)"

section \<open>Settlements\<close>

abbreviation OperationSettleReservation :: string where
  "OperationSettleReservation \<equiv> ''settle_reservation''"
abbreviation SettlementCommit :: string where
  "SettlementCommit \<equiv> ''commit''"
abbreviation SettlementRelease :: string where
  "SettlementRelease \<equiv> ''release''"

record SettlementInput =
  sti_OrganizationID :: string
  sti_OperationID :: string
  sti_ReservationID :: string
  sti_Principal :: Principal

record SettlementReplay =
  str_OrganizationID :: string
  str_OperationID :: string
  str_ReservationID :: string
  str_RequestFingerprint :: string

record SettlementExecution =
  stx_OrganizationID :: string
  stx_OperationID :: string
  stx_OperationType :: string
  stx_ReservationID :: string
  stx_ActorID :: string
  stx_RequestFingerprint :: string

record SettlementSnapshot =
  sts_OperationID :: string
  sts_ReservationID :: string
  sts_OrganizationID :: string
  sts_OwnerType :: string
  sts_OwnerAttemptID :: string
  sts_BusinessScope :: string
  sts_ResourceType :: ResourceType
  sts_Quantity :: string
  sts_ReservationPurpose :: string
  sts_Decision :: string
  sts_OwnerTerminalState :: string
  sts_OwnerEvidenceID :: string
  sts_GrossCredit :: string
  sts_DebtRepaid :: string
  sts_NetCredit :: string
  sts_AvailableAfter :: string
  sts_ReservedAfter :: string
  sts_ConsumedAfter :: string
  sts_EventID :: string

record SettlementResult =
  stz_Snapshot :: SettlementSnapshot
  stz_Replayed :: bool

definition fingerprintSettlement :: "digests \<Rightarrow> SettlementExecution \<Rightarrow> string" where
  "fingerprintSettlement dg x = dg_json dg (JObj
     [(''operation_type'', JStr (stx_OperationType x)),
      (''organization_id'', JStr (stx_OrganizationID x)),
      (''reservation_id'', JStr (stx_ReservationID x))])"

definition Marshal_SettlementSnapshot :: "SettlementSnapshot \<Rightarrow> json" where
  "Marshal_SettlementSnapshot s = JObj
     [(''operation_id'', JStr (sts_OperationID s)),
      (''reservation_id'', JStr (sts_ReservationID s)),
      (''organization_id'', JStr (sts_OrganizationID s)),
      (''owner_type'', JStr (sts_OwnerType s)),
      (''owner_attempt_id'', JStr (sts_OwnerAttemptID s)),
      (''business_scope'', JStr (sts_BusinessScope s)),
      (''resource_type'', JStr (sts_ResourceType s)),
      (''quantity'', JStr (sts_Quantity s)),
      (''reservation_purpose'', JStr (sts_ReservationPurpose s)),
      (''decision'', JStr (sts_Decision s)),
      (''owner_terminal_state'', JStr (sts_OwnerTerminalState s)),
      (''owner_evidence_id'', JStr (sts_OwnerEvidenceID s)),
      (''gross_credit'', JStr (sts_GrossCredit s)),
      (''debt_repaid'', JStr (sts_DebtRepaid s)),
      (''net_credit'', JStr (sts_NetCredit s)),
      (''available_after'', JStr (sts_AvailableAfter s)),
      (''reserved_after'', JStr (sts_ReservedAfter s)),
      (''consumed_after'', JStr (sts_ConsumedAfter s)),
      (''event_id'', JStr (sts_EventID s))]"

definition Unmarshal_SettlementSnapshot :: "json \<Rightarrow> SettlementSnapshot option" where
  "Unmarshal_SettlementSnapshot j =
     (case (str_field ''operation_id'' j, str_field ''reservation_id'' j,
            str_field ''organization_id'' j, str_field ''owner_type'' j,
            str_field ''owner_attempt_id'' j, str_field ''business_scope'' j,
            str_field ''resource_type'' j) of
        (Some a1, Some a2, Some a3, Some a4, Some a5, Some a6, Some a7) \<Rightarrow>
          (case (str_field ''quantity'' j, str_field ''reservation_purpose'' j,
                 str_field ''decision'' j, str_field ''owner_terminal_state'' j,
                 str_field ''owner_evidence_id'' j, str_field ''gross_credit'' j) of
             (Some b1, Some b2, Some b3, Some b4, Some b5, Some b6) \<Rightarrow>
               (case (str_field ''debt_repaid'' j, str_field ''net_credit'' j,
                      str_field ''available_after'' j, str_field ''reserved_after'' j,
                      str_field ''consumed_after'' j, str_field ''event_id'' j) of
                  (Some c1, Some c2, Some c3, Some c4, Some c5, Some c6) \<Rightarrow>
                    Some \<lparr>sts_OperationID = a1, sts_ReservationID = a2, sts_OrganizationID = a3,
                          sts_OwnerType = a4, sts_OwnerAttemptID = a5, sts_BusinessScope = a6,
                          sts_ResourceType = a7, sts_Quantity = b1, sts_ReservationPurpose = b2,
                          sts_Decision = b3, sts_OwnerTerminalState = b4,
                          sts_OwnerEvidenceID = b5, sts_GrossCredit = b6, sts_DebtRepaid = c1,
                          sts_NetCredit = c2, sts_AvailableAfter = c3, sts_ReservedAfter = c4,
                          sts_ConsumedAfter = c5, sts_EventID = c6\<rparr>
                | _ \<Rightarrow> None)
           | _ \<Rightarrow> None)
      | _ \<Rightarrow> None)"

section \<open>Member allocations\<close>

abbreviation MemberResourceAllocate :: string where
  "MemberResourceAllocate \<equiv> ''allocate_member_resource''"
abbreviation MemberResourceReclaim :: string where
  "MemberResourceReclaim \<equiv> ''reclaim_member_resource''"

record MemberResourceTransfer =
  mrt_OrganizationID :: string
  mrt_MemberID :: string
  mrt_ActorID :: string
  mrt_OperationID :: string
  mrt_ResourceType :: ResourceType
  mrt_Action :: string
  mrt_Quantity :: i64
  mrt_ExpectedVersion :: i64
  mrt_QuoteID :: string

record MemberResourcePosition =
  mrp_OrganizationID :: string
  mrp_MemberID :: string
  mrp_ResourceType :: ResourceType
  mrp_Free :: i64
  mrp_Reserved :: i64
  mrp_Consumed :: i64
  mrp_Version :: i64
  mrp_UpdatedAt :: gotime

record MemberResourceTransferResult =
  mrz_Position :: MemberResourcePosition
  mrz_Unallocated :: i64
  mrz_Allocated :: i64
  mrz_GrossCredit :: i64
  mrz_DebtRepaid :: i64
  mrz_NetCredit :: i64
  mrz_Replayed :: bool

definition IsMemberAllocatedResource :: "ResourceType \<Rightarrow> bool" where
  "IsMemberAllocatedResource r \<longleftrightarrow> r = ResourceStoreRenewalPeriod \<or> r = ResourceDataRow"

definition ValidMemberResourcePositionIdentity :: "string \<Rightarrow> string \<Rightarrow> ResourceType \<Rightarrow> bool" where
  "ValidMemberResourcePositionIdentity org member r \<longleftrightarrow>
     validLimitIdentity org \<and> validLimitIdentity member \<and> IsMemberAllocatedResource r"

definition ValidMemberResourceTransfer :: "MemberResourceTransfer \<Rightarrow> bool" where
  "ValidMemberResourceTransfer c \<longleftrightarrow>
     validLimitIdentity (mrt_OrganizationID c) \<and> validLimitIdentity (mrt_MemberID c)
     \<and> validLimitIdentity (mrt_ActorID c) \<and> validLimitIdentity (mrt_OperationID c)
     \<and> (mrt_QuoteID c = [] \<or> validLimitIdentity (mrt_QuoteID c))
     \<and> IsMemberAllocatedResource (mrt_ResourceType c)
     \<and> (mrt_Action c = MemberResourceAllocate \<or> mrt_Action c = MemberResourceReclaim)
     \<and> mrt_Quantity c > 0 \<and> mrt_ExpectedVersion c \<ge> 0"

definition Marshal_MemberResourceTransfer :: "MemberResourceTransfer \<Rightarrow> json" where
  "Marshal_MemberResourceTransfer c = JObj
     [(''OrganizationID'', JStr (mrt_OrganizationID c)), (''MemberID'', JStr (mrt_MemberID c)),
      (''ActorID'', JStr (mrt_ActorID c)), (''OperationID'', JStr (mrt_OperationID c)),
      (''ResourceType'', JStr (mrt_ResourceType c)), (''Action'', JStr (mrt_Action c)),
      (''Quantity'', JNum (mrt_Quantity c)), (''ExpectedVersion'', JNum (mrt_ExpectedVersion c)),
      (''QuoteID'', JStr (mrt_QuoteID c))]"

definition Marshal_Position :: "MemberResourcePosition \<Rightarrow> json" where
  "Marshal_Position p = JObj
     [(''OrganizationID'', JStr (mrp_OrganizationID p)), (''MemberID'', JStr (mrp_MemberID p)),
      (''ResourceType'', JStr (mrp_ResourceType p)), (''Free'', JNum (mrp_Free p)),
      (''Reserved'', JNum (mrp_Reserved p)), (''Consumed'', JNum (mrp_Consumed p)),
      (''Version'', JNum (mrp_Version p)), (''UpdatedAt'', JTime (mrp_UpdatedAt p))]"

definition Unmarshal_Position :: "json \<Rightarrow> MemberResourcePosition option" where
  "Unmarshal_Position j =
     (case (str_field ''OrganizationID'' j, str_field ''MemberID'' j, str_field ''ResourceType'' j,
            num_field ''Free'' j, num_field ''Reserved'' j, num_field ''Consumed'' j,
            num_field ''Version'' j, time_field ''UpdatedAt'' j) of
        (Some a, Some b, Some c, Some d, Some e, Some f, Some g, Some h) \<Rightarrow>
          Some \<lparr>mrp_OrganizationID = a, mrp_MemberID = b, mrp_ResourceType = c, mrp_Free = d,
                mrp_Reserved = e, mrp_Consumed = f, mrp_Version = g, mrp_UpdatedAt = h\<rparr>
      | _ \<Rightarrow> None)"

definition Marshal_TransferResult :: "MemberResourceTransferResult \<Rightarrow> json" where
  "Marshal_TransferResult r = JObj
     [(''Position'', Marshal_Position (mrz_Position r)),
      (''Unallocated'', JNum (mrz_Unallocated r)), (''Allocated'', JNum (mrz_Allocated r)),
      (''GrossCredit'', JNum (mrz_GrossCredit r)), (''DebtRepaid'', JNum (mrz_DebtRepaid r)),
      (''NetCredit'', JNum (mrz_NetCredit r)), (''Replayed'', JBool (mrz_Replayed r))]"

definition Unmarshal_TransferResult :: "json \<Rightarrow> MemberResourceTransferResult option" where
  "Unmarshal_TransferResult j =
     (case (Option.bind (obj_field ''Position'' j) Unmarshal_Position,
            num_field ''Unallocated'' j, num_field ''Allocated'' j, num_field ''GrossCredit'' j,
            num_field ''DebtRepaid'' j, num_field ''NetCredit'' j, bool_field ''Replayed'' j) of
        (Some a, Some b, Some c, Some d, Some e, Some f, Some g) \<Rightarrow>
          Some \<lparr>mrz_Position = a, mrz_Unallocated = b, mrz_Allocated = c, mrz_GrossCredit = d,
                mrz_DebtRepaid = e, mrz_NetCredit = f, mrz_Replayed = g\<rparr>
      | _ \<Rightarrow> None)"

section \<open>Member limits\<close>

record MemberLimitSnapshot =
  mls_OrganizationID :: string
  mls_MemberID :: string
  mls_MonthlyLimit :: i64
  mls_Version :: i64
  mls_MonthStart :: gotime
  mls_Reserved :: i64
  mls_Consumed :: i64

record SetMemberLimitExecution =
  mlx_OrganizationID :: string
  mlx_MemberID :: string
  mlx_OperationID :: string
  mlx_ActorID :: string
  mlx_ExpectedVersion :: i64
  mlx_Target :: i64

definition ValidMemberLimitCommand :: "SetMemberLimitExecution \<Rightarrow> bool" where
  "ValidMemberLimitCommand i \<longleftrightarrow>
     validLimitIdentity (mlx_OrganizationID i) \<and> validLimitIdentity (mlx_MemberID i)
     \<and> validLimitIdentity (mlx_OperationID i) \<and> validLimitIdentity (mlx_ActorID i)
     \<and> mlx_ExpectedVersion i \<ge> 0 \<and> mlx_Target i \<ge> 0"

definition Marshal_SetMemberLimit :: "SetMemberLimitExecution \<Rightarrow> json" where
  "Marshal_SetMemberLimit i = JObj
     [(''OrganizationID'', JStr (mlx_OrganizationID i)), (''MemberID'', JStr (mlx_MemberID i)),
      (''OperationID'', JStr (mlx_OperationID i)), (''ActorID'', JStr (mlx_ActorID i)),
      (''ExpectedVersion'', JNum (mlx_ExpectedVersion i)), (''Target'', JNum (mlx_Target i))]"

definition Marshal_LimitSnapshot :: "MemberLimitSnapshot \<Rightarrow> json" where
  "Marshal_LimitSnapshot s = JObj
     [(''OrganizationID'', JStr (mls_OrganizationID s)), (''MemberID'', JStr (mls_MemberID s)),
      (''MonthlyLimit'', JNum (mls_MonthlyLimit s)), (''Version'', JNum (mls_Version s)),
      (''MonthStart'', JTime (mls_MonthStart s)), (''Reserved'', JNum (mls_Reserved s)),
      (''Consumed'', JNum (mls_Consumed s))]"

definition Unmarshal_LimitSnapshot :: "json \<Rightarrow> MemberLimitSnapshot option" where
  "Unmarshal_LimitSnapshot j =
     (case (str_field ''OrganizationID'' j, str_field ''MemberID'' j,
            num_field ''MonthlyLimit'' j, num_field ''Version'' j, time_field ''MonthStart'' j,
            num_field ''Reserved'' j, num_field ''Consumed'' j) of
        (Some a, Some b, Some c, Some d, Some e, Some f, Some g) \<Rightarrow>
          Some \<lparr>mls_OrganizationID = a, mls_MemberID = b, mls_MonthlyLimit = c, mls_Version = d,
                mls_MonthStart = e, mls_Reserved = f, mls_Consumed = g\<rparr>
      | _ \<Rightarrow> None)"

text \<open>
  The calendar behind \<open>time.Time.Year\<close> and \<open>time.Time.Month\<close>: the days before a year and before a
  month of the proleptic Gregorian calendar, and the month a day falls in.
\<close>

definition leap_year :: "int \<Rightarrow> bool" where
  "leap_year y \<longleftrightarrow> y mod 4 = 0 \<and> (y mod 100 \<noteq> 0 \<or> y mod 400 = 0)"

definition days_before_year :: "int \<Rightarrow> int" where
  "days_before_year y = 365 * (y - 1) + (y - 1) div 4 - (y - 1) div 100 + (y - 1) div 400"

text \<open>The year of a day, by the cycles of 400, 100, 4 and 1 years.\<close>

definition year_of_day :: "int \<Rightarrow> int" where
  "year_of_day d =
     (let n400 = d div 146097; r400 = d mod 146097;
          n100 = min 3 (r400 div 36524); r100 = r400 - 36524 * n100;
          n4 = r100 div 1461; r4 = r100 mod 1461;
          n1 = min 3 (r4 div 365)
      in 400 * n400 + 100 * n100 + 4 * n4 + n1 + 1)"

definition month_starts :: "int \<Rightarrow> int list" where
  "month_starts y = (let l = (if leap_year y then 1 else 0) in
     [0, 31, 59 + l, 90 + l, 120 + l, 151 + l, 181 + l, 212 + l, 243 + l, 273 + l, 304 + l, 334 + l])"

abbreviation day_ns :: int where
  "day_ns \<equiv> 86400000000000"

definition AIPointMonthStart :: "gotime \<Rightarrow> gotime" where
  "AIPointMonthStart t =
     (let d = t div day_ns; y = year_of_day d; yd = d - days_before_year y
      in day_ns * (days_before_year y + last (filter (\<lambda>s. s \<le> yd) (month_starts y))))"

section \<open>Consumer charges\<close>

abbreviation ConsumerStoreService :: string where
  "ConsumerStoreService \<equiv> ''store_service_v1''"
abbreviation ConsumerProductAcquisition :: string where
  "ConsumerProductAcquisition \<equiv> ''product_acquisition_v1''"
abbreviation ConsumerAmazonData :: string where
  "ConsumerAmazonData \<equiv> ''amazon_data_v1''"
abbreviation FundingEnterprise :: string where
  "FundingEnterprise \<equiv> ''enterprise_unallocated''"
abbreviation FundingMember :: string where
  "FundingMember \<equiv> ''member_allocated''"
abbreviation ConsumerEffectUnknown :: string where
  "ConsumerEffectUnknown \<equiv> ''unknown''"
abbreviation ConsumerEffectSucceeded :: string where
  "ConsumerEffectSucceeded \<equiv> ''succeeded''"
abbreviation ConsumerEffectFailed :: string where
  "ConsumerEffectFailed \<equiv> ''failed_fenced''"

record ConsumerChargeIdentity =
  cci_OrganizationID :: string
  cci_Consumer :: string
  cci_OperationID :: string

record ConsumerChargeIntent =
  ccn_Identity :: ConsumerChargeIdentity
  ccn_ActorID :: string
  ccn_MemberID :: string
  ccn_Funding :: string
  ccn_ResourceType :: ResourceType
  ccn_Quantity :: i64
  ccn_Fingerprint :: string
  ccn_BusinessScope :: string

record ConsumerChargeReceipt =
  ccr_Intent :: ConsumerChargeIntent
  ccr_ReservationID :: string
  ccr_State :: string
  ccr_OwnerEvidenceID :: string
  ccr_CreatedAt :: gotime
  ccr_BalanceAfter :: i64

record ConsumerChargeProof =
  ccp_Intent :: ConsumerChargeIntent
  ccp_ReservationID :: string
  ccp_State :: string
  ccp_EvidenceID :: string

definition validResourceConsumer :: "string \<Rightarrow> bool" where
  "validResourceConsumer c \<longleftrightarrow>
     c = ConsumerProductAcquisition \<or> c = ConsumerStoreService \<or> c = ConsumerAmazonData"

definition validChargeEvidence :: "string \<Rightarrow> bool" where
  "validChargeEvidence v \<longleftrightarrow>
     v \<noteq> [] \<and> TrimSpace v = v \<and> length v \<le> 256
     \<and> \<not> list_ex (\<lambda>c. c = CHR 0x00 \<or> c = CHR 0x0D \<or> c = CHR 0x0A) v"

definition ValidConsumerChargeIdentity :: "ConsumerChargeIdentity \<Rightarrow> bool" where
  "ValidConsumerChargeIdentity i \<longleftrightarrow>
     validLimitIdentity (cci_OrganizationID i) \<and> validLimitIdentity (cci_OperationID i)
     \<and> validResourceConsumer (cci_Consumer i)"

text \<open>64 lower-case hexadecimal digits: the decodable fingerprints that are their own lower case.\<close>

definition lower_hex :: "string \<Rightarrow> bool" where
  "lower_hex s \<longleftrightarrow> list_all (\<lambda>c. c \<in> set ''0123456789abcdef'') s \<and> even (length s)"

definition ValidConsumerChargeIntent :: "ConsumerChargeIntent \<Rightarrow> bool" where
  "ValidConsumerChargeIntent i \<longleftrightarrow>
     ValidConsumerChargeIdentity (ccn_Identity i) \<and> validLimitIdentity (ccn_ActorID i)
     \<and> validLimitIdentity (ccn_MemberID i) \<and> length (ccn_Fingerprint i) = 64
     \<and> lower_hex (ccn_Fingerprint i) \<and> validChargeEvidence (ccn_BusinessScope i)
     \<and> (ccn_Funding i = FundingEnterprise \<or> ccn_Funding i = FundingMember)
     \<and> (let c = cci_Consumer (ccn_Identity i) in
        if c = ConsumerProductAcquisition \<or> c = ConsumerAmazonData
        then ccn_ResourceType i = ResourceDataRow \<and> ccn_Quantity i = 1
        else if c = ConsumerStoreService
        then ccn_ResourceType i = ResourceStoreRenewalPeriod \<and> ccn_Quantity i > 0
        else False)"

definition Marshal_ChargeIdentity :: "ConsumerChargeIdentity \<Rightarrow> json" where
  "Marshal_ChargeIdentity i = JObj
     [(''OrganizationID'', JStr (cci_OrganizationID i)), (''Consumer'', JStr (cci_Consumer i)),
      (''OperationID'', JStr (cci_OperationID i))]"

definition Marshal_ChargeIntent :: "ConsumerChargeIntent \<Rightarrow> json" where
  "Marshal_ChargeIntent i = JObj
     [(''Identity'', Marshal_ChargeIdentity (ccn_Identity i)), (''ActorID'', JStr (ccn_ActorID i)),
      (''MemberID'', JStr (ccn_MemberID i)), (''Funding'', JStr (ccn_Funding i)),
      (''ResourceType'', JStr (ccn_ResourceType i)), (''Quantity'', JNum (ccn_Quantity i)),
      (''Fingerprint'', JStr (ccn_Fingerprint i)), (''BusinessScope'', JStr (ccn_BusinessScope i))]"

definition Marshal_ChargeReceipt :: "ConsumerChargeReceipt \<Rightarrow> json" where
  "Marshal_ChargeReceipt r = JObj
     [(''Intent'', Marshal_ChargeIntent (ccr_Intent r)),
      (''ReservationID'', JStr (ccr_ReservationID r)), (''State'', JStr (ccr_State r)),
      (''OwnerEvidenceID'', JStr (ccr_OwnerEvidenceID r)), (''CreatedAt'', JTime (ccr_CreatedAt r)),
      (''BalanceAfter'', JNum (ccr_BalanceAfter r))]"

section \<open>Receipts read back\<close>

lemma command_round_trips [simp]:
  "Unmarshal_ReservationSnapshot (Marshal_ReservationSnapshot r) = Some r"
  "Unmarshal_SettlementSnapshot (Marshal_SettlementSnapshot s) = Some s"
  by (simp_all add: Unmarshal_ReservationSnapshot_def Marshal_ReservationSnapshot_def
      Unmarshal_SettlementSnapshot_def Marshal_SettlementSnapshot_def json_simps)

text \<open>Numbers come back when they are 64-bit integers, which every Go value is.\<close>

lemma transfer_round_trip:
  assumes "list_all in64 [mrp_Free (mrz_Position r), mrp_Reserved (mrz_Position r),
      mrp_Consumed (mrz_Position r), mrp_Version (mrz_Position r), mrz_Unallocated r,
      mrz_Allocated r, mrz_GrossCredit r, mrz_DebtRepaid r, mrz_NetCredit r]"
  shows "Unmarshal_TransferResult (Marshal_TransferResult r) = Some r"
  using assms by (simp add: Unmarshal_TransferResult_def Marshal_TransferResult_def
      Unmarshal_Position_def Marshal_Position_def json_simps)

lemma limit_round_trip:
  assumes "list_all in64 [mls_MonthlyLimit s, mls_Version s, mls_Reserved s, mls_Consumed s]"
  shows "Unmarshal_LimitSnapshot (Marshal_LimitSnapshot s) = Some s"
  using assms by (simp add: Unmarshal_LimitSnapshot_def Marshal_LimitSnapshot_def json_simps)

end
