(* ===== verification/Res_DB.thy ===== *)
theory Res_DB
  imports Res_Commands
begin

text \<open>
  The tables of the organization resource ledger (\<open>internal/integration/orgresource/schema.go\<close>)
  and the statements that every repository of the ledger shares: rows that are created when
  absent, the operation journal, and \<open>applyPositiveCredit\<close> (\<open>debt.go\<close>), the one path on which
  value flows back into a balance.

  Tables with a single key are maps from it; reservations (two unique keys), member positions,
  events and audit rows are lists in insertion order. The type variable is the state of the owner
  domains whose adapters take part in the transactions. The CHECK constraints of the schema are
  not part of the statements: that no statement of the code violates one is proved.
\<close>

section \<open>Rows\<close>

record organizationResourceBucketRow =
  bkt_OrganizationID :: string
  bkt_ResourceType :: ResourceType
  bkt_Available :: i64
  bkt_Allocated :: i64
  bkt_Reserved :: i64
  bkt_Consumed :: i64
  bkt_UpdatedAt :: gotime

record organizationResourceOperationRow =
  opr_OrganizationID :: string
  opr_OperationID :: string
  opr_OperationType :: string
  opr_RequestFingerprint :: string
  opr_State :: string
  opr_FailureCode :: string
  opr_ImmutableResult :: "json option"
  opr_ApprovalEvidenceID :: string
  opr_CompletedAt :: "gotime option"

record organizationResourceSourceClaimRow =
  clm_SourceType :: string
  clm_SourceIdentity :: string
  clm_ResourceType :: ResourceType
  clm_OrganizationID :: string
  clm_OperationID :: string
  clm_RequestFingerprint :: string

record organizationResourceEventRow =
  evt_EventID :: string
  evt_OrganizationID :: string
  evt_OperationID :: string
  evt_ReservationID :: "string option"
  evt_ResourceType :: ResourceType
  evt_Quantity :: i64
  evt_AvailableDelta :: i64
  evt_AllocatedDelta :: i64
  evt_ReservedDelta :: i64
  evt_ConsumedDelta :: i64
  evt_Reason :: string
  evt_SourceType :: string
  evt_SourceIdentity :: string
  evt_BalanceAfter :: i64
  evt_AvailableAfter :: i64
  evt_AllocatedAfter :: i64
  evt_ReservedAfter :: i64
  evt_ConsumedAfter :: i64
  evt_GrossCredit :: i64
  evt_DebtRepaid :: i64
  evt_NetCredit :: i64
  evt_CreatedAt :: gotime

record organizationResourceReservationRow =
  rsv_ChargeBalanceAfter :: i64
  rsv_ChargeProtocol :: string
  rsv_ChargeActorID :: string
  rsv_ChargeFunding :: string
  rsv_ChargeEvidenceID :: string
  rsv_NextCheckAt :: "gotime option"
  rsv_MemberID :: string
  rsv_MemberMonthStart :: "gotime option"
  rsv_MemberLimitVersion :: i64
  rsv_PriceVersion :: string
  rsv_OrganizationID :: string
  rsv_ReservationID :: string
  rsv_OperationID :: string
  rsv_SettlementOperationID :: "string option"
  rsv_OwnerType :: string
  rsv_OwnerAttemptID :: string
  rsv_BusinessScope :: string
  rsv_ResourceType :: ResourceType
  rsv_ReservationPurpose :: string
  rsv_Quantity :: i64
  rsv_State :: string
  rsv_RequestFingerprint :: string
  rsv_CreatedAt :: gotime
  rsv_SettledAt :: "gotime option"

record organizationResourceDebtRow =
  dbt_OrganizationID :: string
  dbt_ResourceType :: ResourceType
  dbt_Amount :: i64
  dbt_UpdatedAt :: gotime

record organizationResourceAuditLogRow =
  adt_OrganizationID :: string
  adt_OperationID :: string
  adt_Action :: string
  adt_ActorID :: string
  adt_ApprovalEvidenceID :: string
  adt_Payload :: json
  adt_CreatedAt :: gotime

record memberAIPointLimitRow =
  lim_OrganizationID :: string
  lim_MemberID :: string
  lim_MonthlyLimit :: i64
  lim_Version :: i64
  lim_UpdatedBy :: string
  lim_UpdatedAt :: gotime

record memberAIPointMonthRow =
  mon_OrganizationID :: string
  mon_MemberID :: string
  mon_MonthStart :: gotime
  mon_Reserved :: i64
  mon_Consumed :: i64

record memberResourcePositionRow =
  pos_OrganizationID :: string
  pos_MemberID :: string
  pos_ResourceType :: ResourceType
  pos_Free :: i64
  pos_Reserved :: i64
  pos_Consumed :: i64
  pos_Version :: i64
  pos_UpdatedAt :: gotime

text \<open>Go's zero values, for the struct literals that name only some fields.\<close>

definition zero_operation :: organizationResourceOperationRow where
  "zero_operation =
     \<lparr>opr_OrganizationID = [], opr_OperationID = [], opr_OperationType = [],
      opr_RequestFingerprint = [], opr_State = [], opr_FailureCode = [],
      opr_ImmutableResult = None, opr_ApprovalEvidenceID = [], opr_CompletedAt = None\<rparr>"

definition zero_event :: organizationResourceEventRow where
  "zero_event =
     \<lparr>evt_EventID = [], evt_OrganizationID = [], evt_OperationID = [], evt_ReservationID = None,
      evt_ResourceType = [], evt_Quantity = 0, evt_AvailableDelta = 0, evt_AllocatedDelta = 0,
      evt_ReservedDelta = 0, evt_ConsumedDelta = 0, evt_Reason = [], evt_SourceType = [],
      evt_SourceIdentity = [], evt_BalanceAfter = 0, evt_AvailableAfter = 0,
      evt_AllocatedAfter = 0, evt_ReservedAfter = 0, evt_ConsumedAfter = 0, evt_GrossCredit = 0,
      evt_DebtRepaid = 0, evt_NetCredit = 0, evt_CreatedAt = 0\<rparr>"

definition zero_reservation :: organizationResourceReservationRow where
  "zero_reservation =
     \<lparr>rsv_ChargeBalanceAfter = 0, rsv_ChargeProtocol = [], rsv_ChargeActorID = [],
      rsv_ChargeFunding = [], rsv_ChargeEvidenceID = [], rsv_NextCheckAt = None,
      rsv_MemberID = [], rsv_MemberMonthStart = None, rsv_MemberLimitVersion = 0,
      rsv_PriceVersion = [], rsv_OrganizationID = [], rsv_ReservationID = [],
      rsv_OperationID = [], rsv_SettlementOperationID = None, rsv_OwnerType = [],
      rsv_OwnerAttemptID = [], rsv_BusinessScope = [], rsv_ResourceType = [],
      rsv_ReservationPurpose = [], rsv_Quantity = 0, rsv_State = [],
      rsv_RequestFingerprint = [], rsv_CreatedAt = 0, rsv_SettledAt = None\<rparr>"

lemmas zero_rows = zero_operation_def zero_event_def zero_reservation_def

type_synonym res_key = "string \<times> ResourceType"

record 'o res_db =
  rdb_buckets :: "res_key \<rightharpoonup> organizationResourceBucketRow"
  rdb_debts :: "res_key \<rightharpoonup> organizationResourceDebtRow"
  rdb_operations :: "(string \<times> string) \<rightharpoonup> organizationResourceOperationRow"
  rdb_claims :: "(string \<times> string) \<rightharpoonup> organizationResourceSourceClaimRow"
  rdb_events :: "organizationResourceEventRow list"
  rdb_reservations :: "organizationResourceReservationRow list"
  rdb_audit :: "organizationResourceAuditLogRow list"
  rdb_limits :: "(string \<times> string) \<rightharpoonup> memberAIPointLimitRow"
  rdb_months :: "(string \<times> string \<times> gotime) \<rightharpoonup> memberAIPointMonthRow"
  rdb_positions :: "memberResourcePositionRow list"
  rdb_owner :: 'o

text \<open>The n-th clock reading and the n-th UUID of a call.\<close>

record res_env =
  rnv_now :: "nat \<Rightarrow> gotime"
  rnv_uuid :: "nat \<Rightarrow> string"

section \<open>Sequencing\<close>

text \<open>
  Go's \<open>if err != nil { return err }\<close> is \<open>and_then\<close>; a lookup that may end the transaction with
  an answer found in the database is \<open>replay_or\<close>.
\<close>

definition and_then :: "'e + 'a \<Rightarrow> ('a \<Rightarrow> 'e + 'b) \<Rightarrow> 'e + 'b" where
  "and_then r f = (case r of Inl e \<Rightarrow> Inl e | Inr a \<Rightarrow> f a)"

definition replay_or :: "'e + 'a option \<Rightarrow> 'db \<Rightarrow> ('e + 'a \<times> 'db) \<Rightarrow> 'e + 'a \<times> 'db" where
  "replay_or found db k = and_then found (\<lambda>f. case f of Some a \<Rightarrow> Inr (a, db) | None \<Rightarrow> k)"

definition or_fail :: "'e \<Rightarrow> 'a option \<Rightarrow> 'e + 'a" where
  "or_fail e x = (case x of None \<Rightarrow> Inl e | Some a \<Rightarrow> Inr a)"

named_theorems ok_simps "when a sequence of statements succeeds"

lemma and_then_Inr [ok_simps]: "and_then r f = Inr b \<longleftrightarrow> (\<exists>a. r = Inr a \<and> f a = Inr b)"
  by (cases r) (auto simp: and_then_def)

lemma replay_or_Inr [ok_simps]:
  "replay_or found db k = Inr (a, db') \<longleftrightarrow>
     found = Inr (Some a) \<and> db' = db \<or> found = Inr None \<and> k = Inr (a, db')"
  by (auto simp: replay_or_def and_then_def split: sum.splits option.splits)

lemma or_fail_Inr [ok_simps]: "or_fail e x = Inr a \<longleftrightarrow> x = Some a"
  by (cases x) (auto simp: or_fail_def)

lemma if_Inl_Inr [ok_simps]:
  "(if P then Inl e else k) = Inr b \<longleftrightarrow> \<not> P \<and> k = Inr b"
  by auto

lemma and_then_simps [simp]: "and_then (Inr a) f = f a" "and_then (Inl e) f = Inl e"
  by (simp_all add: and_then_def)

lemma replay_or_simps [simp]:
  "replay_or (Inr (Some a)) db k = Inr (a, db)" "replay_or (Inr None) db k = k"
  "replay_or (Inl e) db k = Inl e"
  by (simp_all add: replay_or_def)

lemma or_fail_simps [simp]: "or_fail e (Some a) = Inr a" "or_fail e None = Inl e"
  by (simp_all add: or_fail_def)

section \<open>Balances\<close>

definition ensure_bucket :: "gotime \<Rightarrow> string \<Rightarrow> ResourceType \<Rightarrow> 'o res_db \<Rightarrow> 'o res_db" where
  "ensure_bucket now org rt db =
     (case rdb_buckets db (org, rt) of
        Some _ \<Rightarrow> db
      | None \<Rightarrow> db\<lparr>rdb_buckets := (rdb_buckets db)((org, rt) \<mapsto>
          \<lparr>bkt_OrganizationID = org, bkt_ResourceType = rt, bkt_Available = 0, bkt_Allocated = 0,
           bkt_Reserved = 0, bkt_Consumed = 0, bkt_UpdatedAt = now\<rparr>)\<rparr>)"

text \<open>\<open>UPDATE ... WHERE organization_id = ? AND resource_type = ?\<close> and the number of rows it hit.\<close>

definition update_bucket ::
  "res_key \<Rightarrow> (organizationResourceBucketRow \<Rightarrow> bool) \<Rightarrow>
   (organizationResourceBucketRow \<Rightarrow> organizationResourceBucketRow) \<Rightarrow> 'o res_db \<Rightarrow> nat \<times> 'o res_db" where
  "update_bucket k P f db =
     (case rdb_buckets db k of
        None \<Rightarrow> (0, db)
      | Some b \<Rightarrow> if P b then (1, db\<lparr>rdb_buckets := (rdb_buckets db)(k \<mapsto> f b)\<rparr>) else (0, db))"

record positiveCreditAllocation =
  pca_gross :: i64
  pca_debtRepaid :: i64
  pca_net :: i64
  pca_availableAfter :: i64

definition no_credit :: positiveCreditAllocation where
  "no_credit = \<lparr>pca_gross = 0, pca_debtRepaid = 0, pca_net = 0, pca_availableAfter = 0\<rparr>"

text \<open>The debt row of a key, created with amount 0 when there is none.\<close>

definition locked_debt :: "gotime \<Rightarrow> string \<Rightarrow> ResourceType \<Rightarrow> 'o res_db \<Rightarrow> organizationResourceDebtRow" where
  "locked_debt now org rt db =
     (case rdb_debts db (org, rt) of
        Some d \<Rightarrow> d
      | None \<Rightarrow> \<lparr>dbt_OrganizationID = org, dbt_ResourceType = rt, dbt_Amount = 0, dbt_UpdatedAt = now\<rparr>)"

definition applyPositiveCredit ::
  "string \<Rightarrow> ResourceType \<Rightarrow> i64 \<Rightarrow> i64 \<Rightarrow> gotime \<Rightarrow> 'o res_db \<Rightarrow>
   rerr + positiveCreditAllocation \<times> 'o res_db" where
  "applyPositiveCredit org rt gross availableBefore now db =
     (let debt = locked_debt now org rt db;
          debtRepaid = min (dbt_Amount debt) gross;
          net = sub64 gross debtRepaid;
          availableAfter = add64 availableBefore net
      in if availableAfter < availableBefore then Inl ErrInvalidInput
         else Inr (\<lparr>pca_gross = gross, pca_debtRepaid = debtRepaid, pca_net = net,
                    pca_availableAfter = availableAfter\<rparr>,
                   db\<lparr>rdb_debts := (rdb_debts db)((org, rt) \<mapsto>
                     debt\<lparr>dbt_Amount := sub64 (dbt_Amount debt) debtRepaid,
                          dbt_UpdatedAt := now\<rparr>)\<rparr>))"

section \<open>Journal rows\<close>

definition insert_operation ::
  "organizationResourceOperationRow \<Rightarrow> 'o res_db \<Rightarrow> rerr + 'o res_db" where
  "insert_operation row db =
     (let k = (opr_OrganizationID row, opr_OperationID row) in
      if rdb_operations db k \<noteq> None then Inl ErrDuplicateKey
      else Inr (db\<lparr>rdb_operations := (rdb_operations db)(k \<mapsto> row)\<rparr>))"

definition insert_claim ::
  "organizationResourceSourceClaimRow \<Rightarrow> 'o res_db \<Rightarrow> rerr + 'o res_db" where
  "insert_claim row db =
     (let k = (clm_SourceType row, clm_SourceIdentity row) in
      if rdb_claims db k \<noteq> None then Inl ErrDuplicateKey
      else Inr (db\<lparr>rdb_claims := (rdb_claims db)(k \<mapsto> row)\<rparr>))"

definition event_clash :: "organizationResourceEventRow \<Rightarrow> organizationResourceEventRow \<Rightarrow> bool" where
  "event_clash a b \<longleftrightarrow>
     evt_EventID a = evt_EventID b \<and> evt_OrganizationID a = evt_OrganizationID b"

definition insert_event :: "organizationResourceEventRow \<Rightarrow> 'o res_db \<Rightarrow> rerr + 'o res_db" where
  "insert_event row db =
     and_then (or_fail ErrDuplicateKey (create_row event_clash row (rdb_events db)))
       (\<lambda>t. Inr (db\<lparr>rdb_events := t\<rparr>))"

definition reservation_row_clash ::
  "organizationResourceReservationRow \<Rightarrow> organizationResourceReservationRow \<Rightarrow> bool" where
  "reservation_row_clash a b \<longleftrightarrow>
     rsv_OrganizationID a = rsv_OrganizationID b
     \<and> (rsv_ReservationID a = rsv_ReservationID b
        \<or> rsv_OwnerType a = rsv_OwnerType b \<and> rsv_OwnerAttemptID a = rsv_OwnerAttemptID b
          \<and> rsv_ResourceType a = rsv_ResourceType b
          \<and> rsv_ReservationPurpose a = rsv_ReservationPurpose b)"

definition insert_reservation ::
  "organizationResourceReservationRow \<Rightarrow> 'o res_db \<Rightarrow> rerr + 'o res_db" where
  "insert_reservation row db =
     and_then (or_fail ErrDuplicateKey (create_row reservation_row_clash row (rdb_reservations db)))
       (\<lambda>t. Inr (db\<lparr>rdb_reservations := t\<rparr>))"

definition insert_audit :: "organizationResourceAuditLogRow \<Rightarrow> 'o res_db \<Rightarrow> 'o res_db" where
  "insert_audit row db = db\<lparr>rdb_audit := rdb_audit db @ [row]\<rparr>"

definition reservation_id :: "organizationResourceReservationRow \<Rightarrow> string \<times> string" where
  "reservation_id r = (rsv_OrganizationID r, rsv_ReservationID r)"

definition lockFixedResourceOperation ::
  "string \<Rightarrow> string \<Rightarrow> string \<Rightarrow> string \<Rightarrow> 'o res_db \<Rightarrow>
   rerr + organizationResourceOperationRow \<times> 'o res_db" where
  "lockFixedResourceOperation org key kind fingerprint db =
     (let fresh = zero_operation\<lparr>opr_OrganizationID := org, opr_OperationID := key,
                   opr_OperationType := kind, opr_RequestFingerprint := fingerprint,
                   opr_State := ''processing''\<rparr>;
          db1 = (if rdb_operations db (org, key) = None
                 then db\<lparr>rdb_operations := (rdb_operations db)((org, key) \<mapsto> fresh)\<rparr> else db)
      in and_then (or_fail ErrRecordNotFound (rdb_operations db1 (org, key))) (\<lambda>row.
         if opr_OperationType row \<noteq> kind \<or> opr_RequestFingerprint row \<noteq> fingerprint
         then Inl ErrIdempotencyKeyConflict
         else Inr (row, db1)))"

text \<open>\<open>UPDATE\<close> of one row of the operation journal, if its state is the given one.\<close>

definition update_operation ::
  "string \<times> string \<Rightarrow> (organizationResourceOperationRow \<Rightarrow> bool) \<Rightarrow>
   (organizationResourceOperationRow \<Rightarrow> organizationResourceOperationRow) \<Rightarrow> 'o res_db \<Rightarrow>
   nat \<times> 'o res_db" where
  "update_operation k P f db =
     (case rdb_operations db k of
        None \<Rightarrow> (0, db)
      | Some r \<Rightarrow> if P r then (1, db\<lparr>rdb_operations := (rdb_operations db)(k \<mapsto> f r)\<rparr>) else (0, db))"

section \<open>Member rows\<close>

definition position_key :: "memberResourcePositionRow \<Rightarrow> string \<times> string \<times> ResourceType" where
  "position_key p = (pos_OrganizationID p, pos_MemberID p, pos_ResourceType p)"

definition position_clash :: "memberResourcePositionRow \<Rightarrow> memberResourcePositionRow \<Rightarrow> bool" where
  "position_clash a b \<longleftrightarrow> position_key a = position_key b"

definition fresh_position :: "gotime \<Rightarrow> string \<Rightarrow> string \<Rightarrow> ResourceType \<Rightarrow> memberResourcePositionRow" where
  "fresh_position now org member rt =
     \<lparr>pos_OrganizationID = org, pos_MemberID = member, pos_ResourceType = rt, pos_Free = 0,
      pos_Reserved = 0, pos_Consumed = 0, pos_Version = 0, pos_UpdatedAt = now\<rparr>"

definition lockMemberResourcePosition ::
  "gotime \<Rightarrow> string \<Rightarrow> string \<Rightarrow> ResourceType \<Rightarrow> 'o res_db \<Rightarrow>
   rerr + memberResourcePositionRow \<times> 'o res_db" where
  "lockMemberResourcePosition now org member rt db =
     (let db1 = db\<lparr>rdb_positions :=
                     create_or_ignore position_clash (fresh_position now org member rt) (rdb_positions db)\<rparr>
      in and_then (or_fail ErrRecordNotFound
             (find (\<lambda>p. position_key p = (org, member, rt)) (rdb_positions db1)))
           (\<lambda>row. Inr (row, db1)))"

text \<open>\<open>tx.Save\<close> of a position that was locked before: the row with its key is replaced.\<close>

definition save_position :: "memberResourcePositionRow \<Rightarrow> 'o res_db \<Rightarrow> 'o res_db" where
  "save_position p db =
     db\<lparr>rdb_positions := update_rows (\<lambda>x. position_key x = position_key p) (\<lambda>_. p) (rdb_positions db)\<rparr>"

definition memberResourcePosition :: "memberResourcePositionRow \<Rightarrow> MemberResourcePosition" where
  "memberResourcePosition row =
     \<lparr>mrp_OrganizationID = pos_OrganizationID row, mrp_MemberID = pos_MemberID row,
      mrp_ResourceType = pos_ResourceType row, mrp_Free = pos_Free row,
      mrp_Reserved = pos_Reserved row, mrp_Consumed = pos_Consumed row,
      mrp_Version = pos_Version row, mrp_UpdatedAt = pos_UpdatedAt row\<rparr>"

definition lockMemberMonth ::
  "string \<Rightarrow> string \<Rightarrow> gotime \<Rightarrow> 'o res_db \<Rightarrow> memberAIPointMonthRow \<times> 'o res_db" where
  "lockMemberMonth org member month db =
     (case rdb_months db (org, member, month) of
        Some row \<Rightarrow> (row, db)
      | None \<Rightarrow>
          (let row = \<lparr>mon_OrganizationID = org, mon_MemberID = member, mon_MonthStart = month,
                      mon_Reserved = 0, mon_Consumed = 0\<rparr>
           in (row, db\<lparr>rdb_months := (rdb_months db)((org, member, month) \<mapsto> row)\<rparr>)))"

definition limitSnapshot :: "memberAIPointLimitRow \<Rightarrow> memberAIPointMonthRow \<Rightarrow> MemberLimitSnapshot" where
  "limitSnapshot config counter =
     \<lparr>mls_OrganizationID = lim_OrganizationID config, mls_MemberID = lim_MemberID config,
      mls_MonthlyLimit = lim_MonthlyLimit config, mls_Version = lim_Version config,
      mls_MonthStart = mon_MonthStart counter, mls_Reserved = mon_Reserved counter,
      mls_Consumed = mon_Consumed counter\<rparr>"

end
