(* ===== verification/Res_Runner.thy ===== *)
theory Res_Runner
  imports Contracts Res_DB
begin

text \<open>
  The transaction runner of the resource repositories (\<open>transaction.go\<close>): every transaction and
  every read of a durable result is repeated on transient failures, at most \<open>MaxAttempts\<close> times.

  What happens during an attempt is its environment: whether the retry budget or the caller's
  context has ended before it, the fault of its statements or of its commit, the errors of the
  contexts afterwards, and whether the budget ends while the runner waits. Commits are
  serializable, so an attempt is one atomic run of the transaction body.
\<close>

record TransactionConfig =
  cfg_LockTimeout :: i64
  cfg_StatementTimeout :: i64
  cfg_TransactionTimeout :: i64
  cfg_TotalRetryBudget :: i64
  cfg_BaseRetryDelay :: i64
  cfg_MaxAttempts :: i64

definition withDefaults :: "TransactionConfig \<Rightarrow> TransactionConfig" where
  "withDefaults c =
     \<lparr>cfg_LockTimeout = (if cfg_LockTimeout c \<le> 0 then 500000000 else cfg_LockTimeout c),
      cfg_StatementTimeout = (if cfg_StatementTimeout c \<le> 0 then 2000000000 else cfg_StatementTimeout c),
      cfg_TransactionTimeout = (if cfg_TransactionTimeout c \<le> 0 then 3000000000 else cfg_TransactionTimeout c),
      cfg_TotalRetryBudget = (if cfg_TotalRetryBudget c \<le> 0 then 5000000000 else cfg_TotalRetryBudget c),
      cfg_BaseRetryDelay = (if cfg_BaseRetryDelay c \<le> 0 then 20000000 else cfg_BaseRetryDelay c),
      cfg_MaxAttempts = (if cfg_MaxAttempts c \<le> 0 then 4 else cfg_MaxAttempts c)\<rparr>"

record attempt =
  att_budget :: bool
  att_ctx :: "rerr option"
  att_env :: res_env
  att_fault :: "rerr tx_fault"
  att_ctx_after :: "rerr option"
  att_deadline :: bool
  att_wait :: "rerr option option"

definition sqlState :: "rerr \<Rightarrow> string" where
  "sqlState e = (case e of DriverErr s _ \<Rightarrow> s | _ \<Rightarrow> [])"

definition lower_char :: "char \<Rightarrow> char" where
  "lower_char c = (let n = of_char c :: nat in if 65 \<le> n \<and> n \<le> 90 then char_of (n + 32) else c)"

definition contains_text :: "string \<Rightarrow> string \<Rightarrow> bool" where
  "contains_text p s \<longleftrightarrow> list_ex (\<lambda>i. starts_with p (drop i s)) [0..<Suc (length s)]"

definition error_text :: "rerr \<Rightarrow> string" where
  "error_text e = (case e of DriverErr _ m \<Rightarrow> m | OtherErr m \<Rightarrow> m | _ \<Rightarrow> [])"

definition retryable :: "bool \<Rightarrow> rerr \<Rightarrow> bool" where
  "retryable sqlite e \<longleftrightarrow>
     sqlState e \<in> {''40001'', ''40P01'', ''55P03'', ''57014''}
     \<or> sqlite \<and> contains_text ''database is locked'' (map lower_char (error_text e))"

text \<open>
  The delay before the next attempt: \<open>random\<close> is the value of \<open>rand.Int63n\<close>, below its argument.
\<close>

definition retryDelay :: "(i64 \<Rightarrow> i64) \<Rightarrow> TransactionConfig \<Rightarrow> i64 \<Rightarrow> i64" where
  "retryDelay random c attempt =
     (let multiplier = 2 ^ nat (min (attempt - 1) 6);
          base = mul64 (cfg_BaseRetryDelay c) multiplier;
          jitterCeiling = max (quo64 base 2) 1000000
      in add64 base (random jitterCeiling))"

text \<open>What the runner returns when the budget or the caller's context ends.\<close>

definition give_up :: "rerr option \<Rightarrow> rerr" where
  "give_up ctx = (case ctx of Some e \<Rightarrow> e | None \<Rightarrow> ErrConcurrencyRetry)"

function runWithRetry ::
  "TransactionConfig \<Rightarrow> bool \<Rightarrow> (nat \<Rightarrow> attempt) \<Rightarrow> (attempt \<Rightarrow> 'db \<Rightarrow> 'db \<times> (rerr + 'a)) \<Rightarrow>
   nat \<Rightarrow> 'db \<Rightarrow> 'db \<times> (rerr + 'a)" where
  "runWithRetry c sqlite envs op n db =
     (if int n > cfg_MaxAttempts c then (db, Inl ErrConcurrencyRetry)
      else
        let at = envs n in
        if att_budget at then (db, Inl (give_up (att_ctx at)))
        else case op at db of
          (db1, Inr a) \<Rightarrow> (db1, Inr a)
        | (db1, Inl e) \<Rightarrow>
            (case att_ctx_after at of
               Some ce \<Rightarrow> (db1, Inl ce)
             | None \<Rightarrow>
                 if \<not> (e = DeadlineExceeded \<and> att_deadline at) \<and> \<not> retryable sqlite e
                 then (db1, Inl e)
                 else if int n = cfg_MaxAttempts c then (db1, Inl ErrConcurrencyRetry)
                 else (case att_wait at of
                         Some ctx \<Rightarrow> (db1, Inl (give_up ctx))
                       | None \<Rightarrow> runWithRetry c sqlite envs op (Suc n) db1)))"
  by pat_completeness auto

termination
  by (relation "measure (\<lambda>(c, _, _, _, n, _). nat (cfg_MaxAttempts c + 1 - int n))") auto

declare runWithRetry.simps [simp del]

text \<open>\<open>run\<close>: the operation is a transaction; \<open>runRead\<close>: it only reads.\<close>

definition run_body ::
  "TransactionConfig \<Rightarrow> bool \<Rightarrow> (nat \<Rightarrow> attempt) \<Rightarrow> (res_env \<Rightarrow> 'db \<Rightarrow> rerr + 'a \<times> 'db) \<Rightarrow> 'db \<Rightarrow>
   'db \<times> (rerr + 'a)" where
  "run_body c sqlite envs body db =
     runWithRetry (withDefaults c) sqlite envs (\<lambda>at. run_tx (att_fault at) (body (att_env at))) 1 db"

definition runRead ::
  "TransactionConfig \<Rightarrow> bool \<Rightarrow> (nat \<Rightarrow> attempt) \<Rightarrow> ('db \<Rightarrow> rerr + 'a) \<Rightarrow> 'db \<Rightarrow> rerr + 'a" where
  "runRead c sqlite envs answer db =
     snd (runWithRetry (withDefaults c) sqlite envs
            (\<lambda>at db. (db, run_read (att_fault at) (answer db))) 1 db)"

section \<open>What the runner does\<close>

lemma withDefaults_pos: "0 < cfg_MaxAttempts (withDefaults c)" "0 < cfg_BaseRetryDelay (withDefaults c)"
  by (simp_all add: withDefaults_def)

text \<open>The runner is a bounded number of attempts, in order; an answer is the last attempt's.\<close>

fun op_runs :: "(attempt \<Rightarrow> 'db \<Rightarrow> 'db \<times> (rerr + 'a)) \<Rightarrow> attempt list \<Rightarrow> 'db \<Rightarrow> 'db \<times> (rerr + 'a) list" where
  "op_runs op [] db = (db, [])"
| "op_runs op (at # ats) db =
     (let (db1, r) = op at db; (db2, rs) = op_runs op ats db1 in (db2, r # rs))"

lemma runWithRetry_runs:
  assumes "1 \<le> n"
  shows "\<exists>m rs. int m \<le> max 0 (cfg_MaxAttempts c + 1 - int n)
    \<and> op_runs op (map envs [n..<n + m]) db = (fst (runWithRetry c sqlite envs op n db), rs)
    \<and> (\<forall>a. snd (runWithRetry c sqlite envs op n db) = Inr a \<longrightarrow> Inr a \<in> set rs)"
  using assms
proof (induction c sqlite envs op n db rule: runWithRetry.induct)
  case (1 c sqlite envs op n db)
  let ?r = "runWithRetry c sqlite envs op n db"
  have none: ?case if "?r = (db, Inl e)" for e
    using that by (intro exI [where x = 0] exI [where x = "[]"]) simp
  obtain db1 r where op: "op (envs n) db = (db1, r)" by fastforce
  have one: ?case if "?r = (db1, s)" "\<forall>a. s = Inr a \<longrightarrow> r = Inr a" "int n \<le> cfg_MaxAttempts c" for s
    using that op by (intro exI [where x = 1] exI [where x = "[r]"]) auto
  show ?case
  proof (cases "int n > cfg_MaxAttempts c \<or> att_budget (envs n)")
    case True
    then show ?thesis using none by (auto simp: runWithRetry.simps [of c sqlite envs op n])
  next
    case False
    then have go: "int n \<le> cfg_MaxAttempts c" "\<not> att_budget (envs n)" by auto
    show ?thesis
    proof (cases "\<exists>e. r = Inl e \<and> att_ctx_after (envs n) = None
        \<and> (e = DeadlineExceeded \<and> att_deadline (envs n) \<or> retryable sqlite e)
        \<and> int n \<noteq> cfg_MaxAttempts c \<and> att_wait (envs n) = None")
      case False
      have "\<exists>s. ?r = (db1, s) \<and> (\<forall>a. s = Inr a \<longrightarrow> r = Inr a)"
        using False go op
        by (auto simp: runWithRetry.simps [of c sqlite envs op n] Let_def split: sum.splits option.splits)
      with one go(1) show ?thesis by blast
    next
      case True
      then obtain e where e: "r = Inl e" "att_ctx_after (envs n) = None"
        "e = DeadlineExceeded \<and> att_deadline (envs n) \<or> retryable sqlite e"
        "int n \<noteq> cfg_MaxAttempts c" "att_wait (envs n) = None" by blast
      have next_r: "?r = runWithRetry c sqlite envs op (Suc n) db1"
        using e go op by (auto simp: runWithRetry.simps [of c sqlite envs op n])
      have "\<not> cfg_MaxAttempts c < int n" "op (envs n) db = (db1, Inl e)"
        "\<not> (\<not> (e = DeadlineExceeded \<and> att_deadline (envs n)) \<and> \<not> retryable sqlite e)"
        using go(1) op e(1,3) by auto
      from 1(1) [OF this(1) refl go(2) this(2) [symmetric] refl e(2) this(3) e(4,5)]
      obtain m rs where IH: "int m \<le> max 0 (cfg_MaxAttempts c + 1 - int (Suc n))"
        "op_runs op (map envs [Suc n..<Suc n + m]) db1 = (fst ?r, rs)"
        "\<forall>a. snd ?r = Inr a \<longrightarrow> Inr a \<in> set rs"
        unfolding next_r by auto
      have "int (Suc m) \<le> max 0 (cfg_MaxAttempts c + 1 - int n)" using IH(1) go(1) by auto
      moreover have "[n..<n + Suc m] = n # [Suc n..<Suc n + m]" using upt_conv_Cons [of n "n + Suc m"] by simp
      then have "op_runs op (map envs [n..<n + Suc m]) db = (fst ?r, r # rs)"
        using op IH(2) by (simp del: upt_Suc)
      ultimately show ?thesis using IH(3) by (intro exI [where x = "Suc m"] exI [where x = "r # rs"]) auto
    qed
  qed
qed

lemma op_runs_attempts:
  "op_runs (\<lambda>at. run_tx (att_fault at) (body (att_env at) i)) ats db =
     run_attempts body i (map (\<lambda>at. (att_fault at, att_env at)) ats) db"
  by (induction ats arbitrary: db) (auto split: prod.splits)

lemma run_body_attempts:
  obtains ats rs where "int (length ats) \<le> cfg_MaxAttempts (withDefaults c)"
    "run_attempts body i ats db = (fst (run_body c sqlite envs (\<lambda>env. body env i) db), rs)"
    "\<And>a. snd (run_body c sqlite envs (\<lambda>env. body env i) db) = Inr a \<Longrightarrow> Inr a \<in> set rs"
    "set ats \<subseteq> range (\<lambda>n. (att_fault (envs n), att_env (envs n)))"
proof -
  let ?op = "\<lambda>at. run_tx (att_fault at) (body (att_env at) i)"
  obtain m rs where m: "int m \<le> max 0 (cfg_MaxAttempts (withDefaults c) + 1 - int 1)"
    "op_runs ?op (map envs [1..<1 + m]) db = (fst (run_body c sqlite envs (\<lambda>env. body env i) db), rs)"
    "\<forall>a. snd (run_body c sqlite envs (\<lambda>env. body env i) db) = Inr a \<longrightarrow> Inr a \<in> set rs"
    using runWithRetry_runs [of 1 "withDefaults c" ?op envs db sqlite] unfolding run_body_def by blast
  show thesis
  proof (rule that)
    show "int (length (map (\<lambda>at. (att_fault at, att_env at)) (map envs [1..<1 + m])))
        \<le> cfg_MaxAttempts (withDefaults c)"
      using m(1) withDefaults_pos(1) [of c] by simp
    show "run_attempts body i (map (\<lambda>at. (att_fault at, att_env at)) (map envs [1..<1 + m])) db =
        (fst (run_body c sqlite envs (\<lambda>env. body env i) db), rs)"
      using m(2) by (simp only: op_runs_attempts)
    show "Inr a \<in> set rs" if "snd (run_body c sqlite envs (\<lambda>env. body env i) db) = Inr a" for a
      using m(3) that by blast
  qed auto
qed

text \<open>A relation that every commit of the body respects holds between the runner's states.\<close>

lemma run_attempts_rel:
  assumes "\<And>s. R s s" "\<And>s t u. R s t \<Longrightarrow> R t u \<Longrightarrow> R s u"
    "\<And>env s a t. body env i s = Inr (a, t) \<Longrightarrow> R s t"
  shows "R db (fst (run_attempts body i ats db))"
proof (induction ats arbitrary: db)
  case Nil
  then show ?case using assms(1) by simp
next
  case (Cons x ats)
  obtain flt env where x: "x = (flt, env)" by (cases x)
  obtain db1 r where tx: "run_tx flt (body env i) db = (db1, r)" by fastforce
  have "R db db1"
    using run_tx_state [of flt "body env i" db] assms(1,3) tx by auto
  with Cons [of db1] assms(2) show ?case by (auto simp: x tx split: prod.splits)
qed

lemma run_body_rel:
  assumes "\<And>s. R s s" "\<And>s t u. R s t \<Longrightarrow> R t u \<Longrightarrow> R s u"
    "\<And>env s a t. body env s = Inr (a, t) \<Longrightarrow> R s t"
  shows "R db (fst (run_body c sqlite envs body db))"
proof -
  obtain ats rs where "run_attempts (\<lambda>env _. body env) () ats db = (fst (run_body c sqlite envs body db), rs)"
    using run_body_attempts [of c "\<lambda>env _. body env" "()" db sqlite envs] by metis
  then show ?thesis
    using run_attempts_rel [of R "\<lambda>env _. body env" "()" db ats] assms by (metis fst_conv)
qed

end
