(* ===== verification/Res_Grants.thy ===== *)
theory Res_Grants
  imports Res_Runner
begin

text \<open>
  The positive mints of the resource ledger: the welcome grant (\<open>gorm_repository.go\<close> and
  \<open>service.go\<close>), the grant of a purchased order item (\<open>purchase_repository.go\<close>, \<open>purchase.go\<close>)
  and the trial grant (\<open>trial_grant_repository.go\<close>, \<open>trial_grant.go\<close>). A body with suffix \<open>Tx\<close> is
  the closure that the runner executes; the Execute and service functions compose the durable
  replay, the runner and the read-back after a failed call the way the code does.

  The authorizers and verifiers are ports of the ledger, implemented by the runtime assembly:
  they are function parameters.
\<close>

text \<open>What the environment does to one call: its reads before and after, its attempts.\<close>

record exec_env =
  xev_replay :: "nat \<Rightarrow> attempt"
  xev_before :: "nat \<Rightarrow> attempt"
  xev_attempts :: "nat \<Rightarrow> attempt"
  xev_afterCommit :: "rerr option"
  xev_after :: "nat \<Rightarrow> attempt"

text \<open>
  The frame every Execute method shares: replay a durable answer, run the transaction, and when
  the call failed (the commit's answer may be lost) read the durable answer again.
\<close>

definition execute_frame ::
  "TransactionConfig \<Rightarrow> bool \<Rightarrow> exec_env \<Rightarrow> ('db \<Rightarrow> rerr + 'a option) \<Rightarrow>
   (res_env \<Rightarrow> 'db \<Rightarrow> rerr + 'a \<times> 'db) \<Rightarrow> 'db \<Rightarrow> 'db \<times> (rerr + 'a)" where
  "execute_frame c sqlite ev replay body db =
     (case runRead c sqlite (xev_before ev) replay db of
        Inl e \<Rightarrow> (db, Inl e)
      | Inr (Some r) \<Rightarrow> (db, Inr r)
      | Inr None \<Rightarrow>
          (case run_body c sqlite (xev_attempts ev) body db of
             (db1, res) \<Rightarrow>
               (case (case res of Inl e \<Rightarrow> Inl e
                        | Inr a \<Rightarrow> (case xev_afterCommit ev of None \<Rightarrow> Inr a | Some e \<Rightarrow> Inl e)) of
                  Inr a \<Rightarrow> (db1, Inr a)
                | Inl e \<Rightarrow>
                    (case runRead c sqlite (xev_after ev) replay db1 of
                       Inr (Some r) \<Rightarrow> (db1, Inr r)
                     | _ \<Rightarrow> (db1, Inl e)))))"

section \<open>The welcome grant\<close>

definition resultFromOperation :: "organizationResourceOperationRow \<Rightarrow> rerr + WelcomeGrantResult" where
  "resultFromOperation row =
     (if opr_State row \<noteq> ''succeeded'' \<or> opr_ImmutableResult row = None
      then Inl (OtherErr ''organization resource operation is not terminal-successful'')
      else and_then (or_fail (OtherErr ''decode immutable resource result'')
             (Option.bind (opr_ImmutableResult row) Unmarshal_WelcomeGrantSnapshot))
           (\<lambda>s. Inr \<lparr>wgz_Snapshot = s, wgz_Replayed = True\<rparr>))"

definition lookupOperation ::
  "string \<Rightarrow> string \<Rightarrow> string \<Rightarrow> 'o res_db \<Rightarrow> rerr + WelcomeGrantResult option" where
  "lookupOperation org oper fingerprint db =
     (case rdb_operations db (org, oper) of
        None \<Rightarrow> Inr None
      | Some row \<Rightarrow>
          if opr_RequestFingerprint row \<noteq> fingerprint then Inl ErrIdempotencyKeyConflict
          else and_then (resultFromOperation row) (\<lambda>r. Inr (Some r)))"

definition lookupSource ::
  "WelcomeGrantReplay \<Rightarrow> 'o res_db \<Rightarrow> rerr + WelcomeGrantResult option" where
  "lookupSource x db =
     (case rdb_claims db (wgr_SourceType x, wgr_SourceIdentity x) of
        None \<Rightarrow> Inr None
      | Some claim \<Rightarrow>
          if clm_OrganizationID claim \<noteq> wgr_OrganizationID x
             \<or> clm_RequestFingerprint claim \<noteq> wgr_RequestFingerprint x
          then Inl ErrIdempotencyKeyConflict
          else and_then (lookupOperation (clm_OrganizationID claim) (clm_OperationID claim)
                           (clm_RequestFingerprint claim) db)
                 (\<lambda>found. case found of
                    None \<Rightarrow> Inl (OtherErr ''organization resource source claim has no terminal operation'')
                  | Some r \<Rightarrow> Inr (Some (r\<lparr>wgz_Replayed := True\<rparr>))))"

definition replayWelcomeGrantOnce ::
  "WelcomeGrantReplay \<Rightarrow> 'o res_db \<Rightarrow> rerr + WelcomeGrantResult option" where
  "replayWelcomeGrantOnce x db =
     and_then (lookupOperation (wgr_OrganizationID x) (wgr_OperationID x) (wgr_RequestFingerprint x) db)
       (\<lambda>found. case found of Some r \<Rightarrow> Inr (Some r) | None \<Rightarrow> lookupSource x db)"

definition ReplayWelcomeGrant ::
  "TransactionConfig \<Rightarrow> bool \<Rightarrow> (nat \<Rightarrow> attempt) \<Rightarrow> WelcomeGrantReplay \<Rightarrow> 'o res_db \<Rightarrow>
   rerr + WelcomeGrantResult option" where
  "ReplayWelcomeGrant c sqlite envs x db = runRead c sqlite envs (replayWelcomeGrantOnce x) db"

definition welcome_replay :: "WelcomeGrantExecution \<Rightarrow> WelcomeGrantReplay" where
  "welcome_replay x =
     \<lparr>wgr_OrganizationID = wgx_OrganizationID x, wgr_OperationID = wgx_OperationID x,
      wgr_ResourceType = wgx_ResourceType x, wgr_SourceType = wgx_SourceType x,
      wgr_SourceIdentity = wgx_SourceIdentity x,
      wgr_RequestFingerprint = wgx_RequestFingerprint x\<rparr>"

text \<open>The rows of a new grant: the operation, the source claim, the balance, the event, the audit.\<close>

definition persistWelcomeGrant ::
  "res_env \<Rightarrow> WelcomeGrantExecution \<Rightarrow> organizationResourceBucketRow \<Rightarrow> positiveCreditAllocation \<Rightarrow>
   WelcomeGrantSnapshot \<Rightarrow> 'o res_db \<Rightarrow> rerr + 'o res_db" where
  "persistWelcomeGrant env x bucket credit snapshot db =
     (let balanceAfter = pca_availableAfter credit in
      and_then (insert_operation
        (zero_operation\<lparr>opr_OrganizationID := wgx_OrganizationID x,
           opr_OperationID := wgx_OperationID x, opr_OperationType := wgx_OperationType x,
           opr_RequestFingerprint := wgx_RequestFingerprint x, opr_State := ''succeeded'',
           opr_ImmutableResult := Some (Marshal_WelcomeGrantSnapshot snapshot),
           opr_ApprovalEvidenceID := wgx_ApprovalEvidenceID x,
           opr_CompletedAt := Some (rnv_now env 2)\<rparr>) db) (\<lambda>db.
      and_then (insert_claim
        \<lparr>clm_SourceType = wgx_SourceType x, clm_SourceIdentity = wgx_SourceIdentity x,
         clm_ResourceType = wgx_ResourceType x, clm_OrganizationID = wgx_OrganizationID x,
         clm_OperationID = wgx_OperationID x,
         clm_RequestFingerprint = wgx_RequestFingerprint x\<rparr> db) (\<lambda>db.
      let db = snd (update_bucket (wgx_OrganizationID x, wgx_ResourceType x) (\<lambda>_. True)
                     (\<lambda>b. b\<lparr>bkt_Available := balanceAfter, bkt_UpdatedAt := rnv_now env 2\<rparr>) db) in
      and_then (insert_event
        (zero_event\<lparr>evt_EventID := rnv_uuid env 0, evt_OrganizationID := wgx_OrganizationID x,
           evt_OperationID := wgx_OperationID x, evt_ResourceType := wgx_ResourceType x,
           evt_Quantity := wgx_Quantity x, evt_AvailableDelta := pca_net credit,
           evt_Reason := wgx_SourceType x, evt_SourceType := wgx_SourceType x,
           evt_SourceIdentity := wgx_SourceIdentity x, evt_BalanceAfter := balanceAfter,
           evt_AvailableAfter := balanceAfter, evt_ReservedAfter := bkt_Reserved bucket,
           evt_ConsumedAfter := bkt_Consumed bucket, evt_GrossCredit := pca_gross credit,
           evt_DebtRepaid := pca_debtRepaid credit, evt_NetCredit := pca_net credit,
           evt_CreatedAt := rnv_now env 3\<rparr>) db) (\<lambda>db.
      Inr (insert_audit
        \<lparr>adt_OrganizationID = wgx_OrganizationID x, adt_OperationID = wgx_OperationID x,
         adt_Action = wgx_OperationType x, adt_ActorID = wgx_ActorID x,
         adt_ApprovalEvidenceID = wgx_ApprovalEvidenceID x,
         adt_Payload = JObj
           [(''resource_type'', JStr (wgx_ResourceType x)),
            (''quantity'', JStr (FormatInt (wgx_Quantity x))),
            (''balance_after'', JStr (FormatInt balanceAfter)),
            (''source_type'', JStr (wgx_SourceType x)),
            (''source_identity'', JStr (wgx_SourceIdentity x))],
         adt_CreatedAt = rnv_now env 4\<rparr> db)))))"

definition welcomeGrantTx ::
  "WelcomeGrantExecution \<Rightarrow> res_env \<Rightarrow> 'o res_db \<Rightarrow> rerr + WelcomeGrantResult \<times> 'o res_db" where
  "welcomeGrantTx x env db =
     replay_or (lookupOperation (wgx_OrganizationID x) (wgx_OperationID x) (wgx_RequestFingerprint x) db) db
    (replay_or (lookupSource (welcome_replay x) db) db
      (let db1 = ensure_bucket (rnv_now env 0) (wgx_OrganizationID x) (wgx_ResourceType x) db in
       and_then (or_fail ErrRecordNotFound (rdb_buckets db1 (wgx_OrganizationID x, wgx_ResourceType x)))
         (\<lambda>bucket.
       replay_or (lookupSource (welcome_replay x) db1) db1
         (and_then (applyPositiveCredit (wgx_OrganizationID x) (wgx_ResourceType x) (wgx_Quantity x)
                      (bkt_Available bucket) (rnv_now env 2) db1) (\<lambda>(credit, db2).
          let snapshot =
                \<lparr>wgs_OperationID = wgx_OperationID x, wgs_OrganizationID = wgx_OrganizationID x,
                 wgs_ResourceType = wgx_ResourceType x, wgs_Quantity = FormatInt (wgx_Quantity x),
                 wgs_BalanceAfter = FormatInt (pca_availableAfter credit),
                 wgs_SourceType = wgx_SourceType x, wgs_SourceIdentity = wgx_SourceIdentity x,
                 wgs_EventID = rnv_uuid env 0\<rparr>
          in and_then (persistWelcomeGrant env x bucket credit snapshot db2) (\<lambda>db3.
             Inr (\<lparr>wgz_Snapshot = snapshot, wgz_Replayed = False\<rparr>, db3)))))))"

definition ExecuteWelcomeGrant ::
  "TransactionConfig \<Rightarrow> bool \<Rightarrow> exec_env \<Rightarrow> WelcomeGrantExecution \<Rightarrow> 'o res_db \<Rightarrow>
   'o res_db \<times> (rerr + WelcomeGrantResult)" where
  "ExecuteWelcomeGrant c sqlite ev x db =
     execute_frame c sqlite ev
       (\<lambda>d. and_then (replayWelcomeGrantOnce (welcome_replay x) d)
              (\<lambda>f. Inr (map_option (\<lambda>r. r\<lparr>wgz_Replayed := True\<rparr>) f)))
       (welcomeGrantTx x) db"

definition welcome_execution ::
  "digests \<Rightarrow> GrantWelcomeStoreRenewalPeriodInput \<Rightarrow> WelcomeGrantExecution" where
  "welcome_execution dg i =
     (let org = TrimSpace (wgi_OrganizationID i);
          x = \<lparr>wgx_OrganizationID = org, wgx_OperationID = TrimSpace (wgi_OperationID i),
               wgx_OperationType = OperationGrantWelcomeStoreRenewalPeriod,
               wgx_ResourceType = ResourceStoreRenewalPeriod, wgx_Quantity = 1,
               wgx_SourceType = SourceOnboardingWelcomeStorePeriod, wgx_SourceIdentity = org,
               wgx_ApprovalEvidenceID = [], wgx_ApprovedAt = 0,
               wgx_ActorID = TrimSpace (pcl_ID (wgi_Principal i)), wgx_RequestFingerprint = []\<rparr>
      in x\<lparr>wgx_RequestFingerprint := fingerprintWelcomeGrant dg x\<rparr>)"

definition GrantWelcomeStoreRenewalPeriod ::
  "digests \<Rightarrow> (Principal \<Rightarrow> rerr option) \<Rightarrow> (string \<Rightarrow> rerr + WelcomeGrantApproval) \<Rightarrow>
   TransactionConfig \<Rightarrow> bool \<Rightarrow> exec_env \<Rightarrow> GrantWelcomeStoreRenewalPeriodInput \<Rightarrow> 'o res_db \<Rightarrow>
   'o res_db \<times> (rerr + WelcomeGrantResult)" where
  "GrantWelcomeStoreRenewalPeriod dg authorize verify c sqlite ev i db =
     (if TrimSpace (pcl_ID (wgi_Principal i)) = [] then (db, Inl ErrForbidden)
      else if authorize (wgi_Principal i) \<noteq> None then (db, Inl ErrForbidden)
      else
        let x = welcome_execution dg i in
        if wgx_OrganizationID x = [] \<or> length (wgx_OrganizationID x) > 128
           \<or> wgx_OperationID x = [] \<or> length (wgx_OperationID x) > 128
        then (db, Inl ErrInvalidInput)
        else case ReplayWelcomeGrant c sqlite (xev_replay ev) (welcome_replay x) db of
          Inl e \<Rightarrow> (db, Inl e)
        | Inr (Some r) \<Rightarrow> (db, Inr (r\<lparr>wgz_Replayed := True\<rparr>))
        | Inr None \<Rightarrow>
            (case verify (wgx_OrganizationID x) of
               Inl e \<Rightarrow> (db, Inl e)
             | Inr approval \<Rightarrow>
                 let evidence = TrimSpace (wga_EvidenceID approval) in
                 if TrimSpace (wga_OrganizationID approval) \<noteq> wgx_OrganizationID x
                    \<or> evidence = [] \<or> length evidence > 192
                 then (db, Inl ErrWelcomeGrantNotApproved)
                 else ExecuteWelcomeGrant c sqlite ev
                        (x\<lparr>wgx_ApprovalEvidenceID := evidence,
                           wgx_ApprovedAt := wga_ApprovedAt approval\<rparr>) db))"

section \<open>Purchased grants\<close>

definition validPurchasedResourceType :: "ResourceType \<Rightarrow> bool" where
  "validPurchasedResourceType t \<longleftrightarrow>
     t = ResourceStoreRenewalPeriod \<or> t = ResourceAIPoint \<or> t = ResourceDataRow"

definition AuthorizePurchasedGrant :: "Principal \<Rightarrow> ResourceType \<Rightarrow> rerr + i64" where
  "AuthorizePurchasedGrant p rt =
     (if pcl_Kind p \<noteq> PrincipalTrustedCommercial \<or> TrimSpace (pcl_ID p) \<noteq> ''commercial-billing''
         \<or> \<not> validPurchasedResourceType rt
      then Inl ErrForbidden else Inr 1000000000)"

definition purchasedGrantResultFromOperation ::
  "string \<Rightarrow> string \<Rightarrow> string \<Rightarrow> 'o res_db \<Rightarrow> rerr + PurchasedResourceGrantResult option" where
  "purchasedGrantResultFromOperation org oper fingerprint db =
     (case rdb_operations db (org, oper) of
        None \<Rightarrow> Inr None
      | Some row \<Rightarrow>
          if opr_RequestFingerprint row \<noteq> fingerprint then Inl ErrIdempotencyKeyConflict
          else if opr_State row \<noteq> ''succeeded'' \<or> opr_ImmutableResult row = None
          then Inl ErrConcurrencyRetry
          else and_then (or_fail (OtherErr ''decode purchased grant snapshot'')
                 (Option.bind (opr_ImmutableResult row) Unmarshal_PurchasedSnapshot))
               (\<lambda>s. Inr (Some \<lparr>pgz_Snapshot = s, pgz_Replayed = True\<rparr>)))"

definition replayPurchasedGrantOnce ::
  "PurchasedResourceGrantReplay \<Rightarrow> 'o res_db \<Rightarrow> rerr + PurchasedResourceGrantResult option" where
  "replayPurchasedGrantOnce x db =
     (case rdb_operations db (pgr_OrganizationID x, pgr_OperationID x) of
        None \<Rightarrow>
          (case rdb_claims db (pgr_SourceType x, pgr_SourceIdentity x) of
             None \<Rightarrow> Inr None
           | Some claim \<Rightarrow>
               if clm_ResourceType claim \<noteq> pgr_ResourceType x then Inr None
               else if clm_OrganizationID claim \<noteq> pgr_OrganizationID x
                       \<or> clm_RequestFingerprint claim \<noteq> pgr_RequestFingerprint x
               then Inl ErrIdempotencyKeyConflict
               else purchasedGrantResultFromOperation (clm_OrganizationID claim)
                      (clm_OperationID claim) (pgr_RequestFingerprint x) db)
      | Some operation \<Rightarrow>
          if opr_RequestFingerprint operation \<noteq> pgr_RequestFingerprint x
             \<or> opr_OperationType operation \<noteq> OperationGrantCommercialPurchase
          then Inl ErrIdempotencyKeyConflict
          else purchasedGrantResultFromOperation (opr_OrganizationID operation)
                 (opr_OperationID operation) (pgr_RequestFingerprint x) db)"

definition ReplayPurchasedResourceGrant ::
  "TransactionConfig \<Rightarrow> bool \<Rightarrow> (nat \<Rightarrow> attempt) \<Rightarrow> PurchasedResourceGrantReplay \<Rightarrow> 'o res_db \<Rightarrow>
   rerr + PurchasedResourceGrantResult option" where
  "ReplayPurchasedResourceGrant c sqlite envs x db = runRead c sqlite envs (replayPurchasedGrantOnce x) db"

definition purchased_replay :: "PurchasedResourceGrantExecution \<Rightarrow> PurchasedResourceGrantReplay" where
  "purchased_replay x =
     \<lparr>pgr_OrganizationID = pgx_OrganizationID x, pgr_OperationID = pgx_OperationID x,
      pgr_CommercialOrderID = pgx_CommercialOrderID x,
      pgr_CommercialOrderItemID = pgx_CommercialOrderItemID x,
      pgr_ResourceType = pgx_ResourceType x, pgr_Quantity = pgx_Quantity x,
      pgr_SourceType = pgx_SourceType x, pgr_SourceIdentity = pgx_SourceIdentity x,
      pgr_RequestFingerprint = pgx_RequestFingerprint x\<rparr>"

definition persistPurchasedGrant ::
  "res_env \<Rightarrow> PurchasedResourceGrantExecution \<Rightarrow> organizationResourceBucketRow \<Rightarrow>
   positiveCreditAllocation \<Rightarrow> PurchasedResourceGrantSnapshot \<Rightarrow> 'o res_db \<Rightarrow> rerr + 'o res_db" where
  "persistPurchasedGrant env x bucket credit snapshot db =
     (let now = rnv_now env 3; after = pca_availableAfter credit in
      and_then (insert_operation
        (zero_operation\<lparr>opr_OrganizationID := pgx_OrganizationID x,
           opr_OperationID := pgx_OperationID x, opr_OperationType := pgx_OperationType x,
           opr_RequestFingerprint := pgx_RequestFingerprint x, opr_State := ''succeeded'',
           opr_ImmutableResult := Some (Marshal_PurchasedSnapshot snapshot),
           opr_CompletedAt := Some now\<rparr>) db) (\<lambda>db.
      and_then (insert_claim
        \<lparr>clm_SourceType = pgx_SourceType x, clm_SourceIdentity = pgx_SourceIdentity x,
         clm_ResourceType = pgx_ResourceType x, clm_OrganizationID = pgx_OrganizationID x,
         clm_OperationID = pgx_OperationID x,
         clm_RequestFingerprint = pgx_RequestFingerprint x\<rparr> db) (\<lambda>db.
      let db = snd (update_bucket (pgx_OrganizationID x, pgx_ResourceType x) (\<lambda>_. True)
                     (\<lambda>b. b\<lparr>bkt_Available := after, bkt_UpdatedAt := now\<rparr>) db) in
      and_then (insert_event
        (zero_event\<lparr>evt_EventID := rnv_uuid env 0, evt_OrganizationID := pgx_OrganizationID x,
           evt_OperationID := pgx_OperationID x, evt_ResourceType := pgx_ResourceType x,
           evt_Quantity := pgx_Quantity x, evt_AvailableDelta := pca_net credit,
           evt_Reason := pgx_OperationType x, evt_SourceType := pgx_SourceType x,
           evt_SourceIdentity := pgx_SourceIdentity x, evt_BalanceAfter := after,
           evt_AvailableAfter := after, evt_AllocatedAfter := bkt_Allocated bucket,
           evt_ReservedAfter := bkt_Reserved bucket, evt_ConsumedAfter := bkt_Consumed bucket,
           evt_GrossCredit := pca_gross credit, evt_DebtRepaid := pca_debtRepaid credit,
           evt_NetCredit := pca_net credit, evt_CreatedAt := now\<rparr>) db) (\<lambda>db.
      Inr (insert_audit
        \<lparr>adt_OrganizationID = pgx_OrganizationID x, adt_OperationID = pgx_OperationID x,
         adt_Action = pgx_OperationType x, adt_ActorID = pgx_ActorID x,
         adt_ApprovalEvidenceID = [], adt_Payload = Marshal_PurchasedSnapshot snapshot,
         adt_CreatedAt = now\<rparr> db)))))"

definition purchasedGrantTx ::
  "PurchasedResourceGrantExecution \<Rightarrow> res_env \<Rightarrow> 'o res_db \<Rightarrow>
   rerr + PurchasedResourceGrantResult \<times> 'o res_db" where
  "purchasedGrantTx x env db =
     replay_or (replayPurchasedGrantOnce (purchased_replay x) db) db
      (let db1 = ensure_bucket (rnv_now env 0) (pgx_OrganizationID x) (pgx_ResourceType x) db in
       and_then (or_fail ErrRecordNotFound (rdb_buckets db1 (pgx_OrganizationID x, pgx_ResourceType x)))
         (\<lambda>bucket.
       replay_or (replayPurchasedGrantOnce (purchased_replay x) db1) db1
         (and_then (applyPositiveCredit (pgx_OrganizationID x) (pgx_ResourceType x) (pgx_Quantity x)
                      (bkt_Available bucket) (rnv_now env 2) db1) (\<lambda>(credit, db2).
          let snapshot =
                \<lparr>pgs_OperationID = pgx_OperationID x, pgs_OrganizationID = pgx_OrganizationID x,
                 pgs_CommercialOrderID = pgx_CommercialOrderID x,
                 pgs_CommercialOrderItemID = pgx_CommercialOrderItemID x,
                 pgs_ResourceType = pgx_ResourceType x, pgs_Quantity = FormatInt (pgx_Quantity x),
                 pgs_BalanceAfter = FormatInt (pca_availableAfter credit),
                 pgs_SourceType = pgx_SourceType x, pgs_SourceIdentity = pgx_SourceIdentity x,
                 pgs_EventID = rnv_uuid env 0\<rparr>
          in and_then (persistPurchasedGrant env x bucket credit snapshot db2) (\<lambda>db3.
             Inr (\<lparr>pgz_Snapshot = snapshot, pgz_Replayed = False\<rparr>, db3))))))"

definition ExecutePurchasedResourceGrant ::
  "TransactionConfig \<Rightarrow> bool \<Rightarrow> exec_env \<Rightarrow> PurchasedResourceGrantExecution \<Rightarrow> 'o res_db \<Rightarrow>
   'o res_db \<times> (rerr + PurchasedResourceGrantResult)" where
  "ExecutePurchasedResourceGrant c sqlite ev x db =
     execute_frame c sqlite (ev\<lparr>xev_afterCommit := None\<rparr>)
       (\<lambda>d. and_then (replayPurchasedGrantOnce (purchased_replay x) d)
              (\<lambda>f. Inr (map_option (\<lambda>r. r\<lparr>pgz_Replayed := True\<rparr>) f)))
       (purchasedGrantTx x) db"

definition purchased_execution ::
  "digests \<Rightarrow> PurchasedResourceGrantInput \<Rightarrow> PurchasedResourceGrantExecution" where
  "purchased_execution dg i =
     (let x = \<lparr>pgx_OrganizationID = pgi_OrganizationID i, pgx_OperationID = pgi_OperationID i,
               pgx_OperationType = OperationGrantCommercialPurchase,
               pgx_CommercialOrderID = pgi_CommercialOrderID i,
               pgx_CommercialOrderItemID = pgi_CommercialOrderItemID i,
               pgx_ResourceType = pgi_ResourceType i, pgx_Quantity = pgi_Quantity i,
               pgx_SourceType = SourceCommercialOrderItem,
               pgx_SourceIdentity = purchasedGrantSourceIdentity dg (pgi_OrganizationID i)
                 (pgi_CommercialOrderID i) (pgi_CommercialOrderItemID i),
               pgx_ActorID = pcl_ID (pgi_Principal i), pgx_RequestFingerprint = []\<rparr>
      in x\<lparr>pgx_RequestFingerprint := fingerprintPurchasedResourceGrant dg x\<rparr>)"

definition GrantPurchasedResource ::
  "digests \<Rightarrow> (Principal \<Rightarrow> ResourceType \<Rightarrow> rerr + i64) \<Rightarrow> TransactionConfig \<Rightarrow> bool \<Rightarrow> exec_env \<Rightarrow>
   PurchasedResourceGrantInput \<Rightarrow> 'o res_db \<Rightarrow> 'o res_db \<times> (rerr + PurchasedResourceGrantResult)" where
  "GrantPurchasedResource dg authorize c sqlite ev input db =
     (let i = normalizePurchasedGrantInput input in
      case validatePurchasedGrantIdentity i of
        Some e \<Rightarrow> (db, Inl e)
      | None \<Rightarrow>
          (case authorize (pgi_Principal i) (pgi_ResourceType i) of
             Inl _ \<Rightarrow> (db, Inl ErrForbidden)
           | Inr maxQuantity \<Rightarrow>
               let x = purchased_execution dg i in
               (case ReplayPurchasedResourceGrant c sqlite (xev_replay ev) (purchased_replay x) db of
                  Inl e \<Rightarrow> (db, Inl e)
                | Inr (Some r) \<Rightarrow> (db, Inr (r\<lparr>pgz_Replayed := True\<rparr>))
                | Inr None \<Rightarrow>
                    if maxQuantity \<le> 0 \<or> pgi_Quantity i > maxQuantity then (db, Inl ErrInvalidInput)
                    else ExecutePurchasedResourceGrant c sqlite ev x db)))"

section \<open>Trial grants\<close>

definition replayTrialAIGrantOnce ::
  "TrialAIGrantExecution \<Rightarrow> 'o res_db \<Rightarrow> rerr + TrialAIGrantResult option" where
  "replayTrialAIGrantOnce x db =
     and_then
       (case rdb_operations db (tgx_OrganizationID x, tgx_OperationID x) of
          Some operation \<Rightarrow> Inr (Some operation)
        | None \<Rightarrow>
            (case rdb_claims db (SourceLocalAITrial, tgx_SourceIdentity x) of
               None \<Rightarrow> Inr None
             | Some claim \<Rightarrow>
                 if clm_OrganizationID claim \<noteq> tgx_OrganizationID x
                    \<or> clm_ResourceType claim \<noteq> ResourceAIPoint
                    \<or> clm_RequestFingerprint claim \<noteq> tgx_RequestFingerprint x
                 then Inl ErrIdempotencyKeyConflict
                 else and_then (or_fail ErrRecordNotFound
                        (rdb_operations db (clm_OrganizationID claim, clm_OperationID claim)))
                      (\<lambda>operation. Inr (Some operation))))
       (\<lambda>found. case found of
          None \<Rightarrow> Inr None
        | Some operation \<Rightarrow>
            if opr_OperationType operation \<noteq> OperationGrantLocalAITrial
               \<or> opr_RequestFingerprint operation \<noteq> tgx_RequestFingerprint x
               \<or> opr_ApprovalEvidenceID operation \<noteq> tgx_ApprovalEvidenceID x
            then Inl ErrIdempotencyKeyConflict
            else if opr_State operation \<noteq> ''succeeded'' \<or> opr_ImmutableResult operation = None
            then Inl ErrConcurrencyRetry
            else and_then (or_fail (OtherErr ''trial grant receipt is unavailable'')
                   (Option.bind (opr_ImmutableResult operation) Unmarshal_TrialSnapshot)) (\<lambda>s.
                 if tgs_OrganizationID s \<noteq> tgx_OrganizationID x
                    \<or> tgs_OperationID s \<noteq> opr_OperationID operation
                    \<or> tgs_ResourceType s \<noteq> ResourceAIPoint \<or> tgs_Quantity s \<noteq> ''10000''
                    \<or> tgs_SourceType s \<noteq> SourceLocalAITrial
                    \<or> tgs_SourceIdentity s \<noteq> tgx_SourceIdentity x
                    \<or> tgs_ApprovalEvidenceID s \<noteq> tgx_ApprovalEvidenceID x \<or> tgs_EventID s = []
                 then Inl (OtherErr ''trial grant receipt is inconsistent'')
                 else Inr (Some \<lparr>tgz_Snapshot = s, tgz_Replayed = True\<rparr>)))"

definition ReplayTrialAIGrant ::
  "digests \<Rightarrow> TransactionConfig \<Rightarrow> bool \<Rightarrow> (nat \<Rightarrow> attempt) \<Rightarrow> TrialAIGrantExecution \<Rightarrow> 'o res_db \<Rightarrow>
   rerr + TrialAIGrantResult option" where
  "ReplayTrialAIGrant dg c sqlite envs x db =
     (if \<not> Validate_TrialAIGrantExecution dg x then Inl ErrInvalidInput
      else runRead c sqlite envs (replayTrialAIGrantOnce x) db)"

definition persistTrialAIGrant ::
  "res_env \<Rightarrow> TrialAIGrantExecution \<Rightarrow> organizationResourceBucketRow \<Rightarrow> positiveCreditAllocation \<Rightarrow>
   TrialAIGrantSnapshot \<Rightarrow> 'o res_db \<Rightarrow> rerr + 'o res_db" where
  "persistTrialAIGrant env x bucket credit snapshot db =
     (let now = rnv_now env 2; after = pca_availableAfter credit;
          encoded = Marshal_TrialSnapshot snapshot in
      and_then (insert_operation
        (zero_operation\<lparr>opr_OrganizationID := tgx_OrganizationID x,
           opr_OperationID := tgx_OperationID x, opr_OperationType := OperationGrantLocalAITrial,
           opr_RequestFingerprint := tgx_RequestFingerprint x, opr_State := ''succeeded'',
           opr_ImmutableResult := Some encoded,
           opr_ApprovalEvidenceID := tgx_ApprovalEvidenceID x,
           opr_CompletedAt := Some now\<rparr>) db) (\<lambda>db.
      and_then (insert_claim
        \<lparr>clm_SourceType = SourceLocalAITrial, clm_SourceIdentity = tgx_SourceIdentity x,
         clm_ResourceType = ResourceAIPoint, clm_OrganizationID = tgx_OrganizationID x,
         clm_OperationID = tgx_OperationID x,
         clm_RequestFingerprint = tgx_RequestFingerprint x\<rparr> db) (\<lambda>db.
      let db = snd (update_bucket (tgx_OrganizationID x, ResourceAIPoint) (\<lambda>_. True)
                     (\<lambda>b. b\<lparr>bkt_Available := after, bkt_UpdatedAt := now\<rparr>) db) in
      and_then (insert_event
        (zero_event\<lparr>evt_EventID := tgs_EventID snapshot,
           evt_OrganizationID := tgx_OrganizationID x, evt_OperationID := tgx_OperationID x,
           evt_ResourceType := ResourceAIPoint, evt_Quantity := TrialAIGrantQuantity,
           evt_AvailableDelta := pca_net credit, evt_Reason := OperationGrantLocalAITrial,
           evt_SourceType := SourceLocalAITrial, evt_SourceIdentity := tgx_SourceIdentity x,
           evt_BalanceAfter := after, evt_AvailableAfter := after,
           evt_AllocatedAfter := bkt_Allocated bucket, evt_ReservedAfter := bkt_Reserved bucket,
           evt_ConsumedAfter := bkt_Consumed bucket, evt_GrossCredit := pca_gross credit,
           evt_DebtRepaid := pca_debtRepaid credit, evt_NetCredit := pca_net credit,
           evt_CreatedAt := now\<rparr>) db) (\<lambda>db.
      Inr (insert_audit
        \<lparr>adt_OrganizationID = tgx_OrganizationID x, adt_OperationID = tgx_OperationID x,
         adt_Action = OperationGrantLocalAITrial, adt_ActorID = tgx_ActorID x,
         adt_ApprovalEvidenceID = tgx_ApprovalEvidenceID x, adt_Payload = encoded,
         adt_CreatedAt = now\<rparr> db)))))"

definition executeTrialAIGrantTransaction ::
  "TrialAIGrantExecution \<Rightarrow> res_env \<Rightarrow> 'o res_db \<Rightarrow> rerr + TrialAIGrantResult \<times> 'o res_db" where
  "executeTrialAIGrantTransaction x env db =
     replay_or (replayTrialAIGrantOnce x db) db
      (let db1 = ensure_bucket (rnv_now env 0) (tgx_OrganizationID x) ResourceAIPoint db in
       and_then (or_fail ErrRecordNotFound (rdb_buckets db1 (tgx_OrganizationID x, ResourceAIPoint)))
         (\<lambda>bucket.
       replay_or (replayTrialAIGrantOnce x db1) db1
         (and_then (applyPositiveCredit (tgx_OrganizationID x) ResourceAIPoint TrialAIGrantQuantity
                      (bkt_Available bucket) (rnv_now env 2) db1) (\<lambda>(credit, db2).
          let snapshot =
                \<lparr>tgs_OperationID = tgx_OperationID x, tgs_OrganizationID = tgx_OrganizationID x,
                 tgs_ResourceType = ResourceAIPoint, tgs_Quantity = ''10000'',
                 tgs_GrossCredit = FormatInt (pca_gross credit),
                 tgs_DebtRepaid = FormatInt (pca_debtRepaid credit),
                 tgs_NetCredit = FormatInt (pca_net credit),
                 tgs_BalanceAfter = FormatInt (pca_availableAfter credit),
                 tgs_AllocatedAfter = FormatInt (bkt_Allocated bucket),
                 tgs_ReservedAfter = FormatInt (bkt_Reserved bucket),
                 tgs_ConsumedAfter = FormatInt (bkt_Consumed bucket),
                 tgs_SourceType = SourceLocalAITrial, tgs_SourceIdentity = tgx_SourceIdentity x,
                 tgs_ApprovalEvidenceID = tgx_ApprovalEvidenceID x, tgs_ActorID = tgx_ActorID x,
                 tgs_EventID = rnv_uuid env 0\<rparr>
          in and_then (persistTrialAIGrant env x bucket credit snapshot db2) (\<lambda>db3.
             Inr (\<lparr>tgz_Snapshot = snapshot, tgz_Replayed = False\<rparr>, db3))))))"

definition ExecuteTrialAIGrant ::
  "digests \<Rightarrow> TransactionConfig \<Rightarrow> bool \<Rightarrow> exec_env \<Rightarrow> TrialAIGrantExecution \<Rightarrow> 'o res_db \<Rightarrow>
   'o res_db \<times> (rerr + TrialAIGrantResult)" where
  "ExecuteTrialAIGrant dg c sqlite ev x db =
     (if \<not> Validate_TrialAIGrantExecution dg x then (db, Inl ErrInvalidInput)
      else execute_frame c sqlite ev (replayTrialAIGrantOnce x) (executeTrialAIGrantTransaction x) db)"

definition prepare ::
  "digests \<Rightarrow> (Principal \<Rightarrow> string \<Rightarrow> rerr + TrialAIGrantApproval) \<Rightarrow> TrialAIGrantInput \<Rightarrow> bool \<Rightarrow>
   rerr + TrialAIGrantExecution" where
  "prepare dg authorize i grant =
     (case Validate_TrialAIGrantInput i of
        Some e \<Rightarrow> Inl e
      | None \<Rightarrow>
          (case authorize (tgi_Principal i) (tgi_OrganizationID i) of
             Inl _ \<Rightarrow> Inl ErrForbidden
           | Inr approval \<Rightarrow>
               if tga_OrganizationID approval \<noteq> tgi_OrganizationID i
                  \<or> tga_OperatorID approval \<noteq> pcl_ID (tgi_Principal i)
                  \<or> \<not> validTrialID (tga_EvidenceID approval) 192
                  \<or> grant \<and> \<not> tga_GrantEnabled approval
               then Inl ErrForbidden
               else
                 let x = \<lparr>tgx_OrganizationID = tgi_OrganizationID i,
                          tgx_OperationID = tgi_OperationID i,
                          tgx_ActorID = pcl_ID (tgi_Principal i),
                          tgx_ApprovalEvidenceID = tga_EvidenceID approval,
                          tgx_SourceIdentity = TrialAIGrantSourceIdentity dg (tgi_OrganizationID i),
                          tgx_RequestFingerprint = []\<rparr>
                 in Inr (x\<lparr>tgx_RequestFingerprint := trialAIGrantFingerprint dg x\<rparr>)))"

definition Inspect ::
  "digests \<Rightarrow> (Principal \<Rightarrow> string \<Rightarrow> rerr + TrialAIGrantApproval) \<Rightarrow> TransactionConfig \<Rightarrow> bool \<Rightarrow>
   exec_env \<Rightarrow> TrialAIGrantInput \<Rightarrow> 'o res_db \<Rightarrow> rerr + TrialAIGrantResult option" where
  "Inspect dg authorize c sqlite ev i db =
     and_then (prepare dg authorize i False)
       (\<lambda>x. ReplayTrialAIGrant dg c sqlite (xev_replay ev) x db)"

definition Grant ::
  "digests \<Rightarrow> (Principal \<Rightarrow> string \<Rightarrow> rerr + TrialAIGrantApproval) \<Rightarrow> TransactionConfig \<Rightarrow> bool \<Rightarrow>
   exec_env \<Rightarrow> TrialAIGrantInput \<Rightarrow> 'o res_db \<Rightarrow> 'o res_db \<times> (rerr + TrialAIGrantResult)" where
  "Grant dg authorize c sqlite ev i db =
     (case prepare dg authorize i True of
        Inl e \<Rightarrow> (db, Inl e)
      | Inr x \<Rightarrow>
          (case ReplayTrialAIGrant dg c sqlite (xev_replay ev) x db of
             Inl e \<Rightarrow> (db, Inl e)
           | Inr (Some r) \<Rightarrow> (db, Inr r)
           | Inr None \<Rightarrow> ExecuteTrialAIGrant dg c sqlite ev x db))"

end
