(* ===== verification/Res_Reserve.thy ===== *)
theory Res_Reserve
  imports Res_Grants
begin

text \<open>
  Reservations by registered owners (\<open>reservation_repository.go\<close>, \<open>reservation.go\<close>) and their
  settlement from the owner's terminal proof (\<open>settlement_repository.go\<close>, \<open>settlement.go\<close>).

  The owner domains implement \<open>TransactionalReservationOwnerStore\<close>; an owner store is a parameter
  whose methods act on the owner's part of the transaction, the field \<open>rdb_owner\<close>.
\<close>

section \<open>Owner stores\<close>

record OwnerAttemptIdentity =
  oai_OrganizationID :: string
  oai_OwnerType :: string
  oai_OwnerAttemptID :: string

record OwnerAttemptSnapshot =
  oas_OrganizationID :: string
  oas_OwnerType :: string
  oas_OwnerAttemptID :: string
  oas_BusinessScope :: string
  oas_State :: string
  oas_ReservationID :: string
  oas_ResourceType :: ResourceType
  oas_ReservationPurpose :: string

record OwnerReservationBinding =
  orb_OrganizationID :: string
  orb_OwnerType :: string
  orb_OwnerAttemptID :: string
  orb_ReservationID :: string
  orb_ResourceType :: ResourceType
  orb_ReservationPurpose :: string

record OwnerTerminalProof =
  otp_OrganizationID :: string
  otp_OwnerType :: string
  otp_OwnerAttemptID :: string
  otp_BusinessScope :: string
  otp_ReservationID :: string
  otp_ResourceType :: ResourceType
  otp_ReservationPurpose :: string
  otp_State :: string
  otp_EvidenceID :: string

record 'o TransactionalReservationOwnerStore =
  tos_LockOwnerAttempt :: "OwnerAttemptIdentity \<Rightarrow> 'o \<Rightarrow> rerr + OwnerAttemptSnapshot"
  tos_BindReservation :: "OwnerReservationBinding \<Rightarrow> 'o \<Rightarrow> rerr + 'o"
  tos_LockTerminalProof :: "OwnerReservationBinding \<Rightarrow> 'o \<Rightarrow> rerr + OwnerTerminalProof"

type_synonym 'o owners = "string \<Rightarrow> 'o TransactionalReservationOwnerStore option"

section \<open>Reading back a reservation\<close>

definition reservationResultFromOperation ::
  "organizationResourceOperationRow \<Rightarrow> rerr + ReservationResult" where
  "reservationResultFromOperation row =
     (if opr_State row \<noteq> ''succeeded'' \<or> opr_ImmutableResult row = None
      then Inl (OtherErr ''organization resource reservation operation is not terminal-successful'')
      else and_then (or_fail (OtherErr ''decode immutable reservation result'')
             (Option.bind (opr_ImmutableResult row) Unmarshal_ReservationSnapshot))
           (\<lambda>s. Inr \<lparr>rsz_Snapshot = s, rsz_Replayed = True\<rparr>))"

definition lookupReserveOperation ::
  "string \<Rightarrow> string \<Rightarrow> string \<Rightarrow> 'o res_db \<Rightarrow> rerr + ReservationResult option" where
  "lookupReserveOperation org oper fingerprint db =
     (case rdb_operations db (org, oper) of
        None \<Rightarrow> Inr None
      | Some row \<Rightarrow>
          if opr_RequestFingerprint row \<noteq> fingerprint \<or> opr_OperationType row \<noteq> OperationReserve
          then Inl ErrIdempotencyKeyConflict
          else and_then (reservationResultFromOperation row) (\<lambda>r. Inr (Some r)))"

definition lookupReservationIdentity ::
  "ReservationReplay \<Rightarrow> 'o res_db \<Rightarrow> rerr + ReservationResult option" where
  "lookupReservationIdentity x db =
     (case find (\<lambda>r. rsv_OrganizationID r = rsr_OrganizationID x \<and> rsv_OwnerType r = rsr_OwnerType x
                     \<and> rsv_OwnerAttemptID r = rsr_OwnerAttemptID x
                     \<and> rsv_ResourceType r = rsr_ResourceType x
                     \<and> rsv_ReservationPurpose r = rsr_ReservationPurpose x) (rdb_reservations db) of
        None \<Rightarrow> Inr None
      | Some row \<Rightarrow>
          if rsv_RequestFingerprint row \<noteq> rsr_RequestFingerprint x
             \<or> rsv_BusinessScope row \<noteq> rsr_BusinessScope x \<or> rsv_Quantity row \<noteq> rsr_Quantity x
          then Inl ErrIdempotencyKeyConflict
          else and_then (or_fail ErrRecordNotFound
                 (rdb_operations db (rsv_OrganizationID row, rsv_OperationID row))) (\<lambda>operation.
               and_then (reservationResultFromOperation operation)
                 (\<lambda>r. Inr (Some (r\<lparr>rsz_Replayed := True\<rparr>)))))"

definition lookupBoundReservation ::
  "OwnerAttemptSnapshot \<Rightarrow> ReservationReplay \<Rightarrow> 'o res_db \<Rightarrow> rerr + ReservationResult" where
  "lookupBoundReservation own x db =
     and_then (or_fail ErrRecordNotFound
       (find (\<lambda>r. reservation_id r = (oas_OrganizationID own, oas_ReservationID own))
          (rdb_reservations db))) (\<lambda>row.
     if rsv_OwnerType row \<noteq> rsr_OwnerType x \<or> rsv_OwnerAttemptID row \<noteq> rsr_OwnerAttemptID x
        \<or> rsv_BusinessScope row \<noteq> rsr_BusinessScope x \<or> rsv_ResourceType row \<noteq> rsr_ResourceType x
        \<or> rsv_ReservationPurpose row \<noteq> rsr_ReservationPurpose x
        \<or> rsv_Quantity row \<noteq> rsr_Quantity x
        \<or> rsv_RequestFingerprint row \<noteq> rsr_RequestFingerprint x
        \<or> oas_ResourceType own \<noteq> rsr_ResourceType x
        \<or> oas_ReservationPurpose own \<noteq> rsr_ReservationPurpose x
     then Inl ErrIdempotencyKeyConflict
     else and_then (or_fail ErrRecordNotFound
            (rdb_operations db (rsv_OrganizationID row, rsv_OperationID row))) (\<lambda>operation.
          and_then (reservationResultFromOperation operation)
            (\<lambda>r. Inr (r\<lparr>rsz_Replayed := True\<rparr>))))"

definition replayReservationOnce ::
  "ReservationReplay \<Rightarrow> 'o res_db \<Rightarrow> rerr + ReservationResult option" where
  "replayReservationOnce x db =
     and_then (lookupReserveOperation (rsr_OrganizationID x) (rsr_OperationID x) (rsr_RequestFingerprint x) db)
       (\<lambda>found. case found of Some r \<Rightarrow> Inr (Some r) | None \<Rightarrow> lookupReservationIdentity x db)"

definition ReplayReservation ::
  "TransactionConfig \<Rightarrow> bool \<Rightarrow> (nat \<Rightarrow> attempt) \<Rightarrow> ReservationReplay \<Rightarrow> 'o res_db \<Rightarrow>
   rerr + ReservationResult option" where
  "ReplayReservation c sqlite envs x db = runRead c sqlite envs (replayReservationOnce x) db"

definition reservationReplayFromExecution :: "ReservationExecution \<Rightarrow> ReservationReplay" where
  "reservationReplayFromExecution x =
     \<lparr>rsr_OrganizationID = rsx_OrganizationID x, rsr_OperationID = rsx_OperationID x,
      rsr_OwnerType = rsx_OwnerType x, rsr_OwnerAttemptID = rsx_OwnerAttemptID x,
      rsr_BusinessScope = rsx_BusinessScope x, rsr_ResourceType = rsx_ResourceType x,
      rsr_Quantity = rsx_Quantity x, rsr_ReservationPurpose = rsx_ReservationPurpose x,
      rsr_RequestFingerprint = rsx_RequestFingerprint x\<rparr>"

definition validateLockedOwner :: "ReservationExecution \<Rightarrow> OwnerAttemptSnapshot \<Rightarrow> bool" where
  "validateLockedOwner x own \<longleftrightarrow>
     oas_OrganizationID own = rsx_OrganizationID x \<and> oas_OwnerType own = rsx_OwnerType x
     \<and> oas_OwnerAttemptID own = rsx_OwnerAttemptID x \<and> oas_BusinessScope own = rsx_BusinessScope x"

definition ownerMatchesBinding :: "OwnerAttemptSnapshot \<Rightarrow> OwnerReservationBinding \<Rightarrow> bool" where
  "ownerMatchesBinding own b \<longleftrightarrow>
     oas_OrganizationID own = orb_OrganizationID b \<and> oas_OwnerType own = orb_OwnerType b
     \<and> oas_OwnerAttemptID own = orb_OwnerAttemptID b \<and> oas_ReservationID own = orb_ReservationID b
     \<and> oas_ResourceType own = orb_ResourceType b
     \<and> oas_ReservationPurpose own = orb_ReservationPurpose b"

section \<open>Reserving\<close>

text \<open>The writes of a new reservation, after its guards.\<close>

definition persistReservation ::
  "'o TransactionalReservationOwnerStore \<Rightarrow> ReservationExecution \<Rightarrow> res_env \<Rightarrow>
   organizationResourceBucketRow \<Rightarrow> 'o res_db \<Rightarrow> rerr + ReservationResult \<times> 'o res_db" where
  "persistReservation st x env bucket db =
     (let now = rnv_now env 0; reservationID = rnv_uuid env 0; eventID = rnv_uuid env 1;
          availableAfter = sub64 (bkt_Available bucket) (rsx_Quantity x);
          reservedAfter = add64 (bkt_Reserved bucket) (rsx_Quantity x);
          identity = \<lparr>oai_OrganizationID = rsx_OrganizationID x, oai_OwnerType = rsx_OwnerType x,
                      oai_OwnerAttemptID = rsx_OwnerAttemptID x\<rparr>;
          snapshot =
            \<lparr>rss_OperationID = rsx_OperationID x, rss_ReservationID = reservationID,
             rss_OrganizationID = rsx_OrganizationID x, rss_OwnerType = rsx_OwnerType x,
             rss_OwnerAttemptID = rsx_OwnerAttemptID x, rss_BusinessScope = rsx_BusinessScope x,
             rss_ResourceType = rsx_ResourceType x, rss_Quantity = FormatInt (rsx_Quantity x),
             rss_ReservationPurpose = rsx_ReservationPurpose x, rss_State = ReservationReserved,
             rss_AvailableAfter = FormatInt availableAfter,
             rss_ReservedAfter = FormatInt reservedAfter,
             rss_ConsumedAfter = FormatInt (bkt_Consumed bucket), rss_EventID = eventID\<rparr>;
          binding =
            \<lparr>orb_OrganizationID = rsx_OrganizationID x, orb_OwnerType = rsx_OwnerType x,
             orb_OwnerAttemptID = rsx_OwnerAttemptID x, orb_ReservationID = reservationID,
             orb_ResourceType = rsx_ResourceType x,
             orb_ReservationPurpose = rsx_ReservationPurpose x\<rparr>
      in
      and_then (insert_operation
        (zero_operation\<lparr>opr_OrganizationID := rsx_OrganizationID x,
           opr_OperationID := rsx_OperationID x, opr_OperationType := rsx_OperationType x,
           opr_RequestFingerprint := rsx_RequestFingerprint x, opr_State := ''succeeded'',
           opr_ImmutableResult := Some (Marshal_ReservationSnapshot snapshot),
           opr_CompletedAt := Some now\<rparr>) db) (\<lambda>db.
      and_then (insert_reservation
        (zero_reservation\<lparr>rsv_OrganizationID := rsx_OrganizationID x,
           rsv_ReservationID := reservationID, rsv_OperationID := rsx_OperationID x,
           rsv_OwnerType := rsx_OwnerType x, rsv_OwnerAttemptID := rsx_OwnerAttemptID x,
           rsv_BusinessScope := rsx_BusinessScope x, rsv_ResourceType := rsx_ResourceType x,
           rsv_ReservationPurpose := rsx_ReservationPurpose x, rsv_Quantity := rsx_Quantity x,
           rsv_State := ReservationReserved, rsv_RequestFingerprint := rsx_RequestFingerprint x,
           rsv_CreatedAt := rnv_now env 1\<rparr>) db) (\<lambda>db.
      and_then (tos_BindReservation st binding (rdb_owner db)) (\<lambda>own.
      let db = db\<lparr>rdb_owner := own\<rparr> in
      and_then (tos_LockOwnerAttempt st identity (rdb_owner db)) (\<lambda>boundOwner.
      if \<not> ownerMatchesBinding boundOwner binding
      then Inl (OtherErr ''reservation owner adapter did not persist the exact binding'')
      else case update_bucket (rsx_OrganizationID x, rsx_ResourceType x)
             (\<lambda>b. bkt_Available b \<ge> rsx_Quantity x)
             (\<lambda>b. b\<lparr>bkt_Available := availableAfter, bkt_Reserved := reservedAfter,
                    bkt_UpdatedAt := now\<rparr>) db of (rows, db) \<Rightarrow>
      if rows \<noteq> 1 then Inl ErrInsufficientBalance
      else and_then (insert_event
        (zero_event\<lparr>evt_EventID := eventID, evt_OrganizationID := rsx_OrganizationID x,
           evt_OperationID := rsx_OperationID x, evt_ReservationID := Some reservationID,
           evt_ResourceType := rsx_ResourceType x, evt_Quantity := rsx_Quantity x,
           evt_AvailableDelta := neg64 (rsx_Quantity x), evt_ReservedDelta := rsx_Quantity x,
           evt_Reason := OperationReserve, evt_SourceType := rsx_OwnerType x,
           evt_SourceIdentity := rsx_OwnerAttemptID x, evt_BalanceAfter := availableAfter,
           evt_AvailableAfter := availableAfter, evt_ReservedAfter := reservedAfter,
           evt_ConsumedAfter := bkt_Consumed bucket, evt_CreatedAt := rnv_now env 2\<rparr>) db) (\<lambda>db.
      Inr (\<lparr>rsz_Snapshot = snapshot, rsz_Replayed = False\<rparr>,
        insert_audit
        \<lparr>adt_OrganizationID = rsx_OrganizationID x, adt_OperationID = rsx_OperationID x,
         adt_Action = OperationReserve, adt_ActorID = rsx_ActorID x, adt_ApprovalEvidenceID = [],
         adt_Payload = Marshal_ReservationSnapshot snapshot, adt_CreatedAt = rnv_now env 3\<rparr> db)))))))"

definition reservationTx ::
  "'o TransactionalReservationOwnerStore \<Rightarrow> ReservationExecution \<Rightarrow> res_env \<Rightarrow> 'o res_db \<Rightarrow>
   rerr + ReservationResult \<times> 'o res_db" where
  "reservationTx st x env db =
     (let replay = reservationReplayFromExecution x;
          identity = \<lparr>oai_OrganizationID = rsx_OrganizationID x, oai_OwnerType = rsx_OwnerType x,
                      oai_OwnerAttemptID = rsx_OwnerAttemptID x\<rparr> in
      replay_or (lookupReserveOperation (rsx_OrganizationID x) (rsx_OperationID x)
                   (rsx_RequestFingerprint x) db) db
     (replay_or (lookupReservationIdentity replay db) db
     (and_then (case tos_LockOwnerAttempt st identity (rdb_owner db) of
                  Inl e \<Rightarrow> Inl (if e = ErrRecordNotFound then ErrOwnerScopeMismatch else e)
                | Inr own \<Rightarrow> Inr own) (\<lambda>own.
      if \<not> validateLockedOwner x own then Inl ErrOwnerScopeMismatch
      else replay_or (lookupReservationIdentity replay db) db
     (if oas_ReservationID own \<noteq> []
      then and_then (lookupBoundReservation own replay db) (\<lambda>r. Inr (r, db))
      else if oas_State own \<noteq> OwnerAttemptNotStarted then Inl ErrOwnerNotReservable
      else and_then (or_fail ErrInsufficientBalance
             (rdb_buckets db (rsx_OrganizationID x, rsx_ResourceType x))) (\<lambda>bucket.
           if bkt_Available bucket < rsx_Quantity x then Inl ErrInsufficientBalance
           else if add64 (bkt_Reserved bucket) (rsx_Quantity x) < bkt_Reserved bucket
           then Inl ErrInvalidInput
           else persistReservation st x env bucket db))))))"

definition ExecuteReservation ::
  "'o owners \<Rightarrow> TransactionConfig \<Rightarrow> bool \<Rightarrow> exec_env \<Rightarrow> ReservationExecution \<Rightarrow> 'o res_db \<Rightarrow>
   'o res_db \<times> (rerr + ReservationResult)" where
  "ExecuteReservation owners c sqlite ev x db =
     (case owners (rsx_OwnerType x) of
        None \<Rightarrow> (db, Inl ErrReservationOwnerNotRegistered)
      | Some st \<Rightarrow>
          execute_frame c sqlite ev
            (\<lambda>d. and_then (replayReservationOnce (reservationReplayFromExecution x) d)
                   (\<lambda>f. Inr (map_option (\<lambda>r. r\<lparr>rsz_Replayed := True\<rparr>) f)))
            (reservationTx st x) db)"

definition reserve_execution :: "digests \<Rightarrow> ReserveInput \<Rightarrow> ReservationExecution" where
  "reserve_execution dg i =
     (let x = \<lparr>rsx_OrganizationID = rsi_OrganizationID i, rsx_OperationID = rsi_OperationID i,
               rsx_OperationType = OperationReserve, rsx_OwnerType = rsi_OwnerType i,
               rsx_OwnerAttemptID = rsi_OwnerAttemptID i, rsx_BusinessScope = rsi_BusinessScope i,
               rsx_ResourceType = rsi_ResourceType i, rsx_Quantity = rsi_Quantity i,
               rsx_ReservationPurpose = rsi_ReservationPurpose i,
               rsx_ActorID = pcl_ID (rsi_Principal i), rsx_RequestFingerprint = []\<rparr>
      in x\<lparr>rsx_RequestFingerprint := fingerprintReservation dg x\<rparr>)"

definition Reserve ::
  "digests \<Rightarrow> (Principal \<Rightarrow> string \<Rightarrow> ResourceType \<Rightarrow> rerr + i64) \<Rightarrow> 'o owners \<Rightarrow>
   TransactionConfig \<Rightarrow> bool \<Rightarrow> exec_env \<Rightarrow> ReserveInput \<Rightarrow> 'o res_db \<Rightarrow>
   'o res_db \<times> (rerr + ReservationResult)" where
  "Reserve dg authorize owners c sqlite ev input db =
     (let i = normalizeReserveInput input in
      case validateReserveIdentity i of
        Some e \<Rightarrow> (db, Inl e)
      | None \<Rightarrow>
          (case authorize (rsi_Principal i) (rsi_OwnerType i) (rsi_ResourceType i) of
             Inl _ \<Rightarrow> (db, Inl ErrForbidden)
           | Inr maxQuantity \<Rightarrow>
               let x = reserve_execution dg i in
               (case ReplayReservation c sqlite (xev_replay ev) (reservationReplayFromExecution x) db of
                  Inl e \<Rightarrow> (db, Inl e)
                | Inr (Some r) \<Rightarrow> (db, Inr (r\<lparr>rsz_Replayed := True\<rparr>))
                | Inr None \<Rightarrow>
                    if maxQuantity \<le> 0 \<or> rsi_Quantity i > maxQuantity then (db, Inl ErrInvalidInput)
                    else ExecuteReservation owners c sqlite ev x db)))"

section \<open>Settling\<close>

definition settlementResultFromOperation ::
  "organizationResourceOperationRow \<Rightarrow> rerr + SettlementResult" where
  "settlementResultFromOperation row =
     (if opr_State row \<noteq> ''succeeded'' \<or> opr_ImmutableResult row = None
      then Inl (OtherErr ''organization resource settlement operation is not terminal-successful'')
      else and_then (or_fail (OtherErr ''decode immutable settlement result'')
             (Option.bind (opr_ImmutableResult row) Unmarshal_SettlementSnapshot))
           (\<lambda>s. Inr \<lparr>stz_Snapshot = s, stz_Replayed = True\<rparr>))"

definition lookupSettlementOperation ::
  "string \<Rightarrow> string \<Rightarrow> string \<Rightarrow> 'o res_db \<Rightarrow> rerr + SettlementResult option" where
  "lookupSettlementOperation org oper fingerprint db =
     (case rdb_operations db (org, oper) of
        None \<Rightarrow> Inr None
      | Some row \<Rightarrow>
          if opr_OperationType row \<noteq> OperationSettleReservation
             \<or> opr_RequestFingerprint row \<noteq> fingerprint
          then Inl ErrIdempotencyKeyConflict
          else and_then (settlementResultFromOperation row) (\<lambda>r. Inr (Some r)))"

definition settlementResultFromReservation ::
  "organizationResourceReservationRow \<Rightarrow> string \<Rightarrow> 'o res_db \<Rightarrow> rerr + SettlementResult option" where
  "settlementResultFromReservation reservation fingerprint db =
     (case rsv_SettlementOperationID reservation of
        None \<Rightarrow> Inr None
      | Some oper \<Rightarrow>
          and_then (or_fail ErrRecordNotFound
            (rdb_operations db (rsv_OrganizationID reservation, oper))) (\<lambda>operation.
          if opr_RequestFingerprint operation \<noteq> fingerprint
             \<or> opr_OperationType operation \<noteq> OperationSettleReservation
          then Inl ErrIdempotencyKeyConflict
          else and_then (settlementResultFromOperation operation)
                 (\<lambda>r. Inr (Some (r\<lparr>stz_Replayed := True\<rparr>)))))"

definition loadReservation ::
  "string \<Rightarrow> string \<Rightarrow> 'o res_db \<Rightarrow> rerr + organizationResourceReservationRow" where
  "loadReservation org rid db =
     or_fail ErrReservationNotFound (find (\<lambda>r. reservation_id r = (org, rid)) (rdb_reservations db))"

definition replaySettlementOnce ::
  "SettlementReplay \<Rightarrow> 'o res_db \<Rightarrow> rerr + SettlementResult option" where
  "replaySettlementOnce x db =
     and_then (lookupSettlementOperation (str_OrganizationID x) (str_OperationID x) (str_RequestFingerprint x) db)
       (\<lambda>found. case found of
          Some r \<Rightarrow> Inr (Some r)
        | None \<Rightarrow>
            (case find (\<lambda>r. reservation_id r = (str_OrganizationID x, str_ReservationID x))
                    (rdb_reservations db) of
               None \<Rightarrow> Inr None
             | Some reservation \<Rightarrow>
                 settlementResultFromReservation reservation (str_RequestFingerprint x) db))"

definition ReplaySettlement ::
  "TransactionConfig \<Rightarrow> bool \<Rightarrow> (nat \<Rightarrow> attempt) \<Rightarrow> SettlementReplay \<Rightarrow> 'o res_db \<Rightarrow>
   rerr + SettlementResult option" where
  "ReplaySettlement c sqlite envs x db = runRead c sqlite envs (replaySettlementOnce x) db"

definition bindingFromReservation :: "organizationResourceReservationRow \<Rightarrow> OwnerReservationBinding" where
  "bindingFromReservation r =
     \<lparr>orb_OrganizationID = rsv_OrganizationID r, orb_OwnerType = rsv_OwnerType r,
      orb_OwnerAttemptID = rsv_OwnerAttemptID r, orb_ReservationID = rsv_ReservationID r,
      orb_ResourceType = rsv_ResourceType r, orb_ReservationPurpose = rsv_ReservationPurpose r\<rparr>"

definition validateTerminalProof ::
  "organizationResourceReservationRow \<Rightarrow> OwnerTerminalProof \<Rightarrow> rerr + string" where
  "validateTerminalProof r p =
     (if otp_OrganizationID p \<noteq> rsv_OrganizationID r \<or> otp_OwnerType p \<noteq> rsv_OwnerType r
         \<or> otp_OwnerAttemptID p \<noteq> rsv_OwnerAttemptID r \<or> otp_BusinessScope p \<noteq> rsv_BusinessScope r
         \<or> otp_ReservationID p \<noteq> rsv_ReservationID r \<or> otp_ResourceType p \<noteq> rsv_ResourceType r
         \<or> otp_ReservationPurpose p \<noteq> rsv_ReservationPurpose r
      then Inl ErrOwnerScopeMismatch
      else and_then
        (if otp_State p = OwnerAttemptSucceededTerminal then Inr SettlementCommit
         else if otp_State p = OwnerAttemptFailedTerminal \<or> otp_State p = OwnerAttemptCancelledTerminal
         then Inr SettlementRelease
         else Inl ErrOwnerNotTerminal) (\<lambda>decision.
        if TrimSpace (otp_EvidenceID p) = [] \<or> length (TrimSpace (otp_EvidenceID p)) > 192
        then Inl ErrInvalidOwnerProof else Inr decision))"

definition sameReservationIdentity ::
  "organizationResourceReservationRow \<Rightarrow> organizationResourceReservationRow \<Rightarrow> bool" where
  "sameReservationIdentity a b \<longleftrightarrow>
     rsv_OrganizationID a = rsv_OrganizationID b \<and> rsv_ReservationID a = rsv_ReservationID b
     \<and> rsv_OperationID a = rsv_OperationID b \<and> rsv_OwnerType a = rsv_OwnerType b
     \<and> rsv_OwnerAttemptID a = rsv_OwnerAttemptID b \<and> rsv_BusinessScope a = rsv_BusinessScope b
     \<and> rsv_ResourceType a = rsv_ResourceType b
     \<and> rsv_ReservationPurpose a = rsv_ReservationPurpose b \<and> rsv_Quantity a = rsv_Quantity b
     \<and> rsv_RequestFingerprint a = rsv_RequestFingerprint b"

record calculatedSettlement =
  cst_decision :: string
  cst_availableAfter :: i64
  cst_reservedAfter :: i64
  cst_consumedAfter :: i64
  cst_grossCredit :: i64
  cst_debtRepaid :: i64
  cst_netCredit :: i64

definition calculateSettlement ::
  "gotime \<Rightarrow> organizationResourceReservationRow \<Rightarrow> organizationResourceBucketRow \<Rightarrow> string \<Rightarrow>
   'o res_db \<Rightarrow> rerr + calculatedSettlement \<times> 'o res_db" where
  "calculateSettlement now r bucket decision db =
     (let result = \<lparr>cst_decision = decision, cst_availableAfter = bkt_Available bucket,
                    cst_reservedAfter = sub64 (bkt_Reserved bucket) (rsv_Quantity r),
                    cst_consumedAfter = bkt_Consumed bucket, cst_grossCredit = 0,
                    cst_debtRepaid = 0, cst_netCredit = 0\<rparr> in
      if decision = SettlementCommit
      then let consumedAfter = add64 (bkt_Consumed bucket) (rsv_Quantity r) in
           if consumedAfter < bkt_Consumed bucket then Inl ErrInvalidInput
           else Inr (result\<lparr>cst_consumedAfter := consumedAfter\<rparr>, db)
      else and_then (applyPositiveCredit (rsv_OrganizationID r) (rsv_ResourceType r) (rsv_Quantity r)
                       (bkt_Available bucket) now db) (\<lambda>(credit, db1).
           Inr (result\<lparr>cst_grossCredit := pca_gross credit, cst_debtRepaid := pca_debtRepaid credit,
                       cst_netCredit := pca_net credit,
                       cst_availableAfter := pca_availableAfter credit\<rparr>, db1)))"

definition persistSettlement ::
  "res_env \<Rightarrow> SettlementExecution \<Rightarrow> organizationResourceReservationRow \<Rightarrow> OwnerTerminalProof \<Rightarrow>
   calculatedSettlement \<Rightarrow> 'o res_db \<Rightarrow> rerr + SettlementResult \<times> 'o res_db" where
  "persistSettlement env x r proof s db =
     (let now = rnv_now env 1; eventID = rnv_uuid env 0;
          snapshot =
            \<lparr>sts_OperationID = stx_OperationID x, sts_ReservationID = rsv_ReservationID r,
             sts_OrganizationID = rsv_OrganizationID r, sts_OwnerType = rsv_OwnerType r,
             sts_OwnerAttemptID = rsv_OwnerAttemptID r, sts_BusinessScope = rsv_BusinessScope r,
             sts_ResourceType = rsv_ResourceType r, sts_Quantity = FormatInt (rsv_Quantity r),
             sts_ReservationPurpose = rsv_ReservationPurpose r, sts_Decision = cst_decision s,
             sts_OwnerTerminalState = otp_State proof, sts_OwnerEvidenceID = otp_EvidenceID proof,
             sts_GrossCredit = FormatInt (cst_grossCredit s),
             sts_DebtRepaid = FormatInt (cst_debtRepaid s),
             sts_NetCredit = FormatInt (cst_netCredit s),
             sts_AvailableAfter = FormatInt (cst_availableAfter s),
             sts_ReservedAfter = FormatInt (cst_reservedAfter s),
             sts_ConsumedAfter = FormatInt (cst_consumedAfter s), sts_EventID = eventID\<rparr>;
          open_row = (\<lambda>row. reservation_id row = reservation_id r
            \<and> rsv_State row \<in> {ReservationReserved, ReservationReconciliationRequired})
      in
      and_then (insert_operation
        (zero_operation\<lparr>opr_OrganizationID := stx_OrganizationID x,
           opr_OperationID := stx_OperationID x, opr_OperationType := stx_OperationType x,
           opr_RequestFingerprint := stx_RequestFingerprint x, opr_State := ''succeeded'',
           opr_ImmutableResult := Some (Marshal_SettlementSnapshot snapshot),
           opr_ApprovalEvidenceID := otp_EvidenceID proof, opr_CompletedAt := Some now\<rparr>) db) (\<lambda>db.
      if length (filter open_row (rdb_reservations db)) \<noteq> 1 then Inl ErrIdempotencyKeyConflict
      else let db = db\<lparr>rdb_reservations := update_rows open_row
             (\<lambda>row. row\<lparr>rsv_State := (if cst_decision s = SettlementRelease
                                     then ReservationReleased else ReservationCommitted),
                        rsv_SettlementOperationID := Some (stx_OperationID x),
                        rsv_SettledAt := Some now\<rparr>) (rdb_reservations db)\<rparr> in
      case update_bucket (rsv_OrganizationID r, rsv_ResourceType r)
             (\<lambda>b. bkt_Reserved b \<ge> rsv_Quantity r)
             (\<lambda>b. b\<lparr>bkt_Available := cst_availableAfter s, bkt_Reserved := cst_reservedAfter s,
                    bkt_Consumed := cst_consumedAfter s, bkt_UpdatedAt := now\<rparr>) db of (rows, db) \<Rightarrow>
      if rows \<noteq> 1 then Inl (OtherErr ''reservation settlement lost the durable bucket fence'')
      else and_then (insert_event
        (zero_event\<lparr>evt_EventID := eventID, evt_OrganizationID := rsv_OrganizationID r,
           evt_OperationID := stx_OperationID x, evt_ReservationID := Some (rsv_ReservationID r),
           evt_ResourceType := rsv_ResourceType r, evt_Quantity := rsv_Quantity r,
           evt_AvailableDelta := (if cst_decision s = SettlementCommit then 0 else cst_netCredit s),
           evt_ReservedDelta := neg64 (rsv_Quantity r),
           evt_ConsumedDelta := (if cst_decision s = SettlementCommit then rsv_Quantity r else 0),
           evt_Reason := cst_decision s, evt_SourceType := rsv_OwnerType r,
           evt_SourceIdentity := rsv_OwnerAttemptID r, evt_BalanceAfter := cst_availableAfter s,
           evt_AvailableAfter := cst_availableAfter s, evt_ReservedAfter := cst_reservedAfter s,
           evt_ConsumedAfter := cst_consumedAfter s, evt_GrossCredit := cst_grossCredit s,
           evt_DebtRepaid := cst_debtRepaid s, evt_NetCredit := cst_netCredit s,
           evt_CreatedAt := rnv_now env 2\<rparr>) db) (\<lambda>db.
      Inr (\<lparr>stz_Snapshot = snapshot, stz_Replayed = False\<rparr>,
        insert_audit
        \<lparr>adt_OrganizationID = rsv_OrganizationID r, adt_OperationID = stx_OperationID x,
         adt_Action = stx_OperationType x @ '':'' @ cst_decision s, adt_ActorID = stx_ActorID x,
         adt_ApprovalEvidenceID = otp_EvidenceID proof,
         adt_Payload = Marshal_SettlementSnapshot snapshot, adt_CreatedAt = rnv_now env 3\<rparr> db))))"

definition settlementTx ::
  "'o TransactionalReservationOwnerStore \<Rightarrow> organizationResourceReservationRow \<Rightarrow>
   SettlementExecution \<Rightarrow> res_env \<Rightarrow> 'o res_db \<Rightarrow> rerr + SettlementResult \<times> 'o res_db" where
  "settlementTx st seed x env db =
     replay_or (lookupSettlementOperation (stx_OrganizationID x) (stx_OperationID x)
                  (stx_RequestFingerprint x) db) db
    (and_then (tos_LockTerminalProof st (bindingFromReservation seed) (rdb_owner db)) (\<lambda>proof.
     and_then (loadReservation (stx_OrganizationID x) (stx_ReservationID x) db) (\<lambda>r.
     replay_or (settlementResultFromReservation r (stx_RequestFingerprint x) db) db
    (if \<not> sameReservationIdentity seed r then Inl ErrIdempotencyKeyConflict
     else and_then (validateTerminalProof r proof) (\<lambda>decision.
     and_then (or_fail ErrRecordNotFound
       (rdb_buckets db (rsv_OrganizationID r, rsv_ResourceType r))) (\<lambda>bucket.
     if bkt_Reserved bucket < rsv_Quantity r
     then Inl (OtherErr ''reservation quantity exceeds durable reserved balance'')
     else and_then (calculateSettlement (rnv_now env 0) r bucket decision db) (\<lambda>(s, db1).
          persistSettlement env x r proof s db1)))))))"

definition ExecuteSettlement ::
  "'o owners \<Rightarrow> TransactionConfig \<Rightarrow> bool \<Rightarrow> exec_env \<Rightarrow> (nat \<Rightarrow> attempt) \<Rightarrow> SettlementExecution \<Rightarrow>
   'o res_db \<Rightarrow> 'o res_db \<times> (rerr + SettlementResult)" where
  "ExecuteSettlement owners c sqlite ev seed_reads x db =
     (let replay = \<lparr>str_OrganizationID = stx_OrganizationID x, str_OperationID = stx_OperationID x,
                    str_ReservationID = stx_ReservationID x,
                    str_RequestFingerprint = stx_RequestFingerprint x\<rparr> in
      case ReplaySettlement c sqlite (xev_before ev) replay db of
        Inl e \<Rightarrow> (db, Inl e)
      | Inr (Some r) \<Rightarrow> (db, Inr r)
      | Inr None \<Rightarrow>
          (case runRead c sqlite seed_reads
                  (loadReservation (stx_OrganizationID x) (stx_ReservationID x)) db of
             Inl e \<Rightarrow> (db, Inl e)
           | Inr seed \<Rightarrow>
               (case owners (rsv_OwnerType seed) of
                  None \<Rightarrow> (db, Inl ErrReservationOwnerNotRegistered)
                | Some st \<Rightarrow>
                    (case run_body c sqlite (xev_attempts ev) (settlementTx st seed x) db of
                       (db1, res) \<Rightarrow>
                         (case (case res of Inl e \<Rightarrow> Inl e
                                  | Inr a \<Rightarrow> (case xev_afterCommit ev of None \<Rightarrow> Inr a | Some e \<Rightarrow> Inl e)) of
                            Inr a \<Rightarrow> (db1, Inr a)
                          | Inl e \<Rightarrow>
                              (case ReplaySettlement c sqlite (xev_after ev) replay db1 of
                                 Inr (Some r) \<Rightarrow> (db1, Inr (r\<lparr>stz_Replayed := True\<rparr>))
                               | _ \<Rightarrow> (db1, Inl e)))))))"

definition settle_execution :: "digests \<Rightarrow> SettlementInput \<Rightarrow> SettlementExecution" where
  "settle_execution dg i =
     (let x = \<lparr>stx_OrganizationID = TrimSpace (sti_OrganizationID i),
               stx_OperationID = TrimSpace (sti_OperationID i),
               stx_OperationType = OperationSettleReservation,
               stx_ReservationID = TrimSpace (sti_ReservationID i),
               stx_ActorID = TrimSpace (pcl_ID (sti_Principal i)), stx_RequestFingerprint = []\<rparr>
      in x\<lparr>stx_RequestFingerprint := fingerprintSettlement dg x\<rparr>)"

definition Settle ::
  "digests \<Rightarrow> (Principal \<Rightarrow> rerr option) \<Rightarrow> 'o owners \<Rightarrow> TransactionConfig \<Rightarrow> bool \<Rightarrow> exec_env \<Rightarrow>
   (nat \<Rightarrow> attempt) \<Rightarrow> SettlementInput \<Rightarrow> 'o res_db \<Rightarrow> 'o res_db \<times> (rerr + SettlementResult)" where
  "Settle dg authorize owners c sqlite ev seed_reads i db =
     (let x = settle_execution dg i in
      if stx_ActorID x = [] then (db, Inl ErrForbidden)
      else if stx_OrganizationID x = [] \<or> length (stx_OrganizationID x) > 128
              \<or> stx_OperationID x = [] \<or> length (stx_OperationID x) > 128
              \<or> stx_ReservationID x = [] \<or> length (stx_ReservationID x) > 128
      then (db, Inl ErrInvalidInput)
      else if authorize ((sti_Principal i)\<lparr>pcl_ID := stx_ActorID x\<rparr>) \<noteq> None
      then (db, Inl ErrForbidden)
      else
        case ReplaySettlement c sqlite (xev_replay ev)
               \<lparr>str_OrganizationID = stx_OrganizationID x, str_OperationID = stx_OperationID x,
                str_ReservationID = stx_ReservationID x,
                str_RequestFingerprint = stx_RequestFingerprint x\<rparr> db of
          Inl e \<Rightarrow> (db, Inl e)
        | Inr (Some r) \<Rightarrow> (db, Inr (r\<lparr>stz_Replayed := True\<rparr>))
        | Inr None \<Rightarrow> ExecuteSettlement owners c sqlite ev seed_reads x db)"

end
