(* ===== verification/Res_Members.thy ===== *)
theory Res_Members
  imports Res_Reserve
begin

text \<open>
  Member allocations (\<open>member_allocation_repository.go\<close>, \<open>member_allocation.go\<close>), monthly limits
  (\<open>member_limit_repository.go\<close>, \<open>member_limit.go\<close>) and the reads of balances and positions
  (\<open>balance_read.go\<close>, \<open>member_directory.go\<close>).
\<close>

section \<open>Transfers between the organization and a member\<close>

text \<open>The debt the transfer and charge guards see: an absent row counts as no debt.\<close>

definition read_debt :: "string \<Rightarrow> ResourceType \<Rightarrow> 'o res_db \<Rightarrow> i64" where
  "read_debt org rt db = (case rdb_debts db (org, rt) of None \<Rightarrow> 0 | Some d \<Rightarrow> dbt_Amount d)"

text \<open>
  The two directions: the bucket and the position after the transfer, the credit of a reclaim,
  and the deltas of the event.
\<close>

definition allocate_member ::
  "MemberResourceTransfer \<Rightarrow> organizationResourceBucketRow \<Rightarrow> memberResourcePositionRow \<Rightarrow> 'o res_db \<Rightarrow>
   rerr + (organizationResourceBucketRow \<times> memberResourcePositionRow \<times> positiveCreditAllocation
           \<times> i64 \<times> i64) \<times> 'o res_db" where
  "allocate_member c bucket position db =
     (if read_debt (mrt_OrganizationID c) (mrt_ResourceType c) db > 0 then Inl ErrResourceDebtOutstanding
      else if bkt_Available bucket < mrt_Quantity c then Inl ErrInsufficientBalance
      else if pos_Free position > sub64 max64 (mrt_Quantity c)
              \<or> bkt_Allocated bucket > sub64 max64 (mrt_Quantity c)
      then Inl ErrInvalidInput
      else Inr ((bucket\<lparr>bkt_Available := sub64 (bkt_Available bucket) (mrt_Quantity c),
                        bkt_Allocated := add64 (bkt_Allocated bucket) (mrt_Quantity c)\<rparr>,
                 position\<lparr>pos_Free := add64 (pos_Free position) (mrt_Quantity c)\<rparr>, no_credit,
                 neg64 (mrt_Quantity c), mrt_Quantity c), db))"

definition reclaim_member ::
  "gotime \<Rightarrow> MemberResourceTransfer \<Rightarrow> organizationResourceBucketRow \<Rightarrow> memberResourcePositionRow \<Rightarrow>
   'o res_db \<Rightarrow>
   rerr + (organizationResourceBucketRow \<times> memberResourcePositionRow \<times> positiveCreditAllocation
           \<times> i64 \<times> i64) \<times> 'o res_db" where
  "reclaim_member now c bucket position db =
     (if pos_Free position < mrt_Quantity c then Inl ErrInsufficientBalance
      else if bkt_Allocated bucket < mrt_Quantity c
      then Inl (OtherErr ''member free position exceeds allocated bucket'')
      else and_then (applyPositiveCredit (mrt_OrganizationID c) (mrt_ResourceType c) (mrt_Quantity c)
                       (bkt_Available bucket) now db) (\<lambda>(credit, db1).
           Inr ((bucket\<lparr>bkt_Available := pca_availableAfter credit,
                        bkt_Allocated := sub64 (bkt_Allocated bucket) (mrt_Quantity c)\<rparr>,
                 position\<lparr>pos_Free := sub64 (pos_Free position) (mrt_Quantity c)\<rparr>, credit,
                 pca_net credit, neg64 (mrt_Quantity c)), db1)))"

text \<open>The rows of an accepted transfer.\<close>

definition persistTransfer ::
  "res_env \<Rightarrow> MemberResourceTransfer \<Rightarrow>
   organizationResourceBucketRow \<times> memberResourcePositionRow \<times> positiveCreditAllocation \<times> i64 \<times> i64 \<Rightarrow>
   'o res_db \<Rightarrow> rerr + MemberResourceTransferResult \<times> 'o res_db" where
  "persistTransfer env c moved db =
     (case moved of (bucket, position, credit, availableDelta, allocatedDelta) \<Rightarrow>
      let now = rnv_now env 1;
          position = position\<lparr>pos_Version := add64 (pos_Version position) 1, pos_UpdatedAt := now\<rparr>;
          db = save_position position db;
          db = snd (update_bucket (mrt_OrganizationID c, mrt_ResourceType c) (\<lambda>_. True)
                 (\<lambda>b. b\<lparr>bkt_Available := bkt_Available bucket, bkt_Allocated := bkt_Allocated bucket,
                        bkt_UpdatedAt := now\<rparr>) db);
          result = \<lparr>mrz_Position = memberResourcePosition position,
                    mrz_Unallocated = bkt_Available bucket, mrz_Allocated = bkt_Allocated bucket,
                    mrz_GrossCredit = pca_gross credit, mrz_DebtRepaid = pca_debtRepaid credit,
                    mrz_NetCredit = pca_net credit, mrz_Replayed = False\<rparr>;
          payload = Marshal_TransferResult result;
          db = snd (update_operation (mrt_OrganizationID c, mrt_OperationID c) (\<lambda>_. True)
                 (\<lambda>o'. o'\<lparr>opr_State := ''succeeded'', opr_ImmutableResult := Some payload,
                         opr_CompletedAt := Some now\<rparr>) db)
      in and_then (insert_event
        (zero_event\<lparr>evt_EventID := rnv_uuid env 0, evt_OrganizationID := mrt_OrganizationID c,
           evt_OperationID := mrt_OperationID c, evt_ResourceType := mrt_ResourceType c,
           evt_Quantity := mrt_Quantity c, evt_AvailableDelta := availableDelta,
           evt_AllocatedDelta := allocatedDelta, evt_Reason := mrt_Action c,
           evt_SourceType := ''member_resource_position'', evt_SourceIdentity := mrt_MemberID c,
           evt_BalanceAfter := bkt_Available bucket, evt_AvailableAfter := bkt_Available bucket,
           evt_AllocatedAfter := bkt_Allocated bucket, evt_ReservedAfter := bkt_Reserved bucket,
           evt_ConsumedAfter := bkt_Consumed bucket, evt_GrossCredit := mrz_GrossCredit result,
           evt_DebtRepaid := mrz_DebtRepaid result, evt_NetCredit := mrz_NetCredit result,
           evt_CreatedAt := rnv_now env 2\<rparr>) db) (\<lambda>db.
      Inr (result, insert_audit
        \<lparr>adt_OrganizationID = mrt_OrganizationID c, adt_OperationID = mrt_OperationID c,
         adt_Action = mrt_Action c, adt_ActorID = mrt_ActorID c, adt_ApprovalEvidenceID = [],
         adt_Payload = payload, adt_CreatedAt = now\<rparr> db)))"

definition transferTx ::
  "digests \<Rightarrow> MemberResourceTransfer \<Rightarrow> res_env \<Rightarrow> 'o res_db \<Rightarrow>
   rerr + MemberResourceTransferResult \<times> 'o res_db" where
  "transferTx dg c env db =
     and_then (or_fail ErrInsufficientBalance
       (rdb_buckets db (mrt_OrganizationID c, mrt_ResourceType c))) (\<lambda>bucket.
     and_then (lockMemberResourcePosition (rnv_now env 0) (mrt_OrganizationID c) (mrt_MemberID c)
                 (mrt_ResourceType c) db) (\<lambda>(position, db).
     and_then (lockFixedResourceOperation (mrt_OrganizationID c) (mrt_OperationID c) (mrt_Action c)
                 (dg_json dg (Marshal_MemberResourceTransfer c)) db) (\<lambda>(op, db).
     if opr_State op = ''succeeded''
     then and_then (or_fail (OtherErr ''decode transfer receipt'')
            (Option.bind (opr_ImmutableResult op) Unmarshal_TransferResult))
          (\<lambda>r. Inr (r\<lparr>mrz_Replayed := True\<rparr>, db))
     else if opr_State op \<noteq> ''processing'' then Inl ErrIdempotencyKeyConflict
     else if pos_Version position \<noteq> mrt_ExpectedVersion c \<or> pos_Version position = max64
     then Inl ErrMemberResourceVersionConflict
     else and_then (if mrt_Action c = MemberResourceAllocate then allocate_member c bucket position db
                    else reclaim_member (rnv_now env 1) c bucket position db)
            (\<lambda>(moved, db). persistTransfer env c moved db))))"

definition Transfer ::
  "digests \<Rightarrow> TransactionConfig \<Rightarrow> bool \<Rightarrow> (nat \<Rightarrow> attempt) \<Rightarrow> MemberResourceTransfer \<Rightarrow> 'o res_db \<Rightarrow>
   'o res_db \<times> (rerr + MemberResourceTransferResult)" where
  "Transfer dg c sqlite envs t db =
     (if \<not> ValidMemberResourceTransfer t then (db, Inl ErrInvalidInput)
      else run_body c sqlite envs (transferTx dg t) db)"

definition TransferService ::
  "digests \<Rightarrow> (Principal \<Rightarrow> MemberResourceTransfer \<Rightarrow> rerr option) \<Rightarrow> TransactionConfig \<Rightarrow> bool \<Rightarrow>
   (nat \<Rightarrow> attempt) \<Rightarrow> Principal \<Rightarrow> MemberResourceTransfer \<Rightarrow> 'o res_db \<Rightarrow>
   'o res_db \<times> (rerr + MemberResourceTransferResult)" where
  "TransferService dg authorize c sqlite envs p t db =
     (if pcl_Kind p \<noteq> PrincipalTenantHuman \<or> pcl_ID p \<noteq> mrt_ActorID t \<or> \<not> ValidMemberResourceTransfer t
      then (db, Inl ErrInvalidInput)
      else case authorize p t of Some e \<Rightarrow> (db, Inl e) | None \<Rightarrow> Transfer dg c sqlite envs t db)"

definition ReadPosition ::
  "string \<Rightarrow> string \<Rightarrow> ResourceType \<Rightarrow> 'o res_db \<Rightarrow> rerr + MemberResourcePosition" where
  "ReadPosition org member rt db =
     (if \<not> ValidMemberResourcePositionIdentity org member rt then Inl ErrInvalidInput
      else Inr (memberResourcePosition
        (case find (\<lambda>p. position_key p = (org, member, rt)) (rdb_positions db) of
           Some row \<Rightarrow> row | None \<Rightarrow> fresh_position 0 org member rt)))"

definition ReadTransferReplay ::
  "digests \<Rightarrow> MemberResourceTransfer \<Rightarrow> 'o res_db \<Rightarrow> rerr + MemberResourceTransferResult option" where
  "ReadTransferReplay dg c db =
     (if \<not> ValidMemberResourceTransfer c then Inl ErrInvalidInput
      else case rdb_operations db (mrt_OrganizationID c, mrt_OperationID c) of
        None \<Rightarrow> Inr None
      | Some operation \<Rightarrow>
          if opr_OperationType operation \<noteq> mrt_Action c
             \<or> opr_RequestFingerprint operation \<noteq> dg_json dg (Marshal_MemberResourceTransfer c)
             \<or> opr_State operation \<noteq> ''succeeded''
          then Inl ErrIdempotencyKeyConflict
          else (case Option.bind (opr_ImmutableResult operation) Unmarshal_TransferResult of
                  None \<Rightarrow> Inl ErrBalanceUnavailable
                | Some r \<Rightarrow>
                    if mrp_OrganizationID (mrz_Position r) \<noteq> mrt_OrganizationID c
                       \<or> mrp_MemberID (mrz_Position r) \<noteq> mrt_MemberID c
                       \<or> mrp_ResourceType (mrz_Position r) \<noteq> mrt_ResourceType c
                    then Inl ErrBalanceUnavailable
                    else Inr (Some (r\<lparr>mrz_Replayed := True\<rparr>))))"

section \<open>Monthly limits\<close>

definition setMonthlyLimitTx ::
  "digests \<Rightarrow> SetMemberLimitExecution \<Rightarrow> res_env \<Rightarrow> 'o res_db \<Rightarrow>
   rerr + MemberLimitSnapshot \<times> 'o res_db" where
  "setMonthlyLimitTx dg i env db =
     and_then (lockFixedResourceOperation (mlx_OrganizationID i) (mlx_OperationID i)
                 ''set_member_ai_point_limit'' (dg_json dg (Marshal_SetMemberLimit i)) db) (\<lambda>(op, db).
     if opr_State op = ''succeeded''
     then and_then (or_fail (OtherErr ''decode limit receipt'')
            (Option.bind (opr_ImmutableResult op) Unmarshal_LimitSnapshot)) (\<lambda>r. Inr (r, db))
     else if opr_State op \<noteq> ''processing'' then Inl ErrIdempotencyKeyConflict
     else
       let now = rnv_now env 0; month = AIPointMonthStart now;
           lk = (mlx_OrganizationID i, mlx_MemberID i);
           config = (case rdb_limits db lk of
              Some l \<Rightarrow> l
            | None \<Rightarrow> \<lparr>lim_OrganizationID = mlx_OrganizationID i, lim_MemberID = mlx_MemberID i,
                       lim_MonthlyLimit = 0, lim_Version = 0, lim_UpdatedBy = mlx_ActorID i,
                       lim_UpdatedAt = now\<rparr>);
           db = db\<lparr>rdb_limits := (rdb_limits db)(lk \<mapsto> config)\<rparr> in
       if lim_Version config \<noteq> mlx_ExpectedVersion i \<or> lim_Version config = max64
       then Inl ErrMemberLimitVersionConflict
       else case lockMemberMonth (mlx_OrganizationID i) (mlx_MemberID i) month db of (counter, db) \<Rightarrow>
       if mon_Consumed counter > mlx_Target i
          \<or> mon_Reserved counter > sub64 (mlx_Target i) (mon_Consumed counter)
       then Inl ErrMemberLimitExceeded
       else
         let config = config\<lparr>lim_MonthlyLimit := mlx_Target i,
                             lim_Version := add64 (lim_Version config) 1,
                             lim_UpdatedBy := mlx_ActorID i, lim_UpdatedAt := now\<rparr>;
             db = db\<lparr>rdb_limits := (rdb_limits db)(lk \<mapsto> config)\<rparr>;
             result = limitSnapshot config counter;
             payload = Marshal_LimitSnapshot result;
             db = snd (update_operation (mlx_OrganizationID i, mlx_OperationID i) (\<lambda>_. True)
                    (\<lambda>o'. o'\<lparr>opr_State := ''succeeded'', opr_ImmutableResult := Some payload,
                            opr_CompletedAt := Some now\<rparr>) db)
         in Inr (result, insert_audit
              \<lparr>adt_OrganizationID = mlx_OrganizationID i, adt_OperationID = mlx_OperationID i,
               adt_Action = ''set_member_ai_point_limit'', adt_ActorID = mlx_ActorID i,
               adt_ApprovalEvidenceID = [], adt_Payload = payload, adt_CreatedAt = now\<rparr> db))"

definition SetMonthlyLimit ::
  "digests \<Rightarrow> TransactionConfig \<Rightarrow> bool \<Rightarrow> (nat \<Rightarrow> attempt) \<Rightarrow> SetMemberLimitExecution \<Rightarrow> 'o res_db \<Rightarrow>
   'o res_db \<times> (rerr + MemberLimitSnapshot)" where
  "SetMonthlyLimit dg c sqlite envs i db =
     (if \<not> ValidMemberLimitCommand i then (db, Inl ErrInvalidInput)
      else run_body c sqlite envs (setMonthlyLimitTx dg i) db)"

definition SetMonthlyLimitService ::
  "digests \<Rightarrow> (Principal \<Rightarrow> string \<Rightarrow> string \<Rightarrow> rerr option) \<Rightarrow> TransactionConfig \<Rightarrow> bool \<Rightarrow>
   (nat \<Rightarrow> attempt) \<Rightarrow> Principal \<Rightarrow> SetMemberLimitExecution \<Rightarrow> 'o res_db \<Rightarrow>
   'o res_db \<times> (rerr + MemberLimitSnapshot)" where
  "SetMonthlyLimitService dg authorize c sqlite envs p i db =
     (if mlx_ActorID i \<noteq> pcl_ID p \<or> pcl_Kind p \<noteq> PrincipalTenantHuman \<or> \<not> ValidMemberLimitCommand i
      then (db, Inl ErrInvalidInput)
      else case authorize p (mlx_OrganizationID i) (mlx_MemberID i) of
        Some e \<Rightarrow> (db, Inl e) | None \<Rightarrow> SetMonthlyLimit dg c sqlite envs i db)"

definition ReadMonthlyLimit ::
  "gotime \<Rightarrow> string \<Rightarrow> string \<Rightarrow> 'o res_db \<Rightarrow> rerr + MemberLimitSnapshot" where
  "ReadMonthlyLimit now org member db =
     (case rdb_limits db (org, member) of
        None \<Rightarrow> Inl ErrMemberLimitUnavailable
      | Some config \<Rightarrow>
          let month = AIPointMonthStart now in
          Inr (limitSnapshot config
            (case rdb_months db (org, member, month) of
               Some counter \<Rightarrow> counter
             | None \<Rightarrow> \<lparr>mon_OrganizationID = org, mon_MemberID = member, mon_MonthStart = month,
                        mon_Reserved = 0, mon_Consumed = 0\<rparr>)))"

section \<open>Reading balances\<close>

record Balance =
  bal_ResourceType :: ResourceType
  bal_Unit :: string
  bal_State :: string
  bal_Available :: "string option"
  bal_Allocated :: "string option"
  bal_Reserved :: "string option"
  bal_Consumed :: "string option"
  bal_Debt :: "string option"
  bal_UpdatedAt :: "gotime option"

definition resource_unit :: "ResourceType \<Rightarrow> string" where
  "resource_unit rt =
     (if rt = ResourceStoreRenewalPeriod then ''period'' else if rt = ResourceAIPoint then ''point''
      else ''row'')"

text \<open>One row of the joined query: the bucket and the debt of a resource type, either may be absent.\<close>

definition read_balance :: "string \<Rightarrow> ResourceType \<Rightarrow> 'o res_db \<Rightarrow> rerr + Balance" where
  "read_balance org rt db =
     (let absent = \<lparr>bal_ResourceType = rt, bal_Unit = resource_unit rt, bal_State = ''not_recorded'',
                    bal_Available = None, bal_Allocated = None, bal_Reserved = None,
                    bal_Consumed = None, bal_Debt = None, bal_UpdatedAt = None\<rparr> in
      case rdb_buckets db (org, rt) of
        None \<Rightarrow> if rdb_debts db (org, rt) \<noteq> None then Inl ErrBalanceUnavailable else Inr absent
      | Some b \<Rightarrow>
          if bkt_Allocated b < 0 \<or> rt = ResourceAIPoint \<and> bkt_Allocated b \<noteq> 0
          then Inl ErrBalanceUnavailable
          else if bkt_OrganizationID b \<noteq> org \<or> bkt_Available b < 0 \<or> bkt_Reserved b < 0
                  \<or> bkt_Consumed b < 0 \<or> IsZero (bkt_UpdatedAt b)
                  \<or> year_of_day (bkt_UpdatedAt b div day_ns) < 1
                  \<or> year_of_day (bkt_UpdatedAt b div day_ns) > 9999
          then Inl ErrBalanceUnavailable
          else and_then
            (case rdb_debts db (org, rt) of
               None \<Rightarrow> Inr 0
             | Some d \<Rightarrow>
                 if dbt_OrganizationID d \<noteq> org \<or> dbt_Amount d < 0 then Inl ErrBalanceUnavailable
                 else Inr (dbt_Amount d)) (\<lambda>debt.
            if debt > 0 \<and> bkt_Available b > 0 then Inl ErrBalanceUnavailable
            else Inr (absent\<lparr>bal_State := ''recorded'',
                   bal_Available := Some (FormatInt (bkt_Available b)),
                   bal_Allocated := Some (FormatInt (bkt_Allocated b)),
                   bal_Reserved := Some (FormatInt (bkt_Reserved b)),
                   bal_Consumed := Some (FormatInt (bkt_Consumed b)),
                   bal_Debt := Some (FormatInt debt),
                   bal_UpdatedAt := Some (bkt_UpdatedAt b)\<rparr>)))"

definition ReadBalances :: "string \<Rightarrow> 'o res_db \<Rightarrow> rerr + Balance list" where
  "ReadBalances org db =
     (if org = [] \<or> length org > 128 \<or> TrimSpace org \<noteq> org then Inl ErrInvalidInput
      else and_then (read_balance org ResourceStoreRenewalPeriod db) (\<lambda>a.
           and_then (read_balance org ResourceAIPoint db) (\<lambda>b.
           and_then (read_balance org ResourceDataRow db) (\<lambda>c. Inr [a, b, c]))))"

end
