(* ===== verification/Res_Charge.thy ===== *)
theory Res_Charge
  imports Res_Members
begin

text \<open>
  Charges of the registered consumers (\<open>consumer_charge_repository.go\<close>, \<open>consumer_charge.go\<close>): a
  quantity is reserved from the organization's balance or from a member's allocation, and settled
  by the consumer's proof of its effect; due charges are claimed and reconciled periodically.
  The consumers implement \<open>ConsumerChargeOwner\<close>; their two reads are parameters.
\<close>

abbreviation consumerChargeProtocol :: string where
  "consumerChargeProtocol \<equiv> ''consumer_charge_v1''"

definition chargeOperationKey :: "digests \<Rightarrow> string \<Rightarrow> ConsumerChargeIdentity \<Rightarrow> string" where
  "chargeOperationKey dg prefix identity = prefix @ dg_json dg (Marshal_ChargeIdentity identity)"

definition chargeFingerprint :: "digests \<Rightarrow> ConsumerChargeIntent \<Rightarrow> string" where
  "chargeFingerprint dg intent = dg_json dg (Marshal_ChargeIntent intent)"

definition readConsumerReservation ::
  "ConsumerChargeIdentity \<Rightarrow> 'o res_db \<Rightarrow> rerr + organizationResourceReservationRow" where
  "readConsumerReservation i db =
     or_fail ErrRecordNotFound
       (find (\<lambda>r. rsv_OrganizationID r = cci_OrganizationID i \<and> rsv_OwnerType r = cci_Consumer i
                  \<and> rsv_OwnerAttemptID r = cci_OperationID i
                  \<and> rsv_ChargeProtocol r = consumerChargeProtocol) (rdb_reservations db))"

definition consumerChargeReceipt :: "organizationResourceReservationRow \<Rightarrow> ConsumerChargeReceipt" where
  "consumerChargeReceipt row =
     \<lparr>ccr_Intent =
        \<lparr>ccn_Identity = \<lparr>cci_OrganizationID = rsv_OrganizationID row,
                         cci_Consumer = rsv_OwnerType row,
                         cci_OperationID = rsv_OwnerAttemptID row\<rparr>,
         ccn_ActorID = rsv_ChargeActorID row, ccn_MemberID = rsv_MemberID row,
         ccn_Funding = rsv_ChargeFunding row, ccn_ResourceType = rsv_ResourceType row,
         ccn_Quantity = rsv_Quantity row, ccn_Fingerprint = rsv_RequestFingerprint row,
         ccn_BusinessScope = rsv_BusinessScope row\<rparr>,
      ccr_ReservationID = rsv_ReservationID row, ccr_State = rsv_State row,
      ccr_OwnerEvidenceID = rsv_ChargeEvidenceID row, ccr_CreatedAt = rsv_CreatedAt row,
      ccr_BalanceAfter = rsv_ChargeBalanceAfter row\<rparr>"

definition updateConsumerBucket ::
  "organizationResourceBucketRow \<Rightarrow> gotime \<Rightarrow> 'o res_db \<Rightarrow> rerr + 'o res_db" where
  "updateConsumerBucket bucket now db =
     (case update_bucket (bkt_OrganizationID bucket, bkt_ResourceType bucket) (\<lambda>_. True)
        (\<lambda>b. b\<lparr>bkt_Available := bkt_Available bucket, bkt_Allocated := bkt_Allocated bucket,
               bkt_Reserved := bkt_Reserved bucket, bkt_Consumed := bkt_Consumed bucket,
               bkt_UpdatedAt := now\<rparr>) db of (rows, db1) \<Rightarrow>
      if rows \<noteq> 1 then Inl ErrConcurrencyRetry else Inr db1)"

definition completeChargeOperation ::
  "organizationResourceOperationRow \<Rightarrow> ConsumerChargeReceipt \<Rightarrow> gotime \<Rightarrow> 'o res_db \<Rightarrow> rerr + 'o res_db" where
  "completeChargeOperation op receipt now db =
     (case update_operation (opr_OrganizationID op, opr_OperationID op)
        (\<lambda>o'. opr_State o' = ''processing'')
        (\<lambda>o'. o'\<lparr>opr_State := ''succeeded'',
                opr_ImmutableResult := Some (Marshal_ChargeReceipt receipt),
                opr_ApprovalEvidenceID := ccr_OwnerEvidenceID receipt,
                opr_CompletedAt := Some now\<rparr>) db of (rows, db1) \<Rightarrow>
      if rows \<noteq> 1 then Inl ErrConcurrencyRetry else Inr db1)"

definition createConsumerEvent ::
  "string \<Rightarrow> organizationResourceReservationRow \<Rightarrow> organizationResourceBucketRow \<Rightarrow> string \<Rightarrow> string \<Rightarrow>
   i64 \<times> i64 \<times> i64 \<times> i64 \<Rightarrow> positiveCreditAllocation \<Rightarrow> gotime \<Rightarrow> 'o res_db \<Rightarrow> rerr + 'o res_db" where
  "createConsumerEvent eventID row bucket operationID reason deltas credit now db =
     (case deltas of (availableDelta, allocatedDelta, reservedDelta, consumedDelta) \<Rightarrow>
      and_then (insert_event
        (zero_event\<lparr>evt_EventID := eventID, evt_OrganizationID := rsv_OrganizationID row,
           evt_OperationID := operationID, evt_ReservationID := Some (rsv_ReservationID row),
           evt_ResourceType := rsv_ResourceType row, evt_Quantity := rsv_Quantity row,
           evt_AvailableDelta := availableDelta, evt_AllocatedDelta := allocatedDelta,
           evt_ReservedDelta := reservedDelta, evt_ConsumedDelta := consumedDelta,
           evt_Reason := reason, evt_SourceType := rsv_OwnerType row,
           evt_SourceIdentity := rsv_OwnerAttemptID row, evt_BalanceAfter := bkt_Available bucket,
           evt_AvailableAfter := bkt_Available bucket, evt_AllocatedAfter := bkt_Allocated bucket,
           evt_ReservedAfter := bkt_Reserved bucket, evt_ConsumedAfter := bkt_Consumed bucket,
           evt_GrossCredit := pca_gross credit, evt_DebtRepaid := pca_debtRepaid credit,
           evt_NetCredit := pca_net credit, evt_CreatedAt := now\<rparr>) db) (\<lambda>db1.
      Inr (insert_audit
        \<lparr>adt_OrganizationID = rsv_OrganizationID row, adt_OperationID = operationID,
         adt_Action = reason, adt_ActorID = rsv_ChargeActorID row, adt_ApprovalEvidenceID = [],
         adt_Payload = Marshal_ChargeReceipt (consumerChargeReceipt row),
         adt_CreatedAt = now\<rparr> db1)))"

section \<open>Reserving a charge\<close>

text \<open>A member-funded charge locks the member's position; another charge has none.\<close>

definition lock_funding ::
  "gotime \<Rightarrow> ConsumerChargeIntent \<Rightarrow> 'o res_db \<Rightarrow> rerr + memberResourcePositionRow option \<times> 'o res_db" where
  "lock_funding now i db =
     (if ccn_Funding i = FundingMember
      then and_then (lockMemberResourcePosition now (cci_OrganizationID (ccn_Identity i))
                       (ccn_MemberID i) (ccn_ResourceType i) db) (\<lambda>(p, db1). Inr (Some p, db1))
      else Inr (None, db))"

text \<open>The bucket and the position after the reservation, and the deltas of its event.\<close>

definition charge_reserve ::
  "gotime \<Rightarrow> ConsumerChargeIntent \<Rightarrow> organizationResourceBucketRow \<Rightarrow> memberResourcePositionRow option \<Rightarrow>
   rerr + organizationResourceBucketRow \<times> memberResourcePositionRow option \<times> i64 \<times> i64" where
  "charge_reserve now i bucket position =
     (case position of
        Some p \<Rightarrow>
          if pos_Free p < ccn_Quantity i then Inl ErrInsufficientBalance
          else if bkt_Allocated bucket < ccn_Quantity i
          then Inl (OtherErr ''member free balance exceeds allocated bucket'')
          else if pos_Reserved p > sub64 max64 (ccn_Quantity i) \<or> pos_Version p = max64
          then Inl ErrInvalidInput
          else Inr (bucket\<lparr>bkt_Allocated := sub64 (bkt_Allocated bucket) (ccn_Quantity i),
                           bkt_Reserved := add64 (bkt_Reserved bucket) (ccn_Quantity i)\<rparr>,
                    Some (p\<lparr>pos_Free := sub64 (pos_Free p) (ccn_Quantity i),
                            pos_Reserved := add64 (pos_Reserved p) (ccn_Quantity i),
                            pos_Version := add64 (pos_Version p) 1, pos_UpdatedAt := now\<rparr>),
                    0, neg64 (ccn_Quantity i))
      | None \<Rightarrow>
          if bkt_Available bucket < ccn_Quantity i then Inl ErrInsufficientBalance
          else Inr (bucket\<lparr>bkt_Available := sub64 (bkt_Available bucket) (ccn_Quantity i),
                           bkt_Reserved := add64 (bkt_Reserved bucket) (ccn_Quantity i)\<rparr>,
                    None, neg64 (ccn_Quantity i), 0))"

definition save_funding :: "memberResourcePositionRow option \<Rightarrow> 'o res_db \<Rightarrow> 'o res_db" where
  "save_funding position db = (case position of None \<Rightarrow> db | Some p \<Rightarrow> save_position p db)"

definition charge_balance :: "organizationResourceBucketRow \<Rightarrow> memberResourcePositionRow option \<Rightarrow> i64" where
  "charge_balance bucket position = (case position of None \<Rightarrow> bkt_Available bucket | Some p \<Rightarrow> pos_Free p)"

definition charge_row ::
  "ConsumerChargeIntent \<Rightarrow> string \<Rightarrow> string \<Rightarrow> gotime \<Rightarrow> i64 \<Rightarrow> organizationResourceReservationRow" where
  "charge_row i reservationID operationID now balance =
     zero_reservation\<lparr>rsv_ChargeProtocol := consumerChargeProtocol,
       rsv_ChargeActorID := ccn_ActorID i, rsv_ChargeFunding := ccn_Funding i,
       rsv_NextCheckAt := Some now, rsv_OrganizationID := cci_OrganizationID (ccn_Identity i),
       rsv_ReservationID := reservationID, rsv_OperationID := operationID,
       rsv_OwnerType := cci_Consumer (ccn_Identity i),
       rsv_OwnerAttemptID := cci_OperationID (ccn_Identity i),
       rsv_BusinessScope := ccn_BusinessScope i, rsv_ResourceType := ccn_ResourceType i,
       rsv_ReservationPurpose := consumerChargeProtocol, rsv_Quantity := ccn_Quantity i,
       rsv_State := ReservationReserved, rsv_RequestFingerprint := ccn_Fingerprint i,
       rsv_MemberID := ccn_MemberID i, rsv_CreatedAt := now,
       rsv_ChargeBalanceAfter := balance\<rparr>"

definition chargeReserveTx ::
  "digests \<Rightarrow> res_env \<Rightarrow> ConsumerChargeIntent \<Rightarrow> 'o res_db \<Rightarrow>
   rerr + ConsumerChargeReceipt \<times> 'o res_db" where
  "chargeReserveTx dg env i db =
     (let org = cci_OrganizationID (ccn_Identity i) in
      and_then (or_fail ErrInsufficientBalance (rdb_buckets db (org, ccn_ResourceType i))) (\<lambda>bucket.
      and_then (lock_funding (rnv_now env 0) i db) (\<lambda>(position, db).
      and_then (lockFixedResourceOperation org (chargeOperationKey dg ''consumer-reserve:'' (ccn_Identity i))
                  ''reserve_consumer_resource'' (chargeFingerprint dg i) db) (\<lambda>(op, db).
      if opr_State op = ''succeeded''
      then and_then (readConsumerReservation (ccn_Identity i) db) (\<lambda>row.
           if ccr_Intent (consumerChargeReceipt row) \<noteq> i then Inl ErrIdempotencyKeyConflict
           else Inr (consumerChargeReceipt row, db))
      else if opr_State op \<noteq> ''processing'' then Inl ErrIdempotencyKeyConflict
      else if read_debt org (ccn_ResourceType i) db > 0 then Inl ErrResourceDebtOutstanding
      else if bkt_Reserved bucket > sub64 max64 (ccn_Quantity i) then Inl ErrInvalidInput
      else let now = rnv_now env 1 in
      and_then (charge_reserve now i bucket position) (\<lambda>(bucket, position, availableDelta, allocatedDelta).
      let db = save_funding position db;
          row = charge_row i (rnv_uuid env 0) (opr_OperationID op) now (charge_balance bucket position)
      in and_then (insert_reservation row db) (\<lambda>db.
      and_then (updateConsumerBucket bucket now db) (\<lambda>db.
      and_then (completeChargeOperation op (consumerChargeReceipt row) now db) (\<lambda>db.
      and_then (createConsumerEvent (rnv_uuid env 1) row bucket (opr_OperationID op) ''reserve''
                  (availableDelta, allocatedDelta, ccn_Quantity i, 0) no_credit now db) (\<lambda>db.
      Inr (consumerChargeReceipt row, db))))))))))"

definition ReadCharge ::
  "TransactionConfig \<Rightarrow> bool \<Rightarrow> (nat \<Rightarrow> attempt) \<Rightarrow> ConsumerChargeIdentity \<Rightarrow> 'o res_db \<Rightarrow>
   rerr + ConsumerChargeReceipt" where
  "ReadCharge c sqlite envs i db =
     (if \<not> ValidConsumerChargeIdentity i then Inl ErrInvalidInput
      else runRead c sqlite envs
        (\<lambda>d. case readConsumerReservation i d of
               Inl e \<Rightarrow> Inl (if e = ErrRecordNotFound then ErrReservationNotFound else e)
             | Inr row \<Rightarrow> Inr (consumerChargeReceipt row)) db)"

definition ReserveCharge ::
  "digests \<Rightarrow> TransactionConfig \<Rightarrow> bool \<Rightarrow> exec_env \<Rightarrow> ConsumerChargeIntent \<Rightarrow> 'o res_db \<Rightarrow>
   'o res_db \<times> (rerr + ConsumerChargeReceipt)" where
  "ReserveCharge dg c sqlite ev i db =
     (if \<not> ValidConsumerChargeIntent i then (db, Inl ErrInvalidInput)
      else case run_body c sqlite (xev_attempts ev) (\<lambda>env. chargeReserveTx dg env i) db of
        (db1, Inr r) \<Rightarrow> (db1, Inr r)
      | (db1, Inl e) \<Rightarrow>
          (case ReadCharge c sqlite (xev_after ev) (ccn_Identity i) db1 of
             Inr r \<Rightarrow> if ccr_Intent r = i then (db1, Inr r) else (db1, Inl e)
           | Inl _ \<Rightarrow> (db1, Inl e)))"

section \<open>Settling a charge\<close>

text \<open>
  The effect of the proof on the bucket: a success consumes the quantity, a failure returns it to
  the side it came from, debt first. The result is the bucket, the credit, the deltas of
  available, allocated and consumed, and the new state of the reservation.
\<close>

definition charge_outcome ::
  "gotime \<Rightarrow> ConsumerChargeIntent \<Rightarrow> string \<Rightarrow> organizationResourceBucketRow \<Rightarrow> 'o res_db \<Rightarrow>
   rerr + (organizationResourceBucketRow \<times> positiveCreditAllocation \<times> i64 \<times> i64 \<times> i64 \<times> string)
          \<times> 'o res_db" where
  "charge_outcome now i effect bucket0 db =
     (let bucket = bucket0\<lparr>bkt_Reserved := sub64 (bkt_Reserved bucket0) (ccn_Quantity i)\<rparr> in
      if effect = ConsumerEffectSucceeded
      then if bkt_Consumed bucket > sub64 max64 (ccn_Quantity i) then Inl ErrInvalidInput
           else Inr ((bucket\<lparr>bkt_Consumed := add64 (bkt_Consumed bucket) (ccn_Quantity i)\<rparr>,
                      no_credit, 0, 0, ccn_Quantity i, ReservationCommitted), db)
      else and_then (applyPositiveCredit (cci_OrganizationID (ccn_Identity i)) (ccn_ResourceType i)
                       (ccn_Quantity i)
                       (if ccn_Funding i = FundingMember then bkt_Allocated bucket
                        else bkt_Available bucket) now db) (\<lambda>(credit, db1).
           if ccn_Funding i = FundingMember
           then Inr ((bucket\<lparr>bkt_Allocated := pca_availableAfter credit\<rparr>, credit, 0,
                      pca_net credit, 0, ReservationReleased), db1)
           else Inr ((bucket\<lparr>bkt_Available := pca_availableAfter credit\<rparr>, credit,
                      pca_net credit, 0, 0, ReservationReleased), db1)))"

definition settle_position ::
  "gotime \<Rightarrow> ConsumerChargeIntent \<Rightarrow> string \<Rightarrow> positiveCreditAllocation \<Rightarrow>
   memberResourcePositionRow option \<Rightarrow> rerr + memberResourcePositionRow option" where
  "settle_position now i effect credit position =
     (case position of
        None \<Rightarrow> Inr None
      | Some p \<Rightarrow>
          if pos_Reserved p < ccn_Quantity i \<or> pos_Version p = max64
          then Inl (OtherErr ''member reserved balance is inconsistent'')
          else
            let p = p\<lparr>pos_Reserved := sub64 (pos_Reserved p) (ccn_Quantity i),
                      pos_Version := add64 (pos_Version p) 1, pos_UpdatedAt := now\<rparr> in
            if effect = ConsumerEffectSucceeded
            then if pos_Consumed p > sub64 max64 (ccn_Quantity i) then Inl ErrInvalidInput
                 else Inr (Some (p\<lparr>pos_Consumed := add64 (pos_Consumed p) (ccn_Quantity i)\<rparr>))
            else if pos_Free p > sub64 max64 (pca_net credit) then Inl ErrInvalidInput
            else Inr (Some (p\<lparr>pos_Free := add64 (pos_Free p) (pca_net credit)\<rparr>)))"

definition settled_row ::
  "organizationResourceReservationRow \<Rightarrow> string \<Rightarrow> string \<Rightarrow> i64 \<Rightarrow> gotime \<Rightarrow> string \<Rightarrow>
   organizationResourceReservationRow" where
  "settled_row row state evidence balance now operationID =
     row\<lparr>rsv_State := state, rsv_ChargeEvidenceID := evidence, rsv_ChargeBalanceAfter := balance,
         rsv_SettledAt := Some now, rsv_SettlementOperationID := Some operationID,
         rsv_NextCheckAt := None\<rparr>"

definition chargeSettleTx ::
  "digests \<Rightarrow> res_env \<Rightarrow> ConsumerChargeReceipt \<times> ConsumerChargeProof \<Rightarrow> 'o res_db \<Rightarrow>
   rerr + ConsumerChargeReceipt \<times> 'o res_db" where
  "chargeSettleTx dg env rp db =
     (case rp of (original, proof) \<Rightarrow>
      let i = ccr_Intent original; org = cci_OrganizationID (ccn_Identity i) in
      and_then (or_fail ErrRecordNotFound (rdb_buckets db (org, ccn_ResourceType i))) (\<lambda>bucket.
      and_then (lock_funding (rnv_now env 0) i db) (\<lambda>(position, db).
      and_then (lockFixedResourceOperation org (chargeOperationKey dg ''consumer-settle:'' (ccn_Identity i))
                  ''settle_consumer_resource'' (chargeFingerprint dg i) db) (\<lambda>(op, db).
      and_then (readConsumerReservation (ccn_Identity i) db) (\<lambda>row.
      let receipt = consumerChargeReceipt row in
      if ccr_Intent receipt \<noteq> i \<or> ccr_ReservationID receipt \<noteq> ccr_ReservationID original
      then Inl ErrIdempotencyKeyConflict
      else if opr_State op = ''succeeded'' then Inr (receipt, db)
      else if ccr_State receipt \<noteq> ReservationReserved then Inl ErrIdempotencyKeyConflict
      else if bkt_Reserved bucket < ccn_Quantity i
      then Inl (OtherErr ''consumer reserved balance is inconsistent'')
      else let now = rnv_now env 1 in
      and_then (charge_outcome now i (ccp_State proof) bucket db)
        (\<lambda>((bucket, credit, availableDelta, allocatedDelta, consumedDelta, state), db).
      and_then (settle_position now i (ccp_State proof) credit position) (\<lambda>position.
      let db = save_funding position db;
          row = settled_row row state (ccp_EvidenceID proof) (charge_balance bucket position) now (opr_OperationID op);
          db = db\<lparr>rdb_reservations :=
                 update_rows (\<lambda>r. reservation_id r = reservation_id row) (\<lambda>_. row) (rdb_reservations db)\<rparr>
      in and_then (updateConsumerBucket bucket now db) (\<lambda>db.
      and_then (completeChargeOperation op (consumerChargeReceipt row) now db) (\<lambda>db.
      and_then (createConsumerEvent (rnv_uuid env 0) row bucket (opr_OperationID op) state
                  (availableDelta, allocatedDelta, neg64 (ccn_Quantity i), consumedDelta) credit now db)
        (\<lambda>db. Inr (consumerChargeReceipt row, db)))))))))))"

definition SettleCharge ::
  "digests \<Rightarrow> TransactionConfig \<Rightarrow> bool \<Rightarrow> exec_env \<Rightarrow> ConsumerChargeReceipt \<Rightarrow> ConsumerChargeProof \<Rightarrow>
   'o res_db \<Rightarrow> 'o res_db \<times> (rerr + ConsumerChargeReceipt)" where
  "SettleCharge dg c sqlite ev original proof db =
     (if \<not> ValidConsumerChargeIntent (ccr_Intent original) \<or> ccp_Intent proof \<noteq> ccr_Intent original
         \<or> ccp_ReservationID proof \<noteq> ccr_ReservationID original
      then (db, Inl ErrIdempotencyKeyConflict)
      else if ccp_State proof \<noteq> ConsumerEffectSucceeded \<and> ccp_State proof \<noteq> ConsumerEffectFailed
              \<or> ccp_EvidenceID proof = [] \<or> length (ccp_EvidenceID proof) > 256
      then (db, Inl ErrConsumerChargeUnknown)
      else case run_body c sqlite (xev_attempts ev) (\<lambda>env. chargeSettleTx dg env (original, proof)) db of
        (db1, Inr r) \<Rightarrow> (db1, Inr r)
      | (db1, Inl e) \<Rightarrow>
          (case ReadCharge c sqlite (xev_after ev) (ccn_Identity (ccr_Intent original)) db1 of
             Inr r \<Rightarrow>
               if ccr_Intent r = ccr_Intent original \<and> ccr_ReservationID r = ccr_ReservationID original
                  \<and> (ccr_State r = ReservationCommitted \<or> ccr_State r = ReservationReleased)
               then (db1, Inr r) else (db1, Inl e)
           | Inl _ \<Rightarrow> (db1, Inl e)))"

section \<open>Claiming due charges\<close>

text \<open>
  The due rows in the order \<open>next_check_at, created_at, reservation_id\<close>, at most 25, as the
  database returns them: insertion sort by that key. SQL compares reservation ids as strings.
\<close>

fun string_less :: "string \<Rightarrow> string \<Rightarrow> bool" where
  "string_less _ [] = False"
| "string_less [] (_ # _) = True"
| "string_less (a # s) (b # t) =
     ((of_char a :: nat) < of_char b \<or> a = b \<and> string_less s t)"

definition due_before ::
  "organizationResourceReservationRow \<Rightarrow> organizationResourceReservationRow \<Rightarrow> bool" where
  "due_before a b \<longleftrightarrow>
     (case (rsv_NextCheckAt a, rsv_NextCheckAt b) of
        (Some s, Some t) \<Rightarrow>
          s < t \<or> s = t \<and> (rsv_CreatedAt a < rsv_CreatedAt b
            \<or> rsv_CreatedAt a = rsv_CreatedAt b \<and> string_less (rsv_ReservationID a) (rsv_ReservationID b))
      | _ \<Rightarrow> False)"

fun insert_due ::
  "organizationResourceReservationRow \<Rightarrow> organizationResourceReservationRow list \<Rightarrow>
   organizationResourceReservationRow list" where
  "insert_due r [] = [r]"
| "insert_due r (x # xs) = (if due_before x r then x # insert_due r xs else r # x # xs)"

definition due_rows ::
  "string list \<Rightarrow> gotime \<Rightarrow> 'o res_db \<Rightarrow> organizationResourceReservationRow list" where
  "due_rows consumers now db =
     take 25 (foldr insert_due
       (filter (\<lambda>r. rsv_ChargeProtocol r = consumerChargeProtocol \<and> rsv_OwnerType r \<in> set consumers
                    \<and> rsv_State r = ReservationReserved
                    \<and> (case rsv_NextCheckAt r of None \<Rightarrow> False | Some t \<Rightarrow> t \<le> now))
          (rdb_reservations db)) [])"

fun claim_rows ::
  "gotime \<Rightarrow> organizationResourceReservationRow list \<Rightarrow> 'o res_db \<Rightarrow>
   rerr + ConsumerChargeIdentity list \<times> 'o res_db" where
  "claim_rows due [] db = Inr ([], db)"
| "claim_rows due (row # rows) db =
     (let hit = (\<lambda>r. reservation_id r = reservation_id row \<and> rsv_State r = ReservationReserved);
          db1 = db\<lparr>rdb_reservations :=
                 update_rows hit (\<lambda>r. r\<lparr>rsv_NextCheckAt := Some due\<rparr>) (rdb_reservations db)\<rparr>
      in if length (filter hit (rdb_reservations db)) \<noteq> 1 then Inl ErrConcurrencyRetry
         else and_then (claim_rows due rows db1) (\<lambda>(ids, db2).
              Inr (ccn_Identity (ccr_Intent (consumerChargeReceipt row)) # ids, db2)))"

definition claimDueTx ::
  "string list \<Rightarrow> res_env \<Rightarrow> 'o res_db \<Rightarrow> rerr + ConsumerChargeIdentity list \<times> 'o res_db" where
  "claimDueTx consumers env db =
     (let now = rnv_now env 0 in
      claim_rows (now + 30 * 1000000000) (due_rows consumers now db) db)"

definition ClaimDue ::
  "TransactionConfig \<Rightarrow> bool \<Rightarrow> (nat \<Rightarrow> attempt) \<Rightarrow> string list \<Rightarrow> 'o res_db \<Rightarrow>
   'o res_db \<times> (rerr + ConsumerChargeIdentity list)" where
  "ClaimDue c sqlite envs consumers db =
     (if length consumers < 1 \<or> length consumers > 3 then (db, Inl ErrInvalidInput)
      else if \<not> list_all validResourceConsumer consumers
      then (db, Inl ErrReservationOwnerNotRegistered)
      else run_body c sqlite envs (claimDueTx consumers) db)"

section \<open>The charge service\<close>

record ConsumerChargeOwner =
  cco_ReadChargeIntent :: "ConsumerChargeIdentity \<Rightarrow> rerr + ConsumerChargeIntent"
  cco_ReadChargeProof :: "ConsumerChargeReceipt \<Rightarrow> rerr + ConsumerChargeProof"

type_synonym charge_owners = "string \<Rightarrow> ConsumerChargeOwner option"

definition ReserveConsumerCharge ::
  "digests \<Rightarrow> charge_owners \<Rightarrow> TransactionConfig \<Rightarrow> bool \<Rightarrow> exec_env \<Rightarrow> ConsumerChargeIdentity \<Rightarrow>
   'o res_db \<Rightarrow> 'o res_db \<times> (rerr + ConsumerChargeReceipt)" where
  "ReserveConsumerCharge dg owners c sqlite ev identity db =
     (if \<not> ValidConsumerChargeIdentity identity then (db, Inl ErrInvalidInput)
      else case owners (cci_Consumer identity) of
        None \<Rightarrow> (db, Inl ErrReservationOwnerNotRegistered)
      | Some own \<Rightarrow>
          (case cco_ReadChargeIntent own identity of
             Inl e \<Rightarrow> (db, Inl e)
           | Inr i \<Rightarrow>
               if ccn_Identity i \<noteq> identity \<or> \<not> ValidConsumerChargeIntent i
               then (db, Inl ErrOwnerScopeMismatch)
               else ReserveCharge dg c sqlite ev i db))"

definition Lookup ::
  "charge_owners \<Rightarrow> TransactionConfig \<Rightarrow> bool \<Rightarrow> exec_env \<Rightarrow> ConsumerChargeIdentity \<Rightarrow> 'o res_db \<Rightarrow>
   rerr + ConsumerChargeReceipt" where
  "Lookup owners c sqlite ev identity db =
     (if \<not> ValidConsumerChargeIdentity identity then Inl ErrInvalidInput
      else if owners (cci_Consumer identity) = None then Inl ErrReservationOwnerNotRegistered
      else and_then (ReadCharge c sqlite (xev_before ev) identity db) (\<lambda>r.
           if ccn_Identity (ccr_Intent r) \<noteq> identity \<or> \<not> ValidConsumerChargeIntent (ccr_Intent r)
           then Inl ErrOwnerScopeMismatch else Inr r))"

definition Reconcile ::
  "digests \<Rightarrow> charge_owners \<Rightarrow> TransactionConfig \<Rightarrow> bool \<Rightarrow> exec_env \<Rightarrow> ConsumerChargeIdentity \<Rightarrow>
   'o res_db \<Rightarrow> 'o res_db \<times> (rerr + ConsumerChargeReceipt)" where
  "Reconcile dg owners c sqlite ev identity db =
     (if \<not> ValidConsumerChargeIdentity identity then (db, Inl ErrInvalidInput)
      else case owners (cci_Consumer identity) of
        None \<Rightarrow> (db, Inl ErrReservationOwnerNotRegistered)
      | Some own \<Rightarrow>
          (case ReadCharge c sqlite (xev_before ev) identity db of
             Inl e \<Rightarrow> (db, Inl e)
           | Inr receipt \<Rightarrow>
               if ccn_Identity (ccr_Intent receipt) \<noteq> identity
                  \<or> \<not> ValidConsumerChargeIntent (ccr_Intent receipt)
               then (db, Inl ErrOwnerScopeMismatch)
               else if ccr_State receipt = ReservationCommitted
                       \<or> ccr_State receipt = ReservationReleased
               then (db, Inr receipt)
               else (case cco_ReadChargeProof own receipt of
                       Inl e \<Rightarrow> (db, Inl e)
                     | Inr proof \<Rightarrow>
                         if ccp_Intent proof \<noteq> ccr_Intent receipt
                            \<or> ccp_ReservationID proof \<noteq> ccr_ReservationID receipt
                         then (db, Inl ErrIdempotencyKeyConflict)
                         else if ccp_State proof \<noteq> ConsumerEffectSucceeded
                                 \<and> ccp_State proof \<noteq> ConsumerEffectFailed
                                 \<or> \<not> validChargeEvidence (ccp_EvidenceID proof)
                         then (db, Inl ErrConsumerChargeUnknown)
                         else SettleCharge dg c sqlite ev receipt proof db)))"

text \<open>
  One recovery pass: claim what is due, then reconcile each claimed charge; the result counts the
  charges that are settled and collects the failures other than unknown effects. The call ends
  early when its context is done, which \<open>ctx_done\<close> says for each charge.
\<close>

fun reconcile_all ::
  "digests \<Rightarrow> charge_owners \<Rightarrow> TransactionConfig \<Rightarrow> bool \<Rightarrow> (nat \<Rightarrow> exec_env) \<Rightarrow> (nat \<Rightarrow> rerr option) \<Rightarrow>
   nat \<Rightarrow> ConsumerChargeIdentity list \<Rightarrow> 'o res_db \<Rightarrow> 'o res_db \<times> nat \<times> rerr list" where
  "reconcile_all dg owners c sqlite evs ctx_done n [] db = (db, 0, [])"
| "reconcile_all dg owners c sqlite evs ctx_done n (i # is) db =
     (case ctx_done n of
        Some e \<Rightarrow> (db, 0, [e])
      | None \<Rightarrow>
          (case Reconcile dg owners c sqlite (evs n) i db of
             (db1, Inr r) \<Rightarrow>
               (case reconcile_all dg owners c sqlite evs ctx_done (Suc n) is db1 of
                  (db2, settled, failures) \<Rightarrow>
                    (db2, (if ccr_State r = ReservationCommitted \<or> ccr_State r = ReservationReleased
                           then Suc settled else settled), failures))
           | (db1, Inl e) \<Rightarrow>
               (case reconcile_all dg owners c sqlite evs ctx_done (Suc n) is db1 of
                  (db2, settled, failures) \<Rightarrow>
                    (db2, settled, if e = ErrConsumerChargeUnknown then failures else e # failures))))"

definition RecoverDue ::
  "digests \<Rightarrow> charge_owners \<Rightarrow> string list \<Rightarrow> TransactionConfig \<Rightarrow> bool \<Rightarrow> (nat \<Rightarrow> attempt) \<Rightarrow>
   (nat \<Rightarrow> exec_env) \<Rightarrow> (nat \<Rightarrow> rerr option) \<Rightarrow> 'o res_db \<Rightarrow> 'o res_db \<times> (rerr + nat \<times> rerr list)" where
  "RecoverDue dg owners registered c sqlite envs evs ctx_done db =
     (case ClaimDue c sqlite envs registered db of
        (db1, Inl e) \<Rightarrow> (db1, Inl e)
      | (db1, Inr ids) \<Rightarrow>
          (case reconcile_all dg owners c sqlite evs ctx_done 0 ids db1 of
             (db2, settled, failures) \<Rightarrow> (db2, Inr (settled, failures))))"

end
