(* ===== verification/Res_Laws.thy ===== *)
theory Res_Laws
  imports Res_Charge
begin

text \<open>
  The invariant of the resource tables and the effect of the shared statements on it. A posting
  (\<open>moves\<close>) is the common shape of every operation that changes a balance: one event, one bucket,
  the debt of the same key; each operation's effect lemma reduces it to postings.
\<close>

text \<open>Keys are pairs; facts about all keys stay facts about keys.\<close>

declare split_paired_All [simp del]

section \<open>Balances\<close>

datatype res_side = Available | Allocated | Reserved | Consumed

fun bucket_side :: "organizationResourceBucketRow \<Rightarrow> res_side \<Rightarrow> int" where
  "bucket_side b Available = bkt_Available b"
| "bucket_side b Allocated = bkt_Allocated b"
| "bucket_side b Reserved = bkt_Reserved b"
| "bucket_side b Consumed = bkt_Consumed b"

fun event_delta :: "organizationResourceEventRow \<Rightarrow> res_side \<Rightarrow> int" where
  "event_delta e Available = evt_AvailableDelta e"
| "event_delta e Allocated = evt_AllocatedDelta e"
| "event_delta e Reserved = evt_ReservedDelta e"
| "event_delta e Consumed = evt_ConsumedDelta e"

fun event_after :: "organizationResourceEventRow \<Rightarrow> res_side \<Rightarrow> int" where
  "event_after e Available = evt_AvailableAfter e"
| "event_after e Allocated = evt_AllocatedAfter e"
| "event_after e Reserved = evt_ReservedAfter e"
| "event_after e Consumed = evt_ConsumedAfter e"

definition event_key :: "organizationResourceEventRow \<Rightarrow> res_key" where
  "event_key e = (evt_OrganizationID e, evt_ResourceType e)"

definition bucket_key :: "organizationResourceBucketRow \<Rightarrow> res_key" where
  "bucket_key b = (bkt_OrganizationID b, bkt_ResourceType b)"

definition reservation_key :: "organizationResourceReservationRow \<Rightarrow> res_key" where
  "reservation_key r = (rsv_OrganizationID r, rsv_ResourceType r)"

definition res_balance :: "'o res_db \<Rightarrow> res_key \<Rightarrow> res_side \<Rightarrow> int" where
  "res_balance db k d = (case rdb_buckets db k of None \<Rightarrow> 0 | Some b \<Rightarrow> bucket_side b d)"

definition debt_of :: "'o res_db \<Rightarrow> res_key \<Rightarrow> int" where
  "debt_of db k = read_debt (fst k) (snd k) db"

lemma debt_of_alt: "debt_of db k = (case rdb_debts db k of None \<Rightarrow> 0 | Some d \<Rightarrow> dbt_Amount d)"
  by (simp add: debt_of_def read_debt_def)

text \<open>The CHECK constraints of a bucket, with the range of its columns.\<close>

definition bucket_ok :: "res_key \<Rightarrow> organizationResourceBucketRow \<Rightarrow> bool" where
  "bucket_ok k b \<longleftrightarrow> bucket_key b = k \<and> (\<forall>d. 0 \<le> bucket_side b d \<and> in64 (bucket_side b d))
     \<and> (snd k = ResourceAIPoint \<longrightarrow> bkt_Allocated b = 0)"

definition open_reservation :: "organizationResourceReservationRow \<Rightarrow> bool" where
  "open_reservation r \<longleftrightarrow> rsv_State r = ReservationReserved \<or> rsv_State r = ReservationReconciliationRequired"

definition reserved_sum :: "'o res_db \<Rightarrow> res_key \<Rightarrow> int" where
  "reserved_sum db k =
     sum_rows (\<lambda>r. open_reservation r \<and> reservation_key r = k) rsv_Quantity (rdb_reservations db)"

definition ledger_ok :: "'o res_db \<Rightarrow> bool" where
  "ledger_ok db \<longleftrightarrow>
     (\<forall>k b. rdb_buckets db k = Some b \<longrightarrow> bucket_ok k b)
     \<and> (\<forall>k d. rdb_debts db k = Some d \<longrightarrow>
          (dbt_OrganizationID d, dbt_ResourceType d) = k \<and> 0 \<le> dbt_Amount d \<and> in64 (dbt_Amount d)
          \<and> rdb_buckets db k \<noteq> None)
     \<and> (\<forall>k. debt_of db k > 0 \<longrightarrow> res_balance db k Available = 0)
     \<and> distinct (map reservation_id (rdb_reservations db))
     \<and> (\<forall>r\<in>set (rdb_reservations db). 0 < rsv_Quantity r \<and> in64 (rsv_Quantity r))
     \<and> (\<forall>k. res_balance db k Reserved = reserved_sum db k)"

lemma ledger_okD:
  assumes "ledger_ok db"
  shows "rdb_buckets db k = Some b \<Longrightarrow> bucket_ok k b"
    and "rdb_debts db k = Some d \<Longrightarrow> (dbt_OrganizationID d, dbt_ResourceType d) = k"
    and "rdb_debts db k = Some d \<Longrightarrow> rdb_buckets db k \<noteq> None"
    and "0 \<le> debt_of db k" "in64 (debt_of db k)"
    and "debt_of db k > 0 \<Longrightarrow> res_balance db k Available = 0"
    and "distinct (map reservation_id (rdb_reservations db))"
    and "r \<in> set (rdb_reservations db) \<Longrightarrow> 0 < rsv_Quantity r"
    and "r \<in> set (rdb_reservations db) \<Longrightarrow> in64 (rsv_Quantity r)"
    and "res_balance db k Reserved = reserved_sum db k"
  using assms by (auto simp: ledger_ok_def debt_of_alt split: option.splits)

lemma bucket_okD:
  assumes "bucket_ok k b"
  shows "0 \<le> bkt_Available b" "in64 (bkt_Available b)" "0 \<le> bkt_Allocated b" "in64 (bkt_Allocated b)"
    "0 \<le> bkt_Reserved b" "in64 (bkt_Reserved b)" "0 \<le> bkt_Consumed b" "in64 (bkt_Consumed b)"
    "bkt_OrganizationID b = fst k" "bkt_ResourceType b = snd k"
    "snd k = ResourceAIPoint \<Longrightarrow> bkt_Allocated b = 0"
proof -
  have sides: "0 \<le> bucket_side b d \<and> in64 (bucket_side b d)" for d
    using assms by (simp add: bucket_ok_def)
  show "0 \<le> bkt_Available b" "in64 (bkt_Available b)" using sides [of Available] by simp_all
  show "0 \<le> bkt_Allocated b" "in64 (bkt_Allocated b)" using sides [of Allocated] by simp_all
  show "0 \<le> bkt_Reserved b" "in64 (bkt_Reserved b)" using sides [of Reserved] by simp_all
  show "0 \<le> bkt_Consumed b" "in64 (bkt_Consumed b)" using sides [of Consumed] by simp_all
  show "bkt_OrganizationID b = fst k" "bkt_ResourceType b = snd k"
    "snd k = ResourceAIPoint \<Longrightarrow> bkt_Allocated b = 0"
    using assms by (auto simp: bucket_ok_def bucket_key_def)
qed

lemma bucket_okI:
  assumes "bkt_OrganizationID b = fst k" "bkt_ResourceType b = snd k"
    "0 \<le> bkt_Available b" "bkt_Available b \<le> max64" "0 \<le> bkt_Allocated b" "bkt_Allocated b \<le> max64"
    "0 \<le> bkt_Reserved b" "bkt_Reserved b \<le> max64" "0 \<le> bkt_Consumed b" "bkt_Consumed b \<le> max64"
    "snd k = ResourceAIPoint \<Longrightarrow> bkt_Allocated b = 0"
  shows "bucket_ok k b"
proof -
  have "0 \<le> bucket_side b d \<and> in64 (bucket_side b d)" for d
    using assms by (cases d) (auto simp: in64_nonneg)
  with assms show ?thesis by (simp add: bucket_ok_def bucket_key_def)
qed

section \<open>Crediting\<close>

text \<open>The other overflow guard: a sum of non-negative values that is not below its first part fits.\<close>

lemma add64_no_wrap:
  assumes "0 \<le> a" "in64 a" "0 \<le> b" "in64 b" "\<not> add64 a b < a"
  shows "add64 a b = a + b" "a + b \<le> max64"
proof -
  show "a + b \<le> max64"
  proof (rule ccontr)
    assume big: "\<not> a + b \<le> max64"
    have "add64 a b = a + b - 18446744073709551616"
      unfolding add64_def wrap64_def using assms(1-4) big
      by (subst mod_pos_geq) (auto simp: in64_unfold)
    with assms(4,5) show False by (simp add: in64_unfold)
  qed
  with assms show "add64 a b = a + b" by (intro add64_guarded) auto
qed

lemma applyPositiveCredit_Inr:
  assumes "applyPositiveCredit org rt gross before now db = Inr (credit, db1)"
    and "ledger_ok db" and gross: "0 \<le> gross" "in64 gross" and before: "0 \<le> before" "in64 before"
  obtains d where "db1 = db\<lparr>rdb_debts := (rdb_debts db)((org, rt) \<mapsto> d)\<rparr>"
    "dbt_OrganizationID d = org" "dbt_ResourceType d = rt"
    "dbt_Amount d = debt_of db (org, rt) - pca_debtRepaid credit"
    "pca_gross credit = gross" "pca_debtRepaid credit = min (debt_of db (org, rt)) gross"
    "pca_net credit = gross - pca_debtRepaid credit"
    "pca_availableAfter credit = before + pca_net credit" "pca_availableAfter credit \<le> max64"
    "0 \<le> pca_debtRepaid credit" "0 \<le> pca_net credit"
proof -
  note I = ledger_okD [OF assms(2)]
  let ?d0 = "locked_debt now org rt db"
  have amount: "dbt_Amount ?d0 = debt_of db (org, rt)"
    by (simp add: locked_debt_def debt_of_alt split: option.splits)
  have key: "dbt_OrganizationID ?d0 = org" "dbt_ResourceType ?d0 = rt"
    using I(2) [of "(org, rt)"] by (auto simp: locked_debt_def split: option.splits)
  let ?repaid = "min (debt_of db (org, rt)) gross"
  have repaid: "0 \<le> ?repaid" "?repaid \<le> gross" "in64 ?repaid" "?repaid \<le> debt_of db (org, rt)"
    using I(4,5) [of "(org, rt)"] gross by (auto simp: min_def)
  have net: "sub64 gross ?repaid = gross - ?repaid"
    using repaid gross by (intro sub64_nonneg) auto
  have nn: "0 \<le> gross - ?repaid" "in64 (gross - ?repaid)"
    using repaid gross by (auto simp: in64_unfold)
  have rest: "sub64 (debt_of db (org, rt)) ?repaid = debt_of db (org, rt) - ?repaid"
    using repaid I(4,5) [of "(org, rt)"] by (intro sub64_nonneg) auto
  note sum = add64_no_wrap [OF before nn]
  show thesis
    by (rule that [of "?d0\<lparr>dbt_Amount := debt_of db (org, rt) - ?repaid, dbt_UpdatedAt := now\<rparr>"])
       (use assms(1) repaid nn sum in
         \<open>auto simp: applyPositiveCredit_def Let_def amount key net rest ok_simps\<close>)
qed

section \<open>Postings\<close>

text \<open>The receipts of an event: the sum of its deltas and its repaid debt is what it minted.\<close>

definition event_sum :: "organizationResourceEventRow \<Rightarrow> int" where
  "event_sum e = evt_AvailableDelta e + evt_AllocatedDelta e + evt_ReservedDelta e
     + evt_ConsumedDelta e + evt_DebtRepaid e"

definition grant_event :: "organizationResourceEventRow \<Rightarrow> bool" where
  "grant_event e \<longleftrightarrow> evt_SourceType e = SourceOnboardingWelcomeStorePeriod
     \<or> evt_SourceType e = SourceCommercialOrderItem \<or> evt_SourceType e = SourceLocalAITrial"

definition moves :: "organizationResourceEventRow \<Rightarrow> 'o res_db \<Rightarrow> 'o res_db \<Rightarrow> bool" where
  "moves e db db' \<longleftrightarrow>
     rdb_events db' = rdb_events db @ [e]
     \<and> (\<exists>b. rdb_buckets db' = (rdb_buckets db)(event_key e \<mapsto> b) \<and> bucket_ok (event_key e) b
          \<and> (\<forall>d. bucket_side b d = res_balance db (event_key e) d + event_delta e d)
          \<and> evt_AvailableAfter e = bkt_Available b \<and> evt_ReservedAfter e = bkt_Reserved b
          \<and> evt_ConsumedAfter e = bkt_Consumed b \<and> evt_BalanceAfter e = bkt_Available b)
     \<and> (rdb_debts db' = rdb_debts db \<and> evt_DebtRepaid e = 0
        \<or> (\<exists>d. rdb_debts db' = (rdb_debts db)(event_key e \<mapsto> d)
             \<and> (dbt_OrganizationID d, dbt_ResourceType d) = event_key e
             \<and> dbt_Amount d = debt_of db (event_key e) - evt_DebtRepaid e))
     \<and> 0 \<le> evt_DebtRepaid e \<and> evt_DebtRepaid e \<le> debt_of db (event_key e)
     \<and> (debt_of db (event_key e) > evt_DebtRepaid e \<longrightarrow> evt_AvailableDelta e \<le> 0)
     \<and> 0 < evt_Quantity e
     \<and> event_sum e = (if grant_event e then evt_Quantity e else 0)
     \<and> (grant_event e \<longrightarrow> evt_AvailableDelta e = evt_Quantity e - evt_DebtRepaid e)"

lemma moves_balance:
  assumes "moves e db db'"
  shows "res_balance db' k d = res_balance db k d + (if k = event_key e then event_delta e d else 0)"
  using assms by (auto simp: moves_def res_balance_def)

lemma moves_debt:
  assumes "moves e db db'"
  shows "debt_of db' k = debt_of db k - (if k = event_key e then evt_DebtRepaid e else 0)"
  using assms by (auto simp: moves_def debt_of_alt)

lemma movesD:
  assumes "moves e db db'"
  shows "rdb_events db' = rdb_events db @ [e]" "0 < evt_Quantity e"
    "event_sum e = (if grant_event e then evt_Quantity e else 0)"
    "0 \<le> evt_DebtRepaid e" "evt_DebtRepaid e \<le> debt_of db (event_key e)"
    "debt_of db (event_key e) > evt_DebtRepaid e \<Longrightarrow> evt_AvailableDelta e \<le> 0"
    "\<exists>b. rdb_buckets db' (event_key e) = Some b \<and> bucket_ok (event_key e) b"
  using assms by (auto simp: moves_def)

lemma moves_ledger_ok:
  assumes m: "moves e db db'" and ok: "ledger_ok db"
    and "distinct (map reservation_id (rdb_reservations db'))"
    and "\<And>r. r \<in> set (rdb_reservations db') \<Longrightarrow> 0 < rsv_Quantity r \<and> in64 (rsv_Quantity r)"
    and res: "\<And>k. reserved_sum db' k = reserved_sum db k + (if k = event_key e then evt_ReservedDelta e else 0)"
  shows "ledger_ok db'"
  unfolding ledger_ok_def
proof (intro conjI allI impI ballI)
  note I = ledger_okD [OF ok]
  show "distinct (map reservation_id (rdb_reservations db'))" by (rule assms(3))
  fix k
  show "bucket_ok k b" if "rdb_buckets db' k = Some b" for b
    using m that I(1) [of k b] by (auto simp: moves_def split: if_splits)
  show "res_balance db' k Reserved = reserved_sum db' k"
    using moves_balance [OF m, of k Reserved] res [of k] I(10) [of k] by simp
  show "res_balance db' k Available = 0" if "0 < debt_of db' k"
  proof -
    have left: "res_balance db k Available = 0"
      using that moves_debt [OF m, of k] I(6) [of k] m by (auto simp: moves_def split: if_splits)
    show ?thesis
    proof (cases "k = event_key e")
      case True
      have "evt_AvailableDelta e \<le> 0" using that m moves_debt [OF m, of k] True by (simp add: moves_def)
      moreover have "0 \<le> res_balance db' k Available"
        using movesD(7) [OF m] True by (auto simp: res_balance_def dest: bucket_okD)
      ultimately show ?thesis using moves_balance [OF m, of k Available] left True by simp
    next
      case False
      then show ?thesis using moves_balance [OF m, of k Available] left by simp
    qed
  qed
  fix d assume d: "rdb_debts db' k = Some d"
  show "(dbt_OrganizationID d, dbt_ResourceType d) = k"
    using m d I(2) [of k d] by (auto simp: moves_def split: if_splits)
  have "debt_of db' k = dbt_Amount d" using d by (simp add: debt_of_alt)
  then show "0 \<le> dbt_Amount d" "in64 (dbt_Amount d)"
    using moves_debt [OF m, of k] I(4,5) [of k] m by (auto simp: moves_def in64_unfold split: if_splits)
  show "rdb_buckets db' k \<noteq> None"
    using m d I(3) [of k d] by (auto simp: moves_def split: if_splits)
next
  fix r assume "r \<in> set (rdb_reservations db')"
  with assms(4) show "0 < rsv_Quantity r" "in64 (rsv_Quantity r)" by blast+
qed

lemma moves_grant_ledger_ok:
  assumes "moves e db db'" "ledger_ok db" "rdb_reservations db' = rdb_reservations db"
    "evt_ReservedDelta e = 0"
  shows "ledger_ok db'"
  by (rule moves_ledger_ok [OF assms(1,2)])
     (use ledger_okD(7-9) [OF assms(2)] assms(3,4) in \<open>auto simp: reserved_sum_def\<close>)

text \<open>The posting of a grant: the quantity is credited to the available balance, debt first.\<close>

lemma credit_moves:
  assumes ok: "ledger_ok db" and k: "event_key e = (org, rt)" "validResourceType rt"
    and q: "0 < q" "in64 q"
    and bucket: "rdb_buckets (ensure_bucket t0 org rt db) (org, rt) = Some b"
    and credit: "applyPositiveCredit org rt q (bkt_Available b) now (ensure_bucket t0 org rt db) = Inr (credit, db2)"
    and db': "rdb_buckets db' = (rdb_buckets db2)((org, rt) \<mapsto>
        b\<lparr>bkt_Available := pca_availableAfter credit, bkt_UpdatedAt := t1\<rparr>)"
      "rdb_debts db' = rdb_debts db2" "rdb_events db' = rdb_events db2 @ [e]"
    and e: "evt_Quantity e = q" "evt_AvailableDelta e = pca_net credit" "evt_AllocatedDelta e = 0"
      "evt_ReservedDelta e = 0" "evt_ConsumedDelta e = 0" "evt_DebtRepaid e = pca_debtRepaid credit"
      "evt_AvailableAfter e = pca_availableAfter credit" "evt_BalanceAfter e = pca_availableAfter credit"
      "evt_ReservedAfter e = bkt_Reserved b" "evt_ConsumedAfter e = bkt_Consumed b" "grant_event e"
  shows "moves e db db'"
proof -
  let ?db1 = "ensure_bucket t0 org rt db"
  note I = ledger_okD [OF ok]
  have b: "bucket_ok (org, rt) b"
  proof (cases "rdb_buckets db (org, rt)")
    case None
    then have "b = \<lparr>bkt_OrganizationID = org, bkt_ResourceType = rt, bkt_Available = 0, bkt_Allocated = 0,
        bkt_Reserved = 0, bkt_Consumed = 0, bkt_UpdatedAt = t0\<rparr>"
      using bucket by (simp add: ensure_bucket_def)
    then show ?thesis by (intro bucket_okI) (simp_all add: max64_def)
  next
    case (Some b')
    with bucket I(1) [of "(org, rt)"] show ?thesis by (auto simp: ensure_bucket_def)
  qed
  have bal: "bucket_side b d = res_balance db (org, rt) d" for d
    using bucket by (cases d) (auto simp: ensure_bucket_def res_balance_def split: option.splits)
  have debts1: "rdb_debts ?db1 = rdb_debts db" "rdb_events ?db1 = rdb_events db"
    "rdb_reservations ?db1 = rdb_reservations db"
    by (auto simp: ensure_bucket_def split: option.splits)
  have bal1: "res_balance ?db1 k' d = res_balance db k' d" for k' d
    using bucket by (cases d) (auto simp: ensure_bucket_def res_balance_def split: option.splits)
  have "ledger_ok ?db1"
    unfolding ledger_ok_def
    using ok b bucket bal1
    by (auto simp: debt_of_alt debts1 reserved_sum_def ledger_ok_def)
       (auto simp: ensure_bucket_def split: option.splits if_splits)
  from applyPositiveCredit_Inr [OF credit this less_imp_le [OF q(1)] q(2) bucket_okD(1,2) [OF b]]
  obtain d where d: "db2 = ?db1\<lparr>rdb_debts := (rdb_debts ?db1)((org, rt) \<mapsto> d)\<rparr>"
    "dbt_OrganizationID d = org" "dbt_ResourceType d = rt"
    "dbt_Amount d = debt_of ?db1 (org, rt) - pca_debtRepaid credit"
    "pca_gross credit = q" "pca_debtRepaid credit = min (debt_of ?db1 (org, rt)) q"
    "pca_net credit = q - pca_debtRepaid credit"
    "pca_availableAfter credit = bkt_Available b + pca_net credit" "pca_availableAfter credit \<le> max64"
    "0 \<le> pca_debtRepaid credit" "0 \<le> pca_net credit" by blast
  have debt1: "debt_of ?db1 (org, rt) = debt_of db (org, rt)" by (simp add: debt_of_alt debts1)
  let ?b = "b\<lparr>bkt_Available := pca_availableAfter credit, bkt_UpdatedAt := t1\<rparr>"
  have buckets: "rdb_buckets db' = (rdb_buckets db)((org, rt) \<mapsto> ?b)"
    using db'(1) d(1) by (auto simp: ensure_bucket_def split: option.splits)
  have ok': "bucket_ok (org, rt) ?b"
    using b d(8,9,11) bucket_okD [OF b] by (intro bucket_okI) (auto simp: in64_unfold)
  have sides: "bucket_side ?b s = res_balance db (org, rt) s + event_delta e s" for s
    using bal [of s] e(2-5) d(8) by (cases s) auto
  have debts: "rdb_debts db' = (rdb_debts db)((org, rt) \<mapsto> d)"
    using db'(2) d(1) debts1(1) by simp
  show ?thesis
    unfolding moves_def k(1)
  proof (intro conjI exI [where x = ?b])
    show "rdb_events db' = rdb_events db @ [e]" using db'(3) d(1) debts1(2) by simp
    show "rdb_debts db' = rdb_debts db \<and> evt_DebtRepaid e = 0 \<or>
      (\<exists>d. rdb_debts db' = (rdb_debts db)((org, rt) \<mapsto> d) \<and>
         (dbt_OrganizationID d, dbt_ResourceType d) = (org, rt) \<and>
         dbt_Amount d = debt_of db (org, rt) - evt_DebtRepaid e)"
      using debts d(2-4) debt1 e(6) by auto
  qed (use buckets ok' sides e d(5-11) debt1 q in \<open>auto simp: event_sum_def min_def\<close>)
qed

end
