(* ===== verification/Res_Effects.thy ===== *)
theory Res_Effects
  imports Res_Laws
begin

text \<open>
  What each committed transaction of the resource ledger does to the tables: a repeated command
  changes nothing, and any other command is one posting with its reservation, its member position
  or its source claim.
\<close>

section \<open>Statements\<close>

lemma insert_operation_Inr [ok_simps]:
  "insert_operation row db = Inr db' \<longleftrightarrow>
     rdb_operations db (opr_OrganizationID row, opr_OperationID row) = None
     \<and> db' = db\<lparr>rdb_operations := (rdb_operations db)((opr_OrganizationID row, opr_OperationID row) \<mapsto> row)\<rparr>"
  by (auto simp: insert_operation_def Let_def)

lemma insert_claim_Inr [ok_simps]:
  "insert_claim row db = Inr db' \<longleftrightarrow>
     rdb_claims db (clm_SourceType row, clm_SourceIdentity row) = None
     \<and> db' = db\<lparr>rdb_claims := (rdb_claims db)((clm_SourceType row, clm_SourceIdentity row) \<mapsto> row)\<rparr>"
  by (auto simp: insert_claim_def Let_def)

lemma insert_event_Inr [ok_simps]:
  "insert_event row db = Inr db' \<longleftrightarrow>
     (\<forall>x\<in>set (rdb_events db). \<not> event_clash row x) \<and> db' = db\<lparr>rdb_events := rdb_events db @ [row]\<rparr>"
  by (auto simp: insert_event_def ok_simps row_simps)

lemma insert_reservation_Inr [ok_simps]:
  "insert_reservation row db = Inr db' \<longleftrightarrow>
     (\<forall>x\<in>set (rdb_reservations db). \<not> reservation_row_clash row x)
     \<and> db' = db\<lparr>rdb_reservations := rdb_reservations db @ [row]\<rparr>"
  by (auto simp: insert_reservation_def ok_simps row_simps)

lemma ensure_bucket_same [simp]:
  "rdb_claims (ensure_bucket t org rt db) = rdb_claims db"
  "rdb_operations (ensure_bucket t org rt db) = rdb_operations db"
  "rdb_debts (ensure_bucket t org rt db) = rdb_debts db"
  "rdb_events (ensure_bucket t org rt db) = rdb_events db"
  "rdb_reservations (ensure_bucket t org rt db) = rdb_reservations db"
  "rdb_positions (ensure_bucket t org rt db) = rdb_positions db"
  "rdb_limits (ensure_bucket t org rt db) = rdb_limits db"
  "rdb_months (ensure_bucket t org rt db) = rdb_months db"
  "rdb_owner (ensure_bucket t org rt db) = rdb_owner db"
  by (simp_all add: ensure_bucket_def split: option.splits)

lemma applyPositiveCredit_db:
  assumes "applyPositiveCredit org rt gross before now db = Inr (credit, db1)"
  obtains d where "db1 = db\<lparr>rdb_debts := (rdb_debts db)((org, rt) \<mapsto> d)\<rparr>"
  using assms by (auto simp: applyPositiveCredit_def Let_def ok_simps)

section \<open>Grants\<close>

text \<open>What a new grant leaves behind, whichever of the three it is.\<close>

definition granted ::
  "organizationResourceEventRow \<Rightarrow> organizationResourceSourceClaimRow \<Rightarrow> 'o res_db \<Rightarrow> 'o res_db \<Rightarrow> bool" where
  "granted e claim db db' \<longleftrightarrow>
     moves e db db' \<and> grant_event e
     \<and> evt_AllocatedDelta e = 0 \<and> evt_ReservedDelta e = 0 \<and> evt_ConsumedDelta e = 0
     \<and> (clm_SourceType claim, clm_SourceIdentity claim) = (evt_SourceType e, evt_SourceIdentity e)
     \<and> clm_OrganizationID claim = evt_OrganizationID e \<and> clm_OperationID claim = evt_OperationID e
     \<and> clm_ResourceType claim = evt_ResourceType e
     \<and> rdb_claims db (evt_SourceType e, evt_SourceIdentity e) = None
     \<and> rdb_claims db' = (rdb_claims db)((evt_SourceType e, evt_SourceIdentity e) \<mapsto> claim)
     \<and> rdb_reservations db' = rdb_reservations db \<and> rdb_positions db' = rdb_positions db
     \<and> rdb_months db' = rdb_months db \<and> rdb_limits db' = rdb_limits db"

lemma lookup_ensure [simp]:
  "lookupOperation org oper fp (ensure_bucket t o' rt db) = lookupOperation org oper fp db"
  "lookupSource x (ensure_bucket t o' rt db) = lookupSource x db"
  "replayPurchasedGrantOnce y (ensure_bucket t o' rt db) = replayPurchasedGrantOnce y db"
  "replayTrialAIGrantOnce z (ensure_bucket t o' rt db) = replayTrialAIGrantOnce z db"
  by (simp_all add: lookupOperation_def lookupSource_def replayPurchasedGrantOnce_def
      purchasedGrantResultFromOperation_def replayTrialAIGrantOnce_def cong: option.case_cong if_cong)

lemma welcomeGrantTx_effect:
  assumes run: "welcomeGrantTx x env db = Inr (r, db')" and ok: "ledger_ok db"
    and x: "0 < wgx_Quantity x" "in64 (wgx_Quantity x)" "validResourceType (wgx_ResourceType x)"
      "wgx_SourceType x = SourceOnboardingWelcomeStorePeriod"
  obtains (replay) "db' = db" "wgz_Replayed r"
  | (grant) e claim where "granted e claim db db'" "evt_Quantity e = wgx_Quantity x"
      "event_key e = (wgx_OrganizationID x, wgx_ResourceType x)"
      "evt_SourceType e = wgx_SourceType x" "evt_SourceIdentity e = wgx_SourceIdentity x"
      "evt_OperationID e = wgx_OperationID x" "\<not> wgz_Replayed r"
proof (cases "lookupOperation (wgx_OrganizationID x) (wgx_OperationID x) (wgx_RequestFingerprint x) db = Inr None
    \<and> lookupSource (welcome_replay x) db = Inr None")
  case False
  then have "db' = db \<and> wgz_Replayed r"
    using run by (auto simp: welcomeGrantTx_def ok_simps Let_def)
       (auto simp: lookupOperation_def lookupSource_def resultFromOperation_def ok_simps split: option.splits if_splits)
  then show ?thesis using replay by simp
next
  case True
  let ?org = "wgx_OrganizationID x" and ?rt = "wgx_ResourceType x"
  let ?db1 = "ensure_bucket (rnv_now env 0) ?org ?rt db"
  obtain b credit db2 snapshot db3 where s: "rdb_buckets ?db1 (?org, ?rt) = Some b"
    "applyPositiveCredit ?org ?rt (wgx_Quantity x) (bkt_Available b) (rnv_now env 2) ?db1 = Inr (credit, db2)"
    "persistWelcomeGrant env x b credit snapshot db2 = Inr db'"
    "r = \<lparr>wgz_Snapshot = snapshot, wgz_Replayed = False\<rparr>"
    using run True by (auto simp: welcomeGrantTx_def ok_simps Let_def)
  obtain d where db2: "db2 = ?db1\<lparr>rdb_debts := (rdb_debts ?db1)((?org, ?rt) \<mapsto> d)\<rparr>"
    using applyPositiveCredit_db [OF s(2)] by blast
  obtain e claim where p: "rdb_buckets db' = (rdb_buckets db2)((?org, ?rt) \<mapsto>
      b\<lparr>bkt_Available := pca_availableAfter credit, bkt_UpdatedAt := rnv_now env 2\<rparr>)"
    "rdb_debts db' = rdb_debts db2" "rdb_events db' = rdb_events db2 @ [e]"
    "rdb_reservations db' = rdb_reservations db2" "rdb_positions db' = rdb_positions db2"
    "rdb_months db' = rdb_months db2" "rdb_limits db' = rdb_limits db2"
    "rdb_claims db2 (wgx_SourceType x, wgx_SourceIdentity x) = None"
    "rdb_claims db' = (rdb_claims db2)((wgx_SourceType x, wgx_SourceIdentity x) \<mapsto> claim)"
    and c: "clm_SourceType claim = wgx_SourceType x" "clm_SourceIdentity claim = wgx_SourceIdentity x"
    "clm_OrganizationID claim = ?org" "clm_OperationID claim = wgx_OperationID x" "clm_ResourceType claim = ?rt"
    and e: "evt_Quantity e = wgx_Quantity x" "evt_AvailableDelta e = pca_net credit" "evt_AllocatedDelta e = 0"
      "evt_ReservedDelta e = 0" "evt_ConsumedDelta e = 0" "evt_DebtRepaid e = pca_debtRepaid credit"
      "evt_AvailableAfter e = pca_availableAfter credit" "evt_BalanceAfter e = pca_availableAfter credit"
      "evt_ReservedAfter e = bkt_Reserved b" "evt_ConsumedAfter e = bkt_Consumed b"
      "evt_SourceType e = wgx_SourceType x" "evt_SourceIdentity e = wgx_SourceIdentity x"
      "evt_OrganizationID e = ?org" "evt_ResourceType e = ?rt" "evt_OperationID e = wgx_OperationID x"
    using s(3) s(1) db2
    by (auto simp: persistWelcomeGrant_def Let_def ok_simps update_bucket_def insert_audit_def zero_rows)
  have g: "grant_event e" using e(11) x(4) by (simp add: grant_event_def)
  have k: "event_key e = (?org, ?rt)" using e by (simp add: event_key_def)
  have "moves e db db'"
    by (rule credit_moves [OF ok k x(3) x(1,2) s(1,2) p(1-3) e(1-10) g])
  then have "granted e claim db db'"
    using g c e p db2 by (simp add: granted_def)
  then show ?thesis using grant e k s(4) by simp
qed

lemma purchasedGrantTx_effect:
  assumes run: "purchasedGrantTx x env db = Inr (r, db')" and ok: "ledger_ok db"
    and x: "0 < pgx_Quantity x" "in64 (pgx_Quantity x)" "validResourceType (pgx_ResourceType x)"
      "pgx_SourceType x = SourceCommercialOrderItem"
  obtains (replay) "db' = db" "pgz_Replayed r"
  | (grant) e claim where "granted e claim db db'" "evt_Quantity e = pgx_Quantity x"
      "event_key e = (pgx_OrganizationID x, pgx_ResourceType x)"
      "evt_SourceType e = pgx_SourceType x" "evt_SourceIdentity e = pgx_SourceIdentity x"
      "evt_OperationID e = pgx_OperationID x" "\<not> pgz_Replayed r"
proof (cases "replayPurchasedGrantOnce (purchased_replay x) db = Inr None")
  case False
  then have "db' = db \<and> pgz_Replayed r"
    using run by (auto simp: purchasedGrantTx_def ok_simps Let_def)
       (auto simp: replayPurchasedGrantOnce_def purchasedGrantResultFromOperation_def ok_simps split: option.splits if_splits)
  then show ?thesis using replay by simp
next
  case True
  let ?org = "pgx_OrganizationID x" and ?rt = "pgx_ResourceType x"
  let ?db1 = "ensure_bucket (rnv_now env 0) ?org ?rt db"
  obtain b credit db2 snapshot where s: "rdb_buckets ?db1 (?org, ?rt) = Some b"
    "applyPositiveCredit ?org ?rt (pgx_Quantity x) (bkt_Available b) (rnv_now env 2) ?db1 = Inr (credit, db2)"
    "persistPurchasedGrant env x b credit snapshot db2 = Inr db'"
    "r = \<lparr>pgz_Snapshot = snapshot, pgz_Replayed = False\<rparr>"
    using run True by (auto simp: purchasedGrantTx_def ok_simps Let_def)
  obtain d where db2: "db2 = ?db1\<lparr>rdb_debts := (rdb_debts ?db1)((?org, ?rt) \<mapsto> d)\<rparr>"
    using applyPositiveCredit_db [OF s(2)] by blast
  obtain e claim where p: "rdb_buckets db' = (rdb_buckets db2)((?org, ?rt) \<mapsto>
      b\<lparr>bkt_Available := pca_availableAfter credit, bkt_UpdatedAt := rnv_now env 3\<rparr>)"
    "rdb_debts db' = rdb_debts db2" "rdb_events db' = rdb_events db2 @ [e]"
    "rdb_reservations db' = rdb_reservations db2" "rdb_positions db' = rdb_positions db2"
    "rdb_months db' = rdb_months db2" "rdb_limits db' = rdb_limits db2"
    "rdb_claims db2 (pgx_SourceType x, pgx_SourceIdentity x) = None"
    "rdb_claims db' = (rdb_claims db2)((pgx_SourceType x, pgx_SourceIdentity x) \<mapsto> claim)"
    and c: "clm_SourceType claim = pgx_SourceType x" "clm_SourceIdentity claim = pgx_SourceIdentity x"
    "clm_OrganizationID claim = ?org" "clm_OperationID claim = pgx_OperationID x" "clm_ResourceType claim = ?rt"
    and e: "evt_Quantity e = pgx_Quantity x" "evt_AvailableDelta e = pca_net credit" "evt_AllocatedDelta e = 0"
      "evt_ReservedDelta e = 0" "evt_ConsumedDelta e = 0" "evt_DebtRepaid e = pca_debtRepaid credit"
      "evt_AvailableAfter e = pca_availableAfter credit" "evt_BalanceAfter e = pca_availableAfter credit"
      "evt_ReservedAfter e = bkt_Reserved b" "evt_ConsumedAfter e = bkt_Consumed b"
      "evt_SourceType e = pgx_SourceType x" "evt_SourceIdentity e = pgx_SourceIdentity x"
      "evt_OrganizationID e = ?org" "evt_ResourceType e = ?rt" "evt_OperationID e = pgx_OperationID x"
    using s(3) s(1) db2
    by (auto simp: persistPurchasedGrant_def Let_def ok_simps update_bucket_def insert_audit_def zero_rows)
  have g: "grant_event e" using e(11) x(4) by (simp add: grant_event_def)
  have k: "event_key e = (?org, ?rt)" using e by (simp add: event_key_def)
  have "moves e db db'"
    by (rule credit_moves [OF ok k x(3) x(1,2) s(1,2) p(1-3) e(1-10) g])
  then have "granted e claim db db'"
    using g c e p db2 by (simp add: granted_def)
  then show ?thesis using grant e k s(4) by simp
qed

lemma executeTrialAIGrantTransaction_effect:
  assumes run: "executeTrialAIGrantTransaction x env db = Inr (r, db')" and ok: "ledger_ok db"
  obtains (replay) "db' = db" "tgz_Replayed r"
  | (grant) e claim where "granted e claim db db'" "evt_Quantity e = TrialAIGrantQuantity"
      "event_key e = (tgx_OrganizationID x, ResourceAIPoint)"
      "evt_SourceType e = SourceLocalAITrial" "evt_SourceIdentity e = tgx_SourceIdentity x"
      "evt_OperationID e = tgx_OperationID x" "\<not> tgz_Replayed r"
proof (cases "replayTrialAIGrantOnce x db = Inr None")
  case False
  then have "db' = db \<and> tgz_Replayed r"
    using run by (auto simp: executeTrialAIGrantTransaction_def ok_simps Let_def)
       (auto simp: replayTrialAIGrantOnce_def ok_simps split: option.splits if_splits)
  then show ?thesis using replay by simp
next
  case True
  let ?org = "tgx_OrganizationID x" and ?rt = "ResourceAIPoint"
  let ?db1 = "ensure_bucket (rnv_now env 0) ?org ?rt db"
  obtain b credit db2 snapshot where s: "rdb_buckets ?db1 (?org, ?rt) = Some b"
    "applyPositiveCredit ?org ?rt (TrialAIGrantQuantity) (bkt_Available b) (rnv_now env 2) ?db1 = Inr (credit, db2)"
    "persistTrialAIGrant env x b credit snapshot db2 = Inr db'"
    "r = \<lparr>tgz_Snapshot = snapshot, tgz_Replayed = False\<rparr>"
    using run True by (auto simp: executeTrialAIGrantTransaction_def ok_simps Let_def)
  obtain d where db2: "db2 = ?db1\<lparr>rdb_debts := (rdb_debts ?db1)((?org, ?rt) \<mapsto> d)\<rparr>"
    using applyPositiveCredit_db [OF s(2)] by blast
  obtain e claim where p: "rdb_buckets db' = (rdb_buckets db2)((?org, ?rt) \<mapsto>
      b\<lparr>bkt_Available := pca_availableAfter credit, bkt_UpdatedAt := rnv_now env 2\<rparr>)"
    "rdb_debts db' = rdb_debts db2" "rdb_events db' = rdb_events db2 @ [e]"
    "rdb_reservations db' = rdb_reservations db2" "rdb_positions db' = rdb_positions db2"
    "rdb_months db' = rdb_months db2" "rdb_limits db' = rdb_limits db2"
    "rdb_claims db2 (SourceLocalAITrial, tgx_SourceIdentity x) = None"
    "rdb_claims db' = (rdb_claims db2)((SourceLocalAITrial, tgx_SourceIdentity x) \<mapsto> claim)"
    and c: "clm_SourceType claim = SourceLocalAITrial" "clm_SourceIdentity claim = tgx_SourceIdentity x"
    "clm_OrganizationID claim = ?org" "clm_OperationID claim = tgx_OperationID x" "clm_ResourceType claim = ?rt"
    and e: "evt_Quantity e = TrialAIGrantQuantity" "evt_AvailableDelta e = pca_net credit" "evt_AllocatedDelta e = 0"
      "evt_ReservedDelta e = 0" "evt_ConsumedDelta e = 0" "evt_DebtRepaid e = pca_debtRepaid credit"
      "evt_AvailableAfter e = pca_availableAfter credit" "evt_BalanceAfter e = pca_availableAfter credit"
      "evt_ReservedAfter e = bkt_Reserved b" "evt_ConsumedAfter e = bkt_Consumed b"
      "evt_SourceType e = SourceLocalAITrial" "evt_SourceIdentity e = tgx_SourceIdentity x"
      "evt_OrganizationID e = ?org" "evt_ResourceType e = ?rt" "evt_OperationID e = tgx_OperationID x"
    using s(3) s(1) db2
    by (auto simp: persistTrialAIGrant_def Let_def ok_simps update_bucket_def insert_audit_def zero_rows)
  have g: "grant_event e" using e(11) by (simp add: grant_event_def)
  have k: "event_key e = (?org, ?rt)" using e by (simp add: event_key_def)
  have "moves e db db'"
    by (rule credit_moves [OF ok k _ _ _ s(1,2) p(1-3) e(1-10) g]) (simp_all add: validResourceType_def in64_unfold)
  then have "granted e claim db db'"
    using g c e p db2 by (simp add: granted_def)
  then show ?thesis using grant e k s(4) by simp
qed

section \<open>Reservations\<close>

text \<open>
  The owner types that registered owners may have: not the sources of grants, and not the
  consumers, whose reservations are settled by their own protocol.
\<close>

definition owners_separate :: "'o owners \<Rightarrow> bool" where
  "owners_separate owners \<longleftrightarrow> (\<forall>t. owners t \<noteq> None \<longrightarrow>
     t \<notin> {SourceOnboardingWelcomeStorePeriod, SourceCommercialOrderItem, SourceLocalAITrial,
          ConsumerStoreService, ConsumerProductAcquisition, ConsumerAmazonData})"

text \<open>An event that moves quantities between the sides of a bucket without touching debt.\<close>

lemma bucket_moves:
  assumes "ledger_ok db" "rdb_buckets db k = Some b"
    "rdb_buckets db' = (rdb_buckets db)(k \<mapsto> b')" "bucket_ok k b'" "rdb_debts db' = rdb_debts db"
    "rdb_events db' = rdb_events db @ [e]" "event_key e = k"
    "bkt_Available b' = bkt_Available b + evt_AvailableDelta e"
    "bkt_Allocated b' = bkt_Allocated b + evt_AllocatedDelta e"
    "bkt_Reserved b' = bkt_Reserved b + evt_ReservedDelta e"
    "bkt_Consumed b' = bkt_Consumed b + evt_ConsumedDelta e"
    "evt_AvailableAfter e = bkt_Available b'" "evt_ReservedAfter e = bkt_Reserved b'"
    "evt_ConsumedAfter e = bkt_Consumed b'" "evt_BalanceAfter e = bkt_Available b'"
    "evt_DebtRepaid e = 0" "evt_AvailableDelta e \<le> 0" "0 < evt_Quantity e" "event_sum e = 0"
    "\<not> grant_event e"
  shows "moves e db db'"
proof -
  have "bucket_side b' d = res_balance db k d + event_delta e d" for d
    using assms(2,8-11) by (cases d) (simp_all add: res_balance_def)
  then show ?thesis
    using assms ledger_okD(4) [OF assms(1), of k] by (auto simp: moves_def)
qed

lemma reservation_new:
  assumes "ledger_ok db" "\<forall>x\<in>set (rdb_reservations db). \<not> reservation_row_clash row x"
  shows "distinct (map reservation_id (rdb_reservations db @ [row]))"
  using ledger_okD(7) [OF assms(1)] assms(2)
  by (auto simp: reservation_id_def reservation_row_clash_def)

lemma reserving_ledger_ok:
  assumes "moves e db db'" "ledger_ok db" "rdb_reservations db' = rdb_reservations db @ [row]"
    "\<forall>x\<in>set (rdb_reservations db). \<not> reservation_row_clash row x" "open_reservation row"
    "reservation_key row = event_key e" "rsv_Quantity row = evt_ReservedDelta e"
    "0 < rsv_Quantity row" "in64 (rsv_Quantity row)"
  shows "ledger_ok db'"
  by (rule moves_ledger_ok [OF assms(1,2)])
     (use reservation_new [OF assms(2,4)] assms ledger_okD(8,9) [OF assms(2)] in \<open>auto simp: reserved_sum_def\<close>)

lemma lookupReserve_replayed:
  "lookupReserveOperation org oper fp db = Inr (Some r) \<Longrightarrow> rsz_Replayed r"
  "lookupReservationIdentity x db = Inr (Some r) \<Longrightarrow> rsz_Replayed r"
  "lookupBoundReservation own x db = Inr r \<Longrightarrow> rsz_Replayed r"
  by (auto simp: lookupReserveOperation_def lookupReservationIdentity_def lookupBoundReservation_def
      reservationResultFromOperation_def ok_simps split: option.splits if_splits)

lemma reservationTx_effect:
  assumes run: "reservationTx st x env db = Inr (r, db')" and ok: "ledger_ok db"
    and x: "0 < rsx_Quantity x" "in64 (rsx_Quantity x)"
    and src: "rsx_OwnerType x \<notin> {SourceOnboardingWelcomeStorePeriod, SourceCommercialOrderItem, SourceLocalAITrial}"
  obtains (replay) "db' = db" "rsz_Replayed r"
  | (reserve) e row where "moves e db db'" "\<not> grant_event e" "evt_AllocatedDelta e = 0"
      "rdb_reservations db' = rdb_reservations db @ [row]"
      "\<forall>y\<in>set (rdb_reservations db). \<not> reservation_row_clash row y"
      "rsv_State row = ReservationReserved" "reservation_key row = event_key e"
      "event_key e = (rsx_OrganizationID x, rsx_ResourceType x)"
      "rsv_Quantity row = evt_ReservedDelta e" "evt_ReservedDelta e = rsx_Quantity x"
      "evt_AvailableDelta e = - rsx_Quantity x" "rsv_ChargeProtocol row = []"
      "rsv_SettlementOperationID row = None"
      "rdb_positions db' = rdb_positions db" "rdb_claims db' = rdb_claims db"
      "rdb_months db' = rdb_months db" "rdb_limits db' = rdb_limits db" "\<not> rsz_Replayed r"
proof -
  let ?k = "(rsx_OrganizationID x, rsx_ResourceType x)"
  consider (again) "db' = db \<and> rsz_Replayed r" | (new) b where "rdb_buckets db ?k = Some b"
      "\<not> bkt_Available b < rsx_Quantity x"
      "\<not> add64 (bkt_Reserved b) (rsx_Quantity x) < bkt_Reserved b"
      "persistReservation st x env b db = Inr (r, db')"
    using run
    by (auto simp: reservationTx_def Let_def ok_simps dest: lookupReserve_replayed split: if_splits)
  then show thesis
  proof cases
    case again
    then show ?thesis using replay by simp
  next
    case new
    note B = bucket_okD [OF ledger_okD(1) [OF ok new(1)]]
    have q: "0 \<le> rsx_Quantity x" using x by simp
    note sum = add64_no_wrap [OF B(5,6) q x(2) new(3)]
    have dif: "sub64 (bkt_Available b) (rsx_Quantity x) = bkt_Available b - rsx_Quantity x"
      using B(1,2) q x(2) by (rule_tac sub64_nonneg) auto
    have neg: "neg64 (rsx_Quantity x) = - rsx_Quantity x" using q x(2) by (rule neg64_nonneg)
    let ?b = "b\<lparr>bkt_Available := bkt_Available b - rsx_Quantity x,
        bkt_Reserved := bkt_Reserved b + rsx_Quantity x, bkt_UpdatedAt := rnv_now env 0\<rparr>"
    have bok: "bucket_ok ?k ?b"
      using B sum new(2) q by (intro bucket_okI) (auto simp: in64_unfold)
    obtain e row where p: "rdb_buckets db' = (rdb_buckets db)(?k \<mapsto> ?b)"
      "rdb_debts db' = rdb_debts db" "rdb_events db' = rdb_events db @ [e]"
      "rdb_reservations db' = rdb_reservations db @ [row]"
      "\<forall>y\<in>set (rdb_reservations db). \<not> reservation_row_clash row y"
      "rdb_positions db' = rdb_positions db" "rdb_claims db' = rdb_claims db"
      "rdb_months db' = rdb_months db" "rdb_limits db' = rdb_limits db" "\<not> rsz_Replayed r"
      and row: "rsv_State row = ReservationReserved" "reservation_key row = ?k"
        "rsv_Quantity row = rsx_Quantity x" "rsv_ChargeProtocol row = []" "rsv_SettlementOperationID row = None"
      and e: "event_key e = ?k" "evt_Quantity e = rsx_Quantity x" "evt_AvailableDelta e = - rsx_Quantity x"
        "evt_AllocatedDelta e = 0" "evt_ReservedDelta e = rsx_Quantity x" "evt_ConsumedDelta e = 0"
        "evt_AvailableAfter e = bkt_Available ?b" "evt_ReservedAfter e = bkt_Reserved ?b"
        "evt_ConsumedAfter e = bkt_Consumed ?b" "evt_BalanceAfter e = bkt_Available ?b" "evt_DebtRepaid e = 0"
        "evt_SourceType e = rsx_OwnerType x"
      using new(1,4)
      by (auto simp: persistReservation_def Let_def ok_simps update_bucket_def insert_audit_def zero_rows
          dif sum(1) neg event_key_def reservation_key_def split: if_splits)
    have g: "\<not> grant_event e" using src e(12) by (simp add: grant_event_def)
    have m: "moves e db db'"
      by (rule bucket_moves [OF ok new(1) p(1) bok p(2,3) e(1)])
         (use e g x in \<open>simp_all add: event_sum_def\<close>)
    show ?thesis
      by (rule reserve [OF m g e(4) p(4,5) row(1)]) (use p e row in simp_all)
  qed
qed

section \<open>Settlements\<close>

text \<open>
  An update that hits the one row with a given key replaces that row.
\<close>

lemma update_rows_unique:
  assumes "distinct (map key t)" "r \<in> set t" "P r" "\<And>x. x \<in> set t \<Longrightarrow> P x \<Longrightarrow> key x = key r"
  shows "update_rows P f t = update_rows (\<lambda>x. key x = key r) (\<lambda>_. f r) t"
proof -
  have "(if P x then f x else x) = (if key x = key r then f r else x)" if "x \<in> set t" for x
    using assms that by (metis distinct_map inj_onD)
  then show ?thesis by (simp add: update_rows_def)
qed

lemma filter_oneD: "length (filter P t) = 1 \<Longrightarrow> \<exists>x\<in>set t. P x"
  by (metis One_nat_def filter_False length_0_conv nat.distinct(1))

lemma distinct_keyI: "distinct (map key t) \<Longrightarrow> x \<in> set t \<Longrightarrow> y \<in> set t \<Longrightarrow> key x = key y \<Longrightarrow> x = y"
  by (meson distinct_map inj_onD)

lemma closing_ledger_ok:
  assumes m: "moves e db db'" and ok: "ledger_ok db" and r: "r \<in> set (rdb_reservations db)" "open_reservation r"
    and rows: "rdb_reservations db' =
      update_rows (\<lambda>x. reservation_id x = reservation_id r) (\<lambda>_. r') (rdb_reservations db)"
    and r': "reservation_id r' = reservation_id r" "reservation_key r' = reservation_key r"
      "rsv_Quantity r' = rsv_Quantity r" "\<not> open_reservation r'"
    and e: "evt_ReservedDelta e = - rsv_Quantity r" "event_key e = reservation_key r"
  shows "ledger_ok db'"
proof (rule moves_ledger_ok [OF m ok])
  note I = ledger_okD [OF ok]
  show "distinct (map reservation_id (rdb_reservations db'))"
    unfolding rows using I(7) r'(1) by (subst map_update_rows_key) auto
  show "0 < rsv_Quantity x \<and> in64 (rsv_Quantity x)" if "x \<in> set (rdb_reservations db')" for x
    using that r(1) r'(3) I(8,9) by (auto simp: rows set_update_rows split: if_splits)
  show "reserved_sum db' k = reserved_sum db k + (if k = event_key e then evt_ReservedDelta e else 0)" for k
    unfolding reserved_sum_def rows
    by (subst sum_rows_replace [OF I(7) r(1) refl]) (use r(2) r'(2-4) e in auto)
qed

lemma settle_replayed:
  "lookupSettlementOperation org oper fp db = Inr (Some r) \<Longrightarrow> stz_Replayed r"
  "settlementResultFromReservation row fp db = Inr (Some r) \<Longrightarrow> stz_Replayed r"
  by (auto simp: lookupSettlementOperation_def settlementResultFromReservation_def
      settlementResultFromOperation_def ok_simps split: option.splits if_splits)

lemma validateTerminalProof_Inr:
  assumes "validateTerminalProof r p = Inr decision"
  shows "decision = SettlementCommit \<and> otp_State p = OwnerAttemptSucceededTerminal
    \<or> decision = SettlementRelease \<and> otp_State p \<in> {OwnerAttemptFailedTerminal, OwnerAttemptCancelledTerminal}"
  using assms by (auto simp: validateTerminalProof_def ok_simps split: if_splits)

text \<open>The bucket after a settlement, and what the settlement does to the debt.\<close>

lemma calculateSettlement_Inr:
  assumes run: "calculateSettlement now r b decision db = Inr (s, db1)" and ok: "ledger_ok db"
    and b: "bucket_ok (reservation_key r) b" and q: "0 < rsv_Quantity r" "in64 (rsv_Quantity r)"
    and enough: "rsv_Quantity r \<le> bkt_Reserved b"
    and d: "decision = SettlementCommit \<or> decision = SettlementRelease"
  shows "cst_decision s = decision" "cst_reservedAfter s = bkt_Reserved b - rsv_Quantity r"
    "cst_consumedAfter s = bkt_Consumed b + (if decision = SettlementCommit then rsv_Quantity r else 0)"
    "cst_consumedAfter s \<le> max64"
    "cst_availableAfter s = bkt_Available b + cst_netCredit s" "cst_availableAfter s \<le> max64"
    "0 \<le> cst_netCredit s"
    "cst_debtRepaid s = (if decision = SettlementCommit then 0 else min (debt_of db (reservation_key r)) (rsv_Quantity r))"
    "cst_netCredit s = (if decision = SettlementCommit then 0 else rsv_Quantity r - cst_debtRepaid s)"
    "decision = SettlementCommit \<Longrightarrow> db1 = db"
    "decision \<noteq> SettlementCommit \<Longrightarrow> \<exists>d. db1 = db\<lparr>rdb_debts := (rdb_debts db)(reservation_key r \<mapsto> d)\<rparr>
      \<and> (dbt_OrganizationID d, dbt_ResourceType d) = reservation_key r
      \<and> dbt_Amount d = debt_of db (reservation_key r) - cst_debtRepaid s"
proof -
  note B = bucket_okD [OF b]
  have sub: "sub64 (bkt_Reserved b) (rsv_Quantity r) = bkt_Reserved b - rsv_Quantity r"
    using B q by (intro sub64_nonneg) auto
  have all: "cst_decision s = decision \<and> cst_reservedAfter s = bkt_Reserved b - rsv_Quantity r
    \<and> cst_consumedAfter s = bkt_Consumed b + (if decision = SettlementCommit then rsv_Quantity r else 0)
    \<and> cst_consumedAfter s \<le> max64
    \<and> cst_availableAfter s = bkt_Available b + cst_netCredit s \<and> cst_availableAfter s \<le> max64
    \<and> 0 \<le> cst_netCredit s
    \<and> cst_debtRepaid s = (if decision = SettlementCommit then 0 else min (debt_of db (reservation_key r)) (rsv_Quantity r))
    \<and> cst_netCredit s = (if decision = SettlementCommit then 0 else rsv_Quantity r - cst_debtRepaid s)
    \<and> (decision = SettlementCommit \<longrightarrow> db1 = db)
    \<and> (decision \<noteq> SettlementCommit \<longrightarrow> (\<exists>d. db1 = db\<lparr>rdb_debts := (rdb_debts db)(reservation_key r \<mapsto> d)\<rparr>
      \<and> (dbt_OrganizationID d, dbt_ResourceType d) = reservation_key r
      \<and> dbt_Amount d = debt_of db (reservation_key r) - cst_debtRepaid s))"
  proof (cases "decision = SettlementCommit")
    case True
    then have n: "\<not> add64 (bkt_Consumed b) (rsv_Quantity r) < bkt_Consumed b"
      using run by (auto simp: calculateSettlement_def Let_def ok_simps split: if_splits)
    note sum = add64_no_wrap [OF B(7,8) less_imp_le [OF q(1)] q(2) n]
    show ?thesis
      using run True sum B by (auto simp: calculateSettlement_def Let_def ok_simps sub in64_unfold split: if_splits)
  next
    case False
    then obtain credit where c: "applyPositiveCredit (rsv_OrganizationID r) (rsv_ResourceType r) (rsv_Quantity r)
        (bkt_Available b) now db = Inr (credit, db1)"
      "s = \<lparr>cst_decision = decision, cst_availableAfter = pca_availableAfter credit,
        cst_reservedAfter = bkt_Reserved b - rsv_Quantity r, cst_consumedAfter = bkt_Consumed b,
        cst_grossCredit = pca_gross credit, cst_debtRepaid = pca_debtRepaid credit,
        cst_netCredit = pca_net credit\<rparr>"
      using run by (auto simp: calculateSettlement_def Let_def ok_simps sub)
    from applyPositiveCredit_Inr [OF c(1) ok less_imp_le [OF q(1)] q(2) B(1,2)]
    obtain d where "db1 = db\<lparr>rdb_debts := (rdb_debts db)(reservation_key r \<mapsto> d)\<rparr>"
      "(dbt_OrganizationID d, dbt_ResourceType d) = reservation_key r"
      "dbt_Amount d = debt_of db (reservation_key r) - pca_debtRepaid credit"
      "pca_debtRepaid credit = min (debt_of db (reservation_key r)) (rsv_Quantity r)"
      "pca_net credit = rsv_Quantity r - pca_debtRepaid credit"
      "pca_availableAfter credit = bkt_Available b + pca_net credit" "pca_availableAfter credit \<le> max64"
      "0 \<le> pca_net credit"
      unfolding reservation_key_def by blast
    then show ?thesis using False B c(2) by (auto simp: in64_unfold)
  qed
  then show "cst_decision s = decision" "cst_reservedAfter s = bkt_Reserved b - rsv_Quantity r"
    "cst_consumedAfter s = bkt_Consumed b + (if decision = SettlementCommit then rsv_Quantity r else 0)"
    "cst_consumedAfter s \<le> max64"
    "cst_availableAfter s = bkt_Available b + cst_netCredit s" "cst_availableAfter s \<le> max64"
    "0 \<le> cst_netCredit s"
    "cst_debtRepaid s = (if decision = SettlementCommit then 0 else min (debt_of db (reservation_key r)) (rsv_Quantity r))"
    "cst_netCredit s = (if decision = SettlementCommit then 0 else rsv_Quantity r - cst_debtRepaid s)"
    "decision = SettlementCommit \<Longrightarrow> db1 = db"
    "decision \<noteq> SettlementCommit \<Longrightarrow> \<exists>d. db1 = db\<lparr>rdb_debts := (rdb_debts db)(reservation_key r \<mapsto> d)\<rparr>
      \<and> (dbt_OrganizationID d, dbt_ResourceType d) = reservation_key r
      \<and> dbt_Amount d = debt_of db (reservation_key r) - cst_debtRepaid s"
    by blast+
qed

text \<open>The posting of value that comes back: the debt of the key is repaid first.\<close>

lemma debt_moves:
  assumes "ledger_ok db" "rdb_buckets db k = Some b"
    "rdb_buckets db' = (rdb_buckets db)(k \<mapsto> b')" "bucket_ok k b'"
    "rdb_debts db' = (rdb_debts db)(k \<mapsto> d)" "(dbt_OrganizationID d, dbt_ResourceType d) = k"
    "dbt_Amount d = debt_of db k - evt_DebtRepaid e"
    "rdb_events db' = rdb_events db @ [e]" "event_key e = k"
    "bkt_Available b' = bkt_Available b + evt_AvailableDelta e"
    "bkt_Allocated b' = bkt_Allocated b + evt_AllocatedDelta e"
    "bkt_Reserved b' = bkt_Reserved b + evt_ReservedDelta e"
    "bkt_Consumed b' = bkt_Consumed b + evt_ConsumedDelta e"
    "evt_AvailableAfter e = bkt_Available b'" "evt_ReservedAfter e = bkt_Reserved b'"
    "evt_ConsumedAfter e = bkt_Consumed b'" "evt_BalanceAfter e = bkt_Available b'"
    "0 \<le> evt_DebtRepaid e" "evt_DebtRepaid e \<le> debt_of db k"
    "evt_DebtRepaid e < debt_of db k \<Longrightarrow> evt_AvailableDelta e \<le> 0" "0 < evt_Quantity e"
    "event_sum e = 0" "\<not> grant_event e"
  shows "moves e db db'"
proof -
  have "bucket_side b' d = res_balance db k d + event_delta e d" for d
    using assms(2,10-13) by (cases d) (simp_all add: res_balance_def)
  then show ?thesis using assms by (auto simp: moves_def)
qed

lemma settlementTx_effect:
  assumes run: "settlementTx st seed x env db = Inr (out, db')" and ok: "ledger_ok db"
    and src: "rsv_OwnerType seed \<notin> {SourceOnboardingWelcomeStorePeriod, SourceCommercialOrderItem, SourceLocalAITrial}"
  obtains (replay) "db' = db" "stz_Replayed out"
  | (settle) e r r' where "moves e db db'" "\<not> grant_event e" "evt_AllocatedDelta e = 0"
      "r \<in> set (rdb_reservations db)" "open_reservation r" "rsv_OwnerType r = rsv_OwnerType seed"
      "rdb_reservations db' =
         update_rows (\<lambda>y. reservation_id y = reservation_id r) (\<lambda>_. r') (rdb_reservations db)"
      "\<exists>t. r' = r\<lparr>rsv_State := rsv_State r', rsv_SettlementOperationID := Some (stx_OperationID x),
                rsv_SettledAt := Some t\<rparr>"
      "rsv_State r' = ReservationCommitted \<or> rsv_State r' = ReservationReleased"
      "evt_ReservedDelta e = - rsv_Quantity r" "event_key e = reservation_key r"
      "reservation_id r = (stx_OrganizationID x, stx_ReservationID x)"
      "rdb_positions db' = rdb_positions db" "rdb_claims db' = rdb_claims db"
      "rdb_months db' = rdb_months db" "rdb_limits db' = rdb_limits db" "\<not> stz_Replayed out"
proof -
  consider (again) "db' = db \<and> stz_Replayed out" | (new) tproof r decision b s db1 where
      "find (\<lambda>y. reservation_id y = (stx_OrganizationID x, stx_ReservationID x)) (rdb_reservations db) = Some r"
      "sameReservationIdentity seed r" "validateTerminalProof r tproof = Inr decision"
      "rdb_buckets db (reservation_key r) = Some b" "rsv_Quantity r \<le> bkt_Reserved b"
      "calculateSettlement (rnv_now env 0) r b decision db = Inr (s, db1)"
      "persistSettlement env x r tproof s db1 = Inr (out, db')"
    using run
    by (auto simp: settlementTx_def Let_def ok_simps loadReservation_def reservation_key_def not_less
        dest: settle_replayed split: if_splits)
  then show thesis
  proof cases
    case again
    then show ?thesis using replay by simp
  next
    case new
    note I = ledger_okD [OF ok]
    have r: "r \<in> set (rdb_reservations db)" "reservation_id r = (stx_OrganizationID x, stx_ReservationID x)"
      using find_SomeD [OF new(1)] by auto
    note q = I(8,9) [OF r(1)]
    note bok = I(1) [OF new(4)]
    note B = bucket_okD [OF bok]
    have dec: "decision = SettlementCommit \<or> decision = SettlementRelease"
      using validateTerminalProof_Inr [OF new(3)] by auto
    note S = calculateSettlement_Inr [OF new(6) ok bok q new(5) dec]
    have neg: "neg64 (rsv_Quantity r) = - rsv_Quantity r" using q by (intro neg64_nonneg) auto
    have same: "rdb_buckets db1 = rdb_buckets db" "rdb_events db1 = rdb_events db"
      "rdb_reservations db1 = rdb_reservations db" "rdb_positions db1 = rdb_positions db"
      "rdb_claims db1 = rdb_claims db" "rdb_months db1 = rdb_months db" "rdb_limits db1 = rdb_limits db"
      using S(10,11) dec by fastforce+
    let ?P = "\<lambda>row. reservation_id row = reservation_id r
        \<and> (rsv_State row = ReservationReserved \<or> rsv_State row = ReservationReconciliationRequired)"
    let ?f = "\<lambda>row. row\<lparr>rsv_State := (if cst_decision s = SettlementRelease then ReservationReleased else ReservationCommitted),
        rsv_SettlementOperationID := Some (stx_OperationID x), rsv_SettledAt := Some (rnv_now env 1)\<rparr>"
    let ?b = "b\<lparr>bkt_Available := cst_availableAfter s, bkt_Reserved := cst_reservedAfter s,
        bkt_Consumed := cst_consumedAfter s, bkt_UpdatedAt := rnv_now env 1\<rparr>"
    obtain e where p: "length (filter ?P (rdb_reservations db)) = 1"
      "rdb_reservations db' = update_rows ?P ?f (rdb_reservations db)"
      "rdb_buckets db' = (rdb_buckets db)(reservation_key r \<mapsto> ?b)"
      "rdb_debts db' = rdb_debts db1" "rdb_events db' = rdb_events db @ [e]"
      "rdb_positions db' = rdb_positions db" "rdb_claims db' = rdb_claims db"
      "rdb_months db' = rdb_months db" "rdb_limits db' = rdb_limits db" "\<not> stz_Replayed out"
      and e: "event_key e = reservation_key r" "evt_Quantity e = rsv_Quantity r"
        "evt_AvailableDelta e = (if decision = SettlementCommit then 0 else cst_netCredit s)"
        "evt_AllocatedDelta e = 0" "evt_ReservedDelta e = - rsv_Quantity r"
        "evt_ConsumedDelta e = (if decision = SettlementCommit then rsv_Quantity r else 0)"
        "evt_AvailableAfter e = bkt_Available ?b" "evt_ReservedAfter e = bkt_Reserved ?b"
        "evt_ConsumedAfter e = bkt_Consumed ?b" "evt_BalanceAfter e = bkt_Available ?b"
        "evt_DebtRepaid e = cst_debtRepaid s" "evt_SourceType e = rsv_OwnerType r"
      using new(4,7) same S(1)
      by (auto simp: persistSettlement_def Let_def ok_simps update_bucket_def insert_audit_def zero_rows
          neg event_key_def reservation_key_def split: if_splits)
    obtain y where "y \<in> set (rdb_reservations db)" "?P y" using filter_oneD [OF p(1)] by blast
    then have op: "?P r" using distinct_keyI [OF I(7)] r(1) by metis
    have rows: "rdb_reservations db' =
        update_rows (\<lambda>y. reservation_id y = reservation_id r) (\<lambda>_. ?f r) (rdb_reservations db)"
      unfolding p(2) by (rule update_rows_unique [OF I(7) r(1)]) (use op in auto)
    have owner: "rsv_OwnerType r = rsv_OwnerType seed" using new(2) by (simp add: sameReservationIdentity_def)
    have g: "\<not> grant_event e" using src owner e(12) by (simp add: grant_event_def)
    have bok': "bucket_ok (reservation_key r) ?b"
      using B S(2-7) new(5) q(1) by (intro bucket_okI) (auto simp: in64_unfold)
    have m: "moves e db db'"
    proof (cases "decision = SettlementCommit")
      case True
      then have "db1 = db" using S(10) by simp
      then show ?thesis
        by (intro bucket_moves [OF ok new(4) p(3) bok' _ p(5) e(1)])
           (use p(4) e g S True q in \<open>simp_all add: event_sum_def\<close>)
    next
      case False
      then obtain d where d: "db1 = db\<lparr>rdb_debts := (rdb_debts db)(reservation_key r \<mapsto> d)\<rparr>"
        "(dbt_OrganizationID d, dbt_ResourceType d) = reservation_key r"
        "dbt_Amount d = debt_of db (reservation_key r) - cst_debtRepaid s" using S(11) by blast
      show ?thesis
        by (rule debt_moves [OF ok new(4) p(3) bok' _ d(2) _ p(5) e(1)])
           (use p(4) d(1,3) e g S False q I(4) [of "reservation_key r"] in \<open>auto simp: event_sum_def\<close>)
    qed
    show ?thesis
    proof (rule settle [OF m g e(4) r(1) _ owner rows])
      show "open_reservation r" using op by (simp add: open_reservation_def)
      show "\<exists>t. ?f r = r\<lparr>rsv_State := rsv_State (?f r), rsv_SettlementOperationID := Some (stx_OperationID x),
                rsv_SettledAt := Some t\<rparr>" by (intro exI [where x = "rnv_now env 1"]) simp
    qed (use p e r in simp_all)
  qed
qed

end
