(* ===== verification/Res_Member_Effects.thy ===== *)
theory Res_Member_Effects
  imports Res_Effects
begin

text \<open>
  Member positions: their invariant, and the effects of transfers and of consumer charges. What the
  organization has allocated is the sum of what its members hold free, and what a member has
  reserved is the sum of the open charges the member funds.
\<close>

section \<open>The invariant of positions\<close>

definition member_charge :: "organizationResourceReservationRow \<Rightarrow> bool" where
  "member_charge r \<longleftrightarrow>
     rsv_ChargeProtocol r = consumerChargeProtocol \<and> rsv_ChargeFunding r = FundingMember"

definition charge_position :: "organizationResourceReservationRow \<Rightarrow> string \<times> string \<times> ResourceType" where
  "charge_position r = (rsv_OrganizationID r, rsv_MemberID r, rsv_ResourceType r)"

text \<open>What the row of a consumer charge looks like: the consumer determines the resource.\<close>

definition consumer_resource :: "string \<Rightarrow> ResourceType" where
  "consumer_resource c = (if c = ConsumerStoreService then ResourceStoreRenewalPeriod else ResourceDataRow)"

definition consumer_row :: "organizationResourceReservationRow \<Rightarrow> bool" where
  "consumer_row r \<longleftrightarrow>
     validResourceConsumer (rsv_OwnerType r) \<and> rsv_ReservationPurpose r = consumerChargeProtocol
     \<and> rsv_ResourceType r = consumer_resource (rsv_OwnerType r)"

definition position_ok :: "memberResourcePositionRow \<Rightarrow> bool" where
  "position_ok p \<longleftrightarrow>
     0 \<le> pos_Free p \<and> in64 (pos_Free p) \<and> 0 \<le> pos_Reserved p \<and> in64 (pos_Reserved p)
     \<and> 0 \<le> pos_Consumed p \<and> in64 (pos_Consumed p) \<and> 0 \<le> pos_Version p \<and> in64 (pos_Version p)
     \<and> IsMemberAllocatedResource (pos_ResourceType p)"

definition free_sum :: "memberResourcePositionRow list \<Rightarrow> res_key \<Rightarrow> int" where
  "free_sum ps k = sum_rows (\<lambda>p. (pos_OrganizationID p, pos_ResourceType p) = k) pos_Free ps"

definition member_reserved :: "memberResourcePositionRow list \<Rightarrow> string \<times> string \<times> ResourceType \<Rightarrow> int" where
  "member_reserved ps pk = sum_rows (\<lambda>p. position_key p = pk) pos_Reserved ps"

definition open_charges :: "organizationResourceReservationRow list \<Rightarrow> string \<times> string \<times> ResourceType \<Rightarrow> int" where
  "open_charges rs pk =
     sum_rows (\<lambda>r. open_reservation r \<and> member_charge r \<and> charge_position r = pk) rsv_Quantity rs"

definition members_ok :: "'o res_db \<Rightarrow> bool" where
  "members_ok db \<longleftrightarrow>
     distinct (map position_key (rdb_positions db)) \<and> (\<forall>p\<in>set (rdb_positions db). position_ok p)
     \<and> (\<forall>k. res_balance db k Allocated = free_sum (rdb_positions db) k)
     \<and> (\<forall>pk. member_reserved (rdb_positions db) pk = open_charges (rdb_reservations db) pk)
     \<and> (\<forall>r\<in>set (rdb_reservations db). rsv_ChargeProtocol r = consumerChargeProtocol \<longrightarrow>
          consumer_row r)"

lemma members_okD:
  assumes "members_ok db"
  shows "distinct (map position_key (rdb_positions db))"
    and "p \<in> set (rdb_positions db) \<Longrightarrow> position_ok p"
    and "res_balance db k Allocated = free_sum (rdb_positions db) k"
    and "member_reserved (rdb_positions db) pk = open_charges (rdb_reservations db) pk"
    and "r \<in> set (rdb_reservations db) \<Longrightarrow> rsv_ChargeProtocol r = consumerChargeProtocol \<Longrightarrow>
      consumer_row r"
  using assms by (auto simp: members_ok_def)

lemma members_ok_same:
  assumes "members_ok db" "rdb_positions db' = rdb_positions db"
    "\<And>k. res_balance db' k Allocated = res_balance db k Allocated"
    "\<And>pk. open_charges (rdb_reservations db') pk = open_charges (rdb_reservations db) pk"
    "\<And>r. r \<in> set (rdb_reservations db') \<Longrightarrow> rsv_ChargeProtocol r = consumerChargeProtocol \<Longrightarrow>
      consumer_row r"
  shows "members_ok db'"
  unfolding members_ok_def assms(2-4) using members_okD [OF assms(1)] assms(5) by blast

text \<open>A locked position: the row that was there, or a new row with nothing in it.\<close>

definition with_position :: "gotime \<Rightarrow> string \<Rightarrow> string \<Rightarrow> ResourceType \<Rightarrow> 'o res_db \<Rightarrow> 'o res_db" where
  "with_position now org member rt db = db\<lparr>rdb_positions :=
     create_or_ignore position_clash (fresh_position now org member rt) (rdb_positions db)\<rparr>"

lemma lockMemberResourcePosition_Inr:
  "lockMemberResourcePosition now org member rt db = Inr (p, db1) \<longleftrightarrow>
     db1 = with_position now org member rt db
     \<and> find (\<lambda>p. position_key p = (org, member, rt)) (rdb_positions db1) = Some p"
  by (auto simp: lockMemberResourcePosition_def with_position_def Let_def ok_simps)

lemma with_position_same [simp]:
  "rdb_buckets (with_position t org m rt db) = rdb_buckets db"
  "rdb_debts (with_position t org m rt db) = rdb_debts db"
  "rdb_operations (with_position t org m rt db) = rdb_operations db"
  "rdb_claims (with_position t org m rt db) = rdb_claims db"
  "rdb_events (with_position t org m rt db) = rdb_events db"
  "rdb_reservations (with_position t org m rt db) = rdb_reservations db"
  "rdb_limits (with_position t org m rt db) = rdb_limits db"
  "rdb_months (with_position t org m rt db) = rdb_months db"
  by (simp_all add: with_position_def)

lemma with_position_ok:
  assumes "members_ok db" "IsMemberAllocatedResource rt"
  shows "members_ok (with_position t org m rt db)"
proof -
  note M = members_okD [OF assms(1)]
  let ?f = "fresh_position t org m rt"
  have f: "position_ok ?f" "pos_Free ?f = 0" "pos_Reserved ?f = 0"
    using assms(2) by (simp_all add: fresh_position_def position_ok_def)
  have bal: "res_balance (with_position t org m rt db) k Allocated = res_balance db k Allocated" for k
    by (simp add: res_balance_def)
  show ?thesis
    unfolding members_ok_def bal with_position_same
    using M f by (auto simp: with_position_def create_or_ignore_def position_clash_def list_ex_iff
        free_sum_def member_reserved_def)
qed

text \<open>Replacing a position moves its share of the sums.\<close>

lemma members_move:
  assumes ok: "members_ok db" and p: "p \<in> set (rdb_positions db)" "position_key p' = position_key p"
    and pos: "rdb_positions db' = update_rows (\<lambda>x. position_key x = position_key p) (\<lambda>_. p') (rdb_positions db)"
    and p': "position_ok p'"
    and alloc: "\<And>k. res_balance db' k Allocated = res_balance db k Allocated
      + (if k = (pos_OrganizationID p, pos_ResourceType p) then pos_Free p' - pos_Free p else 0)"
    and charges: "\<And>pk. open_charges (rdb_reservations db') pk = open_charges (rdb_reservations db) pk
      + (if pk = position_key p then pos_Reserved p' - pos_Reserved p else 0)"
    and cons: "\<And>r. r \<in> set (rdb_reservations db') \<Longrightarrow> rsv_ChargeProtocol r = consumerChargeProtocol \<Longrightarrow>
      consumer_row r"
  shows "members_ok db'"
proof -
  note M = members_okD [OF ok]
  have key: "(pos_OrganizationID p', pos_ResourceType p') = (pos_OrganizationID p, pos_ResourceType p)"
    using p(2) by (simp add: position_key_def)
  show ?thesis
    unfolding members_ok_def
  proof (intro conjI allI ballI impI)
    show "distinct (map position_key (rdb_positions db'))"
      unfolding pos using M(1) p(2) by (subst map_update_rows_key) auto
    show "position_ok x" if "x \<in> set (rdb_positions db')" for x
      using that M(2) p' by (auto simp: pos set_update_rows split: if_splits)
    show "res_balance db' k Allocated = free_sum (rdb_positions db') k" for k
      unfolding alloc pos free_sum_def
      by (subst sum_rows_replace [OF M(1) p(1) refl]) (use M(3) [of k] key in \<open>auto simp: free_sum_def\<close>)
    show "member_reserved (rdb_positions db') pk = open_charges (rdb_reservations db') pk" for pk
      unfolding charges pos member_reserved_def
      by (subst sum_rows_replace [OF M(1) p(1) refl])
         (use M(4) [of pk] p(2) in \<open>auto simp: member_reserved_def\<close>)
    show "consumer_row r"
      if "r \<in> set (rdb_reservations db')" "rsv_ChargeProtocol r = consumerChargeProtocol" for r
      using cons that by blast
  qed
qed

lemma open_charges_append:
  "open_charges (rs @ [r]) pk = open_charges rs pk
     + (if open_reservation r \<and> member_charge r \<and> charge_position r = pk then rsv_Quantity r else 0)"
  by (simp add: open_charges_def)

lemma open_charges_close:
  assumes "distinct (map reservation_id rs)" "r \<in> set rs" "open_reservation r" "\<not> open_reservation r'"
  shows "open_charges (update_rows (\<lambda>y. reservation_id y = reservation_id r) (\<lambda>_. r') rs) pk =
    open_charges rs pk - (if member_charge r \<and> charge_position r = pk then rsv_Quantity r else 0)"
  unfolding open_charges_def
  by (subst sum_rows_replace [OF assms(1,2) refl]) (use assms(3,4) in auto)

section \<open>The operation journal\<close>

lemma lockFixed_Inr:
  assumes "lockFixedResourceOperation org key kind fp db = Inr (op, db1)"
  shows "\<exists>ops. db1 = db\<lparr>rdb_operations := ops\<rparr> \<and> ops (org, key) = Some op
      \<and> (rdb_operations db (org, key) \<noteq> None \<longrightarrow> ops = rdb_operations db)
      \<and> (\<forall>k. k \<noteq> (org, key) \<longrightarrow> ops k = rdb_operations db k)"
    "opr_OperationType op = kind" "opr_RequestFingerprint op = fp"
    "opr_State op \<noteq> ''processing'' \<Longrightarrow> db1 = db"
  using assms by (auto simp: lockFixedResourceOperation_def Let_def ok_simps zero_rows split: if_splits)

section \<open>Transfers\<close>

text \<open>
  What a transfer does to the position it locked: the free quantity of the member changes by the
  event's allocated delta, the version goes up by one, nothing else changes.
\<close>

definition transferred ::
  "MemberResourceTransfer \<Rightarrow> organizationResourceEventRow \<Rightarrow> memberResourcePositionRow \<Rightarrow>
   memberResourcePositionRow \<Rightarrow> 'o res_db \<Rightarrow> 'o res_db \<Rightarrow> bool" where
  "transferred c e p p' db db' \<longleftrightarrow>
     moves e db db' \<and> \<not> grant_event e \<and> evt_ReservedDelta e = 0 \<and> evt_ConsumedDelta e = 0
     \<and> evt_Quantity e = mrt_Quantity c \<and> event_key e = (mrt_OrganizationID c, mrt_ResourceType c)
     \<and> evt_SourceIdentity e = mrt_MemberID c
     \<and> evt_AllocatedDelta e = (if mrt_Action c = MemberResourceAllocate then mrt_Quantity c else - mrt_Quantity c)
     \<and> evt_AllocatedAfter e = res_balance db' (event_key e) Allocated
     \<and> position_key p = (mrt_OrganizationID c, mrt_MemberID c, mrt_ResourceType c)
     \<and> position_key p' = position_key p \<and> pos_Version p = mrt_ExpectedVersion c
     \<and> pos_Free p' = pos_Free p + evt_AllocatedDelta e \<and> pos_Reserved p' = pos_Reserved p
     \<and> pos_Consumed p' = pos_Consumed p \<and> pos_Version p' = pos_Version p + 1
     \<and> position_ok p'"

lemma allocate_member_Inr:
  assumes run: "allocate_member c b p db = Inr ((b', p', credit, da, dl), db1)"
    and b: "bucket_ok k b" and p: "position_ok p" and q: "0 < mrt_Quantity c" "in64 (mrt_Quantity c)"
  shows "db1 = db" "credit = no_credit" "da = - mrt_Quantity c" "dl = mrt_Quantity c"
    "b' = b\<lparr>bkt_Available := bkt_Available b - mrt_Quantity c, bkt_Allocated := bkt_Allocated b + mrt_Quantity c\<rparr>"
    "p' = p\<lparr>pos_Free := pos_Free p + mrt_Quantity c\<rparr>" "mrt_Quantity c \<le> bkt_Available b"
    "bkt_Allocated b + mrt_Quantity c \<le> max64" "pos_Free p + mrt_Quantity c \<le> max64"
    "debt_of db (mrt_OrganizationID c, mrt_ResourceType c) \<le> 0"
proof -
  note B = bucket_okD [OF b]
  have P: "0 \<le> pos_Free p" "in64 (pos_Free p)" using p by (auto simp: position_ok_def)
  have guards: "\<not> sub64 max64 (mrt_Quantity c) < pos_Free p" "\<not> sub64 max64 (mrt_Quantity c) < bkt_Allocated b"
    "\<not> bkt_Available b < mrt_Quantity c" "\<not> 0 < read_debt (mrt_OrganizationID c) (mrt_ResourceType c) db"
    using run by (auto simp: allocate_member_def ok_simps)
  have fits: "pos_Free p + mrt_Quantity c \<le> max64" "bkt_Allocated b + mrt_Quantity c \<le> max64"
    using guards(1,2) max64_guard [of "mrt_Quantity c"] q by auto
  have ar: "add64 (pos_Free p) (mrt_Quantity c) = pos_Free p + mrt_Quantity c"
    "add64 (bkt_Allocated b) (mrt_Quantity c) = bkt_Allocated b + mrt_Quantity c"
    "sub64 (bkt_Available b) (mrt_Quantity c) = bkt_Available b - mrt_Quantity c"
    "neg64 (mrt_Quantity c) = - mrt_Quantity c"
    using B P q fits by (auto intro: add64_guarded sub64_nonneg neg64_nonneg)
  show "db1 = db" "credit = no_credit" "da = - mrt_Quantity c" "dl = mrt_Quantity c"
    "b' = b\<lparr>bkt_Available := bkt_Available b - mrt_Quantity c, bkt_Allocated := bkt_Allocated b + mrt_Quantity c\<rparr>"
    "p' = p\<lparr>pos_Free := pos_Free p + mrt_Quantity c\<rparr>" "mrt_Quantity c \<le> bkt_Available b"
    "bkt_Allocated b + mrt_Quantity c \<le> max64" "pos_Free p + mrt_Quantity c \<le> max64"
    "debt_of db (mrt_OrganizationID c, mrt_ResourceType c) \<le> 0"
    using run guards fits by (auto simp: allocate_member_def ok_simps ar debt_of_def)
qed

lemma reclaim_member_Inr:
  assumes run: "reclaim_member now c b p db = Inr ((b', p', credit, da, dl), db1)" and ok: "ledger_ok db"
    and b: "bucket_ok k b" and p: "position_ok p" and q: "0 < mrt_Quantity c" "in64 (mrt_Quantity c)"
  shows "da = pca_net credit" "dl = - mrt_Quantity c"
    "b' = b\<lparr>bkt_Available := bkt_Available b + pca_net credit, bkt_Allocated := bkt_Allocated b - mrt_Quantity c\<rparr>"
    "p' = p\<lparr>pos_Free := pos_Free p - mrt_Quantity c\<rparr>" "mrt_Quantity c \<le> pos_Free p"
    "mrt_Quantity c \<le> bkt_Allocated b" "bkt_Available b + pca_net credit \<le> max64" "0 \<le> pca_net credit"
    "pca_debtRepaid credit = min (debt_of db (mrt_OrganizationID c, mrt_ResourceType c)) (mrt_Quantity c)"
    "pca_net credit = mrt_Quantity c - pca_debtRepaid credit"
    "\<exists>d. db1 = db\<lparr>rdb_debts := (rdb_debts db)((mrt_OrganizationID c, mrt_ResourceType c) \<mapsto> d)\<rparr>
      \<and> (dbt_OrganizationID d, dbt_ResourceType d) = (mrt_OrganizationID c, mrt_ResourceType c)
      \<and> dbt_Amount d = debt_of db (mrt_OrganizationID c, mrt_ResourceType c) - pca_debtRepaid credit"
proof -
  note B = bucket_okD [OF b]
  have P: "0 \<le> pos_Free p" "in64 (pos_Free p)" using p by (auto simp: position_ok_def)
  have run': "\<not> pos_Free p < mrt_Quantity c" "\<not> bkt_Allocated b < mrt_Quantity c"
    "applyPositiveCredit (mrt_OrganizationID c) (mrt_ResourceType c) (mrt_Quantity c) (bkt_Available b) now db
       = Inr (credit, db1)"
    "b' = b\<lparr>bkt_Available := pca_availableAfter credit, bkt_Allocated := sub64 (bkt_Allocated b) (mrt_Quantity c)\<rparr>"
    "p' = p\<lparr>pos_Free := sub64 (pos_Free p) (mrt_Quantity c)\<rparr>" "da = pca_net credit" "dl = neg64 (mrt_Quantity c)"
    using run by (auto simp: reclaim_member_def ok_simps)
  have ar: "sub64 (bkt_Allocated b) (mrt_Quantity c) = bkt_Allocated b - mrt_Quantity c"
    "sub64 (pos_Free p) (mrt_Quantity c) = pos_Free p - mrt_Quantity c"
    "neg64 (mrt_Quantity c) = - mrt_Quantity c"
    using B P q by (auto intro: sub64_nonneg neg64_nonneg)
  from applyPositiveCredit_Inr [OF run'(3) ok less_imp_le [OF q(1)] q(2) B(1,2)] obtain d where
    d: "db1 = db\<lparr>rdb_debts := (rdb_debts db)((mrt_OrganizationID c, mrt_ResourceType c) \<mapsto> d)\<rparr>"
    "dbt_OrganizationID d = mrt_OrganizationID c" "dbt_ResourceType d = mrt_ResourceType c"
    "dbt_Amount d = debt_of db (mrt_OrganizationID c, mrt_ResourceType c) - pca_debtRepaid credit"
    "pca_debtRepaid credit = min (debt_of db (mrt_OrganizationID c, mrt_ResourceType c)) (mrt_Quantity c)"
    "pca_net credit = mrt_Quantity c - pca_debtRepaid credit"
    "pca_availableAfter credit = bkt_Available b + pca_net credit" "pca_availableAfter credit \<le> max64"
    "0 \<le> pca_net credit" by blast
  show "da = pca_net credit" "dl = - mrt_Quantity c"
    "b' = b\<lparr>bkt_Available := bkt_Available b + pca_net credit, bkt_Allocated := bkt_Allocated b - mrt_Quantity c\<rparr>"
    "p' = p\<lparr>pos_Free := pos_Free p - mrt_Quantity c\<rparr>" "mrt_Quantity c \<le> pos_Free p"
    "mrt_Quantity c \<le> bkt_Allocated b" "bkt_Available b + pca_net credit \<le> max64" "0 \<le> pca_net credit"
    "pca_debtRepaid credit = min (debt_of db (mrt_OrganizationID c, mrt_ResourceType c)) (mrt_Quantity c)"
    "pca_net credit = mrt_Quantity c - pca_debtRepaid credit"
    using run' d by (simp_all add: ar)
  show "\<exists>d. db1 = db\<lparr>rdb_debts := (rdb_debts db)((mrt_OrganizationID c, mrt_ResourceType c) \<mapsto> d)\<rparr>
      \<and> (dbt_OrganizationID d, dbt_ResourceType d) = (mrt_OrganizationID c, mrt_ResourceType c)
      \<and> dbt_Amount d = debt_of db (mrt_OrganizationID c, mrt_ResourceType c) - pca_debtRepaid credit"
    using d(1-4) by blast
qed

lemma with_position_ledger_ok: "ledger_ok db \<Longrightarrow> ledger_ok (with_position t org m rt db)"
  by (simp add: ledger_ok_def debt_of_alt res_balance_def reserved_sum_def)

text \<open>The guards of a transfer, and the rows that follow them.\<close>

definition transfer_guard ::
  "MemberResourceTransfer \<Rightarrow> gotime \<Rightarrow> organizationResourceBucketRow \<Rightarrow> memberResourcePositionRow \<Rightarrow>
   'o res_db \<Rightarrow> rerr + (organizationResourceBucketRow \<times> memberResourcePositionRow
     \<times> positiveCreditAllocation \<times> i64 \<times> i64) \<times> 'o res_db" where
  "transfer_guard c now b p db =
     (if mrt_Action c = MemberResourceAllocate then allocate_member c b p db else reclaim_member now c b p db)"

text \<open>The bucket, the debts and the event of an accepted transfer are a posting.\<close>

lemma transfer_guard_Inr:
  assumes run: "transfer_guard c now b p db = Inr ((b', p', credit, da, dl), db1)"
    and ok: "ledger_ok db" and k: "k = (mrt_OrganizationID c, mrt_ResourceType c)"
    and b: "rdb_buckets db k = Some b" and p: "position_ok p"
    and q: "0 < mrt_Quantity c" "in64 (mrt_Quantity c)" and rt: "IsMemberAllocatedResource (mrt_ResourceType c)"
  shows "bucket_ok k (b'\<lparr>bkt_UpdatedAt := t\<rparr>)"
    "dl = (if mrt_Action c = MemberResourceAllocate then mrt_Quantity c else - mrt_Quantity c)"
    "p' = p\<lparr>pos_Free := pos_Free p + dl\<rparr>" "0 \<le> pos_Free p + dl" "pos_Free p + dl \<le> max64"
    "b' = b\<lparr>bkt_Available := bkt_Available b + da, bkt_Allocated := bkt_Allocated b + dl\<rparr>"
    "da + dl + pca_debtRepaid credit = 0" "0 \<le> pca_debtRepaid credit"
    "pca_debtRepaid credit \<le> debt_of db k" "pca_debtRepaid credit < debt_of db k \<Longrightarrow> da \<le> 0"
    "db1 = db \<and> pca_debtRepaid credit = 0 \<and> da \<le> 0 \<or>
      (\<exists>d. db1 = db\<lparr>rdb_debts := (rdb_debts db)(k \<mapsto> d)\<rparr> \<and> (dbt_OrganizationID d, dbt_ResourceType d) = k
        \<and> dbt_Amount d = debt_of db k - pca_debtRepaid credit)"
proof -
  note bok = ledger_okD(1) [OF ok b]
  note B = bucket_okD [OF bok]
  have P: "0 \<le> pos_Free p" "in64 (pos_Free p)" using p by (auto simp: position_ok_def)
  have ai: "snd k \<noteq> ResourceAIPoint" using rt k by (auto simp: IsMemberAllocatedResource_def)
  have debt: "0 \<le> debt_of db k" by (rule ledger_okD(4) [OF ok])
  have all: "bucket_ok k (b'\<lparr>bkt_UpdatedAt := t\<rparr>)
    \<and> dl = (if mrt_Action c = MemberResourceAllocate then mrt_Quantity c else - mrt_Quantity c)
    \<and> p' = p\<lparr>pos_Free := pos_Free p + dl\<rparr> \<and> 0 \<le> pos_Free p + dl \<and> pos_Free p + dl \<le> max64
    \<and> b' = b\<lparr>bkt_Available := bkt_Available b + da, bkt_Allocated := bkt_Allocated b + dl\<rparr>
    \<and> da + dl + pca_debtRepaid credit = 0 \<and> 0 \<le> pca_debtRepaid credit
    \<and> pca_debtRepaid credit \<le> debt_of db k \<and> (pca_debtRepaid credit < debt_of db k \<longrightarrow> da \<le> 0)
    \<and> (db1 = db \<and> pca_debtRepaid credit = 0 \<and> da \<le> 0 \<or>
      (\<exists>d. db1 = db\<lparr>rdb_debts := (rdb_debts db)(k \<mapsto> d)\<rparr> \<and> (dbt_OrganizationID d, dbt_ResourceType d) = k
        \<and> dbt_Amount d = debt_of db k - pca_debtRepaid credit))"
  proof (cases "mrt_Action c = MemberResourceAllocate")
    case True
    then have "allocate_member c b p db = Inr ((b', p', credit, da, dl), db1)"
      using run by (simp add: transfer_guard_def)
    note A = allocate_member_Inr [OF this bok p q]
    have "bucket_ok k (b'\<lparr>bkt_UpdatedAt := t\<rparr>)"
      unfolding A(5) using B A(7,8) q ai by (intro bucket_okI) (auto simp: in64_unfold)
    with True A P q debt show ?thesis by (auto simp: no_credit_def in64_unfold)
  next
    case False
    then have "reclaim_member now c b p db = Inr ((b', p', credit, da, dl), db1)"
      using run by (simp add: transfer_guard_def)
    note R = reclaim_member_Inr [OF this ok bok p q, folded k]
    have "bucket_ok k (b'\<lparr>bkt_UpdatedAt := t\<rparr>)"
      unfolding R(3) using B R(6-8) q ai by (intro bucket_okI) (auto simp: in64_unfold)
    moreover have "0 \<le> pca_debtRepaid credit" "pca_debtRepaid credit \<le> debt_of db k"
      using R(9) q debt by (auto simp: min_def)
    ultimately show ?thesis using False R(1-6,10,11) R(9) P q by (auto simp: in64_unfold)
  qed
  then show "bucket_ok k (b'\<lparr>bkt_UpdatedAt := t\<rparr>)"
    "dl = (if mrt_Action c = MemberResourceAllocate then mrt_Quantity c else - mrt_Quantity c)"
    "p' = p\<lparr>pos_Free := pos_Free p + dl\<rparr>" "0 \<le> pos_Free p + dl" "pos_Free p + dl \<le> max64"
    "b' = b\<lparr>bkt_Available := bkt_Available b + da, bkt_Allocated := bkt_Allocated b + dl\<rparr>"
    "da + dl + pca_debtRepaid credit = 0" "0 \<le> pca_debtRepaid credit"
    "pca_debtRepaid credit \<le> debt_of db k" "pca_debtRepaid credit < debt_of db k \<Longrightarrow> da \<le> 0"
    "db1 = db \<and> pca_debtRepaid credit = 0 \<and> da \<le> 0 \<or>
      (\<exists>d. db1 = db\<lparr>rdb_debts := (rdb_debts db)(k \<mapsto> d)\<rparr> \<and> (dbt_OrganizationID d, dbt_ResourceType d) = k
        \<and> dbt_Amount d = debt_of db k - pca_debtRepaid credit)"
    by blast+
qed

lemma transferTx_effect:
  assumes run: "transferTx dg c env db = Inr (r, db')" and ok: "ledger_ok db" and mok: "members_ok db"
    and c: "ValidMemberResourceTransfer c" "in64 (mrt_Quantity c)"
  defines "db1 \<equiv> with_position (rnv_now env 0) (mrt_OrganizationID c) (mrt_MemberID c) (mrt_ResourceType c) db"
  obtains (replay) "db' = db1" "mrz_Replayed r"
  | (move) e p p' where "transferred c e p p' db1 db'" "p \<in> set (rdb_positions db1)"
      "rdb_positions db' = update_rows (\<lambda>x. position_key x = position_key p) (\<lambda>_. p') (rdb_positions db1)"
      "rdb_reservations db' = rdb_reservations db" "rdb_claims db' = rdb_claims db"
      "rdb_months db' = rdb_months db" "rdb_limits db' = rdb_limits db"
      "\<not> mrz_Replayed r" "mrz_Position r = memberResourcePosition p'"
      "mrz_Unallocated r = res_balance db' (event_key e) Available"
      "mrz_Allocated r = res_balance db' (event_key e) Allocated"
proof -
  let ?k = "(mrt_OrganizationID c, mrt_ResourceType c)"
  let ?pk = "(mrt_OrganizationID c, mrt_MemberID c, mrt_ResourceType c)"
  have q: "0 < mrt_Quantity c" and rt: "IsMemberAllocatedResource (mrt_ResourceType c)"
    using c(1) by (auto simp: ValidMemberResourceTransfer_def)
  consider (again) "db' = db1 \<and> mrz_Replayed r" | (new) b p op db2 b' p' credit da dl db3 where
      "rdb_buckets db ?k = Some b" "find (\<lambda>p. position_key p = ?pk) (rdb_positions db1) = Some p"
      "lockFixedResourceOperation (mrt_OrganizationID c) (mrt_OperationID c) (mrt_Action c)
         (dg_json dg (Marshal_MemberResourceTransfer c)) db1 = Inr (op, db2)"
      "pos_Version p = mrt_ExpectedVersion c" "pos_Version p \<noteq> max64"
      "transfer_guard c (rnv_now env 1) b p db2 = Inr ((b', p', credit, da, dl), db3)"
      "persistTransfer env c (b', p', credit, da, dl) db3 = Inr (r, db')"
    using run lockFixed_Inr(4)
    by (fastforce simp: transferTx_def Let_def ok_simps lockMemberResourcePosition_Inr transfer_guard_def
        db1_def split: if_splits)
  then show thesis
  proof cases
    case again
    then show ?thesis using replay by simp
  next
    case new
    have ok1: "ledger_ok db1" unfolding db1_def by (rule with_position_ledger_ok [OF ok])
    have mok1: "members_ok db1" unfolding db1_def by (rule with_position_ok [OF mok rt])
    obtain ops where ops: "db2 = db1\<lparr>rdb_operations := ops\<rparr>" using lockFixed_Inr(1) [OF new(3)] by blast
    have ok2: "ledger_ok db2" using ok1 by (simp add: ops ledger_ok_def debt_of_alt res_balance_def reserved_sum_def)
    have p: "p \<in> set (rdb_positions db1)" "position_key p = ?pk" using find_SomeD [OF new(2)] by auto
    have pok: "position_ok p" by (rule members_okD(2) [OF mok1 p(1)])
    have b2: "rdb_buckets db2 ?k = Some b" using new(1) by (simp add: ops db1_def)
    note G = transfer_guard_Inr [OF new(6) ok2 refl b2 pok q c(2) rt]
    let ?p = "p'\<lparr>pos_Version := pos_Version p + 1, pos_UpdatedAt := rnv_now env 1\<rparr>"
    let ?b = "b'\<lparr>bkt_UpdatedAt := rnv_now env 1\<rparr>"
    have ver: "add64 (pos_Version p) 1 = pos_Version p + 1" "pos_Version p + 1 \<le> max64"
      using pok new(5) by (auto simp: position_ok_def in64_unfold add64_def)
    have pok': "position_ok ?p"
      using pok G(3-5) ver(2) by (auto simp: position_ok_def in64_unfold)
    have debt2: "debt_of db2 ?k = debt_of db1 ?k" by (simp add: ops debt_of_alt)
    have w3: "rdb_buckets db3 ?k = Some b" "rdb_buckets db3 = rdb_buckets db1" "rdb_events db3 = rdb_events db1"
      "rdb_positions db3 = rdb_positions db1" "rdb_reservations db3 = rdb_reservations db"
      "rdb_claims db3 = rdb_claims db" "rdb_months db3 = rdb_months db" "rdb_limits db3 = rdb_limits db"
      using G(11) new(1) by (auto simp: ops db1_def)
    obtain e where w: "rdb_buckets db' = (rdb_buckets db1)(?k \<mapsto> ?b)" "rdb_debts db' = rdb_debts db3"
      "rdb_events db' = rdb_events db1 @ [e]"
      "rdb_positions db' = update_rows (\<lambda>x. position_key x = position_key p) (\<lambda>_. ?p) (rdb_positions db1)"
      "rdb_reservations db' = rdb_reservations db" "rdb_claims db' = rdb_claims db"
      "rdb_months db' = rdb_months db" "rdb_limits db' = rdb_limits db"
      and e: "event_key e = ?k" "evt_Quantity e = mrt_Quantity c" "evt_AvailableDelta e = da"
        "evt_AllocatedDelta e = dl" "evt_ReservedDelta e = 0" "evt_ConsumedDelta e = 0"
        "evt_AvailableAfter e = bkt_Available ?b" "evt_AllocatedAfter e = bkt_Allocated ?b"
        "evt_ReservedAfter e = bkt_Reserved ?b" "evt_ConsumedAfter e = bkt_Consumed ?b"
        "evt_BalanceAfter e = bkt_Available ?b" "evt_DebtRepaid e = pca_debtRepaid credit"
        "evt_SourceType e = ''member_resource_position''" "evt_SourceIdentity e = mrt_MemberID c"
      and r: "\<not> mrz_Replayed r" "mrz_Position r = memberResourcePosition ?p"
        "mrz_Unallocated r = bkt_Available ?b" "mrz_Allocated r = bkt_Allocated ?b"
      using new(7) w3 ver(1) G(3) p(2)
      by (auto simp: persistTransfer_def Let_def ok_simps update_bucket_def update_operation_def save_position_def
          insert_audit_def zero_rows event_key_def position_key_def db1_def G(6) split: option.splits)
    have g: "\<not> grant_event e" using e(13) by (simp add: grant_event_def)
    have m: "moves e db1 db'"
      using G(11)
    proof
      assume "db3 = db2 \<and> pca_debtRepaid credit = 0 \<and> da \<le> 0"
      then show ?thesis
        by (intro bucket_moves [OF ok1 _ w(1) G(1) _ w(3) e(1)])
           (use new(1) w(2) e g G q ledger_okD(4) [OF ok1, of ?k] in \<open>auto simp: event_sum_def db1_def ops debt_of_alt\<close>)
    next
      assume "\<exists>d. db3 = db2\<lparr>rdb_debts := (rdb_debts db2)(?k \<mapsto> d)\<rparr> \<and> (dbt_OrganizationID d, dbt_ResourceType d) = ?k
        \<and> dbt_Amount d = debt_of db2 ?k - pca_debtRepaid credit"
      then obtain d where d: "db3 = db2\<lparr>rdb_debts := (rdb_debts db2)(?k \<mapsto> d)\<rparr>"
        "(dbt_OrganizationID d, dbt_ResourceType d) = ?k" "dbt_Amount d = debt_of db2 ?k - pca_debtRepaid credit" by blast
      show ?thesis
        by (rule debt_moves [OF ok1 _ w(1) G(1) _ d(2) _ w(3) e(1)])
           (use new(1) w(2) d e g G q debt2 in \<open>auto simp: event_sum_def db1_def ops\<close>)
    qed
    have "transferred c e p ?p db1 db'"
      unfolding transferred_def
      using m g e G(2,3) new(4) p(2) pok' w(1)
      by (auto simp: res_balance_def position_key_def)
    then show ?thesis
      by (rule move) (use w r p e in \<open>auto simp: res_balance_def\<close>)
  qed
qed

end
