(* ===== verification/Res_Charge_Effects.thy ===== *)
theory Res_Charge_Effects
  imports Res_Member_Effects
begin

text \<open>
  The effects of consumer charges, of claiming due charges and of monthly limits. A charge is one
  posting with its reservation and, when a member funds it, the member's position.
\<close>

section \<open>Postings with or without debt\<close>

lemma balance_moves:
  assumes "ledger_ok db" "rdb_buckets db k = Some b"
    "rdb_buckets db' = (rdb_buckets db)(k \<mapsto> b')" "bucket_ok k b'"
    "rdb_debts db' = rdb_debts db \<and> evt_DebtRepaid e = 0 \<and> evt_AvailableDelta e \<le> 0 \<or>
      (\<exists>d. rdb_debts db' = (rdb_debts db)(k \<mapsto> d) \<and> (dbt_OrganizationID d, dbt_ResourceType d) = k
        \<and> dbt_Amount d = debt_of db k - evt_DebtRepaid e)"
    "rdb_events db' = rdb_events db @ [e]" "event_key e = k"
    "bkt_Available b' = bkt_Available b + evt_AvailableDelta e"
    "bkt_Allocated b' = bkt_Allocated b + evt_AllocatedDelta e"
    "bkt_Reserved b' = bkt_Reserved b + evt_ReservedDelta e"
    "bkt_Consumed b' = bkt_Consumed b + evt_ConsumedDelta e"
    "evt_AvailableAfter e = bkt_Available b'" "evt_ReservedAfter e = bkt_Reserved b'"
    "evt_ConsumedAfter e = bkt_Consumed b'" "evt_BalanceAfter e = bkt_Available b'"
    "0 \<le> evt_DebtRepaid e" "evt_DebtRepaid e \<le> debt_of db k"
    "evt_DebtRepaid e < debt_of db k \<Longrightarrow> evt_AvailableDelta e \<le> 0" "0 < evt_Quantity e"
    "event_sum e = 0" "\<not> grant_event e"
  shows "moves e db db'"
proof -
  have "bucket_side b' d = res_balance db k d + event_delta e d" for d
    using assms(2,8-11) by (cases d) (simp_all add: res_balance_def)
  then show ?thesis using assms by (auto simp: moves_def)
qed

section \<open>The funding of a charge\<close>

definition funded :: "gotime \<Rightarrow> ConsumerChargeIntent \<Rightarrow> 'o res_db \<Rightarrow> 'o res_db" where
  "funded now i db =
     (if ccn_Funding i = FundingMember
      then with_position now (cci_OrganizationID (ccn_Identity i)) (ccn_MemberID i) (ccn_ResourceType i) db
      else db)"

definition intent_position :: "ConsumerChargeIntent \<Rightarrow> string \<times> string \<times> ResourceType" where
  "intent_position i = (cci_OrganizationID (ccn_Identity i), ccn_MemberID i, ccn_ResourceType i)"

definition intent_key :: "ConsumerChargeIntent \<Rightarrow> res_key" where
  "intent_key i = (cci_OrganizationID (ccn_Identity i), ccn_ResourceType i)"

definition funding_position :: "ConsumerChargeIntent \<Rightarrow> 'o res_db \<Rightarrow> memberResourcePositionRow option" where
  "funding_position i db =
     (if ccn_Funding i = FundingMember
      then find (\<lambda>p. position_key p = intent_position i) (rdb_positions db) else None)"

lemma lock_funding_Inr:
  "lock_funding now i db = Inr (po, db1) \<longleftrightarrow>
     db1 = funded now i db \<and> po = funding_position i db1 \<and> (ccn_Funding i = FundingMember \<longrightarrow> po \<noteq> None)"
  by (auto simp: lock_funding_def ok_simps lockMemberResourcePosition_Inr funded_def funding_position_def
      intent_position_def)

lemma funded_same [simp]:
  "rdb_buckets (funded t i db) = rdb_buckets db"
  "rdb_debts (funded t i db) = rdb_debts db"
  "rdb_operations (funded t i db) = rdb_operations db"
  "rdb_claims (funded t i db) = rdb_claims db"
  "rdb_events (funded t i db) = rdb_events db"
  "rdb_reservations (funded t i db) = rdb_reservations db"
  "rdb_limits (funded t i db) = rdb_limits db"
  "rdb_months (funded t i db) = rdb_months db"
  by (simp_all add: funded_def)

lemma funded_ok:
  "ledger_ok db \<Longrightarrow> ledger_ok (funded t i db)"
  "members_ok db \<Longrightarrow> IsMemberAllocatedResource (ccn_ResourceType i) \<Longrightarrow> members_ok (funded t i db)"
  by (simp_all add: funded_def with_position_ledger_ok with_position_ok)

text \<open>The position before and after a charge: its free and its reserved quantity move.\<close>

definition funds ::
  "ConsumerChargeIntent \<Rightarrow> memberResourcePositionRow option \<Rightarrow> memberResourcePositionRow option \<Rightarrow>
   int \<Rightarrow> int \<Rightarrow> bool" where
  "funds i po po' f r \<longleftrightarrow>
     (case (po, po') of
        (None, None) \<Rightarrow> ccn_Funding i \<noteq> FundingMember \<and> f = 0
      | (Some p, Some p') \<Rightarrow>
          ccn_Funding i = FundingMember \<and> position_key p' = position_key p \<and> position_ok p'
          \<and> pos_Free p' = pos_Free p + f \<and> pos_Reserved p' = pos_Reserved p + r
          \<and> pos_Version p' = pos_Version p + 1
      | _ \<Rightarrow> False)"

lemma charge_intentD:
  assumes "ValidConsumerChargeIntent i"
  shows "0 < ccn_Quantity i" "IsMemberAllocatedResource (ccn_ResourceType i)"
    "validResourceConsumer (cci_Consumer (ccn_Identity i))"
    "cci_Consumer (ccn_Identity i) \<notin> {SourceOnboardingWelcomeStorePeriod, SourceCommercialOrderItem, SourceLocalAITrial}"
    "ccn_ResourceType i = consumer_resource (cci_Consumer (ccn_Identity i))"
  using assms
  by (auto simp: ValidConsumerChargeIntent_def IsMemberAllocatedResource_def validResourceConsumer_def Let_def
      consumer_resource_def split: if_splits)

lemma charge_members_ok:
  assumes mok: "members_ok db" and m: "moves e db db'" and key: "event_key e = intent_key i"
    and po: "po = funding_position i db" and f: "funds i po po' (evt_AllocatedDelta e) dr"
    and pos: "rdb_positions db' = rdb_positions (save_funding po' db)"
    and charges: "\<And>pk. open_charges (rdb_reservations db') pk = open_charges (rdb_reservations db) pk
      + (if ccn_Funding i = FundingMember \<and> pk = intent_position i then dr else 0)"
    and cons: "\<And>r. r \<in> set (rdb_reservations db') \<Longrightarrow> rsv_ChargeProtocol r = consumerChargeProtocol \<Longrightarrow>
      consumer_row r"
  shows "members_ok db'"
proof (cases po)
  case None
  with f have n: "po' = None" "ccn_Funding i \<noteq> FundingMember" "evt_AllocatedDelta e = 0"
    by (auto simp: funds_def split: option.splits)
  show ?thesis
    by (rule members_ok_same [OF mok])
       (use n pos charges cons moves_balance [OF m] in \<open>auto simp: save_funding_def\<close>)
next
  case (Some p)
  with f obtain p' where p': "po' = Some p'" "ccn_Funding i = FundingMember" "position_key p' = position_key p"
    "position_ok p'" "pos_Free p' = pos_Free p + evt_AllocatedDelta e" "pos_Reserved p' = pos_Reserved p + dr"
    by (auto simp: funds_def split: option.splits)
  have p: "p \<in> set (rdb_positions db)" "position_key p = intent_position i"
    using Some po find_SomeD [of _ "rdb_positions db" p] p'(2) by (auto simp: funding_position_def)
  show ?thesis
    by (rule members_move [OF mok p(1) p'(3) _ p'(4)])
       (use pos p' p key charges cons moves_balance [OF m] in
         \<open>auto simp: save_funding_def save_position_def intent_key_def intent_position_def position_key_def\<close>)
qed

section \<open>The journal of charges\<close>

text \<open>A table row is stored under its own key.\<close>

definition journal_ok :: "'o res_db \<Rightarrow> bool" where
  "journal_ok db \<longleftrightarrow>
     (\<forall>k op. rdb_operations db k = Some op \<longrightarrow> (opr_OrganizationID op, opr_OperationID op) = k)"

definition charge_done :: "digests \<Rightarrow> string \<Rightarrow> string \<Rightarrow> ConsumerChargeIntent \<Rightarrow> 'o res_db \<Rightarrow> bool" where
  "charge_done dg prefix kind i db \<longleftrightarrow>
     (\<exists>op. rdb_operations db (cci_OrganizationID (ccn_Identity i), chargeOperationKey dg prefix (ccn_Identity i)) = Some op
        \<and> opr_State op = ''succeeded'' \<and> opr_OperationType op = kind
        \<and> opr_RequestFingerprint op = chargeFingerprint dg i)"

lemma lockFixed_key:
  assumes "lockFixedResourceOperation org key kind fp db = Inr (op, db1)" "journal_ok db"
  shows "opr_OrganizationID op = org" "opr_OperationID op = key"
  using assms
  by (auto simp: lockFixedResourceOperation_def journal_ok_def Let_def ok_simps zero_rows split: if_splits)

section \<open>Reserving a charge\<close>

lemma charge_reserve_Inr:
  assumes run: "charge_reserve now i b po = Inr (b', po', da, dl)"
    and b: "bucket_ok k b" and po: "\<And>p. po = Some p \<Longrightarrow> position_ok p"
    and fund: "po \<noteq> None \<longleftrightarrow> ccn_Funding i = FundingMember"
    and q: "0 < ccn_Quantity i" "in64 (ccn_Quantity i)" and rt: "snd k \<noteq> ResourceAIPoint"
    and room: "\<not> bkt_Reserved b > sub64 max64 (ccn_Quantity i)"
  shows "b' = b\<lparr>bkt_Available := bkt_Available b + da, bkt_Allocated := bkt_Allocated b + dl,
      bkt_Reserved := bkt_Reserved b + ccn_Quantity i\<rparr>"
    "bucket_ok k (b'\<lparr>bkt_UpdatedAt := t\<rparr>)" "da + dl = - ccn_Quantity i" "da \<le> 0"
    "funds i po po' dl (ccn_Quantity i)"
proof -
  note B = bucket_okD [OF b]
  have fit: "bkt_Reserved b + ccn_Quantity i \<le> max64" using room max64_guard [of "ccn_Quantity i"] q by auto
  have add: "add64 (bkt_Reserved b) (ccn_Quantity i) = bkt_Reserved b + ccn_Quantity i"
    using B q fit by (auto intro: add64_guarded)
  have neg: "neg64 (ccn_Quantity i) = - ccn_Quantity i" using q by (auto intro: neg64_nonneg)
  have all: "b' = b\<lparr>bkt_Available := bkt_Available b + da, bkt_Allocated := bkt_Allocated b + dl,
      bkt_Reserved := bkt_Reserved b + ccn_Quantity i\<rparr>
    \<and> 0 \<le> bkt_Available b + da \<and> 0 \<le> bkt_Allocated b + dl
    \<and> da + dl = - ccn_Quantity i \<and> da \<le> 0 \<and> dl \<le> 0 \<and> funds i po po' dl (ccn_Quantity i)"
  proof (cases po)
    case None
    have "sub64 (bkt_Available b) (ccn_Quantity i) = bkt_Available b - ccn_Quantity i"
      using B q by (auto intro: sub64_nonneg)
    then show ?thesis using run None fund add neg B q
      by (auto simp: charge_reserve_def ok_simps funds_def)
  next
    case (Some p)
    have P: "0 \<le> pos_Free p" "in64 (pos_Free p)" "0 \<le> pos_Reserved p" "in64 (pos_Reserved p)"
      "0 \<le> pos_Version p" "in64 (pos_Version p)"
      using po [OF Some] by (auto simp: position_ok_def)
    have g: "ccn_Quantity i \<le> pos_Free p" "ccn_Quantity i \<le> bkt_Allocated b" "pos_Version p \<noteq> max64"
      "pos_Reserved p + ccn_Quantity i \<le> max64"
      using run Some max64_guard [of "ccn_Quantity i"] q by (auto simp: charge_reserve_def ok_simps)
    have ar: "sub64 (bkt_Allocated b) (ccn_Quantity i) = bkt_Allocated b - ccn_Quantity i"
      "sub64 (pos_Free p) (ccn_Quantity i) = pos_Free p - ccn_Quantity i"
      "add64 (pos_Reserved p) (ccn_Quantity i) = pos_Reserved p + ccn_Quantity i"
      "add64 (pos_Version p) 1 = pos_Version p + 1"
      using B P q g by (auto intro: sub64_nonneg add64_guarded simp: in64_unfold)
    show ?thesis using run Some fund add neg g ar B P q po [OF Some]
      by (auto simp: charge_reserve_def ok_simps funds_def position_key_def position_ok_def in64_unfold)
  qed
  then show "b' = b\<lparr>bkt_Available := bkt_Available b + da, bkt_Allocated := bkt_Allocated b + dl,
      bkt_Reserved := bkt_Reserved b + ccn_Quantity i\<rparr>" "da + dl = - ccn_Quantity i" "da \<le> 0"
    "funds i po po' dl (ccn_Quantity i)" by blast+
  show "bucket_ok k (b'\<lparr>bkt_UpdatedAt := t\<rparr>)"
    using all B fit q rt by (intro bucket_okI) (auto simp: in64_unfold)
qed

text \<open>The statements that finish a charge, reserved or settled.\<close>

lemma finish_charge_Inr:
  assumes b: "rdb_buckets db k = Some b" "(bkt_OrganizationID b', bkt_ResourceType b') = k"
    "bkt_OrganizationID b = bkt_OrganizationID b'" "bkt_ResourceType b = bkt_ResourceType b'"
    and run: "updateConsumerBucket b' now db = Inr db1" "completeChargeOperation op receipt now db1 = Inr db2"
      "createConsumerEvent ev row b' oid reason (da, dl, dr, dc) credit now db2 = Inr db'"
  shows "rdb_buckets db' = (rdb_buckets db)(k \<mapsto> b'\<lparr>bkt_UpdatedAt := now\<rparr>)" "rdb_debts db' = rdb_debts db"
    "rdb_claims db' = rdb_claims db" "rdb_reservations db' = rdb_reservations db"
    "rdb_positions db' = rdb_positions db" "rdb_limits db' = rdb_limits db" "rdb_months db' = rdb_months db"
    "\<exists>e. rdb_events db' = rdb_events db @ [e]
      \<and> event_key e = (rsv_OrganizationID row, rsv_ResourceType row) \<and> evt_Quantity e = rsv_Quantity row
      \<and> evt_AvailableDelta e = da \<and> evt_AllocatedDelta e = dl \<and> evt_ReservedDelta e = dr
      \<and> evt_ConsumedDelta e = dc \<and> evt_SourceType e = rsv_OwnerType row
      \<and> evt_SourceIdentity e = rsv_OwnerAttemptID row \<and> evt_DebtRepaid e = pca_debtRepaid credit
      \<and> evt_AvailableAfter e = bkt_Available b' \<and> evt_AllocatedAfter e = bkt_Allocated b'
      \<and> evt_ReservedAfter e = bkt_Reserved b' \<and> evt_ConsumedAfter e = bkt_Consumed b'
      \<and> evt_BalanceAfter e = bkt_Available b'"
    "\<exists>p p'. rdb_operations db (opr_OrganizationID op, opr_OperationID op) = Some p
      \<and> rdb_operations db' (opr_OrganizationID op, opr_OperationID op) = Some p'
      \<and> opr_State p' = ''succeeded'' \<and> opr_OperationType p' = opr_OperationType p
      \<and> opr_RequestFingerprint p' = opr_RequestFingerprint p"
proof -
  have upd: "b\<lparr>bkt_Available := bkt_Available b', bkt_Allocated := bkt_Allocated b', bkt_Reserved := bkt_Reserved b',
      bkt_Consumed := bkt_Consumed b', bkt_UpdatedAt := now\<rparr> = b'\<lparr>bkt_UpdatedAt := now\<rparr>"
    using b(3,4) by simp
  have 1: "db1 = db\<lparr>rdb_buckets := (rdb_buckets db)(k \<mapsto> b'\<lparr>bkt_UpdatedAt := now\<rparr>)\<rparr>"
    using run(1) b(1,2) upd by (auto simp: updateConsumerBucket_def update_bucket_def ok_simps)
  obtain ops where 2: "db2 = db1\<lparr>rdb_operations := ops\<rparr>"
    and p: "\<exists>p p'. rdb_operations db1 (opr_OrganizationID op, opr_OperationID op) = Some p
      \<and> ops (opr_OrganizationID op, opr_OperationID op) = Some p'
      \<and> opr_State p' = ''succeeded'' \<and> opr_OperationType p' = opr_OperationType p
      \<and> opr_RequestFingerprint p' = opr_RequestFingerprint p"
    using run(2) by (auto simp: completeChargeOperation_def update_operation_def ok_simps split: option.splits if_splits)
  show "rdb_buckets db' = (rdb_buckets db)(k \<mapsto> b'\<lparr>bkt_UpdatedAt := now\<rparr>)" "rdb_debts db' = rdb_debts db"
    "rdb_claims db' = rdb_claims db" "rdb_reservations db' = rdb_reservations db"
    "rdb_positions db' = rdb_positions db" "rdb_limits db' = rdb_limits db" "rdb_months db' = rdb_months db"
    using run(3) by (auto simp: createConsumerEvent_def ok_simps insert_audit_def 1 2)
  show "\<exists>e. rdb_events db' = rdb_events db @ [e]
      \<and> event_key e = (rsv_OrganizationID row, rsv_ResourceType row) \<and> evt_Quantity e = rsv_Quantity row
      \<and> evt_AvailableDelta e = da \<and> evt_AllocatedDelta e = dl \<and> evt_ReservedDelta e = dr
      \<and> evt_ConsumedDelta e = dc \<and> evt_SourceType e = rsv_OwnerType row
      \<and> evt_SourceIdentity e = rsv_OwnerAttemptID row \<and> evt_DebtRepaid e = pca_debtRepaid credit
      \<and> evt_AvailableAfter e = bkt_Available b' \<and> evt_AllocatedAfter e = bkt_Allocated b'
      \<and> evt_ReservedAfter e = bkt_Reserved b' \<and> evt_ConsumedAfter e = bkt_Consumed b'
      \<and> evt_BalanceAfter e = bkt_Available b'"
    using run(3) by (auto simp: createConsumerEvent_def ok_simps insert_audit_def zero_rows event_key_def 1 2)
  have "rdb_operations db' = ops"
    using run(3) by (auto simp: createConsumerEvent_def ok_simps insert_audit_def 1 2)
  with p show "\<exists>p p'. rdb_operations db (opr_OrganizationID op, opr_OperationID op) = Some p
      \<and> rdb_operations db' (opr_OrganizationID op, opr_OperationID op) = Some p'
      \<and> opr_State p' = ''succeeded'' \<and> opr_OperationType p' = opr_OperationType p
      \<and> opr_RequestFingerprint p' = opr_RequestFingerprint p" by (simp add: 1)
qed

lemma save_funding_same [simp]:
  "rdb_buckets (save_funding po db) = rdb_buckets db" "rdb_debts (save_funding po db) = rdb_debts db"
  "rdb_claims (save_funding po db) = rdb_claims db" "rdb_events (save_funding po db) = rdb_events db"
  "rdb_reservations (save_funding po db) = rdb_reservations db" "rdb_limits (save_funding po db) = rdb_limits db"
  "rdb_months (save_funding po db) = rdb_months db"
  by (simp_all add: save_funding_def save_position_def split: option.splits)

lemma save_funding_positions:
  "rdb_positions db1 = rdb_positions db \<Longrightarrow>
   rdb_positions (save_funding po db1) = rdb_positions (save_funding po db)"
  by (simp add: save_funding_def save_position_def split: option.splits)

text \<open>The row a reservation of an intent writes.\<close>

definition charged_row :: "ConsumerChargeIntent \<Rightarrow> organizationResourceReservationRow \<Rightarrow> bool" where
  "charged_row i row \<longleftrightarrow>
     rsv_ChargeProtocol row = consumerChargeProtocol \<and> rsv_ChargeFunding row = ccn_Funding i
     \<and> reservation_key row = intent_key i \<and> charge_position row = intent_position i
     \<and> rsv_Quantity row = ccn_Quantity i \<and> rsv_OwnerType row = cci_Consumer (ccn_Identity i)
     \<and> ccr_Intent (consumerChargeReceipt row) = i"

lemma charged_row_member: "charged_row i row \<Longrightarrow> member_charge row \<longleftrightarrow> ccn_Funding i = FundingMember"
  by (simp add: charged_row_def member_charge_def)

lemma charged_rowI:
  "ccr_Intent (consumerChargeReceipt row) = i \<Longrightarrow> rsv_ChargeProtocol row = consumerChargeProtocol \<Longrightarrow>
   charged_row i row"
  by (auto simp: charged_row_def consumerChargeReceipt_def intent_key_def reservation_key_def
      charge_position_def intent_position_def)

lemma chargeReserveTx_effect:
  assumes run: "chargeReserveTx dg env i db = Inr (out, db')" and ok: "ledger_ok db" and mok: "members_ok db"
    and i: "ValidConsumerChargeIntent i" "in64 (ccn_Quantity i)"
  defines "db1 \<equiv> funded (rnv_now env 0) i db"
  obtains (replay) row where "db' = db1" "readConsumerReservation (ccn_Identity i) db1 = Inr row"
      "out = consumerChargeReceipt row" "ccr_Intent out = i"
      "charge_done dg ''consumer-reserve:'' ''reserve_consumer_resource'' i db1"
  | (reserve) e row po' where "moves e db1 db'" "\<not> grant_event e"
      "event_key e = intent_key i" "evt_ReservedDelta e = ccn_Quantity i" "evt_ConsumedDelta e = 0"
      "rdb_reservations db' = rdb_reservations db @ [row]"
      "\<forall>y\<in>set (rdb_reservations db). \<not> reservation_row_clash row y"
      "charged_row i row" "rsv_State row = ReservationReserved" "rsv_SettlementOperationID row = None"
      "funds i (funding_position i db1) po' (evt_AllocatedDelta e) (ccn_Quantity i)"
      "rdb_positions db' = rdb_positions (save_funding po' db1)"
      "rdb_claims db' = rdb_claims db" "rdb_months db' = rdb_months db" "rdb_limits db' = rdb_limits db"
      "out = consumerChargeReceipt row" "consumer_row row"
      "journal_ok db \<longrightarrow> charge_done dg ''consumer-reserve:'' ''reserve_consumer_resource'' i db'"
proof -
  let ?k = "intent_key i"
  note I = charge_intentD [OF i(1)]
  let ?row = "\<lambda>op b' po'. charge_row i (rnv_uuid env 0) (opr_OperationID op) (rnv_now env 1) (charge_balance b' po')"
  from run obtain b op db2 where pre: "rdb_buckets db ?k = Some b"
      "ccn_Funding i = FundingMember \<longrightarrow> funding_position i db1 \<noteq> None"
      "lockFixedResourceOperation (cci_OrganizationID (ccn_Identity i))
         (chargeOperationKey dg ''consumer-reserve:'' (ccn_Identity i)) ''reserve_consumer_resource''
         (chargeFingerprint dg i) db1 = Inr (op, db2)"
    by (auto simp: chargeReserveTx_def Let_def ok_simps lock_funding_Inr db1_def intent_key_def)
  have fold: "rdb_buckets db (cci_OrganizationID (ccn_Identity i), ccn_ResourceType i) = Some b"
    "lock_funding (rnv_now env 0) i db = Inr (funding_position i db1, db1)"
    using pre by (auto simp: intent_key_def lock_funding_Inr db1_def)
  consider (again) row where "db' = db1" "readConsumerReservation (ccn_Identity i) db1 = Inr row"
      "out = consumerChargeReceipt row" "ccr_Intent out = i" "opr_State op = ''succeeded''" "db2 = db1" | (new) b' po' da dl db4 db5 db6 where
      "\<not> bkt_Reserved b > sub64 max64 (ccn_Quantity i)"
      "charge_reserve (rnv_now env 1) i b (funding_position i db1) = Inr (b', po', da, dl)"
      "insert_reservation (?row op b' po') (save_funding po' db2) = Inr db4"
      "updateConsumerBucket b' (rnv_now env 1) db4 = Inr db5"
      "completeChargeOperation op (consumerChargeReceipt (?row op b' po')) (rnv_now env 1) db5 = Inr db6"
      "createConsumerEvent (rnv_uuid env 1) (?row op b' po') b' (opr_OperationID op) ''reserve''
         (da, dl, ccn_Quantity i, 0) no_credit (rnv_now env 1) db6 = Inr db'"
      "out = consumerChargeReceipt (?row op b' po')"
  proof (cases "opr_State op = ''succeeded''")
    case True
    have "db2 = db1" using lockFixed_Inr(4) [OF pre(3)] True by simp
    with run True pre(3) show ?thesis
      by (auto simp: chargeReserveTx_def Let_def fold and_then_Inr if_Inl_Inr intro!: that(1))
  next
    case False
    show ?thesis
      using run False
      by (auto simp: chargeReserveTx_def Let_def fold pre(3) and_then_Inr if_Inl_Inr intro!: that(2))
  qed
  then show thesis
  proof cases
    case (again row)
    obtain ops where "db2 = db1\<lparr>rdb_operations := ops\<rparr>"
      "ops (cci_OrganizationID (ccn_Identity i), chargeOperationKey dg ''consumer-reserve:'' (ccn_Identity i)) = Some op"
      using lockFixed_Inr(1) [OF pre(3)] by blast
    then have "rdb_operations db2
        (cci_OrganizationID (ccn_Identity i), chargeOperationKey dg ''consumer-reserve:'' (ccn_Identity i)) = Some op"
      by simp
    then have "charge_done dg ''consumer-reserve:'' ''reserve_consumer_resource'' i db1"
      unfolding again(6) using lockFixed_Inr(2,3) [OF pre(3)] again(5) by (simp add: charge_done_def)
    with again show ?thesis by (intro replay)
  next
    case new
    obtain ops where ops: "db2 = db1\<lparr>rdb_operations := ops\<rparr>" using lockFixed_Inr(1) [OF pre(3)] by blast
    have ok1: "ledger_ok db1" and mok1: "members_ok db1"
      using funded_ok ok mok I(2) by (auto simp: db1_def)
    have bok: "bucket_ok ?k b" by (rule ledger_okD(1) [OF ok pre(1)])
    have pok: "position_ok p" if "funding_position i db1 = Some p" for p
      using that members_okD(2) [OF mok1] find_SomeD [of _ "rdb_positions db1" p]
      by (auto simp: funding_position_def split: if_splits)
    have fund: "funding_position i db1 \<noteq> None \<longleftrightarrow> ccn_Funding i = FundingMember"
      using pre(2) by (auto simp: funding_position_def)
    have rt: "snd ?k \<noteq> ResourceAIPoint" using I(2) by (auto simp: intent_key_def IsMemberAllocatedResource_def)
    note C = charge_reserve_Inr [OF new(2) bok pok fund I(1) i(2) rt new(1)]
    note B = bucket_okD [OF bok]
    let ?r = "?row op b' po'"
    have 4: "db4 = (save_funding po' db2)\<lparr>rdb_reservations := rdb_reservations db @ [?r]\<rparr>"
      "\<forall>y\<in>set (rdb_reservations db). \<not> reservation_row_clash ?r y"
      using new(3) by (auto simp: ok_simps ops db1_def)
    have b4: "rdb_buckets db4 ?k = Some b" using pre(1) by (simp add: 4 ops db1_def)
    have b': "(bkt_OrganizationID b', bkt_ResourceType b') = ?k" "bkt_OrganizationID b = bkt_OrganizationID b'"
      "bkt_ResourceType b = bkt_ResourceType b'"
      using B(9,10) C(1) by auto
    note F = finish_charge_Inr [OF b4 b' new(4-6)]
    from F(8) obtain e where
      e: "rdb_events db' = rdb_events db4 @ [e]"
      "event_key e = (rsv_OrganizationID ?r, rsv_ResourceType ?r)" "evt_Quantity e = rsv_Quantity ?r"
      "evt_AvailableDelta e = da" "evt_AllocatedDelta e = dl" "evt_ReservedDelta e = ccn_Quantity i"
      "evt_ConsumedDelta e = 0" "evt_SourceType e = rsv_OwnerType ?r"
      "evt_DebtRepaid e = pca_debtRepaid no_credit"
      "evt_AvailableAfter e = bkt_Available b'" "evt_ReservedAfter e = bkt_Reserved b'"
      "evt_ConsumedAfter e = bkt_Consumed b'" "evt_BalanceAfter e = bkt_Available b'" by blast
    have row: "charged_row i ?r" "rsv_State ?r = ReservationReserved" "rsv_SettlementOperationID ?r = None"
      by (simp_all add: charge_row_def charged_row_def zero_rows consumerChargeReceipt_def intent_key_def
          reservation_key_def charge_position_def intent_position_def)
    have k: "event_key e = ?k" using e(2) row(1) by (simp add: charged_row_def reservation_key_def)
    have g: "\<not> grant_event e" using e(8) row(1) I(4) by (auto simp: grant_event_def charged_row_def)
    have m: "moves e db1 db'"
      by (rule bucket_moves [OF ok1 _ _ C(2) [where t = "rnv_now env 1"] _ _ k])
         (use pre(1) F 4(1) e C(1,3,4) g row(1) I(1) in
           \<open>auto simp: db1_def ops event_sum_def no_credit_def charged_row_def\<close>)
    have crow: "consumer_row ?r"
      using I(3,5) by (simp add: consumer_row_def charge_row_def zero_rows)
    have jdone: "charge_done dg ''consumer-reserve:'' ''reserve_consumer_resource'' i db'" if j: "journal_ok db"
    proof -
      have j1: "journal_ok db1" using j by (simp add: journal_ok_def db1_def)
      note L = lockFixed_Inr [OF pre(3)] lockFixed_key [OF pre(3) j1]
      have "rdb_operations db4 = rdb_operations db2"
        by (simp add: 4(1) save_funding_def save_position_def split: option.splits)
      then show ?thesis using F(9) L by (auto simp: charge_done_def)
    qed
    show ?thesis
      by (rule reserve [OF m g k e(6,7) _ 4(2) row _ _ _ _ _ _ crow])
         (use F(1-7) 4(1) e(5) C(5) new(7) jdone in \<open>auto simp: ops db1_def intro: save_funding_positions\<close>)
  qed
qed

section \<open>Settling a charge\<close>

lemma charge_outcome_Inr:
  assumes run: "charge_outcome now i effect b db = Inr ((b', credit, da, dl, dc, state), db1)"
    and ok: "ledger_ok db" and b: "bucket_ok (intent_key i) b"
    and q: "0 < ccn_Quantity i" "in64 (ccn_Quantity i)" and rt: "ccn_ResourceType i \<noteq> ResourceAIPoint"
    and enough: "ccn_Quantity i \<le> bkt_Reserved b"
  shows "b' = b\<lparr>bkt_Available := bkt_Available b + da, bkt_Allocated := bkt_Allocated b + dl,
      bkt_Reserved := bkt_Reserved b - ccn_Quantity i, bkt_Consumed := bkt_Consumed b + dc\<rparr>"
    "bucket_ok (intent_key i) (b'\<lparr>bkt_UpdatedAt := t\<rparr>)"
    "da + dl + dc + pca_debtRepaid credit = ccn_Quantity i" "0 \<le> pca_debtRepaid credit"
    "pca_debtRepaid credit \<le> debt_of db (intent_key i)"
    "pca_debtRepaid credit < debt_of db (intent_key i) \<Longrightarrow> da \<le> 0"
    "dl = (if effect \<noteq> ConsumerEffectSucceeded \<and> ccn_Funding i = FundingMember then pca_net credit else 0)"
    "0 \<le> pca_net credit" "in64 (pca_net credit)"
    "db1 = db \<and> pca_debtRepaid credit = 0 \<and> da \<le> 0 \<or>
      (\<exists>d. db1 = db\<lparr>rdb_debts := (rdb_debts db)(intent_key i \<mapsto> d)\<rparr>
        \<and> (dbt_OrganizationID d, dbt_ResourceType d) = intent_key i
        \<and> dbt_Amount d = debt_of db (intent_key i) - pca_debtRepaid credit)"
    "state = (if effect = ConsumerEffectSucceeded then ReservationCommitted else ReservationReleased)"
    "dc = (if effect = ConsumerEffectSucceeded then ccn_Quantity i else 0)"
proof -
  note B = bucket_okD [OF b]
  have sub: "sub64 (bkt_Reserved b) (ccn_Quantity i) = bkt_Reserved b - ccn_Quantity i"
    using B q by (intro sub64_nonneg) auto
  have debt: "0 \<le> debt_of db (intent_key i)" by (rule ledger_okD(4) [OF ok])
  have all: "b' = b\<lparr>bkt_Available := bkt_Available b + da, bkt_Allocated := bkt_Allocated b + dl,
      bkt_Reserved := bkt_Reserved b - ccn_Quantity i, bkt_Consumed := bkt_Consumed b + dc\<rparr>
    \<and> bkt_Available b + da \<le> max64 \<and> bkt_Allocated b + dl \<le> max64 \<and> bkt_Consumed b + dc \<le> max64
    \<and> 0 \<le> da \<and> 0 \<le> dl \<and> 0 \<le> dc
    \<and> da + dl + dc + pca_debtRepaid credit = ccn_Quantity i \<and> 0 \<le> pca_debtRepaid credit
    \<and> pca_debtRepaid credit \<le> debt_of db (intent_key i)
    \<and> (pca_debtRepaid credit < debt_of db (intent_key i) \<longrightarrow> da \<le> 0)
    \<and> dl = (if effect \<noteq> ConsumerEffectSucceeded \<and> ccn_Funding i = FundingMember then pca_net credit else 0)
    \<and> 0 \<le> pca_net credit \<and> in64 (pca_net credit)
    \<and> (db1 = db \<and> pca_debtRepaid credit = 0 \<and> da \<le> 0 \<or>
      (\<exists>d. db1 = db\<lparr>rdb_debts := (rdb_debts db)(intent_key i \<mapsto> d)\<rparr>
        \<and> (dbt_OrganizationID d, dbt_ResourceType d) = intent_key i
        \<and> dbt_Amount d = debt_of db (intent_key i) - pca_debtRepaid credit))
    \<and> state = (if effect = ConsumerEffectSucceeded then ReservationCommitted else ReservationReleased)
    \<and> dc = (if effect = ConsumerEffectSucceeded then ccn_Quantity i else 0)"
  proof (cases "effect = ConsumerEffectSucceeded")
    case True
    have "\<not> bkt_Consumed b > sub64 max64 (ccn_Quantity i)"
      using run True by (auto simp: charge_outcome_def Let_def ok_simps)
    then have fit: "bkt_Consumed b + ccn_Quantity i \<le> max64" using max64_guard [of "ccn_Quantity i"] q by auto
    then have "add64 (bkt_Consumed b) (ccn_Quantity i) = bkt_Consumed b + ccn_Quantity i"
      using B q by (auto intro: add64_guarded)
    then show ?thesis
      using run True fit B q debt by (auto simp: charge_outcome_def Let_def ok_simps sub no_credit_def in64_unfold)
  next
    case False
    let ?side = "if ccn_Funding i = FundingMember then bkt_Allocated b else bkt_Available b"
    obtain cr where c: "applyPositiveCredit (cci_OrganizationID (ccn_Identity i)) (ccn_ResourceType i)
        (ccn_Quantity i) ?side now db = Inr (cr, db1)" "credit = cr"
      "b' = (if ccn_Funding i = FundingMember
         then b\<lparr>bkt_Allocated := pca_availableAfter cr, bkt_Reserved := bkt_Reserved b - ccn_Quantity i\<rparr>
         else b\<lparr>bkt_Available := pca_availableAfter cr, bkt_Reserved := bkt_Reserved b - ccn_Quantity i\<rparr>)"
      "da = (if ccn_Funding i = FundingMember then 0 else pca_net cr)"
      "dl = (if ccn_Funding i = FundingMember then pca_net cr else 0)" "dc = 0" "state = ReservationReleased"
      using run False
      by (cases "ccn_Funding i = FundingMember") (auto simp: charge_outcome_def Let_def ok_simps sub)
    have side: "0 \<le> ?side" "in64 ?side" using B by auto
    from applyPositiveCredit_Inr [OF c(1) ok less_imp_le [OF q(1)] q(2) side]
    obtain d where d: "db1 = db\<lparr>rdb_debts := (rdb_debts db)(intent_key i \<mapsto> d)\<rparr>"
      "(dbt_OrganizationID d, dbt_ResourceType d) = intent_key i"
      "dbt_Amount d = debt_of db (intent_key i) - pca_debtRepaid cr"
      "pca_debtRepaid cr = min (debt_of db (intent_key i)) (ccn_Quantity i)"
      "pca_net cr = ccn_Quantity i - pca_debtRepaid cr"
      "pca_availableAfter cr = ?side + pca_net cr" "pca_availableAfter cr \<le> max64" "0 \<le> pca_net cr"
      unfolding intent_key_def by blast
    have "0 \<le> pca_debtRepaid cr" "pca_debtRepaid cr \<le> debt_of db (intent_key i)"
      "pca_debtRepaid cr < debt_of db (intent_key i) \<longrightarrow> pca_net cr \<le> 0" "in64 (pca_net cr)"
      using d(4,5,8) debt q by (auto simp: in64_unfold)
    with False c(2-7) d B show ?thesis by (auto simp: in64_unfold)
  qed
  then show "b' = b\<lparr>bkt_Available := bkt_Available b + da, bkt_Allocated := bkt_Allocated b + dl,
      bkt_Reserved := bkt_Reserved b - ccn_Quantity i, bkt_Consumed := bkt_Consumed b + dc\<rparr>"
    "da + dl + dc + pca_debtRepaid credit = ccn_Quantity i" "0 \<le> pca_debtRepaid credit"
    "pca_debtRepaid credit \<le> debt_of db (intent_key i)"
    "pca_debtRepaid credit < debt_of db (intent_key i) \<Longrightarrow> da \<le> 0"
    "dl = (if effect \<noteq> ConsumerEffectSucceeded \<and> ccn_Funding i = FundingMember then pca_net credit else 0)"
    "0 \<le> pca_net credit" "in64 (pca_net credit)"
    "db1 = db \<and> pca_debtRepaid credit = 0 \<and> da \<le> 0 \<or>
      (\<exists>d. db1 = db\<lparr>rdb_debts := (rdb_debts db)(intent_key i \<mapsto> d)\<rparr>
        \<and> (dbt_OrganizationID d, dbt_ResourceType d) = intent_key i
        \<and> dbt_Amount d = debt_of db (intent_key i) - pca_debtRepaid credit)"
    "state = (if effect = ConsumerEffectSucceeded then ReservationCommitted else ReservationReleased)"
    "dc = (if effect = ConsumerEffectSucceeded then ccn_Quantity i else 0)"
    by blast+
  from all B enough q rt show "bucket_ok (intent_key i) (b'\<lparr>bkt_UpdatedAt := t\<rparr>)"
    by (intro bucket_okI) (auto simp: in64_unfold intent_key_def)
qed

lemma settle_position_Inr:
  assumes run: "settle_position now i effect credit po = Inr po'"
    and po: "\<And>p. po = Some p \<Longrightarrow> position_ok p"
    and fund: "po \<noteq> None \<longleftrightarrow> ccn_Funding i = FundingMember"
    and q: "0 < ccn_Quantity i" "in64 (ccn_Quantity i)" and net: "0 \<le> pca_net credit" "in64 (pca_net credit)"
  shows "funds i po po'
    (if effect \<noteq> ConsumerEffectSucceeded \<and> ccn_Funding i = FundingMember then pca_net credit else 0)
    (- ccn_Quantity i)"
proof (cases po)
  case None
  with run fund show ?thesis by (auto simp: settle_position_def funds_def)
next
  case (Some p)
  have P: "0 \<le> pos_Free p" "in64 (pos_Free p)" "0 \<le> pos_Reserved p" "in64 (pos_Reserved p)"
    "0 \<le> pos_Consumed p" "in64 (pos_Consumed p)" "0 \<le> pos_Version p" "in64 (pos_Version p)"
    using po [OF Some] by (auto simp: position_ok_def)
  have g: "ccn_Quantity i \<le> pos_Reserved p" "pos_Version p \<noteq> max64"
    using run Some by (auto simp: settle_position_def ok_simps)
  have ar: "sub64 (pos_Reserved p) (ccn_Quantity i) = pos_Reserved p - ccn_Quantity i"
    "add64 (pos_Version p) 1 = pos_Version p + 1"
    using P q g by (auto intro: sub64_nonneg add64_guarded simp: in64_unfold)
  show ?thesis
  proof (cases "effect = ConsumerEffectSucceeded")
    case True
    then have "\<not> pos_Consumed p > sub64 max64 (ccn_Quantity i)"
      using run Some by (auto simp: settle_position_def Let_def ok_simps)
    then have fit: "pos_Consumed p + ccn_Quantity i \<le> max64" using max64_guard [of "ccn_Quantity i"] q by auto
    then have "add64 (pos_Consumed p) (ccn_Quantity i) = pos_Consumed p + ccn_Quantity i"
      using P q by (auto intro: add64_guarded)
    with run Some True fund ar fit g P q po [OF Some] show ?thesis
      by (auto simp: settle_position_def Let_def ok_simps funds_def position_key_def position_ok_def in64_unfold)
  next
    case False
    then have "\<not> pos_Free p > sub64 max64 (pca_net credit)"
      using run Some by (auto simp: settle_position_def Let_def ok_simps)
    then have fit: "pos_Free p + pca_net credit \<le> max64" using max64_guard [of "pca_net credit"] net by auto
    then have "add64 (pos_Free p) (pca_net credit) = pos_Free p + pca_net credit"
      using P net by (auto intro: add64_guarded)
    with run Some False fund ar fit g P q net po [OF Some] show ?thesis
      by (auto simp: settle_position_def Let_def ok_simps funds_def position_key_def position_ok_def in64_unfold)
  qed
qed

lemma readConsumerReservation_Inr:
  assumes "readConsumerReservation ident db = Inr r"
  shows "r \<in> set (rdb_reservations db)" "rsv_ChargeProtocol r = consumerChargeProtocol"
  using assms find_SomeD [of _ "rdb_reservations db" r]
  by (auto simp: readConsumerReservation_def ok_simps)

lemma chargeSettleTx_effect:
  assumes run: "chargeSettleTx dg env (original, tproof) db = Inr (out, db')" and ok: "ledger_ok db" and mok: "members_ok db"
    and i: "i = ccr_Intent original" "ValidConsumerChargeIntent i" "in64 (ccn_Quantity i)"
  defines "db1 \<equiv> funded (rnv_now env 0) i db"
  obtains (replay) row where "db' = db1" "row \<in> set (rdb_reservations db')" "rsv_ChargeProtocol row = consumerChargeProtocol"
      "out = consumerChargeReceipt row"
  | (settle) e r r' po' where "moves e db1 db'" "\<not> grant_event e"
      "event_key e = intent_key i" "evt_ReservedDelta e = - ccn_Quantity i"
      "evt_ConsumedDelta e = (if ccp_State tproof = ConsumerEffectSucceeded then ccn_Quantity i else 0)"
      "r \<in> set (rdb_reservations db)" "charged_row i r" "rsv_State r = ReservationReserved"
      "\<exists>balance t oper. r' = settled_row r (if ccp_State tproof = ConsumerEffectSucceeded
         then ReservationCommitted else ReservationReleased) (ccp_EvidenceID tproof) balance t oper"
      "rdb_reservations db' =
         update_rows (\<lambda>x. reservation_id x = reservation_id r) (\<lambda>_. r') (rdb_reservations db)"
      "funds i (funding_position i db1) po' (evt_AllocatedDelta e) (- ccn_Quantity i)"
      "rdb_positions db' = rdb_positions (save_funding po' db1)"
      "rdb_claims db' = rdb_claims db" "rdb_months db' = rdb_months db" "rdb_limits db' = rdb_limits db"
      "out = consumerChargeReceipt r'"
proof -
  let ?k = "intent_key i" and ?now = "rnv_now env 1" and ?eff = "ccp_State tproof"
  note I = charge_intentD [OF i(2)]
  from run obtain b op db2 r where pre: "rdb_buckets db ?k = Some b"
      "ccn_Funding i = FundingMember \<longrightarrow> funding_position i db1 \<noteq> None"
      "lockFixedResourceOperation (cci_OrganizationID (ccn_Identity i))
         (chargeOperationKey dg ''consumer-settle:'' (ccn_Identity i)) ''settle_consumer_resource''
         (chargeFingerprint dg i) db1 = Inr (op, db2)"
      "readConsumerReservation (ccn_Identity i) db2 = Inr r" "ccr_Intent (consumerChargeReceipt r) = i"
    by (auto simp: chargeSettleTx_def Let_def ok_simps lock_funding_Inr db1_def intent_key_def i(1))
  have fold: "rdb_buckets db (cci_OrganizationID (ccn_Identity i), ccn_ResourceType i) = Some b"
      "lock_funding (rnv_now env 0) i db = Inr (funding_position i db1, db1)"
    using pre by (auto simp: intent_key_def lock_funding_Inr db1_def)
  let ?r' = "\<lambda>state b' po'. settled_row r state (ccp_EvidenceID tproof) (charge_balance b' po') ?now (opr_OperationID op)"
  consider (again) "db' = db1" "out = consumerChargeReceipt r" | (new) b' credit da dl dc state po' db3 db4 db5 where
      "rsv_State r = ReservationReserved" "ccn_Quantity i \<le> bkt_Reserved b"
      "charge_outcome ?now i ?eff b db2 = Inr ((b', credit, da, dl, dc, state), db3)"
      "settle_position ?now i ?eff credit (funding_position i db1) = Inr po'"
      "updateConsumerBucket b' ?now ((save_funding po' db3)\<lparr>rdb_reservations :=
         update_rows (\<lambda>x. reservation_id x = reservation_id (?r' state b' po')) (\<lambda>_. ?r' state b' po')
           (rdb_reservations (save_funding po' db3))\<rparr>) = Inr db4"
      "completeChargeOperation op (consumerChargeReceipt (?r' state b' po')) ?now db4 = Inr db5"
      "createConsumerEvent (rnv_uuid env 0) (?r' state b' po') b' (opr_OperationID op) state
         (da, dl, neg64 (ccn_Quantity i), dc) credit ?now db5 = Inr db'"
      "out = consumerChargeReceipt (?r' state b' po')"
  proof (cases "opr_State op = ''succeeded''")
    case True
    with run pre lockFixed_Inr(4) [OF pre(3)] show ?thesis
      by (intro that(1)) (auto simp: chargeSettleTx_def Let_def i(1) [symmetric] fold pre(3,4) and_then_Inr if_Inl_Inr)
  next
    case False
    show ?thesis
      using run False
      by (auto simp: chargeSettleTx_def Let_def i(1) [symmetric] fold pre(3,4) and_then_Inr if_Inl_Inr not_less
          consumerChargeReceipt_def [of r] intro!: that(2))
  qed
  then show thesis
  proof cases
    case again
    have "rdb_reservations db2 = rdb_reservations db1" using lockFixed_Inr(1) [OF pre(3)] by auto
    with again readConsumerReservation_Inr [OF pre(4)] show ?thesis by (intro replay [of r]) auto
  next
    case new
    let ?r'' = "?r' state b' po'"
    obtain ops where ops: "db2 = db1\<lparr>rdb_operations := ops\<rparr>" using lockFixed_Inr(1) [OF pre(3)] by blast
    have ok1: "ledger_ok db1" and mok1: "members_ok db1"
      using funded_ok ok mok I(2) by (auto simp: db1_def)
    have ok2: "ledger_ok db2" using ok1 by (simp add: ops ledger_ok_def debt_of_alt res_balance_def reserved_sum_def)
    have debt2: "debt_of db2 k = debt_of db1 k" for k by (simp add: ops debt_of_alt)
    have bok: "bucket_ok ?k b" by (rule ledger_okD(1) [OF ok pre(1)])
    have pok: "position_ok p" if "funding_position i db1 = Some p" for p
      using that members_okD(2) [OF mok1] find_SomeD [of _ "rdb_positions db1" p]
      by (auto simp: funding_position_def split: if_splits)
    have fund: "funding_position i db1 \<noteq> None \<longleftrightarrow> ccn_Funding i = FundingMember"
      using pre(2) by (auto simp: funding_position_def)
    have rt: "ccn_ResourceType i \<noteq> ResourceAIPoint" using I(2) by (auto simp: IsMemberAllocatedResource_def)
    note C = charge_outcome_Inr [OF new(3) ok2 bok I(1) i(3) rt new(2), unfolded debt2]
    note P = settle_position_Inr [OF new(4) pok fund I(1) i(3) C(8,9), folded C(7)]
    note B = bucket_okD [OF bok]
    have r: "r \<in> set (rdb_reservations db)" "charged_row i r"
      using readConsumerReservation_Inr [OF pre(4)] pre(5) by (auto simp: ops db1_def intro: charged_rowI)
    have neg: "neg64 (ccn_Quantity i) = - ccn_Quantity i" using I(1) i(3) by (auto intro: neg64_nonneg)
    have w3: "rdb_buckets db3 = rdb_buckets db" "rdb_events db3 = rdb_events db"
      "rdb_positions db3 = rdb_positions db1" "rdb_reservations db3 = rdb_reservations db"
      "rdb_claims db3 = rdb_claims db" "rdb_months db3 = rdb_months db" "rdb_limits db3 = rdb_limits db"
      using C(10) by (auto simp: ops db1_def)
    have id: "reservation_id ?r'' = reservation_id r" by (simp add: settled_row_def reservation_id_def)
    have b': "(bkt_OrganizationID b', bkt_ResourceType b') = ?k" "bkt_OrganizationID b = bkt_OrganizationID b'"
      "bkt_ResourceType b = bkt_ResourceType b'"
      using B(9,10) C(1) by auto
    let ?db = "(save_funding po' db3)\<lparr>rdb_reservations :=
         update_rows (\<lambda>x. reservation_id x = reservation_id ?r'') (\<lambda>_. ?r'')
           (rdb_reservations (save_funding po' db3))\<rparr>"
    have b4: "rdb_buckets ?db ?k = Some b" using pre(1) by (simp add: w3)
    note F = finish_charge_Inr [OF b4 b' new(5-7)]
    from F(8) obtain e where
      e: "rdb_events db' = rdb_events db @ [e]" "event_key e = (rsv_OrganizationID r, rsv_ResourceType r)"
      "evt_Quantity e = rsv_Quantity r" "evt_AvailableDelta e = da" "evt_AllocatedDelta e = dl"
      "evt_ReservedDelta e = - ccn_Quantity i" "evt_ConsumedDelta e = dc" "evt_SourceType e = rsv_OwnerType r"
      "evt_DebtRepaid e = pca_debtRepaid credit"
      "evt_AvailableAfter e = bkt_Available b'" "evt_ReservedAfter e = bkt_Reserved b'"
      "evt_ConsumedAfter e = bkt_Consumed b'" "evt_BalanceAfter e = bkt_Available b'"
      by (auto simp: settled_row_def neg w3)
    have k: "event_key e = ?k" using e(2) r(2) by (simp add: charged_row_def reservation_key_def)
    have g: "\<not> grant_event e" using e(8) r(2) I(4) by (auto simp: grant_event_def charged_row_def)
    have m: "moves e db1 db'"
      by (rule balance_moves [OF ok1 _ _ C(2) [where t = ?now] _ _ k])
         (use pre(1) F w3 e C(1,3-6,10) g r(2) I(1) in
           \<open>auto simp: db1_def ops event_sum_def charged_row_def\<close>)
    show ?thesis
      by (rule settle [OF m g k e(6) _ r new(1), of ?r'' po'])
         (use F w3 e(5,7) C(11,12) P new(8) id in \<open>auto simp: db1_def intro: save_funding_positions\<close>)
  qed
qed

end
