(* ===== verification/Res_Journal.thy ===== *)
theory Res_Journal
  imports Res_Charge_Effects
begin

text \<open>
  The operation journal stores each row under its own key (organization and operation id), and
  every transaction keeps it that way: a new row is inserted under its key, and an update changes
  only the state, the result and the completion time of a row.
\<close>

section \<open>Statements\<close>

lemma journal_get:
  "journal_ok db \<Longrightarrow> rdb_operations db k = Some op \<Longrightarrow> (opr_OrganizationID op, opr_OperationID op) = k"
  by (simp add: journal_ok_def)

lemma journal_put:
  "journal_ok db \<Longrightarrow> (opr_OrganizationID op, opr_OperationID op) = k \<Longrightarrow>
   journal_ok (db\<lparr>rdb_operations := (rdb_operations db)(k \<mapsto> op)\<rparr>)"
  by (simp add: journal_ok_def)

lemma journal_insert: "insert_operation row db = Inr db1 \<Longrightarrow> journal_ok db \<Longrightarrow> journal_ok db1"
  by (auto simp: insert_operation_def Let_def intro!: journal_put split: if_splits)

lemma journal_update:
  assumes "journal_ok db"
    "\<And>r. opr_OrganizationID (f r) = opr_OrganizationID r \<and> opr_OperationID (f r) = opr_OperationID r"
  shows "journal_ok (snd (update_operation k P f db))"
  using assms journal_get [OF assms(1)]
  by (simp add: update_operation_def journal_put split: option.splits)

lemma journal_lockFixed: "lockFixedResourceOperation org key kind fp db = Inr (op, db1) \<Longrightarrow> journal_ok db \<Longrightarrow> journal_ok db1"
  by (auto simp: lockFixedResourceOperation_def Let_def ok_simps zero_rows intro!: journal_put split: if_splits)

lemma journal_complete: "completeChargeOperation op receipt now db = Inr db1 \<Longrightarrow> journal_ok db \<Longrightarrow> journal_ok db1"
  using journal_update [of db] by (auto simp: completeChargeOperation_def split_def Let_def split: if_splits)

lemma journal_frames [simp]:
  "journal_ok (db\<lparr>rdb_buckets := v1\<rparr>) = journal_ok db" "journal_ok (db\<lparr>rdb_debts := v2\<rparr>) = journal_ok db"
  "journal_ok (db\<lparr>rdb_claims := v3\<rparr>) = journal_ok db" "journal_ok (db\<lparr>rdb_events := v4\<rparr>) = journal_ok db"
  "journal_ok (db\<lparr>rdb_reservations := v5\<rparr>) = journal_ok db" "journal_ok (db\<lparr>rdb_positions := v6\<rparr>) = journal_ok db"
  "journal_ok (db\<lparr>rdb_owner := v7\<rparr>) = journal_ok db" "journal_ok (db\<lparr>rdb_audit := v8\<rparr>) = journal_ok db"
  "journal_ok (db\<lparr>rdb_limits := v9\<rparr>) = journal_ok db" "journal_ok (db\<lparr>rdb_months := v10\<rparr>) = journal_ok db"
  by (simp_all add: journal_ok_def)

lemma journal_statements:
  "insert_claim clm db = Inr db1 \<Longrightarrow> journal_ok db \<Longrightarrow> journal_ok db1"
  "insert_event e db = Inr db1 \<Longrightarrow> journal_ok db \<Longrightarrow> journal_ok db1"
  "insert_reservation r db = Inr db1 \<Longrightarrow> journal_ok db \<Longrightarrow> journal_ok db1"
  "update_bucket k P f db = (n, db1) \<Longrightarrow> journal_ok db \<Longrightarrow> journal_ok db1"
  "updateConsumerBucket b now db = Inr db1 \<Longrightarrow> journal_ok db \<Longrightarrow> journal_ok db1"
  "lock_funding now i db = Inr (po, db1) \<Longrightarrow> journal_ok db \<Longrightarrow> journal_ok db1"
  "lockMemberResourcePosition now org m rt db = Inr (p, db1) \<Longrightarrow> journal_ok db \<Longrightarrow> journal_ok db1"
  "applyPositiveCredit org rt q a now db = Inr (credit, db1) \<Longrightarrow> journal_ok db \<Longrightarrow> journal_ok db1"
  "createConsumerEvent eid row bucket oper reason deltas credit now db = Inr db1 \<Longrightarrow> journal_ok db \<Longrightarrow> journal_ok db1"
  by (auto simp: insert_claim_def insert_event_def insert_reservation_def update_bucket_def updateConsumerBucket_def
      lock_funding_def lockMemberResourcePosition_def applyPositiveCredit_def createConsumerEvent_def insert_audit_def
      Let_def ok_simps split: if_splits option.splits prod.splits)

lemma journal_pure [simp]:
  "journal_ok (insert_audit a db) = journal_ok db" "journal_ok (save_position p db) = journal_ok db"
  "journal_ok (save_funding po db) = journal_ok db" "journal_ok (ensure_bucket t org rt db) = journal_ok db"
  "journal_ok (snd (update_bucket k P f db)) = journal_ok db"
  by (auto simp: insert_audit_def save_position_def save_funding_def ensure_bucket_def update_bucket_def
      split: option.splits)

lemmas journal_dest = journal_insert journal_lockFixed journal_complete journal_statements

section \<open>Transactions\<close>

lemma persistGrants_journal:
  "persistWelcomeGrant env wx b credit ws db = Inr db1 \<Longrightarrow> journal_ok db \<Longrightarrow> journal_ok db1"
  "persistPurchasedGrant env px b credit ps db = Inr db1 \<Longrightarrow> journal_ok db \<Longrightarrow> journal_ok db1"
  "persistTrialAIGrant env tx b credit ts db = Inr db1 \<Longrightarrow> journal_ok db \<Longrightarrow> journal_ok db1"
  by (auto simp: persistWelcomeGrant_def persistPurchasedGrant_def persistTrialAIGrant_def Let_def ok_simps
      zero_rows intro!: journal_put)

lemma grantTx_journal:
  "welcomeGrantTx wx env db = Inr (wr, db') \<Longrightarrow> journal_ok db \<Longrightarrow> journal_ok db'"
  "purchasedGrantTx px env db = Inr (pr, db') \<Longrightarrow> journal_ok db \<Longrightarrow> journal_ok db'"
  "executeTrialAIGrantTransaction tx env db = Inr (tr, db') \<Longrightarrow> journal_ok db \<Longrightarrow> journal_ok db'"
  by (auto simp: welcomeGrantTx_def purchasedGrantTx_def executeTrialAIGrantTransaction_def Let_def ok_simps
      replay_or_def split: if_splits option.splits dest!: journal_dest persistGrants_journal)

lemma persistReservation_journal:
  "persistReservation st x env b db = Inr (r, db') \<Longrightarrow> journal_ok db \<Longrightarrow> journal_ok db'"
  by (auto simp: persistReservation_def Let_def ok_simps split_def zero_rows split: if_splits
      dest!: journal_dest intro!: journal_put)

lemma reservationTx_journal: "reservationTx st x env db = Inr (r, db') \<Longrightarrow> journal_ok db \<Longrightarrow> journal_ok db'"
  by (auto simp: reservationTx_def Let_def ok_simps replay_or_def split: if_splits option.splits sum.splits
      dest!: persistReservation_journal)

lemma settlement_parts_journal:
  "calculateSettlement now r b d db = Inr (s, db1) \<Longrightarrow> journal_ok db \<Longrightarrow> journal_ok db1"
  "persistSettlement env x r tproof s db = Inr (out, db1) \<Longrightarrow> journal_ok db \<Longrightarrow> journal_ok db1"
  by (auto simp: calculateSettlement_def persistSettlement_def Let_def ok_simps split_def zero_rows split: if_splits
      dest!: journal_dest intro!: journal_put)

lemma settlementTx_journal: "settlementTx st seed x env db = Inr (out, db') \<Longrightarrow> journal_ok db \<Longrightarrow> journal_ok db'"
  by (auto simp: settlementTx_def ok_simps replay_or_def split: if_splits option.splits dest!: settlement_parts_journal)

lemma transfer_parts_journal:
  "allocate_member c b p db = Inr (mv, db1) \<Longrightarrow> journal_ok db \<Longrightarrow> journal_ok db1"
  "reclaim_member now c b p db = Inr (mv, db1) \<Longrightarrow> journal_ok db \<Longrightarrow> journal_ok db1"
  "persistTransfer env c mv db = Inr (r, db1) \<Longrightarrow> journal_ok db \<Longrightarrow> journal_ok db1"
  by (auto simp: allocate_member_def reclaim_member_def persistTransfer_def Let_def ok_simps
      split: if_splits prod.splits dest!: journal_dest intro!: journal_update)

lemma transferTx_journal: "transferTx dg c env db = Inr (r, db') \<Longrightarrow> journal_ok db \<Longrightarrow> journal_ok db'"
  by (auto simp: transferTx_def ok_simps split: if_splits dest!: journal_dest transfer_parts_journal)

lemma setMonthlyLimitTx_journal:
  assumes "setMonthlyLimitTx dg i env db = Inr (r, db')" "journal_ok db"
  shows "journal_ok db'"
  using assms
  by (auto simp: setMonthlyLimitTx_def Let_def ok_simps lockMemberMonth_def split: if_splits option.splits prod.splits
      dest!: journal_lockFixed intro!: journal_update)

lemma chargeReserveTx_journal: "chargeReserveTx dg env i db = Inr (r, db') \<Longrightarrow> journal_ok db \<Longrightarrow> journal_ok db'"
  by (auto simp: chargeReserveTx_def Let_def ok_simps split: if_splits prod.splits dest!: journal_dest)

lemma chargeSettleTx_journal: "chargeSettleTx dg env rp db = Inr (r, db') \<Longrightarrow> journal_ok db \<Longrightarrow> journal_ok db'"
  by (auto simp: chargeSettleTx_def charge_outcome_def Let_def ok_simps split: if_splits prod.splits dest!: journal_dest)

end
