(* ===== verification/Res_Invariant.thy ===== *)
theory Res_Invariant
  imports Res_Journal
begin

text \<open>
  The invariant of the resource ledger as a whole, and the relation \<open>res_rel\<close> between the tables
  before and after a call: from a state with the invariant, a call leads to one with the invariant,
  its new events explain every change of a balance and of a debt, and rows of settled reservations
  stay as they are. Every committed transaction is in the relation.
\<close>

section \<open>Claiming due charges and monthly limits\<close>

definition rescheduled ::
  "organizationResourceReservationRow \<Rightarrow> organizationResourceReservationRow \<Rightarrow> bool" where
  "rescheduled r r' \<longleftrightarrow> r' = r \<or> open_reservation r \<and> (\<exists>t. r' = r\<lparr>rsv_NextCheckAt := t\<rparr>)"

lemma rescheduled_trans: "rescheduled r s \<Longrightarrow> rescheduled s t \<Longrightarrow> rescheduled r t"
  by (auto simp: rescheduled_def open_reservation_def)

lemma rescheduled_same:
  assumes "rescheduled r r'"
  shows "reservation_id r' = reservation_id r" "rsv_Quantity r' = rsv_Quantity r"
    "reservation_key r' = reservation_key r" "open_reservation r' \<longleftrightarrow> open_reservation r"
    "member_charge r' \<longleftrightarrow> member_charge r" "charge_position r' = charge_position r"
    "rsv_ChargeProtocol r' = rsv_ChargeProtocol r" "consumer_row r' = consumer_row r"
    "\<not> open_reservation r \<Longrightarrow> r' = r"
  using assms
  by (auto simp: rescheduled_def reservation_id_def reservation_key_def open_reservation_def
      member_charge_def charge_position_def consumer_row_def)

lemma claim_rows_effect:
  assumes "claim_rows due rows db = Inr (ids, db')"
  shows "\<exists>rs. db' = db\<lparr>rdb_reservations := rs\<rparr> \<and> list_all2 rescheduled (rdb_reservations db) rs"
  using assms
proof (induction due rows db arbitrary: ids db' rule: claim_rows.induct)
  case (1 due db)
  then show ?case
    by (intro exI [where x = "rdb_reservations db"]) (simp add: list.rel_refl rescheduled_def)
next
  case (2 due row rows db)
  let ?hit = "\<lambda>r. reservation_id r = reservation_id row \<and> rsv_State r = ReservationReserved"
  let ?rs = "update_rows ?hit (\<lambda>r. r\<lparr>rsv_NextCheckAt := Some due\<rparr>) (rdb_reservations db)"
  from 2(2) obtain ids' where g: "\<not> length (filter ?hit (rdb_reservations db)) \<noteq> 1"
    "claim_rows due rows (db\<lparr>rdb_reservations := ?rs\<rparr>) = Inr (ids', db')"
    by (auto simp: Let_def ok_simps)
  obtain rs where rs: "db' = db\<lparr>rdb_reservations := rs\<rparr>" "list_all2 rescheduled ?rs rs"
    using 2(1) [OF refl refl g] by auto
  have "list_all2 rescheduled (rdb_reservations db) ?rs"
    by (auto simp: update_rows_def list_all2_map2 rescheduled_def open_reservation_def
        intro!: list_all2_refl)
  then have "list_all2 rescheduled (rdb_reservations db) rs"
    using rs(2) by (rule list_all2_trans [rotated 1]) (blast intro: rescheduled_trans)
  with rs(1) show ?case by blast
qed

lemma sum_rows_all2:
  assumes "list_all2 R xs ys" "\<And>x y. R x y \<Longrightarrow> (P y \<longleftrightarrow> P x) \<and> f y = f x"
  shows "sum_rows P f ys = sum_rows P f xs"
  using assms by (induction rule: list_all2_induct) auto

lemma list_all2_map_eq:
  assumes "list_all2 R xs ys" "\<And>x y. R x y \<Longrightarrow> f y = f x"
  shows "map f ys = map f xs"
  using assms by (induction rule: list_all2_induct) auto

lemma setMonthlyLimitTx_effect:
  assumes "setMonthlyLimitTx dg i env db = Inr (out, db')"
  obtains ops lims mons aud where "db' = db\<lparr>rdb_operations := ops, rdb_limits := lims, rdb_months := mons, rdb_audit := aud\<rparr>"
proof -
  have "db' = db\<lparr>rdb_operations := rdb_operations db', rdb_limits := rdb_limits db', rdb_months := rdb_months db',
      rdb_audit := rdb_audit db'\<rparr>"
    using assms
    by (auto simp: setMonthlyLimitTx_def Let_def ok_simps lockFixedResourceOperation_def insert_audit_def
        update_operation_def lockMemberMonth_def split: if_splits option.splits prod.splits)
  then show thesis by (rule that)
qed

section \<open>The invariant\<close>

definition event_source :: "organizationResourceEventRow \<Rightarrow> string \<times> string" where
  "event_source e = (evt_SourceType e, evt_SourceIdentity e)"

definition claims_ok :: "'o res_db \<Rightarrow> bool" where
  "claims_ok db \<longleftrightarrow>
     distinct (map event_source (filter grant_event (rdb_events db)))
     \<and> (\<forall>e\<in>set (rdb_events db). grant_event e \<longrightarrow>
          (\<exists>c. rdb_claims db (event_source e) = Some c \<and> clm_OrganizationID c = evt_OrganizationID e
             \<and> clm_OperationID c = evt_OperationID e \<and> clm_ResourceType c = evt_ResourceType e))"

definition res_inv :: "'o res_db \<Rightarrow> bool" where
  "res_inv db \<longleftrightarrow> ledger_ok db \<and> members_ok db \<and> claims_ok db \<and> journal_ok db"

text \<open>The part of the invariant about balances, and the relation for it.\<close>

definition books_ok :: "'o res_db \<Rightarrow> bool" where
  "books_ok db \<longleftrightarrow> ledger_ok db \<and> members_ok db \<and> claims_ok db"

definition event_ok :: "organizationResourceEventRow \<Rightarrow> bool" where
  "event_ok e \<longleftrightarrow> 0 < evt_Quantity e \<and> 0 \<le> evt_DebtRepaid e
     \<and> event_sum e = (if grant_event e then evt_Quantity e else 0)"

definition closed_kept :: "organizationResourceReservationRow list \<Rightarrow> organizationResourceReservationRow list \<Rightarrow> bool" where
  "closed_kept rs rs' \<longleftrightarrow> (\<forall>r\<in>set rs. \<not> open_reservation r \<longrightarrow> r \<in> set rs')"

definition res_ext :: "'o res_db \<Rightarrow> 'o res_db \<Rightarrow> bool" where
  "res_ext db db' \<longleftrightarrow>
     (\<exists>es. rdb_events db' = rdb_events db @ es \<and> (\<forall>e\<in>set es. event_ok e)
        \<and> (\<forall>k d. res_balance db' k d = res_balance db k d + sum_rows (\<lambda>e. event_key e = k) (\<lambda>e. event_delta e d) es)
        \<and> (\<forall>k. debt_of db' k = debt_of db k - sum_rows (\<lambda>e. event_key e = k) evt_DebtRepaid es))
     \<and> closed_kept (rdb_reservations db) (rdb_reservations db')"

definition res_rel :: "'o res_db \<Rightarrow> 'o res_db \<Rightarrow> bool" where
  "res_rel db db' \<longleftrightarrow> (res_inv db \<longrightarrow> res_inv db' \<and> res_ext db db')"

definition books_rel :: "'o res_db \<Rightarrow> 'o res_db \<Rightarrow> bool" where
  "books_rel db db' \<longleftrightarrow> (books_ok db \<longrightarrow> books_ok db' \<and> res_ext db db')"

lemma res_relI: "books_rel db db' \<Longrightarrow> (journal_ok db \<Longrightarrow> journal_ok db') \<Longrightarrow> res_rel db db'"
  by (auto simp: res_rel_def books_rel_def res_inv_def books_ok_def)

lemma res_ext_refl: "res_ext db db"
  by (auto simp: res_ext_def closed_kept_def intro!: exI [where x = "[]"])

lemma res_ext_trans:
  assumes "res_ext a b" "res_ext b c"
  shows "res_ext a c"
proof -
  obtain es fs where "rdb_events b = rdb_events a @ es" "\<forall>e\<in>set es. event_ok e"
    "\<forall>k d. res_balance b k d = res_balance a k d + sum_rows (\<lambda>e. event_key e = k) (\<lambda>e. event_delta e d) es"
    "\<forall>k. debt_of b k = debt_of a k - sum_rows (\<lambda>e. event_key e = k) evt_DebtRepaid es"
    "rdb_events c = rdb_events b @ fs" "\<forall>e\<in>set fs. event_ok e"
    "\<forall>k d. res_balance c k d = res_balance b k d + sum_rows (\<lambda>e. event_key e = k) (\<lambda>e. event_delta e d) fs"
    "\<forall>k. debt_of c k = debt_of b k - sum_rows (\<lambda>e. event_key e = k) evt_DebtRepaid fs"
    "closed_kept (rdb_reservations a) (rdb_reservations c)"
    using assms by (auto simp: res_ext_def closed_kept_def)
  then show ?thesis
    unfolding res_ext_def by (intro conjI exI [where x = "es @ fs"]) auto
qed

lemma res_rel_refl: "res_rel db db"
  by (simp add: res_rel_def res_ext_refl)

lemma res_rel_trans: "res_rel a b \<Longrightarrow> res_rel b c \<Longrightarrow> res_rel a c"
  by (auto simp: res_rel_def intro: res_ext_trans)

lemma moves_ext:
  assumes "moves e db db'" "closed_kept (rdb_reservations db) (rdb_reservations db')"
  shows "res_ext db db'"
  unfolding res_ext_def
  by (intro conjI exI [where x = "[e]"])
     (use assms moves_balance [OF assms(1)] moves_debt [OF assms(1)] movesD [OF assms(1)] in
       \<open>auto simp: event_ok_def\<close>)

lemma same_ext:
  assumes "rdb_events db' = rdb_events db" "rdb_buckets db' = rdb_buckets db" "rdb_debts db' = rdb_debts db"
    "closed_kept (rdb_reservations db) (rdb_reservations db')"
  shows "res_ext db db'"
  unfolding res_ext_def
  by (intro conjI exI [where x = "[]"]) (use assms in \<open>auto simp: res_balance_def debt_of_alt\<close>)

lemma closed_kept_append [simp]: "closed_kept rs rs" "closed_kept rs (rs @ xs)"
  by (auto simp: closed_kept_def)

lemma closed_kept_update:
  assumes "distinct (map reservation_id rs)" "r \<in> set rs" "open_reservation r"
  shows "closed_kept rs (update_rows (\<lambda>x. reservation_id x = reservation_id r) (\<lambda>_. r') rs)"
proof -
  have "reservation_id x \<noteq> reservation_id r" if "x \<in> set rs" "\<not> open_reservation x" for x
    using distinct_keyI [OF assms(1) that(1) assms(2)] that(2) assms(3) by auto
  then show ?thesis by (force simp: closed_kept_def set_update_rows)
qed

lemma claims_ok_move:
  assumes "claims_ok db" "rdb_events db' = rdb_events db @ [e]" "rdb_claims db' = rdb_claims db" "\<not> grant_event e"
  shows "claims_ok db'"
  using assms by (auto simp: claims_ok_def)

lemma claims_ok_grant:
  assumes ok: "claims_ok db" and g: "granted e c db db'"
  shows "claims_ok db'"
proof -
  have new: "rdb_claims db (event_source e) = None" "rdb_events db' = rdb_events db @ [e]"
    "rdb_claims db' = (rdb_claims db)(event_source e \<mapsto> c)" "grant_event e"
    "clm_OrganizationID c = evt_OrganizationID e" "clm_OperationID c = evt_OperationID e"
    "clm_ResourceType c = evt_ResourceType e"
    using g movesD(1) by (auto simp: granted_def event_source_def)
  have fresh: "event_source x \<noteq> event_source e" if "x \<in> set (rdb_events db)" "grant_event x" for x
    using ok that new(1) by (auto simp: claims_ok_def)
  show ?thesis
    unfolding claims_ok_def
    using ok new fresh by (auto simp: claims_ok_def)
qed

lemma books_rel_refl: "books_rel db db"
  by (simp add: books_rel_def res_ext_refl)

lemma books_ok_frame:
  assumes inv: "books_ok db" and "ledger_ok db'" "members_ok db'"
    and "rdb_events db' = rdb_events db" "rdb_claims db' = rdb_claims db"
  shows "books_ok db'"
  using assms by (simp add: books_ok_def claims_ok_def)

lemma with_position_books:
  assumes "IsMemberAllocatedResource rt"
  shows "books_rel db (with_position t org m rt db)"
  unfolding books_rel_def
  using books_ok_frame [of db] with_position_ledger_ok with_position_ok assms
  by (auto simp: books_ok_def claims_ok_def intro!: same_ext)

lemma funded_books:
  assumes "IsMemberAllocatedResource (ccn_ResourceType i)"
  shows "books_rel db (funded t i db)"
  using assms with_position_books books_rel_refl by (auto simp: funded_def)

end
