(* ===== verification/Res_System.thy ===== *)
theory Res_System
  imports Res_Invariant
begin

text \<open>
  The resource ledger as a transition system: one rule per public method of the services that
  changes the tables, called with any input whose quantities are \<open>int64\<close> values, under any faults,
  clocks and identifiers. The contracts of \<open>Contracts\<close> are interpreted here on the system.
\<close>

section \<open>Committed transactions\<close>

lemma granted_books:
  assumes "granted e c db db'"
  shows "books_rel db db'"
  unfolding books_rel_def
proof (intro impI conjI)
  assume inv: "books_ok db"
  have m: "moves e db db'" and same: "rdb_reservations db' = rdb_reservations db" "rdb_positions db' = rdb_positions db"
    and e: "evt_ReservedDelta e = 0" "evt_AllocatedDelta e = 0"
    using assms by (auto simp: granted_def)
  have "ledger_ok db'" using moves_grant_ledger_ok [OF m _ same(1) e(1)] inv by (simp add: books_ok_def)
  moreover have "members_ok db'"
    by (rule members_ok_same [of db])
       (use inv same e moves_balance [OF m] in \<open>auto simp: books_ok_def dest: members_okD(5)\<close>)
  moreover have "claims_ok db'" using claims_ok_grant [OF _ assms] inv by (simp add: books_ok_def)
  ultimately show "books_ok db'" by (simp add: books_ok_def)
  show "res_ext db db'" using moves_ext [OF m] same(1) by simp
qed

lemma welcomeGrantTx_books:
  assumes "welcomeGrantTx x env db = Inr (r, db')" "0 < wgx_Quantity x" "in64 (wgx_Quantity x)"
    "validResourceType (wgx_ResourceType x)" "wgx_SourceType x = SourceOnboardingWelcomeStorePeriod"
  shows "books_rel db db'"
  using assms by (auto simp: books_rel_def books_ok_def res_ext_refl elim!: welcomeGrantTx_effect
      dest!: granted_books)

lemma purchasedGrantTx_books:
  assumes "purchasedGrantTx x env db = Inr (r, db')" "0 < pgx_Quantity x" "in64 (pgx_Quantity x)"
    "validResourceType (pgx_ResourceType x)" "pgx_SourceType x = SourceCommercialOrderItem"
  shows "books_rel db db'"
  using assms by (auto simp: books_rel_def books_ok_def res_ext_refl elim!: purchasedGrantTx_effect
      dest!: granted_books)

lemma trialGrantTx_books:
  assumes "executeTrialAIGrantTransaction x env db = Inr (r, db')"
  shows "books_rel db db'"
  using assms by (auto simp: books_rel_def books_ok_def res_ext_refl elim!: executeTrialAIGrantTransaction_effect
      dest!: granted_books)

lemma reservationTx_books:
  assumes run: "reservationTx st x env db = Inr (r, db')"
    and x: "0 < rsx_Quantity x" "in64 (rsx_Quantity x)"
    and src: "rsx_OwnerType x \<notin> {SourceOnboardingWelcomeStorePeriod, SourceCommercialOrderItem, SourceLocalAITrial}"
  shows "books_rel db db'"
  unfolding books_rel_def
proof
  assume inv: "books_ok db"
  then have ok: "ledger_ok db" "members_ok db" "claims_ok db" by (auto simp: books_ok_def)
  from run ok(1) x src show "books_ok db' \<and> res_ext db db'"
  proof (cases rule: reservationTx_effect)
    case replay
    with inv show ?thesis by (simp add: res_ext_refl)
  next
    case (reserve e row)
    have row: "open_reservation row" "\<not> member_charge row"
      using reserve(6,12) by (auto simp: open_reservation_def member_charge_def)
    have "ledger_ok db'"
      using reserving_ledger_ok [OF reserve(1) ok(1) reserve(4,5) row(1) reserve(7,9)] reserve(9,10) x by simp
    moreover have "members_ok db'"
      by (rule members_ok_same [OF ok(2) reserve(14)])
         (use reserve(3,4,12) row ok(2) moves_balance [OF reserve(1)] in
           \<open>auto simp: open_charges_append dest: members_okD(5)\<close>)
    moreover have "claims_ok db'"
      using claims_ok_move [OF ok(3) movesD(1) [OF reserve(1)] reserve(15,2)] .
    ultimately show ?thesis using moves_ext [OF reserve(1)] reserve(4) by (simp add: books_ok_def)
  qed
qed

lemma settlementTx_books:
  assumes run: "settlementTx st seed x env db = Inr (out, db')"
    and src: "rsv_OwnerType seed \<notin> {SourceOnboardingWelcomeStorePeriod, SourceCommercialOrderItem, SourceLocalAITrial}"
    and cons: "\<not> validResourceConsumer (rsv_OwnerType seed)"
  shows "books_rel db db'"
  unfolding books_rel_def
proof
  assume inv: "books_ok db"
  then have ok: "ledger_ok db" "members_ok db" "claims_ok db" by (auto simp: books_ok_def)
  from run ok(1) src show "books_ok db' \<and> res_ext db db'"
  proof (cases rule: settlementTx_effect)
    case replay
    with inv show ?thesis by (simp add: res_ext_refl)
  next
    case (settle e r r')
    then obtain t where r': "r' = r\<lparr>rsv_State := rsv_State r', rsv_SettlementOperationID := Some (stx_OperationID x),
        rsv_SettledAt := Some t\<rparr>" by blast
    have "\<not> open_reservation r'" using settle(9) by (auto simp: open_reservation_def)
    moreover have "reservation_id r' = reservation_id r" "reservation_key r' = reservation_key r"
      "rsv_Quantity r' = rsv_Quantity r"
      by (subst r', simp add: reservation_id_def reservation_key_def)+
    ultimately have lok: "ledger_ok db'"
      using closing_ledger_ok [OF settle(1) ok(1) settle(4,5,7)] settle(10,11) by blast
    have proto: "rsv_ChargeProtocol r' = rsv_ChargeProtocol r" "rsv_OwnerType r' = rsv_OwnerType r"
      by (subst r', simp)+
    have noc: "rsv_ChargeProtocol r \<noteq> consumerChargeProtocol"
      using members_okD(5) [OF ok(2) settle(4)] cons settle(6) by (auto simp: consumer_row_def)
    then have nm: "\<not> member_charge r" by (simp add: member_charge_def)
    have "members_ok db'"
    proof (rule members_ok_same [OF ok(2) settle(13)])
      show "res_balance db' k Allocated = res_balance db k Allocated" for k
        using settle(3) moves_balance [OF settle(1)] by simp
      show "open_charges (rdb_reservations db') pk = open_charges (rdb_reservations db) pk" for pk
        unfolding settle(7)
        by (subst open_charges_close [OF ledger_okD(7) [OF ok(1)] settle(4,5) \<open>\<not> open_reservation r'\<close>])
           (simp add: nm)
      show "consumer_row y"
        if "y \<in> set (rdb_reservations db')" "rsv_ChargeProtocol y = consumerChargeProtocol" for y
        using that members_okD(5) [OF ok(2)] noc proto(1) by (auto simp: settle(7) set_update_rows split: if_splits)
    qed
    moreover have "claims_ok db'"
      using claims_ok_move [OF ok(3) movesD(1) [OF settle(1)] settle(14,2)] .
    moreover have "res_ext db db'"
      using moves_ext [OF settle(1)] closed_kept_update [OF ledger_okD(7) [OF ok(1)] settle(4,5)] settle(7) by simp
    ultimately show ?thesis using lok by (simp add: books_ok_def)
  qed
qed

lemma transferTx_books:
  assumes run: "transferTx dg c env db = Inr (r, db')"
    and c: "ValidMemberResourceTransfer c" "in64 (mrt_Quantity c)"
  shows "books_rel db db'"
  unfolding books_rel_def
proof
  assume inv: "books_ok db"
  then have ok: "ledger_ok db" "members_ok db" by (auto simp: books_ok_def)
  let ?db1 = "with_position (rnv_now env 0) (mrt_OrganizationID c) (mrt_MemberID c) (mrt_ResourceType c) db"
  have "IsMemberAllocatedResource (mrt_ResourceType c)" using c(1) by (simp add: ValidMemberResourceTransfer_def)
  then have pre: "books_ok ?db1" "res_ext db ?db1"
    using with_position_books inv unfolding books_rel_def by blast+
  then have ok1: "ledger_ok ?db1" "members_ok ?db1" "claims_ok ?db1" by (auto simp: books_ok_def)
  from run ok c show "books_ok db' \<and> res_ext db db'"
  proof (cases rule: transferTx_effect)
    case replay
    with pre show ?thesis by simp
  next
    case (move e p p')
    have t: "moves e ?db1 db'" "\<not> grant_event e" "evt_ReservedDelta e = 0"
      "position_key p' = position_key p" "position_ok p'" "pos_Free p' = pos_Free p + evt_AllocatedDelta e"
      "pos_Reserved p' = pos_Reserved p" "event_key e = (pos_OrganizationID p, pos_ResourceType p)"
      using move(1) by (auto simp: transferred_def position_key_def)
    have res: "rdb_reservations db' = rdb_reservations ?db1" using move(4) by simp
    have "ledger_ok db'" by (rule moves_grant_ledger_ok [OF t(1) ok1(1) res t(3)])
    moreover have "members_ok db'"
      by (rule members_move [OF ok1(2) move(2) t(4) move(3) t(5)])
         (use t(6-8) res moves_balance [OF t(1)] members_okD(5) [OF ok1(2)] in auto)
    moreover have "claims_ok db'"
      using claims_ok_move [OF ok1(3) movesD(1) [OF t(1)] _ t(2)] move(5) by simp
    moreover have "res_ext ?db1 db'" using moves_ext [OF t(1)] res by simp
    ultimately show ?thesis using res_ext_trans [OF pre(2)] by (simp add: books_ok_def)
  qed
qed

lemma chargeReserveTx_books:
  assumes run: "chargeReserveTx dg env i db = Inr (out, db')"
    and i: "ValidConsumerChargeIntent i" "in64 (ccn_Quantity i)"
  shows "books_rel db db'"
  unfolding books_rel_def
proof
  assume inv: "books_ok db"
  then have ok: "ledger_ok db" "members_ok db" by (auto simp: books_ok_def)
  note I = charge_intentD [OF i(1)]
  let ?db1 = "funded (rnv_now env 0) i db"
  have pre: "books_ok ?db1" "res_ext db ?db1"
    using funded_books [OF I(2)] inv unfolding books_rel_def by blast+
  then have ok1: "ledger_ok ?db1" "members_ok ?db1" "claims_ok ?db1" by (auto simp: books_ok_def)
  from run ok i show "books_ok db' \<and> res_ext db db'"
  proof (cases rule: chargeReserveTx_effect)
    case replay
    with pre show ?thesis by simp
  next
    case (reserve e row po')
    have row: "open_reservation row" "reservation_key row = event_key e" "rsv_Quantity row = evt_ReservedDelta e"
      "0 < rsv_Quantity row" "in64 (rsv_Quantity row)"
      using reserve(3,4,8,9) I(1) i(2) by (auto simp: open_reservation_def charged_row_def)
    have "ledger_ok db'"
      by (rule reserving_ledger_ok [OF reserve(1) ok1(1) _ _ row]) (use reserve(6,7) in simp_all)
    moreover have "members_ok db'"
    proof (rule charge_members_ok [OF ok1(2) reserve(1,3) refl reserve(11,12)])
      show "open_charges (rdb_reservations db') pk = open_charges (rdb_reservations ?db1) pk
          + (if ccn_Funding i = FundingMember \<and> pk = intent_position i then ccn_Quantity i else 0)" for pk
        using reserve(6,8) row(1) charged_row_member [OF reserve(8)]
        by (auto simp: open_charges_append charged_row_def)
      show "consumer_row r"
        if "r \<in> set (rdb_reservations db')" "rsv_ChargeProtocol r = consumerChargeProtocol" for r
        using that reserve(6,17) members_okD(5) [OF ok(2)] by auto
    qed
    moreover have "claims_ok db'"
      using claims_ok_move [OF ok1(3) movesD(1) [OF reserve(1)] _ reserve(2)] reserve(13) by simp
    moreover have "res_ext ?db1 db'" using moves_ext [OF reserve(1)] reserve(6) by simp
    ultimately show ?thesis using res_ext_trans [OF pre(2)] by (simp add: books_ok_def)
  qed
qed

lemma chargeSettleTx_books:
  assumes run: "chargeSettleTx dg env (original, tproof) db = Inr (out, db')"
    and i: "ValidConsumerChargeIntent (ccr_Intent original)" "in64 (ccn_Quantity (ccr_Intent original))"
  shows "books_rel db db'"
  unfolding books_rel_def
proof
  assume inv: "books_ok db"
  then have ok: "ledger_ok db" "members_ok db" by (auto simp: books_ok_def)
  let ?i = "ccr_Intent original"
  note I = charge_intentD [OF i(1)]
  let ?db1 = "funded (rnv_now env 0) ?i db"
  have pre: "books_ok ?db1" "res_ext db ?db1"
    using funded_books [OF I(2)] inv unfolding books_rel_def by blast+
  then have ok1: "ledger_ok ?db1" "members_ok ?db1" "claims_ok ?db1" by (auto simp: books_ok_def)
  from run ok refl i show "books_ok db' \<and> res_ext db db'"
  proof (cases rule: chargeSettleTx_effect)
    case replay
    with pre show ?thesis by simp
  next
    case (settle e r r' po')
    obtain state b t oper where r': "r' = settled_row r state (ccp_EvidenceID tproof) b t oper"
      "state = ReservationCommitted \<or> state = ReservationReleased"
      using settle(9) by (auto split: if_splits)
    have r: "open_reservation r" "\<not> open_reservation r'" using settle(8) r' by (auto simp: open_reservation_def settled_row_def)
    have same: "reservation_id r' = reservation_id r" "reservation_key r' = reservation_key r"
      "rsv_Quantity r' = rsv_Quantity r" "rsv_ChargeProtocol r' = rsv_ChargeProtocol r"
      "consumer_row r' = consumer_row r"
      by (simp_all add: r'(1) settled_row_def reservation_id_def reservation_key_def consumer_row_def)
    have in1: "r \<in> set (rdb_reservations ?db1)" using settle(6) by simp
    have rows: "rdb_reservations db' =
        update_rows (\<lambda>x. reservation_id x = reservation_id r) (\<lambda>_. r') (rdb_reservations ?db1)"
      using settle(10) by simp
    have "ledger_ok db'"
      by (rule closing_ledger_ok [OF settle(1) ok1(1) in1 r(1) rows same(1-3) r(2)])
         (use settle(3,4,7) in \<open>auto simp: charged_row_def\<close>)
    moreover have "members_ok db'"
    proof (rule charge_members_ok [OF ok1(2) settle(1,3) refl settle(11,12)])
      show "open_charges (rdb_reservations db') pk = open_charges (rdb_reservations ?db1) pk
          + (if ccn_Funding ?i = FundingMember \<and> pk = intent_position ?i then - ccn_Quantity ?i else 0)" for pk
        unfolding rows
        by (subst open_charges_close [OF ledger_okD(7) [OF ok1(1)] in1 r])
           (use settle(7) charged_row_member [OF settle(7)] in \<open>auto simp: charged_row_def\<close>)
      show "consumer_row y"
        if "y \<in> set (rdb_reservations db')" "rsv_ChargeProtocol y = consumerChargeProtocol" for y
        using that settle(6) same(4,5) members_okD(5) [OF ok(2)]
        by (auto simp: settle(10) set_update_rows split: if_splits)
    qed
    moreover have "claims_ok db'"
      using claims_ok_move [OF ok1(3) movesD(1) [OF settle(1)] _ settle(2)] settle(13) by simp
    moreover have "res_ext ?db1 db'"
      using moves_ext [OF settle(1)] closed_kept_update [OF ledger_okD(7) [OF ok1(1)] in1 r(1)] rows by simp
    ultimately show ?thesis using res_ext_trans [OF pre(2)] by (simp add: books_ok_def)
  qed
qed

lemma claimDueTx_books:
  assumes "claimDueTx consumers env db = Inr (ids, db')"
  shows "books_rel db db'"
  unfolding books_rel_def
proof
  assume inv: "books_ok db"
  then have ok: "ledger_ok db" "members_ok db" by (auto simp: books_ok_def)
  obtain rs where rs: "db' = db\<lparr>rdb_reservations := rs\<rparr>" "list_all2 rescheduled (rdb_reservations db) rs"
    using claim_rows_effect assms by (metis claimDueTx_def)
  have row: "\<exists>r\<in>set (rdb_reservations db). rescheduled r r'" if "r' \<in> set rs" for r'
    using rs(2) that by (metis in_set_conv_nth list_all2_conv_all_nth)
  have ids: "map reservation_id rs = map reservation_id (rdb_reservations db)"
    using rs(2) by (rule list_all2_map_eq) (simp add: rescheduled_same)
  have sums: "reserved_sum db' k = reserved_sum db k" "open_charges rs pk = open_charges (rdb_reservations db) pk" for k pk
    unfolding reserved_sum_def open_charges_def rs(1)
    using rs(2) by (auto intro!: sum_rows_all2 [where R = rescheduled] simp: rescheduled_same)
  have "ledger_ok db'"
    using ok(1) ids row sums(1)
    by (fastforce simp: ledger_ok_def rs(1) res_balance_def debt_of_alt dest: rescheduled_same(2))
  moreover have "members_ok db'"
    by (rule members_ok_same [OF ok(2)])
       (use sums(2) row members_okD(5) [OF ok(2)] in
         \<open>fastforce simp: rs(1) res_balance_def dest: rescheduled_same(7,8)\<close>)+
  moreover have "closed_kept (rdb_reservations db) rs"
    using rs(2) by (fastforce simp: closed_kept_def list_all2_conv_all_nth in_set_conv_nth dest: rescheduled_same(9))
  ultimately show "books_ok db' \<and> res_ext db db'"
    using books_ok_frame [OF inv, of db'] by (auto simp: rs(1) intro!: same_ext)
qed

lemma setMonthlyLimitTx_books:
  assumes "setMonthlyLimitTx dg i env db = Inr (out, db')"
  shows "books_rel db db'"
proof -
  obtain ops lims mons aud where db': "db' = db\<lparr>rdb_operations := ops, rdb_limits := lims, rdb_months := mons, rdb_audit := aud\<rparr>"
    by (rule setMonthlyLimitTx_effect [OF assms])
  have lok: "ledger_ok db' \<longleftrightarrow> ledger_ok db"
    by (simp add: db' ledger_ok_def debt_of_alt res_balance_def reserved_sum_def)
  have "members_ok db'" if "members_ok db"
    by (rule members_ok_same [OF that]) (use members_okD(5) [OF that] in \<open>auto simp: db' res_balance_def\<close>)
  with lok show ?thesis
    using books_ok_frame [of db db'] same_ext [of db' db] by (simp add: books_rel_def db' books_ok_def)
qed

text \<open>With the journal, every committed transaction is in the relation of the invariant.\<close>

lemma claimDueTx_journal: "claimDueTx consumers env db = Inr (ids, db') \<Longrightarrow> journal_ok db \<Longrightarrow> journal_ok db'"
  using claim_rows_effect by (fastforce simp: claimDueTx_def Let_def)

lemma welcomeGrantTx_rel:
  assumes "welcomeGrantTx x env db = Inr (r, db')" "0 < wgx_Quantity x" "in64 (wgx_Quantity x)"
    "validResourceType (wgx_ResourceType x)" "wgx_SourceType x = SourceOnboardingWelcomeStorePeriod"
  shows "res_rel db db'"
  by (rule res_relI [OF welcomeGrantTx_books [OF assms] grantTx_journal(1) [OF assms(1)]])

lemma purchasedGrantTx_rel:
  assumes "purchasedGrantTx x env db = Inr (r, db')" "0 < pgx_Quantity x" "in64 (pgx_Quantity x)"
    "validResourceType (pgx_ResourceType x)" "pgx_SourceType x = SourceCommercialOrderItem"
  shows "res_rel db db'"
  by (rule res_relI [OF purchasedGrantTx_books [OF assms] grantTx_journal(2) [OF assms(1)]])

lemma trialGrantTx_rel:
  assumes "executeTrialAIGrantTransaction x env db = Inr (r, db')"
  shows "res_rel db db'"
  by (rule res_relI [OF trialGrantTx_books [OF assms] grantTx_journal(3) [OF assms(1)]])

lemma reservationTx_rel:
  assumes "reservationTx st x env db = Inr (r, db')"
    and "0 < rsx_Quantity x" "in64 (rsx_Quantity x)"
    and "rsx_OwnerType x \<notin> {SourceOnboardingWelcomeStorePeriod, SourceCommercialOrderItem, SourceLocalAITrial}"
  shows "res_rel db db'"
  by (rule res_relI [OF reservationTx_books [OF assms] reservationTx_journal [OF assms(1)]])

lemma settlementTx_rel:
  assumes "settlementTx st seed x env db = Inr (out, db')"
    and "rsv_OwnerType seed \<notin> {SourceOnboardingWelcomeStorePeriod, SourceCommercialOrderItem, SourceLocalAITrial}"
    and "\<not> validResourceConsumer (rsv_OwnerType seed)"
  shows "res_rel db db'"
  by (rule res_relI [OF settlementTx_books [OF assms] settlementTx_journal [OF assms(1)]])

lemma transferTx_rel:
  assumes "transferTx dg c env db = Inr (r, db')"
    and "ValidMemberResourceTransfer c" "in64 (mrt_Quantity c)"
  shows "res_rel db db'"
  by (rule res_relI [OF transferTx_books [OF assms] transferTx_journal [OF assms(1)]])

lemma chargeReserveTx_rel:
  assumes "chargeReserveTx dg env i db = Inr (out, db')"
    and "ValidConsumerChargeIntent i" "in64 (ccn_Quantity i)"
  shows "res_rel db db'"
  by (rule res_relI [OF chargeReserveTx_books [OF assms] chargeReserveTx_journal [OF assms(1)]])

lemma chargeSettleTx_rel:
  assumes "chargeSettleTx dg env (original, tproof) db = Inr (out, db')"
    and "ValidConsumerChargeIntent (ccr_Intent original)" "in64 (ccn_Quantity (ccr_Intent original))"
  shows "res_rel db db'"
  by (rule res_relI [OF chargeSettleTx_books [OF assms] chargeSettleTx_journal [OF assms(1)]])

lemma claimDueTx_rel:
  assumes "claimDueTx consumers env db = Inr (ids, db')"
  shows "res_rel db db'"
  by (rule res_relI [OF claimDueTx_books [OF assms] claimDueTx_journal [OF assms(1)]])

lemma setMonthlyLimitTx_rel:
  assumes "setMonthlyLimitTx dg i env db = Inr (out, db')"
  shows "res_rel db db'"
  by (rule res_relI [OF setMonthlyLimitTx_books [OF assms] setMonthlyLimitTx_journal [OF assms(1)]])

section \<open>Calls\<close>

text \<open>
  The contract of the runner towards its clients: a relation that is reflexive and transitive and
  that every commit respects holds between the states before and after a call, whatever faults
  and retries happen inside.
\<close>

locale commit_relation =
  fixes R :: "'db \<Rightarrow> 'db \<Rightarrow> bool"
  assumes R_refl: "R s s"
    and R_trans: "R s t \<Longrightarrow> R t u \<Longrightarrow> R s u"
begin

lemma run_body_R:
  assumes "\<And>env s a t. body env s = Inr (a, t) \<Longrightarrow> R s t"
  shows "R db (fst (run_body c sqlite envs body db))"
  using R_refl R_trans assms by (rule run_body_rel)

lemma run_body_R':
  assumes "run_body c sqlite envs body db = (db', r)" "\<And>env s a t. body env s = Inr (a, t) \<Longrightarrow> R s t"
  shows "R db db'"
  using run_body_R [of body db c sqlite envs] assms by (metis fst_conv)

lemma execute_frame_R:
  assumes "\<And>env s a t. body env s = Inr (a, t) \<Longrightarrow> R s t"
  shows "R db (fst (execute_frame c sqlite ev replay body db))"
  using run_body_R' [of c sqlite "xev_attempts ev" body db, OF _ assms] R_refl
  by (auto simp: execute_frame_def split: sum.splits option.splits prod.splits)

end

text \<open>A durable read answers what the tables say.\<close>

lemma op_runs_read:
  "op_runs (\<lambda>at d. (d, f at d)) ats db = (db, map (\<lambda>at. f at db) ats)"
  by (induction ats) simp_all

lemma runRead_Inr:
  assumes "runRead c sqlite envs answer db = Inr a"
  shows "answer db = Inr a"
proof -
  let ?op = "\<lambda>at d. (d, run_read (att_fault at) (answer d))"
  obtain m rs where "op_runs ?op (map envs [1..<1 + m]) db =
      (fst (runWithRetry (withDefaults c) sqlite envs ?op 1 db), rs)"
    "\<forall>a. snd (runWithRetry (withDefaults c) sqlite envs ?op 1 db) = Inr a \<longrightarrow> Inr a \<in> set rs"
    using runWithRetry_runs [of 1 "withDefaults c" ?op envs db sqlite] by blast
  then have "Inr a \<in> set (map (\<lambda>at. run_read (att_fault at) (answer db)) (map envs [1..<1 + m]))"
    using assms by (simp add: runRead_def op_runs_read)
  then show ?thesis by (auto simp: run_read_def split: tx_fault.splits)
qed

lemma ReadCharge_Inr:
  assumes "ReadCharge c sqlite envs ident db = Inr receipt"
  obtains row where "row \<in> set (rdb_reservations db)" "receipt = consumerChargeReceipt row"
    "rsv_ChargeProtocol row = consumerChargeProtocol"
proof -
  obtain row where "readConsumerReservation ident db = Inr row" "receipt = consumerChargeReceipt row"
    using assms by (auto simp: ReadCharge_def ok_simps dest!: runRead_Inr split: sum.splits)
  then show thesis using that readConsumerReservation_Inr by blast
qed

definition charge_owners_in64 :: "charge_owners \<Rightarrow> bool" where
  "charge_owners_in64 owners \<longleftrightarrow>
     (\<forall>t own ident i. owners t = Some own \<longrightarrow> cco_ReadChargeIntent own ident = Inr i \<longrightarrow> in64 (ccn_Quantity i))"

section \<open>The transition system\<close>

text \<open>\<open>allowed\<close> says which owners of the charges the calls may be wired to.\<close>

inductive res_step_via :: "(charge_owners \<Rightarrow> bool) \<Rightarrow> digests \<Rightarrow> 'o res_db \<Rightarrow> 'o res_db \<Rightarrow> bool" for allowed dg db where
  step_welcome: "res_step_via allowed dg db (fst (GrantWelcomeStoreRenewalPeriod dg authorize verify c sqlite ev i db))"
| step_purchase: "in64 (pgi_Quantity pi) \<Longrightarrow>
    res_step_via allowed dg db (fst (GrantPurchasedResource dg authorize_p c sqlite ev pi db))"
| step_trial: "res_step_via allowed dg db (fst (Grant dg authorize_t c sqlite ev ti db))"
| step_reserve: "owners_separate owners \<Longrightarrow> in64 (rsi_Quantity ri) \<Longrightarrow>
    res_step_via allowed dg db (fst (Reserve dg authorize_r owners c sqlite ev ri db))"
| step_settle: "owners_separate owners \<Longrightarrow>
    res_step_via allowed dg db (fst (Settle dg authorize_s owners c sqlite ev reads si db))"
| step_transfer: "in64 (mrt_Quantity t) \<Longrightarrow>
    res_step_via allowed dg db (fst (TransferService dg authorize_m c sqlite envs p t db))"
| step_limit: "res_step_via allowed dg db (fst (SetMonthlyLimitService dg authorize_l c sqlite envs p li db))"
| step_charge: "charge_owners_in64 consumers \<Longrightarrow> allowed consumers \<Longrightarrow>
    res_step_via allowed dg db (fst (ReserveConsumerCharge dg consumers c sqlite ev ident db))"
| step_reconcile: "allowed consumers \<Longrightarrow>
    res_step_via allowed dg db (fst (Reconcile dg consumers c sqlite ev ident db))"
| step_recover: "allowed consumers \<Longrightarrow>
    res_step_via allowed dg db (fst (RecoverDue dg consumers registered c sqlite envs evs ctx_done db))"

inductive_cases res_stepE: "res_step_via allowed dg db db'"

text \<open>The calls with any owners of the charges.\<close>

abbreviation res_step :: "digests \<Rightarrow> 'o res_db \<Rightarrow> 'o res_db \<Rightarrow> bool" where
  "res_step \<equiv> res_step_via (\<lambda>_. True)"

lemma res_step_via_mono:
  assumes "res_step_via A dg db db'" "\<And>x. A x \<Longrightarrow> B x"
  shows "res_step_via B dg db db'"
  using assms(1) by cases (auto intro: res_step_via.intros assms(2))

text \<open>The owners answer only with proofs that \<open>good\<close> accepts.\<close>

definition owners_give :: "(ConsumerChargeReceipt \<Rightarrow> ConsumerChargeProof \<Rightarrow> bool) \<Rightarrow> charge_owners \<Rightarrow> bool" where
  "owners_give good owners \<longleftrightarrow> (\<forall>own receipt tproof.
     owners (cci_Consumer (ccn_Identity (ccr_Intent receipt))) = Some own \<longrightarrow>
     cco_ReadChargeProof own receipt = Inr tproof \<longrightarrow> ccp_Intent tproof = ccr_Intent receipt \<longrightarrow>
     ccp_ReservationID tproof = ccr_ReservationID receipt \<longrightarrow>
     ccp_State tproof = ConsumerEffectSucceeded \<or> ccp_State tproof = ConsumerEffectFailed \<longrightarrow> good receipt tproof)"

lemma owners_giveD:
  assumes "owners_give good owners" "owners (cci_Consumer (ccn_Identity (ccr_Intent receipt))) = Some own"
    "cco_ReadChargeProof own receipt = Inr tproof" "ccp_Intent tproof = ccr_Intent receipt"
    "ccp_ReservationID tproof = ccr_ReservationID receipt"
    "ccp_State tproof = ConsumerEffectSucceeded \<or> ccp_State tproof = ConsumerEffectFailed"
  shows "good receipt tproof"
  using assms unfolding owners_give_def by blast

text \<open>A reconciliation leaves the tables or settles the charge it read with its consumer's proof.\<close>

lemma Reconcile_cases:
  obtains "fst (Reconcile dg owners c sqlite ev ident db) = db"
  | own receipt tproof where
      "owners (cci_Consumer (ccn_Identity (ccr_Intent receipt))) = Some own"
      "ReadCharge c sqlite (xev_before ev) ident db = Inr receipt"
      "cco_ReadChargeProof own receipt = Inr tproof" "ccp_Intent tproof = ccr_Intent receipt"
      "ccp_ReservationID tproof = ccr_ReservationID receipt"
      "ccp_State tproof = ConsumerEffectSucceeded \<or> ccp_State tproof = ConsumerEffectFailed"
      "fst (Reconcile dg owners c sqlite ev ident db) = fst (SettleCharge dg c sqlite ev receipt tproof db)"
proof (cases "fst (Reconcile dg owners c sqlite ev ident db) = db")
  case False
  from False obtain own where own: "ValidConsumerChargeIdentity ident" "owners (cci_Consumer ident) = Some own"
    by (cases "owners (cci_Consumer ident)") (simp_all add: Reconcile_def split: if_splits)
  from False own obtain receipt where read: "ReadCharge c sqlite (xev_before ev) ident db = Inr receipt"
    by (cases "ReadCharge c sqlite (xev_before ev) ident db") (simp_all add: Reconcile_def)
  from False own read obtain tproof where
    "ccn_Identity (ccr_Intent receipt) = ident" "cco_ReadChargeProof own receipt = Inr tproof"
    by (cases "cco_ReadChargeProof own receipt") (simp_all add: Reconcile_def split: if_splits)
  with False own read show thesis
    by (intro that(2) [of receipt own tproof]) (auto simp: Reconcile_def split: if_splits)
qed (rule that(1))

text \<open>
  A relation that every transaction of the ledger respects, settlements under good proofs only: it
  then holds across every call of a service.
\<close>

locale ledger_relation = commit_relation R for R :: "'o res_db \<Rightarrow> 'o res_db \<Rightarrow> bool" +
  fixes good :: "ConsumerChargeReceipt \<Rightarrow> ConsumerChargeProof \<Rightarrow> bool"
  assumes R_vacuous: "\<not> res_inv db \<Longrightarrow> R db db'"
    and welcome_R: "welcomeGrantTx x env db = Inr (w, db') \<Longrightarrow> 0 < wgx_Quantity x \<Longrightarrow> in64 (wgx_Quantity x) \<Longrightarrow>
      validResourceType (wgx_ResourceType x) \<Longrightarrow> wgx_SourceType x = SourceOnboardingWelcomeStorePeriod \<Longrightarrow> R db db'"
    and purchased_R: "purchasedGrantTx y env db = Inr (u, db') \<Longrightarrow> 0 < pgx_Quantity y \<Longrightarrow> in64 (pgx_Quantity y) \<Longrightarrow>
      validResourceType (pgx_ResourceType y) \<Longrightarrow> pgx_SourceType y = SourceCommercialOrderItem \<Longrightarrow> R db db'"
    and trial_R: "executeTrialAIGrantTransaction z env db = Inr (v, db') \<Longrightarrow> R db db'"
    and reservation_R: "reservationTx st rx env db = Inr (o1, db') \<Longrightarrow> 0 < rsx_Quantity rx \<Longrightarrow> in64 (rsx_Quantity rx) \<Longrightarrow>
      rsx_OwnerType rx \<notin> {SourceOnboardingWelcomeStorePeriod, SourceCommercialOrderItem, SourceLocalAITrial} \<Longrightarrow> R db db'"
    and settlement_R: "settlementTx st seed sx env db = Inr (o2, db') \<Longrightarrow>
      rsv_OwnerType seed \<notin> {SourceOnboardingWelcomeStorePeriod, SourceCommercialOrderItem, SourceLocalAITrial} \<Longrightarrow>
      \<not> validResourceConsumer (rsv_OwnerType seed) \<Longrightarrow> R db db'"
    and transfer_R: "transferTx dg tr env db = Inr (o3, db') \<Longrightarrow> ValidMemberResourceTransfer tr \<Longrightarrow>
      in64 (mrt_Quantity tr) \<Longrightarrow> R db db'"
    and limit_R: "setMonthlyLimitTx dg li env db = Inr (o4, db') \<Longrightarrow> R db db'"
    and charge_R: "chargeReserveTx dg env i db = Inr (o5, db') \<Longrightarrow> ValidConsumerChargeIntent i \<Longrightarrow>
      in64 (ccn_Quantity i) \<Longrightarrow> R db db'"
    and settle_charge_R: "chargeSettleTx dg env (original, tproof) db = Inr (o6, db') \<Longrightarrow>
      ValidConsumerChargeIntent (ccr_Intent original) \<Longrightarrow> in64 (ccn_Quantity (ccr_Intent original)) \<Longrightarrow>
      good original tproof \<Longrightarrow> R db db'"
    and claim_R: "claimDueTx consumers env db = Inr (ids, db') \<Longrightarrow> R db db'"
begin

lemma GrantWelcome_calls: "R db (fst (GrantWelcomeStoreRenewalPeriod dg authorize verify c sqlite ev i db))"
proof -
  have "R db (fst (ExecuteWelcomeGrant c sqlite ev x db))"
    if "x = (welcome_execution dg i)\<lparr>wgx_ApprovalEvidenceID := ev', wgx_ApprovedAt := at\<rparr>" for x ev' at
    unfolding ExecuteWelcomeGrant_def
    by (rule execute_frame_R, erule welcome_R)
       (auto simp: that welcome_execution_def Let_def in64_unfold validResourceType_def)
  then show ?thesis
    by (auto simp: GrantWelcomeStoreRenewalPeriod_def Let_def R_refl split: sum.splits option.splits)
qed

lemma GrantPurchased_calls:
  assumes "in64 (pgi_Quantity input)"
  shows "R db (fst (GrantPurchasedResource dg authorize c sqlite ev input db))"
proof -
  let ?i = "normalizePurchasedGrantInput input"
  have "R db (fst (ExecutePurchasedResourceGrant c sqlite ev (purchased_execution dg ?i) db))"
    if "validatePurchasedGrantIdentity ?i = None"
    unfolding ExecutePurchasedResourceGrant_def
    by (rule execute_frame_R, erule purchased_R)
       (use that assms in \<open>auto simp: purchased_execution_def Let_def validatePurchasedGrantIdentity_def
          normalizePurchasedGrantInput_def split: if_splits\<close>)
  then show ?thesis
    by (auto simp: GrantPurchasedResource_def Let_def R_refl split: sum.splits option.splits)
qed

lemma GrantTrial_calls: "R db (fst (Grant dg authorize c sqlite ev i db))"
  using execute_frame_R [OF trial_R] R_refl
  by (auto simp: Grant_def ExecuteTrialAIGrant_def split: sum.splits option.splits)

lemma Reserve_calls:
  assumes "owners_separate owners" "in64 (rsi_Quantity input)"
  shows "R db (fst (Reserve dg authorize owners c sqlite ev input db))"
proof -
  let ?i = "normalizeReserveInput input" let ?x = "reserve_execution dg ?i"
  have "R db (fst (execute_frame c sqlite ev f (reservationTx st ?x) db))"
    if "validateReserveIdentity ?i = None" "owners (rsx_OwnerType ?x) = Some st" for st f
    by (rule execute_frame_R, erule reservation_R)
       (use that assms in \<open>auto simp: reserve_execution_def Let_def validateReserveIdentity_def
          normalizeReserveInput_def owners_separate_def split: if_splits\<close>)
  then show ?thesis
    by (auto simp: Reserve_def ExecuteReservation_def Let_def R_refl split: sum.splits option.splits)
qed

lemma Settle_calls:
  assumes "owners_separate owners"
  shows "R db (fst (Settle dg authorize owners c sqlite ev reads i db))"
proof -
  have "R db (fst (ExecuteSettlement owners c sqlite ev reads x db))" for x
  proof -
    have tx: "R db db1"
      if "owners (rsv_OwnerType seed) = Some st" "run_body c sqlite (xev_attempts ev) (settlementTx st seed x) db = (db1, r)"
      for seed st db1 r
      by (rule run_body_R' [OF that(2)], erule settlement_R)
         (use that(1) assms in \<open>auto simp: owners_separate_def validResourceConsumer_def\<close>)
    show ?thesis
      using R_refl tx
      by (auto simp: ExecuteSettlement_def Let_def split: sum.splits option.splits prod.splits)
  qed
  then show ?thesis using R_refl by (auto simp: Settle_def Let_def split: sum.splits option.splits)
qed

lemma TransferService_calls:
  assumes "in64 (mrt_Quantity t)"
  shows "R db (fst (TransferService dg authorize c sqlite envs p t db))"
  using run_body_R [OF transfer_R [OF _ _ assms]] R_refl
  by (auto simp: TransferService_def Transfer_def split: option.splits)

lemma SetMonthlyLimitService_calls:
  "R db (fst (SetMonthlyLimitService dg authorize c sqlite envs p i db))"
  using run_body_R [OF limit_R] R_refl
  by (auto simp: SetMonthlyLimitService_def SetMonthlyLimit_def split: option.splits)

text \<open>Charges.\<close>

lemma ReserveConsumerCharge_calls:
  assumes "charge_owners_in64 owners"
  shows "R db (fst (ReserveConsumerCharge dg owners c sqlite ev ident db))"
proof -
  have "R db (fst (ReserveCharge dg c sqlite ev i db))" if "in64 (ccn_Quantity i)" for i
    using run_body_R' [OF _ charge_R [OF _ _ that]] R_refl
    by (auto simp: ReserveCharge_def split: sum.splits prod.splits)
  then show ?thesis
    using assms R_refl
    by (auto simp: ReserveConsumerCharge_def charge_owners_in64_def split: sum.splits option.splits)
qed

lemma SettleCharge_calls:
  assumes "in64 (ccn_Quantity (ccr_Intent original))" "good original tproof"
  shows "R db (fst (SettleCharge dg c sqlite ev original tproof db))"
proof -
  have "R db db1"
    if "run_body c sqlite (xev_attempts ev) (\<lambda>env. chargeSettleTx dg env (original, tproof)) db = (db1, r)"
      "ValidConsumerChargeIntent (ccr_Intent original)" for db1 r
    by (rule run_body_R' [OF that(1)], erule settle_charge_R) (use that(2) assms in auto)
  then show ?thesis
    using R_refl by (auto simp: SettleCharge_def split: sum.splits prod.splits)
qed

lemma Reconcile_calls:
  assumes "owners_give good owners"
  shows "R db (fst (Reconcile dg owners c sqlite ev ident db))"
proof (cases "res_inv db")
  case True
  have "in64 (ccn_Quantity (ccr_Intent receipt))"
    if read: "ReadCharge c sqlite (xev_before ev) ident db = Inr receipt" for receipt
  proof -
    obtain row where "row \<in> set (rdb_reservations db)" "receipt = consumerChargeReceipt row"
      using ReadCharge_Inr [OF read] by blast
    with True ledger_okD(9) [of db row] show ?thesis by (simp add: res_inv_def consumerChargeReceipt_def)
  qed
  then show ?thesis
    by (rule_tac Reconcile_cases [of dg owners c sqlite ev ident db])
       (simp_all add: R_refl SettleCharge_calls owners_giveD [OF assms])
qed (rule R_vacuous)

lemma reconcile_all_calls:
  "owners_give good owners \<Longrightarrow> R db (fst (reconcile_all dg owners c sqlite evs ctx_done n ids db))"
proof (induction dg owners c sqlite evs ctx_done n ids db rule: reconcile_all.induct)
  case (2 dg owners c sqlite evs ctx_done n i "is" db)
  obtain db1 r where r: "Reconcile dg owners c sqlite (evs n) i db = (db1, r)" by fastforce
  have "R db db1" using Reconcile_calls [OF 2(3), of db dg c sqlite "evs n" i] r by simp
  moreover have "R db1 (fst (reconcile_all dg owners c sqlite evs ctx_done (Suc n) is db1))"
    if "ctx_done n = None" using 2(1,2) [OF that _ _ 2(3)] r by (cases r) auto
  ultimately have go: "R db (fst (reconcile_all dg owners c sqlite evs ctx_done (Suc n) is db1))"
    if "ctx_done n = None" using that R_trans by blast
  have "fst (reconcile_all dg owners c sqlite evs ctx_done n (i # is) db) =
      (if ctx_done n = None then fst (reconcile_all dg owners c sqlite evs ctx_done (Suc n) is db1) else db)"
    by (simp add: r split: option.splits sum.splits prod.splits)
  then show ?case using go by (simp only: R_refl split: if_split) simp
qed (simp add: R_refl)

lemma RecoverDue_calls:
  assumes "owners_give good owners"
  shows "R db (fst (RecoverDue dg owners registered c sqlite envs evs ctx_done db))"
proof -
  obtain db1 r where r: "ClaimDue c sqlite envs registered db = (db1, r)" by fastforce
  have "R db db1"
    using R_refl r
    by (auto simp: ClaimDue_def split: if_splits dest!: run_body_R' [OF _ claim_R])
  moreover have "fst (RecoverDue dg owners registered c sqlite envs evs ctx_done db) =
      (case r of Inl _ \<Rightarrow> db1 | Inr ids \<Rightarrow> fst (reconcile_all dg owners c sqlite evs ctx_done 0 ids db1))"
    by (simp add: RecoverDue_def r split: sum.splits prod.splits)
  ultimately show ?thesis
    by (auto split: sum.splits intro: R_trans [OF _ reconcile_all_calls [OF assms]])
qed

lemma step_calls:
  assumes "res_step_via (owners_give good) dg db db'"
  shows "R db db'"
  using assms
  by (elim res_stepE)
     (simp_all only: GrantWelcome_calls GrantPurchased_calls GrantTrial_calls Reserve_calls Settle_calls
       TransferService_calls SetMonthlyLimitService_calls ReserveConsumerCharge_calls Reconcile_calls RecoverDue_calls)

end

interpretation rr: ledger_relation res_rel "\<lambda>_ _. True"
proof unfold_locales
  show "res_rel db db'" if "\<not> res_inv db" for db db' :: "'o res_db" using that by (simp add: res_rel_def)
qed (rule res_rel_refl | erule trialGrantTx_rel setMonthlyLimitTx_rel claimDueTx_rel |
  (erule res_rel_trans welcomeGrantTx_rel purchasedGrantTx_rel reservationTx_rel settlementTx_rel transferTx_rel
    chargeReserveTx_rel chargeSettleTx_rel, assumption+))+

lemma res_step_rel:
  assumes "res_step_via allowed dg db db'"
  shows "res_rel db db'"
  by (rule rr.step_calls, rule res_step_via_mono [OF assms]) (simp add: owners_give_def)

text \<open>
  The initial tables: no resources, and the debts that organizations already have. The schema
  refuses a negative amount and a second row for the same key; a debt needs its bucket.
\<close>

definition no_resources :: "'o \<Rightarrow> 'o res_db" where
  "no_resources owner =
     \<lparr>rdb_buckets = Map.empty, rdb_debts = Map.empty, rdb_operations = Map.empty, rdb_claims = Map.empty,
      rdb_events = [], rdb_reservations = [], rdb_audit = [], rdb_limits = Map.empty, rdb_months = Map.empty,
      rdb_positions = [], rdb_owner = owner\<rparr>"

definition record_debt :: "gotime \<Rightarrow> string \<times> ResourceType \<times> i64 \<Rightarrow> 'o res_db \<Rightarrow> 'o res_db" where
  "record_debt now seed db =
     (case seed of (org, rt, amount) \<Rightarrow>
        if amount < 0 \<or> \<not> in64 amount \<or> rdb_debts db (org, rt) \<noteq> None then db
        else let db1 = ensure_bucket now org rt db in
          db1\<lparr>rdb_debts := (rdb_debts db1)((org, rt) \<mapsto>
            \<lparr>dbt_OrganizationID = org, dbt_ResourceType = rt, dbt_Amount = amount, dbt_UpdatedAt = now\<rparr>)\<rparr>)"

definition res_init :: "gotime \<Rightarrow> (string \<times> ResourceType \<times> i64) list \<Rightarrow> 'o \<Rightarrow> 'o res_db" where
  "res_init now seeds owner = foldr (record_debt now) seeds (no_resources owner)"

text \<open>Nothing is held, by anyone.\<close>

definition res_empty :: "'o res_db \<Rightarrow> bool" where
  "res_empty db \<longleftrightarrow> rdb_operations db = Map.empty \<and> rdb_events db = [] \<and> rdb_reservations db = [] \<and> rdb_positions db = []
     \<and> (\<forall>k b. rdb_buckets db k = Some b \<longrightarrow> bucket_key b = k \<and> (\<forall>d. bucket_side b d = 0))
     \<and> (\<forall>k d. rdb_debts db k = Some d \<longrightarrow> (dbt_OrganizationID d, dbt_ResourceType d) = k \<and> 0 \<le> dbt_Amount d
          \<and> in64 (dbt_Amount d) \<and> rdb_buckets db k \<noteq> None)"

lemma fresh_bucket_side:
  "bucket_side \<lparr>bkt_OrganizationID = org, bkt_ResourceType = rt, bkt_Available = 0, bkt_Allocated = 0,
     bkt_Reserved = 0, bkt_Consumed = 0, bkt_UpdatedAt = t\<rparr> d = 0"
  by (cases d) simp_all

lemma record_debt_empty: "res_empty db \<Longrightarrow> res_empty (record_debt now seed db)"
  by (cases seed)
     (auto simp: record_debt_def Let_def res_empty_def ensure_bucket_def bucket_key_def fresh_bucket_side
       split: option.splits if_splits)

lemma res_init_empty: "res_empty (res_init now seeds owner)"
proof -
  have "res_empty (no_resources owner)" by (simp add: res_empty_def no_resources_def)
  then show ?thesis unfolding res_init_def by (induction seeds) (simp_all add: record_debt_empty)
qed

lemma res_empty_balance: "res_empty db \<Longrightarrow> res_balance db k d = 0"
  by (auto simp: res_empty_def res_balance_def split: option.splits)

lemma res_empty_inv:
  assumes "res_empty db"
  shows "res_inv db"
proof -
  have "bucket_ok k b" if "rdb_buckets db k = Some b" for k b
  proof -
    have side: "bucket_side b d = 0" for d using assms that by (simp add: res_empty_def)
    show ?thesis
      using assms that side [of Allocated] side
      by (auto simp: res_empty_def bucket_ok_def in64_unfold)
  qed
  then show ?thesis
    using assms res_empty_balance [OF assms]
    by (auto simp: res_inv_def ledger_ok_def members_ok_def claims_ok_def journal_ok_def res_empty_def reserved_sum_def
        free_sum_def member_reserved_def open_charges_def)
qed

abbreviation res_reachable :: "digests \<Rightarrow> gotime \<Rightarrow> (string \<times> ResourceType \<times> i64) list \<Rightarrow> 'o \<Rightarrow> 'o res_db \<Rightarrow> bool" where
  "res_reachable dg now seeds owner \<equiv> reachable (res_step dg) (res_init now seeds owner)"

interpretation rl: audited_ledger res_balance rdb_events event_key event_delta
  "res_step dg" res_inv "res_init now seeds owner" for dg now seeds owner
proof unfold_locales
  show "res_inv (res_init now seeds owner)" by (rule res_empty_inv [OF res_init_empty])
  show "rdb_events (res_init now seeds owner) = []" using res_init_empty [of now seeds owner] by (simp add: res_empty_def)
  show "res_balance (res_init now seeds owner) k d = 0" for k d by (rule res_empty_balance [OF res_init_empty])
  show "res_inv s'" if "res_inv s" "res_step dg s s'" for s s'
    using res_step_rel [OF that(2)] that(1) by (simp add: res_rel_def)
  show "\<exists>es. rdb_events s' = rdb_events s @ es \<and> (\<forall>k d. res_balance s' k d =
      res_balance s k d + sum_rows (\<lambda>e. event_key e = k) (\<lambda>e. event_delta e d) es)"
    if "res_inv s" "res_step dg s s'" for s s'
    using res_step_rel [OF that(2)] that(1) by (auto simp: res_rel_def res_ext_def)
qed

lemma reachable_res_inv: "res_reachable dg now seeds owner db \<Longrightarrow> res_inv db"
  by (drule rl.reachable_reconciles) simp

lemma reachable_res_ext: "res_reachable dg now seeds owner db \<Longrightarrow> res_ext (res_init now seeds owner) db"
proof (induction rule: reachable.induct)
  case (reach_step s s')
  then show ?case
    using res_step_rel [OF reach_step(2)] reachable_res_inv [OF reach_step(1)] res_ext_trans
    by (auto simp: res_rel_def)
qed (rule res_ext_refl)

end
