(* ===== verification/Res_Scenarios.thy ===== *)
theory Res_Scenarios
  imports Res_System
begin

text \<open>
  A concrete run of the resource ledger, call by call, at which the properties are instantiated.
  The organization starts with a debt of 4 data rows; it buys 10 (the debt is repaid first), gives
  3 to a member, and two consumers charge one row each, one from the member's rows and one from
  the organization's; the first charge then succeeds and is settled, and a welcome grant follows.
\<close>

text \<open>The digests of the run keep apart the documents that the run distinguishes.\<close>

fun sample_text :: "json \<Rightarrow> string" where
  "sample_text (JStr s) = s @ ''/''"
| "sample_text (JObj fs) = concat (map (\<lambda>(_, v). case v of JStr s \<Rightarrow> s @ ''/'' | _ \<Rightarrow> ''.'') fs)"
| "sample_text _ = ''.''"

definition sample_digests :: digests where
  "sample_digests = \<lparr>dg_json = sample_text, dg_text = (\<lambda>s. s)\<rparr>"

definition sample_attempt :: "nat \<Rightarrow> attempt" where
  "sample_attempt n =
     \<lparr>att_budget = False, att_ctx = None,
      att_env = \<lparr>rnv_now = (\<lambda>k. 1000000 * int n + 1000 * int k),
                 rnv_uuid = (\<lambda>k. replicate n (CHR ''u'') @ replicate k (CHR ''v''))\<rparr>,
      att_fault = NoFault, att_ctx_after = None, att_deadline = False, att_wait = None\<rparr>"

definition sample_exec :: "nat \<Rightarrow> exec_env" where
  "sample_exec n =
     \<lparr>xev_replay = (\<lambda>_. sample_attempt n), xev_before = (\<lambda>_. sample_attempt n),
      xev_attempts = (\<lambda>_. sample_attempt n), xev_afterCommit = None,
      xev_after = (\<lambda>_. sample_attempt n)\<rparr>"

definition sample_config :: TransactionConfig where
  "sample_config =
     \<lparr>cfg_LockTimeout = 0, cfg_StatementTimeout = 0, cfg_TransactionTimeout = 0,
      cfg_TotalRetryBudget = 0, cfg_BaseRetryDelay = 0, cfg_MaxAttempts = 0\<rparr>"

definition sample_purchase :: PurchasedResourceGrantInput where
  "sample_purchase =
     \<lparr>pgi_OrganizationID = ''acme'', pgi_OperationID = ''buy'', pgi_CommercialOrderID = ''ord'',
      pgi_CommercialOrderItemID = ''1'', pgi_ResourceType = ResourceDataRow, pgi_Quantity = 10,
      pgi_Principal = \<lparr>pcl_ID = ''commercial-billing'', pcl_Kind = PrincipalTrustedCommercial\<rparr>\<rparr>"

definition sample_transfer :: MemberResourceTransfer where
  "sample_transfer =
     \<lparr>mrt_OrganizationID = ''acme'', mrt_MemberID = ''ann'', mrt_ActorID = ''boss'',
      mrt_OperationID = ''give'', mrt_ResourceType = ResourceDataRow, mrt_Action = MemberResourceAllocate,
      mrt_Quantity = 3, mrt_ExpectedVersion = 0, mrt_QuoteID = []\<rparr>"

definition sample_human :: Principal where
  "sample_human = \<lparr>pcl_ID = ''boss'', pcl_Kind = PrincipalTenantHuman\<rparr>"

definition sample_identity :: "string \<Rightarrow> string \<Rightarrow> ConsumerChargeIdentity" where
  "sample_identity consumer oper =
     \<lparr>cci_OrganizationID = ''acme'', cci_Consumer = consumer, cci_OperationID = oper\<rparr>"

definition sample_intent :: "ConsumerChargeIdentity \<Rightarrow> ConsumerChargeIntent" where
  "sample_intent ident =
     \<lparr>ccn_Identity = ident, ccn_ActorID = ''boss'', ccn_MemberID = ''ann'',
      ccn_Funding = (if cci_Consumer ident = ConsumerAmazonData then FundingMember else FundingEnterprise),
      ccn_ResourceType = ResourceDataRow, ccn_Quantity = 1, ccn_Fingerprint = replicate 64 (CHR ''a''),
      ccn_BusinessScope = ''scope''\<rparr>"

definition sample_consumers :: charge_owners where
  "sample_consumers = (\<lambda>_. Some
     \<lparr>cco_ReadChargeIntent = (\<lambda>ident. Inr (sample_intent ident)),
      cco_ReadChargeProof = (\<lambda>r. Inr \<lparr>ccp_Intent = ccr_Intent r, ccp_ReservationID = ccr_ReservationID r,
        ccp_State = ConsumerEffectSucceeded, ccp_EvidenceID = ''done''\<rparr>)\<rparr>)"

definition sample_welcome :: GrantWelcomeStoreRenewalPeriodInput where
  "sample_welcome =
     \<lparr>wgi_OrganizationID = ''acme'', wgi_OperationID = ''hello'',
      wgi_Principal = \<lparr>pcl_ID = ''onboarding'', pcl_Kind = PrincipalTrustedCommercial\<rparr>\<rparr>"

definition sample_seeds :: "(string \<times> ResourceType \<times> i64) list" where
  "sample_seeds = [(''acme'', ResourceDataRow, 4)]"

definition res0 :: "unit res_db" where
  "res0 = res_init 1 sample_seeds ()"
definition res1 :: "unit res_db" where
  "res1 = fst (GrantPurchasedResource sample_digests AuthorizePurchasedGrant sample_config False
     (sample_exec 1) sample_purchase res0)"
definition res2 :: "unit res_db" where
  "res2 = fst (TransferService sample_digests (\<lambda>_ _. None) sample_config False
     (\<lambda>_. sample_attempt 2) sample_human sample_transfer res1)"
definition res3 :: "unit res_db" where
  "res3 = fst (ReserveConsumerCharge sample_digests sample_consumers sample_config False (sample_exec 3)
     (sample_identity ConsumerAmazonData ''c1'') res2)"
definition res4 :: "unit res_db" where
  "res4 = fst (ReserveConsumerCharge sample_digests sample_consumers sample_config False (sample_exec 4)
     (sample_identity ConsumerProductAcquisition ''c2'') res3)"
definition res5 :: "unit res_db" where
  "res5 = fst (Reconcile sample_digests sample_consumers sample_config False (sample_exec 5)
     (sample_identity ConsumerAmazonData ''c1'') res4)"
definition res6 :: "unit res_db" where
  "res6 = fst (GrantWelcomeStoreRenewalPeriod sample_digests (\<lambda>_. None)
     (\<lambda>org. Inr \<lparr>wga_OrganizationID = org, wga_EvidenceID = ''e'', wga_ApprovedAt = 1\<rparr>)
     sample_config False (sample_exec 6) sample_welcome res5)"

abbreviation sample_res_reachable :: "unit res_db \<Rightarrow> bool" where
  "sample_res_reachable \<equiv> res_reachable sample_digests 1 sample_seeds ()"

lemma sample_consumers_in64: "charge_owners_in64 sample_consumers"
  by (auto simp: charge_owners_in64_def sample_consumers_def sample_intent_def in64_unfold)

lemma res_reachable_run:
  "sample_res_reachable res1" "sample_res_reachable res2" "sample_res_reachable res3"
  "sample_res_reachable res4" "sample_res_reachable res5" "sample_res_reachable res6"
proof -
  show 1: "sample_res_reachable res1" unfolding res1_def res0_def
    by (rule reach_step [OF reach_refl], rule step_purchase) (simp add: sample_purchase_def in64_unfold)
  show 2: "sample_res_reachable res2" unfolding res2_def
    by (rule reach_step [OF 1], rule step_transfer) (simp add: sample_transfer_def in64_unfold)
  show 3: "sample_res_reachable res3" unfolding res3_def
    by (rule reach_step [OF 2], rule step_charge) (simp_all add: sample_consumers_in64)
  show 4: "sample_res_reachable res4" unfolding res4_def
    by (rule reach_step [OF 3], rule step_charge) (simp_all add: sample_consumers_in64)
  show 5: "sample_res_reachable res5" unfolding res5_def
    by (rule reach_step [OF 4], rule step_reconcile) simp
  show "sample_res_reachable res6" unfolding res6_def
    by (rule reach_step [OF 5], rule step_welcome)
qed

text \<open>What is seen along the run, state by state: each state is computed once.\<close>

definition data_rows :: "unit res_db \<Rightarrow> int list" where
  "data_rows db = map (res_balance db (''acme'', ResourceDataRow)) [Available, Allocated, Reserved, Consumed]"

definition seen1 :: "unit res_db \<Rightarrow> bool" where
  "seen1 db \<longleftrightarrow> data_rows db = [6, 0, 0, 0] \<and> debt_of db (''acme'', ResourceDataRow) = 0"

definition seen4 :: "unit res_db \<Rightarrow> bool" where
  "seen4 db \<longleftrightarrow> data_rows db = [2, 2, 2, 0]
     \<and> member_reserved (rdb_positions db) (''acme'', ''ann'', ResourceDataRow) = 1"

definition seen5 :: "unit res_db \<Rightarrow> bool" where
  "seen5 db \<longleftrightarrow> data_rows db = [2, 2, 1, 1] \<and> debt_of db (''acme'', ResourceDataRow) = 0
     \<and> length (rdb_reservations db) = 2 \<and> rsv_State (hd (rdb_reservations db)) = ReservationCommitted"

definition seen6 :: "unit res_db \<Rightarrow> bool" where
  "seen6 db \<longleftrightarrow> length (filter grant_event (rdb_events db)) = 2
     \<and> map (\<lambda>rt. map_option bkt_UpdatedAt (rdb_buckets db (''acme'', rt)))
         [ResourceStoreRenewalPeriod, ResourceAIPoint, ResourceDataRow] = [Some 6002000, None, Some 5001000]"

lemma res_run_seen: "seen1 res1" "seen4 res4" "seen5 res5" "seen6 res6"
  by code_simp+

lemma res_run_balances:
  "data_rows res1 = [6, 0, 0, 0]" "data_rows res4 = [2, 2, 2, 0]" "data_rows res5 = [2, 2, 1, 1]"
  using res_run_seen by (simp_all add: seen1_def seen4_def seen5_def)

end
