(* ===== verification/Res_Ledger_Properties.thy ===== *)
theory Res_Ledger_Properties
  imports Res_Scenarios
begin

text \<open>
  The properties of the resource tables in every state that the services can reach: what explains
  the balances, what is conserved, what the member positions add up to, what a source can mint, and
  what never changes. They are the facts of the interpretation \<open>rl\<close> and of \<open>res_step_rel\<close>, written
  out over the model.
\<close>

lemma reachable_parts:
  assumes "res_reachable dg now seeds owner db"
  shows "ledger_ok db" "members_ok db" "claims_ok db"
  using reachable_res_inv [OF assms] by (auto simp: res_inv_def)

section \<open>Balances\<close>

text \<open>
  C24: in every reachable state each of the four balances (available, allocated, reserved, consumed)
  of each organization and resource type is the sum of the deltas of its events.
\<close>

theorem resource_ledger_reconciles:
  assumes "res_reachable dg now seeds owner db"
  shows "res_balance db k d = sum_rows (\<lambda>e. event_key e = k) (\<lambda>e. event_delta e d) (rdb_events db)"
  using rl.reachable_reconciles [OF assms] by blast

theorem resource_ledger_reconciles_witness:
  "sum_rows (\<lambda>e. event_key e = (''acme'', ResourceDataRow)) (\<lambda>e. event_delta e Available) (rdb_events res5) = 2"
  using resource_ledger_reconciles [OF res_reachable_run(5), of "(''acme'', ResourceDataRow)" Available]
    res_run_balances(3) by (simp add: data_rows_def)

text \<open>What an organization holds of a resource, on any side.\<close>

definition total_held :: "'o res_db \<Rightarrow> res_key \<Rightarrow> int" where
  "total_held db k =
     res_balance db k Available + res_balance db k Allocated + res_balance db k Reserved + res_balance db k Consumed"

lemma events_total:
  assumes "\<forall>e\<in>set es. event_ok e"
  shows "sum_rows P (\<lambda>e. event_delta e Available) es + sum_rows P (\<lambda>e. event_delta e Allocated) es
      + sum_rows P (\<lambda>e. event_delta e Reserved) es + sum_rows P (\<lambda>e. event_delta e Consumed) es
      + sum_rows P evt_DebtRepaid es
    = sum_rows (\<lambda>e. grant_event e \<and> P e) evt_Quantity es"
  using assms by (induction es) (auto simp: event_ok_def event_sum_def split: if_splits)

text \<open>
  C25: resources are conserved. In every reachable state, what an organization holds on all four
  sides, less its outstanding debt, is exactly what its grants (welcome, purchased, trial) minted,
  less the debt it started with: no reservation, settlement, transfer or charge creates or loses
  a unit.
\<close>

theorem resources_conserved:
  assumes "res_reachable dg now seeds owner db"
  shows "total_held db k - debt_of db k
    = sum_rows (\<lambda>e. grant_event e \<and> event_key e = k) evt_Quantity (rdb_events db)
      - debt_of (res_init now seeds owner) k"
proof -
  let ?i = "res_init now seeds owner" and ?P = "\<lambda>e. event_key e = k"
  have none: "rdb_events ?i = []" using res_init_empty [of now seeds owner] by (simp add: res_empty_def)
  obtain es where es: "rdb_events db = rdb_events ?i @ es" "\<forall>e\<in>set es. event_ok e"
    "\<forall>k. debt_of db k = debt_of ?i k - sum_rows (\<lambda>e. event_key e = k) evt_DebtRepaid es"
    using reachable_res_ext [OF assms] by (auto simp: res_ext_def)
  then have "es = rdb_events db" using none by simp
  then show ?thesis
    using es(3) events_total [OF es(2), of ?P] rl.reachable_reconciles [OF assms]
    by (simp add: total_held_def)
qed

theorem resources_conserved_witness:
  "total_held res5 (''acme'', ResourceDataRow) = 6
   \<and> sum_rows (\<lambda>e. grant_event e \<and> event_key e = (''acme'', ResourceDataRow)) evt_Quantity (rdb_events res5) = 10"
proof -
  have "debt_of (res_init 1 sample_seeds ()) (''acme'', ResourceDataRow) = 4" by code_simp
  moreover have "debt_of res5 (''acme'', ResourceDataRow) = 0" using res_run_seen(3) by (simp add: seen5_def)
  ultimately show ?thesis using resources_conserved [OF res_reachable_run(5), of "(''acme'', ResourceDataRow)"] res_run_balances(3)
    by (simp add: data_rows_def total_held_def)
qed

text \<open>
  C26: every column keeps its type and its constraint. In every reachable state each balance is a
  non-negative \<open>int64\<close>, AI points are never allocated to members, a debt is a non-negative \<open>int64\<close>
  whose bucket exists and that excludes available units, and no reservation is empty.
\<close>

theorem resource_columns_typed:
  assumes "res_reachable dg now seeds owner db"
  shows "0 \<le> res_balance db k d \<and> in64 (res_balance db k d)
    \<and> res_balance db (org, ResourceAIPoint) Allocated = 0
    \<and> 0 \<le> debt_of db k \<and> in64 (debt_of db k)
    \<and> (debt_of db k = 0 \<or> rdb_buckets db k \<noteq> None \<and> res_balance db k Available = 0)
    \<and> list_all (\<lambda>r. 0 < rsv_Quantity r \<and> in64 (rsv_Quantity r)) (rdb_reservations db)"
proof -
  note I = ledger_okD [OF reachable_parts(1) [OF assms]]
  have side: "0 \<le> res_balance db k d \<and> in64 (res_balance db k d)" for k d
    using I(1) [of k] by (auto simp: res_balance_def bucket_ok_def in64_unfold split: option.splits)
  have ai: "res_balance db (org, ResourceAIPoint) Allocated = 0"
    using I(1) [of "(org, ResourceAIPoint)"] by (auto simp: res_balance_def bucket_ok_def split: option.splits)
  have debt: "debt_of db k = 0 \<or> rdb_buckets db k \<noteq> None \<and> res_balance db k Available = 0"
  proof (cases "rdb_debts db k")
    case None
    then show ?thesis by (simp add: debt_of_alt)
  next
    case (Some x)
    then show ?thesis using I(3) [OF Some] I(4,6) [of k] by (auto simp: order_le_less)
  qed
  show ?thesis using side ai debt I(4,5) [of k] I(8,9) by (simp add: list_all_iff)
qed

theorem resource_columns_typed_witness:
  "0 \<le> res_balance res5 (''acme'', ResourceDataRow) Reserved
   \<and> length (rdb_reservations res5) = 2
   \<and> list_all (\<lambda>r. 0 < rsv_Quantity r \<and> in64 (rsv_Quantity r)) (rdb_reservations res5)"
proof -
  have "length (rdb_reservations res5) = 2" using res_run_seen(3) by (simp add: seen5_def)
  with resource_columns_typed [OF res_reachable_run(5), of "(''acme'', ResourceDataRow)" Reserved "''acme''"]
  show ?thesis by simp
qed

text \<open>
  C27: in every reachable state the reserved balance of a resource is exactly the quantity of its
  open reservations, and reservation ids are unique in an organization.
\<close>

theorem reserved_is_open_reservations:
  assumes "res_reachable dg now seeds owner db"
  shows "res_balance db k Reserved = reserved_sum db k \<and> distinct (map reservation_id (rdb_reservations db))"
  using ledger_okD(7,10) [OF reachable_parts(1) [OF assms]] by blast

theorem reserved_is_open_reservations_witness: "reserved_sum res4 (''acme'', ResourceDataRow) = 2"
  using reserved_is_open_reservations [OF res_reachable_run(4), of "(''acme'', ResourceDataRow)"] res_run_balances(2)
  by (simp add: data_rows_def)

text \<open>
  C28: in every reachable state the allocated balance of an organization is exactly what its members
  hold free, and what a member has reserved is exactly the member's open charges; no two positions
  are of the same member and resource.
\<close>

theorem member_positions_add_up:
  assumes "res_reachable dg now seeds owner db"
  shows "res_balance db (org, rt) Allocated = free_sum (rdb_positions db) (org, rt)
    \<and> member_reserved (rdb_positions db) (org, member, rt) = open_charges (rdb_reservations db) (org, member, rt)
    \<and> distinct (map position_key (rdb_positions db))"
  using members_okD(1,3,4) [OF reachable_parts(2) [OF assms]] by blast

theorem member_positions_add_up_witness:
  "free_sum (rdb_positions res4) (''acme'', ResourceDataRow) = 2
   \<and> open_charges (rdb_reservations res4) (''acme'', ''ann'', ResourceDataRow) = 1"
proof -
  have "member_reserved (rdb_positions res4) (''acme'', ''ann'', ResourceDataRow) = 1"
    using res_run_seen(2) by (simp add: seen4_def)
  with member_positions_add_up [OF res_reachable_run(4), of "''acme''" ResourceDataRow "''ann''"] res_run_balances(2)
  show ?thesis by (simp add: data_rows_def)
qed

section \<open>Grants and settlements\<close>

text \<open>
  C29: a source mints at most once. In every reachable state no two events that mint resources have
  the same source (the organization's welcome, an order item, a trial), and each has the source
  claim of its organization, operation and resource.
\<close>

theorem source_mints_once:
  assumes "res_reachable dg now seeds owner db"
  shows "distinct (map event_source (filter grant_event (rdb_events db)))
    \<and> list_all (\<lambda>e. map_option (\<lambda>c. (clm_OrganizationID c, clm_OperationID c, clm_ResourceType c))
          (rdb_claims db (event_source e)) = Some (evt_OrganizationID e, evt_OperationID e, evt_ResourceType e))
        (filter grant_event (rdb_events db))"
  using reachable_parts(3) [OF assms] by (fastforce simp: claims_ok_def list_all_iff)

theorem source_mints_once_witness:
  "length (filter grant_event (rdb_events res6)) = 2
   \<and> distinct (map event_source (filter grant_event (rdb_events res6)))"
proof -
  have "length (filter grant_event (rdb_events res6)) = 2" using res_run_seen(4) by (simp add: seen6_def)
  with source_mints_once [OF res_reachable_run(6)] show ?thesis by simp
qed

text \<open>
  C30: a settled reservation is final: whatever calls follow, its row (quantity, state, evidence,
  settlement) stays exactly as it is.
\<close>

theorem settled_reservation_final:
  assumes "res_reachable dg now seeds owner db" "reachable (res_step dg) db db'"
    "r \<in> set (rdb_reservations db)" "\<not> open_reservation r"
  shows "r \<in> set (rdb_reservations db')"
proof -
  have "res_inv db' \<and> res_ext db db'"
    using assms(2)
  proof (induction rule: reachable.induct)
    case reach_refl
    show ?case using reachable_res_inv [OF assms(1)] res_ext_refl by blast
  next
    case (reach_step s s')
    then show ?case using res_step_rel [OF reach_step(2)] res_ext_trans by (auto simp: res_rel_def)
  qed
  then show ?thesis using assms(3,4) by (auto simp: res_ext_def closed_kept_def)
qed

theorem settled_reservation_final_witness:
  "\<exists>r. rsv_State r = ReservationCommitted \<and> r \<in> set (rdb_reservations res6)"
proof -
  let ?r = "hd (rdb_reservations res5)"
  have r: "rsv_State ?r = ReservationCommitted" "rdb_reservations res5 \<noteq> []" "\<not> open_reservation ?r"
    using res_run_seen(3) by (auto simp: seen5_def open_reservation_def)
  have "reachable (res_step sample_digests) res5 res6"
    unfolding res6_def by (rule reach_step [OF reach_refl], rule step_welcome)
  from settled_reservation_final [OF res_reachable_run(5) this _ r(3)] r(1,2) show ?thesis by auto
qed

end
