(* ===== verification/Res_Calendar.thy ===== *)
theory Res_Calendar
  imports Res_Runner
begin

text \<open>
  The pure functions of the resource ledger: the retry loop and its delays, the canonical text of
  an order item, and the month that a monthly counter belongs to.
\<close>

section \<open>The retry loop\<close>

lemma runWithRetry_agree:
  assumes "\<And>m. n \<le> m \<Longrightarrow> int m \<le> cfg_MaxAttempts c \<Longrightarrow> envs m = envs' m"
  shows "runWithRetry c sqlite envs op n db = runWithRetry c sqlite envs' op n db"
  using assms
proof (induction c sqlite envs op n db rule: runWithRetry.induct)
  case (1 c sqlite envs op n db)
  show ?case
  proof (cases "int n > cfg_MaxAttempts c \<or> att_budget (envs n)")
    case True
    then show ?thesis
      using 1(2) [of n] by (auto simp: runWithRetry.simps [of c sqlite envs op n] runWithRetry.simps [of c sqlite envs' op n])
  next
    case False
    then have go: "\<not> cfg_MaxAttempts c < int n" "\<not> att_budget (envs n)" and eq: "envs' n = envs n"
      using 1(2) [of n] by auto
    obtain db1 r where op: "op (envs n) db = (db1, r)" by fastforce
    have IH: "runWithRetry c sqlite envs op (Suc n) db1 = runWithRetry c sqlite envs' op (Suc n) db1"
      if "r = Inl e" "att_ctx_after (envs n) = None"
        "\<not> (\<not> (e = DeadlineExceeded \<and> att_deadline (envs n)) \<and> \<not> retryable sqlite e)"
        "int n \<noteq> cfg_MaxAttempts c" "att_wait (envs n) = None" for e
      by (rule 1(1) [OF go(1) refl go(2) _ refl that(2-5)]) (use op that(1) 1(2) in auto)
    show ?thesis
      unfolding runWithRetry.simps [of c sqlite envs op n] runWithRetry.simps [of c sqlite envs' op n] Let_def eq op
      using go IH by (auto split: sum.splits option.splits)
  qed
qed

text \<open>
  C31: the retry loop always ends: a transaction or a durable read depends on at most the first
  \<open>MaxAttempts\<close> attempts (four, when the configuration leaves it open), whatever would happen in
  later ones.
\<close>

theorem retry_loop_bounded:
  assumes "\<And>n. 1 \<le> n \<Longrightarrow> int n \<le> cfg_MaxAttempts (withDefaults c) \<Longrightarrow> envs n = envs' n"
  shows "run_body c sqlite envs (body :: res_env \<Rightarrow> 'a \<Rightarrow> rerr + 'r \<times> 'a) db = run_body c sqlite envs' body db
    \<and> runRead c sqlite envs (answer :: 'a \<Rightarrow> rerr + 's) db = runRead c sqlite envs' answer db"
proof -
  have "runWithRetry (withDefaults c) sqlite envs op 1 db = runWithRetry (withDefaults c) sqlite envs' op 1 db"
    for op :: "attempt \<Rightarrow> 'a \<Rightarrow> 'a \<times> (rerr + 'r)"
    by (rule runWithRetry_agree) (rule assms)
  moreover have "runWithRetry (withDefaults c) sqlite envs op 1 db = runWithRetry (withDefaults c) sqlite envs' op 1 db"
    for op :: "attempt \<Rightarrow> 'a \<Rightarrow> 'a \<times> (rerr + 's)"
    by (rule runWithRetry_agree) (rule assms)
  ultimately show ?thesis unfolding run_body_def runRead_def by simp
qed

definition quiet_attempt :: "rerr tx_fault \<Rightarrow> attempt" where
  "quiet_attempt flt =
     \<lparr>att_budget = False, att_ctx = None, att_env = \<lparr>rnv_now = (\<lambda>_. 0), rnv_uuid = (\<lambda>_. [])\<rparr>,
      att_fault = flt, att_ctx_after = None, att_deadline = False, att_wait = None\<rparr>"

definition unset_config :: TransactionConfig where
  "unset_config =
     \<lparr>cfg_LockTimeout = 0, cfg_StatementTimeout = 0, cfg_TransactionTimeout = 0,
      cfg_TotalRetryBudget = 0, cfg_BaseRetryDelay = 0, cfg_MaxAttempts = 0\<rparr>"

theorem retry_loop_bounded_witness:
  "run_body unset_config True
      (\<lambda>n. quiet_attempt (if n \<le> 4 then StmtFault (DriverErr ''40001'' []) else NoFault)) (\<lambda>_ d. Inr ((), Suc d)) 7
   = run_body unset_config True (\<lambda>n. quiet_attempt (StmtFault (DriverErr ''40001'' []))) (\<lambda>_ d. Inr ((), Suc d)) (7 :: nat)"
proof -
  let ?e = "\<lambda>n. quiet_attempt (if n \<le> (4 :: nat) then StmtFault (DriverErr ''40001'' []) else NoFault)"
  let ?e' = "\<lambda>n :: nat. quiet_attempt (StmtFault (DriverErr ''40001'' []))"
  have "?e n = ?e' n" if "int n \<le> cfg_MaxAttempts (withDefaults unset_config)" for n
    using that by (simp add: withDefaults_def unset_config_def)
  then show ?thesis by (intro conjunct1 [OF retry_loop_bounded])
qed

lemma runWithRetry_exhausted:
  assumes "\<And>m db. n \<le> m \<Longrightarrow> \<not> att_budget (envs m) \<and> att_ctx_after (envs m) = None \<and> att_wait (envs m) = None
      \<and> (\<exists>e. op (envs m) db = (db, Inl e) \<and> retryable sqlite e)"
  shows "runWithRetry c sqlite envs op n db = (db, Inl ErrConcurrencyRetry)"
  using assms
proof (induction c sqlite envs op n db rule: runWithRetry.induct)
  case (1 c sqlite envs op n db)
  from 1(2) [of n db] obtain e where e: "\<not> att_budget (envs n)" "att_ctx_after (envs n) = None"
    "att_wait (envs n) = None" "op (envs n) db = (db, Inl e)" "retryable sqlite e" by auto
  show ?case
  proof (cases "int n < cfg_MaxAttempts c")
    case True
    have "runWithRetry c sqlite envs op (Suc n) db = (db, Inl ErrConcurrencyRetry)"
      by (rule 1(1) [OF _ refl e(1) e(4) [symmetric] refl e(2) _ _ e(3)]) (use True e(5) 1(2) in auto)
    with True e show ?thesis by (simp add: runWithRetry.simps [of c sqlite envs op n])
  next
    case False
    with e show ?thesis by (simp add: runWithRetry.simps [of c sqlite envs op n])
  qed
qed

text \<open>
  When every attempt fails with a transient error (a serialization failure, a deadlock, a lock
  or statement timeout), the call answers \<open>ErrConcurrencyRetry\<close> and has changed nothing.
\<close>

theorem transient_failures_exhaust:
  assumes "\<And>n. \<not> att_budget (envs n)" "\<And>n. att_ctx_after (envs n) = None" "\<And>n. att_wait (envs n) = None"
    "\<And>n. att_fault (envs n) = StmtFault (DriverErr (state n) (msg n))"
    "\<And>n. state n \<in> {''40001'', ''40P01'', ''55P03'', ''57014''}"
  shows "run_body c sqlite envs body db = (db, Inl ErrConcurrencyRetry)"
proof -
  have "retryable sqlite (DriverErr (state n) (msg n))" for n
    using assms(5) [of n] by (auto simp: retryable_def sqlState_def)
  then show ?thesis
    unfolding run_body_def
    by (intro runWithRetry_exhausted) (simp add: assms(1-4) run_tx_def)
qed

text \<open>
  C33: the delay before the next attempt doubles with each attempt, six times at most, and the
  jitter adds less than half of it (or a millisecond): it does not wrap around as long as the
  configured delay is below \<open>2^56\<close> nanoseconds (more than two years). The random source answers
  below its argument.
\<close>

theorem retryDelay_bounds:
  assumes "1 \<le> n" "0 < cfg_BaseRetryDelay c" "cfg_BaseRetryDelay c < 2 ^ 56"
    and random: "\<And>j. 0 < j \<Longrightarrow> 0 \<le> random j \<and> random j < j"
  defines "base \<equiv> cfg_BaseRetryDelay c * 2 ^ nat (min (n - 1) 6)"
  shows "base \<le> retryDelay random c n \<and> retryDelay random c n < base + max (base div 2) 1000000
    \<and> base \<le> 64 * cfg_BaseRetryDelay c"
proof -
  have mult: "(1 :: int) \<le> 2 ^ nat (min (n - 1) 6)" by simp
  have mult6: "(2 :: int) ^ nat (min (n - 1) 6) \<le> 2 ^ 6" by (rule power_increasing) simp_all
  have low: "1 \<le> base" using mult_left_mono [OF mult, of "cfg_BaseRetryDelay c"] assms(2) unfolding base_def by linarith
  have high: "base \<le> 64 * cfg_BaseRetryDelay c"
    using mult_left_mono [OF mult6, of "cfg_BaseRetryDelay c"] assms(2) by (simp add: base_def)
  have fit: "base < 4611686018427387904" using high assms(3) by simp
  have m: "mul64 (cfg_BaseRetryDelay c) (2 ^ nat (min (n - 1) 6)) = base"
    using fit low unfolding mul64_def base_def [symmetric] by (intro wrap64_id) (simp add: in64_unfold)
  have q: "quo64 base 2 = base div 2"
  proof -
    have "in64 (base div 2)" using fit low by (auto simp: in64_unfold)
    then show ?thesis using low by (simp add: quo64_def wrap64_id)
  qed
  let ?j = "max (base div 2) 1000000"
  have r: "0 \<le> random ?j" "random ?j < ?j" using random [of ?j] by auto
  have a: "add64 base (random ?j) = base + random ?j"
    using fit low r unfolding add64_def by (intro wrap64_id) (auto simp: in64_unfold)
  have "retryDelay random c n = base + random ?j" by (simp add: retryDelay_def Let_def m q a)
  with r high show ?thesis by simp
qed

theorem retryDelay_bounds_witness:
  "retryDelay (\<lambda>j. j - 1) (withDefaults unset_config) 3 = 119999999
   \<and> retryDelay (\<lambda>j. j - 1) (withDefaults unset_config) 3 < 80000000 + 40000000"
proof -
  have "retryDelay (\<lambda>j. j - 1) (withDefaults unset_config) 3 = 119999999" by code_simp
  moreover have "retryDelay (\<lambda>j. j - 1) (withDefaults unset_config) 3 < 80000000 + 40000000"
    using retryDelay_bounds [of 3 "withDefaults unset_config" "\<lambda>j. j - 1"]
    by (simp add: withDefaults_def unset_config_def)
  ultimately show ?thesis by blast
qed

section \<open>The canonical text of an order item\<close>

definition digits_value :: "string \<Rightarrow> nat" where
  "digits_value s = foldl (\<lambda>a c. 10 * a + (of_char c - 48)) 0 s"

lemma digits_value_FormatNat: "digits_value (FormatNat n) = n"
proof (induction n rule: FormatNat.induct)
  case (1 n)
  have digit: "of_char (char_of (48 + n mod 10) :: char) = (48 + n mod 10 :: nat)"
    by (simp add: of_char_of)
  show ?case
  proof (cases "n < 10")
    case True
    then show ?thesis by (simp add: FormatNat.simps [of n] digits_value_def of_char_of)
  next
    case False
    then have "digits_value (FormatNat n) = 10 * digits_value (FormatNat (n div 10)) + n mod 10"
      by (simp add: FormatNat.simps [of n] digits_value_def of_char_of)
    with 1 False show ?thesis by simp
  qed
qed

lemma FormatNat_no_colon: "CHR '':'' \<notin> set (FormatNat n)"
proof (induction n rule: FormatNat.induct)
  case (1 n)
  have nc: "CHR '':'' \<noteq> char_of (48 + d)" if "d < 10" for d :: nat
  proof
    assume "CHR '':'' = char_of (48 + d)"
    then have "(of_char (char_of (48 + d) :: char) :: nat) = of_char (CHR '':'')" by simp
    with that show False by (simp add: of_char_of)
  qed
  show ?case
    using 1 nc [of n] nc [of "n mod 10"] by (subst FormatNat.simps) auto
qed

lemma split_at_separator:
  "a @ c # x = b @ c # y \<Longrightarrow> c \<notin> set a \<Longrightarrow> c \<notin> set b \<Longrightarrow> a = b \<and> x = y"
  by (induction a arbitrary: b) (auto simp: Cons_eq_append_conv append_eq_Cons_conv)

lemma length_prefixed:
  assumes "FormatNat (length s) @ '':'' @ s @ x = FormatNat (length t) @ '':'' @ t @ y"
  shows "s = t \<and> x = y"
proof -
  have "FormatNat (length s) = FormatNat (length t) \<and> s @ x = t @ y"
    using assms FormatNat_no_colon by (intro split_at_separator) auto
  then show ?thesis using digits_value_FormatNat append_eq_append_conv by metis
qed

text \<open>
  C34: the canonical text of a commercial order item, whose digest is the source identity of its
  grant, determines the organization, the order and the item, whatever characters they contain.
\<close>

theorem order_item_text_injective:
  "orderItemCanonical org order item = orderItemCanonical org' order' item'
   \<longleftrightarrow> org = org' \<and> order = order' \<and> item = item'"
proof
  assume eq: "orderItemCanonical org order item = orderItemCanonical org' order' item'"
  note 1 = length_prefixed [OF eq [unfolded orderItemCanonical_def]]
  note 2 = length_prefixed [OF conjunct2 [OF 1]]
  have "FormatNat (length item) @ '':'' @ item @ [] = FormatNat (length item') @ '':'' @ item' @ []"
    using conjunct2 [OF 2] by simp
  from length_prefixed [OF this] 1 2 show "org = org' \<and> order = order' \<and> item = item'" by blast
qed simp

section \<open>Months\<close>

text \<open>The year of a day is the one whose days contain it.\<close>

lemma year_of_day_bounds:
  "days_before_year (year_of_day d) \<le> d" "d < days_before_year (year_of_day d + 1)"
proof -
  define a where "a = d div 146097"
  define r where "r = d mod 146097"
  define b where "b = min 3 (r div 36524)"
  define u where "u = r - 36524 * b"
  define c where "c = u div 1461"
  define v where "v = u mod 1461"
  define e where "e = min 3 (v div 365)"
  have y: "year_of_day d = 400 * a + 100 * b + 4 * c + e + 1"
    by (simp add: year_of_day_def Let_def a_def b_def c_def e_def r_def u_def v_def)
  have d: "d = 146097 * a + r" "0 \<le> r" "r < 146097" by (simp_all add: a_def r_def)
  have b: "0 \<le> b" "b \<le> 3" "0 \<le> u" "u < 36525" "b < 3 \<longrightarrow> u < 36524" "r = 36524 * b + u"
    using d by (auto simp: b_def u_def min_def)
  have c: "u = 1461 * c + v" "0 \<le> v" "v < 1461" "0 \<le> c" "c \<le> 24"
    using b by (auto simp: c_def v_def)
  have e: "0 \<le> e" "e \<le> 3" "365 * e \<le> v" "e < 3 \<longrightarrow> v < 365 * e + 365"
    using c by (auto simp: e_def min_def)
  have cycle: "(400 * a + 100 * b + 4 * c + f) div 4 = 100 * a + 25 * b + c"
    "(400 * a + 100 * b + 4 * c + f) div 100 = 4 * a + b" "(400 * a + 100 * b + 4 * c + f) div 400 = a"
    if f: "0 \<le> f" "f \<le> 3" for f
  proof -
    show "(400 * a + 100 * b + 4 * c + f) div 4 = 100 * a + 25 * b + c"
      by (rule int_div_pos_eq [where r = f]) (use f in auto)
    show "(400 * a + 100 * b + 4 * c + f) div 100 = 4 * a + b"
      by (rule int_div_pos_eq [where r = "4 * c + f"]) (use f b c in auto)
    show "(400 * a + 100 * b + 4 * c + f) div 400 = a"
      by (rule int_div_pos_eq [where r = "100 * b + 4 * c + f"]) (use f b c in auto)
  qed
  have year: "days_before_year (400 * a + 100 * b + 4 * c + f + 1) = 146097 * a + 36524 * b + 1461 * c + 365 * f"
    if "0 \<le> f" "f \<le> 3" for f
    by (simp add: days_before_year_def cycle [OF that])
  have start: "days_before_year (year_of_day d) = 146097 * a + 36524 * b + 1461 * c + 365 * e"
    unfolding y by (rule year [OF e(1,2)])
  show "days_before_year (year_of_day d) \<le> d" using start d b c e by simp
  show "d < days_before_year (year_of_day d + 1)"
  proof (cases "e < 3")
    case True
    then have "days_before_year (year_of_day d + 1) = 146097 * a + 36524 * b + 1461 * c + 365 * (e + 1)"
      using year [of "e + 1"] e by (simp add: y add.assoc)
    with True d b c e show ?thesis by simp
  next
    case False
    then have e3: "e = 3" using e by simp
    have "(400 * a + 100 * b + 4 * c + 4) div 4 = 100 * a + 25 * b + c + 1"
      "(400 * a + 100 * b + 4 * c + 4) div 100 = 4 * a + b + (if c = 24 then 1 else 0)"
      "(400 * a + 100 * b + 4 * c + 4) div 400 = a + (if c = 24 \<and> b = 3 then 1 else 0)"
    proof -
      show "(400 * a + 100 * b + 4 * c + 4) div 4 = 100 * a + 25 * b + c + 1"
        by (rule int_div_pos_eq [where r = 0]) auto
      show "(400 * a + 100 * b + 4 * c + 4) div 100 = 4 * a + b + (if c = 24 then 1 else 0)"
        by (rule int_div_pos_eq [where r = "if c = 24 then 0 else 4 * c + 4"]) (use c in auto)
      show "(400 * a + 100 * b + 4 * c + 4) div 400 = a + (if c = 24 \<and> b = 3 then 1 else 0)"
        by (rule int_div_pos_eq [where r = "if c = 24 \<and> b = 3 then 0 else 100 * b + 4 * c + 4"]) (use b c in auto)
    qed
    note D = this
    have arg: "year_of_day d + 1 - 1 = 400 * a + 100 * b + 4 * c + 4" using y e3 by simp
    have "days_before_year (year_of_day d + 1) = 146097 * a + 36524 * b + 1461 * c + 1461
        - (if c = 24 then 1 else 0) + (if c = 24 \<and> b = 3 then 1 else 0)"
      unfolding days_before_year_def arg D by auto
    with d b c show ?thesis by (auto split: if_splits)
  qed
qed

lemma days_before_year_less:
  assumes "y < z"
  shows "days_before_year y < days_before_year z"
proof -
  have "(y - 1) div 4 \<le> (z - 1) div 4" "(y - 1) div 400 \<le> (z - 1) div 400"
    using assms by (auto intro!: zdiv_mono1)
  moreover have "(z - 1) div 100 - (y - 1) div 100 \<le> z - y"
  proof -
    have "(z - 1) div 100 \<le> (y - 1 + 100 * (z - y)) div 100" using assms by (intro zdiv_mono1) auto
    also have "\<dots> = (y - 1) div 100 + (z - y)" by (subst div_mult_self2) simp_all
    finally show ?thesis by simp
  qed
  moreover have "365 * (y - 1) + a - c + b < 365 * (z - 1) + a' - c' + b'"
    if "a \<le> a'" "b \<le> b'" "c' - c \<le> z - y" for a a' b b' c c' using that assms by simp
  ultimately show ?thesis unfolding days_before_year_def by blast
qed

lemma year_of_day_unique:
  assumes "days_before_year y \<le> d" "d < days_before_year (y + 1)"
  shows "year_of_day d = y"
proof (rule ccontr)
  assume "year_of_day d \<noteq> y"
  then consider "year_of_day d + 1 \<le> y" | "y + 1 \<le> year_of_day d" by linarith
  then show False
  proof cases
    case 1
    then have "days_before_year (year_of_day d + 1) \<le> days_before_year y"
      using days_before_year_less [of "year_of_day d + 1" y] by (cases "year_of_day d + 1 = y") auto
    with year_of_day_bounds(2) [of d] assms(1) show False by simp
  next
    case 2
    then have "days_before_year (y + 1) \<le> days_before_year (year_of_day d)"
      using days_before_year_less [of "y + 1" "year_of_day d"] by (cases "y + 1 = year_of_day d") auto
    with year_of_day_bounds(1) [of d] assms(2) show False by simp
  qed
qed

lemma year_gap:
  fixes y :: int
  assumes "a = a' + (if P then 1 else 0)" "c = c' + (if Q then 1 else 0)" "e = e' + (if R then 1 else 0)"
    "R \<longrightarrow> Q" "Q \<longrightarrow> P" "leap \<longleftrightarrow> P \<and> (\<not> Q \<or> R)"
  shows "365 * y + a - c + e = 365 * (y - 1) + a' - c' + e' + (if leap then 366 else 365)"
  unfolding assms(1-3,6) using assms(4,5) by (cases P; cases Q; cases R) simp_all

lemma days_in_year: "days_before_year (y + 1) = days_before_year y + (if leap_year y then 366 else 365)"
proof -
  have step: "y div m = (y - 1) div m + (if y mod m = 0 then 1 else 0)" if "1 < m" for m :: int
  proof -
    have eq: "m * (y div m) + y mod m = y" and bounds: "0 \<le> y mod m" "y mod m < m" using that by auto
    show ?thesis
    proof (cases "y mod m = 0")
      case True
      have "(y - 1) div m = y div m - 1"
        by (rule int_div_pos_eq [where r = "m - 1"]) (use eq that True in \<open>auto simp: algebra_simps\<close>)
      with True show ?thesis by simp
    next
      case False
      have "(y - 1) div m = y div m"
        by (rule int_div_pos_eq [where r = "y mod m - 1"]) (use eq bounds that False in linarith)+
      with False show ?thesis by simp
    qed
  qed
  have dvd: "y mod 400 = 0 \<longrightarrow> y mod 100 = 0" "y mod 100 = 0 \<longrightarrow> y mod 4 = 0"
    using dvd_trans [of 100 400 y] dvd_trans [of 4 100 y] by (simp_all add: mod_eq_0_iff_dvd)
  have "y + 1 - 1 = y" by simp
  then show ?thesis
    unfolding days_before_year_def
    by (simp only:) (rule year_gap [OF step step step dvd leap_year_def]; simp)
qed

lemma last_filter_le:
  fixes xs :: "int list"
  assumes "sorted xs" "xs \<noteq> []" "hd xs \<le> y"
  shows "last (filter (\<lambda>x. x \<le> y) xs) \<in> set xs" "last (filter (\<lambda>x. x \<le> y) xs) \<le> y"
    "\<And>x. x \<in> set xs \<Longrightarrow> x \<le> y \<Longrightarrow> x \<le> last (filter (\<lambda>x. x \<le> y) xs)"
proof -
  let ?f = "filter (\<lambda>x. x \<le> y) xs"
  have "hd xs \<in> set ?f" using assms(2,3) by simp
  then have ne: "?f \<noteq> []" by force
  then show "last ?f \<in> set xs" "last ?f \<le> y" using last_in_set [OF ne] by auto
  show "x \<le> last ?f" if "x \<in> set xs" "x \<le> y" for x
  proof -
    have "x \<in> set ?f" using that by simp
    then obtain i where "i < length ?f" "?f ! i = x" by (metis in_set_conv_nth)
    moreover have "sorted ?f" using assms(1) by (rule sorted_filter [where f = id, simplified])
    ultimately show ?thesis using sorted_nth_mono [of ?f i "length ?f - 1"] ne by (simp add: last_conv_nth)
  qed
qed

lemma month_starts_props:
  "sorted (month_starts y)" "month_starts y \<noteq> []" "hd (month_starts y) = 0"
  by (auto simp: month_starts_def Let_def)

lemma month_length:
  assumes s: "s \<in> set (month_starts y)" and max: "\<And>x. x \<in> set (month_starts y) \<Longrightarrow> x \<le> d \<Longrightarrow> x \<le> s"
    and d: "d < (if leap_year y then 366 else 365)"
  shows "d < s + 31"
proof -
  obtain l :: int where l: "l = 0 \<or> l = 1" "d < 365 + l"
    "set (month_starts y) = {0, 31, 59 + l, 90 + l, 120 + l, 151 + l, 181 + l, 212 + l, 243 + l, 273 + l, 304 + l, 334 + l}"
    using d by (auto simp: month_starts_def Let_def split: if_splits intro: that [of 0] that [of 1])
  have "\<forall>s\<in>set (month_starts y). 365 + l \<le> s + 31 \<or> (\<exists>n\<in>set (month_starts y). s < n \<and> n \<le> s + 31)"
    unfolding l(3) using l(1) by (elim disjE) simp_all
  then show ?thesis using s l(2) max by force
qed

text \<open>
  The month of an instant, to which the monthly counters of AI points belong: it begins at or
  before the instant, less than 31 days earlier, and every instant in between belongs to the same
  month.
\<close>

theorem month_start_contains:
  assumes "AIPointMonthStart t \<le> u" "u \<le> t"
  shows "AIPointMonthStart u = AIPointMonthStart t \<and> AIPointMonthStart t \<le> t \<and> t < AIPointMonthStart t + 31 * day_ns"
proof -
  define y where "y = year_of_day (t div day_ns)"
  define yd where "yd = t div day_ns - days_before_year y"
  define s where "s = last (filter (\<lambda>s. s \<le> yd) (month_starts y))"
  have start: "AIPointMonthStart t = day_ns * (days_before_year y + s)"
    by (simp add: AIPointMonthStart_def Let_def y_def yd_def s_def)
  have yd: "0 \<le> yd" "yd < (if leap_year y then 366 else 365)"
    using year_of_day_bounds [of "t div day_ns"] days_in_year [of y] by (auto simp: yd_def y_def)
  note L = last_filter_le [OF month_starts_props(1,2), of y yd, unfolded month_starts_props(3), OF yd(1), folded s_def]
  have s: "s \<le> yd" "0 \<le> s" "yd < s + 31"
    using L yd month_length [OF L(1) L(3) yd(2)] by (auto simp: month_starts_def Let_def)
  define ud where "ud = u div day_ns"
  have ud: "days_before_year y + s \<le> ud" "ud \<le> t div day_ns"
    using zdiv_mono1 [OF assms(1) [unfolded start], of day_ns] zdiv_mono1 [OF assms(2), of day_ns]
    by (simp_all add: ud_def)
  have yu: "year_of_day ud = y"
    by (rule year_of_day_unique) (use ud s year_of_day_bounds(2) [of "t div day_ns"] in \<open>auto simp: y_def\<close>)
  have same: "filter (\<lambda>s. s \<le> ud - days_before_year y) (month_starts y) = filter (\<lambda>s. s \<le> yd) (month_starts y)"
  proof (intro filter_cong refl)
    fix x assume "x \<in> set (month_starts y)"
    then show "x \<le> ud - days_before_year y \<longleftrightarrow> x \<le> yd" using L(3) [of x] ud s by (auto simp: yd_def)
  qed
  have "AIPointMonthStart u = AIPointMonthStart t"
    unfolding start by (simp add: AIPointMonthStart_def Let_def ud_def [symmetric] yu same s_def)
  moreover have "t < day_ns * (t div day_ns + 1)" using pos_mod_bound [of day_ns t, simplified] div_mult_mod_eq [of t day_ns] by (simp only: distrib_left)
  ultimately show ?thesis using assms s unfolding start by (auto simp: yd_def)
qed

end
