(* ===== verification/Res_Call_Properties.thy ===== *)
theory Res_Call_Properties
  imports Res_Ledger_Properties Res_Calendar
begin

text \<open>
  What single calls of the resource ledger answer and leave behind: monthly limits, transfers,
  reading balances, and consumer charges under retries.
\<close>

section \<open>Monthly limits\<close>




section \<open>Transfers\<close>





end
