(* ===== verification/Res_Charge_Properties.thy ===== *)
theory Res_Charge_Properties
  imports Res_Call_Properties
begin

text \<open>
  Consumer charges under retries, and what it takes to settle one; reading the balances of an
  organization. The at-most-once contract of \<open>Contracts\<close> is interpreted on the reservation of a
  charge.
\<close>

section \<open>A charge that has an answer\<close>

lemma funded_again:
  assumes "ccn_Funding i = FundingMember \<Longrightarrow> funding_position i db \<noteq> None"
  shows "funded t i db = db"
proof (cases "ccn_Funding i = FundingMember")
  case True
  then obtain p where "find (\<lambda>p. position_key p = intent_position i) (rdb_positions db) = Some p"
    using assms by (auto simp: funding_position_def)
  note find_SomeD [OF this]
  then have "list_ex (position_clash (fresh_position t (cci_OrganizationID (ccn_Identity i)) (ccn_MemberID i)
      (ccn_ResourceType i))) (rdb_positions db)"
    by (force simp: list_ex_iff position_clash_def fresh_position_def position_key_def intent_position_def)
  with True show ?thesis by (simp add: funded_def with_position_def create_or_ignore_def)
qed (simp add: funded_def)









section \<open>Settling is always possible\<close>

lemma sum_rows_none: "(\<And>x. x \<in> set t \<Longrightarrow> \<not> P x) \<Longrightarrow> sum_rows P f t = 0"
  by (induction t) auto

lemma sum_rows_key:
  assumes "distinct (map key t)"
  shows "sum_rows (\<lambda>x. key x = k) f t = (case find (\<lambda>x. key x = k) t of None \<Rightarrow> 0 | Some x \<Rightarrow> f x)"
  using assms
proof (induction t)
  case (Cons a t)
  have "sum_rows (\<lambda>x. key x = k) f t = 0" if "key a = k"
    by (rule sum_rows_none) (use Cons.prems that in \<open>auto simp: image_iff\<close>)
  with Cons show ?case by simp
qed simp

lemma charge_outcome_exists:
  assumes ok: "ledger_ok db" and b: "bucket_ok (intent_key i) b"
    and q: "0 < ccn_Quantity i" "in64 (ccn_Quantity i)" "ccn_Quantity i \<le> bkt_Reserved b"
    and room: "bkt_Available b + bkt_Allocated b + bkt_Reserved b + bkt_Consumed b \<le> max64"
  obtains b' credit da dl dc st db1 where "charge_outcome now i eff b db = Inr ((b', credit, da, dl, dc, st), db1)"
    "eff \<noteq> ConsumerEffectSucceeded \<longrightarrow> 0 \<le> pca_net credit \<and> pca_net credit \<le> ccn_Quantity i"
    "bkt_OrganizationID b' = bkt_OrganizationID b" "bkt_ResourceType b' = bkt_ResourceType b"
    "st = (if eff = ConsumerEffectSucceeded then ReservationCommitted else ReservationReleased)"
    "rdb_buckets db1 = rdb_buckets db" "rdb_operations db1 = rdb_operations db" "rdb_events db1 = rdb_events db"
proof (cases "eff = ConsumerEffectSucceeded")
  case True
  have "\<not> bkt_Consumed b > sub64 max64 (ccn_Quantity i)"
    using max64_guard [of "ccn_Quantity i"] q room bucket_okD [OF b] by auto
  then have "charge_outcome now i eff b db = Inr ((b\<lparr>bkt_Reserved := sub64 (bkt_Reserved b) (ccn_Quantity i),
      bkt_Consumed := add64 (bkt_Consumed b) (ccn_Quantity i)\<rparr>, no_credit, 0, 0, ccn_Quantity i, ReservationCommitted), db)"
    using True by (simp add: charge_outcome_def Let_def)
  then show thesis by (rule that) (use True in auto)
next
  case False
  note B = bucket_okD [OF b]
  let ?side = "if ccn_Funding i = FundingMember then bkt_Allocated b else bkt_Available b"
  let ?org = "cci_OrganizationID (ccn_Identity i)" and ?rt = "ccn_ResourceType i"
  have amount: "dbt_Amount (locked_debt now ?org ?rt db) = debt_of db (intent_key i)"
    by (simp add: locked_debt_def debt_of_alt intent_key_def split: option.splits)
  let ?net = "sub64 (ccn_Quantity i) (min (debt_of db (intent_key i)) (ccn_Quantity i))"
  have net: "?net = ccn_Quantity i - min (debt_of db (intent_key i)) (ccn_Quantity i)"
    using ledger_okD(4,5) [OF ok, of "intent_key i"] q by (intro sub64_nonneg) (auto simp: in64_unfold)
  then have bounds: "0 \<le> ?net" "?net \<le> ccn_Quantity i" using ledger_okD(4) [OF ok, of "intent_key i"] q by auto
  then have "add64 ?side ?net = ?side + ?net" using B q room by (intro add64_guarded) auto
  then obtain credit db1 where c: "applyPositiveCredit ?org ?rt (ccn_Quantity i) ?side now db = Inr (credit, db1)"
    "pca_net credit = ?net" "rdb_buckets db1 = rdb_buckets db" "rdb_operations db1 = rdb_operations db"
    "rdb_events db1 = rdb_events db"
    using bounds by (auto simp: applyPositiveCredit_def Let_def amount)
  then show thesis
    using False bounds
    by (cases "ccn_Funding i = FundingMember") (auto simp: charge_outcome_def Let_def intro!: that)
qed

lemma settle_position_exists:
  assumes "\<And>p. po = Some p \<Longrightarrow> ccn_Quantity i \<le> pos_Reserved p \<and> pos_Version p < max64
      \<and> pos_Consumed p + ccn_Quantity i \<le> max64 \<and> pos_Free p + ccn_Quantity i \<le> max64"
    and q: "0 < ccn_Quantity i" "in64 (ccn_Quantity i)"
    and net: "eff \<noteq> ConsumerEffectSucceeded \<Longrightarrow> 0 \<le> pca_net credit \<and> pca_net credit \<le> ccn_Quantity i"
  shows "\<exists>po'. settle_position now i eff credit po = Inr po'"
proof (cases po)
  case (Some p)
  have g: "\<not> pos_Consumed p > sub64 max64 (ccn_Quantity i)"
    using assms(1) [OF Some] max64_guard [of "ccn_Quantity i"] q by auto
  have "\<not> pos_Free p > sub64 max64 (pca_net credit)" if "eff \<noteq> ConsumerEffectSucceeded"
    using assms(1) [OF Some] net [OF that] max64_guard [of "pca_net credit"] q by (auto simp: in64_unfold)
  with g assms(1) [OF Some] Some show ?thesis by (auto simp: settle_position_def Let_def)
qed (simp add: settle_position_def)

lemma finish_charge_exists:
  assumes "rdb_buckets db (bkt_OrganizationID b, bkt_ResourceType b) \<noteq> None"
    "rdb_operations db (opr_OrganizationID op, opr_OperationID op) = Some op" "opr_State op = ''processing''"
    "list_all (\<lambda>e. evt_EventID e \<noteq> u) (rdb_events db)"
  obtains db' where "and_then (updateConsumerBucket b now db) (\<lambda>db.
      and_then (completeChargeOperation op receipt now db) (\<lambda>db.
      createConsumerEvent u row b oper reason deltas credit now db)) = Inr db'"
proof -
  obtain db1 where 1: "updateConsumerBucket b now db = Inr db1" "rdb_operations db1 = rdb_operations db"
    "rdb_events db1 = rdb_events db"
    using assms(1) by (auto simp: updateConsumerBucket_def update_bucket_def)
  obtain db2 where 2: "completeChargeOperation op receipt now db1 = Inr db2" "rdb_events db2 = rdb_events db"
    using assms(2,3) 1(2,3) by (auto simp: completeChargeOperation_def update_operation_def)
  have "\<exists>db'. insert_event e db2 = Inr db'" if "evt_EventID e = u" for e
    using assms(4) that 2(2) by (auto simp: ok_simps event_clash_def list_all_iff)
  then have "\<exists>db'. createConsumerEvent u row b oper reason deltas credit now db2 = Inr db'"
    by (cases deltas) (auto simp: createConsumerEvent_def and_then_Inr zero_rows)
  then show thesis using 1(1) 2(1) that by auto
qed

text \<open>What an open charge of a member or of the organization is held against.\<close>

lemma open_charge_held:
  assumes ok: "ledger_ok db" "members_ok db" and r: "r \<in> set (rdb_reservations db)" "charged_row i r" "open_reservation r"
  obtains b where "rdb_buckets db (intent_key i) = Some b" "ccn_Quantity i \<le> bkt_Reserved b"
    "\<And>p. funding_position i db = Some p \<Longrightarrow> p \<in> set (rdb_positions db) \<and> ccn_Quantity i \<le> pos_Reserved p
       \<and> pos_Free p \<le> bkt_Allocated b"
    "ccn_Funding i = FundingMember \<Longrightarrow> funding_position i db \<noteq> None"
proof -
  let ?k = "intent_key i" and ?pk = "intent_position i"
  have q: "0 < ccn_Quantity i" "rsv_Quantity r = ccn_Quantity i" "reservation_key r = ?k"
    using ledger_okD(8) [OF ok(1) r(1)] r(2) by (auto simp: charged_row_def)
  have "ccn_Quantity i \<le> reserved_sum db ?k"
    unfolding reserved_sum_def q(2) [symmetric]
    by (rule sum_rows_member_le) (use r q ledger_okD(8) [OF ok(1)] in \<open>auto intro: less_imp_le\<close>)
  then have "ccn_Quantity i \<le> res_balance db ?k Reserved" by (simp add: ledger_okD(10) [OF ok(1)])
  then obtain b where b: "rdb_buckets db ?k = Some b" "ccn_Quantity i \<le> bkt_Reserved b"
    using q(1) by (auto simp: res_balance_def split: option.splits)
  have pos: "\<exists>p. p \<in> set (rdb_positions db) \<and> funding_position i db = Some p \<and> ccn_Quantity i \<le> pos_Reserved p
      \<and> pos_Free p \<le> bkt_Allocated b" if m: "ccn_Funding i = FundingMember"
  proof -
    have "ccn_Quantity i \<le> open_charges (rdb_reservations db) ?pk"
      unfolding open_charges_def q(2) [symmetric]
      by (rule sum_rows_member_le)
         (use r q m charged_row_member [OF r(2)] ledger_okD(8) [OF ok(1)] in \<open>auto simp: charged_row_def intro: less_imp_le\<close>)
    then have held: "ccn_Quantity i \<le> member_reserved (rdb_positions db) ?pk" by (simp add: members_okD(4) [OF ok(2)])
    then obtain p where p: "find (\<lambda>p. position_key p = ?pk) (rdb_positions db) = Some p"
      "member_reserved (rdb_positions db) ?pk = pos_Reserved p"
      using q(1) by (auto simp: member_reserved_def sum_rows_key [OF members_okD(1) [OF ok(2)]] split: option.splits)
    note P = find_SomeD [OF p(1)]
    note p(2)
    moreover have "pos_Free p \<le> free_sum (rdb_positions db) ?k"
      unfolding free_sum_def
      by (rule sum_rows_member_le)
         (use P members_okD(2) [OF ok(2)] in \<open>auto simp: position_ok_def position_key_def intent_position_def intent_key_def\<close>)
    moreover have "free_sum (rdb_positions db) ?k = bkt_Allocated b"
      using members_okD(3) [OF ok(2), of ?k] b(1) by (simp add: res_balance_def)
    ultimately show ?thesis using p m held P by (auto simp: funding_position_def)
  qed
  show thesis
    by (rule that [OF b]) (use pos in \<open>auto simp: funding_position_def split: if_splits\<close>)
qed

text \<open>
  C39: an open charge can always be settled. In every reachable state, the charge that the tables
  hold as reserved is settled by its transaction under either outcome: consumed when its effect
  succeeded, released when it failed. The journal key of the settlement is unused, the event id
  is new, and the counters have room: what the organization holds fits in an \<open>int64\<close>, and so do
  the version and the consumed count of the member's position.
\<close>

theorem open_charge_can_settle:
  assumes reach: "res_reachable dg now seeds owner db"
    and row: "readConsumerReservation ident db = Inr row" "rsv_State row = ReservationReserved"
    and i: "i = ccr_Intent (consumerChargeReceipt row)" "ValidConsumerChargeIntent i"
    and room: "total_held db (intent_key i) \<le> max64"
      "list_all (\<lambda>p. pos_Version p < max64 \<and> pos_Consumed p + ccn_Quantity i \<le> max64) (rdb_positions db)"
    and fresh: "rdb_operations db (cci_OrganizationID ident, chargeOperationKey dg ''consumer-settle:'' ident) = None"
      "list_all (\<lambda>e. evt_EventID e \<noteq> rnv_uuid env 0) (rdb_events db)"
  shows "\<exists>out db'. chargeSettleTx dg env (consumerChargeReceipt row, tproof) db = Inr (out, db')
    \<and> ccr_Intent out = i
    \<and> ccr_State out = (if ccp_State tproof = ConsumerEffectSucceeded then ReservationCommitted else ReservationReleased)"
proof -
  let ?org = "cci_OrganizationID (ccn_Identity i)" and ?now = "rnv_now env 1" and ?eff = "ccp_State tproof"
  let ?key = "chargeOperationKey dg ''consumer-settle:'' (ccn_Identity i)"
  have inv: "ledger_ok db" "members_ok db" using reachable_res_inv [OF reach] by (auto simp: res_inv_def)
  note R = readConsumerReservation_Inr [OF row(1)]
  have ch: "charged_row i row" using R(2) i(1) by (auto intro: charged_rowI)
  have ident: "ident = ccn_Identity i"
    using row(1) i(1)
    by (cases ident) (auto simp: readConsumerReservation_def ok_simps consumerChargeReceipt_def dest!: find_SomeD)
  have q: "0 < ccn_Quantity i" "in64 (ccn_Quantity i)" using ledger_okD(8,9) [OF inv(1) R(1)] ch by (auto simp: charged_row_def)
  obtain b where b: "rdb_buckets db (intent_key i) = Some b" "ccn_Quantity i \<le> bkt_Reserved b"
    "\<And>p. funding_position i db = Some p \<Longrightarrow> p \<in> set (rdb_positions db) \<and> ccn_Quantity i \<le> pos_Reserved p
       \<and> pos_Free p \<le> bkt_Allocated b"
    "ccn_Funding i = FundingMember \<Longrightarrow> funding_position i db \<noteq> None"
    by (rule open_charge_held [OF inv R(1) ch]) (use row(2) in \<open>auto simp: open_reservation_def\<close>)
  have bok: "bucket_ok (intent_key i) b" by (rule ledger_okD(1) [OF inv(1) b(1)])
  note B = bucket_okD [OF bok]
  have total: "bkt_Available b + bkt_Allocated b + bkt_Reserved b + bkt_Consumed b \<le> max64"
    using room(1) b(1) by (simp add: total_held_def res_balance_def)
  define op where "op = zero_operation\<lparr>opr_OrganizationID := ?org, opr_OperationID := ?key,
    opr_OperationType := ''settle_consumer_resource'', opr_RequestFingerprint := chargeFingerprint dg i, opr_State := ''processing''\<rparr>"
  define db2 where "db2 = db\<lparr>rdb_operations := (rdb_operations db)((?org, ?key) \<mapsto> op)\<rparr>"
  have lock: "lock_funding (rnv_now env 0) i db = Inr (funding_position i db, db)"
    using b(4) funded_again [OF b(4)] by (auto simp: lock_funding_Inr)
  have journal: "lockFixedResourceOperation ?org ?key ''settle_consumer_resource'' (chargeFingerprint dg i) db = Inr (op, db2)"
    using fresh(1) by (simp add: lockFixedResourceOperation_def Let_def op_def db2_def ident)
  have read2: "readConsumerReservation (ccn_Identity i) db2 = Inr row"
    using row(1) by (simp add: readConsumerReservation_def db2_def ident)
  have ok2: "ledger_ok db2" using inv(1) by (simp add: db2_def ledger_ok_def debt_of_alt res_balance_def reserved_sum_def)
  obtain b' credit da dl dc st db3 where out: "charge_outcome ?now i ?eff b db2 = Inr ((b', credit, da, dl, dc, st), db3)"
    "?eff \<noteq> ConsumerEffectSucceeded \<longrightarrow> 0 \<le> pca_net credit \<and> pca_net credit \<le> ccn_Quantity i"
    "bkt_OrganizationID b' = bkt_OrganizationID b" "bkt_ResourceType b' = bkt_ResourceType b"
    "st = (if ?eff = ConsumerEffectSucceeded then ReservationCommitted else ReservationReleased)"
    "rdb_buckets db3 = rdb_buckets db2" "rdb_operations db3 = rdb_operations db2" "rdb_events db3 = rdb_events db2"
    by (rule charge_outcome_exists [OF ok2 bok q b(2) total, where now = ?now and eff = ?eff]) blast
  obtain po' where pos: "settle_position ?now i ?eff credit (funding_position i db) = Inr po'"
    using settle_position_exists [of "funding_position i db" i ?eff credit ?now, OF _ q mp [OF out(2)]] b(2,3) room(2) total B
    by (fastforce simp: list_all_iff)
  let ?row = "settled_row row st (ccp_EvidenceID tproof) (charge_balance b' po') ?now (opr_OperationID op)"
  let ?db = "(save_funding po' db3)\<lparr>rdb_reservations := update_rows (\<lambda>r. reservation_id r = reservation_id ?row)
    (\<lambda>_. ?row) (rdb_reservations (save_funding po' db3))\<rparr>"
  have same: "rdb_buckets ?db = rdb_buckets db" "rdb_operations ?db = rdb_operations db2" "rdb_events ?db = rdb_events db"
    using out(6-8) by (simp_all add: db2_def save_funding_def save_position_def split: option.splits)
  obtain db' where fin: "and_then (updateConsumerBucket b' ?now ?db) (\<lambda>db.
      and_then (completeChargeOperation op (consumerChargeReceipt ?row) ?now db) (\<lambda>db.
      createConsumerEvent (rnv_uuid env 0) ?row b' (opr_OperationID op) st (da, dl, neg64 (ccn_Quantity i), dc) credit ?now db)) = Inr db'"
    by (rule finish_charge_exists [of ?db b' op "rnv_uuid env 0"])
       (use same b(1) B(9,10) out(3,4) fresh(2) in \<open>auto simp: op_def db2_def zero_rows\<close>)
  have rcpt: "ccr_Intent (consumerChargeReceipt ?row) = i" "ccr_State (consumerChargeReceipt ?row) = st"
    "ccr_State (consumerChargeReceipt row) = ReservationReserved"
    using i(1) row(2) by (simp_all add: consumerChargeReceipt_def settled_row_def)
  have pend: "opr_State op = ''processing''" by (simp add: op_def)
  from fin have "chargeSettleTx dg env (consumerChargeReceipt row, tproof) db = Inr (consumerChargeReceipt ?row, db')"
    using b(2) rcpt(3) pend
    by (auto simp: chargeSettleTx_def Let_def i(1) [symmetric] lock journal read2 and_then_Inr
        out(1) [unfolded One_nat_def] pos [unfolded One_nat_def] b(1) [unfolded intent_key_def])
  with rcpt(1,2) out(5) show ?thesis by blast
qed

definition settle_ready :: "string \<Rightarrow> 'o res_db \<Rightarrow> bool" where
  "settle_ready oper db \<longleftrightarrow>
     (let ident = sample_identity ConsumerAmazonData oper; row = hd (rdb_reservations db);
          i = ccr_Intent (consumerChargeReceipt row) in
      readConsumerReservation ident db = Inr row \<and> rsv_State row = ReservationReserved \<and> ValidConsumerChargeIntent i
      \<and> total_held db (intent_key i) \<le> max64
      \<and> list_all (\<lambda>p. pos_Version p < max64 \<and> pos_Consumed p + ccn_Quantity i \<le> max64) (rdb_positions db)
      \<and> rdb_operations db (cci_OrganizationID ident, chargeOperationKey sample_digests ''consumer-settle:'' ident) = None
      \<and> list_all (\<lambda>e. evt_EventID e \<noteq> rnv_uuid (att_env (sample_attempt 5)) 0) (rdb_events db))"

theorem open_charge_can_settle_witness:
  "\<exists>out db'. chargeSettleTx sample_digests (att_env (sample_attempt 5))
      (consumerChargeReceipt (hd (rdb_reservations res4)),
       \<lparr>ccp_Intent = ccr_Intent (consumerChargeReceipt (hd (rdb_reservations res4))), ccp_ReservationID = ''uuu'',
        ccp_State = ConsumerEffectFailed, ccp_EvidenceID = ''e''\<rparr>) res4 = Inr (out, db')
    \<and> ccr_State out = ReservationReleased"
proof -
  let ?row = "hd (rdb_reservations res4)" and ?ident = "sample_identity ConsumerAmazonData ''c1''"
  have "settle_ready ''c1'' res4" by code_simp
  then have R: "readConsumerReservation ?ident res4 = Inr ?row" "rsv_State ?row = ReservationReserved"
    "ValidConsumerChargeIntent (ccr_Intent (consumerChargeReceipt ?row))"
    "total_held res4 (intent_key (ccr_Intent (consumerChargeReceipt ?row))) \<le> max64"
    "list_all (\<lambda>p. pos_Version p < max64 \<and> pos_Consumed p + ccn_Quantity (ccr_Intent (consumerChargeReceipt ?row)) \<le> max64)
       (rdb_positions res4)"
    "rdb_operations res4 (cci_OrganizationID ?ident, chargeOperationKey sample_digests ''consumer-settle:'' ?ident) = None"
    "list_all (\<lambda>e. evt_EventID e \<noteq> rnv_uuid (att_env (sample_attempt 5)) 0) (rdb_events res4)"
    unfolding settle_ready_def Let_def by blast+
  from open_charge_can_settle [OF res_reachable_run(4) R(1,2) refl R(3-7),
      of "\<lparr>ccp_Intent = ccr_Intent (consumerChargeReceipt ?row), ccp_ReservationID = ''uuu'',
        ccp_State = ConsumerEffectFailed, ccp_EvidenceID = ''e''\<rparr>"]
  show ?thesis by auto
qed

section \<open>Reading balances\<close>






end
