(* ===== verification/Store_Types.thy ===== *)
theory Store_Types
  imports Res_Runner
begin

text \<open>
  The Store Center domain (\<open>internal/storecenter\<close>): the Store aggregate with its record lifecycle
  (\<open>store.go\<close>), and the paid service of a store with its three transitions (\<open>service_state.go\<close>,
  \<open>service_lifecycle.go\<close>, \<open>service_execution.go\<close>, \<open>service_quantity_policy.go\<close>).

  The private fields of \<open>Store\<close> are those of \<open>StoreSnapshot\<close>, so the aggregate is its snapshot.
  Sentinel errors are constructors of \<open>serr\<close>; an error wrapped with \<open>%w\<close> is the sentinel it wraps,
  an error without a sentinel is \<open>StoreErr\<close> with its text. Errors of the resource ledger are
  \<open>LedgerErr\<close>.
\<close>

datatype serr =
    ErrNotFound | ErrAlreadyExists | ErrVersionConflict | ErrInvalidTransition
  | ErrPageOffsetOverflow | ErrLimitReached | ErrDependencyUnavailable
  | ErrInvalidServiceState | ErrInvalidServiceTransition | ErrConnectionSnapshotChanged
  | ErrConnectionNotFresh | ErrConnectionUnavailable | ErrServiceAlreadyActive | ErrServiceExpired
  | ErrServiceNotExpired | ErrServiceSuspended | ErrServiceQuantityInvalid
  | ErrServiceQuantityExceeded | ErrServiceChargeUnknown
  | LedgerErr rerr | StoreErr string

text \<open>\<open>if err := e; err != nil { return err }\<close>.\<close>

definition guard_err :: "'e option \<Rightarrow> 'e + 'a \<Rightarrow> 'e + 'a" where
  "guard_err e k = (case e of Some x \<Rightarrow> Inl x | None \<Rightarrow> k)"

lemma guard_err_Inr [simp]: "guard_err e k = Inr a \<longleftrightarrow> e = None \<and> k = Inr a"
  by (simp add: guard_err_def split: option.splits)

section \<open>Validators\<close>

text \<open>
  \<open>uuid.Parse\<close> accepts four spellings; only the 36-character lower-case one is its own \<open>String\<close>.
\<close>

definition uuid_shape :: "string \<Rightarrow> bool" where
  "uuid_shape s \<longleftrightarrow> length s = 36
     \<and> list_all (\<lambda>(i, c). if i \<in> {8, 13, 18, 23} then c = CHR ''-'' else c \<in> set ''0123456789abcdef'')
          (zip [0..<36] s)"

definition canonicalUUID :: "string \<Rightarrow> serr option" where
  "canonicalUUID v =
     (if \<not> uuid_shape v then Some (StoreErr ''must be a canonical RFC 4122 UUID'')
      else if list_all (\<lambda>c. c = CHR ''0'' \<or> c = CHR ''-'') v
      then Some (StoreErr ''must be a non-nil canonical RFC 4122 UUID'') else None)"

definition containsControlCharacter :: "string \<Rightarrow> bool" where
  "containsControlCharacter v \<longleftrightarrow> has_control (bytes_of v)"

definition containsBrowserTrimDiscrepantCharacter :: "string \<Rightarrow> bool" where
  "containsBrowserTrimDiscrepantCharacter v \<longleftrightarrow> contains_text [CHR 0xEF, CHR 0xBB, CHR 0xBF] v"

definition RuneCountInString :: "string \<Rightarrow> nat" where
  "RuneCountInString v = length (filter (\<lambda>b. \<not> (0x80 \<le> b \<and> b < 0xC0)) (bytes_of v))"

abbreviation MaxOrganizationIDBytes :: nat where "MaxOrganizationIDBytes \<equiv> 200"
abbreviation MaxSubjectBytes :: nat where "MaxSubjectBytes \<equiv> 200"
abbreviation MaxStoreNameCodePoints :: nat where "MaxStoreNameCodePoints \<equiv> 120"
abbreviation MaxStoreRegionCodePoints :: nat where "MaxStoreRegionCodePoints \<equiv> 64"
abbreviation MaxExternalStoreIDCodePoints :: nat where "MaxExternalStoreIDCodePoints \<equiv> 128"

definition validateOpaqueIdentity :: "string \<Rightarrow> string \<Rightarrow> nat \<Rightarrow> serr option" where
  "validateOpaqueIdentity field v maxBytes =
     (if \<not> valid_utf8 (bytes_of v) then Some (StoreErr (field @ '' must be valid UTF-8''))
      else if v = [] \<or> v \<noteq> TrimSpace v
      then Some (StoreErr (field @ '' must be nonblank and exactly trimmed''))
      else if length v > maxBytes then Some (StoreErr (field @ '' exceeds bytes''))
      else if containsControlCharacter v
      then Some (StoreErr (field @ '' contains a control character'')) else None)"

definition validateOpaqueOptionalValue :: "string \<Rightarrow> string \<Rightarrow> serr option" where
  "validateOpaqueOptionalValue field v =
     (if \<not> valid_utf8 (bytes_of v) then Some (StoreErr (field @ '' must be valid UTF-8''))
      else if containsBrowserTrimDiscrepantCharacter v
      then Some (StoreErr (field @ '' contains a browser-trim discrepant character''))
      else if containsControlCharacter v
      then Some (StoreErr (field @ '' contains a control character'')) else None)"

definition normalizeUserValue :: "string \<Rightarrow> string \<Rightarrow> nat \<Rightarrow> bool \<Rightarrow> serr + string" where
  "normalizeUserValue field v maxCodePoints required =
     (if \<not> valid_utf8 (bytes_of v) then Inl (StoreErr (field @ '' must be valid UTF-8''))
      else if containsBrowserTrimDiscrepantCharacter v
      then Inl (StoreErr (field @ '' contains a browser-trim discrepant character''))
      else if containsControlCharacter v
      then Inl (StoreErr (field @ '' contains a control character''))
      else let normalized = TrimSpace v in
        if required \<and> normalized = [] then Inl (StoreErr (field @ '' is required''))
        else if RuneCountInString normalized > maxCodePoints
        then Inl (StoreErr (field @ '' exceeds Unicode code points''))
        else Inr normalized)"

definition validateNormalizedUserValue :: "string \<Rightarrow> string \<Rightarrow> nat \<Rightarrow> bool \<Rightarrow> serr option" where
  "validateNormalizedUserValue field v maxCodePoints required =
     (case normalizeUserValue field v maxCodePoints required of
        Inl e \<Rightarrow> Some e
      | Inr normalized \<Rightarrow>
          if normalized \<noteq> v then Some (StoreErr (field @ '' must already be normalized'')) else None)"

text \<open>
  \<open>strings.ToLower\<close> as far as the comparison with the platform names can tell: ASCII letters, and
  the two letters outside ASCII whose lower case is ASCII (U+0130 and U+212A).
\<close>

function go_lower :: "string \<Rightarrow> string" where
  "go_lower [] = []"
| "go_lower (c # s) =
     (if c = CHR 0xC4 \<and> starts_with [CHR 0xB0] s then CHR ''i'' # go_lower (drop 1 s)
      else if c = CHR 0xE2 \<and> starts_with [CHR 0x84, CHR 0xAA] s then CHR ''k'' # go_lower (drop 2 s)
      else lower_char c # go_lower s)"
  by pat_completeness auto
termination by (relation "measure length") auto

abbreviation PlatformShein :: string where "PlatformShein \<equiv> ''shein''"
abbreviation PlatformTemu :: string where "PlatformTemu \<equiv> ''temu''"
abbreviation PlatformTikTokShop :: string where "PlatformTikTokShop \<equiv> ''tiktokshop''"
abbreviation PlatformWalmart :: string where "PlatformWalmart \<equiv> ''walmart''"

definition normalizePlatform :: "string \<Rightarrow> serr + string" where
  "normalizePlatform v =
     (if \<not> valid_utf8 (bytes_of v) \<or> containsControlCharacter v then Inl (StoreErr ''platform is invalid'')
      else let normalized = go_lower (TrimSpace v) in
        if normalized \<noteq> PlatformShein \<and> normalized \<noteq> PlatformTemu
           \<and> normalized \<noteq> PlatformTikTokShop \<and> normalized \<noteq> PlatformWalmart
        then Inl (StoreErr ''platform is unsupported'') else Inr normalized)"

section \<open>The service state\<close>

abbreviation RecordStatusActive :: string where "RecordStatusActive \<equiv> ''active''"
abbreviation RecordStatusDisabled :: string where "RecordStatusDisabled \<equiv> ''disabled''"
abbreviation RecordStatusDeleting :: string where "RecordStatusDeleting \<equiv> ''deleting''"
abbreviation RecordStatusDeleted :: string where "RecordStatusDeleted \<equiv> ''deleted''"

abbreviation ServiceStatusPendingActivation :: string where
  "ServiceStatusPendingActivation \<equiv> ''pending_activation''"
abbreviation ServiceStatusActive :: string where "ServiceStatusActive \<equiv> ''active''"
abbreviation ServiceStatusExpired :: string where "ServiceStatusExpired \<equiv> ''expired''"
abbreviation ServiceStatusSuspended :: string where "ServiceStatusSuspended \<equiv> ''suspended''"

record StoreServiceState =
  sss_RecordStatus :: string
  sss_ServiceStatus :: string
  sss_StartedAt :: "gotime option"
  sss_ExpiresAt :: "gotime option"

definition validServicePeriod :: "gotime option \<Rightarrow> gotime option \<Rightarrow> bool" where
  "validServicePeriod startedAt expiresAt =
     (case (startedAt, expiresAt) of
        (Some s, Some x) \<Rightarrow> \<not> IsZero s \<and> \<not> IsZero x \<and> s < x
      | _ \<Rightarrow> False)"

definition ValidateStoreServiceState :: "StoreServiceState \<Rightarrow> serr option" where
  "ValidateStoreServiceState st =
     (if sss_RecordStatus st = RecordStatusDeleting \<or> sss_RecordStatus st = RecordStatusDeleted
      then if sss_ServiceStatus st \<noteq> [] \<or> sss_StartedAt st \<noteq> None \<or> sss_ExpiresAt st \<noteq> None
           then Some ErrInvalidServiceState else None
      else if sss_RecordStatus st \<noteq> RecordStatusActive \<and> sss_RecordStatus st \<noteq> RecordStatusDisabled
      then Some ErrInvalidServiceState
      else if sss_ServiceStatus st = ServiceStatusPendingActivation
      then if sss_StartedAt st \<noteq> None \<or> sss_ExpiresAt st \<noteq> None then Some ErrInvalidServiceState else None
      else if sss_ServiceStatus st = ServiceStatusActive \<or> sss_ServiceStatus st = ServiceStatusExpired
      then if \<not> validServicePeriod (sss_StartedAt st) (sss_ExpiresAt st)
           then Some ErrInvalidServiceState else None
      else if sss_ServiceStatus st = ServiceStatusSuspended
      then if (sss_StartedAt st = None) \<noteq> (sss_ExpiresAt st = None) then Some ErrInvalidServiceState
           else if sss_StartedAt st \<noteq> None \<and> \<not> validServicePeriod (sss_StartedAt st) (sss_ExpiresAt st)
           then Some ErrInvalidServiceState else None
      else Some ErrInvalidServiceState)"

section \<open>The service lifecycle\<close>

abbreviation ConnectionStatusConnected :: string where "ConnectionStatusConnected \<equiv> ''connected''"
abbreviation ConnectionStatusUnavailable :: string where "ConnectionStatusUnavailable \<equiv> ''unavailable''"

text \<open>30 days, in nanoseconds; a duration is an \<open>int64\<close>, so a product of durations may wrap.\<close>

abbreviation defaultStoreServicePeriod :: i64 where
  "defaultStoreServicePeriod \<equiv> 2592000000000000"

definition validateServiceQuantity :: "i64 \<Rightarrow> i64 \<Rightarrow> serr option" where
  "validateServiceQuantity quantity maxQuantity =
     (if quantity \<le> 0 \<or> maxQuantity \<le> 0 then Some ErrServiceQuantityInvalid
      else if quantity > maxQuantity then Some ErrServiceQuantityExceeded else None)"

definition effectiveServiceStatus :: "StoreServiceState \<Rightarrow> gotime \<Rightarrow> string" where
  "effectiveServiceStatus st now =
     (if sss_ServiceStatus st = ServiceStatusActive
         \<and> (case sss_ExpiresAt st of None \<Rightarrow> False | Some x \<Rightarrow> \<not> now < x)
      then ServiceStatusExpired else sss_ServiceStatus st)"

definition active_period :: "gotime \<Rightarrow> gotime \<Rightarrow> StoreServiceState" where
  "active_period startedAt expiresAt =
     \<lparr>sss_RecordStatus = RecordStatusActive, sss_ServiceStatus = ServiceStatusActive,
      sss_StartedAt = Some startedAt, sss_ExpiresAt = Some expiresAt\<rparr>"

definition ActivateStoreService ::
  "StoreServiceState \<Rightarrow> string \<Rightarrow> gotime \<Rightarrow> serr + StoreServiceState" where
  "ActivateStoreService st connection now =
     guard_err (ValidateStoreServiceState st)
     (if sss_RecordStatus st \<noteq> RecordStatusActive then Inl ErrInvalidServiceTransition
      else if sss_ServiceStatus st = ServiceStatusActive then Inl ErrServiceAlreadyActive
      else if sss_ServiceStatus st = ServiceStatusExpired then Inl ErrServiceExpired
      else if sss_ServiceStatus st = ServiceStatusSuspended then Inl ErrServiceSuspended
      else if sss_ServiceStatus st \<noteq> ServiceStatusPendingActivation then Inl ErrInvalidServiceTransition
      else if connection \<noteq> ConnectionStatusConnected then Inl ErrConnectionNotFresh
      else if IsZero now then Inl ErrInvalidServiceTransition
      else Inr (active_period now (now + defaultStoreServicePeriod)))"

definition RenewStoreService ::
  "StoreServiceState \<Rightarrow> i64 \<Rightarrow> i64 \<Rightarrow> gotime \<Rightarrow> serr + StoreServiceState" where
  "RenewStoreService st quantity maxQuantity now =
     guard_err (ValidateStoreServiceState st)
     (if sss_RecordStatus st \<noteq> RecordStatusActive then Inl ErrInvalidServiceTransition
      else guard_err (validateServiceQuantity quantity maxQuantity)
      (if IsZero now then Inl ErrInvalidServiceTransition
       else let status = effectiveServiceStatus st now in
         if status = ServiceStatusExpired then Inl ErrServiceExpired
         else if status = ServiceStatusSuspended then Inl ErrServiceSuspended
         else if status \<noteq> ServiceStatusActive then Inl ErrInvalidServiceTransition
         else case sss_ExpiresAt st of
           None \<Rightarrow> Inl ErrInvalidServiceTransition
         | Some x \<Rightarrow> Inr (st\<lparr>sss_ServiceStatus := ServiceStatusActive,
                             sss_ExpiresAt := Some (x + mul64 quantity defaultStoreServicePeriod)\<rparr>)))"

definition ReactivateStoreService ::
  "StoreServiceState \<Rightarrow> i64 \<Rightarrow> i64 \<Rightarrow> gotime \<Rightarrow> serr + StoreServiceState" where
  "ReactivateStoreService st quantity maxQuantity now =
     guard_err (ValidateStoreServiceState st)
     (if sss_RecordStatus st \<noteq> RecordStatusActive then Inl ErrInvalidServiceTransition
      else guard_err (validateServiceQuantity quantity maxQuantity)
      (if IsZero now then Inl ErrInvalidServiceTransition
       else if effectiveServiceStatus st now \<noteq> ServiceStatusExpired then Inl ErrServiceNotExpired
       else Inr (active_period now (now + mul64 quantity defaultStoreServicePeriod))))"

section \<open>Service operations\<close>

abbreviation ServiceCommandActivate :: string where "ServiceCommandActivate \<equiv> ''store_service_activate''"
abbreviation ServiceCommandRenew :: string where "ServiceCommandRenew \<equiv> ''store_service_renew''"
abbreviation ServiceCommandReactivate :: string where
  "ServiceCommandReactivate \<equiv> ''store_service_reactivate''"

record ServiceExecution =
  sex_OrganizationID :: string
  sex_OperationID :: string
  sex_StoreID :: string
  sex_Command :: string
  sex_Quantity :: i64
  sex_MaxQuantity :: i64
  sex_ExpectedStoreVersion :: i64
  sex_ExpectedConnectionRef :: string
  sex_ConnectionStatus :: string
  sex_ActorSubject :: string
  sex_OccurredAt :: gotime
  sex_RequestFingerprint :: string

record ServiceReplay =
  srp_OrganizationID :: string
  srp_OperationID :: string
  srp_RequestFingerprint :: string

record ServiceOperationSnapshot =
  sos_OrganizationID :: string
  sos_OperationID :: string
  sos_StoreID :: string
  sos_Command :: string
  sos_Quantity :: string
  sos_ResourceType :: string
  sos_BalanceAfter :: string
  sos_StoreVersion :: i64
  sos_ServiceState :: StoreServiceState
  sos_EventID :: string

record ServiceOperationResult =
  sor_Snapshot :: ServiceOperationSnapshot
  sor_Replayed :: bool

abbreviation Phase1MaxStoreServicePeriods :: i64 where "Phase1MaxStoreServicePeriods \<equiv> 12"

text \<open>The quantity policy; \<open>ctx\<close> is the error of the caller's context, when it has ended.\<close>

definition MaxQuantity :: "serr option \<Rightarrow> string \<Rightarrow> string \<Rightarrow> serr + i64" where
  "MaxQuantity ctx org command =
     (if TrimSpace org = [] then Inl ErrServiceQuantityInvalid
      else guard_err ctx
      (if command = ServiceCommandActivate then Inr 1
       else if command = ServiceCommandRenew \<or> command = ServiceCommandReactivate
       then Inr Phase1MaxStoreServicePeriods else Inl ErrServiceQuantityInvalid))"

section \<open>The Store aggregate\<close>

record StoreSnapshot =
  sto_ID :: string
  sto_OrganizationID :: string
  sto_Name :: string
  sto_Platform :: string
  sto_Region :: string
  sto_ExternalStoreID :: string
  sto_RecordStatus :: string
  sto_ServiceStatus :: string
  sto_ServiceStartedAt :: "gotime option"
  sto_ServiceExpiresAt :: "gotime option"
  sto_ConnectionRef :: string
  sto_Version :: i64
  sto_CreatedBy :: string
  sto_UpdatedBy :: string
  sto_CreatedAt :: gotime
  sto_UpdatedAt :: gotime
  sto_DeletedAt :: "gotime option"
  sto_CreateIdempotencyKey :: string
  sto_DeleteOperationKey :: string

definition serviceState :: "StoreSnapshot \<Rightarrow> StoreServiceState" where
  "serviceState s =
     \<lparr>sss_RecordStatus = sto_RecordStatus s, sss_ServiceStatus = sto_ServiceStatus s,
      sss_StartedAt = sto_ServiceStartedAt s, sss_ExpiresAt = sto_ServiceExpiresAt s\<rparr>"

definition canTransition :: "string \<Rightarrow> string \<Rightarrow> bool" where
  "canTransition current target =
     (if current = RecordStatusActive then target = RecordStatusDisabled
      else if current = RecordStatusDisabled then target = RecordStatusActive else False)"

definition validRecordStatus :: "string \<Rightarrow> bool" where
  "validRecordStatus s \<longleftrightarrow> s = RecordStatusActive \<or> s = RecordStatusDisabled
     \<or> s = RecordStatusDeleting \<or> s = RecordStatusDeleted"

definition minimumRecordVersion :: "string \<Rightarrow> i64" where
  "minimumRecordVersion s =
     (if s = RecordStatusActive then 1
      else if s = RecordStatusDisabled \<or> s = RecordStatusDeleting then 2
      else if s = RecordStatusDeleted then 3 else 1)"

definition delete_marks_error :: "StoreSnapshot \<Rightarrow> serr option" where
  "delete_marks_error s =
     (if sto_RecordStatus s = RecordStatusDeleted \<and> sto_DeletedAt s = None
      then Some (StoreErr ''deleted stores require a deleted time'')
      else case sto_DeletedAt s of
        None \<Rightarrow> None
      | Some t \<Rightarrow>
          if IsZero t \<or> t < sto_UpdatedAt s then Some (StoreErr ''deleted time is invalid'')
          else if sto_RecordStatus s \<noteq> RecordStatusDeleted
          then Some (StoreErr ''only deleted stores may have a deleted time'') else None)"

definition newStoreFromSnapshot :: "StoreSnapshot \<Rightarrow> serr + StoreSnapshot" where
  "newStoreFromSnapshot s =
     guard_err (canonicalUUID (sto_ID s))
     (guard_err (validateOpaqueIdentity ''organization ID'' (sto_OrganizationID s) MaxOrganizationIDBytes)
     (guard_err (validateNormalizedUserValue ''name'' (sto_Name s) MaxStoreNameCodePoints True)
     (if normalizePlatform (sto_Platform s) \<noteq> Inr (sto_Platform s)
      then Inl (StoreErr ''platform must be normalized and supported'')
      else guard_err (validateNormalizedUserValue ''region'' (sto_Region s) MaxStoreRegionCodePoints True)
     (guard_err (validateNormalizedUserValue ''external store ID'' (sto_ExternalStoreID s)
         MaxExternalStoreIDCodePoints False)
     (if sto_Platform s = PlatformWalmart \<and> sto_Region s \<noteq> ''US''
      then Inl (StoreErr ''Walmart region must be US'')
      else if sto_Platform s = PlatformTikTokShop \<and> (sto_Region s \<noteq> ''US'' \<or> sto_ExternalStoreID s = [])
      then Inl (StoreErr ''TikTok Shop requires US region and explicit Seller Center code'')
      else guard_err (validateOpaqueOptionalValue ''connection reference'' (sto_ConnectionRef s))
     (guard_err (canonicalUUID (sto_CreateIdempotencyKey s))
     (guard_err (validateOpaqueIdentity ''created by'' (sto_CreatedBy s) MaxSubjectBytes)
     (guard_err (validateOpaqueIdentity ''updated by'' (sto_UpdatedBy s) MaxSubjectBytes)
     (if \<not> validRecordStatus (sto_RecordStatus s) then Inl (StoreErr ''record status is invalid'')
      else guard_err (ValidateStoreServiceState (serviceState s))
     (guard_err
        (if sto_RecordStatus s = RecordStatusDeleting \<or> sto_RecordStatus s = RecordStatusDeleted
         then canonicalUUID (sto_DeleteOperationKey s)
         else if sto_DeleteOperationKey s \<noteq> []
         then Some (StoreErr ''only deleting stores may have a delete operation key'') else None)
     (if sto_Version s < minimumRecordVersion (sto_RecordStatus s)
      then Inl (StoreErr ''version cannot reach record status'')
      else if IsZero (sto_CreatedAt s) \<or> IsZero (sto_UpdatedAt s)
      then Inl (StoreErr ''created and updated times are required'')
      else if sto_UpdatedAt s < sto_CreatedAt s
      then Inl (StoreErr ''updated time must not precede created time'')
      else guard_err (delete_marks_error s) (Inr s))))))))))))"

definition RehydrateStore :: "StoreSnapshot \<Rightarrow> serr + StoreSnapshot" where
  "RehydrateStore s = newStoreFromSnapshot s"

record CreateStoreInput =
  csi_ID :: string
  csi_OrganizationID :: string
  csi_ActorSubject :: string
  csi_Name :: string
  csi_Platform :: string
  csi_Region :: string
  csi_ExternalStoreID :: string
  csi_CreateIdempotencyKey :: string
  csi_OccurredAt :: gotime

definition NewStore :: "CreateStoreInput \<Rightarrow> serr + StoreSnapshot" where
  "NewStore i =
     guard_err (canonicalUUID (csi_ID i))
     (guard_err (validateOpaqueIdentity ''organization ID'' (csi_OrganizationID i) MaxOrganizationIDBytes)
     (guard_err (validateOpaqueIdentity ''actor subject'' (csi_ActorSubject i) MaxSubjectBytes)
     (and_then (normalizeUserValue ''name'' (csi_Name i) MaxStoreNameCodePoints True) (\<lambda>name.
      and_then (normalizePlatform (csi_Platform i)) (\<lambda>platform.
      and_then (normalizeUserValue ''region'' (csi_Region i) MaxStoreRegionCodePoints True) (\<lambda>region.
      and_then (normalizeUserValue ''external store ID'' (csi_ExternalStoreID i)
                  MaxExternalStoreIDCodePoints False) (\<lambda>externalStoreID.
      guard_err (canonicalUUID (csi_CreateIdempotencyKey i))
      (if IsZero (csi_OccurredAt i) then Inl (StoreErr ''occurred at is required'')
       else newStoreFromSnapshot
         \<lparr>sto_ID = csi_ID i, sto_OrganizationID = csi_OrganizationID i, sto_Name = name,
          sto_Platform = platform, sto_Region = region, sto_ExternalStoreID = externalStoreID,
          sto_RecordStatus = RecordStatusActive, sto_ServiceStatus = ServiceStatusPendingActivation,
          sto_ServiceStartedAt = None, sto_ServiceExpiresAt = None, sto_ConnectionRef = [],
          sto_Version = 1, sto_CreatedBy = csi_ActorSubject i, sto_UpdatedBy = csi_ActorSubject i,
          sto_CreatedAt = csi_OccurredAt i, sto_UpdatedAt = csi_OccurredAt i, sto_DeletedAt = None,
          sto_CreateIdempotencyKey = csi_CreateIdempotencyKey i, sto_DeleteOperationKey = []\<rparr>))))))))"

definition EditBasic ::
  "string \<Rightarrow> string \<Rightarrow> string \<Rightarrow> gotime \<Rightarrow> StoreSnapshot \<Rightarrow> serr + bool \<times> StoreSnapshot" where
  "EditBasic name region actorSubject occurredAt s =
     (if sto_RecordStatus s \<noteq> RecordStatusActive \<and> sto_RecordStatus s \<noteq> RecordStatusDisabled
      then Inl ErrInvalidTransition
      else and_then (normalizeUserValue ''name'' name MaxStoreNameCodePoints True) (\<lambda>name.
      and_then (normalizeUserValue ''region'' region MaxStoreRegionCodePoints True) (\<lambda>region.
      if (sto_Platform s = PlatformTikTokShop \<or> sto_Platform s = PlatformWalmart) \<and> region \<noteq> ''US''
      then Inl (StoreErr ''TikTok Shop region must be US'')
      else guard_err (validateOpaqueIdentity ''actor subject'' actorSubject MaxSubjectBytes)
      (if IsZero occurredAt \<or> occurredAt < sto_UpdatedAt s
       then Inl (StoreErr ''edit time must not precede the last update'')
       else if name = sto_Name s \<and> region = sto_Region s then Inr (False, s)
       else Inr (True, s\<lparr>sto_Name := name, sto_Region := region, sto_UpdatedBy := actorSubject,
                         sto_UpdatedAt := occurredAt, sto_Version := add64 (sto_Version s) 1\<rparr>)))))"

definition BeginDelete ::
  "string \<Rightarrow> string \<Rightarrow> gotime \<Rightarrow> StoreSnapshot \<Rightarrow> serr + StoreSnapshot" where
  "BeginDelete operationKey actorSubject occurredAt s =
     guard_err (canonicalUUID operationKey)
     (if sto_RecordStatus s = RecordStatusDeleting
      then if sto_DeleteOperationKey s = operationKey then Inr s else Inl ErrInvalidTransition
      else if sto_RecordStatus s \<noteq> RecordStatusActive \<and> sto_RecordStatus s \<noteq> RecordStatusDisabled
      then Inl ErrInvalidTransition
      else guard_err (validateOpaqueIdentity ''actor subject'' actorSubject MaxSubjectBytes)
      (if IsZero occurredAt \<or> occurredAt < sto_UpdatedAt s
       then Inl (StoreErr ''delete time must not precede the last update'')
       else Inr (s\<lparr>sto_RecordStatus := RecordStatusDeleting, sto_ServiceStatus := [],
                   sto_ServiceStartedAt := None, sto_ServiceExpiresAt := None,
                   sto_DeleteOperationKey := operationKey, sto_UpdatedBy := actorSubject,
                   sto_UpdatedAt := occurredAt, sto_Version := add64 (sto_Version s) 1\<rparr>)))"

definition TransitionTo ::
  "string \<Rightarrow> string \<Rightarrow> gotime \<Rightarrow> StoreSnapshot \<Rightarrow> serr + StoreSnapshot" where
  "TransitionTo target actorSubject occurredAt s =
     (if \<not> canTransition (sto_RecordStatus s) target then Inl ErrInvalidTransition
      else guard_err (validateOpaqueIdentity ''actor subject'' actorSubject MaxSubjectBytes)
      (if IsZero occurredAt \<or> occurredAt < sto_UpdatedAt s
       then Inl (StoreErr ''transition time must not precede the last update'')
       else Inr (s\<lparr>sto_RecordStatus := target, sto_UpdatedBy := actorSubject,
                   sto_UpdatedAt := occurredAt, sto_Version := add64 (sto_Version s) 1\<rparr>)))"

end
