(* ===== verification/Store_DB.thy ===== *)
theory Store_DB
  imports Store_Types
begin

text \<open>
  The tables of the Store Center and the store repository (\<open>gorm_repository.go\<close>, \<open>audit.go\<close>):
  rehydration of a record, the versioned writes of the record lifecycle, the service half of a
  service operation, and the audit trail.

  Encoded columns are \<open>blob\<close>s. The digest of a tuple (\<open>hashTuple\<close>), the name-based UUID and the JSON
  texts whose length or digest the code uses are the fields of the parameter \<open>store_codec\<close>.
  Database errors without a meaning to the callers come from the faults of a call; a statement
  itself fails only on a unique key.
\<close>

section \<open>Rows\<close>

record workbenchStoreRecord =
  wsr_ID :: string
  wsr_OrganizationID :: string
  wsr_Name :: string
  wsr_Platform :: string
  wsr_Region :: string
  wsr_ExternalStoreID :: string
  wsr_RecordStatus :: string
  wsr_ServiceStatus :: "string option"
  wsr_ServiceStartedAt :: "gotime option"
  wsr_ServiceExpiresAt :: "gotime option"
  wsr_ConnectionRef :: string
  wsr_Version :: i64
  wsr_CreatedBy :: string
  wsr_UpdatedBy :: string
  wsr_CreatedAt :: gotime
  wsr_UpdatedAt :: gotime
  wsr_DeletedAt :: "gotime option"
  wsr_CreateIdempotencyKey :: string
  wsr_DeleteOperationKey :: string
  wsr_IdentityKey :: string
  wsr_CreateRequestFingerprint :: string

record workbenchStoreAuditLogRecord =
  war_EventID :: string
  war_OrganizationID :: string
  war_StoreID :: string
  war_RequestKey :: string
  war_Action :: string
  war_Outcome :: string
  war_ActorSubject :: string
  war_SafeFieldNames :: "string list"
  war_PayloadFingerprint :: string
  war_PreviousState :: string
  war_NewState :: string
  war_FailureCode :: string
  war_StoreVersion :: i64
  war_CreatedAt :: gotime
  war_OccurredAt :: gotime

record storeMemberGrantRow =
  sgr_OrganizationID :: string
  sgr_StoreID :: string
  sgr_MemberID :: string
  sgr_Active :: bool
  sgr_Version :: i64
  sgr_UpdatedBy :: string
  sgr_UpdatedAt :: gotime

record storeMemberGrantOperation =
  sgo_OrganizationID :: string
  sgo_OperationID :: string
  sgo_StoreID :: string
  sgo_MemberID :: string
  sgo_Active :: bool
  sgo_ExpectedVersion :: i64
  sgo_ResultVersion :: i64
  sgo_ActorID :: string
  sgo_Fingerprint :: string
  sgo_CreatedAt :: gotime

record ServiceChargeIntent =
  sci_Execution :: ServiceExecution
  sci_MemberID :: string
  sci_Funding :: string

record storeServiceChargeRow =
  scr_OrganizationID :: string
  scr_OperationID :: string
  scr_StoreID :: string
  scr_IntentJSON :: "ServiceChargeIntent blob"
  scr_ReservationID :: string
  scr_State :: string
  scr_SnapshotJSON :: "ServiceOperationSnapshot blob"
  scr_EvidenceID :: string
  scr_FailureCode :: string
  scr_CreatedAt :: gotime
  scr_UpdatedAt :: gotime

record store_db =
  sdb_stores :: "workbenchStoreRecord list"
  sdb_audits :: "workbenchStoreAuditLogRecord list"
  sdb_grants :: "storeMemberGrantRow list"
  sdb_grant_ops :: "storeMemberGrantOperation list"
  sdb_charges :: "storeServiceChargeRow list"

record store_codec =
  cdc_tuple :: "string list \<Rightarrow> string"
  cdc_uuid :: "string \<Rightarrow> string"
  cdc_intent :: "ServiceChargeIntent \<Rightarrow> string"
  cdc_snapshot :: "ServiceOperationSnapshot \<Rightarrow> string"

definition hashTuple :: "store_codec \<Rightarrow> string list \<Rightarrow> string" where
  "hashTuple cd vs = cdc_tuple cd vs"

text \<open>\<open>FormatBool\<close> of the standard library.\<close>

definition FormatBool :: "bool \<Rightarrow> string" where
  "FormatBool b = (if b then ''true'' else ''false'')"

section \<open>The audit trail\<close>

abbreviation AuditActionStoreCreated :: string where "AuditActionStoreCreated \<equiv> ''store_created''"
abbreviation AuditActionDeleteComplete :: string where "AuditActionDeleteComplete \<equiv> ''delete_complete''"
abbreviation AuditOutcomeSucceeded :: string where "AuditOutcomeSucceeded \<equiv> ''succeeded''"
abbreviation AuditOutcomeUnknown :: string where "AuditOutcomeUnknown \<equiv> ''unknown''"

record AuditEvent =
  aue_EventID :: string
  aue_OrganizationID :: string
  aue_StoreID :: string
  aue_RequestKey :: string
  aue_Action :: string
  aue_Outcome :: string
  aue_ActorSubject :: string
  aue_SafeFieldNames :: "string list"
  aue_PayloadFingerprint :: string
  aue_PreviousState :: string
  aue_NewState :: string
  aue_FailureCode :: string
  aue_StoreVersion :: i64
  aue_OccurredAt :: gotime

definition validAuditAction :: "string \<Rightarrow> bool" where
  "validAuditAction a \<longleftrightarrow> a \<in> set
     [''shein_login_identity_sync'', ''shein_login_activate'', ''shein_login_quiesce'',
      ''store_created'', ''store_update_started'', ''store_updated'', ''store_update_noop'',
      ''store_lifecycle_started'', ''store_disabled'', ''store_enabled'', ''delete_started'',
      ''delete_complete'']"

definition validAuditOutcome :: "string \<Rightarrow> bool" where
  "validAuditOutcome a \<longleftrightarrow> a = ''succeeded'' \<or> a = ''failed'' \<or> a = ''unknown''"

definition validAuditFailure :: "string \<Rightarrow> bool" where
  "validAuditFailure a \<longleftrightarrow> a = [] \<or> a = ''already_exists'' \<or> a = ''dependency_unavailable''"

definition validAuditState :: "string \<Rightarrow> bool" where
  "validAuditState s \<longleftrightarrow> s = [] \<or> validRecordStatus s"

text \<open>The distinct names in the order of \<open>sort.Strings\<close>.\<close>

definition normalizeSafeFieldNames :: "string list \<Rightarrow> serr + string list" where
  "normalizeSafeFieldNames names =
     (let allowed = [''external_store_id'', ''name'', ''platform'', ''record_status'', ''region''] in
      if \<not> list_all (\<lambda>f. f \<in> set allowed) names then Inl (StoreErr ''audit safe field name is invalid'')
      else Inr (filter (\<lambda>f. f \<in> set names) allowed))"

definition exactSafeFields :: "string list \<Rightarrow> string list \<Rightarrow> bool" where
  "exactSafeFields got want \<longleftrightarrow>
     length got = length want \<and> distinct got \<and> list_all (\<lambda>f. f \<in> set got) want"

definition validTaskFiveAuditCombination :: "AuditEvent \<Rightarrow> bool" where
  "validTaskFiveAuditCombination e =
     (let succeeded = aue_Outcome e = ''succeeded'' \<and> aue_FailureCode e = [] \<and> aue_StoreVersion e > 0;
          unknown = aue_Outcome e = ''unknown'' \<and> aue_FailureCode e = [] \<and> aue_StoreVersion e > 0;
          previous = aue_PreviousState e; new = aue_NewState e; fields = aue_SafeFieldNames e;
          both_active = previous = RecordStatusActive \<and> new = RecordStatusActive;
          mutable = previous = RecordStatusActive \<or> previous = RecordStatusDisabled;
          sameMutableState = previous = new \<and> mutable;
          profileFields = fields \<noteq> [] \<and> list_all (\<lambda>f. f = ''name'' \<or> f = ''region'') fields;
          printed = length (aue_PayloadFingerprint e) = 64;
          action = aue_Action e
      in if action = ''shein_login_identity_sync''
         then both_active \<and> exactSafeFields fields [''external_store_id''] \<and> printed \<and> aue_StoreVersion e > 0
              \<and> (succeeded \<or> aue_Outcome e = ''failed'' \<and> aue_FailureCode e = ''already_exists'')
         else if action = ''shein_login_activate'' then succeeded \<and> both_active \<and> fields = [] \<and> printed
         else if action = ''shein_login_quiesce''
         then (succeeded \<or> unknown) \<and> both_active \<and> fields = [] \<and> printed
         else if action = ''store_update_started'' then unknown \<and> sameMutableState \<and> profileFields
         else if action = ''store_updated'' then succeeded \<and> sameMutableState \<and> profileFields
         else if action = ''store_update_noop'' then succeeded \<and> sameMutableState \<and> fields = []
         else if action = ''store_lifecycle_started''
         then unknown \<and> (previous = RecordStatusActive \<and> new = RecordStatusDisabled
                         \<or> previous = RecordStatusDisabled \<and> new = RecordStatusActive)
              \<and> exactSafeFields fields [''record_status'']
         else if action = ''store_disabled''
         then succeeded \<and> previous = RecordStatusActive \<and> new = RecordStatusDisabled
              \<and> exactSafeFields fields [''record_status'']
         else if action = ''store_enabled''
         then succeeded \<and> previous = RecordStatusDisabled \<and> new = RecordStatusActive
              \<and> exactSafeFields fields [''record_status'']
         else if action = ''delete_started''
         then unknown \<and> mutable \<and> new = RecordStatusDeleting \<and> exactSafeFields fields [''record_status'']
         else if action = ''delete_complete''
         then succeeded \<and> mutable \<and> new = RecordStatusDeleted \<and> exactSafeFields fields [''record_status'']
         else True)"

text \<open>What \<open>hex.DecodeString\<close> accepts: an even number of hexadecimal digits of either case.\<close>

definition hex_text :: "string \<Rightarrow> bool" where
  "hex_text s \<longleftrightarrow> even (length s) \<and> list_all (\<lambda>c. c \<in> set ''0123456789abcdefABCDEF'') s"

definition normalizeAuditEvent :: "AuditEvent \<Rightarrow> serr + AuditEvent" where
  "normalizeAuditEvent e =
     guard_err (canonicalUUID (aue_EventID e))
     (guard_err (validateOpaqueIdentity ''organization ID'' (aue_OrganizationID e) MaxOrganizationIDBytes)
     (guard_err (canonicalUUID (aue_StoreID e))
     (guard_err (canonicalUUID (aue_RequestKey e))
     (guard_err (validateOpaqueIdentity ''actor subject'' (aue_ActorSubject e) MaxSubjectBytes)
     (if \<not> validAuditAction (aue_Action e) \<or> \<not> validAuditOutcome (aue_Outcome e)
         \<or> \<not> validAuditFailure (aue_FailureCode e)
      then Inl (StoreErr ''audit event contains an unallowlisted value'')
      else if \<not> validAuditState (aue_PreviousState e) \<or> \<not> validAuditState (aue_NewState e)
      then Inl (StoreErr ''audit state is invalid'')
      else if IsZero (aue_OccurredAt e) then Inl (StoreErr ''audit occurrence time is required'')
      else if aue_StoreVersion e < 0 then Inl (StoreErr ''audit store version is invalid'')
      else if aue_PayloadFingerprint e \<noteq> []
              \<and> (\<not> hex_text (aue_PayloadFingerprint e) \<or> length (aue_PayloadFingerprint e) \<noteq> 64)
      then Inl (StoreErr ''audit payload fingerprint is invalid'')
      else and_then (normalizeSafeFieldNames (aue_SafeFieldNames e)) (\<lambda>fields.
        let e1 = e\<lparr>aue_SafeFieldNames := fields\<rparr> in
        if \<not> validTaskFiveAuditCombination e1
        then Inl (StoreErr ''audit action outcome, state, fields, or version combination is invalid'')
        else Inr e1))))))"

definition auditRecordFromEvent :: "gotime \<Rightarrow> AuditEvent \<Rightarrow> workbenchStoreAuditLogRecord" where
  "auditRecordFromEvent now e =
     \<lparr>war_EventID = aue_EventID e, war_OrganizationID = aue_OrganizationID e, war_StoreID = aue_StoreID e,
      war_RequestKey = aue_RequestKey e, war_Action = aue_Action e, war_Outcome = aue_Outcome e,
      war_ActorSubject = aue_ActorSubject e, war_SafeFieldNames = aue_SafeFieldNames e,
      war_PayloadFingerprint = aue_PayloadFingerprint e, war_PreviousState = aue_PreviousState e,
      war_NewState = aue_NewState e, war_FailureCode = aue_FailureCode e,
      war_StoreVersion = aue_StoreVersion e, war_CreatedAt = now, war_OccurredAt = aue_OccurredAt e\<rparr>"

definition auditEventFromRecord :: "workbenchStoreAuditLogRecord \<Rightarrow> serr + AuditEvent" where
  "auditEventFromRecord r = normalizeAuditEvent
     \<lparr>aue_EventID = war_EventID r, aue_OrganizationID = war_OrganizationID r, aue_StoreID = war_StoreID r,
      aue_RequestKey = war_RequestKey r, aue_Action = war_Action r, aue_Outcome = war_Outcome r,
      aue_ActorSubject = war_ActorSubject r, aue_SafeFieldNames = war_SafeFieldNames r,
      aue_PayloadFingerprint = war_PayloadFingerprint r, aue_PreviousState = war_PreviousState r,
      aue_NewState = war_NewState r, aue_FailureCode = war_FailureCode r,
      aue_StoreVersion = war_StoreVersion r, aue_OccurredAt = war_OccurredAt r\<rparr>"

definition audit_find :: "string \<Rightarrow> string \<Rightarrow> string \<Rightarrow> store_db \<Rightarrow> workbenchStoreAuditLogRecord option" where
  "audit_find org key action db =
     find (\<lambda>r. war_OrganizationID r = org \<and> war_RequestKey r = key \<and> war_Action r = action) (sdb_audits db)"

definition Audit_Get :: "string \<Rightarrow> string \<Rightarrow> string \<Rightarrow> store_db \<Rightarrow> serr + AuditEvent" where
  "Audit_Get org key action db =
     guard_err (validateOpaqueIdentity ''organization ID'' org MaxOrganizationIDBytes)
     (guard_err (canonicalUUID key)
     (if \<not> validAuditAction action then Inl (StoreErr ''audit action is invalid'')
      else case audit_find org key action db of
        None \<Rightarrow> Inl ErrNotFound
      | Some r \<Rightarrow> auditEventFromRecord r))"

definition sameAuditSemanticPayload :: "AuditEvent \<Rightarrow> AuditEvent \<Rightarrow> bool" where
  "sameAuditSemanticPayload a b \<longleftrightarrow>
     a\<lparr>aue_EventID := [], aue_OccurredAt := 0, aue_ActorSubject := []\<rparr>
     = b\<lparr>aue_EventID := [], aue_OccurredAt := 0, aue_ActorSubject := []\<rparr>"

definition Audit_Record :: "gotime \<Rightarrow> AuditEvent \<Rightarrow> store_db \<Rightarrow> serr + (AuditEvent \<times> bool) \<times> store_db" where
  "Audit_Record now event db =
     and_then (normalizeAuditEvent event) (\<lambda>e.
     if audit_find (aue_OrganizationID e) (aue_RequestKey e) (aue_Action e) db \<noteq> None
     then and_then (Audit_Get (aue_OrganizationID e) (aue_RequestKey e) (aue_Action e) db) (\<lambda>existing.
          if \<not> sameAuditSemanticPayload existing e then Inl (StoreErr ''store audit identity mismatch'')
          else Inr ((existing, True), db))
     else if list_ex (\<lambda>r. war_EventID r = aue_EventID e) (sdb_audits db)
     then Inl (StoreErr ''duplicate key value'')
     else Inr ((e, False), db\<lparr>sdb_audits := sdb_audits db @ [auditRecordFromEvent now e]\<rparr>))"

definition newAuditEvent ::
  "string \<Rightarrow> string \<Rightarrow> string \<Rightarrow> string \<Rightarrow> string \<Rightarrow> string \<Rightarrow> string \<Rightarrow> string list \<Rightarrow> string \<Rightarrow> string \<Rightarrow>
   string \<Rightarrow> gotime \<Rightarrow> AuditEvent" where
  "newAuditEvent eventID org storeID key action outcome actor names previous new failure occurredAt =
     \<lparr>aue_EventID = eventID, aue_OrganizationID = org, aue_StoreID = storeID, aue_RequestKey = key,
      aue_Action = action, aue_Outcome = outcome, aue_ActorSubject = actor,
      aue_SafeFieldNames = names, aue_PayloadFingerprint = [], aue_PreviousState = previous,
      aue_NewState = new, aue_FailureCode = failure, aue_StoreVersion = 0, aue_OccurredAt = occurredAt\<rparr>"

section \<open>Records and aggregates\<close>

definition optionalString :: "string \<Rightarrow> string option" where
  "optionalString v = (if v = [] then None else Some v)"

definition serviceStateFromRecord :: "workbenchStoreRecord \<Rightarrow> StoreServiceState" where
  "serviceStateFromRecord r =
     \<lparr>sss_RecordStatus = wsr_RecordStatus r,
      sss_ServiceStatus = (case wsr_ServiceStatus r of None \<Rightarrow> [] | Some v \<Rightarrow> v),
      sss_StartedAt = wsr_ServiceStartedAt r, sss_ExpiresAt = wsr_ServiceExpiresAt r\<rparr>"

text \<open>\<open>UPDATE\<close> of the columns of a service state.\<close>

definition columns :: "StoreServiceState \<Rightarrow> workbenchStoreRecord \<Rightarrow> workbenchStoreRecord" where
  "columns st r =
     r\<lparr>wsr_RecordStatus := sss_RecordStatus st, wsr_ServiceStatus := optionalString (sss_ServiceStatus st),
       wsr_ServiceStartedAt := sss_StartedAt st, wsr_ServiceExpiresAt := sss_ExpiresAt st\<rparr>"

definition recordFromSnapshot :: "StoreSnapshot \<Rightarrow> string \<Rightarrow> string \<Rightarrow> workbenchStoreRecord" where
  "recordFromSnapshot s identity fingerprint =
     \<lparr>wsr_ID = sto_ID s, wsr_OrganizationID = sto_OrganizationID s, wsr_Name = sto_Name s,
      wsr_Platform = sto_Platform s, wsr_Region = sto_Region s, wsr_ExternalStoreID = sto_ExternalStoreID s,
      wsr_RecordStatus = sto_RecordStatus s, wsr_ServiceStatus = optionalString (sto_ServiceStatus s),
      wsr_ServiceStartedAt = sto_ServiceStartedAt s, wsr_ServiceExpiresAt = sto_ServiceExpiresAt s,
      wsr_ConnectionRef = sto_ConnectionRef s, wsr_Version = sto_Version s, wsr_CreatedBy = sto_CreatedBy s,
      wsr_UpdatedBy = sto_UpdatedBy s, wsr_CreatedAt = sto_CreatedAt s, wsr_UpdatedAt = sto_UpdatedAt s,
      wsr_DeletedAt = sto_DeletedAt s, wsr_CreateIdempotencyKey = sto_CreateIdempotencyKey s,
      wsr_DeleteOperationKey = sto_DeleteOperationKey s, wsr_IdentityKey = identity,
      wsr_CreateRequestFingerprint = fingerprint\<rparr>"

definition snapshot_of_record :: "workbenchStoreRecord \<Rightarrow> StoreSnapshot" where
  "snapshot_of_record r =
     \<lparr>sto_ID = wsr_ID r, sto_OrganizationID = wsr_OrganizationID r, sto_Name = wsr_Name r,
      sto_Platform = wsr_Platform r, sto_Region = wsr_Region r, sto_ExternalStoreID = wsr_ExternalStoreID r,
      sto_RecordStatus = wsr_RecordStatus r,
      sto_ServiceStatus = (case wsr_ServiceStatus r of None \<Rightarrow> [] | Some v \<Rightarrow> v),
      sto_ServiceStartedAt = wsr_ServiceStartedAt r, sto_ServiceExpiresAt = wsr_ServiceExpiresAt r,
      sto_ConnectionRef = wsr_ConnectionRef r, sto_Version = wsr_Version r, sto_CreatedBy = wsr_CreatedBy r,
      sto_UpdatedBy = wsr_UpdatedBy r, sto_CreatedAt = wsr_CreatedAt r, sto_UpdatedAt = wsr_UpdatedAt r,
      sto_DeletedAt = wsr_DeletedAt r, sto_CreateIdempotencyKey = wsr_CreateIdempotencyKey r,
      sto_DeleteOperationKey = wsr_DeleteOperationKey r\<rparr>"

definition rehydrateRecord :: "workbenchStoreRecord \<Rightarrow> serr + StoreSnapshot" where
  "rehydrateRecord r = RehydrateStore (snapshot_of_record r)"

definition identityKey :: "store_codec \<Rightarrow> StoreSnapshot \<Rightarrow> string" where
  "identityKey cd s =
     (if sto_ExternalStoreID s = [] then hashTuple cd [''store-identity-empty-external'', sto_ID s]
      else hashTuple cd [''store-identity'', sto_Platform s, sto_Region s, sto_ExternalStoreID s])"

definition createRequestFingerprint :: "store_codec \<Rightarrow> StoreSnapshot \<Rightarrow> string" where
  "createRequestFingerprint cd s =
     hashTuple cd [''store-create-request'', sto_Platform s, sto_Region s, sto_ExternalStoreID s, sto_Name s]"

definition requireStoreScope :: "string \<Rightarrow> StoreSnapshot \<Rightarrow> serr option" where
  "requireStoreScope org s =
     (if org = [] \<or> sto_OrganizationID s \<noteq> org
      then Some (StoreErr ''store organization does not match repository scope'') else None)"

definition requirePristineCreateSnapshot :: "StoreSnapshot \<Rightarrow> serr option" where
  "requirePristineCreateSnapshot s =
     (if sto_RecordStatus s \<noteq> RecordStatusActive \<or> sto_ServiceStatus s \<noteq> ServiceStatusPendingActivation
         \<or> sto_ServiceStartedAt s \<noteq> None \<or> sto_ServiceExpiresAt s \<noteq> None \<or> sto_Version s \<noteq> 1
         \<or> sto_DeletedAt s \<noteq> None \<or> sto_ConnectionRef s \<noteq> [] \<or> sto_DeleteOperationKey s \<noteq> []
         \<or> sto_CreatedBy s \<noteq> sto_UpdatedBy s \<or> sto_CreatedAt s \<noteq> sto_UpdatedAt s
      then Some (StoreErr ''store creation snapshot must be pristine active state'') else None)"

definition validateSaveSnapshot :: "StoreSnapshot \<Rightarrow> StoreSnapshot \<Rightarrow> serr option" where
  "validateSaveSnapshot durable incoming =
     (let mutable = sto_RecordStatus durable = RecordStatusActive \<or> sto_RecordStatus durable = RecordStatusDisabled;
          expectedService =
            (if sto_RecordStatus incoming = RecordStatusDeleting
             then \<lparr>sss_RecordStatus = sto_RecordStatus incoming, sss_ServiceStatus = [],
                   sss_StartedAt = None, sss_ExpiresAt = None\<rparr>
             else (serviceState durable)\<lparr>sss_RecordStatus := sto_RecordStatus incoming\<rparr>);
          beginningDelete = mutable \<and> sto_RecordStatus incoming = RecordStatusDeleting
            \<and> sto_DeleteOperationKey durable = [] \<and> sto_DeleteOperationKey incoming \<noteq> [];
          profileChanged = sto_Name durable \<noteq> sto_Name incoming \<or> sto_Region durable \<noteq> sto_Region incoming;
          lifecycleChanged = sto_RecordStatus incoming \<noteq> sto_RecordStatus durable
      in if sto_ID durable \<noteq> sto_ID incoming \<or> sto_OrganizationID durable \<noteq> sto_OrganizationID incoming
            \<or> sto_Platform durable \<noteq> sto_Platform incoming
            \<or> sto_ExternalStoreID durable \<noteq> sto_ExternalStoreID incoming
            \<or> sto_ConnectionRef durable \<noteq> sto_ConnectionRef incoming
            \<or> sto_CreateIdempotencyKey durable \<noteq> sto_CreateIdempotencyKey incoming
            \<or> sto_CreatedBy durable \<noteq> sto_CreatedBy incoming \<or> sto_CreatedAt durable \<noteq> sto_CreatedAt incoming
         then Some (StoreErr ''store immutable fields changed'')
         else if sto_DeletedAt incoming \<noteq> None then Some (StoreErr ''store deletion must use soft delete'')
         else if sto_UpdatedAt incoming < sto_UpdatedAt durable
         then Some (StoreErr ''store update time must not precede durable update'')
         else if expectedService \<noteq> serviceState incoming
         then Some (StoreErr ''store service facts cannot change through a record mutation'')
         else if beginningDelete
         then if profileChanged then Some (StoreErr ''store profile cannot change while deletion begins'')
              else None
         else if sto_DeleteOperationKey durable \<noteq> sto_DeleteOperationKey incoming
         then Some (StoreErr ''store delete operation key changed'')
         else if lifecycleChanged \<and> profileChanged
         then Some (StoreErr ''store profile and lifecycle cannot change together'')
         else if profileChanged then if mutable then None else Some ErrInvalidTransition
         else if lifecycleChanged
         then if canTransition (sto_RecordStatus durable) (sto_RecordStatus incoming) then None
              else Some ErrInvalidTransition
         else Some (StoreErr ''store save must change profile or lifecycle state''))"

section \<open>The store repository\<close>

text \<open>The records of an organization that are not deleted.\<close>

definition in_scope :: "string \<Rightarrow> workbenchStoreRecord \<Rightarrow> bool" where
  "in_scope org r \<longleftrightarrow> wsr_OrganizationID r = org \<and> wsr_DeletedAt r = None"

definition find_active :: "string \<Rightarrow> string \<Rightarrow> store_db \<Rightarrow> workbenchStoreRecord option" where
  "find_active org storeID db = find (\<lambda>r. in_scope org r \<and> wsr_ID r = storeID) (sdb_stores db)"

definition loadActiveRecord :: "string \<Rightarrow> string \<Rightarrow> store_db \<Rightarrow> serr + workbenchStoreRecord" where
  "loadActiveRecord org storeID db = or_fail ErrNotFound (find_active org storeID db)"

definition Store_Get :: "string \<Rightarrow> string \<Rightarrow> store_db \<Rightarrow> serr + StoreSnapshot" where
  "Store_Get org storeID db = and_then (loadActiveRecord org storeID db) rehydrateRecord"

text \<open>The three unique keys of the table.\<close>

definition store_clash :: "workbenchStoreRecord \<Rightarrow> workbenchStoreRecord \<Rightarrow> bool" where
  "store_clash r x \<longleftrightarrow> wsr_ID r = wsr_ID x
     \<or> wsr_OrganizationID r = wsr_OrganizationID x
       \<and> (wsr_CreateIdempotencyKey r = wsr_CreateIdempotencyKey x \<or> wsr_IdentityKey r = wsr_IdentityKey x)"

definition findByCreateKey :: "string \<Rightarrow> string \<Rightarrow> store_db \<Rightarrow> workbenchStoreRecord option" where
  "findByCreateKey org key db = find (\<lambda>r. in_scope org r \<and> wsr_CreateIdempotencyKey r = key) (sdb_stores db)"

definition replayOrConflict :: "workbenchStoreRecord \<Rightarrow> string \<Rightarrow> serr + StoreSnapshot \<times> bool" where
  "replayOrConflict r fingerprint =
     (if wsr_CreateRequestFingerprint r \<noteq> fingerprint then Inl ErrAlreadyExists
      else and_then (rehydrateRecord r) (\<lambda>s. Inr (s, True)))"

definition resolveCreateCollision ::
  "string \<Rightarrow> string \<Rightarrow> string \<Rightarrow> string \<Rightarrow> store_db \<Rightarrow> serr + StoreSnapshot \<times> bool" where
  "resolveCreateCollision org key identity fingerprint db =
     (case findByCreateKey org key db of
        Some r \<Rightarrow> replayOrConflict r fingerprint
      | None \<Rightarrow>
          if list_ex (\<lambda>r. wsr_OrganizationID r = org \<and> wsr_CreateIdempotencyKey r = key) (sdb_stores db)
          then Inl ErrAlreadyExists
          else if list_ex (\<lambda>r. wsr_OrganizationID r = org \<and> wsr_IdentityKey r = identity) (sdb_stores db)
          then Inl ErrAlreadyExists
          else Inl (StoreErr ''no same-organization uniqueness collision found''))"

text \<open>\<open>auditID\<close> and \<open>now\<close> are the event identifier and the clock of the audit row.\<close>

definition createOrReplay ::
  "store_codec \<Rightarrow> string \<Rightarrow> gotime \<Rightarrow> string \<Rightarrow> StoreSnapshot \<Rightarrow> store_db \<Rightarrow>
   serr + (StoreSnapshot \<times> bool) \<times> store_db" where
  "createOrReplay cd auditID now org s db =
     guard_err (requireStoreScope org s)
     (guard_err (requirePristineCreateSnapshot s)
     (let fingerprint = createRequestFingerprint cd s in
      case findByCreateKey org (sto_CreateIdempotencyKey s) db of
        Some existing \<Rightarrow> and_then (replayOrConflict existing fingerprint) (\<lambda>r. Inr (r, db))
      | None \<Rightarrow>
          let r = recordFromSnapshot s (identityKey cd s) fingerprint in
          (case create_row store_clash r (sdb_stores db) of
             Some t \<Rightarrow>
               let event = (newAuditEvent auditID org (sto_ID s) (sto_CreateIdempotencyKey s)
                     AuditActionStoreCreated AuditOutcomeSucceeded (sto_CreatedBy s)
                     [''name'', ''platform'', ''region'', ''external_store_id'', ''record_status'']
                     [] RecordStatusActive [] (sto_CreatedAt s))\<lparr>aue_StoreVersion := sto_Version s\<rparr>
               in and_then (Audit_Record now event (db\<lparr>sdb_stores := t\<rparr>)) (\<lambda>(_, db1).
                  and_then (Store_Get org (sto_ID s) db1) (\<lambda>created. Inr ((created, False), db1)))
           | None \<Rightarrow>
               and_then (resolveCreateCollision org (sto_CreateIdempotencyKey s) (wsr_IdentityKey r)
                           fingerprint db) (\<lambda>out. Inr (out, db)))))"

definition saved_record :: "store_codec \<Rightarrow> StoreSnapshot \<Rightarrow> workbenchStoreRecord \<Rightarrow> workbenchStoreRecord" where
  "saved_record cd s r = columns (serviceState s)
     (r\<lparr>wsr_Name := sto_Name s, wsr_Region := sto_Region s, wsr_ConnectionRef := sto_ConnectionRef s,
        wsr_Version := sto_Version s, wsr_UpdatedBy := sto_UpdatedBy s, wsr_UpdatedAt := sto_UpdatedAt s,
        wsr_IdentityKey := identityKey cd s, wsr_DeleteOperationKey := sto_DeleteOperationKey s\<rparr>)"

definition Store_Save :: "store_codec \<Rightarrow> string \<Rightarrow> StoreSnapshot \<Rightarrow> i64 \<Rightarrow> store_db \<Rightarrow> serr + store_db" where
  "Store_Save cd org s expectedVersion db =
     guard_err (requireStoreScope org s)
     (if sto_Version s \<noteq> add64 expectedVersion 1
      then Inl (StoreErr ''store snapshot version must advance exactly once'')
      else and_then (RehydrateStore s) (\<lambda>_.
      and_then (loadActiveRecord org (sto_ID s) db) (\<lambda>r.
      and_then (rehydrateRecord r) (\<lambda>durable.
      if sto_Version durable \<noteq> expectedVersion then Inl ErrVersionConflict
      else guard_err (validateSaveSnapshot durable s)
      (let hit = (\<lambda>x. in_scope org x \<and> wsr_ID x = sto_ID s \<and> wsr_Version x = expectedVersion);
           taken = (\<lambda>x. wsr_OrganizationID x = org \<and> wsr_IdentityKey x = identityKey cd s \<and> \<not> hit x)
       in if list_ex hit (sdb_stores db) \<and> list_ex taken (sdb_stores db) then Inl ErrAlreadyExists
          else if list_ex hit (sdb_stores db)
          then Inr (db\<lparr>sdb_stores := update_rows hit (saved_record cd s) (sdb_stores db)\<rparr>)
          else if find_active org (sto_ID s) db = None then Inl ErrNotFound else Inl ErrVersionConflict)))))"

definition Store_SoftDelete :: "gotime \<Rightarrow> string \<Rightarrow> string \<Rightarrow> i64 \<Rightarrow> store_db \<Rightarrow> serr + store_db" where
  "Store_SoftDelete clock org storeID expectedVersion db =
     and_then (loadActiveRecord org storeID db) (\<lambda>r.
     and_then (rehydrateRecord r) (\<lambda>durable.
     if sto_RecordStatus durable \<noteq> RecordStatusDeleting then Inl ErrInvalidTransition
     else if sto_Version durable \<noteq> expectedVersion then Inl ErrVersionConflict
     else
       let now = (if clock < sto_UpdatedAt durable then sto_UpdatedAt durable else clock);
           hit = (\<lambda>x. in_scope org x \<and> wsr_ID x = storeID \<and> wsr_Version x = expectedVersion
                      \<and> wsr_RecordStatus x = RecordStatusDeleting)
       in if list_ex hit (sdb_stores db) \<and> expectedVersion = max64 then Inl (StoreErr ''bigint out of range'')
          else if list_ex hit (sdb_stores db)
          then Inr (db\<lparr>sdb_stores := update_rows hit (\<lambda>x. x\<lparr>wsr_DeletedAt := Some now, wsr_UpdatedAt := now,
                  wsr_Version := wsr_Version x + 1, wsr_RecordStatus := RecordStatusDeleted,
                  wsr_ServiceStatus := None, wsr_ServiceStartedAt := None, wsr_ServiceExpiresAt := None\<rparr>)
                (sdb_stores db)\<rparr>)
          else case find_active org storeID db of
            None \<Rightarrow> Inl ErrNotFound
          | Some x \<Rightarrow> if wsr_RecordStatus x \<noteq> RecordStatusDeleting then Inl ErrInvalidTransition
                      else Inl ErrVersionConflict))"

section \<open>The store half of a service operation\<close>

record ServiceStoreIdentity =
  ssi_OrganizationID :: string
  ssi_StoreID :: string

record ServiceStoreSnapshot =
  svs_Identity :: ServiceStoreIdentity
  svs_ConnectionRef :: string
  svs_Version :: i64
  svs_UpdatedAt :: gotime
  svs_State :: StoreServiceState

record ServiceStoreMutation =
  svm_Identity :: ServiceStoreIdentity
  svm_ExpectedVersion :: i64
  svm_ExpectedConnectionRef :: string
  svm_State :: StoreServiceState
  svm_ActorSubject :: string
  svm_OccurredAt :: gotime

definition LockServiceState :: "ServiceStoreIdentity \<Rightarrow> store_db \<Rightarrow> serr + ServiceStoreSnapshot" where
  "LockServiceState i db =
     guard_err (validateOpaqueIdentity ''organization ID'' (ssi_OrganizationID i) MaxOrganizationIDBytes)
     (guard_err (canonicalUUID (ssi_StoreID i))
     (and_then (loadActiveRecord (ssi_OrganizationID i) (ssi_StoreID i) db) (\<lambda>r.
      guard_err (ValidateStoreServiceState (serviceStateFromRecord r))
      (Inr \<lparr>svs_Identity = \<lparr>ssi_OrganizationID = wsr_OrganizationID r, ssi_StoreID = wsr_ID r\<rparr>,
            svs_ConnectionRef = wsr_ConnectionRef r, svs_Version = wsr_Version r,
            svs_UpdatedAt = wsr_UpdatedAt r, svs_State = serviceStateFromRecord r\<rparr>))))"

definition applied_record :: "ServiceStoreMutation \<Rightarrow> workbenchStoreRecord \<Rightarrow> workbenchStoreRecord" where
  "applied_record m r = (columns (svm_State m) r)
     \<lparr>wsr_Version := add64 (svm_ExpectedVersion m) 1, wsr_UpdatedBy := svm_ActorSubject m,
      wsr_UpdatedAt := svm_OccurredAt m\<rparr>"

definition apply_target :: "ServiceStoreMutation \<Rightarrow> workbenchStoreRecord \<Rightarrow> bool" where
  "apply_target m r \<longleftrightarrow>
     in_scope (ssi_OrganizationID (svm_Identity m)) r \<and> wsr_ID r = ssi_StoreID (svm_Identity m)
     \<and> wsr_RecordStatus r = RecordStatusActive \<and> wsr_Version r = svm_ExpectedVersion m
     \<and> wsr_ConnectionRef r = svm_ExpectedConnectionRef m \<and> wsr_UpdatedAt r \<le> svm_OccurredAt m"

definition ApplyServiceState :: "ServiceStoreMutation \<Rightarrow> store_db \<Rightarrow> serr + store_db" where
  "ApplyServiceState m db =
     guard_err (validateOpaqueIdentity ''organization ID'' (ssi_OrganizationID (svm_Identity m)) MaxOrganizationIDBytes)
     (guard_err (canonicalUUID (ssi_StoreID (svm_Identity m)))
     (guard_err (validateOpaqueIdentity ''actor subject'' (svm_ActorSubject m) MaxSubjectBytes)
     (if svm_ExpectedVersion m \<le> 0 \<or> IsZero (svm_OccurredAt m) then Inl ErrVersionConflict
      else if sss_RecordStatus (svm_State m) \<noteq> RecordStatusActive then Inl ErrInvalidServiceTransition
      else guard_err (ValidateStoreServiceState (svm_State m))
      (if list_ex (apply_target m) (sdb_stores db)
       then Inr (db\<lparr>sdb_stores := update_rows (apply_target m) (applied_record m) (sdb_stores db)\<rparr>)
       else case find_active (ssi_OrganizationID (svm_Identity m)) (ssi_StoreID (svm_Identity m)) db of
         None \<Rightarrow> Inl ErrNotFound
       | Some r \<Rightarrow>
           if wsr_Version r \<noteq> svm_ExpectedVersion m then Inl ErrVersionConflict
           else if wsr_RecordStatus r \<noteq> RecordStatusActive then Inl ErrInvalidServiceTransition
           else if wsr_ConnectionRef r \<noteq> svm_ExpectedConnectionRef m then Inl ErrConnectionSnapshotChanged
           else Inl ErrVersionConflict))))"

end
