(* ===== verification/Store_Members.thy ===== *)
theory Store_Members
  imports Store_DB Res_Charge
begin

text \<open>
  The member-scoped store repository (\<open>member_access.go\<close>, \<open>native_delete.go\<close>): every current consumer
  of stores goes through it. A member sees a store through an active grant, an administrator sees
  every store; grants are versioned and every change of one leaves an operation row.

  The authorizer of the identity provider is a parameter of a call: each use of it has its own
  answer in \<open>env_auth\<close>. The clock readings and fresh identifiers of a call, the fault of its
  transaction and the fault of its later read are the other fields of its environment.
\<close>

record StoreMemberAccess =
  sma_OrganizationID :: string
  sma_ActorID :: string
  sma_MemberID :: string
  sma_Administrator :: bool
  sma_CanWrite :: bool

record store_env =
  env_auth :: "nat \<Rightarrow> string \<Rightarrow> serr + StoreMemberAccess"
  env_now :: "nat \<Rightarrow> gotime"
  env_uuid :: "nat \<Rightarrow> string"
  env_tx :: "serr tx_fault"
  env_read :: "serr tx_fault"

definition zero_access :: StoreMemberAccess where
  "zero_access = \<lparr>sma_OrganizationID = [], sma_ActorID = [], sma_MemberID = [],
     sma_Administrator = False, sma_CanWrite = False\<rparr>"

definition authorize ::
  "(string \<Rightarrow> serr + StoreMemberAccess) \<Rightarrow> string \<Rightarrow> bool \<Rightarrow> serr + StoreMemberAccess" where
  "authorize AuthorizeStoreMember org write =
     and_then (AuthorizeStoreMember org) (\<lambda>access.
     if sma_OrganizationID access \<noteq> org then Inl ErrNotFound
     else if validateOpaqueIdentity ''actor'' (sma_ActorID access) MaxSubjectBytes \<noteq> None then Inl ErrNotFound
     else if validateOpaqueIdentity ''member'' (sma_MemberID access) MaxSubjectBytes \<noteq> None then Inl ErrNotFound
     else if write \<and> \<not> sma_CanWrite access then Inl ErrNotFound
     else Inr access)"

definition requireMemberGrant :: "StoreMemberAccess \<Rightarrow> string \<Rightarrow> store_db \<Rightarrow> serr option" where
  "requireMemberGrant access storeID db =
     (if sma_Administrator access then None
      else if list_ex (\<lambda>g. sgr_OrganizationID g = sma_OrganizationID access \<and> sgr_StoreID g = storeID
                \<and> sgr_MemberID g = sma_MemberID access \<and> sgr_Active g) (sdb_grants db)
      then None else Some ErrNotFound)"

definition lockMemberStore :: "string \<Rightarrow> string \<Rightarrow> store_db \<Rightarrow> serr option" where
  "lockMemberStore org storeID db = (if find_active org storeID db = None then Some ErrNotFound else None)"

section \<open>Grants\<close>

record MemberStoreGrantCommand =
  mgc_OrganizationID :: string
  mgc_StoreID :: string
  mgc_MemberID :: string
  mgc_OperationID :: string
  mgc_Active :: bool
  mgc_ExpectedVersion :: i64

definition memberGrantFingerprint :: "store_codec \<Rightarrow> MemberStoreGrantCommand \<Rightarrow> string" where
  "memberGrantFingerprint cd c = hashTuple cd
     [''store-member-grant-v1'', mgc_OrganizationID c, mgc_StoreID c, mgc_MemberID c,
      FormatBool (mgc_Active c), FormatInt (mgc_ExpectedVersion c)]"

definition recordMemberGrantOperation ::
  "store_codec \<Rightarrow> MemberStoreGrantCommand \<Rightarrow> string \<Rightarrow> i64 \<Rightarrow> gotime \<Rightarrow> store_db \<Rightarrow> serr + store_db" where
  "recordMemberGrantOperation cd c actor version at db =
     and_then (or_fail (StoreErr ''duplicate key value'') (create_row
        (\<lambda>r x. sgo_OrganizationID r = sgo_OrganizationID x \<and> sgo_OperationID r = sgo_OperationID x)
        \<lparr>sgo_OrganizationID = mgc_OrganizationID c, sgo_OperationID = mgc_OperationID c,
         sgo_StoreID = mgc_StoreID c, sgo_MemberID = mgc_MemberID c, sgo_Active = mgc_Active c,
         sgo_ExpectedVersion = mgc_ExpectedVersion c, sgo_ResultVersion = version, sgo_ActorID = actor,
         sgo_Fingerprint = memberGrantFingerprint cd c, sgo_CreatedAt = at\<rparr> (sdb_grant_ops db)))
     (\<lambda>t. Inr (db\<lparr>sdb_grant_ops := t\<rparr>))"

definition grant_key :: "storeMemberGrantRow \<Rightarrow> string \<times> string \<times> string" where
  "grant_key g = (sgr_OrganizationID g, sgr_StoreID g, sgr_MemberID g)"

definition create_grant :: "storeMemberGrantRow \<Rightarrow> store_db \<Rightarrow> serr + store_db" where
  "create_grant g db =
     and_then (or_fail (StoreErr ''duplicate key value'')
        (create_row (\<lambda>r x. grant_key r = grant_key x) g (sdb_grants db)))
     (\<lambda>t. Inr (db\<lparr>sdb_grants := t\<rparr>))"

definition update_grant :: "storeMemberGrantRow \<Rightarrow> bool \<Rightarrow> string \<Rightarrow> gotime \<Rightarrow> store_db \<Rightarrow> store_db" where
  "update_grant g active actor at db = db\<lparr>sdb_grants :=
     update_rows (\<lambda>x. grant_key x = grant_key g)
       (\<lambda>x. x\<lparr>sgr_Active := active, sgr_Version := add64 (sgr_Version g) 1, sgr_UpdatedBy := actor,
              sgr_UpdatedAt := at\<rparr>) (sdb_grants db)\<rparr>"

definition setMemberGrantTx ::
  "store_codec \<Rightarrow> gotime \<Rightarrow> StoreMemberAccess \<Rightarrow> MemberStoreGrantCommand \<Rightarrow> store_db \<Rightarrow>
   serr + unit \<times> store_db" where
  "setMemberGrantTx cd at access c db =
     guard_err (lockMemberStore (mgc_OrganizationID c) (mgc_StoreID c) db)
     (case find (\<lambda>o'. sgo_OrganizationID o' = mgc_OrganizationID c \<and> sgo_OperationID o' = mgc_OperationID c)
             (sdb_grant_ops db) of
        Some o' \<Rightarrow> if sgo_Fingerprint o' \<noteq> memberGrantFingerprint cd c then Inl ErrAlreadyExists else Inr ((), db)
      | None \<Rightarrow>
          (case find (\<lambda>g. grant_key g = (mgc_OrganizationID c, mgc_StoreID c, mgc_MemberID c)) (sdb_grants db) of
             None \<Rightarrow>
               if mgc_ExpectedVersion c \<noteq> 0 then Inl ErrVersionConflict
               else and_then (create_grant
                  \<lparr>sgr_OrganizationID = mgc_OrganizationID c, sgr_StoreID = mgc_StoreID c,
                   sgr_MemberID = mgc_MemberID c, sgr_Active = mgc_Active c, sgr_Version = 1,
                   sgr_UpdatedBy = sma_ActorID access, sgr_UpdatedAt = at\<rparr> db) (\<lambda>db.
                  and_then (recordMemberGrantOperation cd c (sma_ActorID access) 1 at db) (\<lambda>db. Inr ((), db)))
           | Some g \<Rightarrow>
               if sgr_Version g \<noteq> mgc_ExpectedVersion c \<or> sgr_Version g = max64 then Inl ErrVersionConflict
               else let changed = sgr_Active g \<noteq> mgc_Active c;
                        db1 = (if changed then update_grant g (mgc_Active c) (sma_ActorID access) at db else db);
                        version = (if changed then add64 (sgr_Version g) 1 else sgr_Version g)
                    in and_then (recordMemberGrantOperation cd c (sma_ActorID access) version at db1)
                         (\<lambda>db. Inr ((), db))))"

definition SetMemberGrant ::
  "store_codec \<Rightarrow> store_env \<Rightarrow> MemberStoreGrantCommand \<Rightarrow> store_db \<Rightarrow> store_db \<times> (serr + unit)" where
  "SetMemberGrant cd env c db =
     (case authorize (env_auth env 0) (mgc_OrganizationID c) True of
        Inl e \<Rightarrow> (db, Inl e)
      | Inr access \<Rightarrow>
          if \<not> sma_Administrator access then (db, Inl ErrNotFound)
          else (case validateOpaqueIdentity ''member'' (mgc_MemberID c) MaxSubjectBytes of
             Some e \<Rightarrow> (db, Inl e)
           | None \<Rightarrow>
               if canonicalUUID (mgc_OperationID c) \<noteq> None \<or> mgc_ExpectedVersion c < 0
               then (db, Inl ErrVersionConflict)
               else run_tx (env_tx env) (setMemberGrantTx cd (env_now env 0) access c) db))"

section \<open>Creating, reading and saving\<close>

definition memberCreateTx ::
  "store_codec \<Rightarrow> store_env \<Rightarrow> StoreMemberAccess \<Rightarrow> string \<Rightarrow> StoreSnapshot \<Rightarrow> store_db \<Rightarrow>
   serr + (StoreSnapshot \<times> bool) \<times> store_db" where
  "memberCreateTx cd env access org candidate db =
     and_then (createOrReplay cd (env_uuid env 0) (env_now env 0) org candidate db) (\<lambda>((stored, replayed), db1).
     if replayed
     then guard_err (lockMemberStore org (sto_ID stored) db1)
          (guard_err (requireMemberGrant access (sto_ID stored) db1) (Inr ((stored, replayed), db1)))
     else if sma_Administrator access then Inr ((stored, replayed), db1)
     else if sto_CreatedBy candidate \<noteq> sma_ActorID access then Inl ErrNotFound
     else and_then (create_grant
            \<lparr>sgr_OrganizationID = org, sgr_StoreID = sto_ID stored, sgr_MemberID = sma_MemberID access,
             sgr_Active = True, sgr_Version = 1, sgr_UpdatedBy = sma_ActorID access,
             sgr_UpdatedAt = sto_CreatedAt stored\<rparr> db1) (\<lambda>db2.
          and_then (recordMemberGrantOperation cd
            \<lparr>mgc_OrganizationID = org, mgc_StoreID = sto_ID stored, mgc_MemberID = sma_MemberID access,
             mgc_OperationID = sto_CreateIdempotencyKey stored, mgc_Active = True, mgc_ExpectedVersion = 0\<rparr>
            (sma_ActorID access) 1 (sto_CreatedAt stored) db2) (\<lambda>db3. Inr ((stored, replayed), db3))))"

definition Member_CreateOrReplay ::
  "store_codec \<Rightarrow> store_env \<Rightarrow> string \<Rightarrow> StoreSnapshot \<Rightarrow> store_db \<Rightarrow>
   store_db \<times> (serr + StoreSnapshot \<times> bool)" where
  "Member_CreateOrReplay cd env org candidate db =
     (case authorize (env_auth env 0) org True of
        Inl e \<Rightarrow> (db, Inl e)
      | Inr access \<Rightarrow> run_tx (env_tx env) (memberCreateTx cd env access org candidate) db)"

definition Member_Get :: "(string \<Rightarrow> serr + StoreMemberAccess) \<Rightarrow> string \<Rightarrow> string \<Rightarrow> store_db \<Rightarrow> serr + StoreSnapshot" where
  "Member_Get auth org storeID db =
     and_then (authorize auth org False) (\<lambda>access.
     guard_err (requireMemberGrant access storeID db) (Store_Get org storeID db))"

definition withWrite ::
  "store_env \<Rightarrow> string \<Rightarrow> string \<Rightarrow> (store_db \<Rightarrow> serr + store_db) \<Rightarrow> store_db \<Rightarrow> store_db \<times> (serr + unit)" where
  "withWrite env org storeID mutation db =
     (case authorize (env_auth env 0) org True of
        Inl e \<Rightarrow> (db, Inl e)
      | Inr access \<Rightarrow>
          run_tx (env_tx env) (\<lambda>db.
            guard_err (lockMemberStore org storeID db)
            (guard_err (requireMemberGrant access storeID db)
            (and_then (mutation db) (\<lambda>db1. Inr ((), db1))))) db)"

definition Member_Save ::
  "store_codec \<Rightarrow> store_env \<Rightarrow> string \<Rightarrow> StoreSnapshot \<Rightarrow> i64 \<Rightarrow> store_db \<Rightarrow> store_db \<times> (serr + unit)" where
  "Member_Save cd env org s version = withWrite env org (sto_ID s) (Store_Save cd org s version)"

section \<open>Deleting\<close>

fun insert_grant :: "storeMemberGrantRow \<Rightarrow> storeMemberGrantRow list \<Rightarrow> storeMemberGrantRow list" where
  "insert_grant g [] = [g]"
| "insert_grant g (x # xs) =
     (if string_less (sgr_MemberID x) (sgr_MemberID g) then x # insert_grant g xs else g # x # xs)"

fun revoke_grants ::
  "store_codec \<Rightarrow> gotime \<Rightarrow> string \<Rightarrow> string \<Rightarrow> StoreSnapshot \<Rightarrow> storeMemberGrantRow list \<Rightarrow> store_db \<Rightarrow>
   serr + store_db" where
  "revoke_grants cd at org storeID s [] db = Inr db"
| "revoke_grants cd at org storeID s (g # gs) db =
     (if sgr_Version g = max64 then Inl ErrVersionConflict
      else and_then (recordMemberGrantOperation cd
             \<lparr>mgc_OrganizationID = org, mgc_StoreID = storeID, mgc_MemberID = sgr_MemberID g,
              mgc_OperationID = cdc_uuid cd (sto_DeleteOperationKey s @ '':'' @ sgr_MemberID g),
              mgc_Active = False, mgc_ExpectedVersion = sgr_Version g\<rparr>
             (sto_UpdatedBy s) (add64 (sgr_Version g) 1) at
             (update_grant g False (sto_UpdatedBy s) at db))
           (\<lambda>db. revoke_grants cd at org storeID s gs db))"

definition revokeStoreGrants ::
  "store_codec \<Rightarrow> gotime \<Rightarrow> string \<Rightarrow> string \<Rightarrow> StoreSnapshot \<Rightarrow> store_db \<Rightarrow> serr + store_db" where
  "revokeStoreGrants cd at org storeID s db =
     revoke_grants cd at org storeID s
       (foldr insert_grant (filter (\<lambda>g. sgr_OrganizationID g = org \<and> sgr_StoreID g = storeID \<and> sgr_Active g)
          (sdb_grants db)) []) db"

definition Member_SoftDelete ::
  "store_codec \<Rightarrow> store_env \<Rightarrow> string \<Rightarrow> string \<Rightarrow> i64 \<Rightarrow> store_db \<Rightarrow> store_db \<times> (serr + unit)" where
  "Member_SoftDelete cd env org storeID version = withWrite env org storeID (\<lambda>db.
     and_then (Store_Get org storeID db) (\<lambda>s.
     and_then (Store_SoftDelete (env_now env 0) org storeID version db) (\<lambda>db1.
     revokeStoreGrants cd (env_now env 1) org storeID s db1)))"

record DeleteStoreRequest =
  dsr_OrganizationID :: string
  dsr_ActorSubject :: string
  dsr_StoreID :: string
  dsr_OperationKey :: string
  dsr_ExpectedVersion :: i64

record DeleteStoreResult =
  dsz_StoreID :: string
  dsz_Version :: i64
  dsz_Replayed :: bool

definition normalizeMutationIdentity :: "string \<Rightarrow> string \<Rightarrow> string \<Rightarrow> i64 \<Rightarrow> serr option" where
  "normalizeMutationIdentity org actor storeID expectedVersion =
     (case validateOpaqueIdentity ''organization ID'' org MaxOrganizationIDBytes of
        Some e \<Rightarrow> Some e
      | None \<Rightarrow>
          (case validateOpaqueIdentity ''actor subject'' actor MaxSubjectBytes of
             Some e \<Rightarrow> Some e
           | None \<Rightarrow>
               if canonicalUUID storeID \<noteq> None \<or> expectedVersion \<le> 0
               then Some (StoreErr ''invalid versioned store request'') else None))"

definition normalizeDeleteStoreRequest :: "DeleteStoreRequest \<Rightarrow> serr option" where
  "normalizeDeleteStoreRequest r =
     (case normalizeMutationIdentity (dsr_OrganizationID r) (dsr_ActorSubject r) (dsr_StoreID r)
             (dsr_ExpectedVersion r) of
        Some e \<Rightarrow> Some e
      | None \<Rightarrow> canonicalUUID (dsr_OperationKey r))"

definition find_record :: "string \<Rightarrow> string \<Rightarrow> store_db \<Rightarrow> workbenchStoreRecord option" where
  "find_record org storeID db = find (\<lambda>r. wsr_OrganizationID r = org \<and> wsr_ID r = storeID) (sdb_stores db)"

text \<open>\<open>at\<close> is the caller's time; the clock of the soft delete and of the audit row is \<open>env_now\<close>.\<close>

definition deleteRecordTx ::
  "store_codec \<Rightarrow> store_env \<Rightarrow> DeleteStoreRequest \<Rightarrow> gotime \<Rightarrow> store_db \<Rightarrow>
   serr + DeleteStoreResult \<times> store_db" where
  "deleteRecordTx cd env r at db =
     (let org = dsr_OrganizationID r;
          fingerprint = hashTuple cd [''native-store-delete'', dsr_StoreID r, FormatInt (dsr_ExpectedVersion r)] in
      guard_err (normalizeDeleteStoreRequest r)
      (if IsZero at then Inl ErrInvalidTransition
       else and_then (or_fail ErrNotFound (find_record org (dsr_StoreID r) db)) (\<lambda>x.
       if wsr_DeletedAt x \<noteq> None
       then (case Audit_Get org (dsr_OperationKey r) AuditActionDeleteComplete db of
               Inl _ \<Rightarrow> Inl ErrInvalidTransition
             | Inr e \<Rightarrow>
                 if aue_StoreID e \<noteq> dsr_StoreID r \<or> aue_ActorSubject e \<noteq> dsr_ActorSubject r
                    \<or> aue_PayloadFingerprint e \<noteq> fingerprint \<or> wsr_DeleteOperationKey x \<noteq> dsr_OperationKey r
                 then Inl ErrInvalidTransition
                 else Inr (\<lparr>dsz_StoreID = wsr_ID x, dsz_Version = aue_StoreVersion e, dsz_Replayed = True\<rparr>, db))
       else if wsr_Version x \<noteq> dsr_ExpectedVersion r then Inl ErrVersionConflict
       else and_then (rehydrateRecord x) (\<lambda>s.
            let at = (if at < sto_UpdatedAt s then sto_UpdatedAt s else at) in
            and_then (BeginDelete (dsr_OperationKey r) (dsr_ActorSubject r) at s) (\<lambda>s1.
            and_then (Store_Save cd org s1 (dsr_ExpectedVersion r) db) (\<lambda>db1.
            and_then (Store_SoftDelete (env_now env 0) org (sto_ID s1) (sto_Version s1) db1) (\<lambda>db2.
            let event = (newAuditEvent (env_uuid env 0) org (sto_ID s1) (dsr_OperationKey r)
                  AuditActionDeleteComplete AuditOutcomeSucceeded (dsr_ActorSubject r) [''record_status'']
                  (sto_RecordStatus s) RecordStatusDeleted [] at)
                \<lparr>aue_StoreVersion := add64 (sto_Version s1) 1, aue_PayloadFingerprint := fingerprint\<rparr>
            in and_then (Audit_Record (env_now env 1) event db2) (\<lambda>(_, db3).
               Inr (\<lparr>dsz_StoreID = sto_ID s1, dsz_Version = aue_StoreVersion event, dsz_Replayed = False\<rparr>,
                    db3)))))))))"

definition memberDeleteTx ::
  "store_codec \<Rightarrow> store_env \<Rightarrow> StoreMemberAccess \<Rightarrow> DeleteStoreRequest \<Rightarrow> gotime \<Rightarrow> store_db \<Rightarrow>
   serr + DeleteStoreResult \<times> store_db" where
  "memberDeleteTx cd env access r at db =
     (let org = dsr_OrganizationID r in
      and_then (or_fail ErrNotFound (find_record org (dsr_StoreID r) db)) (\<lambda>x.
      if wsr_DeletedAt x \<noteq> None
      then if \<not> sma_Administrator access
              \<and> (case Audit_Get org (dsr_OperationKey r) AuditActionDeleteComplete db of
                   Inl _ \<Rightarrow> True | Inr e \<Rightarrow> aue_ActorSubject e \<noteq> sma_ActorID access)
           then Inl ErrNotFound
           else deleteRecordTx cd env r at db
      else guard_err (requireMemberGrant access (dsr_StoreID r) db)
      (and_then (deleteRecordTx cd env r at db) (\<lambda>(z, db1).
       if dsz_Replayed z then Inr (z, db1)
       else and_then (rehydrateRecord x) (\<lambda>s.
            and_then (revokeStoreGrants cd at org (dsr_StoreID r)
                        (s\<lparr>sto_DeleteOperationKey := dsr_OperationKey r, sto_UpdatedBy := dsr_ActorSubject r\<rparr>) db1)
            (\<lambda>db2. Inr (z, db2)))))))"

definition Member_DeleteRecord ::
  "store_codec \<Rightarrow> store_env \<Rightarrow> DeleteStoreRequest \<Rightarrow> gotime \<Rightarrow> store_db \<Rightarrow>
   store_db \<times> (serr + DeleteStoreResult)" where
  "Member_DeleteRecord cd env r at db =
     (case normalizeDeleteStoreRequest r of
        Some e \<Rightarrow> (db, Inl e)
      | None \<Rightarrow>
          (case authorize (env_auth env 0) (dsr_OrganizationID r) True of
             Inl e \<Rightarrow> (db, Inl e)
           | Inr access \<Rightarrow>
               if sma_ActorID access \<noteq> dsr_ActorSubject r then (db, Inl ErrNotFound)
               else run_tx (env_tx env) (memberDeleteTx cd env access r at) db))"

end
