(* ===== verification/Store_Charges.thy ===== *)
theory Store_Charges
  imports Store_Members
begin

text \<open>
  The store's own facts about a charged service operation (\<open>service_charge.go\<close>): the admitted
  intent, the reservation it is bound to, and the proof of its outcome. An operation is
  \<open>admitted\<close>, then \<open>bound\<close>, and ends as \<open>succeeded\<close> (the service period of the store was changed in
  the same transaction) or as \<open>failed_fenced\<close>.

  An intent or a snapshot whose times do not fit RFC 3339 is not encodable: \<open>json.Marshal\<close> returns
  an error that the code ignores, and the empty text is stored. The check constraints of the table
  (\<open>current_schema.go\<close>) refuse some such rows; a refusal is a statement fault of the environment,
  so the model only allows more.
\<close>

record ServiceChargeProof =
  scp_Intent :: ServiceChargeIntent
  scp_ReservationID :: string
  scp_State :: string
  scp_EvidenceID :: string
  scp_FailureCode :: string
  scp_Snapshot :: ServiceOperationSnapshot

definition zero_snapshot :: ServiceOperationSnapshot where
  "zero_snapshot = \<lparr>sos_OrganizationID = [], sos_OperationID = [], sos_StoreID = [], sos_Command = [],
     sos_Quantity = [], sos_ResourceType = [], sos_BalanceAfter = [], sos_StoreVersion = 0,
     sos_ServiceState = \<lparr>sss_RecordStatus = [], sss_ServiceStatus = [], sss_StartedAt = None,
       sss_ExpiresAt = None\<rparr>, sos_EventID = []\<rparr>"

text \<open>The years 0 to 9999, in nanoseconds from the beginning of year 1.\<close>

definition json_time :: "gotime \<Rightarrow> bool" where
  "json_time t \<longleftrightarrow> - 366 * day_ns \<le> t \<and> t < 3652059 * day_ns"

definition encode_intent :: "ServiceChargeIntent \<Rightarrow> ServiceChargeIntent blob" where
  "encode_intent i = (if json_time (sex_OccurredAt (sci_Execution i)) then Bytes i else NoBytes)"

definition encode_snapshot :: "ServiceOperationSnapshot \<Rightarrow> ServiceOperationSnapshot blob" where
  "encode_snapshot s =
     (if case_option True json_time (sss_StartedAt (sos_ServiceState s))
         \<and> case_option True json_time (sss_ExpiresAt (sos_ServiceState s)) then Bytes s else NoBytes)"

definition valid_command_quantity :: "ServiceExecution \<Rightarrow> bool" where
  "valid_command_quantity e =
     (if sex_Command e = ServiceCommandActivate
      then sex_MaxQuantity e = 1 \<and> validateServiceQuantity (sex_Quantity e) 1 = None
      else if sex_Command e \<noteq> ServiceCommandRenew \<and> sex_Command e \<noteq> ServiceCommandReactivate then False
      else sex_MaxQuantity e = Phase1MaxStoreServicePeriods
           \<and> validateServiceQuantity (sex_Quantity e) Phase1MaxStoreServicePeriods = None)"

definition validServiceIntent :: "ServiceChargeIntent \<Rightarrow> bool" where
  "validServiceIntent i \<longleftrightarrow>
     (let e = sci_Execution i in
      canonicalUUID (sex_OperationID e) = None \<and> canonicalUUID (sex_StoreID e) = None
      \<and> validateOpaqueIdentity ''member'' (sci_MemberID i) MaxSubjectBytes = None
      \<and> validateOpaqueIdentity ''actor'' (sex_ActorSubject e) MaxSubjectBytes = None
      \<and> validateOpaqueIdentity ''organization'' (sex_OrganizationID e) MaxOrganizationIDBytes = None
      \<and> \<not> sex_ExpectedStoreVersion e < 1 \<and> sex_ExpectedStoreVersion e \<noteq> max64
      \<and> \<not> IsZero (sex_OccurredAt e) \<and> length (sex_RequestFingerprint e) = 64
      \<and> hex_text (sex_RequestFingerprint e)
      \<and> (sci_Funding i = FundingMember \<or> sci_Funding i = FundingEnterprise)
      \<and> valid_command_quantity e)"

definition sameServiceChargeIntent :: "ServiceChargeIntent \<Rightarrow> ServiceChargeIntent \<Rightarrow> bool" where
  "sameServiceChargeIntent a b \<longleftrightarrow> encode_intent a = encode_intent b"

definition sameServiceChargeRequest :: "ServiceChargeIntent \<Rightarrow> ServiceChargeIntent \<Rightarrow> bool" where
  "sameServiceChargeRequest a b \<longleftrightarrow>
     (let x = sci_Execution a; y = sci_Execution b in
      sci_MemberID a = sci_MemberID b \<and> sex_ActorSubject x = sex_ActorSubject y
      \<and> sex_OrganizationID x = sex_OrganizationID y \<and> sex_OperationID x = sex_OperationID y
      \<and> sex_StoreID x = sex_StoreID y \<and> sex_Command x = sex_Command y \<and> sex_Quantity x = sex_Quantity y
      \<and> sex_ExpectedStoreVersion x = sex_ExpectedStoreVersion y
      \<and> sex_RequestFingerprint x = sex_RequestFingerprint y)"

section \<open>Reading an operation\<close>

definition charge_key :: "storeServiceChargeRow \<Rightarrow> string \<times> string" where
  "charge_key r = (scr_OrganizationID r, scr_OperationID r)"

text \<open>The text in the column is too long, does not decode, or decodes to a value that is not usable.\<close>

definition intent_of_row :: "store_codec \<Rightarrow> string \<Rightarrow> string \<Rightarrow> storeServiceChargeRow \<Rightarrow> ServiceChargeIntent option" where
  "intent_of_row cd org op row =
     (case scr_IntentJSON row of
        Bytes i \<Rightarrow>
          if length (cdc_intent cd i) > 16384 \<or> \<not> validServiceIntent i
             \<or> sex_OrganizationID (sci_Execution i) \<noteq> org \<or> sex_OperationID (sci_Execution i) \<noteq> op
             \<or> sex_StoreID (sci_Execution i) \<noteq> scr_StoreID row
          then None else Some i
      | _ \<Rightarrow> None)"

definition snapshot_of_row ::
  "store_codec \<Rightarrow> string \<Rightarrow> string \<Rightarrow> ServiceChargeIntent \<Rightarrow> storeServiceChargeRow \<Rightarrow>
   ServiceOperationSnapshot option" where
  "snapshot_of_row cd org op i row =
     (case scr_SnapshotJSON row of
        Bytes s \<Rightarrow>
          if length (cdc_snapshot cd s) > 16384 \<or> sos_OrganizationID s \<noteq> org \<or> sos_OperationID s \<noteq> op
             \<or> sos_StoreID s \<noteq> scr_StoreID row
             \<or> sos_StoreVersion s \<noteq> add64 (sex_ExpectedStoreVersion (sci_Execution i)) 1
             \<or> sos_Quantity s \<noteq> FormatInt (sex_Quantity (sci_Execution i))
             \<or> ValidateStoreServiceState (sos_ServiceState s) \<noteq> None
             \<or> scr_ReservationID row = [] \<or> scr_EvidenceID row = []
          then None else Some s
      | _ \<Rightarrow> None)"

definition readServiceCharge ::
  "store_codec \<Rightarrow> string \<Rightarrow> string \<Rightarrow> store_db \<Rightarrow> serr + storeServiceChargeRow \<times> ServiceChargeProof" where
  "readServiceCharge cd org op db =
     and_then (or_fail ErrNotFound (find (\<lambda>r. charge_key r = (org, op)) (sdb_charges db))) (\<lambda>row.
     and_then (or_fail ErrServiceChargeUnknown (intent_of_row cd org op row)) (\<lambda>i.
     let base = \<lparr>scp_Intent = i, scp_ReservationID = scr_ReservationID row, scp_State = scr_State row,
                 scp_EvidenceID = scr_EvidenceID row, scp_FailureCode = scr_FailureCode row,
                 scp_Snapshot = zero_snapshot\<rparr>
     in if scr_State row = ''succeeded''
        then and_then (or_fail ErrServiceChargeUnknown (snapshot_of_row cd org op i row))
               (\<lambda>s. Inr (row, base\<lparr>scp_Snapshot := s\<rparr>))
        else Inr (row, base)))"

definition ReadServiceChargeProof ::
  "store_codec \<Rightarrow> serr tx_fault \<Rightarrow> string \<Rightarrow> string \<Rightarrow> store_db \<Rightarrow> serr + ServiceChargeProof" where
  "ReadServiceChargeProof cd flt org op db =
     run_read flt (and_then (readServiceCharge cd org op db) (\<lambda>(_, p). Inr p))"

definition ReadServiceChargeIntent ::
  "store_codec \<Rightarrow> serr tx_fault \<Rightarrow> string \<Rightarrow> string \<Rightarrow> store_db \<Rightarrow> serr + ServiceChargeIntent" where
  "ReadServiceChargeIntent cd flt org op db =
     run_read flt (and_then (readServiceCharge cd org op db) (\<lambda>(_, p). Inr (scp_Intent p)))"

definition ServiceMemberAccess :: "store_env \<Rightarrow> string \<Rightarrow> string \<Rightarrow> store_db \<Rightarrow> serr + StoreMemberAccess" where
  "ServiceMemberAccess env org storeID db =
     and_then (authorize (env_auth env 0) org True) (\<lambda>access.
     and_then (run_read (env_read env) (Member_Get (env_auth env 1) org storeID db)) (\<lambda>_. Inr access))"

section \<open>Admitting an operation\<close>

definition serviceChargeTarget ::
  "StoreServiceState \<Rightarrow> ServiceExecution \<Rightarrow> string \<Rightarrow> gotime \<Rightarrow> serr + StoreServiceState" where
  "serviceChargeTarget st e connection at =
     (if sex_Command e = ServiceCommandActivate then ActivateStoreService st connection at
      else if sex_Command e = ServiceCommandRenew
      then RenewStoreService st (sex_Quantity e) (sex_MaxQuantity e) at
      else if sex_Command e = ServiceCommandReactivate
      then ReactivateStoreService st (sex_Quantity e) (sex_MaxQuantity e) at
      else Inl ErrInvalidServiceTransition)"

definition admitted_row :: "gotime \<Rightarrow> ServiceChargeIntent \<Rightarrow> storeServiceChargeRow" where
  "admitted_row at i =
     \<lparr>scr_OrganizationID = sex_OrganizationID (sci_Execution i),
      scr_OperationID = sex_OperationID (sci_Execution i), scr_StoreID = sex_StoreID (sci_Execution i),
      scr_IntentJSON = encode_intent i, scr_ReservationID = [], scr_State = ''admitted'',
      scr_SnapshotJSON = NoBytes, scr_EvidenceID = [], scr_FailureCode = [], scr_CreatedAt = at,
      scr_UpdatedAt = at\<rparr>"

definition service_store :: "ServiceExecution \<Rightarrow> ServiceStoreIdentity" where
  "service_store e = \<lparr>ssi_OrganizationID = sex_OrganizationID e, ssi_StoreID = sex_StoreID e\<rparr>"

definition admitTx ::
  "store_codec \<Rightarrow> gotime \<Rightarrow> StoreMemberAccess \<Rightarrow> ServiceChargeIntent \<Rightarrow> store_db \<Rightarrow>
   serr + ServiceChargeIntent \<times> store_db" where
  "admitTx cd at access intent db =
     (let e = sci_Execution intent in
      guard_err (lockMemberStore (sex_OrganizationID e) (sex_StoreID e) db)
      (guard_err (requireMemberGrant access (sex_StoreID e) db)
      (case readServiceCharge cd (sex_OrganizationID e) (sex_OperationID e) db of
         Inr (_, p) \<Rightarrow>
           if \<not> sameServiceChargeRequest (scp_Intent p) intent then Inl ErrAlreadyExists
           else if sci_Funding (scp_Intent p) = FundingEnterprise \<and> \<not> sma_Administrator access
                   \<and> scp_State p \<noteq> ''succeeded''
           then Inl ErrNotFound
           else Inr (scp_Intent p, db)
       | Inl err \<Rightarrow>
           if err \<noteq> ErrNotFound then Inl err
           else if (sci_Funding intent = FundingEnterprise) \<noteq> sma_Administrator access then Inl ErrNotFound
           else and_then (LockServiceState (service_store e) db) (\<lambda>store.
                if svs_Version store \<noteq> sex_ExpectedStoreVersion e then Inl ErrVersionConflict
                else if svs_ConnectionRef store \<noteq> sex_ExpectedConnectionRef e
                then Inl ErrConnectionSnapshotChanged
                else and_then (serviceChargeTarget (svs_State store) e (sex_ConnectionStatus e)
                                 (sex_OccurredAt e)) (\<lambda>_.
                case create_row (\<lambda>r x. charge_key r = charge_key x) (admitted_row at intent) (sdb_charges db) of
                  None \<Rightarrow> Inl (StoreErr ''duplicate key value'')
                | Some t \<Rightarrow> Inr (intent, db\<lparr>sdb_charges := t\<rparr>))))))"

definition admit_final :: "serr \<Rightarrow> bool" where
  "admit_final e \<longleftrightarrow> e \<in> set [ErrNotFound, ErrAlreadyExists, ErrVersionConflict, ErrConnectionSnapshotChanged,
     ErrInvalidServiceTransition, ErrConnectionNotFresh]"

definition AdmitServiceCharge ::
  "store_codec \<Rightarrow> store_env \<Rightarrow> ServiceChargeIntent \<Rightarrow> store_db \<Rightarrow> store_db \<times> (serr + ServiceChargeIntent)" where
  "AdmitServiceCharge cd env intent db =
     (if \<not> validServiceIntent intent then (db, Inl ErrServiceQuantityInvalid)
      else
        let e = sci_Execution intent in
        case authorize (env_auth env 0) (sex_OrganizationID e) True of
          Inl _ \<Rightarrow> (db, Inl ErrNotFound)
        | Inr access \<Rightarrow>
            if sma_MemberID access \<noteq> sci_MemberID intent \<or> sma_ActorID access \<noteq> sex_ActorSubject e
            then (db, Inl ErrNotFound)
            else (case run_tx (env_tx env) (admitTx cd (env_now env 0) access intent) db of
                    (db1, Inr admitted) \<Rightarrow> (db1, Inr admitted)
                  | (db1, Inl err) \<Rightarrow>
                      if admit_final err then (db1, Inl err)
                      else (case ReadServiceChargeIntent cd (env_read env) (sex_OrganizationID e)
                                   (sex_OperationID e) db1 of
                              Inr original \<Rightarrow>
                                if sameServiceChargeRequest original intent then (db1, Inr original)
                                else (db1, Inl err)
                            | Inl _ \<Rightarrow> (db1, Inl err))))"

section \<open>Binding the reservation\<close>

definition update_charge ::
  "storeServiceChargeRow \<Rightarrow> (storeServiceChargeRow \<Rightarrow> storeServiceChargeRow) \<Rightarrow> store_db \<Rightarrow> store_db" where
  "update_charge row f db =
     db\<lparr>sdb_charges := update_rows (\<lambda>x. charge_key x = charge_key row) f (sdb_charges db)\<rparr>"

definition bindTx ::
  "store_codec \<Rightarrow> gotime \<Rightarrow> StoreMemberAccess \<Rightarrow> ServiceChargeIntent \<Rightarrow> string \<Rightarrow> store_db \<Rightarrow>
   serr + unit \<times> store_db" where
  "bindTx cd at access intent reservation db =
     (let e = sci_Execution intent in
      guard_err (lockMemberStore (sex_OrganizationID e) (sex_StoreID e) db)
      (guard_err (requireMemberGrant access (sex_StoreID e) db)
      (and_then (readServiceCharge cd (sex_OrganizationID e) (sex_OperationID e) db) (\<lambda>(row, p).
       if \<not> sameServiceChargeIntent (scp_Intent p) intent
          \<or> scr_ReservationID row \<noteq> [] \<and> scr_ReservationID row \<noteq> reservation
       then Inl ErrAlreadyExists
       else if scr_ReservationID row = reservation then Inr ((), db)
       else if scr_State row \<noteq> ''admitted'' then Inl ErrServiceChargeUnknown
       else Inr ((), update_charge row (\<lambda>x. x\<lparr>scr_ReservationID := reservation, scr_State := ''bound'',
                        scr_UpdatedAt := at\<rparr>) db)))))"

definition BindServiceCharge ::
  "store_codec \<Rightarrow> store_env \<Rightarrow> ServiceChargeIntent \<Rightarrow> string \<Rightarrow> store_db \<Rightarrow> store_db \<times> (serr + unit)" where
  "BindServiceCharge cd env intent reservation db =
     (let e = sci_Execution intent in
      if canonicalUUID reservation \<noteq> None then (db, Inl ErrServiceChargeUnknown)
      else case ServiceMemberAccess env (sex_OrganizationID e) (sex_StoreID e) db of
        Inl _ \<Rightarrow> (db, Inl ErrNotFound)
      | Inr access \<Rightarrow>
          if sma_MemberID access \<noteq> sci_MemberID intent \<or> sma_ActorID access \<noteq> sex_ActorSubject e
          then (db, Inl ErrNotFound)
          else (case run_tx (env_tx env) (bindTx cd (env_now env 0) access intent reservation) db of
                  (db1, Inr u) \<Rightarrow> (db1, Inr u)
                | (db1, Inl err) \<Rightarrow>
                    (case ReadServiceChargeProof cd (env_read env) (sex_OrganizationID e)
                            (sex_OperationID e) db1 of
                       Inr p \<Rightarrow>
                         if sameServiceChargeIntent (scp_Intent p) intent \<and> scp_ReservationID p = reservation
                         then (db1, Inr ()) else (db1, Inl err)
                     | Inl _ \<Rightarrow> (db1, Inl err))))"

section \<open>Completing an operation\<close>

definition charge_evidence :: "store_codec \<Rightarrow> storeServiceChargeRow \<Rightarrow> ServiceChargeProof \<Rightarrow> string" where
  "charge_evidence cd row p =
     ''store-service:'' @ hashTuple cd [scr_OrganizationID row, scr_OperationID row, scr_ReservationID row,
        scp_State p, scp_FailureCode p,
        (if scp_State p = ''succeeded''
         then case encode_snapshot (scp_Snapshot p) of Bytes s \<Rightarrow> cdc_snapshot cd s | _ \<Rightarrow> [] else [])]"

definition completed_row ::
  "store_codec \<Rightarrow> gotime \<Rightarrow> storeServiceChargeRow \<Rightarrow> ServiceChargeProof \<Rightarrow> storeServiceChargeRow \<Rightarrow>
   storeServiceChargeRow" where
  "completed_row cd at row p x =
     x\<lparr>scr_ReservationID := scr_ReservationID row, scr_State := scp_State p,
       scr_SnapshotJSON := (if scp_State p = ''succeeded'' then encode_snapshot (scp_Snapshot p) else NoBytes),
       scr_EvidenceID := charge_evidence cd row p, scr_FailureCode := scp_FailureCode p,
       scr_UpdatedAt := at\<rparr>"

definition completeServiceCharge ::
  "store_codec \<Rightarrow> gotime \<Rightarrow> storeServiceChargeRow \<Rightarrow> ServiceChargeProof \<Rightarrow> store_db \<Rightarrow> store_db" where
  "completeServiceCharge cd at row p db =
     db\<lparr>sdb_charges := update_rows
          (\<lambda>x. charge_key x = charge_key row \<and> (scr_State x = ''admitted'' \<or> scr_State x = ''bound''))
          (completed_row cd at row p) (sdb_charges db)\<rparr>"

definition failed_proof :: "ServiceChargeProof \<Rightarrow> string \<Rightarrow> ServiceChargeProof" where
  "failed_proof p code = p\<lparr>scp_State := ''failed_fenced'', scp_FailureCode := code\<rparr>"

definition succeeded_proof ::
  "store_codec \<Rightarrow> ServiceExecution \<Rightarrow> StoreServiceState \<Rightarrow> ServiceChargeProof \<Rightarrow> ServiceChargeProof" where
  "succeeded_proof cd e target p = p\<lparr>scp_State := ''succeeded'', scp_Snapshot :=
     \<lparr>sos_OrganizationID = sex_OrganizationID e, sos_OperationID = sex_OperationID e,
      sos_StoreID = sex_StoreID e, sos_Command = sex_Command e, sos_Quantity = FormatInt (sex_Quantity e),
      sos_ResourceType = ''store_renewal_period'', sos_BalanceAfter = [],
      sos_StoreVersion = add64 (sex_ExpectedStoreVersion e) 1, sos_ServiceState = target,
      sos_EventID = cdc_uuid cd (sex_OrganizationID e @ '':'' @ sex_OperationID e)\<rparr>\<rparr>"

text \<open>
  What the apply step knows about its caller: the error of the authorizer, if any, and the access
  it returned (the zero value beside an error).
\<close>

definition apply_access :: "serr + StoreMemberAccess \<Rightarrow> StoreMemberAccess" where
  "apply_access a = (case a of Inl _ \<Rightarrow> zero_access | Inr x \<Rightarrow> x)"

definition not_allowed ::
  "serr + StoreMemberAccess \<Rightarrow> ServiceChargeIntent \<Rightarrow> store_db \<Rightarrow> bool" where
  "not_allowed a intent db \<longleftrightarrow>
     (let e = sci_Execution intent; access = apply_access a in
      lockMemberStore (sex_OrganizationID e) (sex_StoreID e) db \<noteq> None
      \<or> (case a of Inl _ \<Rightarrow> True | Inr x \<Rightarrow> requireMemberGrant x (sex_StoreID e) db \<noteq> None)
      \<or> sma_MemberID access \<noteq> sci_MemberID intent \<or> sma_ActorID access \<noteq> sex_ActorSubject e
      \<or> sci_Funding intent = FundingEnterprise \<and> \<not> sma_Administrator access)"

text \<open>
  The decision on a bound operation: the failure code, or the locked store with the new service
  state. An error of the store read aborts.
\<close>

definition apply_decision ::
  "gotime \<Rightarrow> serr + StoreMemberAccess \<Rightarrow> ServiceChargeIntent \<Rightarrow> string \<Rightarrow> store_db \<Rightarrow>
   serr + (string + ServiceStoreSnapshot \<times> StoreServiceState)" where
  "apply_decision at a intent connection db =
     (let e = sci_Execution intent in
      if not_allowed a intent db then Inr (Inl ''NOT_ALLOWED'')
      else and_then (LockServiceState (service_store e) db) (\<lambda>store.
        if svs_Version store \<noteq> sex_ExpectedStoreVersion e then Inr (Inl ''STORE_CHANGED'')
        else if svs_ConnectionRef store \<noteq> sex_ExpectedConnectionRef e then Inr (Inl ''CONNECTION_CHANGED'')
        else case serviceChargeTarget (svs_State store) e connection at of
          Inl _ \<Rightarrow> Inr (Inl ''INVALID_STATE'')
        | Inr target \<Rightarrow> Inr (Inr (store, target))))"

definition applyTx ::
  "store_codec \<Rightarrow> gotime \<Rightarrow> gotime \<Rightarrow> serr + StoreMemberAccess \<Rightarrow> ServiceChargeIntent \<Rightarrow> string \<Rightarrow>
   store_db \<Rightarrow> serr + unit \<times> store_db" where
  "applyTx cd at stamp a intent connection db =
     (let e = sci_Execution intent in
      and_then (readServiceCharge cd (sex_OrganizationID e) (sex_OperationID e) db) (\<lambda>(row, p).
      if \<not> sameServiceChargeIntent (scp_Intent p) intent then Inl ErrAlreadyExists
      else if scr_State row = ''succeeded'' \<or> scr_State row = ''failed_fenced'' then Inr ((), db)
      else if scr_State row \<noteq> ''bound'' \<or> scr_ReservationID row = [] then Inl ErrServiceChargeUnknown
      else and_then (apply_decision at a intent connection db) (\<lambda>d.
        case d of
          Inl code \<Rightarrow> Inr ((), completeServiceCharge cd stamp row (failed_proof p code) db)
        | Inr (store, target) \<Rightarrow>
            and_then (ApplyServiceState
              \<lparr>svm_Identity = svs_Identity store, svm_ExpectedVersion = svs_Version store,
               svm_ExpectedConnectionRef = svs_ConnectionRef store, svm_State = target,
               svm_ActorSubject = sex_ActorSubject e, svm_OccurredAt = at\<rparr> db) (\<lambda>db1.
            Inr ((), completeServiceCharge cd stamp row (succeeded_proof cd e target p) db1)))))"

definition terminal_state :: "string \<Rightarrow> bool" where
  "terminal_state s \<longleftrightarrow> s = ''succeeded'' \<or> s = ''failed_fenced''"

text \<open>The answer is the durable proof, whatever the transaction reported.\<close>

definition apply_answer ::
  "store_codec \<Rightarrow> store_env \<Rightarrow> ServiceChargeIntent \<Rightarrow> store_db \<times> (serr + unit) \<Rightarrow>
   store_db \<times> (serr + ServiceChargeProof)" where
  "apply_answer cd env intent out =
     (case out of (db1, r) \<Rightarrow>
      case ReadServiceChargeProof cd (env_read env) (sex_OrganizationID (sci_Execution intent))
             (sex_OperationID (sci_Execution intent)) db1 of
        Inr p \<Rightarrow>
          if sameServiceChargeIntent (scp_Intent p) intent \<and> terminal_state (scp_State p)
          then (db1, Inr p)
          else (db1, Inl (case r of Inl err \<Rightarrow> err | Inr _ \<Rightarrow> ErrServiceChargeUnknown))
      | Inl _ \<Rightarrow> (db1, Inl (case r of Inl err \<Rightarrow> err | Inr _ \<Rightarrow> ErrServiceChargeUnknown)))"

definition ApplyServiceCharge ::
  "store_codec \<Rightarrow> store_env \<Rightarrow> ServiceChargeIntent \<Rightarrow> string \<Rightarrow> store_db \<Rightarrow>
   store_db \<times> (serr + ServiceChargeProof)" where
  "ApplyServiceCharge cd env intent connection db =
     (let a = authorize (env_auth env 0) (sex_OrganizationID (sci_Execution intent)) True;
          refused = (case a of Inl err \<Rightarrow> if err = ErrNotFound then None else Some err | Inr _ \<Rightarrow> None)
      in case refused of
           Some err \<Rightarrow> (db, Inl err)
         | None \<Rightarrow> apply_answer cd env intent
             (run_tx (env_tx env) (applyTx cd (env_now env 0) (env_now env 1) a intent connection) db))"

section \<open>Fencing an operation\<close>

definition fence_codes :: "string list" where
  "fence_codes = [''QUOTA_INSUFFICIENT'', ''NOT_ALLOWED'', ''CONNECTION_CHANGED'', ''INVALID_STATE'']"

definition fenceTx ::
  "store_codec \<Rightarrow> gotime \<Rightarrow> ServiceChargeIntent \<Rightarrow> string \<Rightarrow> string \<Rightarrow> store_db \<Rightarrow> serr + unit \<times> store_db" where
  "fenceTx cd stamp intent reservation code db =
     (let e = sci_Execution intent in
      and_then (readServiceCharge cd (sex_OrganizationID e) (sex_OperationID e) db) (\<lambda>(row, p).
      if \<not> sameServiceChargeIntent (scp_Intent p) intent then Inl ErrAlreadyExists
      else if scr_ReservationID row \<noteq> [] \<and> reservation \<noteq> [] \<and> scr_ReservationID row \<noteq> reservation
      then Inl ErrAlreadyExists
      else if scr_State row = ''succeeded'' \<or> scr_State row = ''failed_fenced'' then Inr ((), db)
      else
        let row = (if scr_ReservationID row = [] \<and> reservation \<noteq> []
                   then row\<lparr>scr_ReservationID := reservation\<rparr> else row)
        in Inr ((), completeServiceCharge cd stamp row (failed_proof p code) db)))"

definition FenceServiceCharge ::
  "store_codec \<Rightarrow> store_env \<Rightarrow> ServiceChargeIntent \<Rightarrow> string \<Rightarrow> string \<Rightarrow> store_db \<Rightarrow>
   store_db \<times> (serr + ServiceChargeProof)" where
  "FenceServiceCharge cd env intent reservation code db =
     (let e = sci_Execution intent in
      if code \<notin> set fence_codes then (db, Inl ErrInvalidServiceTransition)
      else if reservation \<noteq> [] \<and> canonicalUUID reservation \<noteq> None then (db, Inl ErrServiceChargeUnknown)
      else case run_tx (env_tx env) (fenceTx cd (env_now env 0) intent reservation code) db of
        (db1, Inl err) \<Rightarrow> (db1, Inl err)
      | (db1, Inr _) \<Rightarrow>
          (db1, ReadServiceChargeProof cd (env_read env) (sex_OrganizationID e) (sex_OperationID e) db1))"

end
