(* ===== verification/Store_Executor.thy ===== *)
theory Store_Executor
  imports Store_Charges
begin

text \<open>
  The coordinator of a service operation (\<open>internal/app/storecenter/service_charges.go\<close>): it leads an
  operation through its two owners, the Store Center and the resource ledger. Each owner commits
  its own transactions; no transaction spans both.

  The state is the pair of the two databases. Between two calls of the coordinator other callers
  may have moved the system: \<open>cal_others k\<close> is what they did before its \<open>k\<close>-th call.
\<close>

record 'o saga =
  sg_store :: store_db
  sg_res :: "'o res_db"

text \<open>The ledger as the coordinator is wired to it: the owners of the other consumers included.\<close>

record ledger_port =
  lpt_digests :: digests
  lpt_config :: TransactionConfig
  lpt_sqlite :: bool
  lpt_owners :: charge_owners

text \<open>
  What one run of the coordinator meets: the environment of each store call and of each ledger
  call, the faults of the owner's reads within a ledger call, the answer of the connection
  provider, whether the context is still alive after a failed bind, and the other callers.
\<close>

record 'o service_calls =
  cal_store :: "nat \<Rightarrow> store_env"
  cal_ledger :: "nat \<Rightarrow> exec_env"
  cal_owner :: "nat \<Rightarrow> serr tx_fault"
  cal_status :: "serr + string"
  cal_alive :: bool
  cal_others :: "nat \<Rightarrow> 'o saga \<Rightarrow> 'o saga"

section \<open>The store as an owner of charges\<close>

definition serviceChargeIdentity :: "ServiceChargeIntent \<Rightarrow> ConsumerChargeIdentity" where
  "serviceChargeIdentity i =
     \<lparr>cci_OrganizationID = sex_OrganizationID (sci_Execution i), cci_Consumer = ConsumerStoreService,
      cci_OperationID = sex_OperationID (sci_Execution i)\<rparr>"

definition serviceResourceIntent :: "store_codec \<Rightarrow> digests \<Rightarrow> ServiceChargeIntent \<Rightarrow> ConsumerChargeIntent" where
  "serviceResourceIntent cd dg i =
     \<lparr>ccn_Identity = serviceChargeIdentity i, ccn_ActorID = sex_ActorSubject (sci_Execution i),
      ccn_MemberID = sci_MemberID i, ccn_Funding = sci_Funding i,
      ccn_ResourceType = ResourceStoreRenewalPeriod, ccn_Quantity = sex_Quantity (sci_Execution i),
      ccn_Fingerprint = dg_text dg (case encode_intent i of Bytes j \<Rightarrow> cdc_intent cd j | _ \<Rightarrow> []),
      ccn_BusinessScope = sex_StoreID (sci_Execution i)\<rparr>"

text \<open>An error of the store passes through the ledger, which does not know it.\<close>

definition owner_error :: "serr \<Rightarrow> rerr" where
  "owner_error e = OtherErr ''store charge read''"

definition Owner_ReadChargeIntent ::
  "store_codec \<Rightarrow> digests \<Rightarrow> serr tx_fault \<Rightarrow> store_db \<Rightarrow> ConsumerChargeIdentity \<Rightarrow>
   rerr + ConsumerChargeIntent" where
  "Owner_ReadChargeIntent cd dg flt db ident =
     (if cci_Consumer ident \<noteq> ConsumerStoreService then Inl ErrOwnerScopeMismatch
      else case ReadServiceChargeIntent cd flt (cci_OrganizationID ident) (cci_OperationID ident) db of
        Inl e \<Rightarrow> Inl (owner_error e)
      | Inr i \<Rightarrow> Inr (serviceResourceIntent cd dg i))"

definition Owner_ReadChargeProof ::
  "store_codec \<Rightarrow> digests \<Rightarrow> serr tx_fault \<Rightarrow> store_db \<Rightarrow> ConsumerChargeReceipt \<Rightarrow>
   rerr + ConsumerChargeProof" where
  "Owner_ReadChargeProof cd dg flt db receipt =
     (let ident = ccn_Identity (ccr_Intent receipt) in
      if cci_Consumer ident \<noteq> ConsumerStoreService then Inl ErrOwnerScopeMismatch
      else case ReadServiceChargeProof cd flt (cci_OrganizationID ident) (cci_OperationID ident) db of
        Inl e \<Rightarrow> Inl (owner_error e)
      | Inr p \<Rightarrow> Inr
          \<lparr>ccp_Intent = serviceResourceIntent cd dg (scp_Intent p),
           ccp_ReservationID = (if scp_ReservationID p = [] then ccr_ReservationID receipt
                                else scp_ReservationID p),
           ccp_State = (if scp_ReservationID p \<noteq> [] \<and> scp_State p = ''succeeded'' then ConsumerEffectSucceeded
                        else if scp_ReservationID p \<noteq> [] \<and> scp_State p = ''failed_fenced''
                        then ConsumerEffectFailed else ConsumerEffectUnknown),
           ccp_EvidenceID = scp_EvidenceID p\<rparr>)"

definition ServiceChargeOwner ::
  "store_codec \<Rightarrow> digests \<Rightarrow> serr tx_fault \<Rightarrow> store_db \<Rightarrow> ConsumerChargeOwner" where
  "ServiceChargeOwner cd dg flt db =
     \<lparr>cco_ReadChargeIntent = Owner_ReadChargeIntent cd dg flt db,
      cco_ReadChargeProof = Owner_ReadChargeProof cd dg flt db\<rparr>"

text \<open>The registered owners, with the Store Center as the owner of the service charges.\<close>

definition port_owners :: "store_codec \<Rightarrow> ledger_port \<Rightarrow> serr tx_fault \<Rightarrow> store_db \<Rightarrow> charge_owners" where
  "port_owners cd lp flt db =
     (lpt_owners lp)(ConsumerStoreService \<mapsto> ServiceChargeOwner cd (lpt_digests lp) flt db)"

definition charges_Reserve ::
  "store_codec \<Rightarrow> ledger_port \<Rightarrow> serr tx_fault \<Rightarrow> exec_env \<Rightarrow> ServiceChargeIntent \<Rightarrow> 'o saga \<Rightarrow>
   'o saga \<times> (rerr + ConsumerChargeReceipt)" where
  "charges_Reserve cd lp flt ev i s =
     (case ReserveConsumerCharge (lpt_digests lp) (port_owners cd lp flt (sg_store s)) (lpt_config lp)
             (lpt_sqlite lp) ev (serviceChargeIdentity i) (sg_res s) of
        (db, r) \<Rightarrow> (s\<lparr>sg_res := db\<rparr>, r))"

definition charges_Reconcile ::
  "store_codec \<Rightarrow> ledger_port \<Rightarrow> serr tx_fault \<Rightarrow> exec_env \<Rightarrow> ServiceChargeIntent \<Rightarrow> 'o saga \<Rightarrow>
   'o saga \<times> (rerr + ConsumerChargeReceipt)" where
  "charges_Reconcile cd lp flt ev i s =
     (case Reconcile (lpt_digests lp) (port_owners cd lp flt (sg_store s)) (lpt_config lp)
             (lpt_sqlite lp) ev (serviceChargeIdentity i) (sg_res s) of
        (db, r) \<Rightarrow> (s\<lparr>sg_res := db\<rparr>, r))"

text \<open>A call of the store in the pair of databases.\<close>

definition on_store :: "(store_db \<Rightarrow> store_db \<times> 'a) \<Rightarrow> 'o saga \<Rightarrow> 'o saga \<times> 'a" where
  "on_store f s = (case f (sg_store s) of (db, r) \<Rightarrow> (s\<lparr>sg_store := db\<rparr>, r))"

section \<open>Settling\<close>

definition serviceFailure :: "string \<Rightarrow> serr" where
  "serviceFailure code =
     (if code = ''NOT_ALLOWED'' then ErrNotFound
      else if code = ''STORE_CHANGED'' then ErrVersionConflict
      else if code = ''CONNECTION_CHANGED'' then ErrConnectionSnapshotChanged
      else if code = ''QUOTA_INSUFFICIENT'' then LedgerErr ErrInsufficientBalance
      else ErrInvalidServiceTransition)"

definition service_result :: "ServiceChargeProof \<Rightarrow> ConsumerChargeReceipt \<Rightarrow> ServiceOperationResult" where
  "service_result p receipt =
     \<lparr>sor_Snapshot = (scp_Snapshot p)\<lparr>sos_BalanceAfter := FormatInt (ccr_BalanceAfter receipt)\<rparr>,
      sor_Replayed = False\<rparr>"

definition settle ::
  "store_codec \<Rightarrow> ledger_port \<Rightarrow> 'o service_calls \<Rightarrow> ServiceChargeProof \<Rightarrow> 'o saga \<Rightarrow>
   'o saga \<times> (serr + ServiceOperationResult)" where
  "settle cd lp w p s =
     (if scp_State p = ''failed_fenced'' \<and> scp_ReservationID p = []
      then (s, Inl (serviceFailure (scp_FailureCode p)))
      else case charges_Reconcile cd lp (cal_owner w 1) (cal_ledger w 1) (scp_Intent p) (cal_others w 9 s) of
        (s1, Inl _) \<Rightarrow> (s1, Inl ErrServiceChargeUnknown)
      | (s1, Inr receipt) \<Rightarrow>
          if ccr_Intent receipt \<noteq> serviceResourceIntent cd (lpt_digests lp) (scp_Intent p)
             \<or> ccr_ReservationID receipt \<noteq> scp_ReservationID p
          then (s1, Inl ErrServiceChargeUnknown)
          else if scp_State p = ''failed_fenced''
          then if ccr_State receipt \<noteq> ReservationReleased then (s1, Inl ErrServiceChargeUnknown)
               else (s1, Inl (serviceFailure (scp_FailureCode p)))
          else if scp_State p \<noteq> ''succeeded'' \<or> ccr_State receipt \<noteq> ReservationCommitted
          then (s1, Inl ErrServiceChargeUnknown)
          else (s1, Inr (service_result p receipt)))"

section \<open>Resuming an admitted operation\<close>

definition resume_apply ::
  "store_codec \<Rightarrow> ledger_port \<Rightarrow> 'o service_calls \<Rightarrow> ServiceChargeIntent \<Rightarrow> string \<Rightarrow> 'o saga \<Rightarrow>
   'o saga \<times> (serr + ServiceOperationResult)" where
  "resume_apply cd lp w i connection s =
     (case on_store (ApplyServiceCharge cd (cal_store w 8) i connection) (cal_others w 8 s) of
        (s1, Inl _) \<Rightarrow> (s1, Inl ErrServiceChargeUnknown)
      | (s1, Inr p) \<Rightarrow> settle cd lp w p s1)"

definition resume_activate ::
  "store_codec \<Rightarrow> ledger_port \<Rightarrow> 'o service_calls \<Rightarrow> ServiceChargeIntent \<Rightarrow> string \<Rightarrow> 'o saga \<Rightarrow>
   'o saga \<times> (serr + ServiceOperationResult)" where
  "resume_activate cd lp w i reservation s0 =
     (let e = sci_Execution i; s = cal_others w 6 s0 in
      case run_read (env_read (cal_store w 6))
             (Member_Get (env_auth (cal_store w 6) 0) (sex_OrganizationID e) (sex_StoreID e) (sg_store s)) of
        Inl err \<Rightarrow> (s, Inl err)
      | Inr store \<Rightarrow>
          if sto_ConnectionRef store \<noteq> sex_ExpectedConnectionRef e
          then (case on_store (FenceServiceCharge cd (cal_store w 7) i reservation ''CONNECTION_CHANGED'')
                       (cal_others w 7 s) of
                  (s1, Inl _) \<Rightarrow> (s1, Inl ErrServiceChargeUnknown)
                | (s1, Inr p) \<Rightarrow> settle cd lp w p s1)
          else (case cal_status w of
                  Inl _ \<Rightarrow> (s, Inl ErrConnectionUnavailable)
                | Inr connection \<Rightarrow>
                    if connection = ConnectionStatusUnavailable \<or> connection = []
                    then (s, Inl ErrConnectionUnavailable)
                    else resume_apply cd lp w i connection s))"

definition resume_bind ::
  "store_codec \<Rightarrow> ledger_port \<Rightarrow> 'o service_calls \<Rightarrow> ServiceChargeIntent \<Rightarrow> string \<Rightarrow> 'o saga \<Rightarrow>
   'o saga \<times> (serr + ServiceOperationResult)" where
  "resume_bind cd lp w i reservation s0 =
     (case on_store (BindServiceCharge cd (cal_store w 4) i reservation) (cal_others w 4 s0) of
        (s, Inl err) \<Rightarrow>
          if err = ErrNotFound \<and> cal_alive w
          then (case on_store (FenceServiceCharge cd (cal_store w 5) i reservation ''NOT_ALLOWED'')
                       (cal_others w 5 s) of
                  (s1, Inl _) \<Rightarrow> (s1, Inl ErrServiceChargeUnknown)
                | (s1, Inr p) \<Rightarrow> settle cd lp w p s1)
          else (s, Inl ErrServiceChargeUnknown)
      | (s, Inr _) \<Rightarrow>
          if sex_Command (sci_Execution i) = ServiceCommandActivate
          then resume_activate cd lp w i reservation s
          else resume_apply cd lp w i [] s)"

definition resume_reserve ::
  "store_codec \<Rightarrow> ledger_port \<Rightarrow> 'o service_calls \<Rightarrow> ServiceChargeIntent \<Rightarrow> 'o saga \<Rightarrow>
   'o saga \<times> (serr + ServiceOperationResult)" where
  "resume_reserve cd lp w i s0 =
     (case charges_Reserve cd lp (cal_owner w 0) (cal_ledger w 0) i (cal_others w 2 s0) of
        (s, Inl err) \<Rightarrow>
          if err = ErrInsufficientBalance \<or> err = ErrResourceDebtOutstanding
          then (case on_store (FenceServiceCharge cd (cal_store w 3) i [] ''QUOTA_INSUFFICIENT'')
                       (cal_others w 3 s) of
                  (s1, Inl _) \<Rightarrow> (s1, Inl ErrServiceChargeUnknown)
                | (s1, Inr _) \<Rightarrow> (s1, Inl (LedgerErr ErrInsufficientBalance)))
          else (s, Inl ErrServiceChargeUnknown)
      | (s, Inr receipt) \<Rightarrow>
          if ccr_Intent receipt \<noteq> serviceResourceIntent cd (lpt_digests lp) i
             \<or> ccr_State receipt \<noteq> ReservationReserved
          then (s, Inl ErrServiceChargeUnknown)
          else resume_bind cd lp w i (ccr_ReservationID receipt) s)"

definition resume ::
  "store_codec \<Rightarrow> ledger_port \<Rightarrow> 'o service_calls \<Rightarrow> ServiceChargeIntent \<Rightarrow> 'o saga \<Rightarrow>
   'o saga \<times> (serr + ServiceOperationResult)" where
  "resume cd lp w i s0 =
     (let e = sci_Execution i; s = cal_others w 0 s0 in
      case ReadServiceChargeProof cd (env_read (cal_store w 0)) (sex_OrganizationID e) (sex_OperationID e)
             (sg_store s) of
        Inl err \<Rightarrow> (s, Inl err)
      | Inr p \<Rightarrow>
          if terminal_state (scp_State p) then settle cd lp w p s
          else let s1 = cal_others w 1 s in
            (case ServiceMemberAccess (cal_store w 1) (sex_OrganizationID e) (sex_StoreID e) (sg_store s1) of
               Inl err \<Rightarrow> (s1, Inl err)
             | Inr access \<Rightarrow>
                 if sci_Funding i = FundingEnterprise \<and> \<not> sma_Administrator access
                 then (s1, Inl ErrNotFound)
                 else resume_reserve cd lp w i s1))"

section \<open>The executor\<close>

definition authorizeIntent :: "store_env \<Rightarrow> ServiceChargeIntent \<Rightarrow> store_db \<Rightarrow> serr option" where
  "authorizeIntent env i db =
     (case ServiceMemberAccess env (sex_OrganizationID (sci_Execution i)) (sex_StoreID (sci_Execution i)) db of
        Inl err \<Rightarrow> Some err
      | Inr access \<Rightarrow>
          if sma_MemberID access \<noteq> sci_MemberID i \<or> sma_ActorID access \<noteq> sex_ActorSubject (sci_Execution i)
          then Some ErrNotFound else None)"

text \<open>The answer: no such operation, or the outcome of the operation that was found.\<close>

definition ReplayServiceLifecycle ::
  "store_codec \<Rightarrow> ledger_port \<Rightarrow> 'o service_calls \<Rightarrow> ServiceReplay \<Rightarrow> 'o saga \<Rightarrow>
   'o saga \<times> (serr + ServiceOperationResult) option" where
  "ReplayServiceLifecycle cd lp w r s0 =
     (let s = cal_others w 12 s0 in
      case ReadServiceChargeIntent cd (env_read (cal_store w 12)) (srp_OrganizationID r) (srp_OperationID r)
             (sg_store s) of
        Inl err \<Rightarrow> (s, if err = ErrNotFound then None else Some (Inl err))
      | Inr i \<Rightarrow>
          let s1 = cal_others w 13 s in
          (case authorizeIntent (cal_store w 13) i (sg_store s1) of
             Some err \<Rightarrow> (s1, Some (Inl err))
           | None \<Rightarrow>
               if sex_RequestFingerprint (sci_Execution i) \<noteq> srp_RequestFingerprint r
               then (s1, Some (Inl (LedgerErr ErrIdempotencyKeyConflict)))
               else (case resume cd lp w i s1 of
                       (s2, Inl err) \<Rightarrow> (s2, Some (Inl err))
                     | (s2, Inr z) \<Rightarrow> (s2, Some (Inr (z\<lparr>sor_Replayed := True\<rparr>))))))"

definition ExecuteServiceLifecycle ::
  "store_codec \<Rightarrow> ledger_port \<Rightarrow> 'o service_calls \<Rightarrow> ServiceExecution \<Rightarrow> 'o saga \<Rightarrow>
   'o saga \<times> (serr + ServiceOperationResult)" where
  "ExecuteServiceLifecycle cd lp w e s0 =
     (let s = cal_others w 10 s0 in
      case ServiceMemberAccess (cal_store w 10) (sex_OrganizationID e) (sex_StoreID e) (sg_store s) of
        Inl err \<Rightarrow> (s, Inl err)
      | Inr access \<Rightarrow>
          let funding = (if sma_Administrator access then FundingEnterprise else FundingMember) in
          (case on_store (AdmitServiceCharge cd (cal_store w 11)
                  \<lparr>sci_Execution = e, sci_MemberID = sma_MemberID access, sci_Funding = funding\<rparr>)
                  (cal_others w 11 s) of
             (s1, Inl err) \<Rightarrow>
               (s1, Inl (if err = ErrAlreadyExists then LedgerErr ErrIdempotencyKeyConflict else err))
           | (s1, Inr i) \<Rightarrow> resume cd lp w i s1))"

end
