(* ===== verification/Store_Laws.thy ===== *)
theory Store_Laws
  imports Store_Charges
begin

text \<open>
  What the transactions of the Store Center do to its tables: the invariant \<open>store_inv\<close> and the
  relation \<open>store_rel\<close> that every committed transaction respects.
\<close>

lemma or_fail_Inr_iff: "or_fail e x = Inr a \<longleftrightarrow> x = Some a"
  by (cases x) (simp_all add: ok_simps)

section \<open>The invariant\<close>

definition charge_intent :: "storeServiceChargeRow \<Rightarrow> ServiceChargeIntent option" where
  "charge_intent c = decode (scr_IntentJSON c)"

text \<open>A usable row: its intent is valid, encodable and its own.\<close>

definition intent_ok :: "storeServiceChargeRow \<Rightarrow> ServiceChargeIntent \<Rightarrow> bool" where
  "intent_ok c i \<longleftrightarrow> validServiceIntent i \<and> json_time (sex_OccurredAt (sci_Execution i))
     \<and> charge_key c = (sex_OrganizationID (sci_Execution i), sex_OperationID (sci_Execution i))
     \<and> scr_StoreID c = sex_StoreID (sci_Execution i)"

definition charge_version :: "storeServiceChargeRow \<Rightarrow> i64" where
  "charge_version c = (case charge_intent c of None \<Rightarrow> 0 | Some i \<Rightarrow> sex_ExpectedStoreVersion (sci_Execution i) + 1)"

definition charge_store :: "storeServiceChargeRow \<Rightarrow> string \<times> string" where
  "charge_store c = (scr_OrganizationID c, scr_StoreID c)"

definition store_id :: "workbenchStoreRecord \<Rightarrow> string \<times> string" where
  "store_id r = (wsr_OrganizationID r, wsr_ID r)"

abbreviation succeeded_charge :: "storeServiceChargeRow \<Rightarrow> bool" where
  "succeeded_charge c \<equiv> scr_State c = ''succeeded''"

definition charge_ok :: "storeServiceChargeRow \<Rightarrow> bool" where
  "charge_ok c \<longleftrightarrow>
     (case scr_IntentJSON c of Bytes i \<Rightarrow> intent_ok c i | BadBytes \<Rightarrow> False | NoBytes \<Rightarrow> scr_State c = ''admitted'')
     \<and> (scr_State c = ''admitted'' \<and> scr_ReservationID c = [] \<or> scr_State c = ''bound'' \<and> scr_ReservationID c \<noteq> []
        \<or> succeeded_charge c \<and> scr_ReservationID c \<noteq> [] \<or> scr_State c = ''failed_fenced'')"

text \<open>The paid period that a record shows.\<close>

definition paid_period :: "workbenchStoreRecord \<Rightarrow> (gotime \<times> gotime) option" where
  "paid_period r = (case (wsr_ServiceStartedAt r, wsr_ServiceExpiresAt r) of
     (Some a, Some b) \<Rightarrow> Some (a, b) | _ \<Rightarrow> None)"

text \<open>The operation wrote the period that the record shows.\<close>

definition pays_for :: "storeServiceChargeRow \<Rightarrow> workbenchStoreRecord \<Rightarrow> bool" where
  "pays_for c r \<longleftrightarrow> succeeded_charge c \<and> charge_store c = store_id r \<and> charge_version c \<le> wsr_Version r
     \<and> (\<exists>s. scr_SnapshotJSON c = encode_snapshot s \<and> sss_StartedAt (sos_ServiceState s) = wsr_ServiceStartedAt r
          \<and> sss_ExpiresAt (sos_ServiceState s) = wsr_ServiceExpiresAt r)"

definition backed :: "storeServiceChargeRow list \<Rightarrow> workbenchStoreRecord \<Rightarrow> bool" where
  "backed cs r \<longleftrightarrow> wsr_ServiceStartedAt r = None \<and> wsr_ServiceExpiresAt r = None \<or> (\<exists>c\<in>set cs. pays_for c r)"

definition store_inv :: "store_db \<Rightarrow> bool" where
  "store_inv db \<longleftrightarrow>
     distinct (map wsr_ID (sdb_stores db)) \<and> distinct (map charge_key (sdb_charges db))
     \<and> (\<forall>r\<in>set (sdb_stores db). 1 \<le> wsr_Version r \<and> in64 (wsr_Version r) \<and> backed (sdb_charges db) r)
     \<and> (\<forall>c\<in>set (sdb_charges db). charge_ok c)
     \<and> (\<forall>c\<in>set (sdb_charges db). succeeded_charge c \<longrightarrow>
          (\<exists>r\<in>set (sdb_stores db). store_id r = charge_store c \<and> charge_version c \<le> wsr_Version r))
     \<and> (\<forall>c\<in>set (sdb_charges db). \<forall>d\<in>set (sdb_charges db). succeeded_charge c \<longrightarrow> succeeded_charge d \<longrightarrow>
          charge_store c = charge_store d \<longrightarrow> charge_version c = charge_version d \<longrightarrow> c = d)"

lemma store_invD:
  assumes "store_inv db"
  shows "distinct (map wsr_ID (sdb_stores db))" "distinct (map charge_key (sdb_charges db))"
    "\<And>r. r \<in> set (sdb_stores db) \<Longrightarrow> 1 \<le> wsr_Version r \<and> in64 (wsr_Version r) \<and> backed (sdb_charges db) r"
    "\<And>c. c \<in> set (sdb_charges db) \<Longrightarrow> charge_ok c"
    "\<And>c. c \<in> set (sdb_charges db) \<Longrightarrow> succeeded_charge c \<Longrightarrow>
       \<exists>r\<in>set (sdb_stores db). store_id r = charge_store c \<and> charge_version c \<le> wsr_Version r"
    "\<And>c d. c \<in> set (sdb_charges db) \<Longrightarrow> d \<in> set (sdb_charges db) \<Longrightarrow> succeeded_charge c \<Longrightarrow> succeeded_charge d \<Longrightarrow>
       charge_store c = charge_store d \<Longrightarrow> charge_version c = charge_version d \<Longrightarrow> c = d"
  using assms unfolding store_inv_def by blast+

section \<open>What stays\<close>

text \<open>A charge keeps its identity and intent; its reservation once bound; everything once it ended.\<close>

definition charge_kept :: "storeServiceChargeRow \<Rightarrow> storeServiceChargeRow \<Rightarrow> bool" where
  "charge_kept c c' \<longleftrightarrow> charge_key c' = charge_key c \<and> scr_StoreID c' = scr_StoreID c
     \<and> scr_IntentJSON c' = scr_IntentJSON c \<and> (scr_ReservationID c \<noteq> [] \<longrightarrow> scr_ReservationID c' = scr_ReservationID c)
     \<and> (terminal_state (scr_State c) \<longrightarrow> c' = c)"

text \<open>Every change of a store record raises its version.\<close>

definition store_kept :: "workbenchStoreRecord \<Rightarrow> workbenchStoreRecord \<Rightarrow> bool" where
  "store_kept r r' \<longleftrightarrow> store_id r' = store_id r \<and> (r' = r \<or> wsr_Version r < wsr_Version r')"

definition store_rel :: "store_db \<Rightarrow> store_db \<Rightarrow> bool" where
  "store_rel db db' \<longleftrightarrow> (store_inv db \<longrightarrow> store_inv db'
     \<and> rows_kept charge_kept (sdb_charges db) (sdb_charges db')
     \<and> rows_kept store_kept (sdb_stores db) (sdb_stores db'))"

lemma charge_kept_refl [simp]: "charge_kept c c"
  by (simp add: charge_kept_def)

lemma store_kept_refl [simp]: "store_kept r r"
  by (simp add: store_kept_def)

lemma charge_kept_trans: "charge_kept a b \<Longrightarrow> charge_kept b c \<Longrightarrow> charge_kept a c"
  by (auto simp: charge_kept_def)

lemma store_kept_trans: "store_kept a b \<Longrightarrow> store_kept b c \<Longrightarrow> store_kept a c"
  by (auto simp: store_kept_def)

lemma store_rel_refl [simp]: "store_rel db db"
  by (simp add: store_rel_def rows_kept_refl)

lemma store_rel_trans: "store_rel a b \<Longrightarrow> store_rel b c \<Longrightarrow> store_rel a c"
  unfolding store_rel_def
  using rows_kept_trans [of charge_kept] rows_kept_trans [of store_kept] charge_kept_trans store_kept_trans
  by blast

lemma run_tx_rel:
  assumes "\<And>a db'. body db = Inr (a, db') \<Longrightarrow> store_rel db db'"
  shows "store_rel db (fst (run_tx flt body db))"
  using run_tx_state [of flt body db] assms by (metis store_rel_refl)

text \<open>A change of other tables is none here.\<close>

lemma store_rel_frame:
  assumes "sdb_stores db' = sdb_stores db" "sdb_charges db' = sdb_charges db"
  shows "store_rel db db'"
  using assms by (simp add: store_rel_def store_inv_def rows_kept_refl)

section \<open>Records\<close>

text \<open>
  A transaction of the record lifecycle replaces one record: the version goes up, and the period
  of the record stays or is cleared.
\<close>

lemma backed_same:
  assumes "backed cs r" "store_id r' = store_id r" "wsr_Version r \<le> wsr_Version r'"
    "wsr_ServiceStartedAt r' = wsr_ServiceStartedAt r \<and> wsr_ServiceExpiresAt r' = wsr_ServiceExpiresAt r
     \<or> wsr_ServiceStartedAt r' = None \<and> wsr_ServiceExpiresAt r' = None"
  shows "backed cs r'"
proof (cases "wsr_ServiceStartedAt r' = None \<and> wsr_ServiceExpiresAt r' = None")
  case False
  then obtain c where c: "c \<in> set cs" "pays_for c r" and eq: "wsr_ServiceStartedAt r' = wsr_ServiceStartedAt r"
    "wsr_ServiceExpiresAt r' = wsr_ServiceExpiresAt r"
    using assms(1,4) by (auto simp: backed_def)
  have "pays_for c r'" using c(2) assms(2,3) unfolding pays_for_def eq by auto
  with c(1) show ?thesis by (auto simp: backed_def)
qed (simp add: backed_def)

lemma unique_row:
  assumes "distinct (map key t)" "r \<in> set t" "x \<in> set t" "key x = key r"
  shows "x = r"
  using assms by (metis distinct_map inj_onD)

lemma store_replace:
  assumes inv: "store_inv db" and r: "r \<in> set (sdb_stores db)"
    and hit: "\<And>x. x \<in> set (sdb_stores db) \<Longrightarrow> P x \<longleftrightarrow> x = r"
    and r': "store_id (f r) = store_id r" "wsr_Version r < wsr_Version (f r)" "in64 (wsr_Version (f r))"
    and db': "sdb_stores db' = update_rows P f (sdb_stores db)" "sdb_charges db' = sdb_charges db"
    and period: "wsr_ServiceStartedAt (f r) = wsr_ServiceStartedAt r \<and> wsr_ServiceExpiresAt (f r) = wsr_ServiceExpiresAt r
      \<or> wsr_ServiceStartedAt (f r) = None \<and> wsr_ServiceExpiresAt (f r) = None"
  shows "store_rel db db'"
  unfolding store_rel_def
proof (intro impI conjI)
  note I = store_invD [OF inv]
  have rows: "set (sdb_stores db') = {x \<in> set (sdb_stores db). x \<noteq> r} \<union> {f r}"
    using r hit by (auto simp: db'(1) set_update_rows split: if_splits)
  have kept: "rows_kept store_kept (sdb_stores db) (sdb_stores db')"
    using r' by (auto simp: rows_kept_def rows store_kept_def)
  then show "rows_kept store_kept (sdb_stores db) (sdb_stores db')" .
  show "rows_kept charge_kept (sdb_charges db) (sdb_charges db')" by (simp add: db'(2) rows_kept_refl)
  have ids: "map wsr_ID (sdb_stores db') = map wsr_ID (sdb_stores db)"
    using r' hit by (auto simp: db'(1) update_rows_def store_id_def)
  have "1 \<le> wsr_Version x \<and> in64 (wsr_Version x) \<and> backed (sdb_charges db) x" if "x \<in> set (sdb_stores db')" for x
    using that I(3) r r' backed_same [OF _ r'(1) _ period, of "sdb_charges db"] by (force simp: rows)
  moreover have "\<exists>x\<in>set (sdb_stores db'). store_id x = charge_store c \<and> charge_version c \<le> wsr_Version x"
    if c: "c \<in> set (sdb_charges db)" "succeeded_charge c" for c
  proof -
    obtain x where x: "x \<in> set (sdb_stores db)" "store_id x = charge_store c" "charge_version c \<le> wsr_Version x"
      using I(5) [OF c] by blast
    then obtain x' where "x' \<in> set (sdb_stores db')" "store_kept x x'" using kept by (auto simp: rows_kept_def)
    with x show ?thesis by (auto simp: store_kept_def)
  qed
  ultimately show "store_inv db'"
    using I(1,2,4,6) by (simp add: store_inv_def ids db'(2))
qed

lemma find_active_Some:
  "find_active org sid db = Some r \<Longrightarrow> r \<in> set (sdb_stores db) \<and> in_scope org r \<and> wsr_ID r = sid"
  unfolding find_active_def by (drule find_SomeD) simp

lemma RehydrateStore_Inr: "RehydrateStore s = Inr x \<Longrightarrow> x = s"
  by (auto simp: RehydrateStore_def newStoreFromSnapshot_def split: if_splits)

lemma RehydrateStore_version: "RehydrateStore s = Inr x \<Longrightarrow> 1 \<le> sto_Version s"
  by (auto simp: RehydrateStore_def newStoreFromSnapshot_def minimumRecordVersion_def split: if_splits)

lemma Store_Save_rel:
  assumes run: "Store_Save cd org s v db = Inr db'"
  shows "store_rel db db'"
proof (cases "store_inv db")
  case True
  note I = store_invD [OF True]
  let ?hit = "\<lambda>x. in_scope org x \<and> wsr_ID x = sto_ID s \<and> wsr_Version x = v"
  obtain r durable z where g: "find_active org (sto_ID s) db = Some r" "rehydrateRecord r = Inr durable"
    "sto_Version s = add64 v 1" "RehydrateStore s = Inr z" "sto_Version durable = v"
    "validateSaveSnapshot durable s = None" "list_ex ?hit (sdb_stores db)"
    "db' = db\<lparr>sdb_stores := update_rows ?hit (saved_record cd s) (sdb_stores db)\<rparr>"
    using run by (auto simp: Store_Save_def loadActiveRecord_def or_fail_Inr_iff ok_simps Let_def split: if_splits)
  have d: "durable = snapshot_of_record r" using RehydrateStore_Inr g(2) by (simp add: rehydrateRecord_def)
  have r: "r \<in> set (sdb_stores db)" "in_scope org r" "wsr_ID r = sto_ID s" using find_active_Some [OF g(1)] by auto
  have v: "wsr_Version r = v" using g(5) by (simp add: d snapshot_of_record_def)
  have hit: "?hit x \<longleftrightarrow> x = r" if "x \<in> set (sdb_stores db)" for x
    using unique_row [OF I(1) r(1) that] r v by auto
  have "in64 (v + 1)"
  proof (rule ccontr)
    assume "\<not> in64 (v + 1)"
    then have "v = max64" using I(3) [OF r(1)] v by (simp add: in64_unfold)
    then have "sto_Version s = min64" using g(3) by (simp add: add64_def wrap64_def max64_def min64_def)
    with RehydrateStore_version [OF g(4)] show False by (simp add: min64_def)
  qed
  then have v1: "sto_Version s = v + 1" "in64 (v + 1)" using g(3) by (simp_all add: add64_eq)
  have same: "sto_OrganizationID s = wsr_OrganizationID r" "sto_ID s = wsr_ID r"
    "sto_ServiceStartedAt s = wsr_ServiceStartedAt r \<and> sto_ServiceExpiresAt s = wsr_ServiceExpiresAt r
     \<or> sto_ServiceStartedAt s = None \<and> sto_ServiceExpiresAt s = None"
    using g(6) by (auto simp: validateSaveSnapshot_def Let_def d snapshot_of_record_def serviceState_def split: if_splits)
  show ?thesis
    by (rule store_replace [OF True r(1) hit _ _ _ , where f = "saved_record cd s"])
       (use g(8) v v1 same in \<open>auto simp: saved_record_def columns_def serviceState_def store_id_def\<close>)
qed (simp add: store_rel_def)

lemma Store_SoftDelete_rel:
  assumes run: "Store_SoftDelete now org sid v db = Inr db'"
  shows "store_rel db db'"
proof (cases "store_inv db")
  case True
  note I = store_invD [OF True]
  let ?hit = "\<lambda>x. in_scope org x \<and> wsr_ID x = sid \<and> wsr_Version x = v \<and> wsr_RecordStatus x = RecordStatusDeleting"
  obtain r t where g: "r \<in> set (sdb_stores db)" "?hit r" "v \<noteq> max64"
    "db' = db\<lparr>sdb_stores := update_rows ?hit (\<lambda>x. x\<lparr>wsr_DeletedAt := Some t, wsr_UpdatedAt := t,
        wsr_Version := wsr_Version x + 1, wsr_RecordStatus := RecordStatusDeleted,
        wsr_ServiceStatus := None, wsr_ServiceStartedAt := None, wsr_ServiceExpiresAt := None\<rparr>) (sdb_stores db)\<rparr>"
    using run by (auto simp: Store_SoftDelete_def ok_simps Let_def list_ex_iff split: if_splits option.splits)
  have hit: "?hit x \<longleftrightarrow> x = r" if "x \<in> set (sdb_stores db)" for x
    using unique_row [OF I(1) g(1) that] g(2) by auto
  have "in64 (wsr_Version r + 1)" using I(3) [OF g(1)] g(2,3) by (simp add: in64_unfold)
  then show ?thesis
    by (intro store_replace [OF True g(1) hit]) (use g(4) in \<open>auto simp: store_id_def\<close>)
qed (simp add: store_rel_def)

text \<open>The audit trail and the grants are other tables.\<close>

lemma Audit_Record_frame:
  "Audit_Record now e db = Inr (x, db') \<Longrightarrow> sdb_stores db' = sdb_stores db \<and> sdb_charges db' = sdb_charges db"
  by (auto simp: Audit_Record_def ok_simps split: if_splits)

lemma grant_frames:
  "recordMemberGrantOperation cd c a v t db = Inr db' \<Longrightarrow> sdb_stores db' = sdb_stores db \<and> sdb_charges db' = sdb_charges db"
  "create_grant g db = Inr db' \<Longrightarrow> sdb_stores db' = sdb_stores db \<and> sdb_charges db' = sdb_charges db"
  "sdb_stores (update_grant g b a t db) = sdb_stores db" "sdb_charges (update_grant g b a t db) = sdb_charges db"
  by (auto simp: recordMemberGrantOperation_def create_grant_def update_grant_def ok_simps)

lemma revoke_grants_frame:
  "revoke_grants cd t org sid s gs db = Inr db' \<Longrightarrow> sdb_stores db' = sdb_stores db \<and> sdb_charges db' = sdb_charges db"
proof (induction cd t org sid s gs db rule: revoke_grants.induct)
  case (2 cd t org sid s g gs db)
  then show ?case by (auto simp: ok_simps grant_frames(3,4) dest: grant_frames(1) split: if_splits)
qed simp

lemma setMemberGrantTx_rel: "setMemberGrantTx cd t access c db = Inr (u, db') \<Longrightarrow> store_rel db db'"
  by (rule store_rel_frame)
     (auto simp: setMemberGrantTx_def ok_simps Let_def grant_frames(3,4) dest!: grant_frames(1,2)
       split: option.splits if_splits)

lemma store_create:
  assumes inv: "store_inv db" and fresh: "\<forall>x\<in>set (sdb_stores db). \<not> store_clash r x"
    and r: "wsr_Version r = 1" "wsr_ServiceStartedAt r = None" "wsr_ServiceExpiresAt r = None"
    and db': "sdb_stores db' = sdb_stores db @ [r]" "sdb_charges db' = sdb_charges db"
  shows "store_rel db db'"
proof -
  note I = store_invD [OF inv]
  have "wsr_ID r \<notin> wsr_ID ` set (sdb_stores db)" using fresh by (auto simp: store_clash_def)
  moreover have "backed (sdb_charges db) r" using r by (simp add: backed_def)
  ultimately have "store_inv db'"
    using I r by (fastforce simp: store_inv_def db' in64_unfold)
  then show ?thesis by (simp add: store_rel_def db' rows_kept_refl rows_kept_append)
qed

lemma createOrReplay_rel:
  assumes run: "createOrReplay cd u t org s db = Inr (out, db')"
  shows "store_rel db db'"
proof (cases "store_inv db \<and> db' \<noteq> db")
  case True
  let ?r = "recordFromSnapshot s (identityKey cd s) (createRequestFingerprint cd s)"
  have "create_row store_clash ?r (sdb_stores db) = Some (sdb_stores db')" "sdb_charges db' = sdb_charges db"
    "requirePristineCreateSnapshot s = None"
    using run True
    by (auto simp: createOrReplay_def Let_def ok_simps split: option.splits if_splits dest!: Audit_Record_frame)
  then show ?thesis
    using True by (intro store_create [of db ?r])
      (auto simp: row_simps requirePristineCreateSnapshot_def recordFromSnapshot_def split: if_splits)
qed (auto simp: store_rel_def rows_kept_refl)

lemma memberCreateTx_rel:
  assumes "memberCreateTx cd env access org s db = Inr (out, db')"
  shows "store_rel db db'"
proof -
  obtain o1 db1 where 1: "createOrReplay cd (env_uuid env 0) (env_now env 0) org s db = Inr (o1, db1)"
    "sdb_stores db' = sdb_stores db1" "sdb_charges db' = sdb_charges db1"
    using assms by (auto simp: memberCreateTx_def ok_simps split: if_splits dest!: grant_frames(1,2))
  show ?thesis by (rule store_rel_trans [OF createOrReplay_rel [OF 1(1)] store_rel_frame [OF 1(2,3)]])
qed

lemma deleteRecordTx_rel:
  assumes "deleteRecordTx cd env r t db = Inr (out, db')"
  shows "store_rel db db'"
proof (cases "db' = db")
  case False
  then obtain org s1 v db1 now sid v2 db2 where d: "Store_Save cd org s1 v db = Inr db1"
    "Store_SoftDelete now org sid v2 db1 = Inr db2" "sdb_stores db' = sdb_stores db2" "sdb_charges db' = sdb_charges db2"
    using assms by (auto simp: deleteRecordTx_def Let_def ok_simps split: if_splits sum.splits dest!: Audit_Record_frame)
  show ?thesis
    by (rule store_rel_trans [OF Store_Save_rel [OF d(1)]
        store_rel_trans [OF Store_SoftDelete_rel [OF d(2)] store_rel_frame [OF d(3,4)]]])
qed simp

lemma memberDeleteTx_rel:
  assumes "memberDeleteTx cd env access r t db = Inr (out, db')"
  shows "store_rel db db'"
proof -
  obtain o1 db1 where 1: "deleteRecordTx cd env r t db = Inr (o1, db1)"
    "sdb_stores db' = sdb_stores db1" "sdb_charges db' = sdb_charges db1"
    using assms
    by (auto simp: memberDeleteTx_def Let_def ok_simps revokeStoreGrants_def split: if_splits dest!: revoke_grants_frame)
  show ?thesis by (rule store_rel_trans [OF deleteRecordTx_rel [OF 1(1)] store_rel_frame [OF 1(2,3)]])
qed

section \<open>Charges\<close>

lemma readServiceCharge_Inr:
  assumes "readServiceCharge cd org op db = Inr (row, p)"
  shows "row \<in> set (sdb_charges db)" "charge_key row = (org, op)" "scr_IntentJSON row = Bytes (scp_Intent p)"
    "scp_ReservationID p = scr_ReservationID row" "scp_State p = scr_State row" "scp_EvidenceID p = scr_EvidenceID row"
    "validServiceIntent (scp_Intent p)" "scr_StoreID row = sex_StoreID (sci_Execution (scp_Intent p))"
    "sex_OrganizationID (sci_Execution (scp_Intent p)) = org" "sex_OperationID (sci_Execution (scp_Intent p)) = op"
    "scp_FailureCode p = scr_FailureCode row"
    "scr_State row = ''succeeded'' \<Longrightarrow> scr_SnapshotJSON row = Bytes (scp_Snapshot p)
       \<and> ValidateStoreServiceState (sos_ServiceState (scp_Snapshot p)) = None"
proof -
  have a: "find (\<lambda>r. charge_key r = (org, op)) (sdb_charges db) = Some row"
    and b: "intent_of_row cd org op row = Some (scp_Intent p)" and c: "scp_ReservationID p = scr_ReservationID row"
    "scp_State p = scr_State row" "scp_EvidenceID p = scr_EvidenceID row" "scp_FailureCode p = scr_FailureCode row"
    and d: "scr_State row = ''succeeded'' \<Longrightarrow> snapshot_of_row cd org op (scp_Intent p) row = Some (scp_Snapshot p)"
    using assms by (auto simp: readServiceCharge_def ok_simps Let_def or_fail_Inr_iff split: if_splits)
  show "row \<in> set (sdb_charges db)" "charge_key row = (org, op)" using find_SomeD [OF a] by auto
  show "scp_ReservationID p = scr_ReservationID row" "scp_State p = scr_State row"
    "scp_EvidenceID p = scr_EvidenceID row" "scp_FailureCode p = scr_FailureCode row" using c by auto
  show "scr_IntentJSON row = Bytes (scp_Intent p)" "validServiceIntent (scp_Intent p)"
    "scr_StoreID row = sex_StoreID (sci_Execution (scp_Intent p))"
    "sex_OrganizationID (sci_Execution (scp_Intent p)) = org" "sex_OperationID (sci_Execution (scp_Intent p)) = op"
    using b by (auto simp: intent_of_row_def split: blob.splits if_splits)
  show "scr_SnapshotJSON row = Bytes (scp_Snapshot p) \<and> ValidateStoreServiceState (sos_ServiceState (scp_Snapshot p)) = None"
    if "scr_State row = ''succeeded''"
    using d [OF that] by (auto simp: snapshot_of_row_def split: blob.splits if_splits)
qed

text \<open>The intent a caller brings is the one in the row, when the code finds them the same.\<close>

lemma same_intent:
  assumes "charge_ok c" "scr_IntentJSON c = Bytes i" "sameServiceChargeIntent i j"
  shows "j = i"
  using assms by (auto simp: charge_ok_def intent_ok_def sameServiceChargeIntent_def encode_intent_def split: if_splits)

text \<open>Rewriting one charge row.\<close>

lemma charge_replace:
  assumes inv: "store_inv db" and c: "c \<in> set (sdb_charges db)" "\<not> terminal_state (scr_State c)"
    and P: "\<And>x. x \<in> set (sdb_charges db) \<Longrightarrow> P x \<longleftrightarrow> x = c"
    and c': "charge_kept c (f c)" "charge_ok (f c)" "\<not> succeeded_charge (f c)"
    and db': "sdb_charges db' = update_rows P f (sdb_charges db)" "sdb_stores db' = sdb_stores db"
  shows "store_rel db db'"
  unfolding store_rel_def
proof (intro impI conjI)
  note I = store_invD [OF inv]
  have rows: "set (sdb_charges db') = {x \<in> set (sdb_charges db). x \<noteq> c} \<union> {f c}"
    using c(1) P by (auto simp: db'(1) set_update_rows split: if_splits)
  have keys: "map charge_key (sdb_charges db') = map charge_key (sdb_charges db)"
    using P c'(1) by (auto simp: db'(1) update_rows_def charge_kept_def)
  have "\<not> succeeded_charge c" using c(2) by (auto simp: terminal_state_def)
  then have keeps: "backed (sdb_charges db') r" if "backed (sdb_charges db) r" for r
    using that by (auto simp: backed_def rows pays_for_def)
  show "rows_kept charge_kept (sdb_charges db) (sdb_charges db')"
    using c'(1) by (auto simp: rows_kept_def rows)
  show "rows_kept store_kept (sdb_stores db) (sdb_stores db')" by (simp add: db'(2) rows_kept_refl)
  show "store_inv db'"
    unfolding store_inv_def keys db'(2)
    using I(1,2) I(3) keeps I(4,5,6) c'(2,3) by (simp add: rows)
qed

lemma charge_create:
  assumes inv: "store_inv db" and fresh: "charge_key c \<notin> charge_key ` set (sdb_charges db)"
    and c: "charge_ok c" "\<not> succeeded_charge c"
    and db': "sdb_charges db' = sdb_charges db @ [c]" "sdb_stores db' = sdb_stores db"
  shows "store_rel db db'"
proof -
  note I = store_invD [OF inv]
  have "backed (sdb_charges db') r" if "backed (sdb_charges db) r" for r
    using that by (auto simp: backed_def db'(1))
  then have "store_inv db'" using I fresh c by (auto simp: store_inv_def db')
  then show ?thesis by (simp add: store_rel_def db' rows_kept_refl rows_kept_append)
qed

text \<open>The operation and the record change together.\<close>

lemma charge_apply:
  assumes inv: "store_inv db" and c: "c \<in> set (sdb_charges db)" "\<not> terminal_state (scr_State c)"
    and P: "\<And>x. x \<in> set (sdb_charges db) \<Longrightarrow> P x \<longleftrightarrow> x = c"
    and c': "charge_kept c (f c)" "charge_ok (f c)" "succeeded_charge (f c)"
    and r: "r \<in> set (sdb_stores db)" and Q: "\<And>x. x \<in> set (sdb_stores db) \<Longrightarrow> Q x \<longleftrightarrow> x = r"
    and r': "store_id (g r) = store_id r" "wsr_Version (g r) = wsr_Version r + 1" "in64 (wsr_Version (g r))"
    and both: "pays_for (f c) (g r)" "charge_version (f c) = wsr_Version (g r)"
    and db': "sdb_charges db' = update_rows P f (sdb_charges db)" "sdb_stores db' = update_rows Q g (sdb_stores db)"
  shows "store_rel db db'"
  unfolding store_rel_def
proof (intro impI conjI)
  note I = store_invD [OF inv]
  have rows: "set (sdb_charges db') = {x \<in> set (sdb_charges db). x \<noteq> c} \<union> {f c}"
    using c(1) P by (auto simp: db'(1) set_update_rows split: if_splits)
  have stores: "set (sdb_stores db') = {x \<in> set (sdb_stores db). x \<noteq> r} \<union> {g r}"
    using r Q by (auto simp: db'(2) set_update_rows split: if_splits)
  have keys: "map charge_key (sdb_charges db') = map charge_key (sdb_charges db)"
    "map wsr_ID (sdb_stores db') = map wsr_ID (sdb_stores db)"
    using P c'(1) Q r'(1) by (auto simp: db' update_rows_def charge_kept_def store_id_def)
  have open_c: "\<not> succeeded_charge c" using c(2) by (auto simp: terminal_state_def)
  have same: "charge_store (f c) = store_id r" using both(1) r'(1) by (simp add: pays_for_def)
  show kept: "rows_kept store_kept (sdb_stores db) (sdb_stores db')"
    using r' by (auto simp: rows_kept_def stores store_kept_def)
  show "rows_kept charge_kept (sdb_charges db) (sdb_charges db')" using c'(1) by (auto simp: rows_kept_def rows)
  have v: "1 \<le> wsr_Version x \<and> in64 (wsr_Version x) \<and> backed (sdb_charges db') x" if "x \<in> set (sdb_stores db')" for x
  proof (cases "x = g r")
    case True
    then show ?thesis using both(1) r' I(3) [OF r] by (auto simp: backed_def rows)
  next
    case False
    with that have x: "x \<in> set (sdb_stores db)" by (simp add: stores)
    then have "backed (sdb_charges db') x" using I(3) [OF x] open_c by (auto simp: backed_def rows pays_for_def)
    with I(3) [OF x] show ?thesis by simp
  qed
  have old: "charge_version d \<le> wsr_Version r"
    if d: "d \<in> set (sdb_charges db)" "succeeded_charge d" "charge_store d = store_id r" for d
  proof -
    obtain x where x: "x \<in> set (sdb_stores db)" "store_id x = charge_store d" "charge_version d \<le> wsr_Version x"
      using I(5) [OF d(1,2)] by blast
    then have "x = r" using unique_row [OF I(1) r x(1)] d(3) by (simp add: store_id_def)
    with x(3) show ?thesis by simp
  qed
  have "\<exists>x\<in>set (sdb_stores db'). store_id x = charge_store d \<and> charge_version d \<le> wsr_Version x"
    if d: "d \<in> set (sdb_charges db')" "succeeded_charge d" for d
  proof (cases "d = f c")
    case True
    then show ?thesis using same r'(1) both(2) by (auto simp: stores)
  next
    case False
    then have "d \<in> set (sdb_charges db)" using d(1) by (simp add: rows)
    then obtain x where x: "x \<in> set (sdb_stores db)" "store_id x = charge_store d" "charge_version d \<le> wsr_Version x"
      using I(5) [OF _ d(2)] by blast
    then obtain x' where "x' \<in> set (sdb_stores db')" "store_kept x x'" using kept by (auto simp: rows_kept_def)
    with x show ?thesis by (auto simp: store_kept_def)
  qed
  moreover have "a = b" if "a \<in> set (sdb_charges db')" "b \<in> set (sdb_charges db')" "succeeded_charge a"
    "succeeded_charge b" "charge_store a = charge_store b" "charge_version a = charge_version b" for a b
    using that old [of a] old [of b] I(6) [of a b] same both(2) r'(2) by (auto simp: rows)
  moreover have "charge_ok d" if "d \<in> set (sdb_charges db')" for d using that I(4) c'(2) by (auto simp: rows)
  ultimately show "store_inv db'"
    unfolding store_inv_def keys using I(1,2) v by blast
qed

lemma admitTx_rel:
  assumes run: "admitTx cd t access i db = Inr (out, db')" and i: "validServiceIntent i"
  shows "store_rel db db'"
proof (cases "store_inv db \<and> db' \<noteq> db")
  case True
  then have "create_row (\<lambda>r x. charge_key r = charge_key x) (admitted_row t i) (sdb_charges db) = Some (sdb_charges db')"
    "sdb_stores db' = sdb_stores db"
    using run by (auto simp: admitTx_def Let_def ok_simps split: sum.splits option.splits if_splits)
  then show ?thesis
    using True i by (intro charge_create [of db "admitted_row t i"])
      (auto simp: row_simps charge_ok_def admitted_row_def encode_intent_def intent_ok_def charge_key_def)
qed (auto simp: store_rel_def rows_kept_refl)

lemma charge_hit:
  assumes "store_inv db" "row \<in> set (sdb_charges db)" "x \<in> set (sdb_charges db)"
  shows "charge_key x = charge_key row \<longleftrightarrow> x = row"
  using unique_row [OF store_invD(2) [OF assms(1)] assms(2,3)] by auto

lemma charge_okD:
  assumes "charge_ok c"
  shows "scr_State c \<in> {''admitted'', ''bound'', ''succeeded'', ''failed_fenced''}"
    "scr_State c = ''admitted'' \<Longrightarrow> scr_ReservationID c = []" "scr_State c = ''bound'' \<Longrightarrow> scr_ReservationID c \<noteq> []"
    "succeeded_charge c \<Longrightarrow> scr_ReservationID c \<noteq> []"
    "scr_IntentJSON c = Bytes i \<Longrightarrow> intent_ok c i"
  using assms by (auto simp: charge_ok_def)

lemma bindTx_rel:
  assumes run: "bindTx cd t access i reservation db = Inr (out, db')" and res: "reservation \<noteq> []"
  shows "store_rel db db'"
proof (cases "store_inv db \<and> db' \<noteq> db")
  case True
  then have inv: "store_inv db" by simp
  let ?f = "\<lambda>x. x\<lparr>scr_ReservationID := reservation, scr_State := ''bound'', scr_UpdatedAt := t\<rparr>"
  obtain row p where g: "readServiceCharge cd (sex_OrganizationID (sci_Execution i)) (sex_OperationID (sci_Execution i)) db = Inr (row, p)"
    "scr_State row = ''admitted''" "db' = update_charge row ?f db"
    using run True by (auto simp: bindTx_def Let_def ok_simps split: if_splits)
  note R = readServiceCharge_Inr [OF g(1)]
  note C = charge_okD [OF store_invD(4) [OF inv R(1)]]
  have row: "scr_ReservationID row = []" "intent_ok row (scp_Intent p)" using C(2) g(2) C(5) [OF R(3)] by auto
  have f: "charge_kept row (?f row)" "charge_ok (?f row)" "\<not> succeeded_charge (?f row)"
    using row g(2) R(3) res
    by (simp_all add: terminal_state_def charge_kept_def charge_key_def charge_ok_def intent_ok_def)
  show ?thesis
    by (rule charge_replace [where f = ?f, OF inv R(1) _ charge_hit [OF inv R(1)]])
       (use f in \<open>simp_all add: g(2,3) terminal_state_def update_charge_def\<close>)
qed (auto simp: store_rel_def rows_kept_refl)

lemma complete_hit:
  assumes "store_inv db" "row \<in> set (sdb_charges db)" "\<not> terminal_state (scr_State row)" "x \<in> set (sdb_charges db)"
    "charge_key row' = charge_key row"
  shows "charge_key x = charge_key row' \<and> (scr_State x = ''admitted'' \<or> scr_State x = ''bound'') \<longleftrightarrow> x = row"
  using charge_hit [OF assms(1,2,4)] charge_okD(1) [OF store_invD(4) [OF assms(1,2)]] assms(3,5)
  by (auto simp: terminal_state_def)

text \<open>Ending an operation as failed, perhaps with the reservation that the caller holds.\<close>

lemma fail_rel:
  assumes inv: "store_inv db" and row: "row \<in> set (sdb_charges db)" "\<not> terminal_state (scr_State row)"
    and p: "scr_IntentJSON row = Bytes i" "scp_State p = ''failed_fenced''"
    and row': "row' = row \<or> scr_ReservationID row = [] \<and> row' = row\<lparr>scr_ReservationID := rid\<rparr>"
  shows "store_rel db (completeServiceCharge cd t row' p db)"
proof -
  have key: "charge_key row' = charge_key row" using row' by (auto simp: charge_key_def)
  note C = charge_okD [OF store_invD(4) [OF inv row(1)]]
  show ?thesis
    by (rule charge_replace [OF inv row complete_hit [OF inv row _ key], where f = "completed_row cd t row' p"])
       (use C(5) [OF p(1)] p row row' in
         \<open>auto simp: charge_kept_def completed_row_def charge_key_def charge_ok_def intent_ok_def completeServiceCharge_def\<close>)
qed

lemma fenceTx_rel:
  assumes run: "fenceTx cd t i reservation code db = Inr (out, db')"
  shows "store_rel db db'"
proof (cases "store_inv db \<and> db' \<noteq> db")
  case True
  obtain row p where g: "readServiceCharge cd (sex_OrganizationID (sci_Execution i)) (sex_OperationID (sci_Execution i)) db = Inr (row, p)"
    "\<not> terminal_state (scr_State row)" "db' = completeServiceCharge cd t (if scr_ReservationID row = [] \<and> reservation \<noteq> []
       then row\<lparr>scr_ReservationID := reservation\<rparr> else row) (failed_proof p code) db"
    using run True by (auto simp: fenceTx_def Let_def ok_simps terminal_state_def split: if_splits)
  note R = readServiceCharge_Inr [OF g(1)]
  show ?thesis unfolding g(3)
    by (rule fail_rel [OF _ R(1) g(2) R(3), where rid = reservation]) (use True in \<open>auto simp: failed_proof_def\<close>)
qed (auto simp: store_rel_def rows_kept_refl)

lemma LockServiceState_Inr:
  assumes "LockServiceState k db = Inr st"
  obtains r where "r \<in> set (sdb_stores db)" "in_scope (ssi_OrganizationID k) r" "wsr_ID r = ssi_StoreID k"
    "svs_Identity st = k" "svs_ConnectionRef st = wsr_ConnectionRef r" "svs_Version st = wsr_Version r"
    "svs_State st = serviceStateFromRecord r" "ValidateStoreServiceState (svs_State st) = None"
proof -
  obtain r where r: "find_active (ssi_OrganizationID k) (ssi_StoreID k) db = Some r"
    "ValidateStoreServiceState (serviceStateFromRecord r) = None"
    "st = \<lparr>svs_Identity = \<lparr>ssi_OrganizationID = wsr_OrganizationID r, ssi_StoreID = wsr_ID r\<rparr>,
       svs_ConnectionRef = wsr_ConnectionRef r, svs_Version = wsr_Version r, svs_UpdatedAt = wsr_UpdatedAt r,
       svs_State = serviceStateFromRecord r\<rparr>"
    using assms by (auto simp: LockServiceState_def loadActiveRecord_def ok_simps or_fail_Inr_iff)
  from find_active_Some [OF r(1)] r(2,3) show thesis
    by (intro that [of r]) (auto simp: in_scope_def)
qed

lemma ApplyServiceState_Inr:
  assumes "ApplyServiceState m db = Inr db1"
  shows "db1 = db\<lparr>sdb_stores := update_rows (apply_target m) (applied_record m) (sdb_stores db)\<rparr>"
    "list_ex (apply_target m) (sdb_stores db)" "ValidateStoreServiceState (svm_State m) = None"
    "sss_RecordStatus (svm_State m) = RecordStatusActive"
  using assms by (auto simp: ApplyServiceState_def split: if_splits option.splits)

text \<open>The three ways in which the apply step commits.\<close>

lemma applyTx_cases:
  assumes run: "applyTx cd at stamp a i connection db = Inr (out, db')" and inv: "store_inv db"
  obtains (same) "db' = db"
  | (fail) row p code where "row \<in> set (sdb_charges db)" "scr_State row = ''bound''" "scr_IntentJSON row = Bytes i"
      "db' = completeServiceCharge cd stamp row (failed_proof p code) db"
  | (succeed) row p r target where "row \<in> set (sdb_charges db)" "scr_State row = ''bound''" "scr_IntentJSON row = Bytes i"
      "charge_key row = (sex_OrganizationID (sci_Execution i), sex_OperationID (sci_Execution i))"
      "r \<in> set (sdb_stores db)" "store_id r = charge_store row" "wsr_Version r = sex_ExpectedStoreVersion (sci_Execution i)"
      "serviceChargeTarget (serviceStateFromRecord r) (sci_Execution i) connection at = Inr target"
      "db' = db\<lparr>sdb_stores := update_rows (\<lambda>x. x = r) (applied_record
          \<lparr>svm_Identity = service_store (sci_Execution i), svm_ExpectedVersion = wsr_Version r,
           svm_ExpectedConnectionRef = wsr_ConnectionRef r, svm_State = target,
           svm_ActorSubject = sex_ActorSubject (sci_Execution i), svm_OccurredAt = at\<rparr>) (sdb_stores db),
        sdb_charges := sdb_charges (completeServiceCharge cd stamp row (succeeded_proof cd (sci_Execution i) target p) db)\<rparr>"
proof -
  let ?e = "sci_Execution i"
  obtain row p where rp: "readServiceCharge cd (sex_OrganizationID ?e) (sex_OperationID ?e) db = Inr (row, p)"
    "sameServiceChargeIntent (scp_Intent p) i"
    using run by (auto simp: applyTx_def Let_def ok_simps split: if_splits)
  note R = readServiceCharge_Inr [OF rp(1)]
  have i: "i = scp_Intent p" by (rule same_intent [OF store_invD(4) [OF inv R(1)] R(3) rp(2)])
  note I = store_invD [OF inv]
  consider "db' = db" | d where "scr_State row = ''bound''" "apply_decision at a i connection db = Inr d"
    "(case d of Inl code \<Rightarrow> Inr ((), completeServiceCharge cd stamp row (failed_proof p code) db)
      | Inr (store, target) \<Rightarrow> and_then (ApplyServiceState
              \<lparr>svm_Identity = svs_Identity store, svm_ExpectedVersion = svs_Version store,
               svm_ExpectedConnectionRef = svs_ConnectionRef store, svm_State = target,
               svm_ActorSubject = sex_ActorSubject ?e, svm_OccurredAt = at\<rparr> db) (\<lambda>db1.
            Inr ((), completeServiceCharge cd stamp row (succeeded_proof cd ?e target p) db1))) = Inr (out, db')"
    using run rp by (auto simp: applyTx_def Let_def ok_simps split: if_splits)
  then show thesis
  proof cases
    case 1
    then show ?thesis by (rule same)
  next
    case (2 d)
    show ?thesis
    proof (cases d)
      case (Inl code)
      then show ?thesis using fail [of row p code] R(1,3) i 2 by simp
    next
      case (Inr st)
      obtain store target where st: "st = (store, target)" by (cases st)
      let ?m = "\<lparr>svm_Identity = svs_Identity store, svm_ExpectedVersion = svs_Version store,
               svm_ExpectedConnectionRef = svs_ConnectionRef store, svm_State = target,
               svm_ActorSubject = sex_ActorSubject ?e, svm_OccurredAt = at\<rparr>"
      obtain db1 where a: "ApplyServiceState ?m db = Inr db1"
        "db' = completeServiceCharge cd stamp row (succeeded_proof cd ?e target p) db1"
        using 2(3) by (auto simp: Inr st ok_simps)
      have dec: "LockServiceState (service_store ?e) db = Inr store" "svs_Version store = sex_ExpectedStoreVersion ?e"
        "serviceChargeTarget (svs_State store) ?e connection at = Inr target"
        using 2(2) by (auto simp: Inr st apply_decision_def Let_def ok_simps split: if_splits sum.splits)
      obtain r where r: "r \<in> set (sdb_stores db)" "in_scope (ssi_OrganizationID (service_store ?e)) r"
        "wsr_ID r = ssi_StoreID (service_store ?e)" "svs_Identity store = service_store ?e"
        "svs_ConnectionRef store = wsr_ConnectionRef r" "svs_Version store = wsr_Version r"
        "svs_State store = serviceStateFromRecord r"
        by (rule LockServiceState_Inr [OF dec(1)])
      note A = ApplyServiceState_Inr [OF a(1)]
      have hit: "apply_target ?m x \<longleftrightarrow> x = r" if "x \<in> set (sdb_stores db)" for x
      proof -
        obtain y where y: "y \<in> set (sdb_stores db)" "apply_target ?m y" using A(2) by (auto simp: list_ex_iff)
        then have "y = r" using unique_row [OF I(1) r(1) y(1)] r(3,4) by (simp add: apply_target_def)
        with y that unique_row [OF I(1) r(1) that] r(3,4) show ?thesis by (auto simp: apply_target_def)
      qed
      have upd: "update_rows (apply_target ?m) f (sdb_stores db) = update_rows (\<lambda>x. x = r) f (sdb_stores db)" for f
        using hit by (auto simp: update_rows_def)
      show ?thesis
        by (rule succeed [of row r target p])
           (use R(1,2,3,8) i 2(1) r dec A(1) a(2) upd in
             \<open>auto simp: store_id_def charge_store_def charge_key_def service_store_def in_scope_def completeServiceCharge_def\<close>)
    qed
  qed
qed

lemma applyTx_rel:
  assumes run: "applyTx cd at stamp a i connection db = Inr (out, db')"
  shows "store_rel db db'"
proof (cases "store_inv db")
  case inv: True
  note I = store_invD [OF inv]
  from run inv show ?thesis
  proof (cases rule: applyTx_cases)
    case (fail row p code)
    then show ?thesis by (auto intro!: fail_rel [OF inv] simp: terminal_state_def failed_proof_def)
  next
    case (succeed row p r target)
    let ?e = "sci_Execution i" let ?p = "succeeded_proof cd ?e target p" let ?f = "completed_row cd stamp row ?p"
    let ?g = "applied_record \<lparr>svm_Identity = service_store ?e, svm_ExpectedVersion = wsr_Version r,
           svm_ExpectedConnectionRef = wsr_ConnectionRef r, svm_State = target,
           svm_ActorSubject = sex_ActorSubject ?e, svm_OccurredAt = at\<rparr>"
    note C = charge_okD [OF I(4) [OF succeed(1)]]
    have i: "intent_ok row i" using C(5) [OF succeed(3)] .
    have nt: "\<not> terminal_state (scr_State row)" using succeed(2) by (simp add: terminal_state_def)
    have vr: "1 \<le> wsr_Version r" "in64 (wsr_Version r)" "wsr_Version r \<noteq> max64"
      using I(3) [OF succeed(5)] i succeed(7) by (auto simp: intent_ok_def validServiceIntent_def Let_def)
    then have v1: "in64 (wsr_Version r + 1)" by (simp add: in64_unfold)
    have f: "charge_kept row (?f row)" "charge_ok (?f row)" "succeeded_charge (?f row)" "charge_store (?f row) = charge_store row"
      "charge_version (?f row) = wsr_Version r + 1"
      using i nt C(3) succeed(2,3,7)
      by (simp_all add: charge_kept_def completed_row_def charge_key_def charge_ok_def intent_ok_def succeeded_proof_def
          charge_store_def charge_version_def charge_intent_def)
    have g: "store_id (?g r) = store_id r" "wsr_Version (?g r) = wsr_Version r + 1"
      using v1 by (simp_all add: applied_record_def columns_def store_id_def add64_eq)
    have pays: "pays_for (?f row) (?g r)"
      using f(3,4,5) g succeed(6) unfolding pays_for_def
      by (intro conjI exI [of _ "scp_Snapshot ?p"])
         (simp_all add: completed_row_def succeeded_proof_def applied_record_def columns_def)
    show ?thesis
      by (rule charge_apply [where f = ?f and g = ?g, OF inv succeed(1) nt complete_hit [OF inv succeed(1) nt _ refl]
            f(1-3) succeed(5) _ g(1,2)])
         (use pays f(5) g(2) v1 succeed(9) in \<open>simp_all add: completeServiceCharge_def\<close>)
  qed simp
qed (simp add: store_rel_def)

end
