(* ===== verification/Res_Charge_Frames.thy ===== *)
theory Res_Charge_Frames
  imports Res_System
begin

text \<open>
  What the calls of the resource ledger do to the reservations of consumer charges: a charge is
  never lost, keeps its intent and identifier, and is settled only by a proof that its owner gave.
\<close>

abbreviation charge_row_intent :: "organizationResourceReservationRow \<Rightarrow> ConsumerChargeIntent" where
  "charge_row_intent r \<equiv> ccr_Intent (consumerChargeReceipt r)"

definition same_charge ::
  "organizationResourceReservationRow \<Rightarrow> organizationResourceReservationRow \<Rightarrow> bool" where
  "same_charge r r' \<longleftrightarrow> reservation_id r' = reservation_id r \<and> rsv_ChargeProtocol r' = rsv_ChargeProtocol r
     \<and> charge_row_intent r' = charge_row_intent r"

text \<open>\<open>Q i rid st\<close>: the charge with intent \<open>i\<close> and reservation \<open>rid\<close> may be settled as \<open>st\<close>.\<close>

definition charges_agree :: "(ConsumerChargeIntent \<Rightarrow> string \<Rightarrow> string \<Rightarrow> bool) \<Rightarrow> 'o res_db \<Rightarrow> bool" where
  "charges_agree Q db \<longleftrightarrow> (\<forall>r\<in>set (rdb_reservations db).
     rsv_ChargeProtocol r = consumerChargeProtocol \<longrightarrow> rsv_State r \<noteq> ReservationReserved \<longrightarrow>
     Q (charge_row_intent r) (rsv_ReservationID r) (rsv_State r))"

definition charges_rel ::
  "(ConsumerChargeIntent \<Rightarrow> string \<Rightarrow> string \<Rightarrow> bool) \<Rightarrow> 'o res_db \<Rightarrow> 'o res_db \<Rightarrow> bool" where
  "charges_rel Q db db' \<longleftrightarrow> (res_inv db \<longrightarrow> res_inv db'
     \<and> rows_kept same_charge (rdb_reservations db) (rdb_reservations db')
     \<and> (charges_agree Q db \<longrightarrow> charges_agree Q db'))"

lemma same_charge_refl [simp]: "same_charge r r"
  by (simp add: same_charge_def)

lemma same_charge_trans: "same_charge a b \<Longrightarrow> same_charge b c \<Longrightarrow> same_charge a c"
  by (simp add: same_charge_def)

lemma charges_rel_refl: "charges_rel Q db db"
  by (simp add: charges_rel_def rows_kept_refl)

lemma charges_rel_trans: "charges_rel Q a b \<Longrightarrow> charges_rel Q b c \<Longrightarrow> charges_rel Q a c"
  unfolding charges_rel_def using rows_kept_trans [of same_charge] same_charge_trans by blast

interpretation cr: commit_relation "charges_rel Q" for Q
  by unfold_locales (auto intro: charges_rel_refl charges_rel_trans)

section \<open>Transactions\<close>

lemma charges_rel_same:
  assumes "res_rel db db'" "res_inv db \<Longrightarrow> rdb_reservations db' = rdb_reservations db"
  shows "charges_rel Q db db'"
  using assms by (auto simp: charges_rel_def res_rel_def charges_agree_def rows_kept_refl)

lemma charges_rel_append:
  assumes "res_rel db db'" "res_inv db \<Longrightarrow> rdb_reservations db' = rdb_reservations db
      \<or> (\<exists>row. rdb_reservations db' = rdb_reservations db @ [row] \<and> rsv_State row = ReservationReserved)"
  shows "charges_rel Q db db'"
  using assms
  by (force simp: charges_rel_def res_rel_def charges_agree_def rows_kept_refl rows_kept_append)

lemma charges_rel_replace:
  assumes "res_rel db db'" "res_inv db" "r \<in> set (rdb_reservations db)"
    "rdb_reservations db' = update_rows (\<lambda>x. reservation_id x = reservation_id r) (\<lambda>_. r') (rdb_reservations db)"
    "same_charge r r'"
    "rsv_ChargeProtocol r = consumerChargeProtocol \<Longrightarrow> Q (charge_row_intent r') (rsv_ReservationID r') (rsv_State r')"
  shows "charges_rel Q db db'"
  unfolding charges_rel_def
proof (intro impI conjI)
  have uniq: "x = r" if "x \<in> set (rdb_reservations db)" "reservation_id x = reservation_id r" for x
    using ledger_okD(7) [of db] assms(2,3) that by (metis distinct_map inj_onD res_inv_def)
  show "res_inv db'" using assms(1,2) by (simp add: res_rel_def)
  show "rows_kept same_charge (rdb_reservations db) (rdb_reservations db')"
    unfolding assms(4) by (rule rows_kept_update) (use uniq assms(5) in auto)
  show "charges_agree Q db'" if "charges_agree Q db"
    using that assms(5,6) by (auto simp: charges_agree_def assms(4) set_update_rows same_charge_def)
qed

lemma granted_reservations: "granted e c db db' \<Longrightarrow> rdb_reservations db' = rdb_reservations db"
  by (simp add: granted_def)

lemma res_inv_parts: "res_inv db \<Longrightarrow> ledger_ok db \<and> members_ok db"
  by (simp add: res_inv_def)

lemma welcomeGrantTx_charges:
  assumes "welcomeGrantTx x env db = Inr (r, db')" "0 < wgx_Quantity x" "in64 (wgx_Quantity x)"
    "validResourceType (wgx_ResourceType x)" "wgx_SourceType x = SourceOnboardingWelcomeStorePeriod"
  shows "charges_rel Q db db'"
  by (rule charges_rel_same [OF welcomeGrantTx_rel [OF assms]])
     (use assms in \<open>auto dest!: res_inv_parts elim!: welcomeGrantTx_effect dest: granted_reservations\<close>)

lemma purchasedGrantTx_charges:
  assumes "purchasedGrantTx x env db = Inr (r, db')" "0 < pgx_Quantity x" "in64 (pgx_Quantity x)"
    "validResourceType (pgx_ResourceType x)" "pgx_SourceType x = SourceCommercialOrderItem"
  shows "charges_rel Q db db'"
  by (rule charges_rel_same [OF purchasedGrantTx_rel [OF assms]])
     (use assms in \<open>auto dest!: res_inv_parts elim!: purchasedGrantTx_effect dest: granted_reservations\<close>)

lemma trialGrantTx_charges:
  assumes "executeTrialAIGrantTransaction x env db = Inr (r, db')"
  shows "charges_rel Q db db'"
  by (rule charges_rel_same [OF trialGrantTx_rel [OF assms]])
     (use assms in \<open>auto dest!: res_inv_parts elim!: executeTrialAIGrantTransaction_effect dest: granted_reservations\<close>)

lemma transferTx_charges:
  assumes "transferTx dg c env db = Inr (r, db')"
    and "ValidMemberResourceTransfer c" "in64 (mrt_Quantity c)"
  shows "charges_rel Q db db'"
proof (rule charges_rel_same [OF transferTx_rel [OF assms]])
  assume "res_inv db"
  then have ok: "ledger_ok db" "members_ok db" by (auto dest: res_inv_parts)
  from assms(1) ok assms(2,3) show "rdb_reservations db' = rdb_reservations db"
    by (cases rule: transferTx_effect) simp_all
qed

lemma setMonthlyLimitTx_charges:
  assumes "setMonthlyLimitTx dg i env db = Inr (out, db')"
  shows "charges_rel Q db db'"
  by (rule charges_rel_same [OF setMonthlyLimitTx_rel [OF assms]]) (rule setMonthlyLimitTx_effect [OF assms], simp)

lemma reservationTx_charges:
  assumes "reservationTx st x env db = Inr (r, db')"
    and "0 < rsx_Quantity x" "in64 (rsx_Quantity x)"
    and "rsx_OwnerType x \<notin> {SourceOnboardingWelcomeStorePeriod, SourceCommercialOrderItem, SourceLocalAITrial}"
  shows "charges_rel Q db db'"
proof (rule charges_rel_append [OF reservationTx_rel [OF assms]])
  assume "res_inv db"
  then have ok: "ledger_ok db" by (auto dest: res_inv_parts)
  from assms(1) ok assms(2-4) show "rdb_reservations db' = rdb_reservations db
      \<or> (\<exists>row. rdb_reservations db' = rdb_reservations db @ [row] \<and> rsv_State row = ReservationReserved)"
    by (cases rule: reservationTx_effect) auto
qed

lemma chargeReserveTx_charges:
  assumes "chargeReserveTx dg env i db = Inr (out, db')"
    and "ValidConsumerChargeIntent i" "in64 (ccn_Quantity i)"
  shows "charges_rel Q db db'"
proof (rule charges_rel_append [OF chargeReserveTx_rel [OF assms]])
  assume "res_inv db"
  then have ok: "ledger_ok db" "members_ok db" by (auto dest: res_inv_parts)
  from assms(1) ok assms(2,3) show "rdb_reservations db' = rdb_reservations db
      \<or> (\<exists>row. rdb_reservations db' = rdb_reservations db @ [row] \<and> rsv_State row = ReservationReserved)"
    by (cases rule: chargeReserveTx_effect) auto
qed

lemma settlementTx_charges:
  assumes run: "settlementTx st seed x env db = Inr (out, db')"
    and src: "rsv_OwnerType seed \<notin> {SourceOnboardingWelcomeStorePeriod, SourceCommercialOrderItem, SourceLocalAITrial}"
    and cons: "\<not> validResourceConsumer (rsv_OwnerType seed)"
  shows "charges_rel Q db db'"
proof (cases "res_inv db")
  case inv: True
  then have ok: "ledger_ok db" "members_ok db" by (auto dest: res_inv_parts)
  note rel = settlementTx_rel [OF assms]
  from run ok(1) src show ?thesis
  proof (cases rule: settlementTx_effect)
    case replay
    then show ?thesis by (simp add: charges_rel_refl)
  next
    case (settle e r r')
    then obtain t where r': "r' = r\<lparr>rsv_State := rsv_State r', rsv_SettlementOperationID := Some (stx_OperationID x),
        rsv_SettledAt := Some t\<rparr>" by blast
    have "same_charge r r'"
      by (subst r') (simp add: same_charge_def reservation_id_def consumerChargeReceipt_def)
    moreover have "rsv_ChargeProtocol r \<noteq> consumerChargeProtocol"
      using members_okD(5) [OF ok(2) settle(4)] cons settle(6) by (auto simp: consumer_row_def)
    ultimately show ?thesis
      using charges_rel_replace [OF rel inv settle(4,7)] by blast
  qed
qed (simp add: charges_rel_def)

lemma receipt_reservation:
  "ccr_ReservationID (consumerChargeReceipt r) = rsv_ReservationID r"
  "rsv_ReservationID (settled_row r st ev b t oper) = rsv_ReservationID r"
  by (simp_all add: consumerChargeReceipt_def settled_row_def)

lemma chargeSettleTx_reservation:
  "chargeSettleTx dg env (original, tproof) db = Inr (out, db') \<Longrightarrow> ccr_ReservationID out = ccr_ReservationID original"
  by (auto simp: chargeSettleTx_def Let_def ok_simps receipt_reservation split: if_splits)

lemma chargeSettleTx_charges:
  assumes run: "chargeSettleTx dg env (original, tproof) db = Inr (out, db')"
    and i: "ValidConsumerChargeIntent (ccr_Intent original)" "in64 (ccn_Quantity (ccr_Intent original))"
    and q: "Q (ccr_Intent original) (ccr_ReservationID original) (if ccp_State tproof = ConsumerEffectSucceeded
       then ReservationCommitted else ReservationReleased)"
  shows "charges_rel Q db db'"
proof (cases "res_inv db")
  case inv: True
  then have ok: "ledger_ok db" "members_ok db" by (auto dest: res_inv_parts)
  note rel = chargeSettleTx_rel [OF run i]
  from run ok refl i show ?thesis
  proof (cases rule: chargeSettleTx_effect)
    case replay
    then show ?thesis using charges_rel_same [OF rel] by simp
  next
    case (settle e r r' po')
    have id: "rsv_ReservationID r' = ccr_ReservationID original"
      using chargeSettleTx_reservation [OF run] settle(16) by (simp add: receipt_reservation)
    obtain b t oper where r': "r' = settled_row r (if ccp_State tproof = ConsumerEffectSucceeded
         then ReservationCommitted else ReservationReleased) (ccp_EvidenceID tproof) b t oper"
      using settle(9) by blast
    have same: "same_charge r r'" by (simp add: r' same_charge_def settled_row_def reservation_id_def consumerChargeReceipt_def)
    have "charge_row_intent r = ccr_Intent original" using settle(7) by (simp add: charged_row_def)
    then have "Q (charge_row_intent r') (rsv_ReservationID r') (rsv_State r')"
      using q same id by (simp add: same_charge_def) (simp add: r' settled_row_def)
    then show ?thesis using charges_rel_replace [OF rel inv settle(6,10) same] by blast
  qed
qed (simp add: charges_rel_def)

lemma rescheduled_charge:
  assumes "rescheduled r r'"
  shows "same_charge r r'" "rsv_State r' = rsv_State r" "rsv_ReservationID r' = rsv_ReservationID r"
  using assms by (auto simp: rescheduled_def same_charge_def reservation_id_def consumerChargeReceipt_def)

lemma claimDueTx_charges:
  assumes "claimDueTx consumers env db = Inr (ids, db')"
  shows "charges_rel Q db db'"
proof -
  obtain rs where rs: "db' = db\<lparr>rdb_reservations := rs\<rparr>" "list_all2 rescheduled (rdb_reservations db) rs"
    using claim_rows_effect assms by (metis claimDueTx_def)
  have old: "\<exists>r\<in>set (rdb_reservations db). rescheduled r r'" if "r' \<in> set rs" for r'
    using rs(2) that by (metis in_set_conv_nth list_all2_conv_all_nth)
  have "\<exists>r'\<in>set rs. rescheduled r r'" if "r \<in> set (rdb_reservations db)" for r
    using rs(2) that by (metis in_set_conv_nth list_all2_conv_all_nth)
  then have "rows_kept same_charge (rdb_reservations db) (rdb_reservations db')"
    unfolding rows_kept_def rs(1) using rescheduled_charge(1) by fastforce
  moreover have "charges_agree Q db'" if "charges_agree Q db"
    unfolding charges_agree_def
  proof (intro ballI impI)
    fix r'
    assume r': "r' \<in> set (rdb_reservations db')" "rsv_ChargeProtocol r' = consumerChargeProtocol"
      "rsv_State r' \<noteq> ReservationReserved"
    obtain r where "r \<in> set (rdb_reservations db)" "rescheduled r r'" using old r'(1) by (auto simp: rs(1))
    with r' that rescheduled_charge [of r r'] show "Q (charge_row_intent r') (rsv_ReservationID r') (rsv_State r')"
      by (auto simp: charges_agree_def same_charge_def)
  qed
  ultimately show ?thesis using claimDueTx_rel [OF assms] by (simp add: charges_rel_def res_rel_def)
qed

section \<open>Calls\<close>

text \<open>A proof is good for a charge when the outcome it reports may settle it.\<close>

definition proof_allowed ::
  "(ConsumerChargeIntent \<Rightarrow> string \<Rightarrow> string \<Rightarrow> bool) \<Rightarrow> ConsumerChargeReceipt \<Rightarrow> ConsumerChargeProof \<Rightarrow> bool" where
  "proof_allowed Q receipt p \<longleftrightarrow> Q (ccr_Intent receipt) (ccr_ReservationID receipt)
     (if ccp_State p = ConsumerEffectSucceeded then ReservationCommitted else ReservationReleased)"

interpretation cl: ledger_relation "charges_rel Q" "proof_allowed Q" for Q
proof unfold_locales
  show "charges_rel Q db db'" if "\<not> res_inv db" for db db' :: "'o res_db" using that by (simp add: charges_rel_def)
  show "charges_rel Q db db'"
    if "chargeSettleTx dg env (original, tproof) db = Inr (o6, db')" "ValidConsumerChargeIntent (ccr_Intent original)"
      "in64 (ccn_Quantity (ccr_Intent original))" "proof_allowed Q original tproof" for dg env original tproof o6
      and db db' :: "'o res_db"
    using chargeSettleTx_charges [OF that(1-3)] that(4) by (simp add: proof_allowed_def)
qed (erule trialGrantTx_charges setMonthlyLimitTx_charges claimDueTx_charges |
  (erule welcomeGrantTx_charges purchasedGrantTx_charges reservationTx_charges settlementTx_charges transferTx_charges
    chargeReserveTx_charges, assumption+))+

lemma res_step_charges:
  assumes "res_step_via (owners_give (proof_allowed Q)) dg db db'"
  shows "charges_rel Q db db'"
  by (rule cl.step_calls [OF assms])

end
