(* ===== verification/Store_Saga.thy ===== *)
theory Store_Saga
  imports Store_Executor Store_Laws Res_Charge_Frames
begin

text \<open>
  The Store Center and the resource ledger together. A service operation is paid by a charge that
  the ledger holds, and the two sides commit separately. Their joint invariant \<open>saga_inv\<close> says how
  far they can be apart: a settled charge always has the outcome that the store recorded, and a
  reservation that the store knows is in the ledger for the same intent.
\<close>

section \<open>Calls of the store\<close>

text \<open>Every operation that names a reservation may name it: \<open>B i rid\<close>.\<close>

definition links :: "(ServiceChargeIntent \<Rightarrow> string \<Rightarrow> bool) \<Rightarrow> store_db \<Rightarrow> bool" where
  "links B db \<longleftrightarrow> (\<forall>c\<in>set (sdb_charges db). \<forall>i. scr_IntentJSON c = Bytes i \<longrightarrow> scr_ReservationID c \<noteq> [] \<longrightarrow>
     B i (scr_ReservationID c))"

definition link_rel :: "(ServiceChargeIntent \<Rightarrow> string \<Rightarrow> bool) \<Rightarrow> store_db \<Rightarrow> store_db \<Rightarrow> bool" where
  "link_rel B db db' \<longleftrightarrow> store_rel db db' \<and> (store_inv db \<longrightarrow> links B db \<longrightarrow> links B db')"

lemma link_rel_refl [simp]: "link_rel B db db"
  by (simp add: link_rel_def)

lemma link_rel_trans:
  assumes "link_rel B a b" "link_rel B b c"
  shows "link_rel B a c"
proof -
  have "store_rel a c" using assms store_rel_trans unfolding link_rel_def by blast
  moreover have "store_inv a \<Longrightarrow> store_inv b" using assms(1) by (simp add: link_rel_def store_rel_def)
  ultimately show ?thesis using assms by (simp add: link_rel_def)
qed

lemma link_rel_same: "store_rel db db' \<Longrightarrow> sdb_charges db' = sdb_charges db \<Longrightarrow> link_rel B db db'"
  by (simp add: link_rel_def links_def)

lemma run_tx_link:
  assumes "\<And>a db'. body db = Inr (a, db') \<Longrightarrow> link_rel B db db'"
  shows "link_rel B db (fst (run_tx flt body db))"
  using run_tx_state [of flt body db] assms by (metis link_rel_refl)

text \<open>The record lifecycle and the grants leave the operations alone.\<close>

lemma Store_Save_charges: "Store_Save cd org s v db = Inr db' \<Longrightarrow> sdb_charges db' = sdb_charges db"
  by (auto simp: Store_Save_def ok_simps Let_def split: if_splits)

lemma Store_SoftDelete_charges: "Store_SoftDelete now org sid v db = Inr db' \<Longrightarrow> sdb_charges db' = sdb_charges db"
  by (auto simp: Store_SoftDelete_def ok_simps Let_def split: if_splits option.splits)

lemma createOrReplay_charges: "createOrReplay cd u t org s db = Inr (out, db') \<Longrightarrow> sdb_charges db' = sdb_charges db"
  by (auto simp: createOrReplay_def Let_def ok_simps split: option.splits if_splits dest!: Audit_Record_frame)

lemma memberCreateTx_charges: "memberCreateTx cd env access org s db = Inr (out, db') \<Longrightarrow> sdb_charges db' = sdb_charges db"
  by (auto simp: memberCreateTx_def ok_simps split: if_splits dest!: grant_frames(1,2) createOrReplay_charges)

lemma deleteRecordTx_charges: "deleteRecordTx cd env r t db = Inr (out, db') \<Longrightarrow> sdb_charges db' = sdb_charges db"
  by (auto simp: deleteRecordTx_def Let_def ok_simps split: if_splits sum.splits
      dest!: Audit_Record_frame Store_Save_charges Store_SoftDelete_charges)

lemma memberDeleteTx_charges: "memberDeleteTx cd env access r t db = Inr (out, db') \<Longrightarrow> sdb_charges db' = sdb_charges db"
  by (auto simp: memberDeleteTx_def Let_def ok_simps revokeStoreGrants_def split: if_splits
      dest!: revoke_grants_frame deleteRecordTx_charges)

lemma setMemberGrantTx_charges: "setMemberGrantTx cd t access c db = Inr (u, db') \<Longrightarrow> sdb_charges db' = sdb_charges db"
  by (auto simp: setMemberGrantTx_def ok_simps Let_def grant_frames(3,4) dest!: grant_frames(1,2)
       split: option.splits if_splits)

text \<open>The operations.\<close>

lemma admitTx_link:
  assumes run: "admitTx cd t access i db = Inr (out, db')" and i: "validServiceIntent i"
  shows "link_rel B db db'"
proof (cases "db' = db")
  case False
  then have "sdb_charges db' = sdb_charges db @ [admitted_row t i]"
    using run by (auto simp: admitTx_def Let_def ok_simps row_simps split: sum.splits option.splits if_splits)
  then have "links B db'" if "links B db" using that by (auto simp: links_def admitted_row_def)
  with admitTx_rel [OF assms] show ?thesis by (simp add: link_rel_def)
qed simp

lemma bindTx_link:
  assumes run: "bindTx cd t access i reservation db = Inr (out, db')" and res: "reservation \<noteq> []" "B i reservation"
  shows "link_rel B db db'"
  unfolding link_rel_def
proof (intro conjI impI)
  show "store_rel db db'" by (rule bindTx_rel [OF run res(1)])
  assume inv: "store_inv db" and ok: "links B db"
  show "links B db'"
  proof (cases "db' = db")
    case False
    let ?f = "\<lambda>x. x\<lparr>scr_ReservationID := reservation, scr_State := ''bound'', scr_UpdatedAt := t\<rparr>"
    obtain row p where g: "readServiceCharge cd (sex_OrganizationID (sci_Execution i)) (sex_OperationID (sci_Execution i)) db = Inr (row, p)"
      "sameServiceChargeIntent (scp_Intent p) i" "db' = update_charge row ?f db"
      using run False by (auto simp: bindTx_def Let_def ok_simps split: if_splits)
    note R = readServiceCharge_Inr [OF g(1)]
    have i: "i = scp_Intent p" by (rule same_intent [OF store_invD(4) [OF inv R(1)] R(3) g(2)])
    show ?thesis
      using ok res(2) R(3) charge_hit [OF inv R(1)]
      by (auto simp: g(3) links_def update_charge_def set_update_rows i)
  qed (simp add: ok)
qed

lemma complete_links:
  assumes "links B db" "scr_IntentJSON row = Bytes i" "scr_ReservationID row \<noteq> [] \<Longrightarrow> B i (scr_ReservationID row)"
    "\<And>x. x \<in> set (sdb_charges db) \<Longrightarrow> charge_key x = charge_key row \<Longrightarrow> scr_IntentJSON x = scr_IntentJSON row"
  shows "links B (completeServiceCharge cd stamp row p db)"
  using assms by (auto simp: links_def completeServiceCharge_def set_update_rows completed_row_def)

lemma fenceTx_link:
  assumes run: "fenceTx cd t i reservation code db = Inr (out, db')" and res: "reservation = [] \<or> B i reservation"
  shows "link_rel B db db'"
  unfolding link_rel_def
proof (intro conjI impI)
  show "store_rel db db'" by (rule fenceTx_rel [OF run])
  assume inv: "store_inv db" and ok: "links B db"
  show "links B db'"
  proof (cases "db' = db")
    case False
    obtain row p where g: "readServiceCharge cd (sex_OrganizationID (sci_Execution i)) (sex_OperationID (sci_Execution i)) db = Inr (row, p)"
      "sameServiceChargeIntent (scp_Intent p) i" "db' = completeServiceCharge cd t (if scr_ReservationID row = [] \<and> reservation \<noteq> []
         then row\<lparr>scr_ReservationID := reservation\<rparr> else row) (failed_proof p code) db"
      using run False by (auto simp: fenceTx_def Let_def ok_simps split: if_splits)
    note R = readServiceCharge_Inr [OF g(1)]
    have i: "i = scp_Intent p" by (rule same_intent [OF store_invD(4) [OF inv R(1)] R(3) g(2)])
    let ?row = "if scr_ReservationID row = [] \<and> reservation \<noteq> [] then row\<lparr>scr_ReservationID := reservation\<rparr> else row"
    have row: "charge_key ?row = charge_key row" "scr_IntentJSON ?row = Bytes i" using R(3) i by (simp_all add: charge_key_def)
    have "B i (scr_ReservationID ?row)" if "scr_ReservationID ?row \<noteq> []"
      using that R(1,3) i res ok by (auto simp: links_def split: if_splits)
    moreover have "scr_IntentJSON x = scr_IntentJSON ?row" if "x \<in> set (sdb_charges db)" "charge_key x = charge_key ?row" for x
      using that(2) charge_hit [OF inv R(1) that(1)] R(3) i unfolding row by simp
    ultimately show ?thesis unfolding g(3) by (rule complete_links [OF ok row(2)])
  qed (simp add: ok)
qed

lemma applyTx_link:
  assumes run: "applyTx cd at stamp a i connection db = Inr (out, db')"
  shows "link_rel B db db'"
  unfolding link_rel_def
proof (intro conjI impI)
  show "store_rel db db'" by (rule applyTx_rel [OF run])
  assume inv: "store_inv db" and ok: "links B db"
  have completed: "links B (completeServiceCharge cd stamp row p db)"
    if "row \<in> set (sdb_charges db)" "scr_IntentJSON row = Bytes i" for row p
    by (rule complete_links [OF ok that(2)]) (use that ok charge_hit [OF inv that(1)] in \<open>auto simp: links_def\<close>)
  from run inv show "links B db'"
    by (cases rule: applyTx_cases) (use ok completed in \<open>auto simp: links_def\<close>)
qed

text \<open>
  The calls that reach the store. A caller binds a reservation, or fences an operation with one,
  only for a reservation that \<open>B\<close> allows.
\<close>

inductive store_step :: "store_codec \<Rightarrow> (ServiceChargeIntent \<Rightarrow> string \<Rightarrow> bool) \<Rightarrow> store_db \<Rightarrow> store_db \<Rightarrow> bool"
  for cd B db where
  store_create: "store_step cd B db (fst (Member_CreateOrReplay cd env org s db))"
| store_save: "store_step cd B db (fst (Member_Save cd env org s v db))"
| store_soft_delete: "store_step cd B db (fst (Member_SoftDelete cd env org sid v db))"
| store_delete: "store_step cd B db (fst (Member_DeleteRecord cd env r at db))"
| store_grant: "store_step cd B db (fst (SetMemberGrant cd env c db))"
| store_admit: "store_step cd B db (fst (AdmitServiceCharge cd env i db))"
| store_bind: "B i rid \<Longrightarrow> store_step cd B db (fst (BindServiceCharge cd env i rid db))"
| store_apply: "store_step cd B db (fst (ApplyServiceCharge cd env i connection db))"
| store_fence: "rid = [] \<or> B i rid \<Longrightarrow> store_step cd B db (fst (FenceServiceCharge cd env i rid code db))"

inductive_cases store_stepE: "store_step cd B db db'"

lemma store_step_mono: "store_step cd B db db' \<Longrightarrow> (\<And>i rid. B i rid \<Longrightarrow> B' i rid) \<Longrightarrow> store_step cd B' db db'"
  by (erule store_stepE) (auto intro: store_step.intros)

lemma canonicalUUID_not_empty: "canonicalUUID v = None \<Longrightarrow> v \<noteq> []"
  by (auto simp: canonicalUUID_def split: if_splits)

lemma withWrite_link:
  assumes "\<And>s s'. mutation s = Inr s' \<Longrightarrow> store_rel s s' \<and> sdb_charges s' = sdb_charges s"
  shows "link_rel B db (fst (withWrite env org sid mutation db))"
proof -
  have "link_rel B db s'" if "mutation db = Inr s'" for s' using link_rel_same assms [OF that] by blast
  then show ?thesis
    by (auto simp: withWrite_def ok_simps split: sum.splits intro!: run_tx_link)
qed

lemma Member_SoftDelete_link: "link_rel B db (fst (Member_SoftDelete cd env org sid v db))"
  unfolding Member_SoftDelete_def
proof (rule withWrite_link)
  fix s s'
  assume "and_then (Store_Get org sid s) (\<lambda>x. and_then (Store_SoftDelete (env_now env 0) org sid v s)
    (revokeStoreGrants cd (env_now env 1) org sid x)) = Inr s'"
  then obtain x s1 where run: "Store_SoftDelete (env_now env 0) org sid v s = Inr s1"
    "revokeStoreGrants cd (env_now env 1) org sid x s1 = Inr s'"
    by (auto simp: ok_simps)
  have frame: "sdb_stores s' = sdb_stores s1" "sdb_charges s' = sdb_charges s1"
    using revoke_grants_frame [OF run(2) [unfolded revokeStoreGrants_def]] by simp_all
  show "store_rel s s' \<and> sdb_charges s' = sdb_charges s"
    using store_rel_trans [OF Store_SoftDelete_rel [OF run(1)] store_rel_frame [OF frame]]
      Store_SoftDelete_charges [OF run(1)] frame(2) by simp
qed

lemma BindServiceCharge_link:
  assumes "B i rid"
  shows "link_rel B db (fst (BindServiceCharge cd env i rid db))"
proof (cases "canonicalUUID rid")
  case None
  have "link_rel B db db1" if "run_tx flt (bindTx cd t access i rid) db = (db1, r)" for flt t access db1 r
    using run_tx_link [of "bindTx cd t access i rid" db B flt] bindTx_link [OF _ canonicalUUID_not_empty [OF None], of cd t access i db _ _ B]
      assms that by auto
  then show ?thesis
    by (auto simp: BindServiceCharge_def Let_def split: sum.splits prod.splits)
qed (simp add: BindServiceCharge_def)

lemma AdmitServiceCharge_link: "link_rel B db (fst (AdmitServiceCharge cd env i db))"
proof (cases "validServiceIntent i")
  case True
  have "link_rel B db db1" if "run_tx flt (admitTx cd t access i) db = (db1, r)" for flt t access db1 r
    using run_tx_link [of "admitTx cd t access i" db B flt] admitTx_link [OF _ True, of cd t access db _ _ B] that by auto
  then show ?thesis
    by (auto simp: AdmitServiceCharge_def Let_def split: sum.splits prod.splits)
qed (simp add: AdmitServiceCharge_def)

lemma ApplyServiceCharge_link: "link_rel B db (fst (ApplyServiceCharge cd env i connection db))"
proof -
  have "fst (apply_answer cd env i out) = fst out" for out
    by (auto simp: apply_answer_def split: prod.splits sum.splits)
  moreover have "link_rel B db (fst (run_tx flt (applyTx cd t t' a i connection) db))" for flt t t' a
    by (rule run_tx_link) (erule applyTx_link)
  ultimately show ?thesis by (simp add: ApplyServiceCharge_def Let_def split: option.splits)
qed

lemma FenceServiceCharge_link:
  assumes "rid = [] \<or> B i rid"
  shows "link_rel B db (fst (FenceServiceCharge cd env i rid code db))"
proof -
  have "link_rel B db db1" if "run_tx flt (fenceTx cd t i rid code) db = (db1, r)" for flt t db1 r
    using run_tx_link [of "fenceTx cd t i rid code" db B flt] fenceTx_link [where B = B, OF _ assms] that by auto
  then show ?thesis
    by (auto simp: FenceServiceCharge_def Let_def split: sum.splits prod.splits)
qed

lemma store_step_link:
  assumes "store_step cd B db db'"
  shows "link_rel B db db'"
  using assms
proof cases
  case (store_create env org s)
  then show ?thesis
    by (auto simp: Member_CreateOrReplay_def split: sum.splits
        intro!: run_tx_link link_rel_same [OF memberCreateTx_rel memberCreateTx_charges])
next
  case (store_save env org s v)
  then show ?thesis
    by (auto simp: Member_Save_def intro!: withWrite_link Store_Save_rel Store_Save_charges)
next
  case (store_delete env r at)
  then show ?thesis
    by (auto simp: Member_DeleteRecord_def split: option.splits sum.splits
        intro!: run_tx_link link_rel_same [OF memberDeleteTx_rel memberDeleteTx_charges])
next
  case (store_grant env c)
  then show ?thesis
    by (auto simp: SetMemberGrant_def split: option.splits sum.splits
        intro!: run_tx_link link_rel_same [OF setMemberGrantTx_rel setMemberGrantTx_charges])
qed (simp_all add: Member_SoftDelete_link BindServiceCharge_link AdmitServiceCharge_link ApplyServiceCharge_link
  FenceServiceCharge_link)

section \<open>The two owners\<close>

text \<open>The reservations that a ledger holds for the intent of an operation.\<close>

definition reserved_for :: "store_codec \<Rightarrow> digests \<Rightarrow> 'o res_db \<Rightarrow> ServiceChargeIntent \<Rightarrow> string \<Rightarrow> bool" where
  "reserved_for cd dg rdb i rid \<longleftrightarrow> (\<exists>r\<in>set (rdb_reservations rdb). rsv_ChargeProtocol r = consumerChargeProtocol
     \<and> charge_row_intent r = serviceResourceIntent cd dg i \<and> rsv_ReservationID r = rid)"

text \<open>
  What a ledger may do with a charge: settle a charge of a service operation only as the store
  ended the operation, under the reservation that the store knows.
\<close>

definition service_outcome :: "store_codec \<Rightarrow> digests \<Rightarrow> store_db \<Rightarrow> ConsumerChargeIntent \<Rightarrow> string \<Rightarrow> string \<Rightarrow> bool" where
  "service_outcome cd dg sdb ci rid st \<longleftrightarrow> (cci_Consumer (ccn_Identity ci) = ConsumerStoreService \<longrightarrow>
     (\<exists>c\<in>set (sdb_charges sdb). \<exists>i. scr_IntentJSON c = Bytes i \<and> serviceResourceIntent cd dg i = ci
        \<and> scr_ReservationID c = rid \<and> rid \<noteq> []
        \<and> (st = ReservationCommitted \<and> succeeded_charge c
           \<or> st = ReservationReleased \<and> scr_State c = ''failed_fenced'')))"

definition wired :: "store_codec \<Rightarrow> digests \<Rightarrow> store_db \<Rightarrow> charge_owners \<Rightarrow> bool" where
  "wired cd dg sdb owners \<longleftrightarrow>
     (\<exists>others flt. owners = others(ConsumerStoreService \<mapsto> ServiceChargeOwner cd dg flt sdb))"

inductive saga_step :: "store_codec \<Rightarrow> digests \<Rightarrow> 'o saga \<Rightarrow> 'o saga \<Rightarrow> bool" for cd dg s where
  saga_store: "store_step cd (reserved_for cd dg (sg_res s)) (sg_store s) sdb \<Longrightarrow> saga_step cd dg s (s\<lparr>sg_store := sdb\<rparr>)"
| saga_ledger: "res_step_via (wired cd dg (sg_store s)) dg (sg_res s) rdb \<Longrightarrow> saga_step cd dg s (s\<lparr>sg_res := rdb\<rparr>)"

definition saga_inv :: "store_codec \<Rightarrow> digests \<Rightarrow> 'o saga \<Rightarrow> bool" where
  "saga_inv cd dg s \<longleftrightarrow> store_inv (sg_store s) \<and> res_inv (sg_res s)
     \<and> links (reserved_for cd dg (sg_res s)) (sg_store s)
     \<and> charges_agree (service_outcome cd dg (sg_store s)) (sg_res s)"

lemma readServiceProof_Inr:
  assumes "ReadServiceChargeProof cd flt org op db = Inr p"
  obtains row where "readServiceCharge cd org op db = Inr (row, p)"
  using assms by (auto simp: ReadServiceChargeProof_def run_read_def ok_simps split: tx_fault.splits)

text \<open>The store gives a proof only for an operation that it ended under the same reservation.\<close>

lemma wired_gives:
  assumes "wired cd dg sdb owners"
  shows "owners_give (proof_allowed (service_outcome cd dg sdb)) owners"
  unfolding owners_give_def
proof (intro allI impI)
  fix own receipt tproof
  assume a: "owners (cci_Consumer (ccn_Identity (ccr_Intent receipt))) = Some own"
    "cco_ReadChargeProof own receipt = Inr tproof" "ccp_Intent tproof = ccr_Intent receipt"
    "ccp_ReservationID tproof = ccr_ReservationID receipt"
    "ccp_State tproof = ConsumerEffectSucceeded \<or> ccp_State tproof = ConsumerEffectFailed"
  show "proof_allowed (service_outcome cd dg sdb) receipt tproof"
  proof (cases "cci_Consumer (ccn_Identity (ccr_Intent receipt)) = ConsumerStoreService")
    case True
    obtain flt where own: "own = ServiceChargeOwner cd dg flt sdb"
      using assms a(1) True by (auto simp: wired_def)
    obtain p where read: "ReadServiceChargeProof cd flt (cci_OrganizationID (ccn_Identity (ccr_Intent receipt)))
        (cci_OperationID (ccn_Identity (ccr_Intent receipt))) sdb = Inr p"
      using a(2) True
      by (auto simp: own ServiceChargeOwner_def Owner_ReadChargeProof_def Let_def split: sum.splits)
    have p: "ccr_Intent receipt = serviceResourceIntent cd dg (scp_Intent p)" "scp_ReservationID p \<noteq> []"
      "ccr_ReservationID receipt = scp_ReservationID p"
      "ccp_State tproof = ConsumerEffectSucceeded \<and> scp_State p = ''succeeded''
       \<or> ccp_State tproof = ConsumerEffectFailed \<and> scp_State p = ''failed_fenced''"
      using a(2-5) True
      by (auto simp: own read ServiceChargeOwner_def Owner_ReadChargeProof_def Let_def split: if_splits)
    obtain row where "readServiceCharge cd (cci_OrganizationID (ccn_Identity (ccr_Intent receipt)))
        (cci_OperationID (ccn_Identity (ccr_Intent receipt))) sdb = Inr (row, p)"
      by (rule readServiceProof_Inr [OF read])
    note R = readServiceCharge_Inr [OF this]
    show ?thesis
      unfolding proof_allowed_def service_outcome_def
      using R(1,3,4,5) p by (intro impI bexI [of _ row] exI [of _ "scp_Intent p"]) auto
  qed (simp add: proof_allowed_def service_outcome_def)
qed

section \<open>The joint invariant\<close>

text \<open>What lasts: the operations, the records and the charges of the ledger.\<close>

definition saga_rel :: "store_codec \<Rightarrow> digests \<Rightarrow> 'o saga \<Rightarrow> 'o saga \<Rightarrow> bool" where
  "saga_rel cd dg s s' \<longleftrightarrow> (saga_inv cd dg s \<longrightarrow> saga_inv cd dg s'
     \<and> rows_kept charge_kept (sdb_charges (sg_store s)) (sdb_charges (sg_store s'))
     \<and> rows_kept store_kept (sdb_stores (sg_store s)) (sdb_stores (sg_store s'))
     \<and> rows_kept same_charge (rdb_reservations (sg_res s)) (rdb_reservations (sg_res s')))"

lemma saga_rel_refl: "saga_rel cd dg s s"
  by (simp add: saga_rel_def rows_kept_refl)

lemma saga_rel_trans: "saga_rel cd dg a b \<Longrightarrow> saga_rel cd dg b c \<Longrightarrow> saga_rel cd dg a c"
  unfolding saga_rel_def
  using rows_kept_trans [of charge_kept] rows_kept_trans [of store_kept] rows_kept_trans [of same_charge]
    charge_kept_trans store_kept_trans same_charge_trans
  by blast

lemma reserved_for_kept:
  assumes "reserved_for cd dg rdb i rid" "rows_kept same_charge (rdb_reservations rdb) (rdb_reservations rdb')"
  shows "reserved_for cd dg rdb' i rid"
proof -
  obtain r where r: "r \<in> set (rdb_reservations rdb)" "rsv_ChargeProtocol r = consumerChargeProtocol"
    "charge_row_intent r = serviceResourceIntent cd dg i" "rsv_ReservationID r = rid"
    using assms(1) by (auto simp: reserved_for_def)
  then obtain r' where "r' \<in> set (rdb_reservations rdb')" "same_charge r r'" using assms(2) by (auto simp: rows_kept_def)
  with r show ?thesis by (auto simp: reserved_for_def same_charge_def reservation_id_def intro!: bexI [of _ r'])
qed

lemma service_outcome_kept:
  assumes "service_outcome cd dg sdb ci rid st" "rows_kept charge_kept (sdb_charges sdb) (sdb_charges sdb')"
  shows "service_outcome cd dg sdb' ci rid st"
  unfolding service_outcome_def
proof
  assume "cci_Consumer (ccn_Identity ci) = ConsumerStoreService"
  then obtain c i where c: "c \<in> set (sdb_charges sdb)" "scr_IntentJSON c = Bytes i" "serviceResourceIntent cd dg i = ci"
    "scr_ReservationID c = rid" "rid \<noteq> []" "st = ReservationCommitted \<and> succeeded_charge c
       \<or> st = ReservationReleased \<and> scr_State c = ''failed_fenced''"
    using assms(1) unfolding service_outcome_def by blast
  then have "c \<in> set (sdb_charges sdb')"
    using assms(2) by (force simp: rows_kept_def charge_kept_def terminal_state_def)
  with c show "\<exists>c\<in>set (sdb_charges sdb'). \<exists>i. scr_IntentJSON c = Bytes i \<and> serviceResourceIntent cd dg i = ci
      \<and> scr_ReservationID c = rid \<and> rid \<noteq> [] \<and> (st = ReservationCommitted \<and> succeeded_charge c
        \<or> st = ReservationReleased \<and> scr_State c = ''failed_fenced'')"
    by blast
qed

lemma saga_step_rel:
  assumes "saga_step cd dg s s'"
  shows "saga_rel cd dg s s'"
  using assms
proof cases
  case (saga_store sdb)
  note rel = store_step_link [OF saga_store(2), unfolded link_rel_def store_rel_def]
  show ?thesis
    unfolding saga_rel_def
  proof (intro impI)
    assume inv: "saga_inv cd dg s"
    then have "store_inv sdb" "links (reserved_for cd dg (sg_res s)) sdb"
      and kept: "rows_kept charge_kept (sdb_charges (sg_store s)) (sdb_charges sdb)"
      "rows_kept store_kept (sdb_stores (sg_store s)) (sdb_stores sdb)"
      using rel by (auto simp: saga_inv_def)
    moreover have "charges_agree (service_outcome cd dg sdb) (sg_res s)"
      using inv service_outcome_kept [OF _ kept(1)] by (auto simp: saga_inv_def charges_agree_def)
    ultimately show "saga_inv cd dg s'
      \<and> rows_kept charge_kept (sdb_charges (sg_store s)) (sdb_charges (sg_store s'))
      \<and> rows_kept store_kept (sdb_stores (sg_store s)) (sdb_stores (sg_store s'))
      \<and> rows_kept same_charge (rdb_reservations (sg_res s)) (rdb_reservations (sg_res s'))"
      using inv by (simp add: saga_store(1) saga_inv_def rows_kept_refl)
  qed
next
  case (saga_ledger rdb)
  have "charges_rel (service_outcome cd dg (sg_store s)) (sg_res s) rdb"
    by (rule res_step_charges, rule res_step_via_mono [OF saga_ledger(2)], rule wired_gives)
  note rel = this [unfolded charges_rel_def]
  show ?thesis
    unfolding saga_rel_def
  proof (intro impI)
    assume inv: "saga_inv cd dg s"
    then have "res_inv rdb" and kept: "rows_kept same_charge (rdb_reservations (sg_res s)) (rdb_reservations rdb)"
      and "charges_agree (service_outcome cd dg (sg_store s)) rdb"
      using rel by (auto simp: saga_inv_def)
    moreover have "links (reserved_for cd dg rdb) (sg_store s)"
      using inv reserved_for_kept [OF _ kept] by (auto simp: saga_inv_def links_def)
    ultimately show "saga_inv cd dg s'
      \<and> rows_kept charge_kept (sdb_charges (sg_store s)) (sdb_charges (sg_store s'))
      \<and> rows_kept store_kept (sdb_stores (sg_store s)) (sdb_stores (sg_store s'))
      \<and> rows_kept same_charge (rdb_reservations (sg_res s)) (rdb_reservations (sg_res s'))"
      using inv by (simp add: saga_ledger(1) saga_inv_def rows_kept_refl)
  qed
qed

lemma saga_run_rel:
  assumes "reachable (saga_step cd dg) s s'"
  shows "saga_rel cd dg s s'"
  using assms by (induction rule: reachable.induct) (auto intro: saga_rel_refl saga_rel_trans saga_step_rel)

text \<open>The beginning: no stores, no resources; the debts that organizations already have.\<close>

definition empty_store :: store_db where
  "empty_store = \<lparr>sdb_stores = [], sdb_audits = [], sdb_grants = [], sdb_grant_ops = [], sdb_charges = []\<rparr>"

definition saga_init :: "gotime \<Rightarrow> (string \<times> ResourceType \<times> i64) list \<Rightarrow> 'o \<Rightarrow> 'o saga" where
  "saga_init now seeds owner = \<lparr>sg_store = empty_store, sg_res = res_init now seeds owner\<rparr>"

lemma saga_init_inv: "saga_inv cd dg (saga_init now seeds owner)"
proof -
  have "res_inv (res_init now seeds owner)" by (rule res_empty_inv [OF res_init_empty])
  moreover have "rdb_reservations (res_init now seeds owner) = []"
    using res_init_empty [of now seeds owner] by (simp add: res_empty_def)
  ultimately show ?thesis
    by (simp add: saga_inv_def saga_init_def empty_store_def store_inv_def links_def charges_agree_def)
qed

lemma saga_reachable_inv:
  assumes "reachable (saga_step cd dg) (saga_init now seeds owner) s"
  shows "saga_inv cd dg s"
  using saga_run_rel [OF assms] saga_init_inv [of cd dg now seeds owner] by (simp add: saga_rel_def)

end
