(* ===== verification/Store_Runs.thy ===== *)
theory Store_Runs
  imports Store_Saga
begin

text \<open>
  The runs of the coordinator. What it does is a sequence of calls of the store and of the ledger,
  with the calls of others in between, so every state it leaves satisfies the joint invariant; and
  the answers of the ledger are rows of the ledger.
\<close>

section \<open>Answers of the ledger\<close>

text \<open>The answer of a call is that of its last attempt, which left the final state.\<close>

lemma runWithRetry_last:
  assumes R: "\<And>s. R s s" "\<And>s t u. R s t \<Longrightarrow> R t u \<Longrightarrow> R s u"
  shows "runWithRetry c sqlite envs oper n db = (db', Inr a) \<Longrightarrow> (\<And>at s. R s (fst (oper at s))) \<Longrightarrow>
    \<exists>at s. R db s \<and> oper at s = (db', Inr a)"
proof (induction c sqlite envs oper n db rule: runWithRetry.induct)
  case (1 c sqlite envs oper n db)
  obtain db1 r where op: "oper (envs n) db = (db1, r)" by fastforce
  note run = 1(2) [unfolded runWithRetry.simps [of c sqlite envs oper n db]]
  have go: "\<not> cfg_MaxAttempts c < int n" "\<not> att_budget (envs n)" using run by (auto simp: Let_def split: if_splits)
  show ?case
  proof (cases r)
    case (Inr b)
    then have "db1 = db'" "b = a" using run go op by (simp_all add: Let_def)
    with op Inr R(1) show ?thesis by blast
  next
    case (Inl e)
    then have e: "att_ctx_after (envs n) = None" "\<not> (\<not> (e = DeadlineExceeded \<and> att_deadline (envs n)) \<and> \<not> retryable sqlite e)"
      "int n \<noteq> cfg_MaxAttempts c" "att_wait (envs n) = None" "runWithRetry c sqlite envs oper (Suc n) db1 = (db', Inr a)"
      using run go op by (auto simp: Let_def split: option.splits if_splits)
    have "oper (envs n) db = (db1, Inl e)" using op Inl by simp
    from 1(1) [OF go(1) refl go(2) this [symmetric] refl e(1,2,3,4,5) 1(3)] obtain at s where
      "R db1 s" "oper at s = (db', Inr a)" by blast
    moreover have "R db db1" using 1(3) [of db "envs n"] op by simp
    ultimately show ?thesis using R(2) by blast
  qed
qed

lemma run_body_last:
  assumes run: "run_body c sqlite envs body db = (db', Inr a)"
    and R: "\<And>s. R s s" "\<And>s t u. R s t \<Longrightarrow> R t u \<Longrightarrow> R s u" "\<And>env s b t. body env s = Inr (b, t) \<Longrightarrow> R s t"
  obtains env s where "R db s" "body env s = Inr (a, db')"
proof -
  let ?op = "\<lambda>at :: attempt. run_tx (att_fault at) (body (att_env at))"
  have op: "R s (fst (?op at s))" for at s
    using run_tx_state [of "att_fault at" "body (att_env at)" s] R(1,3) by metis
  have "\<exists>at s. R db s \<and> ?op at s = (db', Inr a)"
    using R(1,2) run [unfolded run_body_def] op by (rule runWithRetry_last [where R = R])
  then obtain at s where "R db s" "?op at s = (db', Inr a)" by blast
  moreover from this(2) have "body (att_env at) s = Inr (a, db')"
    by (auto simp: run_tx_def split: tx_fault.splits sum.splits prod.splits)
  ultimately show thesis using that by blast
qed

text \<open>A receipt that the ledger answers is a row of the ledger.\<close>

abbreviation receipt_in :: "'o res_db \<Rightarrow> ConsumerChargeReceipt \<Rightarrow> bool" where
  "receipt_in db receipt \<equiv> \<exists>r\<in>set (rdb_reservations db). rsv_ChargeProtocol r = consumerChargeProtocol
     \<and> receipt = consumerChargeReceipt r"

lemma ReadCharge_in: "ReadCharge c sqlite envs ident db = Inr receipt \<Longrightarrow> receipt_in db receipt"
  by (erule ReadCharge_Inr) blast

lemma chargeReserveTx_in:
  assumes run: "chargeReserveTx dg env i db = Inr (out, db')" and inv: "res_inv db"
    and i: "ValidConsumerChargeIntent i" "in64 (ccn_Quantity i)"
  shows "receipt_in db' out"
proof -
  have ok: "ledger_ok db" "members_ok db" using inv by (auto dest: res_inv_parts)
  from run ok i show ?thesis
  proof (cases rule: chargeReserveTx_effect)
    case (replay row)
    then show ?thesis using readConsumerReservation_Inr [OF replay(2)] by blast
  next
    case (reserve e row po')
    then show ?thesis by (auto simp: charged_row_def)
  qed
qed

lemma chargeSettleTx_in:
  assumes run: "chargeSettleTx dg env (original, tproof) db = Inr (out, db')" and inv: "res_inv db"
    and i: "ValidConsumerChargeIntent (ccr_Intent original)" "in64 (ccn_Quantity (ccr_Intent original))"
  shows "receipt_in db' out"
proof -
  have ok: "ledger_ok db" "members_ok db" using inv by (auto dest: res_inv_parts)
  from run ok refl i show ?thesis
  proof (cases rule: chargeSettleTx_effect)
    case (replay row)
    then show ?thesis by blast
  next
    case (settle e r r' po')
    have "rsv_ChargeProtocol r' = consumerChargeProtocol" using settle(7,9) by (auto simp: charged_row_def settled_row_def)
    moreover have "r' \<in> set (rdb_reservations db')" using settle(6,10) by (auto simp: set_update_rows)
    ultimately show ?thesis using settle(16) by blast
  qed
qed

lemma ReserveConsumerCharge_in:
  assumes run: "ReserveConsumerCharge dg owners c sqlite ev ident db = (db', Inr receipt)"
    and inv: "res_inv db" and owners: "charge_owners_in64 owners"
  shows "receipt_in db' receipt"
proof -
  obtain i own where i: "ValidConsumerChargeIntent i" "owners (cci_Consumer ident) = Some own"
    "cco_ReadChargeIntent own ident = Inr i" "ReserveCharge dg c sqlite ev i db = (db', Inr receipt)"
    using run by (auto simp: ReserveConsumerCharge_def split: if_splits option.splits sum.splits)
  have q: "in64 (ccn_Quantity i)" using owners i(2,3) unfolding charge_owners_in64_def by blast
  let ?body = "\<lambda>env. chargeReserveTx dg env i"
  obtain db1 r where r: "run_body c sqlite (xev_attempts ev) ?body db = (db1, r)" by fastforce
  show ?thesis
  proof (cases r)
    case (Inl e)
    then have "ReadCharge c sqlite (xev_after ev) (ccn_Identity i) db' = Inr receipt"
      using i(1,4) r by (auto simp: ReserveCharge_def split: sum.splits if_splits)
    then show ?thesis by (rule ReadCharge_in)
  next
    case (Inr x)
    then have last: "run_body c sqlite (xev_attempts ev) ?body db = (db', Inr receipt)"
      using i(1,4) r by (auto simp: ReserveCharge_def)
    obtain env s where s: "res_rel db s" "chargeReserveTx dg env i s = Inr (receipt, db')"
      by (rule run_body_last [OF last, of res_rel]) (auto intro: res_rel_refl res_rel_trans chargeReserveTx_rel [OF _ i(1) q])
    show ?thesis by (rule chargeReserveTx_in [OF s(2) _ i(1) q]) (use s(1) inv in \<open>simp add: res_rel_def\<close>)
  qed
qed

lemma Reconcile_in:
  assumes run: "Reconcile dg owners c sqlite ev ident db = (db', Inr receipt)" and inv: "res_inv db"
  shows "receipt_in db' receipt"
proof -
  obtain own original where o: "owners (cci_Consumer ident) = Some own"
    "ReadCharge c sqlite (xev_before ev) ident db = Inr original" "ValidConsumerChargeIntent (ccr_Intent original)"
    using run by (auto simp: Reconcile_def split: if_splits option.splits sum.splits)
  have orig: "receipt_in db original" by (rule ReadCharge_in [OF o(2)])
  have "db' = db \<and> receipt = original \<or> (\<exists>tproof. SettleCharge dg c sqlite ev original tproof db = (db', Inr receipt))"
    using run o by (cases "cco_ReadChargeProof own original") (simp_all add: Reconcile_def split: if_splits, blast+)
  then consider "db' = db" "receipt = original" | tproof where "SettleCharge dg c sqlite ev original tproof db = (db', Inr receipt)"
    by blast
  then show ?thesis
  proof cases
    case (2 tproof)
    let ?body = "\<lambda>env. chargeSettleTx dg env (original, tproof)"
    have q: "in64 (ccn_Quantity (ccr_Intent original))"
      using orig inv ledger_okD(9) [of db] by (auto simp: res_inv_def consumerChargeReceipt_def)
    obtain db1 r where r: "run_body c sqlite (xev_attempts ev) ?body db = (db1, r)" by fastforce
    show ?thesis
    proof (cases r)
      case (Inl e)
      then have "ReadCharge c sqlite (xev_after ev) (ccn_Identity (ccr_Intent original)) db' = Inr receipt"
        using 2 r by (auto simp: SettleCharge_def split: sum.splits if_splits)
      then show ?thesis by (rule ReadCharge_in)
    next
      case (Inr x)
      then have last: "run_body c sqlite (xev_attempts ev) ?body db = (db', Inr receipt)"
        using 2 r by (auto simp: SettleCharge_def split: if_splits)
      obtain env s where s: "res_rel db s" "chargeSettleTx dg env (original, tproof) s = Inr (receipt, db')"
        by (rule run_body_last [OF last, of res_rel]) (auto intro: res_rel_refl res_rel_trans chargeSettleTx_rel [OF _ o(3) q])
      show ?thesis by (rule chargeSettleTx_in [OF s(2) _ o(3) q]) (use s(1) inv in \<open>simp add: res_rel_def\<close>)
    qed
  qed (use orig in blast)
qed

section \<open>Calls of the coordinator\<close>

text \<open>Between the calls of the coordinator, others run the system.\<close>

definition others_run :: "store_codec \<Rightarrow> digests \<Rightarrow> 'o service_calls \<Rightarrow> bool" where
  "others_run cd dg w \<longleftrightarrow> (\<forall>k s. reachable (saga_step cd dg) s (cal_others w k s))"

definition port_ok :: "digests \<Rightarrow> ledger_port \<Rightarrow> bool" where
  "port_ok dg lp \<longleftrightarrow> lpt_digests lp = dg \<and> charge_owners_in64 (lpt_owners lp)"

lemma readServiceIntent_Inr:
  assumes "ReadServiceChargeIntent cd flt org op db = Inr i"
  obtains row p where "readServiceCharge cd org op db = Inr (row, p)" "i = scp_Intent p"
  using assms by (auto simp: ReadServiceChargeIntent_def run_read_def ok_simps split: tx_fault.splits)

lemma valid_intent_quantity:
  assumes "validServiceIntent i"
  shows "1 \<le> sex_Quantity (sci_Execution i)" "sex_Quantity (sci_Execution i) \<le> 12"
  using assms
  by (auto simp: validServiceIntent_def Let_def valid_command_quantity_def validateServiceQuantity_def
      split: if_splits)

lemma port_owners_in64:
  assumes "port_ok dg lp"
  shows "charge_owners_in64 (port_owners cd lp flt db)"
  unfolding charge_owners_in64_def
proof (intro allI impI)
  fix t own ident i
  assume own: "port_owners cd lp flt db t = Some own" "cco_ReadChargeIntent own ident = Inr i"
  show "in64 (ccn_Quantity i)"
  proof (cases "t = ConsumerStoreService")
    case True
    then obtain j where j: "ReadServiceChargeIntent cd flt (cci_OrganizationID ident) (cci_OperationID ident) db = Inr j"
      "i = serviceResourceIntent cd (lpt_digests lp) j"
      using own by (auto simp: port_owners_def ServiceChargeOwner_def Owner_ReadChargeIntent_def split: if_splits sum.splits)
    obtain row p where "readServiceCharge cd (cci_OrganizationID ident) (cci_OperationID ident) db = Inr (row, p)" "j = scp_Intent p"
      by (rule readServiceIntent_Inr [OF j(1)])
    then have "validServiceIntent j" using readServiceCharge_Inr(7) by blast
    from valid_intent_quantity [OF this] show ?thesis by (simp add: j(2) serviceResourceIntent_def in64_unfold)
  next
    case False
    then show ?thesis using own assms by (auto simp: port_owners_def port_ok_def charge_owners_in64_def)
  qed
qed

lemma port_wired: "port_ok dg lp \<Longrightarrow> wired cd dg db (port_owners cd lp flt db)"
  by (auto simp: wired_def port_owners_def port_ok_def)

lemma charges_step:
  assumes "port_ok dg lp"
  shows "saga_step cd dg s (fst (charges_Reserve cd lp flt ev i s))"
    "saga_step cd dg s (fst (charges_Reconcile cd lp flt ev i s))"
proof -
  let ?ow = "port_owners cd lp flt (sg_store s)"
  have ow: "charge_owners_in64 ?ow" "wired cd dg (sg_store s) ?ow"
    using port_owners_in64 [OF assms] port_wired [OF assms] by blast+
  have fst: "fst (charges_Reserve cd lp flt ev i s) = s\<lparr>sg_res := fst (ReserveConsumerCharge dg ?ow (lpt_config lp)
      (lpt_sqlite lp) ev (serviceChargeIdentity i) (sg_res s))\<rparr>"
    "fst (charges_Reconcile cd lp flt ev i s) = s\<lparr>sg_res := fst (Reconcile dg ?ow (lpt_config lp)
      (lpt_sqlite lp) ev (serviceChargeIdentity i) (sg_res s))\<rparr>"
    using assms by (simp_all add: charges_Reserve_def charges_Reconcile_def port_ok_def case_prod_beta)
  show "saga_step cd dg s (fst (charges_Reserve cd lp flt ev i s))"
    unfolding fst(1) by (rule saga_ledger, rule step_charge [where allowed = "wired cd dg (sg_store s)", OF ow])
  show "saga_step cd dg s (fst (charges_Reconcile cd lp flt ev i s))"
    unfolding fst(2) by (rule saga_ledger, rule step_reconcile [where allowed = "wired cd dg (sg_store s)", OF ow(2)])
qed

lemma on_store_step:
  assumes "store_step cd (reserved_for cd dg (sg_res s)) (sg_store s) (fst (f (sg_store s)))"
  shows "saga_step cd dg s (fst (on_store f s))"
  using saga_store [OF assms] by (simp add: on_store_def case_prod_beta)

lemma reach_one: "step s s' \<Longrightarrow> reachable step s s'"
  by (rule reach_step [OF reach_refl])

section \<open>Runs of the coordinator\<close>

text \<open>The operation \<open>i\<close> is in the store's table.\<close>

definition admitted :: "ServiceChargeIntent \<Rightarrow> store_db \<Rightarrow> bool" where
  "admitted i db \<longleftrightarrow> (\<exists>c\<in>set (sdb_charges db).
     charge_key c = (sex_OrganizationID (sci_Execution i), sex_OperationID (sci_Execution i))
     \<and> scr_IntentJSON c = encode_intent i)"

text \<open>The operation has taken effect, and the ledger has consumed what it costs.\<close>

definition paid_for :: "store_codec \<Rightarrow> digests \<Rightarrow> ServiceChargeIntent \<Rightarrow> 'o saga \<Rightarrow> ServiceOperationResult \<Rightarrow> bool" where
  "paid_for cd dg i s z \<longleftrightarrow> (\<exists>c\<in>set (sdb_charges (sg_store s)). \<exists>r\<in>set (rdb_reservations (sg_res s)). \<exists>snap.
     scr_IntentJSON c = Bytes i \<and> succeeded_charge c \<and> scr_SnapshotJSON c = Bytes snap
     \<and> (\<exists>b. sor_Snapshot z = snap\<lparr>sos_BalanceAfter := b\<rparr>)
     \<and> rsv_ChargeProtocol r = consumerChargeProtocol \<and> charge_row_intent r = serviceResourceIntent cd dg i
     \<and> rsv_ReservationID r = scr_ReservationID c \<and> rsv_State r = ReservationCommitted)"

definition good_run ::
  "store_codec \<Rightarrow> digests \<Rightarrow> ServiceChargeIntent \<Rightarrow> 'o saga \<Rightarrow> 'o saga \<times> (serr + ServiceOperationResult) \<Rightarrow> bool" where
  "good_run cd dg i s out \<longleftrightarrow> reachable (saga_step cd dg) s (fst out)
     \<and> (\<forall>z. snd out = Inr z \<longrightarrow> paid_for cd dg i (fst out) z)"

lemma good_run_stop: "reachable (saga_step cd dg) s s' \<Longrightarrow> good_run cd dg i s (s', Inl e)"
  by (simp add: good_run_def)

lemma good_run_after: "reachable (saga_step cd dg) s s1 \<Longrightarrow> good_run cd dg i s1 out \<Longrightarrow> good_run cd dg i s out"
  by (simp add: good_run_def reachable_trans [of "saga_step cd dg" s1 _ s])

lemma reach_others: "others_run cd dg w \<Longrightarrow> reachable (saga_step cd dg) s (cal_others w k s)"
  by (simp add: others_run_def)

lemma reach_inv: "reachable (saga_step cd dg) s s' \<Longrightarrow> saga_inv cd dg s \<Longrightarrow> saga_inv cd dg s'"
  by (drule saga_run_rel) (simp add: saga_rel_def)

lemma reach_admitted:
  assumes "reachable (saga_step cd dg) s s'" "saga_inv cd dg s" "admitted i (sg_store s)"
  shows "admitted i (sg_store s')"
proof -
  obtain c where c: "c \<in> set (sdb_charges (sg_store s))" "scr_IntentJSON c = encode_intent i"
    "charge_key c = (sex_OrganizationID (sci_Execution i), sex_OperationID (sci_Execution i))"
    using assms(3) by (auto simp: admitted_def)
  have "rows_kept charge_kept (sdb_charges (sg_store s)) (sdb_charges (sg_store s'))"
    using saga_run_rel [OF assms(1)] assms(2) by (simp add: saga_rel_def)
  then obtain c' where "c' \<in> set (sdb_charges (sg_store s'))" "charge_kept c c'" using c(1) by (auto simp: rows_kept_def)
  with c(2,3) show ?thesis by (auto simp: admitted_def charge_kept_def)
qed

text \<open>What the store reads under the key of an admitted operation is that operation.\<close>

lemma read_admitted:
  assumes inv: "store_inv db" and i: "admitted i db"
    and read: "readServiceCharge cd (sex_OrganizationID (sci_Execution i)) (sex_OperationID (sci_Execution i)) db = Inr (row, p)"
  shows "scp_Intent p = i"
proof -
  note R = readServiceCharge_Inr [OF read]
  obtain c where c: "c \<in> set (sdb_charges db)" "scr_IntentJSON c = encode_intent i"
    "charge_key c = (sex_OrganizationID (sci_Execution i), sex_OperationID (sci_Execution i))"
    using i by (auto simp: admitted_def)
  have "c = row" using charge_hit [OF inv R(1) c(1)] c(3) R(2) by simp
  with c(2) R(3) show ?thesis by (auto simp: encode_intent_def split: if_splits)
qed

lemma settle_run:
  assumes others: "others_run cd dg w" and port: "port_ok dg lp" and inv: "saga_inv cd dg s"
    and read: "readServiceCharge cd org op (sg_store s) = Inr (row, p)"
  shows "good_run cd dg (scp_Intent p) s (settle cd lp w p s)"
proof -
  note R = readServiceCharge_Inr [OF read]
  let ?s = "cal_others w 9 s"
  have there: "reachable (saga_step cd dg) s ?s" by (rule reach_others [OF others])
  obtain s1 out where r: "charges_Reconcile cd lp (cal_owner w 1) (cal_ledger w 1) (scp_Intent p) ?s = (s1, out)" by fastforce
  have run: "reachable (saga_step cd dg) s s1"
    using reach_step [OF there charges_step(2) [OF port]] r by (metis fst_conv)
  have "paid_for cd dg (scp_Intent p) s1 (service_result p receipt)"
    if ok: "out = Inr receipt" "ccr_Intent receipt = serviceResourceIntent cd (lpt_digests lp) (scp_Intent p)"
      "ccr_ReservationID receipt = scp_ReservationID p" "scp_State p = ''succeeded''" "ccr_State receipt = ReservationCommitted"
    for receipt
  proof -
    have "Reconcile (lpt_digests lp) (port_owners cd lp (cal_owner w 1) (sg_store ?s)) (lpt_config lp) (lpt_sqlite lp)
        (cal_ledger w 1) (serviceChargeIdentity (scp_Intent p)) (sg_res ?s) = (sg_res s1, Inr receipt)"
      using r ok(1) by (auto simp: charges_Reconcile_def split: prod.splits)
    moreover have "res_inv (sg_res ?s)" using reach_inv [OF there inv] by (simp add: saga_inv_def)
    ultimately obtain l where l: "l \<in> set (rdb_reservations (sg_res s1))" "rsv_ChargeProtocol l = consumerChargeProtocol"
      "receipt = consumerChargeReceipt l" using Reconcile_in by blast
    have "rows_kept charge_kept (sdb_charges (sg_store s)) (sdb_charges (sg_store s1))"
      using saga_run_rel [OF run] inv by (simp add: saga_rel_def)
    then obtain c where "c \<in> set (sdb_charges (sg_store s1))" "charge_kept row c" using R(1) by (auto simp: rows_kept_def)
    then have "row \<in> set (sdb_charges (sg_store s1))" using ok(4) R(5) by (simp add: charge_kept_def terminal_state_def)
    then show ?thesis
      unfolding paid_for_def
      using R(3,4,5,12) ok l port
      by (intro bexI [of _ row] bexI [of _ l] exI [of _ "scp_Snapshot p"])
         (auto simp: service_result_def receipt_reservation port_ok_def consumerChargeReceipt_def)
  qed
  with run show ?thesis
    by (cases out) (auto simp: settle_def r good_run_def reach_refl simp del: One_nat_def)
qed

text \<open>A call of the store that answers a proof, then settling by that proof.\<close>

lemma store_then_settle:
  assumes w: "others_run cd dg w" "port_ok dg lp" and inv: "saga_inv cd dg s0" "admitted i (sg_store s0)"
    and there: "reachable (saga_step cd dg) s0 s"
    and step: "store_step cd (reserved_for cd dg (sg_res s)) (sg_store s) (fst (f (sg_store s)))"
    and answer: "\<And>db1 p. f (sg_store s) = (db1, Inr p) \<Longrightarrow>
      \<exists>row. readServiceCharge cd (sex_OrganizationID (sci_Execution i)) (sex_OperationID (sci_Execution i)) db1 = Inr (row, p)"
  shows "good_run cd dg i s0 (case on_store f s of (s1, Inl _) \<Rightarrow> (s1, Inl ErrServiceChargeUnknown)
      | (s1, Inr p) \<Rightarrow> settle cd lp w p s1)"
proof -
  obtain s1 out where r: "on_store f s = (s1, out)" by fastforce
  have run: "reachable (saga_step cd dg) s0 s1"
    using reach_step [OF there on_store_step [where f = f, OF step]] r by simp
  show ?thesis
  proof (cases out)
    case (Inr p)
    then have "f (sg_store s) = (sg_store s1, Inr p)" using r by (auto simp: on_store_def split: prod.splits)
    then obtain row where read: "readServiceCharge cd (sex_OrganizationID (sci_Execution i)) (sex_OperationID (sci_Execution i))
        (sg_store s1) = Inr (row, p)" using answer by blast
    have inv1: "saga_inv cd dg s1" by (rule reach_inv [OF run inv(1)])
    have "scp_Intent p = i"
      using read_admitted [OF _ reach_admitted [OF run inv] read] inv1 by (simp add: saga_inv_def)
    with settle_run [OF w inv1 read] good_run_after [OF run] r Inr show ?thesis by simp
  qed (simp add: r good_run_stop [OF run])
qed

lemma ApplyServiceCharge_answer:
  assumes "ApplyServiceCharge cd env i connection db = (db1, Inr p)"
  shows "\<exists>row. readServiceCharge cd (sex_OrganizationID (sci_Execution i)) (sex_OperationID (sci_Execution i)) db1 = Inr (row, p)"
proof -
  have "ReadServiceChargeProof cd (env_read env) (sex_OrganizationID (sci_Execution i)) (sex_OperationID (sci_Execution i)) db1 = Inr p"
    using assms by (auto simp: ApplyServiceCharge_def apply_answer_def Let_def split: option.splits prod.splits sum.splits if_splits)
  then show ?thesis by (rule readServiceProof_Inr) blast
qed

lemma FenceServiceCharge_answer:
  assumes "FenceServiceCharge cd env i rid code db = (db1, Inr p)"
  shows "\<exists>row. readServiceCharge cd (sex_OrganizationID (sci_Execution i)) (sex_OperationID (sci_Execution i)) db1 = Inr (row, p)"
proof -
  have "ReadServiceChargeProof cd (env_read env) (sex_OrganizationID (sci_Execution i)) (sex_OperationID (sci_Execution i)) db1 = Inr p"
    using assms by (auto simp: FenceServiceCharge_def Let_def split: prod.splits sum.splits if_splits)
  then show ?thesis by (rule readServiceProof_Inr) blast
qed

lemma resume_apply_run:
  assumes w: "others_run cd dg w" "port_ok dg lp" and inv: "saga_inv cd dg s" "admitted i (sg_store s)"
  shows "good_run cd dg i s (resume_apply cd lp w i connection s)"
  unfolding resume_apply_def
  by (rule store_then_settle [OF w inv reach_others [OF w(1)]]) (rule store_apply, rule ApplyServiceCharge_answer)

text \<open>Fencing with a reservation that the ledger holds for the operation.\<close>

lemma fence_then_settle:
  assumes w: "others_run cd dg w" "port_ok dg lp" and inv: "saga_inv cd dg s" "admitted i (sg_store s)"
    and rid: "reserved_for cd dg (sg_res s) i rid"
  shows "good_run cd dg i s (case on_store (FenceServiceCharge cd env i rid code) (cal_others w k s) of
      (s1, Inl _) \<Rightarrow> (s1, Inl ErrServiceChargeUnknown) | (s1, Inr p) \<Rightarrow> settle cd lp w p s1)"
proof (rule store_then_settle [OF w inv reach_others [OF w(1)]], rule store_fence)
  have "rows_kept same_charge (rdb_reservations (sg_res s)) (rdb_reservations (sg_res (cal_others w k s)))"
    using saga_run_rel [OF reach_others [OF w(1)]] inv(1) unfolding saga_rel_def by blast
  then show "rid = [] \<or> reserved_for cd dg (sg_res (cal_others w k s)) i rid" using reserved_for_kept [OF rid] by blast
qed (rule FenceServiceCharge_answer)

lemma reserved_for_reach:
  assumes "reserved_for cd dg (sg_res s) i rid" "reachable (saga_step cd dg) s s'" "saga_inv cd dg s"
  shows "reserved_for cd dg (sg_res s') i rid"
  using reserved_for_kept [OF assms(1)] saga_run_rel [OF assms(2)] assms(3) unfolding saga_rel_def by blast

lemma resume_activate_run:
  assumes w: "others_run cd dg w" "port_ok dg lp" and inv: "saga_inv cd dg s0" "admitted i (sg_store s0)"
    and rid: "reserved_for cd dg (sg_res s0) i rid"
  shows "good_run cd dg i s0 (resume_activate cd lp w i rid s0)"
proof -
  let ?s = "cal_others w 6 s0"
  have there: "reachable (saga_step cd dg) s0 ?s" by (rule reach_others [OF w(1)])
  note s = reach_inv [OF there inv(1)] reach_admitted [OF there inv] reserved_for_reach [OF rid there inv(1)]
  have "good_run cd dg i s0 (resume_apply cd lp w i connection ?s)" for connection
    by (rule good_run_after [OF there resume_apply_run [OF w s(1,2)]])
  moreover have "good_run cd dg i s0 (case on_store (FenceServiceCharge cd env i rid code) (cal_others w 7 ?s) of
      (s1, Inl _) \<Rightarrow> (s1, Inl ErrServiceChargeUnknown) | (s1, Inr p) \<Rightarrow> settle cd lp w p s1)" for env code
    by (rule good_run_after [OF there fence_then_settle [OF w s]])
  ultimately show ?thesis
    using good_run_stop [OF there] by (simp add: resume_activate_def Let_def split: sum.splits)
qed

lemma resume_bind_run:
  assumes w: "others_run cd dg w" "port_ok dg lp" and inv: "saga_inv cd dg s0" "admitted i (sg_store s0)"
    and rid: "reserved_for cd dg (sg_res s0) i rid"
  shows "good_run cd dg i s0 (resume_bind cd lp w i rid s0)"
proof -
  let ?s0 = "cal_others w 4 s0"
  have there0: "reachable (saga_step cd dg) s0 ?s0" by (rule reach_others [OF w(1)])
  obtain s out where r: "on_store (BindServiceCharge cd (cal_store w 4) i rid) ?s0 = (s, out)" by fastforce
  have "saga_step cd dg ?s0 (fst (on_store (BindServiceCharge cd (cal_store w 4) i rid) ?s0))"
    by (rule on_store_step, rule store_bind, rule reserved_for_reach [OF rid there0 inv(1)])
  then have there: "reachable (saga_step cd dg) s0 s" using reach_step [OF there0] r by simp
  note s = reach_inv [OF there inv(1)] reach_admitted [OF there inv] reserved_for_reach [OF rid there inv(1)]
  have "good_run cd dg i s0 (resume_apply cd lp w i [] s)" "good_run cd dg i s0 (resume_activate cd lp w i rid s)"
    by (rule good_run_after [OF there resume_apply_run [OF w s(1,2)]], rule good_run_after [OF there resume_activate_run [OF w s]])
  moreover have "good_run cd dg i s0 (case on_store (FenceServiceCharge cd env i rid code) (cal_others w 5 s) of
      (s1, Inl _) \<Rightarrow> (s1, Inl ErrServiceChargeUnknown) | (s1, Inr p) \<Rightarrow> settle cd lp w p s1)" for env code
    by (rule good_run_after [OF there fence_then_settle [OF w s]])
  ultimately show ?thesis
    using good_run_stop [OF there] by (simp add: resume_bind_def r split: sum.splits)
qed

lemma resume_reserve_run:
  assumes w: "others_run cd dg w" "port_ok dg lp" and inv: "saga_inv cd dg s0" "admitted i (sg_store s0)"
  shows "good_run cd dg i s0 (resume_reserve cd lp w i s0)"
proof -
  let ?s0 = "cal_others w 2 s0"
  have there0: "reachable (saga_step cd dg) s0 ?s0" by (rule reach_others [OF w(1)])
  obtain s out where r: "charges_Reserve cd lp (cal_owner w 0) (cal_ledger w 0) i ?s0 = (s, out)" by fastforce
  have there: "reachable (saga_step cd dg) s0 s"
    using reach_step [OF there0 charges_step(1) [OF w(2)]] r by (metis fst_conv)
  note s = reach_inv [OF there inv(1)] reach_admitted [OF there inv]
  have bind: "good_run cd dg i s0 (resume_bind cd lp w i (ccr_ReservationID receipt) s)"
    if ok: "out = Inr receipt" "ccr_Intent receipt = serviceResourceIntent cd (lpt_digests lp) i" for receipt
  proof -
    have "ReserveConsumerCharge (lpt_digests lp) (port_owners cd lp (cal_owner w 0) (sg_store ?s0)) (lpt_config lp)
        (lpt_sqlite lp) (cal_ledger w 0) (serviceChargeIdentity i) (sg_res ?s0) = (sg_res s, Inr receipt)"
      using r ok(1) by (auto simp: charges_Reserve_def split: prod.splits)
    from ReserveConsumerCharge_in [OF this _ port_owners_in64 [OF w(2)]] reach_inv [OF there0 inv(1)]
    obtain l where "l \<in> set (rdb_reservations (sg_res s))" "rsv_ChargeProtocol l = consumerChargeProtocol"
      "receipt = consumerChargeReceipt l" by (auto simp: saga_inv_def)
    then have "reserved_for cd dg (sg_res s) i (ccr_ReservationID receipt)"
      using ok(2) w(2) by (auto simp: reserved_for_def receipt_reservation port_ok_def)
    from good_run_after [OF there resume_bind_run [OF w s this]] show ?thesis .
  qed
  let ?f = "FenceServiceCharge cd (cal_store w 3) i [] ''QUOTA_INSUFFICIENT''"
  obtain s1 o1 where f: "on_store ?f (cal_others w 3 s) = (s1, o1)" by fastforce
  have "saga_step cd dg (cal_others w 3 s) (fst (on_store ?f (cal_others w 3 s)))"
    by (rule on_store_step, rule store_fence) simp
  then have fenced: "reachable (saga_step cd dg) s0 s1"
    using reach_step reachable_trans [OF reach_others [OF w(1)] there] f by fastforce
  show ?thesis
    using good_run_stop [OF there] good_run_stop [OF fenced] bind
    by (simp add: resume_reserve_def r f split: sum.splits)
qed

lemma resume_run:
  assumes w: "others_run cd dg w" "port_ok dg lp" and inv: "saga_inv cd dg s0" "admitted i (sg_store s0)"
  shows "good_run cd dg i s0 (resume cd lp w i s0)"
proof -
  let ?s = "cal_others w 0 s0" let ?s1 = "cal_others w 1 ?s"
  have there: "reachable (saga_step cd dg) s0 ?s" by (rule reach_others [OF w(1)])
  have there1: "reachable (saga_step cd dg) s0 ?s1" by (rule reachable_trans [OF reach_others [OF w(1)] there])
  note s = reach_inv [OF there inv(1)] reach_admitted [OF there inv]
  note s1 = reach_inv [OF there1 inv(1)] reach_admitted [OF there1 inv]
  have "good_run cd dg i s0 (settle cd lp w p ?s)"
    if p: "ReadServiceChargeProof cd flt (sex_OrganizationID (sci_Execution i)) (sex_OperationID (sci_Execution i)) (sg_store ?s) = Inr p"
    for flt p
  proof -
    obtain row where row: "readServiceCharge cd (sex_OrganizationID (sci_Execution i)) (sex_OperationID (sci_Execution i)) (sg_store ?s) = Inr (row, p)"
      by (rule readServiceProof_Inr [OF p])
    have "scp_Intent p = i" using read_admitted [OF _ s(2) row] s(1) by (simp add: saga_inv_def)
    with good_run_after [OF there settle_run [OF w s(1) row]] show ?thesis by simp
  qed
  moreover have "good_run cd dg i s0 (resume_reserve cd lp w i ?s1)"
    by (rule good_run_after [OF there1 resume_reserve_run [OF w s1]])
  ultimately show ?thesis
    using good_run_stop [OF there] good_run_stop [OF there1]
    by (simp add: resume_def Let_def split: sum.splits)
qed

lemma read_in_table:
  assumes "readServiceCharge cd org op db = Inr (row, p)" "store_inv db"
  shows "admitted (scp_Intent p) db"
  using readServiceCharge_Inr [OF assms(1)] charge_okD(5) [OF store_invD(4) [OF assms(2)]]
  by (auto simp: admitted_def encode_intent_def intent_ok_def intro!: bexI [of _ row])

text \<open>What admission answers is in the table, and it is the operation that was asked for.\<close>

lemma AdmitServiceCharge_answer:
  assumes run: "AdmitServiceCharge cd env intent db = (db1, Inr i)" and inv: "store_inv db"
  shows "admitted i db1 \<and> sameServiceChargeRequest i intent"
proof -
  let ?e = "sci_Execution intent"
  have v: "validServiceIntent intent" using run by (auto simp: AdmitServiceCharge_def split: if_splits)
  obtain access d r where r: "run_tx (env_tx env) (admitTx cd (env_now env 0) access intent) db = (d, r)"
    "d = db1" "r = Inr i \<or> ReadServiceChargeIntent cd (env_read env) (sex_OrganizationID ?e) (sex_OperationID ?e) db1 = Inr i
       \<and> sameServiceChargeRequest i intent"
    using run v by (auto simp: AdmitServiceCharge_def Let_def split: sum.splits prod.splits if_splits)
  have "store_rel db db1"
    using run_tx_rel [of "admitTx cd (env_now env 0) access intent" db "env_tx env"] admitTx_rel [OF _ v] r(1,2) by force
  then have inv1: "store_inv db1" using inv by (simp add: store_rel_def)
  show ?thesis
  proof (cases "r = Inr i")
    case True
    then have tx: "admitTx cd (env_now env 0) access intent db = Inr (i, db1)"
      using r(1,2) by (auto simp: run_tx_def split: tx_fault.splits sum.splits prod.splits)
    show ?thesis
    proof (cases "readServiceCharge cd (sex_OrganizationID ?e) (sex_OperationID ?e) db")
      case (Inl e)
      then have "i = intent" "create_row (\<lambda>r x. charge_key r = charge_key x) (admitted_row (env_now env 0) intent) (sdb_charges db)
          = Some (sdb_charges db1)"
        using tx by (auto simp: admitTx_def Let_def ok_simps split: sum.splits option.splits if_splits)
      then show ?thesis
        by (auto simp: row_simps admitted_def sameServiceChargeRequest_def admitted_row_def charge_key_def)
    next
      case (Inr rp)
      obtain row p where rp: "rp = (row, p)" by (cases rp)
      then have "i = scp_Intent p" "db1 = db" "sameServiceChargeRequest i intent"
        using tx Inr by (auto simp: admitTx_def Let_def ok_simps split: if_splits)
      then show ?thesis using read_in_table [OF _ inv] Inr rp by blast
    qed
  next
    case False
    then have "ReadServiceChargeIntent cd (env_read env) (sex_OrganizationID ?e) (sex_OperationID ?e) db1 = Inr i"
      and same: "sameServiceChargeRequest i intent" using r(3) by auto
    then obtain row p where "readServiceCharge cd (sex_OrganizationID ?e) (sex_OperationID ?e) db1 = Inr (row, p)" "i = scp_Intent p"
      using readServiceIntent_Inr by blast
    with read_in_table [OF _ inv1] same show ?thesis by blast
  qed
qed

lemma Execute_run:
  assumes w: "others_run cd dg w" "port_ok dg lp" and inv: "saga_inv cd dg s0"
    and run: "ExecuteServiceLifecycle cd lp w e s0 = (s', out)"
  shows "reachable (saga_step cd dg) s0 s'"
    "out = Inr z \<Longrightarrow> \<exists>i. sex_OrganizationID (sci_Execution i) = sex_OrganizationID e \<and> sex_OperationID (sci_Execution i) = sex_OperationID e
       \<and> sex_StoreID (sci_Execution i) = sex_StoreID e \<and> sex_Command (sci_Execution i) = sex_Command e
       \<and> sex_Quantity (sci_Execution i) = sex_Quantity e \<and> sex_ExpectedStoreVersion (sci_Execution i) = sex_ExpectedStoreVersion e
       \<and> paid_for cd dg i s' z"
proof -
  let ?s = "cal_others w 10 s0" let ?s1 = "cal_others w 11 ?s"
  have there: "reachable (saga_step cd dg) s0 ?s" by (rule reach_others [OF w(1)])
  have there1: "reachable (saga_step cd dg) s0 ?s1" by (rule reachable_trans [OF reach_others [OF w(1)] there])
  have both: "reachable (saga_step cd dg) s0 s' \<and> (\<forall>z. out = Inr z \<longrightarrow> (\<exists>i. sameServiceChargeRequest i intent \<and> paid_for cd dg i s' z))"
    if intent: "sci_Execution intent = e"
      "(case on_store (AdmitServiceCharge cd (cal_store w 11) intent) ?s1 of
             (s1, Inl err) \<Rightarrow> (s1, Inl (if err = ErrAlreadyExists then LedgerErr ErrIdempotencyKeyConflict else err))
           | (s1, Inr i) \<Rightarrow> resume cd lp w i s1) = (s', out)" for intent
  proof -
    obtain s2 r where r: "on_store (AdmitServiceCharge cd (cal_store w 11) intent) ?s1 = (s2, r)" by fastforce
    have "saga_step cd dg ?s1 (fst (on_store (AdmitServiceCharge cd (cal_store w 11) intent) ?s1))"
      by (rule on_store_step, rule store_admit)
    then have there2: "reachable (saga_step cd dg) s0 s2" using reach_step [OF there1] r by simp
    show ?thesis
    proof (cases r)
      case (Inl err)
      then show ?thesis using intent(2) r there2 by auto
    next
      case (Inr i)
      have "AdmitServiceCharge cd (cal_store w 11) intent (sg_store ?s1) = (sg_store s2, Inr i)"
        using r Inr by (auto simp: on_store_def split: prod.splits)
      from AdmitServiceCharge_answer [OF this] reach_inv [OF there1 inv]
      have i: "admitted i (sg_store s2)" "sameServiceChargeRequest i intent" by (auto simp: saga_inv_def)
      have "good_run cd dg i s0 (s', out)"
        using good_run_after [OF there2 resume_run [OF w reach_inv [OF there2 inv] i(1)]] intent(2) r Inr by simp
      then show ?thesis using i(2) by (auto simp: good_run_def)
    qed
  qed
  have done_: "reachable (saga_step cd dg) s0 s' \<and> (\<forall>z. out = Inr z \<longrightarrow>
      (\<exists>intent i. sci_Execution intent = e \<and> sameServiceChargeRequest i intent \<and> paid_for cd dg i s' z))"
  proof (cases "ServiceMemberAccess (cal_store w 10) (sex_OrganizationID e) (sex_StoreID e) (sg_store ?s)")
    case (Inl err)
    then show ?thesis using run there by (auto simp: ExecuteServiceLifecycle_def Let_def)
  next
    case (Inr access)
    let ?i = "\<lparr>sci_Execution = e, sci_MemberID = sma_MemberID access,
      sci_Funding = if sma_Administrator access then FundingEnterprise else FundingMember\<rparr>"
    have e: "sci_Execution ?i = e" by simp
    have "(case on_store (AdmitServiceCharge cd (cal_store w 11) ?i) ?s1 of
             (s1, Inl err) \<Rightarrow> (s1, Inl (if err = ErrAlreadyExists then LedgerErr ErrIdempotencyKeyConflict else err))
           | (s1, Inr i) \<Rightarrow> resume cd lp w i s1) = (s', out)"
      using run by (simp add: ExecuteServiceLifecycle_def Let_def Inr)
    from both [OF e this] e show ?thesis by blast
  qed
  then show "reachable (saga_step cd dg) s0 s'" by blast
  show "\<exists>i. sex_OrganizationID (sci_Execution i) = sex_OrganizationID e \<and> sex_OperationID (sci_Execution i) = sex_OperationID e
       \<and> sex_StoreID (sci_Execution i) = sex_StoreID e \<and> sex_Command (sci_Execution i) = sex_Command e
       \<and> sex_Quantity (sci_Execution i) = sex_Quantity e \<and> sex_ExpectedStoreVersion (sci_Execution i) = sex_ExpectedStoreVersion e
       \<and> paid_for cd dg i s' z" if "out = Inr z"
    using done_ that by (auto simp: sameServiceChargeRequest_def Let_def)
qed

lemma Replay_run:
  assumes w: "others_run cd dg w" "port_ok dg lp" and inv: "saga_inv cd dg s0"
    and run: "ReplayServiceLifecycle cd lp w r s0 = (s', out)"
  shows "reachable (saga_step cd dg) s0 s'"
    "out = Some (Inr z) \<Longrightarrow> \<exists>i. sex_OrganizationID (sci_Execution i) = srp_OrganizationID r
       \<and> sex_OperationID (sci_Execution i) = srp_OperationID r
       \<and> sex_RequestFingerprint (sci_Execution i) = srp_RequestFingerprint r \<and> paid_for cd dg i s' z"
proof -
  let ?s = "cal_others w 12 s0" let ?s1 = "cal_others w 13 ?s"
  have there: "reachable (saga_step cd dg) s0 ?s" by (rule reach_others [OF w(1)])
  have there1: "reachable (saga_step cd dg) s0 ?s1" by (rule reachable_trans [OF reach_others [OF w(1)] there])
  note inv0 = reach_inv [OF there inv]
  have both: "reachable (saga_step cd dg) s0 s' \<and> (out = Some (Inr z) \<longrightarrow> (\<exists>i.
      sex_OrganizationID (sci_Execution i) = srp_OrganizationID r \<and> sex_OperationID (sci_Execution i) = srp_OperationID r
       \<and> sex_RequestFingerprint (sci_Execution i) = srp_RequestFingerprint r \<and> paid_for cd dg i s' z))"
  proof (cases "ReadServiceChargeIntent cd (env_read (cal_store w 12)) (srp_OrganizationID r) (srp_OperationID r) (sg_store ?s)")
    case (Inl err)
    then show ?thesis using run there by (auto simp: ReplayServiceLifecycle_def Let_def split: if_splits)
  next
    case (Inr i)
    obtain row p where rp: "readServiceCharge cd (srp_OrganizationID r) (srp_OperationID r) (sg_store ?s) = Inr (row, p)" "i = scp_Intent p"
      by (rule readServiceIntent_Inr [OF Inr])
    note R = readServiceCharge_Inr [OF rp(1)]
    have "admitted i (sg_store ?s)" using read_in_table [OF rp(1)] rp(2) inv0 by (simp add: saga_inv_def)
    then have i: "admitted i (sg_store ?s1)" using reach_admitted [OF reach_others [OF w(1)] inv0] by blast
    obtain s2 o2 where r2: "resume cd lp w i ?s1 = (s2, o2)" by fastforce
    have good: "good_run cd dg i s0 (s2, o2)"
      using good_run_after [OF there1 resume_run [OF w reach_inv [OF there1 inv] i]] r2 by simp
    have same: "paid_for cd dg i s2 (y\<lparr>sor_Replayed := True\<rparr>)" if "paid_for cd dg i s2 y" for y
      using that by (simp add: paid_for_def)
    show ?thesis
      using run good there1 R(9,10) rp(2) same r2 Inr
      by (auto simp: ReplayServiceLifecycle_def Let_def good_run_def split: option.splits if_splits sum.splits)
  qed
  then show "reachable (saga_step cd dg) s0 s'" by blast
  show "\<exists>i. sex_OrganizationID (sci_Execution i) = srp_OrganizationID r \<and> sex_OperationID (sci_Execution i) = srp_OperationID r
       \<and> sex_RequestFingerprint (sci_Execution i) = srp_RequestFingerprint r \<and> paid_for cd dg i s' z" if "out = Some (Inr z)"
    using both that by blast
qed

end
