(* ===== verification/Store_Scenarios.thy ===== *)
theory Store_Scenarios
  imports Store_Runs Res_Scenarios
begin

text \<open>
  Two concrete runs of the Store Center with the resource ledger. The organization owes one period.
  In the first run it buys five, creates a store, and activates the service of the store. In the
  second run the activation comes before the purchase: it finds no quota, and before it records
  the failure another attempt of the same operation reserves a period of the new purchase.
\<close>

definition shop_id :: string where "shop_id = ''00000000-0000-0000-0000-000000000001''"
definition shop_key :: string where "shop_key = ''00000000-0000-0000-0000-000000000002''"
definition shop_oper :: string where "shop_oper = ''00000000-0000-0000-0000-000000000003''"
definition shop_hold :: string where "shop_hold = ''00000000-0000-0000-0000-000000000004''"
definition shop_settled :: string where "shop_settled = ''00000000-0000-0000-0000-000000000005''"

definition shop_codec :: store_codec where
  "shop_codec = \<lparr>cdc_tuple = concat, cdc_uuid = (\<lambda>s. s), cdc_intent = (\<lambda>_. replicate 64 (CHR ''0'')),
     cdc_snapshot = (\<lambda>_. ''s'')\<rparr>"

definition shop_access :: StoreMemberAccess where
  "shop_access = \<lparr>sma_OrganizationID = ''acme'', sma_ActorID = ''boss'', sma_MemberID = ''boss'',
     sma_Administrator = True, sma_CanWrite = True\<rparr>"

definition shop_env :: "nat \<Rightarrow> store_env" where
  "shop_env n = \<lparr>env_auth = (\<lambda>_ _. Inr shop_access), env_now = (\<lambda>k. 1000 * int n + int k),
     env_uuid = (\<lambda>_. shop_key), env_tx = NoFault, env_read = NoFault\<rparr>"

definition shop_exec :: "nat \<Rightarrow> string \<Rightarrow> exec_env" where
  "shop_exec n uuid = (let at = (sample_attempt n)\<lparr>att_env := \<lparr>rnv_now = (\<lambda>k. 1000000 * int n + int k), rnv_uuid = (\<lambda>_. uuid)\<rparr>\<rparr> in
     \<lparr>xev_replay = (\<lambda>_. at), xev_before = (\<lambda>_. at), xev_attempts = (\<lambda>_. at), xev_afterCommit = None, xev_after = (\<lambda>_. at)\<rparr>)"

definition shop_purchase :: PurchasedResourceGrantInput where
  "shop_purchase = sample_purchase\<lparr>pgi_ResourceType := ResourceStoreRenewalPeriod, pgi_Quantity := 5\<rparr>"

definition shop_new :: StoreSnapshot where
  "shop_new = \<lparr>sto_ID = shop_id, sto_OrganizationID = ''acme'', sto_Name = ''Shop'', sto_Platform = PlatformShein,
     sto_Region = ''US'', sto_ExternalStoreID = [], sto_RecordStatus = RecordStatusActive,
     sto_ServiceStatus = ServiceStatusPendingActivation, sto_ServiceStartedAt = None, sto_ServiceExpiresAt = None,
     sto_ConnectionRef = [], sto_Version = 1, sto_CreatedBy = ''boss'', sto_UpdatedBy = ''boss'',
     sto_CreatedAt = 500, sto_UpdatedAt = 500, sto_DeletedAt = None, sto_CreateIdempotencyKey = shop_key,
     sto_DeleteOperationKey = []\<rparr>"

definition shop_activation :: ServiceExecution where
  "shop_activation = \<lparr>sex_OrganizationID = ''acme'', sex_OperationID = shop_oper, sex_StoreID = shop_id,
     sex_Command = ServiceCommandActivate, sex_Quantity = 1, sex_MaxQuantity = 1, sex_ExpectedStoreVersion = 1,
     sex_ExpectedConnectionRef = [], sex_ConnectionStatus = ConnectionStatusConnected, sex_ActorSubject = ''boss'',
     sex_OccurredAt = 3000, sex_RequestFingerprint = replicate 64 (CHR ''0'')\<rparr>"

definition shop_intent :: ServiceChargeIntent where
  "shop_intent = \<lparr>sci_Execution = shop_activation, sci_MemberID = ''boss'', sci_Funding = FundingEnterprise\<rparr>"

definition shop_port :: ledger_port where
  "shop_port = \<lparr>lpt_digests = sample_digests, lpt_config = sample_config, lpt_sqlite = False, lpt_owners = (\<lambda>_. None)\<rparr>"

definition buy_periods :: "unit saga \<Rightarrow> unit saga" where
  "buy_periods s = s\<lparr>sg_res := fst (GrantPurchasedResource sample_digests AuthorizePurchasedGrant sample_config False
     (sample_exec 1) shop_purchase (sg_res s))\<rparr>"

definition create_shop :: "unit saga \<Rightarrow> unit saga" where
  "create_shop s = s\<lparr>sg_store := fst (Member_CreateOrReplay shop_codec (shop_env 2) ''acme'' shop_new (sg_store s))\<rparr>"

definition reserve_again :: "unit saga \<Rightarrow> unit saga" where
  "reserve_again s = fst (charges_Reserve shop_codec shop_port NoFault (shop_exec 4 shop_hold) shop_intent s)"

definition shop_calls :: "(nat \<Rightarrow> unit saga \<Rightarrow> unit saga) \<Rightarrow> unit service_calls" where
  "shop_calls others = \<lparr>cal_store = (\<lambda>_. shop_env 3),
     cal_ledger = (\<lambda>n. shop_exec (5 + n) (if n = 0 then shop_hold else shop_settled)),
     cal_owner = (\<lambda>_. NoFault), cal_status = Inr ConnectionStatusConnected, cal_alive = True, cal_others = others\<rparr>"

definition alone :: "nat \<Rightarrow> unit saga \<Rightarrow> unit saga" where
  "alone k s = s"

definition racing :: "nat \<Rightarrow> unit saga \<Rightarrow> unit saga" where
  "racing k s = (if k = 3 then reserve_again (buy_periods s) else s)"

definition shop0 :: "unit saga" where
  "shop0 = saga_init 1 [(''acme'', ResourceStoreRenewalPeriod, 1)] ()"

definition activate_shop :: "(nat \<Rightarrow> unit saga \<Rightarrow> unit saga) \<Rightarrow> unit saga \<Rightarrow> unit saga \<times> (serr + ServiceOperationResult)" where
  "activate_shop others s = ExecuteServiceLifecycle shop_codec shop_port (shop_calls others) shop_activation s"

definition shop_paid :: "unit saga" where
  "shop_paid = fst (activate_shop alone (create_shop (buy_periods shop0)))"

definition shop_raced :: "unit saga" where
  "shop_raced = fst (activate_shop racing (create_shop shop0))"

abbreviation shop_run :: "unit saga \<Rightarrow> unit saga \<Rightarrow> bool" where
  "shop_run \<equiv> reachable (saga_step shop_codec sample_digests)"

lemma buy_periods_run: "shop_run s (buy_periods s)"
  unfolding buy_periods_def
  by (rule reach_one, rule saga_ledger, rule step_purchase) (simp add: shop_purchase_def in64_unfold)

lemma create_shop_run: "shop_run s (create_shop s)"
  unfolding create_shop_def by (rule reach_one, rule saga_store, rule store_create)

lemma shop_port_ok: "port_ok sample_digests shop_port"
  by (simp add: port_ok_def shop_port_def charge_owners_in64_def)

lemma reserve_again_run: "shop_run s (reserve_again s)"
  unfolding reserve_again_def by (rule reach_one, rule charges_step(1) [OF shop_port_ok])

lemma shop_others: "others_run shop_codec sample_digests (shop_calls alone)"
  "others_run shop_codec sample_digests (shop_calls racing)"
  using reachable_trans [OF reserve_again_run buy_periods_run]
  by (simp_all add: others_run_def shop_calls_def alone_def racing_def reach_refl)

lemma shop_start_inv: "saga_inv shop_codec sample_digests shop0"
  unfolding shop0_def by (rule saga_init_inv)

lemma shop_before_run: "shop_run shop0 (create_shop (buy_periods shop0))" "shop_run shop0 (create_shop shop0)"
  by (rule reachable_trans [OF create_shop_run buy_periods_run], rule create_shop_run)

lemma activate_shop_run:
  assumes "shop_run shop0 s" "others_run shop_codec sample_digests (shop_calls others)"
  shows "shop_run s (fst (activate_shop others s))"
  using Execute_run(1) [OF assms(2) shop_port_ok reach_inv [OF assms(1) shop_start_inv]]
  unfolding activate_shop_def by (metis prod.collapse)

lemma shop_paid_run: "shop_run shop0 shop_paid"
  unfolding shop_paid_def
  by (rule reachable_trans [OF activate_shop_run [OF _ shop_others(1)]]) (rule shop_before_run)+

lemma shop_raced_run: "shop_run shop0 shop_raced"
  unfolding shop_raced_def
  by (rule reachable_trans [OF activate_shop_run [OF _ shop_others(2)]]) (rule shop_before_run)+

text \<open>What the two runs leave; each state is computed once.\<close>

definition shop_expiry :: gotime where "shop_expiry = 2592000000003000"

definition seen_paid :: "unit saga \<times> (serr + ServiceOperationResult) \<Rightarrow> bool" where
  "seen_paid out \<longleftrightarrow> (case out of (s, r) \<Rightarrow>
     (case r of Inl _ \<Rightarrow> False | Inr z \<Rightarrow> sos_BalanceAfter (sor_Snapshot z) = ''3'')
     \<and> (case sdb_stores (sg_store s) of [x] \<Rightarrow> wsr_ServiceExpiresAt x = Some shop_expiry \<and> wsr_Version x = 2 | _ \<Rightarrow> False)
     \<and> (case rdb_reservations (sg_res s) of [r] \<Rightarrow> rsv_ChargeProtocol r = consumerChargeProtocol
          \<and> charge_row_intent r = serviceResourceIntent shop_codec sample_digests shop_intent
          \<and> rsv_State r = ReservationCommitted | _ \<Rightarrow> False))"

definition seen_raced :: "unit saga \<Rightarrow> bool" where
  "seen_raced s \<longleftrightarrow>
     (case sdb_charges (sg_store s) of [c] \<Rightarrow> scr_IntentJSON c = Bytes shop_intent \<and> scr_State c = ''failed_fenced''
        \<and> scr_ReservationID c = [] | _ \<Rightarrow> False)
     \<and> (case rdb_reservations (sg_res s) of [r] \<Rightarrow> rsv_ChargeProtocol r = consumerChargeProtocol
          \<and> charge_row_intent r = serviceResourceIntent shop_codec sample_digests shop_intent
          \<and> rsv_State r = ReservationReserved | _ \<Rightarrow> False)"

lemma shop_seen_paid: "seen_paid (activate_shop alone (create_shop (buy_periods shop0)))"
  by code_simp

lemma shop_seen_raced: "seen_raced shop_raced"
  by code_simp

end
