(* ===== verification/Store_Properties.thy ===== *)
theory Store_Properties
  imports Store_Scenarios
begin

text \<open>
  The properties of the Store Center and of its interplay with the resource ledger, each with an
  instance at one of the two runs of \<open>Store_Scenarios\<close>.
\<close>

section \<open>What the runs show\<close>

lemma shop_paid_rows:
  obtains x r where "sdb_stores (sg_store shop_paid) = [x]" "wsr_ServiceExpiresAt x = Some shop_expiry" "wsr_Version x = 2"
    "rdb_reservations (sg_res shop_paid) = [r]" "rsv_ChargeProtocol r = consumerChargeProtocol"
    "charge_row_intent r = serviceResourceIntent shop_codec sample_digests shop_intent" "rsv_State r = ReservationCommitted"
  using shop_seen_paid unfolding seen_paid_def shop_paid_def
  by (cases "activate_shop alone (create_shop (buy_periods shop0))") (auto split: list.splits)

lemma shop_raced_rows:
  obtains c r where "sdb_charges (sg_store shop_raced) = [c]" "scr_IntentJSON c = Bytes shop_intent"
    "scr_State c = ''failed_fenced''" "scr_ReservationID c = []"
    "rdb_reservations (sg_res shop_raced) = [r]" "rsv_ChargeProtocol r = consumerChargeProtocol"
    "charge_row_intent r = serviceResourceIntent shop_codec sample_digests shop_intent" "rsv_State r = ReservationReserved"
  using shop_seen_raced unfolding seen_raced_def by (auto split: list.splits)

abbreviation saga_reachable ::
  "store_codec \<Rightarrow> digests \<Rightarrow> gotime \<Rightarrow> (string \<times> ResourceType \<times> i64) list \<Rightarrow> 'o \<Rightarrow> 'o saga \<Rightarrow> bool" where
  "saga_reachable cd dg now seeds owner \<equiv> reachable (saga_step cd dg) (saga_init now seeds owner)"

section \<open>The charge and the operation agree\<close>

lemma settled_outcome:
  assumes "saga_inv cd dg s" "r \<in> set (rdb_reservations (sg_res s))" "rsv_ChargeProtocol r = consumerChargeProtocol"
    "cci_Consumer (ccn_Identity (charge_row_intent r)) = ConsumerStoreService" "rsv_State r \<noteq> ReservationReserved"
  shows "\<exists>c\<in>set (sdb_charges (sg_store s)). \<exists>i. scr_IntentJSON c = Bytes i \<and> serviceResourceIntent cd dg i = charge_row_intent r
    \<and> scr_ReservationID c = rsv_ReservationID r \<and> scr_ReservationID c \<noteq> [] \<and> (rsv_State r = ReservationCommitted \<and> succeeded_charge c
      \<or> rsv_State r = ReservationReleased \<and> scr_State c = ''failed_fenced'')"
proof -
  have "service_outcome cd dg (sg_store s) (charge_row_intent r) (rsv_ReservationID r) (rsv_State r)"
    using assms unfolding saga_inv_def charges_agree_def by blast
  then show ?thesis using assms(4) unfolding service_outcome_def by metis
qed

text \<open>
  C9: whatever calls, faults and interleavings led to a state of the Store Center and the resource
  ledger, a settled charge of a service operation has the outcome that the store recorded, under
  the reservation that the store knows: it is consumed exactly if the operation succeeded, and
  released exactly if it was fenced off. No transaction spans the two.
\<close>

theorem settled_service_charge_outcome:
  assumes "saga_reachable cd dg now seeds owner s"
    and "r \<in> set (rdb_reservations (sg_res s))" "rsv_ChargeProtocol r = consumerChargeProtocol"
    and "cci_Consumer (ccn_Identity (charge_row_intent r)) = ConsumerStoreService" "rsv_State r \<noteq> ReservationReserved"
  shows "\<exists>c\<in>set (sdb_charges (sg_store s)). \<exists>i. scr_IntentJSON c = Bytes i \<and> serviceResourceIntent cd dg i = charge_row_intent r
    \<and> scr_ReservationID c = rsv_ReservationID r \<and> scr_ReservationID c \<noteq> [] \<and> (rsv_State r = ReservationCommitted \<and> succeeded_charge c
      \<or> rsv_State r = ReservationReleased \<and> scr_State c = ''failed_fenced'')"
  by (rule settled_outcome [OF saga_reachable_inv [OF assms(1)] assms(2-5)])

theorem settled_service_charge_outcome_witness:
  "\<exists>r c. rdb_reservations (sg_res shop_paid) = [r] \<and> rsv_State r = ReservationCommitted
     \<and> c \<in> set (sdb_charges (sg_store shop_paid)) \<and> scr_ReservationID c = rsv_ReservationID r \<and> succeeded_charge c"
proof -
  obtain r where r: "rdb_reservations (sg_res shop_paid) = [r]" "rsv_ChargeProtocol r = consumerChargeProtocol"
    "charge_row_intent r = serviceResourceIntent shop_codec sample_digests shop_intent" "rsv_State r = ReservationCommitted"
    by (rule shop_paid_rows)
  from settled_service_charge_outcome [OF shop_paid_run [unfolded shop0_def], of r] r show ?thesis
    by (auto simp: serviceResourceIntent_def serviceChargeIdentity_def)
qed



text \<open>
  C19: the version of a store identifies its record. Across any run a store is never lost, its
  version never goes down, and while it shows the same version it is the same record: a caller
  who saw version \<open>v\<close> and finds version \<open>v\<close> again has lost no change of anyone else. And no two
  succeeded service operations of one store produced the same version.
\<close>

theorem store_version_identifies:
  assumes reach: "saga_reachable cd dg now seeds owner s" and run: "reachable (saga_step cd dg) s s'"
    and x: "x \<in> set (sdb_stores (sg_store s))"
  shows "\<exists>x'\<in>set (sdb_stores (sg_store s')). store_id x' = store_id x \<and> wsr_Version x \<le> wsr_Version x'
      \<and> (wsr_Version x' = wsr_Version x \<longrightarrow> x' = x)
      \<and> (\<forall>y\<in>set (sdb_stores (sg_store s')). store_id y = store_id x \<longrightarrow> y = x')
      \<and> (\<forall>c\<in>set (sdb_charges (sg_store s')). \<forall>d\<in>set (sdb_charges (sg_store s')). succeeded_charge c \<longrightarrow> succeeded_charge d \<longrightarrow>
           charge_store c = store_id x \<longrightarrow> charge_store d = store_id x \<longrightarrow> charge_version c = charge_version d \<longrightarrow> c = d)"
proof -
  have inv: "saga_inv cd dg s" by (rule saga_reachable_inv [OF reach])
  then have inv': "store_inv (sg_store s')" using reach_inv [OF run] by (simp add: saga_inv_def)
  note I = store_invD [OF inv']
  have "rows_kept store_kept (sdb_stores (sg_store s)) (sdb_stores (sg_store s'))"
    using saga_run_rel [OF run] inv by (simp add: saga_rel_def)
  then obtain x' where x': "x' \<in> set (sdb_stores (sg_store s'))" "store_kept x x'" using x by (auto simp: rows_kept_def)
  have only: "y = x'" if "y \<in> set (sdb_stores (sg_store s'))" "store_id y = store_id x" for y
    using unique_row [OF I(1) x'(1) that(1)] that(2) x'(2) by (simp add: store_kept_def store_id_def)
  have once: "c = d" if "c \<in> set (sdb_charges (sg_store s'))" "d \<in> set (sdb_charges (sg_store s'))" "succeeded_charge c"
    "succeeded_charge d" "charge_store c = store_id x" "charge_store d = store_id x" "charge_version c = charge_version d" for c d
    by (rule I(6)) (use that in simp_all)
  have kept: "store_id x' = store_id x" "wsr_Version x \<le> wsr_Version x'" "wsr_Version x' = wsr_Version x \<Longrightarrow> x' = x"
    using x'(2) by (auto simp: store_kept_def)
  show ?thesis
    by (intro bexI [OF _ x'(1)] conjI ballI impI) (rule kept(1), rule kept(2), erule kept(3), erule (1) only, rule once)
qed

theorem store_version_identifies_witness:
  "\<exists>x. sdb_stores (sg_store shop_paid) = [x] \<and> store_id x = (''acme'', shop_id) \<and> 1 \<le> wsr_Version x"
proof -
  have "list_all (\<lambda>x. store_id x = (''acme'', shop_id) \<and> wsr_Version x = 1) (sdb_stores (sg_store (create_shop shop0)))
      \<and> sdb_stores (sg_store (create_shop shop0)) \<noteq> []"
    by code_simp
  moreover have "sg_store (create_shop (buy_periods shop0)) = sg_store (create_shop shop0)"
    by (simp add: create_shop_def buy_periods_def)
  ultimately obtain y where y: "y \<in> set (sdb_stores (sg_store (create_shop (buy_periods shop0))))"
    "store_id y = (''acme'', shop_id)" "wsr_Version y = 1" by (cases "sdb_stores (sg_store (create_shop shop0))") auto
  have run: "shop_run (create_shop (buy_periods shop0)) shop_paid"
    unfolding shop_paid_def by (rule activate_shop_run [OF shop_before_run(1) shop_others(1)])
  obtain x where "sdb_stores (sg_store shop_paid) = [x]" by (rule shop_paid_rows)
  with store_version_identifies [OF shop_before_run(1) [unfolded shop0_def], folded shop0_def, OF run y(1)] y(2,3)
  show ?thesis by auto
qed

section \<open>The coordinator\<close>

text \<open>
  C35: the coordinator keeps the two owners together. Whatever other callers do between its calls
  and whatever faults its calls meet, a run of \<open>ExecuteServiceLifecycle\<close> is a sequence of calls of
  the store and of the ledger; and when it answers success, the operation that was asked for (same
  organization, operation, store, command, quantity and store version) has succeeded in the store,
  the answer is its recorded snapshot, and the ledger has consumed its reservation for that intent.
\<close>

theorem execute_success_is_paid:
  assumes reach: "saga_reachable cd dg now seeds owner s"
    and wiring: "others_run cd dg w" "port_ok dg lp"
    and run: "ExecuteServiceLifecycle cd lp w e s = (s', out)"
  shows "saga_reachable cd dg now seeds owner s'
    \<and> (\<forall>z. out = Inr z \<longrightarrow> (\<exists>i. sex_OrganizationID (sci_Execution i) = sex_OrganizationID e
         \<and> sex_OperationID (sci_Execution i) = sex_OperationID e \<and> sex_StoreID (sci_Execution i) = sex_StoreID e
         \<and> sex_Command (sci_Execution i) = sex_Command e \<and> sex_Quantity (sci_Execution i) = sex_Quantity e
         \<and> sex_ExpectedStoreVersion (sci_Execution i) = sex_ExpectedStoreVersion e \<and> paid_for cd dg i s' z))"
  using Execute_run [OF wiring saga_reachable_inv [OF reach] run] reachable_trans [OF _ reach] by blast

theorem execute_success_is_paid_witness:
  "\<exists>i z. snd (activate_shop alone (create_shop (buy_periods shop0))) = Inr z
     \<and> sex_OperationID (sci_Execution i) = shop_oper \<and> sex_Quantity (sci_Execution i) = 1
     \<and> paid_for shop_codec sample_digests i shop_paid z"
proof -
  obtain z where "snd (activate_shop alone (create_shop (buy_periods shop0))) = Inr z"
    using shop_seen_paid unfolding seen_paid_def
    by (cases "activate_shop alone (create_shop (buy_periods shop0))") (auto split: sum.splits)
  then have out: "activate_shop alone (create_shop (buy_periods shop0)) = (shop_paid, Inr z)"
    unfolding shop_paid_def by (metis prod.collapse)
  from execute_success_is_paid [OF shop_before_run(1) [unfolded shop0_def], folded shop0_def, OF shop_others(1) shop_port_ok out [unfolded activate_shop_def]]
  obtain i where "sex_OperationID (sci_Execution i) = sex_OperationID shop_activation"
    "sex_Quantity (sci_Execution i) = sex_Quantity shop_activation" "paid_for shop_codec sample_digests i shop_paid z" by blast
  with out show ?thesis by (intro exI [of _ i] exI [of _ z]) (simp add: shop_activation_def)
qed

text \<open>
  C32: a reservation can be lost. When an attempt of an operation finds no quota and fences the
  operation without a reservation, while another attempt of the same operation has reserved one,
  the operation has ended without the reservation and the store gives no proof for it: whatever
  calls follow, the reservation stays open, neither consumed nor released. Such a state is
  reachable (the instance is the second run, in which a purchase comes between the two attempts).
\<close>

theorem fenced_without_reservation_stays_open:
  assumes reach: "saga_reachable cd dg now seeds owner s"
    and c: "c \<in> set (sdb_charges (sg_store s))" "scr_IntentJSON c = Bytes i" "scr_State c = ''failed_fenced''"
      "scr_ReservationID c = []"
    and r: "r \<in> set (rdb_reservations (sg_res s))" "rsv_ChargeProtocol r = consumerChargeProtocol"
      "charge_row_intent r = serviceResourceIntent cd dg i"
    and run: "reachable (saga_step cd dg) s s'"
  shows "\<exists>r'\<in>set (rdb_reservations (sg_res s')). same_charge r r' \<and> rsv_State r' = ReservationReserved"
proof -
  have inv: "saga_inv cd dg s" by (rule saga_reachable_inv [OF reach])
  have inv': "saga_inv cd dg s'" by (rule reach_inv [OF run inv])
  note I = store_invD [OF inv' [unfolded saga_inv_def, THEN conjunct1]]
  have "rows_kept charge_kept (sdb_charges (sg_store s)) (sdb_charges (sg_store s'))"
    "rows_kept same_charge (rdb_reservations (sg_res s)) (rdb_reservations (sg_res s'))"
    using saga_run_rel [OF run] inv by (simp_all add: saga_rel_def)
  then obtain r' where c': "c \<in> set (sdb_charges (sg_store s'))" and r': "r' \<in> set (rdb_reservations (sg_res s'))" "same_charge r r'"
    using c(1,3) r(1) by (force simp: rows_kept_def charge_kept_def terminal_state_def)
  have q: "rsv_ChargeProtocol r' = consumerChargeProtocol" "charge_row_intent r' = serviceResourceIntent cd dg i"
    using r'(2) r(2,3) by (simp_all add: same_charge_def)
  have "rsv_State r' = ReservationReserved"
  proof (rule ccontr)
    assume "rsv_State r' \<noteq> ReservationReserved"
    then obtain d j where d: "d \<in> set (sdb_charges (sg_store s'))" "scr_IntentJSON d = Bytes j"
      "serviceResourceIntent cd dg j = serviceResourceIntent cd dg i" "scr_ReservationID d \<noteq> []"
      using settled_outcome [OF inv' r'(1) q(1)] q(2) by (auto simp: serviceResourceIntent_def serviceChargeIdentity_def)
    have "charge_key d = charge_key c"
      using charge_okD(5) [OF I(4) [OF d(1)] d(2)] charge_okD(5) [OF I(4) [OF c'] c(2)] d(3)
      by (simp add: intent_ok_def serviceResourceIntent_def serviceChargeIdentity_def)
    then have "d = c" using unique_row [OF I(2) c' d(1)] by simp
    with d(4) c(4) show False by simp
  qed
  with r' show ?thesis by blast
qed

theorem fenced_without_reservation_stays_open_witness:
  "\<exists>r r'. rdb_reservations (sg_res shop_raced) = [r]
     \<and> r' \<in> set (rdb_reservations (sg_res (fst (charges_Reconcile shop_codec shop_port NoFault (shop_exec 9 shop_settled) shop_intent shop_raced))))
     \<and> same_charge r r' \<and> rsv_State r' = ReservationReserved"
proof -
  obtain c r where R: "sdb_charges (sg_store shop_raced) = [c]" "scr_IntentJSON c = Bytes shop_intent"
    "scr_State c = ''failed_fenced''" "scr_ReservationID c = []"
    "rdb_reservations (sg_res shop_raced) = [r]" "rsv_ChargeProtocol r = consumerChargeProtocol"
    "charge_row_intent r = serviceResourceIntent shop_codec sample_digests shop_intent"
    by (rule shop_raced_rows)
  have "shop_run shop_raced (fst (charges_Reconcile shop_codec shop_port NoFault (shop_exec 9 shop_settled) shop_intent shop_raced))"
    by (rule reach_one, rule charges_step(2) [OF shop_port_ok])
  from fenced_without_reservation_stays_open [OF shop_raced_run [unfolded shop0_def], folded shop0_def, of c shop_intent r, OF _ R(2-4) _ R(6,7) this]
  show ?thesis using R(1,5) by auto
qed

section \<open>Records\<close>







section \<open>Periods\<close>

text \<open>
  C23: a service operation gives exactly the time it costs. For a valid intent the new period ends
  30 days per unit after the later of the present and the end of the running period: a renewal
  extends a period that has not ended and keeps its beginning, an activation or a reactivation
  begins now. The 64-bit product does not wrap, and the new state is a valid active one.
\<close>

theorem service_period_exact:
  assumes i: "validServiceIntent i" and now: "0 < at"
    and run: "serviceChargeTarget st (sci_Execution i) connection at = Inr st'"
  shows "\<exists>base. sss_ExpiresAt st' = Some (base + 30 * day_ns * sex_Quantity (sci_Execution i))
    \<and> (if sex_Command (sci_Execution i) = ServiceCommandRenew
       then sss_ExpiresAt st = Some base \<and> at < base \<and> sss_StartedAt st' = sss_StartedAt st
       else base = at \<and> sss_StartedAt st' = Some at)
    \<and> sss_ServiceStatus st' = ServiceStatusActive \<and> ValidateStoreServiceState st' = None"
proof -
  let ?e = "sci_Execution i"
  have q: "1 \<le> sex_Quantity ?e" "sex_Quantity ?e \<le> 12" by (rule valid_intent_quantity [OF i])+
  then have exact: "mul64 (sex_Quantity ?e) defaultStoreServicePeriod = 30 * day_ns * sex_Quantity ?e"
    by (simp add: mul64_def wrap64_def max64_def min64_def)
  have one: "sex_Quantity ?e = 1" if "sex_Command ?e = ServiceCommandActivate"
    using i that by (simp add: validServiceIntent_def Let_def valid_command_quantity_def validateServiceQuantity_def split: if_splits)
  consider (activate) "sex_Command ?e = ServiceCommandActivate" "ActivateStoreService st connection at = Inr st'"
    | (renew) "sex_Command ?e = ServiceCommandRenew" "RenewStoreService st (sex_Quantity ?e) (sex_MaxQuantity ?e) at = Inr st'"
    | (reactivate) "sex_Command ?e = ServiceCommandReactivate" "ReactivateStoreService st (sex_Quantity ?e) (sex_MaxQuantity ?e) at = Inr st'"
    using run by (auto simp: serviceChargeTarget_def split: if_splits)
  then show ?thesis
  proof cases
    case activate
    then have "st' = active_period at (at + defaultStoreServicePeriod)"
      by (auto simp: ActivateStoreService_def split: if_splits)
    then show ?thesis using activate(1) one now
      by (simp add: active_period_def ValidateStoreServiceState_def validServicePeriod_def IsZero_def)
  next
    case renew
    then obtain x where x: "sss_ExpiresAt st = Some x" "at < x" "ValidateStoreServiceState st = None"
      "sss_RecordStatus st = RecordStatusActive" "sss_ServiceStatus st = ServiceStatusActive"
      "st' = st\<lparr>sss_ServiceStatus := ServiceStatusActive, sss_ExpiresAt := Some (x + 30 * day_ns * sex_Quantity ?e)\<rparr>"
      by (auto simp: RenewStoreService_def effectiveServiceStatus_def Let_def exact split: if_splits option.splits)
    have "validServicePeriod (sss_StartedAt st) (Some x)" using x(1,3,4,5) by (simp add: ValidateStoreServiceState_def split: if_splits)
    then obtain b where "sss_StartedAt st = Some b" "\<not> IsZero b" "b < x" by (auto simp: validServicePeriod_def split: option.splits)
    moreover have "0 < x + 30 * day_ns * sex_Quantity ?e" "x < x + 30 * day_ns * sex_Quantity ?e"
      using x(2) now q by auto
    ultimately show ?thesis using renew(1) x
      by (simp add: ValidateStoreServiceState_def validServicePeriod_def IsZero_def)
  next
    case reactivate
    then have "st' = active_period at (at + 30 * day_ns * sex_Quantity ?e)"
      by (auto simp: ReactivateStoreService_def exact split: if_splits)
    moreover have "0 < 30 * day_ns * sex_Quantity ?e" using q by (simp add:)
    ultimately show ?thesis using reactivate(1) now
      by (simp add: active_period_def ValidateStoreServiceState_def validServicePeriod_def IsZero_def)
  qed
qed

theorem service_period_exact_witness:
  "\<exists>st'. serviceChargeTarget (serviceState shop_new) (sci_Execution shop_intent) ConnectionStatusConnected 3000 = Inr st'
     \<and> sss_ExpiresAt st' = Some (3000 + 30 * day_ns * 1)"
proof -
  have v: "validServiceIntent shop_intent" by code_simp
  have "serviceChargeTarget (serviceState shop_new) (sci_Execution shop_intent) ConnectionStatusConnected 3000
      = Inr (active_period 3000 shop_expiry)" by code_simp
  from service_period_exact [OF v _ this] this show ?thesis
    by (simp add: shop_intent_def shop_activation_def)
qed

end
