(* ===== verification/Spec2Isabelle.thy ===== *)
theory Spec2Isabelle
  imports TopUp_Properties Service_Amounts Res_Charge_Properties Store_Properties
begin

text \<open>
  \<^bold>\<open>The money and resource ledgers and the Store Center of the Shuomi AI Commerce platform.\<close>

  The repository is a commerce back end in Go. Its core is the owner of money: the exported
  contract in \<open>src/internal/ledger/money\<close> (facts, inputs, validators, fingerprints) and its
  implementation over a relational database in \<open>src/internal/integration/persistence/money\<close>
  (the type \<open>Repository\<close>). Organizations hold prepaid wallets. A wallet is filled by top-ups
  settled on a payment channel, spent by reserving and then committing or releasing funds for a
  commercial order, and reduced by refunds and chargebacks of the top-ups; what a wallet cannot
  cover becomes debt. Purchases of third-party services are paid on the channel directly and are
  split between the platform and the provider, with refunds that return part of the commission.

  What an organization buys is kept by a second owner, the resource ledger: the contract in
  \<open>src/internal/ledger/orgresource\<close> (commands, services, validators) and its repositories in
  \<open>src/internal/integration/orgresource\<close>. Renewal periods, AI points and data rows are minted by
  welcome, purchased and trial grants (each source once), reserved for a registered owner and
  settled with its proof, given to members and taken back, and charged by consumers from the
  organization's or a member's units. Each credit first repays the organization's debt. The two
  owners share no table; commercial billing calls both.

  The Store Center (\<open>src/internal/storecenter\<close>) owns the stores of an organization and their paid
  service. A service operation (activate, renew, reactivate) costs renewal periods. Its coordinator
  (\<open>src/internal/app/storecenter/service_charges.go\<close>) admits the operation in the store, reserves
  the periods in the resource ledger, binds the reservation to the operation, applies the effect
  or fences the operation off, and settles the charge with the proof that the store gives. Every
  step is a transaction of one owner; no transaction spans the two.

  \<^bold>\<open>Modelling.\<close> A row struct is a \<open>record\<close>, a table a list of rows in insertion order (the
  wallet table a partial map), the database the record \<open>money_db\<close> (theory \<open>Money_DB\<close>). An
  \<open>int64\<close> is an \<open>int\<close> with the wrap-around of every operation written out (\<open>add64\<close>, \<open>sub64\<close>,
  \<open>mul64\<close>, \<open>quo64\<close> in \<open>Prelude\<close>); the inputs of a method are assumed to be in range, which is
  what the Go type says. Times are nanoseconds; the database keeps microseconds. A method with a
  transaction is a body \<open>...Tx\<close> from the state before to an error or to an answer and the state
  after, run by \<open>run_tx\<close> under a fault: a failed statement rolls back, a lost commit may or may
  not have happened, a nil handle is refused. Unique keys are the \<open>clash\<close> predicates;
  \<open>ON CONFLICT DO NOTHING\<close> is \<open>create_or_ignore\<close>; the clock and the fresh identifiers of one
  call are its \<open>call_env\<close>. SHA-256 over a JSON document is a parameter (\<open>sha\<close>, \<open>ssha\<close>), and no
  property assumes that it has no collisions. The row locks of the code make the transactions on
  one wallet follow each other, so a run is a sequence of transactions.

  The resource ledger is modelled the same way over its own tables, the record \<open>res_db\<close> (theory
  \<open>Res_DB\<close>; its transactions are serializable). Its runner repeats a transaction: one try is an
  \<open>attempt\<close> (what the contexts, the clock, the random source and the database do), a call has one
  for each try, and \<open>run_body\<close> is the loop. Authorizers, owners of reservations and owners of
  charges are parameters of the services. JSON documents are the datatype \<open>json\<close>, and the record
  \<open>digests\<close> holds the digest of a document and of a text.

  The tables of the Store Center are the record \<open>store_db\<close>; hashes, name-based UUIDs and encoded
  texts are functions of a \<open>store_codec\<close>, the authorizer's answers are in the \<open>store_env\<close> of a call.
  A stored JSON text is the value it encodes (\<open>blob\<close>). The system of both owners is the pair \<open>saga\<close>;
  \<open>cal_others\<close> lets other callers act between any two calls of the coordinator. A call of the
  ledger sees one state of the store.

  \<^bold>\<open>The theories.\<close>
  \<^item> \<open>Prelude\<close>: integers, time, \<open>strings.TrimSpace\<close>, tables, transactions, reachability.
  \<^item> \<open>Money_Types\<close> (\<open>types.go\<close>, \<open>wallet.go\<close>), \<open>TopUp_Types\<close> (\<open>provider_topup.go\<close>),
    \<open>Service_Types\<close> (\<open>service_*.go\<close>): the exported facts and inputs, validators and fingerprints.
  \<^item> \<open>Money_DB\<close>: the row structs, the database, the unique keys.
  \<^item> \<open>Wallet_Core\<close>, \<open>Wallet_Repo\<close> (\<open>wallet_repository.go\<close>): locking and saving wallets, ledger
    entries, crediting, reversing, reserving, committing, releasing, the reads.
  \<^item> \<open>TopUp_Repo\<close> (\<open>provider_topup_repository.go\<close>): channel claims, acceptance and posting of
    top-ups, reversals with their receipts and excess records, the refund holds.
  \<^item> \<open>Settlement_Repo\<close> (\<open>repository.go\<close>): ordinary payments, refunds, chargebacks with their
    observers, payout methods.
  \<^item> \<open>Service_Repo\<close> (\<open>service_*.go\<close> of the persistence package): service payments, the operations
    on them (prepare, admit, abandon, fail, confirm), observations, admissions.
  \<^item> \<open>Contracts\<close>: what the owner promises, independent of the tables: the prepaid account
    machine, the locales of an audited ledger and of a transaction that can be repeated.
  \<^item> \<open>Posting\<close>, \<open>Wallet_Laws\<close>, \<open>TopUp_Laws\<close>, \<open>Service_Laws\<close>: the outcomes of each operation as
    case rules, and the tables each leaves alone.
  \<^item> \<open>Ledger\<close>: the invariant \<open>ledger_inv\<close> of the database and \<open>good_step\<close>, what one operation may
    do to it; every transaction is shown to be a good step.
  \<^item> \<open>Money_System\<close>: \<open>money_step\<close>, one rule per public method with an arbitrary fault, and the
    interpretations of the contracts on it.
  \<^item> \<open>Transactions\<close>, \<open>Frames\<close>: every method commits at most one transaction; invariants are
    proved per transaction and lifted to the reachable states.
  \<^item> \<open>Scenarios\<close>: a concrete run for the witnesses.
  \<^item> \<open>Ledger_Properties\<close> (C1 to C6), \<open>Wallet_Properties\<close> (C7, C8, C10, C11), \<open>TopUp_Properties\<close>
    (C12 to C15, C17), \<open>Service_Amounts\<close> (C18, C20, C22): the properties.

  \<^bold>\<open>The theories of the resource ledger.\<close>
  \<^item> \<open>Res_Types\<close> (\<open>service.go\<close>, \<open>purchase.go\<close>, \<open>trial_grant.go\<close>), \<open>Res_Commands\<close>
    (\<open>reservation.go\<close>, \<open>settlement.go\<close>, \<open>member_*.go\<close>, \<open>consumer_charge.go\<close>): commands, answers,
    validators, fingerprints, documents.
  \<^item> \<open>Res_DB\<close> (\<open>schema.go\<close>, \<open>debt.go\<close>): rows, keys, single statements, the repayment of debt.
  \<^item> \<open>Res_Runner\<close> (\<open>transaction.go\<close>): retries, their classification and back-off.
  \<^item> \<open>Res_Grants\<close> (\<open>gorm_repository.go\<close>, \<open>purchase_repository.go\<close>, \<open>trial_grant_repository.go\<close>),
    \<open>Res_Reserve\<close> (\<open>reservation_repository.go\<close>, \<open>settlement_repository.go\<close>), \<open>Res_Members\<close>
    (\<open>member_allocation_repository.go\<close>, \<open>member_limit_repository.go\<close>, \<open>balance_read.go\<close>),
    \<open>Res_Charge\<close> (\<open>consumer_charge_repository.go\<close> and the charge service): the operations.
  \<^item> \<open>Res_Laws\<close>, \<open>Res_Effects\<close>, \<open>Res_Member_Effects\<close>, \<open>Res_Charge_Effects\<close>, \<open>Res_Journal\<close>: the
    invariants of buckets, debts, reservations, positions and journal, and the outcomes of each
    transaction as case rules.
  \<^item> \<open>Res_Invariant\<close>, \<open>Res_System\<close>: the invariant \<open>res_inv\<close> as a whole, the relation \<open>res_rel\<close> of
    a call, the step relation \<open>res_step\<close> with one rule per public method, the locale
    \<open>ledger_relation\<close> of the relations that every transaction respects, the interpretations.
  \<^item> \<open>Res_Scenarios\<close>: a concrete run for the witnesses.
  \<^item> \<open>Res_Ledger_Properties\<close> (C24 to C30), \<open>Res_Calendar\<close> (C31, C33, C34), \<open>Res_Call_Properties\<close>
    (C36, C37), \<open>Res_Charge_Properties\<close> (C38 to C40): the properties.

  \<^bold>\<open>The theories of the Store Center.\<close>
  \<^item> \<open>Store_Types\<close> (\<open>store.go\<close>, \<open>service_state.go\<close>, \<open>service_lifecycle.go\<close>, \<open>service_execution.go\<close>):
    the Store aggregate, the service states and their paid transitions.
  \<^item> \<open>Store_DB\<close> (\<open>gorm_repository.go\<close>, \<open>audit.go\<close>), \<open>Store_Members\<close> (\<open>member_access.go\<close>,
    \<open>native_delete.go\<close>), \<open>Store_Charges\<close> (\<open>service_charge.go\<close>): rows, repositories, grants, the
    store's side of a paid operation.
  \<^item> \<open>Store_Executor\<close> (\<open>service_charges.go\<close> of the application): the coordinator, and the store as
    the owner of its charges.
  \<^item> \<open>Store_Laws\<close>: the invariant \<open>store_inv\<close> and what a transaction may do (\<open>store_rel\<close>).
    \<open>Res_Charge_Frames\<close>: what the calls of the ledger may do to charges, an interpretation of the
    locale \<open>ledger_relation\<close> of \<open>Res_System\<close>.
  \<^item> \<open>Store_Saga\<close>: the step relation \<open>saga_step\<close> of both owners and their joint invariant;
    \<open>Store_Runs\<close>: every run of the coordinator is a sequence of steps.
  \<^item> \<open>Store_Scenarios\<close>: two concrete runs; \<open>Store_Properties\<close> (C9, C16, C19, C21, C23, C32, C35):
    the properties.

  \<^bold>\<open>What is shown.\<close> In every state reachable through the public methods under every fault, each
  wallet satisfies its balance equation and refines the prepaid account machine, its entries are a
  chain of running balances in strictly increasing time that explains every balance, and reserved,
  topped-up and spent amounts are explained by the rows that caused them. Reservations are made,
  answered and finished at most once and finally; an open reservation can always be finished. No
  top-up is reversed beyond its amount, no channel payment is used twice, reversal receipts are
  final, and a refund hold that was dispatched is released only with proof. The commission split
  and the voucher loops are exact. One property shows a defect: a reservation whose identifiers
  are not canonical is accepted and can never be repeated (C11).

  In every state that the resource services can reach, under every fault and retry, the events
  explain each balance, resources are conserved up to what grants minted and debts took, reserved
  units are the open reservations, allocated units are what members hold, a source mints once, and
  settled reservations are final. The retry loop is bounded; exhausted retries change nothing.
  A charge takes effect at most once and can always be settled, a transfer is a compare-and-swap,
  and reading balances answers exactly what is held. The initial state has no resources but may
  have any debts; no method of the modelled services creates debt.

  In every state that the two owners of a service operation can reach, a settled charge has the
  outcome that the store recorded, the period a store shows was paid by a reservation that is held
  or consumed, and a success answer of the coordinator means both. The version of a store
  identifies its record, a saved aggregate is read back, and a paid period is exact. One property
  shows a defect: an operation that is fenced for lack of quota while another attempt of it
  reserves leaves that reservation open for ever (C32).

  \<^bold>\<open>Termination and fuel.\<close> Every loop of the code ranges over a finite slice and is structural
  recursion or a fold; the retry loop is a \<open>function\<close> whose measure is the number of attempts left.
  There is no fuel.

  \<^bold>\<open>Not modelled.\<close> The cursor listing \<open>ListOrganizationWalletEntries\<close>; schema creation,
  migrations and permissions (SQL text); cancellation of contexts in the money ledger. Of the
  resource ledger: AI-point charges of images and model invocations, which rest on facts of other
  owners; the transactional executor \<open>store_service_executor.go\<close>, to which nothing is wired; the cursor listings of positions, events and
  audits, which change nothing; the timeouts that are sent to PostgreSQL. Of the Store Center: the
  public request services above the repository, marketplace connections and logins, catalogue and
  metadata, and the check constraints of its tables (a refusal is a statement fault). The other owners of the
  repository are listed in the manifest.
\<close>

end
